(* ===== verification/Prelude.thy ===== *)
theory Prelude
  imports Main "HOL-Library.List_Lexorder" "HOL-Library.Char_ord" "HOL-Library.Product_Lexorder"
    "HOL-Library.Multiset"
begin

text \<open>
  The shared vocabulary of the development.  Operations that may throw return a sum
  (\<open>Inl\<close> is the exception, \<open>Inr\<close> the value); \<open>bind_ok\<close> sequences two such
  operations and \<open>require\<close> is the guard \<open>if (!P) throw e\<close>.  SQL tables are lists of
  row records in insertion order: \<open>find\<close> is a \<open>SELECT ... WHERE key = ?\<close> on a key,
  \<open>update_where\<close> an \<open>UPDATE ... WHERE\<close>, and \<open>sort_by\<close> an \<open>ORDER BY\<close> (a stable
  insertion sort, which is also what \<open>Array.prototype.sort\<close> guarantees).  The collections
  \<open>store_simps\<close> and \<open>store_defs\<close> gather the rewrite rules the store theories share.
\<close>

named_theorems store_simps \<open>rewrite rules for tables and guarded results\<close>
named_theorems store_defs \<open>definitions of store operations, unfolded in preservation proofs\<close>

subsection \<open>Results that may be exceptions\<close>

type_synonym ('e, 'a) result = "'e + 'a"

definition bind_ok :: "'e + 'a \<Rightarrow> ('a \<Rightarrow> 'e + 'b) \<Rightarrow> 'e + 'b" where
  "bind_ok m f = (case m of Inl e \<Rightarrow> Inl e | Inr x \<Rightarrow> f x)"

definition require :: "bool \<Rightarrow> 'e \<Rightarrow> 'e + unit" where
  "require P e = (if P then Inr () else Inl e)"

definition the_or :: "'e \<Rightarrow> 'a option \<Rightarrow> 'e + 'a" where
  "the_or e v = (case v of None \<Rightarrow> Inl e | Some x \<Rightarrow> Inr x)"

definition is_ok :: "'e + 'a \<Rightarrow> bool" where
  "is_ok m = (case m of Inl _ \<Rightarrow> False | Inr _ \<Rightarrow> True)"

lemma bind_ok_simps [simp]:
  "bind_ok (Inl e) f = Inl e" "bind_ok (Inr x) f = f x"
  by (simp_all add: bind_ok_def)

lemma bind_ok_Inr [store_simps]:
  "bind_ok m f = Inr y \<longleftrightarrow> (\<exists>x. m = Inr x \<and> f x = Inr y)"
  by (cases m) simp_all

lemma bind_ok_Inl:
  "bind_ok m f = Inl e \<longleftrightarrow> m = Inl e \<or> (\<exists>x. m = Inr x \<and> f x = Inl e)"
  by (cases m) simp_all

lemma bind_ok_split:
  "P (bind_ok m f) \<longleftrightarrow>
     (\<forall>e. m = Inl e \<longrightarrow> P (Inl e)) \<and> (\<forall>x. m = Inr x \<longrightarrow> P (f x))"
  by (cases m) simp_all

lemma require_simps [simp]:
  "require True e = Inr ()" "require False e = Inl e"
  by (simp_all add: require_def)

lemma require_Inr [store_simps]: "require P e = Inr u \<longleftrightarrow> P"
  by (simp add: require_def)

lemma require_Inl: "require P e = Inl e' \<longleftrightarrow> \<not> P \<and> e' = e"
  by (auto simp: require_def)

lemma the_or_simps [simp]: "the_or e None = Inl e" "the_or e (Some x) = Inr x"
  by (simp_all add: the_or_def)

lemma the_or_Inr [store_simps]: "the_or e v = Inr x \<longleftrightarrow> v = Some x"
  by (cases v) simp_all

lemma is_ok_simps [simp]: "is_ok (Inr x) = True" "is_ok (Inl e) = False"
  by (simp_all add: is_ok_def)

lemma is_ok_iff: "is_ok m \<longleftrightarrow> (\<exists>x. m = Inr x)"
  by (cases m) simp_all

subsection \<open>Tables\<close>

definition update_where :: "('r \<Rightarrow> bool) \<Rightarrow> ('r \<Rightarrow> 'r) \<Rightarrow> 'r list \<Rightarrow> 'r list" where
  "update_where P f rows = map (\<lambda>r. if P r then f r else r) rows"

lemma update_where_simps [simp]:
  "update_where P f [] = []"
  "update_where P f (r # rs) = (if P r then f r else r) # update_where P f rs"
  by (simp_all add: update_where_def)

lemma length_update_where [simp]: "length (update_where P f rows) = length rows"
  by (simp add: update_where_def)

lemma set_update_where:
  "set (update_where P f rows) = {f r | r. r \<in> set rows \<and> P r} \<union> {r \<in> set rows. \<not> P r}"
  by (auto simp: update_where_def)

lemma in_update_whereE [elim]:
  assumes "r' \<in> set (update_where P f rows)"
  obtains r where "r \<in> set rows" "P r" "r' = f r" | "r' \<in> set rows" "\<not> P r'"
  using assms by (auto simp: set_update_where)

lemma map_update_where_same:
  "(\<And>r. P r \<Longrightarrow> k (f r) = k r) \<Longrightarrow> map k (update_where P f rows) = map k rows"
  by (simp add: update_where_def)

lemma find_eq_SomeD: "find P xs = Some x \<Longrightarrow> x \<in> set xs \<and> P x"
  by (induction xs) (auto split: if_splits)

lemma find_is_None: "find P xs = None \<longleftrightarrow> (\<forall>x \<in> set xs. \<not> P x)"
  by (induction xs) auto

lemma find_ext: "(\<And>x. x \<in> set xs \<Longrightarrow> P x = Q x) \<Longrightarrow> find P xs = find Q xs"
  by (induction xs) auto

lemma find_append: "find P (xs @ ys) = (case find P xs of None \<Rightarrow> find P ys | Some x \<Rightarrow> Some x)"
  by (induction xs) auto

lemma find_key_unique:
  "distinct (map k xs) \<Longrightarrow> x \<in> set xs \<Longrightarrow> find (\<lambda>r. k r = k x) xs = Some x"
  by (induction xs) (auto simp: rev_image_eqI)

lemma distinct_key_eq:
  "distinct (map k xs) \<Longrightarrow> x \<in> set xs \<Longrightarrow> y \<in> set xs \<Longrightarrow> k x = k y \<Longrightarrow> x = y"
  by (induction xs) (auto simp: rev_image_eqI)

text \<open>Looking a row up after an update that keeps the key column.\<close>

lemma find_update_where_key:
  assumes "\<And>r. Q r \<Longrightarrow> k (f r) = k r"
  shows "find (\<lambda>r. k r = a) (update_where Q f rows) =
    map_option (\<lambda>r. if Q r then f r else r) (find (\<lambda>r. k r = a) rows)"
  using assms by (induction rows) auto

lemma find_update_where_other:
  assumes "\<And>r. k r = a \<Longrightarrow> \<not> Q r" and "\<And>r. Q r \<Longrightarrow> k (f r) = k r"
  shows "find (\<lambda>r. k r = a) (update_where Q f rows) = find (\<lambda>r. k r = a) rows"
  using assms by (induction rows) auto

subsection \<open>Stable sorting with a comparator\<close>

text \<open>
  \<open>sort_by cmp\<close> is the stable insertion sort with a JavaScript comparator (a negative result
  puts the left element first, zero keeps the order of the input).
\<close>

fun insert_by :: "('a \<Rightarrow> 'a \<Rightarrow> int) \<Rightarrow> 'a \<Rightarrow> 'a list \<Rightarrow> 'a list" where
  "insert_by cmp x [] = [x]"
| "insert_by cmp x (y # ys) = (if cmp x y \<le> 0 then x # y # ys else y # insert_by cmp x ys)"

fun sort_by :: "('a \<Rightarrow> 'a \<Rightarrow> int) \<Rightarrow> 'a list \<Rightarrow> 'a list" where
  "sort_by cmp [] = []"
| "sort_by cmp (x # xs) = insert_by cmp x (sort_by cmp xs)"

lemma set_insert_by [simp]: "set (insert_by cmp x xs) = insert x (set xs)"
  by (induction xs) auto

lemma set_sort_by [simp]: "set (sort_by cmp xs) = set xs"
  by (induction xs) auto

lemma length_insert_by [simp]: "length (insert_by cmp x xs) = Suc (length xs)"
  by (induction xs) auto

lemma length_sort_by [simp]: "length (sort_by cmp xs) = length xs"
  by (induction xs) auto

lemma sort_by_eq_Nil [simp]: "sort_by cmp xs = [] \<longleftrightarrow> xs = []"
  by (metis length_0_conv length_sort_by)

text \<open>A comparator is consistent when it is a total preorder read through the sign.\<close>

definition consistent_cmp :: "('a \<Rightarrow> 'a \<Rightarrow> int) \<Rightarrow> bool" where
  "consistent_cmp cmp \<longleftrightarrow>
     (\<forall>x y. (cmp x y \<le> 0) = (0 \<le> cmp y x)) \<and>
     (\<forall>x y z. cmp x y \<le> 0 \<longrightarrow> cmp y z \<le> 0 \<longrightarrow> cmp x z \<le> 0)"

lemma consistent_cmp_total: "consistent_cmp cmp \<Longrightarrow> cmp x y \<le> 0 \<or> cmp y x \<le> 0"
  unfolding consistent_cmp_def by (metis linear)

lemma consistent_cmp_trans:
  "consistent_cmp cmp \<Longrightarrow> cmp x y \<le> 0 \<Longrightarrow> cmp y z \<le> 0 \<Longrightarrow> cmp x z \<le> 0"
  unfolding consistent_cmp_def by blast

lemma sorted_insert_by:
  assumes "consistent_cmp cmp"
  shows "sorted_wrt (\<lambda>a b. cmp a b \<le> 0) xs \<Longrightarrow>
    sorted_wrt (\<lambda>a b. cmp a b \<le> 0) (insert_by cmp x xs)"
proof (induction xs)
  case Nil
  then show ?case by simp
next
  case (Cons y ys)
  then show ?case
    using consistent_cmp_total [OF assms, of x y] consistent_cmp_trans [OF assms]
    by (auto intro: consistent_cmp_trans [OF assms, of x y])
qed

lemma sorted_sort_by:
  "consistent_cmp cmp \<Longrightarrow> sorted_wrt (\<lambda>a b. cmp a b \<le> 0) (sort_by cmp xs)"
  by (induction xs) (auto intro: sorted_insert_by)

lemma hd_sort_by_least:
  assumes "consistent_cmp cmp" and "x \<in> set xs"
  shows "cmp (hd (sort_by cmp xs)) x \<le> 0"
proof -
  have "x \<in> set (sort_by cmp xs)" using assms(2) by simp
  moreover have "sorted_wrt (\<lambda>a b. cmp a b \<le> 0) (sort_by cmp xs)"
    by (rule sorted_sort_by [OF assms(1)])
  ultimately show ?thesis
    using consistent_cmp_total [OF assms(1), of x x]
    by (cases "sort_by cmp xs") auto
qed

lemma insert_by_filter:
  assumes "consistent_cmp cmp"
  shows "sorted_wrt (\<lambda>a b. cmp a b \<le> 0) ys \<Longrightarrow>
    filter Q (insert_by cmp x ys) = (if Q x then insert_by cmp x (filter Q ys) else filter Q ys)"
proof (induction ys)
  case (Cons y ys)
  show ?case
  proof (cases "cmp x y \<le> 0")
    case True
    then have "\<forall>z \<in> set (filter Q ys). cmp x z \<le> 0"
      using Cons.prems consistent_cmp_trans [OF assms] by (auto intro: consistent_cmp_trans [OF assms, of x y])
    then have "insert_by cmp x (filter Q ys) = x # filter Q ys" by (cases "filter Q ys") auto
    then show ?thesis using True by simp
  next
    case False
    then show ?thesis using Cons by simp
  qed
qed simp

text \<open>Sorting and selecting commute.\<close>

lemma sort_by_filter: "consistent_cmp cmp \<Longrightarrow> sort_by cmp (filter Q xs) = filter Q (sort_by cmp xs)"
  by (induction xs) (simp_all add: insert_by_filter sorted_sort_by)

text \<open>Sorting looks only at the sign of the comparator on the elements that are there.\<close>

lemma insert_by_cong:
  "(\<And>y. y \<in> set xs \<Longrightarrow> f x y = g x y) \<Longrightarrow> insert_by f x xs = insert_by g x xs"
  by (induction xs) auto

lemma sort_by_cong:
  "(\<And>x y. x \<in> set xs \<Longrightarrow> y \<in> set xs \<Longrightarrow> f x y = g x y) \<Longrightarrow> sort_by f xs = sort_by g xs"
proof (induction xs)
  case (Cons a xs)
  then have "sort_by f xs = sort_by g xs" by simp
  moreover have "insert_by f a (sort_by g xs) = insert_by g a (sort_by g xs)"
    using Cons.prems by (intro insert_by_cong) simp
  ultimately show ?case by simp
qed simp

definition then_by :: "('a \<Rightarrow> 'a \<Rightarrow> int) \<Rightarrow> ('a \<Rightarrow> 'a \<Rightarrow> int) \<Rightarrow> 'a \<Rightarrow> 'a \<Rightarrow> int" where
  "then_by f g x y = (if f x y \<noteq> 0 then f x y else g x y)"

lemma consistent_flip:
  assumes "consistent_cmp f"
  shows "f x y < 0 \<longleftrightarrow> 0 < f y x" "f x y = 0 \<longleftrightarrow> f y x = 0"
proof -
  have "f x y \<le> 0 \<longleftrightarrow> 0 \<le> f y x" "f y x \<le> 0 \<longleftrightarrow> 0 \<le> f x y" using assms by (auto simp: consistent_cmp_def)
  then show "f x y < 0 \<longleftrightarrow> 0 < f y x" "f x y = 0 \<longleftrightarrow> f y x = 0" by linarith+
qed

lemma then_by_le: "then_by f g x y \<le> 0 \<longleftrightarrow> f x y < 0 \<or> f x y = 0 \<and> g x y \<le> 0"
  by (auto simp: then_by_def)

lemma consistent_then_by:
  assumes f: "consistent_cmp f" and g: "consistent_cmp g"
  shows "consistent_cmp (then_by f g)"
  unfolding consistent_cmp_def
proof (intro conjI allI impI)
  show "(then_by f g x y \<le> 0) = (0 \<le> then_by f g y x)" for x y
    using consistent_flip [OF f, of x y] consistent_flip [OF g, of x y] by (auto simp: then_by_def)
  show "then_by f g x z \<le> 0" if xy: "then_by f g x y \<le> 0" and yz: "then_by f g y z \<le> 0" for x y z
  proof -
    have "f x y \<le> 0" "f y z \<le> 0" using xy yz by (auto simp: then_by_le)
    then have xz: "f x z \<le> 0" by (rule consistent_cmp_trans [OF f])
    have "f y x \<le> 0 \<Longrightarrow> f y z \<le> 0" "f z y \<le> 0 \<Longrightarrow> f x y \<le> 0" using xy yz by (auto simp: then_by_le)
    show ?thesis
    proof (cases "f x z = 0")
      case True
      then have zx: "f z x \<le> 0" using consistent_flip(2) [OF f, of x z] by simp
      have "f y x \<le> 0" by (rule consistent_cmp_trans [OF f \<open>f y z \<le> 0\<close> zx])
      moreover have "f z y \<le> 0" by (rule consistent_cmp_trans [OF f zx \<open>f x y \<le> 0\<close>])
      ultimately have "f x y = 0" "f y z = 0"
        using \<open>f x y \<le> 0\<close> \<open>f y z \<le> 0\<close> consistent_flip(1) [OF f, of x y] consistent_flip(1) [OF f, of y z] by linarith+
      then have "g x y \<le> 0" "g y z \<le> 0" using xy yz by (auto simp: then_by_le)
      then have "g x z \<le> 0" by (rule consistent_cmp_trans [OF g])
      with True show ?thesis by (simp add: then_by_le)
    next
      case False
      with xz show ?thesis by (simp add: then_by_le)
    qed
  qed
qed

lemma consistent_on: "consistent_cmp f \<Longrightarrow> consistent_cmp (\<lambda>x y. f (k x) (k y))"
  unfolding consistent_cmp_def by blast

definition cmp_of_key :: "('a \<Rightarrow> 'b::linorder) \<Rightarrow> 'a \<Rightarrow> 'a \<Rightarrow> int" where
  "cmp_of_key k x y = (if k x < k y then -1 else if k x = k y then 0 else 1)"

lemma cmp_of_key_le [simp]: "cmp_of_key k x y \<le> 0 \<longleftrightarrow> k x \<le> k y"
  by (auto simp: cmp_of_key_def)

lemma consistent_cmp_of_key [simp]: "consistent_cmp (cmp_of_key k)"
  by (auto simp: consistent_cmp_def cmp_of_key_def)

text \<open>\<open>ORDER BY k\<close> on a linearly ordered key.\<close>

definition order_by :: "('a \<Rightarrow> 'b::linorder) \<Rightarrow> 'a list \<Rightarrow> 'a list" where
  "order_by k xs = sort_by (cmp_of_key k) xs"

lemma set_order_by [simp]: "set (order_by k xs) = set xs"
  by (simp add: order_by_def)

lemma sorted_order_by: "sorted (map k (order_by k xs))"
  using sorted_sort_by [OF consistent_cmp_of_key, of k xs]
  by (simp add: order_by_def sorted_wrt_map)

lemma insert_by_insort: "insert_by (cmp_of_key k) x xs = insort_key k x xs"
  by (induction xs) auto

lemma order_by_eq_sort_key: "order_by k xs = sort_key k xs"
  unfolding order_by_def by (induction xs) (auto simp: insert_by_insort)

lemma distinct_map_order_by [simp]: "distinct (map k (order_by k' xs)) = distinct (map k xs)"
proof -
  have "mset (order_by k' xs) = mset xs" by (simp add: order_by_eq_sort_key)
  then have "mset (map k (order_by k' xs)) = mset (map k xs)" by simp
  then show ?thesis by (rule mset_eq_imp_distinct_iff)
qed

lemma order_by_cong_set:
  assumes "distinct (map k xs)" "distinct (map k ys)" "set xs = set ys"
  shows "order_by k xs = order_by k ys"
proof -
  have "distinct xs" "distinct ys"
    using assms(1,2) by (simp_all add: distinct_map)
  then have "mset xs = mset ys"
    using assms(3) by (simp add: set_eq_iff_mset_eq_distinct)
  then have "mset xs = mset (sort_key k ys)" by simp
  moreover have "inj_on k (set xs)" using assms(1) by (simp add: distinct_map)
  ultimately show ?thesis
    by (simp add: order_by_eq_sort_key sort_key_inj_key_eq)
qed

lemma order_by_sorted_id: "sorted (map k xs) \<Longrightarrow> order_by k xs = xs"
proof (induction xs)
  case (Cons x xs)
  then show ?case by (cases xs) (auto simp: order_by_def)
qed (simp add: order_by_def)

subsection \<open>Tables that only grow\<close>

text \<open>\<open>extends step xs ys\<close>: each row of \<open>xs\<close> is still there, possibly changed as \<open>step\<close> allows, and new rows
  come after.  With equality for \<open>step\<close> the table is append-only.\<close>

definition extends :: "('r \<Rightarrow> 'r \<Rightarrow> bool) \<Rightarrow> 'r list \<Rightarrow> 'r list \<Rightarrow> bool" where
  "extends step xs ys \<longleftrightarrow> (\<exists>zs ws. ys = zs @ ws \<and> list_all2 step xs zs)"

lemma extends_append: "(\<And>r. step r r) \<Longrightarrow> extends step xs (xs @ ys)"
  unfolding extends_def by (intro exI [of _ xs] exI [of _ ys]) (simp add: list_all2_refl)

lemma extends_refl: "(\<And>r. step r r) \<Longrightarrow> extends step xs xs"
  using extends_append [of step xs "[]"] by simp

lemma extends_update_where:
  assumes "\<And>r. step r r" "\<And>r. r \<in> set rows \<Longrightarrow> P r \<Longrightarrow> step r (f r)"
  shows "extends step rows (update_where P f rows)"
proof -
  have "list_all2 step rows (update_where P f rows)"
    using assms by (induction rows) (auto simp: list_all2_refl)
  then show ?thesis unfolding extends_def by (metis append_Nil2)
qed

lemma extends_trans:
  assumes "extends step xs ys" "extends step ys zs" and tr: "\<And>a b c. step a b \<Longrightarrow> step b c \<Longrightarrow> step a c"
  shows "extends step xs zs"
proof -
  obtain ys' v zs' w where ys: "ys = ys' @ v" "list_all2 step xs ys'" and zs: "zs = zs' @ w" "list_all2 step ys zs'"
    using assms(1,2) unfolding extends_def by blast
  from zs(2) ys(1) obtain z1 z2 where z: "zs' = z1 @ z2" "list_all2 step ys' z1"
    by (auto simp: list_all2_append1)
  have "list_all2 step xs z1" using list_all2_trans [OF tr ys(2) z(2)] .
  with zs(1) z(1) show ?thesis unfolding extends_def by auto
qed

lemma extends_in:
  assumes "extends step xs ys" "x \<in> set xs" shows "\<exists>y \<in> set ys. step x y"
proof -
  obtain zs ws where e: "ys = zs @ ws" "list_all2 step xs zs" using assms(1) by (auto simp: extends_def)
  obtain k where k: "k < length xs" "x = xs ! k" using assms(2) by (auto simp: in_set_conv_nth)
  have "step x (zs ! k)" using list_all2_nthD [OF e(2) k(1)] k(2) by simp
  moreover have "zs ! k \<in> set ys" using k(1) e list_all2_lengthD [OF e(2)] by simp
  ultimately show ?thesis by blast
qed

lemma extends_eq: "extends (=) xs ys \<longleftrightarrow> (\<exists>ws. ys = xs @ ws)"
  by (auto simp: extends_def list.rel_eq)

lemma extends_eq_in: "extends (=) xs ys \<Longrightarrow> x \<in> set xs \<Longrightarrow> x \<in> set ys"
  by (auto simp: extends_eq)

lemma extends_length: "extends step xs ys \<Longrightarrow> length xs \<le> length ys"
  by (auto simp: extends_def dest: list_all2_lengthD)

subsection \<open>JavaScript values\<close>

text \<open>A string is truthy when it is there and not empty.\<close>

definition truthy :: "string option \<Rightarrow> string option" where
  "truthy v = (case v of None \<Rightarrow> None | Some s \<Rightarrow> if s = [] then None else Some s)"

lemma truthy_SomeD: "truthy v = Some s \<Longrightarrow> v = Some s \<and> s \<noteq> []"
  by (auto simp: truthy_def split: option.splits if_splits)

lemma truthy_simps [simp]: "truthy None = None" "s \<noteq> [] \<Longrightarrow> truthy (Some s) = Some s" "truthy (Some []) = None"
  by (simp_all add: truthy_def)

text \<open>\<open>s.slice(a, b)\<close> for offsets that are not negative.\<close>

definition slice :: "nat \<Rightarrow> nat \<Rightarrow> 'a list \<Rightarrow> 'a list" where
  "slice a b s = take (b - a) (drop a s)"

lemma length_slice: "length (slice a b s) = min (b - a) (length s - a)"
  by (simp add: slice_def)

lemma slice_full [simp]: "slice 0 (length s) s = s"
  by (simp add: slice_def)

definition starts_with :: "'a list \<Rightarrow> 'a list \<Rightarrow> bool" where
  "starts_with p s \<longleftrightarrow> take (length p) s = p"

definition ends_with :: "'a list \<Rightarrow> 'a list \<Rightarrow> bool" where
  "ends_with p s \<longleftrightarrow> length p \<le> length s \<and> drop (length s - length p) s = p"

text \<open>First duplicates of a key list: the loop \<open>if (seen.has(k)) issue(k); seen.add(k)\<close>.\<close>

fun dup_issues :: "('k \<Rightarrow> 'i) \<Rightarrow> 'k set \<Rightarrow> 'k list \<Rightarrow> 'i list" where
  "dup_issues mk seen [] = []"
| "dup_issues mk seen (k # ks) =
     (if k \<in> seen then [mk k] else []) @ dup_issues mk (insert k seen) ks"

lemma dup_issues_Nil:
  "dup_issues mk seen ks = [] \<longleftrightarrow> distinct ks \<and> set ks \<inter> seen = {}"
  by (induction ks arbitrary: seen) auto

lemma dup_issues_empty [simp]: "dup_issues mk {} ks = [] \<longleftrightarrow> distinct ks"
  by (simp add: dup_issues_Nil)

text \<open>The issue a failed refinement adds, and a check that adds none.\<close>

definition issue_if :: "bool \<Rightarrow> 'i \<Rightarrow> 'i list" where
  "issue_if P m = (if P then [m] else [])"

lemma issue_if_Nil [simp]: "issue_if P m = [] \<longleftrightarrow> \<not> P"
  by (simp add: issue_if_def)

lemma concat_map_Nil: "concat (map f xs) = [] \<longleftrightarrow> (\<forall>x \<in> set xs. f x = [])"
  by (induction xs) auto

subsection \<open>Insertion-ordered maps\<close>

text \<open>\<open>Map.set\<close>: a key already there keeps its place.\<close>

fun map_set :: "'k \<Rightarrow> 'v \<Rightarrow> ('k \<times> 'v) list \<Rightarrow> ('k \<times> 'v) list" where
  "map_set k v [] = [(k, v)]"
| "map_set k v ((k', v') # m) = (if k' = k then (k, v) # m else (k', v') # map_set k v m)"

lemma map_of_map_set [simp]: "map_of (map_set k v m) = (map_of m)(k \<mapsto> v)"
  by (induction k v m rule: map_set.induct) auto

lemma keys_map_set [simp]: "fst ` set (map_set k v m) = insert k (fst ` set m)"
  by (induction k v m rule: map_set.induct) auto

lemma distinct_map_set: "distinct (map fst m) \<Longrightarrow> distinct (map fst (map_set k v m))"
proof (induction k v m rule: map_set.induct)
  case (2 k v k' v' m)
  have "fst ` set (map_set k v m) = insert k (fst ` set m)" by simp
  with 2 show ?case by auto
qed simp

text \<open>\<open>[...new Set(xs)]\<close> keeps first occurrences.\<close>

fun deduped :: "'a list \<Rightarrow> 'a list" where
  "deduped [] = []"
| "deduped (x # xs) = x # filter (\<lambda>y. y \<noteq> x) (deduped xs)"

lemma set_unique [simp]: "set (deduped xs) = set xs"
  by (induction xs) auto

lemma distinct_unique [simp]: "distinct (deduped xs)"
  by (induction xs) auto

end
