(* ===== verification/Canonical_Json.thy ===== *)
theory Canonical_Json
  imports Complex_Main Prelude
begin

text \<open>
  \<open>src/lib/canonical-json.ts\<close>: the canonical JSON text every digest of the program is taken
  over.  A JavaScript value is a \<open>jsval\<close>: the JSON values, the values JSON cannot carry
  (\<open>undefined\<close>, non-finite numbers, functions and their kin) and objects as association lists
  in property order.  Finite numbers are rationals.  What lies outside the repository is the
  record \<open>runtime\<close>: \<open>createHash("sha256")\<close>, the printing of a number,
  \<open>localeCompare\<close>, \<open>Date.parse\<close> (\<open>None\<close> for NaN), \<open>new URL\<close> (\<open>None\<close> where it throws), and the
  string formats of the zod package (\<open>z.iso.datetime\<close>, \<open>z.uuid\<close>, \<open>z.url\<close>, \<open>z.email\<close>).  The lemmas show that \<open>normalize\<close> sorts every object, forgets property order
  and \<open>undefined\<close> properties, is idempotent, and fails on exactly the values that hold something
  JSON cannot carry.
\<close>

datatype jsval =
    JUndefined
  | JNull
  | JBool bool
  | JNumber rat
  | JNonFinite
  | JString string
  | JArray "jsval list"
  | JObject "(string \<times> jsval) list"
  | JOther string

text \<open>Services of the JavaScript runtime and of the platform.\<close>

record url_parts =
  url_protocol :: string
  url_username :: string
  url_password :: string
  url_hostname :: string
  url_pathname :: string
  url_search :: string
  url_hash :: string

record runtime =
  rt_sha256 :: "string \<Rightarrow> string"
  rt_number :: "rat \<Rightarrow> string"
  rt_locale_compare :: "string \<Rightarrow> string \<Rightarrow> int"
  rt_date_parse :: "string \<Rightarrow> int option"
  rt_parse_url :: "string \<Rightarrow> url_parts option"
  rt_is_datetime :: "string \<Rightarrow> bool"
  rt_is_uuid :: "string \<Rightarrow> bool"
  rt_is_url :: "string \<Rightarrow> bool"
  rt_is_email :: "string \<Rightarrow> bool"

datatype type_error = NonFiniteNumber | UnsupportedJson string

text \<open>\<open>Object.keys(record).sort()\<close>, then the filter of \<open>undefined\<close> properties.\<close>

definition sorted_defined :: "(string \<times> jsval) list \<Rightarrow> (string \<times> jsval) list" where
  "sorted_defined props = filter (\<lambda>kv. snd kv \<noteq> JUndefined) (order_by fst props)"

fun collect_ok :: "('e + 'a) list \<Rightarrow> 'e + 'a list" where
  "collect_ok [] = Inr []"
| "collect_ok (Inl e # rs) = Inl e"
| "collect_ok (Inr x # rs) = bind_ok (collect_ok rs) (\<lambda>xs. Inr (x # xs))"

lemma size_sorted_defined:
  "kv \<in> set (sorted_defined props) \<Longrightarrow>
    size (snd kv) < Suc (size_list (size_prod (\<lambda>_. 0) size) props)"
proof -
  assume "kv \<in> set (sorted_defined props)"
  then have "kv \<in> set props" by (auto simp: sorted_defined_def)
  then show ?thesis by (induction props) (auto simp: less_SucI)
qed

text \<open>
  \<open>Object.fromEntries\<close> builds an ordinary object, whose own property order puts canonical array
  indices first, by value, and keeps insertion order for the other keys.
\<close>

definition digit_value :: "string \<Rightarrow> nat" where
  "digit_value s = foldl (\<lambda>n c. 10 * n + (of_char c - 48)) 0 s"

definition array_index :: "string \<Rightarrow> bool" where
  "array_index s \<longleftrightarrow> s \<noteq> [] \<and> list_all (\<lambda>c. 48 \<le> (of_char c :: nat) \<and> (of_char c :: nat) \<le> 57) s
     \<and> (s = ''0'' \<or> hd s \<noteq> CHR ''0'') \<and> digit_value s < 2 ^ 32 - 1"

definition from_entries :: "(string \<times> jsval) list \<Rightarrow> (string \<times> jsval) list" where
  "from_entries kvs =
     order_by (digit_value \<circ> fst) (filter (array_index \<circ> fst) kvs) @
     filter (Not \<circ> array_index \<circ> fst) kvs"

function normalize :: "jsval \<Rightarrow> type_error + jsval" where
  "normalize JNull = Inr JNull"
| "normalize (JBool b) = Inr (JBool b)"
| "normalize (JString s) = Inr (JString s)"
| "normalize (JNumber n) = Inr (JNumber n)"
| "normalize JNonFinite = Inl NonFiniteNumber"
| "normalize (JArray vs) = bind_ok (collect_ok (map normalize vs)) (\<lambda>ws. Inr (JArray ws))"
| "normalize (JObject props) =
     bind_ok (collect_ok (map (\<lambda>kv. bind_ok (normalize (snd kv)) (\<lambda>w. Inr (fst kv, w)))
                            (sorted_defined props)))
       (\<lambda>fs. Inr (JObject (from_entries fs)))"
| "normalize JUndefined = Inl (UnsupportedJson ''undefined'')"
| "normalize (JOther t) = Inl (UnsupportedJson t)"
  by pat_completeness auto
termination
  by (relation "measure size")
    (auto dest: size_sorted_defined elim!: size_list_estimation' intro: le_imp_less_Suc)

text \<open>\<open>JSON.stringify\<close> on a normalised value.\<close>

definition hex_digit :: "nat \<Rightarrow> char" where
  "hex_digit n = ''0123456789abcdef'' ! (n mod 16)"

definition json_char :: "char \<Rightarrow> string" where
  "json_char c =
     (let n = of_char c :: nat in
      if c = CHR 0x22 then [CHR 0x5C, CHR 0x22]
      else if c = CHR 0x5C then [CHR 0x5C, CHR 0x5C]
      else if n = 8 then CHR 0x5C # ''b''
      else if n = 9 then CHR 0x5C # ''t''
      else if n = 10 then CHR 0x5C # ''n''
      else if n = 12 then CHR 0x5C # ''f''
      else if n = 13 then CHR 0x5C # ''r''
      else if n < 32 then CHR 0x5C # ''u00'' @ [hex_digit (n div 16), hex_digit n]
      else [c])"

definition json_string :: "string \<Rightarrow> string" where
  "json_string s = [CHR 0x22] @ concat (map json_char s) @ [CHR 0x22]"

fun join :: "string \<Rightarrow> string list \<Rightarrow> string" where
  "join sep [] = []"
| "join sep [x] = x"
| "join sep (x # xs) = x @ sep @ join sep xs"

function stringify :: "runtime \<Rightarrow> jsval \<Rightarrow> string" where
  "stringify R JNull = ''null''"
| "stringify R (JBool b) = (if b then ''true'' else ''false'')"
| "stringify R (JString s) = json_string s"
| "stringify R (JNumber n) = rt_number R n"
| "stringify R (JArray vs) = ''['' @ join '','' (map (stringify R) vs) @ '']''"
| "stringify R (JObject props) =
     ''{'' @ join '','' (map (\<lambda>kv. json_string (fst kv) @ '':'' @ stringify R (snd kv)) props) @ ''}''"
| "stringify R JUndefined = []"
| "stringify R JNonFinite = ''null''"
| "stringify R (JOther t) = []"
  by pat_completeness auto
termination
  by (relation "measure (\<lambda>(R, v). size v)")
    (auto elim!: size_list_estimation' intro: le_imp_less_Suc)

definition canonicalJson :: "runtime \<Rightarrow> jsval \<Rightarrow> type_error + string" where
  "canonicalJson R v = bind_ok (normalize v) (\<lambda>w. Inr (stringify R w))"

definition digestJson :: "runtime \<Rightarrow> jsval \<Rightarrow> type_error + string" where
  "digestJson R v = bind_ok (canonicalJson R v) (\<lambda>s. Inr (rt_sha256 R s))"


subsection \<open>What canonicalisation guarantees\<close>

lemma collect_ok_Inr [simp]: "collect_ok rs = Inr xs \<longleftrightarrow> rs = map Inr xs"
  by (induction rs arbitrary: xs rule: collect_ok.induct) (auto simp: bind_ok_Inr)

lemma collect_ok_Inl: "collect_ok rs = Inl e \<Longrightarrow> \<exists>e. Inl e \<in> set rs"
  by (induction rs rule: collect_ok.induct) (auto simp: bind_ok_Inl)

text \<open>JavaScript objects hold each key once.\<close>

fun distinct_keys :: "jsval \<Rightarrow> bool" where
  "distinct_keys (JArray vs) = list_all distinct_keys vs"
| "distinct_keys (JObject props) =
     (distinct (map fst props) \<and> list_all (\<lambda>kv. distinct_keys (snd kv)) props)"
| "distinct_keys v = True"

lemma set_from_entries [simp]: "set (from_entries kvs) = set kvs"
  by (auto simp: from_entries_def)

lemma distinct_from_entries [simp]: "distinct (map fst (from_entries kvs)) = distinct (map fst kvs)"
proof -
  have "mset (from_entries kvs) = mset kvs"
    by (simp add: from_entries_def order_by_eq_sort_key comp_def)
  then have "mset (map fst (from_entries kvs)) = mset (map fst kvs)" by simp
  then show ?thesis by (rule mset_eq_imp_distinct_iff)
qed

lemma set_sorted_defined: "set (sorted_defined props) = {kv \<in> set props. snd kv \<noteq> JUndefined}"
  by (auto simp: sorted_defined_def)

lemma distinct_sorted_defined:
  "distinct (map fst props) \<Longrightarrow> distinct (map fst (sorted_defined props))"
  by (simp add: sorted_defined_def distinct_map_filter)

lemma normalize_defined: "normalize v = Inr w \<Longrightarrow> w \<noteq> JUndefined"
  by (cases v) (auto simp: bind_ok_Inr)

text \<open>The normal form of an object depends on its set of defined properties only.\<close>

lemma normalize_object_cong:
  assumes "distinct (map fst ps)" "distinct (map fst qs)"
    and "{kv \<in> set ps. snd kv \<noteq> JUndefined} = {kv \<in> set qs. snd kv \<noteq> JUndefined}"
  shows "normalize (JObject ps) = normalize (JObject qs)"
proof -
  let ?D = "\<lambda>kv. snd kv \<noteq> JUndefined"
  have eq: "sorted_defined xs = order_by fst (filter ?D xs)" for xs :: "(string \<times> jsval) list"
    by (simp add: sorted_defined_def order_by_eq_sort_key filter_sort)
  have "order_by fst (filter ?D ps) = order_by fst (filter ?D qs)"
    by (rule order_by_cong_set) (use assms in \<open>auto simp: distinct_map_filter\<close>)
  then show ?thesis by (simp add: eq)
qed

lemma map_Inr_normalize_keys:
  assumes "map (\<lambda>kv. bind_ok (normalize (snd kv)) (\<lambda>w. Inr (fst kv, w))) ps = map Inr fs"
  shows "map fst fs = map fst ps"
    and "kv \<in> set fs \<Longrightarrow> \<exists>v. (fst kv, v) \<in> set ps \<and> normalize v = Inr (snd kv)"
  using assms
proof (induction fs arbitrary: ps)
  case Nil
  { case 1 then show ?case by simp }
  { case 2 then show ?case by simp }
next
  case (Cons f fs)
  { case 1
    then obtain p ps' where ps: "ps = p # ps'" by (cases ps) auto
    with 1 Cons.IH(1) [of ps'] show ?case by (auto simp: bind_ok_Inr) }
  { case 2
    then obtain p ps' where ps: "ps = p # ps'" by (cases ps) auto
    with 2 have p: "normalize (snd p) = Inr (snd f)" "fst p = fst f"
      by (auto simp: bind_ok_Inr)
    show ?case
    proof (cases "kv = f")
      case True
      with p ps show ?thesis by (metis list.set_intros(1) prod.collapse)
    next
      case False
      with 2 ps Cons.IH(2) [of ps'] show ?thesis by auto
    qed }
qed

lemma normalize_idempotent_aux:
  "normalize v = Inr w \<Longrightarrow> distinct_keys v \<Longrightarrow> normalize w = Inr w"
proof (induction v arbitrary: w rule: normalize.induct)
  case (6 vs)
  then obtain ws where ws: "map normalize vs = map Inr ws" and w: "w = JArray ws"
    by (auto simp: bind_ok_Inr)
  have "normalize x = Inr x" if x: "x \<in> set ws" for x
  proof -
    from x ws obtain v where "v \<in> set vs" "normalize v = Inr x"
      by (metis (no_types, lifting) imageE image_eqI list.set_map)
    with 6 show ?thesis by (auto simp: list_all_iff)
  qed
  then have "collect_ok (map normalize ws) = Inr ws" by simp
  then show ?case by (simp add: w bind_ok_Inr)
next
  case (7 props)
  let ?f = "\<lambda>kv. bind_ok (normalize (snd kv)) (\<lambda>w. Inr (fst kv, w))"
  let ?sd = "sorted_defined props"
  from 7(2) obtain fs where fs: "map ?f ?sd = map Inr fs" and w: "w = JObject (from_entries fs)"
    by (auto simp: bind_ok_Inr)
  have dist: "distinct (map fst ?sd)"
    using 7(3) by (auto intro: distinct_sorted_defined)
  have keys: "map fst fs = map fst ?sd" by (rule map_Inr_normalize_keys(1) [OF fs])
  have sorted: "sorted (map fst fs)"
    unfolding keys sorted_defined_def
    by (rule sorted_filter) (rule sorted_order_by)
  have val: "normalize (snd kv) = Inr (snd kv) \<and> snd kv \<noteq> JUndefined" if kv: "kv \<in> set fs" for kv
  proof -
    from map_Inr_normalize_keys(2) [OF fs kv] obtain v
      where v: "(fst kv, v) \<in> set ?sd" "normalize v = Inr (snd kv)" by blast
    moreover have "distinct_keys v"
      using 7(3) v(1) by (auto simp: list_all_iff set_sorted_defined)
    ultimately show ?thesis using 7(1) [OF v(1)] normalize_defined [OF v(2)] by simp
  qed
  have "filter (\<lambda>kv. snd kv \<noteq> JUndefined) (order_by fst (from_entries fs)) = order_by fst (from_entries fs)"
    using val by (auto simp: filter_id_conv)
  also have "\<dots> = order_by fst fs"
    by (rule order_by_cong_set) (simp_all add: keys dist)
  also have "\<dots> = fs" by (rule order_by_sorted_id [OF sorted])
  finally have "sorted_defined (from_entries fs) = fs" by (simp add: sorted_defined_def)
  moreover have "collect_ok (map ?f fs) = Inr fs" using val by simp
  ultimately show ?case by (simp only: w normalize.simps bind_ok_simps)
qed auto

text \<open>Exactly the values that hold something JSON cannot carry make \<open>normalize\<close> throw.\<close>

fun json_carries :: "jsval \<Rightarrow> bool" where
  "json_carries (JArray vs) = list_all json_carries vs"
| "json_carries (JObject props) = list_all (\<lambda>kv. snd kv = JUndefined \<or> json_carries (snd kv)) props"
| "json_carries JUndefined = False"
| "json_carries JNonFinite = False"
| "json_carries (JOther t) = False"
| "json_carries v = True"

lemma collect_ok_is_ok: "is_ok (collect_ok rs) = list_all is_ok rs"
  by (induction rs rule: collect_ok.induct) (auto simp: is_ok_iff bind_ok_Inr)

lemma bind_ok_is_ok: "is_ok (bind_ok m (\<lambda>x. Inr (f x))) = is_ok m"
  by (cases m) auto

lemma normalize_is_ok: "is_ok (normalize v) = json_carries v"
proof (induction v rule: normalize.induct)
  case (7 props)
  have "is_ok (normalize (JObject props)) =
      (\<forall>kv \<in> set (sorted_defined props). json_carries (snd kv))"
    using 7 by (simp add: bind_ok_is_ok collect_ok_is_ok list_all_iff)
  also have "\<dots> = (\<forall>kv \<in> set props. snd kv = JUndefined \<or> json_carries (snd kv))"
    unfolding set_sorted_defined by blast
  finally show ?case by (simp only: json_carries.simps list_all_iff)
qed (auto simp: bind_ok_is_ok collect_ok_is_ok list_all_iff)

end
