(* ===== verification/Redaction.thy ===== *)
theory Redaction
  imports Canonical_Json
begin

text \<open>
  \<open>src/lib/redaction.ts\<close>: the secret and contact-data filter every event payload and error
  message passes before it is stored.  The regular expressions of the file use character
  classes with greedy repetition, alternation, word boundaries and one-character lookaround;
  \<open>rx\<close> has exactly these and \<open>rx_ends\<close> is the backtracking matcher as the list of match ends in
  the order JavaScript tries them, so the head is the match.  The lemmas show that a pattern
  that matches nowhere leaves a text alone, and that no value under a secret-named property
  survives \<open>redactValue\<close>, at any depth.
\<close>

subsection \<open>Regular expressions\<close>

datatype (dead 'c) rx =
    Cls "'c \<Rightarrow> bool" nat "nat option"
  | Alt "'c rx list list"
  | WordB
  | NotBehind "'c \<Rightarrow> bool"
  | NotAhead "'c \<Rightarrow> bool"

definition in_range :: "char \<Rightarrow> char \<Rightarrow> char \<Rightarrow> bool" where
  "in_range a b c \<longleftrightarrow> (of_char a :: nat) \<le> of_char c \<and> (of_char c :: nat) \<le> of_char b"

definition is_digit :: "char \<Rightarrow> bool" where
  "is_digit c = in_range (CHR ''0'') (CHR ''9'') c"

definition is_upper :: "char \<Rightarrow> bool" where
  "is_upper c = in_range (CHR ''A'') (CHR ''Z'') c"

definition is_lower :: "char \<Rightarrow> bool" where
  "is_lower c = in_range (CHR ''a'') (CHR ''z'') c"

definition is_alnum :: "char \<Rightarrow> bool" where
  "is_alnum c \<longleftrightarrow> is_upper c \<or> is_lower c \<or> is_digit c"

text \<open>The classes \<open>\w\<close> and \<open>\s\<close> (its members below code point 256).\<close>

definition is_word :: "char \<Rightarrow> bool" where
  "is_word c \<longleftrightarrow> is_alnum c \<or> c = CHR ''_''"

definition is_space :: "char \<Rightarrow> bool" where
  "is_space c \<longleftrightarrow> (of_char c :: nat) \<in> {9, 10, 11, 12, 13, 32, 160}"

definition one_of :: "string \<Rightarrow> char \<Rightarrow> bool" where
  "one_of cs c \<longleftrightarrow> c \<in> set cs"

text \<open>Case folding of the \<open>i\<close> flag on ASCII letters.\<close>

definition to_lower :: "char \<Rightarrow> char" where
  "to_lower c = (if is_upper c then char_of (of_char c + 32 :: nat) else c)"

definition lit :: "string \<Rightarrow> char rx list" where
  "lit s = map (\<lambda>a. Cls (\<lambda>c. c = a) 1 (Some 1)) s"

definition liti :: "string \<Rightarrow> char rx list" where
  "liti s = map (\<lambda>a. Cls (\<lambda>c. to_lower c = to_lower a) 1 (Some 1)) s"

definition opt_cls :: "(char \<Rightarrow> bool) \<Rightarrow> char rx" where
  "opt_cls P = Cls P 0 (Some 1)"

definition char_at :: "'c list \<Rightarrow> nat \<Rightarrow> 'c option" where
  "char_at s i = (if i < length s then Some (s ! i) else None)"

definition word_at :: "string \<Rightarrow> nat \<Rightarrow> bool" where
  "word_at s i = (case char_at s i of None \<Rightarrow> False | Some c \<Rightarrow> is_word c)"

definition word_boundary :: "string \<Rightarrow> nat \<Rightarrow> bool" where
  "word_boundary s i \<longleftrightarrow> (0 < i \<and> word_at s (i - 1)) \<noteq> word_at s i"

fun rx_ends :: "char rx \<Rightarrow> string \<Rightarrow> nat \<Rightarrow> nat list"
  and rx_seq :: "char rx list \<Rightarrow> string \<Rightarrow> nat \<Rightarrow> nat list"
  and rx_alt :: "char rx list list \<Rightarrow> string \<Rightarrow> nat \<Rightarrow> nat list" where
  "rx_ends (Cls P lo hi) s i =
     (let run = length (takeWhile P (drop i s));
          most = (case hi of None \<Rightarrow> run | Some h \<Rightarrow> min h run)
      in if most < lo then [] else map (\<lambda>k. i + k) (rev [lo ..< Suc most]))"
| "rx_ends (Alt rss) s i = rx_alt rss s i"
| "rx_ends WordB s i = (if word_boundary s i then [i] else [])"
| "rx_ends (NotBehind P) s i =
     (if 0 < i \<and> (case char_at s (i - 1) of None \<Rightarrow> False | Some c \<Rightarrow> P c) then [] else [i])"
| "rx_ends (NotAhead P) s i =
     (if (case char_at s i of None \<Rightarrow> False | Some c \<Rightarrow> P c) then [] else [i])"
| "rx_seq [] s i = [i]"
| "rx_seq (r # rs) s i = concat (map (rx_seq rs s) (rx_ends r s i))"
| "rx_alt [] s i = []"
| "rx_alt (rs # rss) s i = rx_seq rs s i @ rx_alt rss s i"

definition rx_match :: "char rx list \<Rightarrow> string \<Rightarrow> nat \<Rightarrow> nat option" where
  "rx_match rs s i = (case rx_seq rs s i of [] \<Rightarrow> None | j # _ \<Rightarrow> Some j)"

text \<open>
  \<open>s.replace(/rs/g, f)\<close> for a pattern that never matches the empty string: \<open>f\<close> gets the
  start and the end of the match.
\<close>

function rx_replace_from :: "char rx list \<Rightarrow> (string \<Rightarrow> nat \<Rightarrow> nat \<Rightarrow> string) \<Rightarrow> string \<Rightarrow> nat \<Rightarrow> string" where
  "rx_replace_from rs f s i =
     (if length s \<le> i then []
      else case rx_match rs s i of
        None \<Rightarrow> s ! i # rx_replace_from rs f s (Suc i)
      | Some j \<Rightarrow>
          if j \<le> i then s ! i # rx_replace_from rs f s (Suc i)
          else f s i j @ rx_replace_from rs f s j)"
  by pat_completeness auto
termination
  by (relation "measure (\<lambda>(rs, f, s, i). length s - i)") auto

declare rx_replace_from.simps [simp del]

definition replace_all :: "char rx list \<Rightarrow> string \<Rightarrow> string \<Rightarrow> string" where
  "replace_all rs by_text s = rx_replace_from rs (\<lambda>_ _ _. by_text) s 0"

text \<open>A pattern \<open>(g)rest\<close> whose replacement keeps the first group: \<open>$1\<close>.\<close>

definition group_end :: "char rx list \<Rightarrow> char rx list \<Rightarrow> string \<Rightarrow> nat \<Rightarrow> nat" where
  "group_end g rest s i =
     (case filter (\<lambda>j. rx_seq rest s j \<noteq> []) (rx_seq g s i) of [] \<Rightarrow> i | j # _ \<Rightarrow> j)"

definition replace_all_group :: "char rx list \<Rightarrow> char rx list \<Rightarrow> string \<Rightarrow> string \<Rightarrow> string" where
  "replace_all_group g rest by_text s =
     rx_replace_from (g @ rest) (\<lambda>t i j. slice i (group_end g rest t i) t @ by_text) s 0"

text \<open>\<open>/^rs$/.test(s)\<close>.\<close>

definition rx_full :: "char rx list \<Rightarrow> string \<Rightarrow> bool" where
  "rx_full rs s \<longleftrightarrow> length s \<in> set (rx_seq rs s 0)"

subsection \<open>The patterns\<close>

definition SECRET_KEY_NAMES :: "char rx list" where
  "SECRET_KEY_NAMES =
     [Alt [liti ''api'' @ [opt_cls (one_of ''_-'')] @ liti ''key'', liti ''authorization'',
           liti ''credential'', liti ''password'',
           liti ''private'' @ [opt_cls (one_of ''_-'')] @ liti ''key'', liti ''secret'', liti ''token'']]"

definition EMAIL :: "char rx list" where
  "EMAIL = [WordB, Cls (\<lambda>c. is_alnum c \<or> one_of ''._%+-'' c) 1 None, Cls (\<lambda>c. c = CHR ''@'') 1 (Some 1),
     Cls (\<lambda>c. is_alnum c \<or> one_of ''.-'' c) 1 None, Cls (\<lambda>c. c = CHR ''.'') 1 (Some 1),
     Cls (\<lambda>c. is_upper c \<or> is_lower c) 2 None, WordB]"

definition phone_sep :: "char \<Rightarrow> bool" where
  "phone_sep c \<longleftrightarrow> one_of ''-.'' c \<or> is_space c"

definition PHONE :: "char rx list" where
  "PHONE = [NotBehind is_alnum,
     Alt [[opt_cls (\<lambda>c. c = CHR ''+''), Cls (\<lambda>c. c = CHR ''1'') 1 (Some 1), opt_cls phone_sep], []],
     opt_cls (\<lambda>c. c = CHR ''(''), Cls is_digit 3 (Some 3), opt_cls (\<lambda>c. c = CHR '')''),
     opt_cls phone_sep, Cls is_digit 3 (Some 3), opt_cls phone_sep, Cls is_digit 4 (Some 4),
     NotAhead is_alnum]"

definition BEARER :: "char rx list" where
  "BEARER = [WordB] @ liti ''Bearer'' @ [Cls is_space 1 None,
     Cls (\<lambda>c. is_alnum c \<or> one_of ''._~+/=-'' c) 12 None]"

definition KNOWN_TOKENS :: "char rx list" where
  "KNOWN_TOKENS = [WordB,
     Alt [lit ''bt_'', lit ''ck_'', lit ''cpk-'', lit ''cr'' @ [Cls (one_of ''-_'') 1 (Some 1)],
          lit ''dtn_'', lit ''fw_'', lit ''re_'',
          lit ''rk_'' @ [Alt [lit ''live'', lit ''test'']] @ lit ''_'',
          lit ''pk_'' @ [Alt [lit ''live'', lit ''test'']] @ lit ''_'',
          lit ''sk'' @ [Cls (one_of ''-_'') 1 (Some 1)], lit ''xi'' @ [Cls (one_of ''-_'') 1 (Some 1)]],
     Cls (\<lambda>c. is_alnum c \<or> one_of ''._-'' c) 12 None, WordB]"

definition AWS_ACCESS_KEY :: "char rx list" where
  "AWS_ACCESS_KEY = [WordB, Alt [lit ''AKIA'', lit ''ASIA''],
     Cls (\<lambda>c. is_upper c \<or> is_digit c) 16 (Some 16), WordB]"

definition FLY_ACCESS_TOKEN :: "char rx list" where
  "FLY_ACCESS_TOKEN = [WordB] @ lit ''FlyV1'' @ [Cls is_space 1 None,
     Cls (\<lambda>c. is_alnum c \<or> one_of ''._-'' c) 12 None, WordB]"

definition URL_SECRET_KEY :: "char rx list" where
  "URL_SECRET_KEY = [Cls (one_of ''?&'') 1 (Some 1),
     Alt [liti ''api'' @ [opt_cls (one_of ''_-'')] @ liti ''key'', liti ''key'', liti ''signature'',
          liti ''token''], Cls (\<lambda>c. c = CHR ''='') 1 (Some 1)]"

definition URL_SECRET_VALUE :: "char rx list" where
  "URL_SECRET_VALUE = [Cls (\<lambda>c. \<not> one_of ''&#'' c \<and> \<not> is_space c) 1 None]"

definition redactText :: "string \<Rightarrow> string" where
  "redactText input =
     replace_all PHONE ''[PHONE]''
      (replace_all EMAIL ''[EMAIL]''
        (replace_all_group URL_SECRET_KEY URL_SECRET_VALUE ''[REDACTED]''
          (replace_all FLY_ACCESS_TOKEN ''[REDACTED_TOKEN]''
            (replace_all AWS_ACCESS_KEY ''[REDACTED_TOKEN]''
              (replace_all KNOWN_TOKENS ''[REDACTED_TOKEN]''
                (replace_all BEARER ''Bearer [REDACTED]'' input))))))"

definition secret_key :: "string \<Rightarrow> bool" where
  "secret_key k = rx_full SECRET_KEY_NAMES k"

text \<open>
  \<open>redactValue\<close> on the values an event payload holds (an \<open>Error\<close> instance never reaches the
  stores, whose payloads are plain objects).  The keys themselves are kept, and an object whose
  entries are rewritten in property order keeps that order.
\<close>

function redactValue :: "jsval \<Rightarrow> jsval" where
  "redactValue (JString s) = JString (redactText s)"
| "redactValue (JArray vs) = JArray (map redactValue vs)"
| "redactValue (JObject props) =
     JObject (map (\<lambda>kv. (fst kv, if secret_key (fst kv) then JString ''[REDACTED]''
                                  else redactValue (snd kv))) props)"
| "redactValue JUndefined = JUndefined"
| "redactValue JNull = JNull"
| "redactValue (JBool b) = JBool b"
| "redactValue (JNumber n) = JNumber n"
| "redactValue JNonFinite = JNonFinite"
| "redactValue (JOther t) = JOther t"
  by pat_completeness auto
termination
  by (relation "measure size")
    (auto elim!: size_list_estimation' intro: le_imp_less_Suc)

subsection \<open>Lemmas\<close>

lemma rx_replace_no_match:
  assumes "\<And>j. i \<le> j \<Longrightarrow> j < length s \<Longrightarrow> rx_match rs s j = None"
  shows "rx_replace_from rs f s i = drop i s"
  using assms
proof (induction rs f s i rule: rx_replace_from.induct)
  case (1 rs f s i)
  show ?case
  proof (cases "length s \<le> i")
    case True
    then show ?thesis by (simp add: rx_replace_from.simps)
  next
    case False
    then have "rx_match rs s i = None" using "1.prems" by simp
    moreover have "rx_replace_from rs f s (Suc i) = drop (Suc i) s"
      by (rule "1.IH"(1)) (use False calculation "1.prems" in auto)
    ultimately show ?thesis
      using False by (simp add: rx_replace_from.simps Cons_nth_drop_Suc)
  qed
qed

text \<open>No secret-named property keeps its value, however deep.\<close>

fun secrets_hidden :: "jsval \<Rightarrow> bool" where
  "secrets_hidden (JArray vs) = list_all secrets_hidden vs"
| "secrets_hidden (JObject props) =
     list_all (\<lambda>kv. (secret_key (fst kv) \<longrightarrow> snd kv = JString ''[REDACTED]'') \<and> secrets_hidden (snd kv)) props"
| "secrets_hidden v = True"

lemma redactValue_secrets_hidden: "secrets_hidden (redactValue v)"
  by (induction v rule: redactValue.induct) (auto simp: list_all_iff)

text \<open>Redaction keeps a value one that canonical JSON accepts.\<close>

lemma redactValue_keys_distinct: "distinct_keys v \<Longrightarrow> distinct_keys (redactValue v)"
  by (induction v rule: redactValue.induct) (auto simp: list_all_iff comp_def)

lemma redactValue_json_carries: "json_carries v \<Longrightarrow> json_carries (redactValue v)"
proof (induction v rule: redactValue.induct)
  case (3 props)
  then show ?case by (fastforce simp: list_all_iff)
qed (auto simp: list_all_iff)

subsection \<open>Bounded text\<close>

text \<open>\<open>String(n)\<close> of a natural number.\<close>

fun decimal :: "nat \<Rightarrow> string" where
  "decimal n = (if n < 10 then [char_of (48 + n)] else decimal (n div 10) @ [char_of (48 + n mod 10)])"

declare decimal.simps [simp del]

text \<open>
  A character stands for its code point, which is below 256: it takes one byte of UTF-8, or two.
  A character whose second byte is cut off decodes to U+FFFD, which \<open>REPLACEMENT\<close> stands for.
\<close>

definition utf8_width :: "char \<Rightarrow> nat" where
  "utf8_width c = (if (of_char c :: nat) < 128 then 1 else 2)"

definition utf8_length :: "string \<Rightarrow> nat" where
  "utf8_length s = sum_list (map utf8_width s)"

definition REPLACEMENT :: char where
  "REPLACEMENT = CHR ''?''"

fun utf8_prefix :: "nat \<Rightarrow> string \<Rightarrow> string" where
  "utf8_prefix n [] = []"
| "utf8_prefix n (c # cs) =
     (if utf8_width c \<le> n then c # utf8_prefix (n - utf8_width c) cs
      else if n = 0 then [] else [REPLACEMENT])"

definition boundText :: "string \<Rightarrow> nat \<Rightarrow> string" where
  "boundText input maxBytes =
     (let redacted = redactText input; bytes = utf8_length redacted in
      if bytes \<le> maxBytes then redacted
      else utf8_prefix maxBytes redacted @ CHR 0x0A # ''[TRUNCATED '' @ decimal (bytes - maxBytes) @ '' BYTES]'')"

lemma utf8_length_Cons [simp]: "utf8_length (c # cs) = utf8_width c + utf8_length cs"
  and utf8_length_Nil [simp]: "utf8_length [] = 0"
  by (simp_all add: utf8_length_def)

text \<open>Text in one-byte characters keeps exactly the bytes allowed, so the notice makes it longer.\<close>

lemma utf8_prefix_ascii:
  "list_all (\<lambda>c. utf8_width c = 1) s \<Longrightarrow> utf8_prefix n s = take n s"
  by (induction n s rule: utf8_prefix.induct) (auto simp: take_Cons')

lemma utf8_length_ascii: "list_all (\<lambda>c. utf8_width c = 1) s \<Longrightarrow> utf8_length s = length s"
  by (induction s) auto

lemma boundText_truncated:
  assumes "list_all (\<lambda>c. utf8_width c = 1) (redactText s)" "n < length (redactText s)"
  shows "n < length (boundText s n)"
  using assms by (simp add: boundText_def Let_def utf8_length_ascii utf8_prefix_ascii)

lemma boundText_within:
  assumes "utf8_length (redactText s) \<le> n" shows "boundText s n = redactText s"
  using assms by (simp add: boundText_def)

end
