(* ===== verification/Run_Domain.thy ===== *)
theory Run_Domain
  imports Redaction
begin

text \<open>
  \<open>src/domain/run.ts\<close> and \<open>src/domain/artifact.ts\<close>: build runs, slot leases, proven artifacts,
  the candidate ranking, and the \<open>candidate.proven\<close> outbox event.  A zod schema becomes a
  record (its object shape, literals left out), a shape predicate (the field checks) and, for a
  \<open>superRefine\<close>, the list of issues it adds in the order it adds them; a value parses when the
  shape holds and no issue is added.  Times the stores themselves take from the clock are
  milliseconds since the epoch (\<open>toISOString\<close> text has fixed width, so SQL's text comparison is
  the numeric one); times that arrive inside documents stay strings.
\<close>

type_synonym time = int

text \<open>The successive readings of the clock within one operation.\<close>

type_synonym clock = "nat \<Rightarrow> time"

datatype run_status =
    RunQueued | RunRunning | RunPassed | RunRejected | RunFailed | RunCancelled

datatype run_stage =
    StageQueued | StageProvisioning | StageGenerating | StageVerifying | StageReviewing
  | StageEvaluating | StageFinalizing | StageComplete

datatype sandbox_purpose = PurposeCommands | PurposeDelivery

definition TERMINAL_STATUSES :: "run_status set" where
  "TERMINAL_STATUSES = {RunPassed, RunRejected, RunFailed, RunCancelled}"

definition isTerminalStatus :: "run_status \<Rightarrow> bool" where
  "isTerminalStatus s \<longleftrightarrow> s \<in> TERMINAL_STATUSES"

record build_run =
  br_id :: string
  br_assignment_id :: string
  br_assignment_hash :: string
  br_project_id :: string
  br_candidate_id :: string
  br_contract_hash :: string
  br_status :: run_status
  br_stage :: run_stage
  br_slot_id :: "nat option"
  br_fencing_token :: "nat option"
  br_sandbox_id :: "string option"
  br_builder_sandbox_id :: "string option"
  br_verification_sandbox_id :: "string option"
  br_verification_purpose :: "sandbox_purpose option"
  br_revision_hash :: "string option"
  br_preview_port :: "int option"
  br_cancel_requested :: bool
  br_error_code :: "string option"
  br_error_message :: "string option"
  br_created_at :: time
  br_updated_at :: time
  br_completed_at :: "time option"

record slot_lease =
  sl_slot_id :: nat
  sl_run_id :: string
  sl_fencing_token :: nat
  sl_expires_at :: time

record run_event =
  ev_sequence :: nat
  ev_run_id :: string
  ev_type :: string
  ev_stage :: run_stage
  ev_payload :: jsval
  ev_created_at :: time

datatype agent_tool =
    ToolFinish | ToolListFiles | ToolReadFile | ToolRunCommand | ToolStartPreview
  | ToolUnknown | ToolWriteFile | ToolWriteFiles

record agent_progress =
  ap_step :: int
  ap_repair_round :: int
  ap_tool_name :: agent_tool
  ap_ok :: bool

definition agent_progress_ok :: "agent_progress \<Rightarrow> bool" where
  "agent_progress_ok p \<longleftrightarrow> 1 \<le> ap_step p \<and> ap_step p \<le> 200
     \<and> 0 \<le> ap_repair_round p \<and> ap_repair_round p \<le> 10"

record recovered_run =
  rr_run_id :: string
  rr_sandbox_ids :: "string list"
  rr_newly_recovered :: bool

subsection \<open>Identifiers and digests\<close>

definition id_tail :: "char \<Rightarrow> bool" where
  "id_tail c \<longleftrightarrow> is_alnum c \<or> one_of ''._:-'' c"

text \<open>\<open>z.string().min(lo).max(hi).regex(/^[A-Za-z0-9][A-Za-z0-9._:-]*$/)\<close>.\<close>

definition entity_id :: "nat \<Rightarrow> nat \<Rightarrow> string \<Rightarrow> bool" where
  "entity_id lo hi s \<longleftrightarrow> lo \<le> length s \<and> length s \<le> hi \<and>
     (case s of [] \<Rightarrow> False | c # cs \<Rightarrow> is_alnum c \<and> list_all id_tail cs)"

definition is_hex :: "char \<Rightarrow> bool" where
  "is_hex c \<longleftrightarrow> in_range (CHR ''a'') (CHR ''f'') c \<or> is_digit c"

text \<open>\<open>/^[a-f0-9]{64}$/\<close>.\<close>

definition sha256_text :: "string \<Rightarrow> bool" where
  "sha256_text s \<longleftrightarrow> length s = 64 \<and> list_all is_hex s"

definition str_between :: "nat \<Rightarrow> nat \<Rightarrow> string \<Rightarrow> bool" where
  "str_between lo hi s \<longleftrightarrow> lo \<le> length s \<and> length s \<le> hi"

definition int_between :: "int \<Rightarrow> int \<Rightarrow> int \<Rightarrow> bool" where
  "int_between lo hi n \<longleftrightarrow> lo \<le> n \<and> n \<le> hi"

text \<open>\<open>String.prototype.trim\<close>.\<close>

definition trim :: "string \<Rightarrow> string" where
  "trim s = rev (dropWhile is_space (rev (dropWhile is_space s)))"

definition opt_all :: "('a \<Rightarrow> bool) \<Rightarrow> 'a option \<Rightarrow> bool" where
  "opt_all P v = (case v of None \<Rightarrow> True | Some x \<Rightarrow> P x)"

lemma opt_all_simps [simp]: "opt_all P None" "opt_all P (Some x) = P x"
  by (simp_all add: opt_all_def)

lemma sha256_text_nonempty: "sha256_text s \<Longrightarrow> s \<noteq> []"
  by (auto simp: sha256_text_def)

subsection \<open>Artifacts and the outbox event\<close>

definition artifactDownloadPath :: "string \<Rightarrow> string \<Rightarrow> string" where
  "artifactDownloadPath runId artifactId = ''/v1/build-runs/'' @ runId @ ''/artifacts/'' @ artifactId"

record proven_artifact =
  pa_artifact_id :: string
  pa_run_id :: string
  pa_revision_hash :: string
  pa_uri :: string
  pa_sha256 :: string
  pa_size_bytes :: int
  pa_daytona_snapshot :: string
  pa_created_at :: string

definition artifactArchiveFilename :: "proven_artifact \<Rightarrow> string" where
  "artifactArchiveFilename a =
     pa_run_id a @ ''-'' @ take 16 (pa_revision_hash a) @ ''-'' @ pa_artifact_id a @ ''.tar.gz''"

definition artifact_shape :: "runtime \<Rightarrow> proven_artifact \<Rightarrow> bool" where
  "artifact_shape R a \<longleftrightarrow> rt_is_uuid R (pa_artifact_id a) \<and> rt_is_uuid R (pa_run_id a)
     \<and> sha256_text (pa_revision_hash a)
     \<and> starts_with ''/v1/build-runs/'' (pa_uri a) \<and> length (pa_uri a) \<le> 512
     \<and> sha256_text (pa_sha256 a) \<and> 0 < pa_size_bytes a
     \<and> str_between 1 128 (pa_daytona_snapshot a) \<and> rt_is_datetime R (pa_created_at a)"

definition artifact_issues :: "proven_artifact \<Rightarrow> string list" where
  "artifact_issues a =
     issue_if (pa_uri a \<noteq> artifactDownloadPath (pa_run_id a) (pa_artifact_id a))
       ''Artifact URI does not match its run and artifact identity''"

definition ProvenArtifact_ok :: "runtime \<Rightarrow> proven_artifact \<Rightarrow> bool" where
  "ProvenArtifact_ok R a \<longleftrightarrow> artifact_shape R a \<and> artifact_issues a = []"

definition CANDIDATE_RANKING_POLICY_VERSION :: string where
  "CANDIDATE_RANKING_POLICY_VERSION = ''braintrust-preference-v1''"

record candidate_ranking =
  rk_preference_satisfaction :: rat
  rk_score_tuple :: "rat list"
  rk_trace_id :: string

definition trace_id_shape :: "string \<Rightarrow> bool" where
  "trace_id_shape s = str_between 1 512 s"

definition ranking_shape :: "candidate_ranking \<Rightarrow> bool" where
  "ranking_shape r \<longleftrightarrow> 0 \<le> rk_preference_satisfaction r \<and> rk_preference_satisfaction r \<le> 1
     \<and> length (rk_score_tuple r) = 1
     \<and> list_all (\<lambda>x. 0 \<le> x \<and> x \<le> 1) (rk_score_tuple r) \<and> trace_id_shape (rk_trace_id r)"

definition ranking_issues :: "candidate_ranking \<Rightarrow> string list" where
  "ranking_issues r =
     issue_if (hd (rk_score_tuple r) \<noteq> rk_preference_satisfaction r)
       ''Ranking score tuple does not match the policy's named preference score''"

definition CandidateRanking_ok :: "candidate_ranking \<Rightarrow> bool" where
  "CandidateRanking_ok r \<longleftrightarrow> ranking_shape r \<and> ranking_issues r = []"

record candidate_proven_payload =
  cp_run_id :: string
  cp_project_id :: string
  cp_candidate_id :: string
  cp_contract_hash :: string
  cp_revision_hash :: string
  cp_sandbox_id :: string
  cp_preview_port :: int
  cp_artifact :: proven_artifact
  cp_trace_id :: string
  cp_ranking :: candidate_ranking

definition payload_shape :: "runtime \<Rightarrow> candidate_proven_payload \<Rightarrow> bool" where
  "payload_shape R p \<longleftrightarrow> rt_is_uuid R (cp_run_id p) \<and> entity_id 1 128 (cp_project_id p)
     \<and> entity_id 1 128 (cp_candidate_id p) \<and> sha256_text (cp_contract_hash p)
     \<and> sha256_text (cp_revision_hash p) \<and> str_between 1 512 (cp_sandbox_id p)
     \<and> int_between 1 65535 (cp_preview_port p) \<and> ProvenArtifact_ok R (cp_artifact p)
     \<and> trace_id_shape (cp_trace_id p) \<and> CandidateRanking_ok (cp_ranking p)"

definition payload_issues :: "candidate_proven_payload \<Rightarrow> string list" where
  "payload_issues p =
     issue_if (pa_run_id (cp_artifact p) \<noteq> cp_run_id p)
       ''Artifact run identity does not match the proven candidate'' @
     issue_if (pa_revision_hash (cp_artifact p) \<noteq> cp_revision_hash p)
       ''Artifact revision does not match the proven candidate'' @
     issue_if (rk_trace_id (cp_ranking p) \<noteq> cp_trace_id p)
       ''Ranking trace does not match the proven candidate trace''"

definition CandidateProvenPayload_ok :: "runtime \<Rightarrow> candidate_proven_payload \<Rightarrow> bool" where
  "CandidateProvenPayload_ok R p \<longleftrightarrow> payload_shape R p \<and> payload_issues p = []"

record outbox_event =
  ob_event_id :: string
  ob_type :: string
  ob_run_id :: string
  ob_revision_hash :: string
  ob_trace_id :: string
  ob_payload :: candidate_proven_payload
  ob_created_at :: time
  ob_published_at :: "time option"

definition outbox_shape :: "runtime \<Rightarrow> outbox_event \<Rightarrow> bool" where
  "outbox_shape R e \<longleftrightarrow> rt_is_uuid R (ob_event_id e) \<and> ob_type e = ''candidate.proven''
     \<and> rt_is_uuid R (ob_run_id e) \<and> sha256_text (ob_revision_hash e)
     \<and> trace_id_shape (ob_trace_id e) \<and> CandidateProvenPayload_ok R (ob_payload e)"

definition outbox_issues :: "outbox_event \<Rightarrow> string list" where
  "outbox_issues e =
     issue_if (cp_run_id (ob_payload e) \<noteq> ob_run_id e)
       ''Outbox run identity does not match its payload'' @
     issue_if (cp_revision_hash (ob_payload e) \<noteq> ob_revision_hash e)
       ''Outbox revision does not match its payload'' @
     issue_if (cp_trace_id (ob_payload e) \<noteq> ob_trace_id e)
       ''Outbox trace does not match its payload''"

definition OutboxEvent_ok :: "runtime \<Rightarrow> outbox_event \<Rightarrow> bool" where
  "OutboxEvent_ok R e \<longleftrightarrow> outbox_shape R e \<and> outbox_issues e = []"

text \<open>Every identity inside an accepted outbox event agrees with every other.\<close>

lemma OutboxEvent_identities:
  assumes "OutboxEvent_ok R e"
  shows "cp_run_id (ob_payload e) = ob_run_id e"
    and "pa_run_id (cp_artifact (ob_payload e)) = ob_run_id e"
    and "cp_revision_hash (ob_payload e) = ob_revision_hash e"
    and "pa_revision_hash (cp_artifact (ob_payload e)) = ob_revision_hash e"
    and "rk_trace_id (cp_ranking (ob_payload e)) = ob_trace_id e"
    and "pa_uri (cp_artifact (ob_payload e)) =
      artifactDownloadPath (ob_run_id e) (pa_artifact_id (cp_artifact (ob_payload e)))"
  using assms
  by (auto simp: OutboxEvent_ok_def outbox_shape_def outbox_issues_def CandidateProvenPayload_ok_def
      payload_shape_def payload_issues_def ProvenArtifact_ok_def artifact_issues_def)

subsection \<open>The JSON the stores write\<close>

definition artifact_json :: "proven_artifact \<Rightarrow> jsval" where
  "artifact_json a = JObject
     [(''artifactId'', JString (pa_artifact_id a)), (''runId'', JString (pa_run_id a)),
      (''revisionHash'', JString (pa_revision_hash a)), (''format'', JString ''tar.gz''),
      (''uri'', JString (pa_uri a)), (''sha256'', JString (pa_sha256 a)),
      (''sizeBytes'', JNumber (of_int (pa_size_bytes a))),
      (''dockerfilePath'', JString ''Dockerfile''),
      (''daytonaSnapshot'', JString (pa_daytona_snapshot a)), (''createdAt'', JString (pa_created_at a))]"

definition ranking_json :: "candidate_ranking \<Rightarrow> jsval" where
  "ranking_json r = JObject
     [(''provider'', JString ''braintrust''),
      (''policyVersion'', JString CANDIDATE_RANKING_POLICY_VERSION),
      (''preferenceSatisfaction'', JNumber (rk_preference_satisfaction r)),
      (''scoreTuple'', JArray (map JNumber (rk_score_tuple r))),
      (''traceId'', JString (rk_trace_id r))]"

definition payload_json :: "candidate_proven_payload \<Rightarrow> jsval" where
  "payload_json p = JObject
     [(''runId'', JString (cp_run_id p)), (''projectId'', JString (cp_project_id p)),
      (''candidateId'', JString (cp_candidate_id p)), (''contractHash'', JString (cp_contract_hash p)),
      (''revisionHash'', JString (cp_revision_hash p)), (''sandboxId'', JString (cp_sandbox_id p)),
      (''previewPort'', JNumber (of_int (cp_preview_port p))), (''artifact'', artifact_json (cp_artifact p)),
      (''traceId'', JString (cp_trace_id p)), (''ranking'', ranking_json (cp_ranking p))]"

end
