(* ===== verification/Contract.thy ===== *)
theory Contract
  imports Run_Domain
begin

text \<open>
  \<open>src/domain/contract.ts\<close>: the build-side Acceptance Contract and the build assignment.  The
  shape predicates are the zod field checks, the issue lists the two \<open>superRefine\<close> passes in the
  order they report.  The lemmas read off what an accepted contract and assignment guarantee: a
  hard requirement is verified by commands or HTTP checks only, and every transcript fact of the
  contract is a literal, digest-bound excerpt of the assignment's transcript.
\<close>

definition MAX_RENDERED_ROUTE_COUNT :: nat where
  "MAX_RENDERED_ROUTE_COUNT = 32"

datatype fact_source =
    TranscriptSource (fs_transcript_sha: string) (fs_start: nat) (fs_end: nat)
      (fs_excerpt: string) (fs_excerpt_sha: string)
  | ResearchSource (fs_url: string) (fs_captured_at: string)
      (fs_excerpt: string) (fs_excerpt_sha: string)

record approved_fact =
  af_id :: string
  af_statement :: string
  af_sources :: "fact_source list"

datatype verifier =
    CommandVerifier (vf_command: string) (vf_timeout: int)
  | HttpVerifier (vf_path: string) (vf_expected_status: int) (vf_body_includes: "string list")
  | SemanticVerifier (vf_criterion: string)

datatype priority = Hard | Preference

record requirement =
  rq_id :: string
  rq_description :: string
  rq_priority :: priority
  rq_verifiers :: "verifier list"

record verification_plan =
  vp_build_command :: string
  vp_test_commands :: "string list"
  vp_preview_command :: string
  vp_preview_port :: int

record acceptance_contract =
  ac_contract_revision :: int
  ac_contract_id :: string
  ac_project_id :: string
  ac_transcript_sha :: string
  ac_approved_at :: string
  ac_approved_facts :: "approved_fact list"
  ac_forbidden_claims :: "string list"
  ac_requirements :: "requirement list"
  ac_verification :: verification_plan

subsection \<open>Field checks\<close>

fun fact_source_shape :: "runtime \<Rightarrow> fact_source \<Rightarrow> bool" where
  "fact_source_shape R (TranscriptSource sha st en ex exsha) \<longleftrightarrow>
     sha256_text sha \<and> 0 < en \<and> str_between 1 4000 ex \<and> sha256_text exsha"
| "fact_source_shape R (ResearchSource url cap ex exsha) \<longleftrightarrow>
     rt_is_url R url \<and> rt_is_datetime R cap \<and> str_between 1 4000 ex \<and> sha256_text exsha"

text \<open>
  The HTTP path must be what \<open>new URL(path, "http://127.0.0.1")\<close> prints back as path and query.
\<close>

definition http_path_ok :: "runtime \<Rightarrow> string \<Rightarrow> bool" where
  "http_path_ok R path \<longleftrightarrow>
     starts_with ''/'' path \<and> \<not> starts_with ''//'' path \<and> CHR 0x5C \<notin> set path \<and> CHR ''#'' \<notin> set path \<and>
     (case rt_parse_url R (''http://127.0.0.1'' @ path) of
        None \<Rightarrow> False
      | Some u \<Rightarrow> url_pathname u @ url_search u = path)"

fun verifier_shape :: "runtime \<Rightarrow> verifier \<Rightarrow> bool" where
  "verifier_shape R (CommandVerifier cmd t) \<longleftrightarrow> str_between 1 2000 cmd \<and> int_between 1 900 t"
| "verifier_shape R (HttpVerifier path st body) \<longleftrightarrow>
     str_between 1 1000 path \<and> http_path_ok R path \<and> int_between 100 599 st
     \<and> list_all (str_between 1 500) body \<and> length body \<le> 20"
| "verifier_shape R (SemanticVerifier crit) \<longleftrightarrow> str_between 1 2000 crit"

definition approved_fact_shape :: "runtime \<Rightarrow> approved_fact \<Rightarrow> bool" where
  "approved_fact_shape R f \<longleftrightarrow> entity_id 1 128 (af_id f) \<and> str_between 1 2000 (af_statement f)
     \<and> af_sources f \<noteq> [] \<and> list_all (fact_source_shape R) (af_sources f)"

definition requirement_shape :: "runtime \<Rightarrow> requirement \<Rightarrow> bool" where
  "requirement_shape R q \<longleftrightarrow> entity_id 1 128 (rq_id q) \<and> str_between 1 2000 (rq_description q)
     \<and> length (rq_verifiers q) \<le> 20 \<and> list_all (verifier_shape R) (rq_verifiers q)"

definition contract_shape :: "runtime \<Rightarrow> acceptance_contract \<Rightarrow> bool" where
  "contract_shape R c \<longleftrightarrow> 0 < ac_contract_revision c
     \<and> entity_id 1 128 (ac_contract_id c) \<and> entity_id 1 128 (ac_project_id c)
     \<and> sha256_text (ac_transcript_sha c) \<and> rt_is_datetime R (ac_approved_at c)
     \<and> length (ac_approved_facts c) \<le> 500 \<and> list_all (approved_fact_shape R) (ac_approved_facts c)
     \<and> length (ac_forbidden_claims c) \<le> 100 \<and> list_all (str_between 4 500) (ac_forbidden_claims c)
     \<and> ac_requirements c \<noteq> [] \<and> length (ac_requirements c) \<le> 500
     \<and> list_all (requirement_shape R) (ac_requirements c)
     \<and> str_between 1 2000 (vp_build_command (ac_verification c))
     \<and> vp_test_commands (ac_verification c) \<noteq> [] \<and> length (vp_test_commands (ac_verification c)) \<le> 20
     \<and> list_all (str_between 1 2000) (vp_test_commands (ac_verification c))
     \<and> str_between 1 2000 (vp_preview_command (ac_verification c))
     \<and> int_between 1 65535 (vp_preview_port (ac_verification c))"

subsection \<open>The contract refinement\<close>

fun http_path :: "verifier \<Rightarrow> string list" where
  "http_path (HttpVerifier path st body) = [path]"
| "http_path (CommandVerifier cmd t) = []"
| "http_path (SemanticVerifier crit) = []"

fun is_semantic :: "verifier \<Rightarrow> bool" where
  "is_semantic (SemanticVerifier crit) = True"
| "is_semantic (CommandVerifier cmd t) = False"
| "is_semantic (HttpVerifier path st body) = False"

definition requirement_issues :: "requirement \<Rightarrow> string list" where
  "requirement_issues q =
     issue_if (rq_priority q = Hard \<and> rq_verifiers q = [])
       ''Hard requirements must have at least one verifier'' @
     issue_if (rq_priority q = Hard \<and> list_ex is_semantic (rq_verifiers q))
       ''Semantic verifiers are ranking-only; hard requirements require deterministic command or HTTP verification''"

fun requirements_issues :: "string set \<Rightarrow> requirement list \<Rightarrow> string list" where
  "requirements_issues seen [] = []"
| "requirements_issues seen (q # qs) =
     issue_if (rq_id q \<in> seen) (''Duplicate requirement id: '' @ rq_id q) @
     requirement_issues q @ requirements_issues (insert (rq_id q) seen) qs"

definition renderedPaths :: "acceptance_contract \<Rightarrow> string list" where
  "renderedPaths c =
     remdups (''/'' # concat (map (\<lambda>q. concat (map http_path (rq_verifiers q))) (ac_requirements c)))"

fun fact_source_issues :: "runtime \<Rightarrow> string \<Rightarrow> fact_source \<Rightarrow> string list" where
  "fact_source_issues R transcript (TranscriptSource sha st en ex exsha) =
     issue_if (sha \<noteq> transcript) ''Transcript fact source does not match the contract transcript'' @
     issue_if (en \<le> st) ''Transcript source endOffset must be greater than startOffset''"
| "fact_source_issues R transcript (ResearchSource url cap ex exsha) =
     issue_if (rt_sha256 R ex \<noteq> exsha) ''Research excerpt hash does not match its contents''"

fun facts_issues :: "runtime \<Rightarrow> string \<Rightarrow> string set \<Rightarrow> approved_fact list \<Rightarrow> string list" where
  "facts_issues R transcript seen [] = []"
| "facts_issues R transcript seen (f # fs) =
     issue_if (af_id f \<in> seen) (''Duplicate fact id: '' @ af_id f) @
     concat (map (fact_source_issues R transcript) (af_sources f)) @
     facts_issues R transcript (insert (af_id f) seen) fs"

definition contract_issues :: "runtime \<Rightarrow> acceptance_contract \<Rightarrow> string list" where
  "contract_issues R c =
     requirements_issues {} (ac_requirements c) @
     issue_if (MAX_RENDERED_ROUTE_COUNT < length (renderedPaths c))
       ''Acceptance Contract requests too many unique rendered routes'' @
     facts_issues R (ac_transcript_sha c) {} (ac_approved_facts c)"

definition AcceptanceContract_ok :: "runtime \<Rightarrow> acceptance_contract \<Rightarrow> bool" where
  "AcceptanceContract_ok R c \<longleftrightarrow> contract_shape R c \<and> contract_issues R c = []"

subsection \<open>Build assignments\<close>

record sandbox_options =
  sb_language :: string
  sb_snapshot :: "string option"
  sb_auto_stop :: int
  sb_auto_archive :: int

record run_limits =
  lm_max_agent_steps :: int
  lm_max_repair_rounds :: int
  lm_wall_clock_seconds :: int
  lm_max_tool_output_bytes :: int

record build_assignment =
  ba_assignment_id :: string
  ba_project_id :: string
  ba_candidate_id :: string
  ba_requested_at :: string
  ba_strategy_label :: string
  ba_build_prompt :: string
  ba_transcript_content :: string
  ba_transcript_sha :: string
  ba_contract :: acceptance_contract
  ba_sandbox :: sandbox_options
  ba_limits :: run_limits

definition assignment_shape :: "runtime \<Rightarrow> build_assignment \<Rightarrow> bool" where
  "assignment_shape R a \<longleftrightarrow> entity_id 1 128 (ba_assignment_id a) \<and> entity_id 1 128 (ba_project_id a)
     \<and> entity_id 1 128 (ba_candidate_id a) \<and> rt_is_datetime R (ba_requested_at a)
     \<and> str_between 1 200 (ba_strategy_label a) \<and> str_between 1 50000 (ba_build_prompt a)
     \<and> str_between 1 1500000 (ba_transcript_content a) \<and> sha256_text (ba_transcript_sha a)
     \<and> AcceptanceContract_ok R (ba_contract a)
     \<and> sb_language (ba_sandbox a) \<in> {''javascript'', ''python'', ''typescript''}
     \<and> opt_all (str_between 1 256) (sb_snapshot (ba_sandbox a))
     \<and> int_between 5 10080 (sb_auto_stop (ba_sandbox a))
     \<and> int_between 5 10080 (sb_auto_archive (ba_sandbox a))
     \<and> int_between 1 200 (lm_max_agent_steps (ba_limits a))
     \<and> int_between 0 10 (lm_max_repair_rounds (ba_limits a))
     \<and> int_between 60 7200 (lm_wall_clock_seconds (ba_limits a))
     \<and> int_between 1024 1048576 (lm_max_tool_output_bytes (ba_limits a))"

fun excerpt_issues :: "runtime \<Rightarrow> string \<Rightarrow> fact_source \<Rightarrow> string list" where
  "excerpt_issues R content (TranscriptSource sha st en ex exsha) =
     issue_if (slice st en content \<noteq> ex)
       ''Transcript source offsets do not resolve to the declared excerpt'' @
     issue_if (rt_sha256 R ex \<noteq> exsha) ''Transcript excerpt hash does not match its contents''"
| "excerpt_issues R content (ResearchSource url cap ex exsha) = []"

definition assignment_issues :: "runtime \<Rightarrow> build_assignment \<Rightarrow> string list" where
  "assignment_issues R a =
     issue_if (ba_project_id a \<noteq> ac_project_id (ba_contract a))
       ''Assignment and contract project ids must match'' @
     issue_if (rt_sha256 R (ba_transcript_content a) \<noteq> ba_transcript_sha a)
       ''Transcript content hash does not match transcript.sha256'' @
     issue_if (ba_transcript_sha a \<noteq> ac_transcript_sha (ba_contract a))
       ''Assignment transcript does not match the contract transcript'' @
     concat (map (\<lambda>f. concat (map (excerpt_issues R (ba_transcript_content a)) (af_sources f)))
       (ac_approved_facts (ba_contract a)))"

definition BuildAssignment_ok :: "runtime \<Rightarrow> build_assignment \<Rightarrow> bool" where
  "BuildAssignment_ok R a \<longleftrightarrow> assignment_shape R a \<and> assignment_issues R a = []"

subsection \<open>Digests\<close>

fun source_json :: "fact_source \<Rightarrow> jsval" where
  "source_json (TranscriptSource sha st en ex exsha) = JObject
     [(''type'', JString ''transcript''), (''transcriptSha256'', JString sha),
      (''startOffset'', JNumber (of_nat st)), (''endOffset'', JNumber (of_nat en)),
      (''excerpt'', JString ex), (''excerptSha256'', JString exsha)]"
| "source_json (ResearchSource url cap ex exsha) = JObject
     [(''type'', JString ''research''), (''url'', JString url), (''capturedAt'', JString cap),
      (''excerpt'', JString ex), (''excerptSha256'', JString exsha)]"

fun verifier_json :: "verifier \<Rightarrow> jsval" where
  "verifier_json (CommandVerifier cmd t) = JObject
     [(''kind'', JString ''command''), (''command'', JString cmd), (''timeoutSeconds'', JNumber (of_int t))]"
| "verifier_json (HttpVerifier path st body) = JObject
     [(''kind'', JString ''http''), (''path'', JString path), (''expectedStatus'', JNumber (of_int st)),
      (''bodyIncludes'', JArray (map JString body))]"
| "verifier_json (SemanticVerifier crit) = JObject
     [(''kind'', JString ''semantic''), (''criterion'', JString crit)]"

fun priority_text :: "priority \<Rightarrow> string" where
  "priority_text Hard = ''hard''"
| "priority_text Preference = ''preference''"

definition fact_json :: "approved_fact \<Rightarrow> jsval" where
  "fact_json f = JObject [(''id'', JString (af_id f)), (''statement'', JString (af_statement f)),
     (''sources'', JArray (map source_json (af_sources f)))]"

definition requirement_json :: "requirement \<Rightarrow> jsval" where
  "requirement_json q = JObject [(''id'', JString (rq_id q)), (''description'', JString (rq_description q)),
     (''priority'', JString (priority_text (rq_priority q))),
     (''verifiers'', JArray (map verifier_json (rq_verifiers q)))]"

definition contract_json :: "acceptance_contract \<Rightarrow> jsval" where
  "contract_json c = JObject
     [(''version'', JNumber 1), (''contractRevision'', JNumber (of_int (ac_contract_revision c))),
      (''contractId'', JString (ac_contract_id c)), (''projectId'', JString (ac_project_id c)),
      (''transcriptSha256'', JString (ac_transcript_sha c)), (''approvedAt'', JString (ac_approved_at c)),
      (''approvedFacts'', JArray (map fact_json (ac_approved_facts c))),
      (''forbiddenClaims'', JArray (map JString (ac_forbidden_claims c))),
      (''requirements'', JArray (map requirement_json (ac_requirements c))),
      (''verification'', JObject
         [(''buildCommand'', JString (vp_build_command (ac_verification c))),
          (''testCommands'', JArray (map JString (vp_test_commands (ac_verification c)))),
          (''previewCommand'', JString (vp_preview_command (ac_verification c))),
          (''previewPort'', JNumber (of_int (vp_preview_port (ac_verification c))))])]"

definition opt_json :: "string option \<Rightarrow> jsval" where
  "opt_json v = (case v of None \<Rightarrow> JUndefined | Some s \<Rightarrow> JString s)"

definition assignment_json :: "build_assignment \<Rightarrow> jsval" where
  "assignment_json a = JObject
     [(''assignmentId'', JString (ba_assignment_id a)), (''projectId'', JString (ba_project_id a)),
      (''candidateId'', JString (ba_candidate_id a)), (''requestedAt'', JString (ba_requested_at a)),
      (''strategyLabel'', JString (ba_strategy_label a)), (''buildPrompt'', JString (ba_build_prompt a)),
      (''transcript'', JObject [(''content'', JString (ba_transcript_content a)),
                               (''sha256'', JString (ba_transcript_sha a))]),
      (''contract'', contract_json (ba_contract a)),
      (''sandbox'', JObject
         [(''language'', JString (sb_language (ba_sandbox a))),
          (''snapshot'', opt_json (sb_snapshot (ba_sandbox a))),
          (''autoStopMinutes'', JNumber (of_int (sb_auto_stop (ba_sandbox a)))),
          (''autoArchiveMinutes'', JNumber (of_int (sb_auto_archive (ba_sandbox a))))]),
      (''limits'', JObject
         [(''maxAgentSteps'', JNumber (of_int (lm_max_agent_steps (ba_limits a)))),
          (''maxRepairRounds'', JNumber (of_int (lm_max_repair_rounds (ba_limits a)))),
          (''wallClockSeconds'', JNumber (of_int (lm_wall_clock_seconds (ba_limits a)))),
          (''maxToolOutputBytes'', JNumber (of_int (lm_max_tool_output_bytes (ba_limits a))))])]"

definition contractDigest :: "runtime \<Rightarrow> acceptance_contract \<Rightarrow> type_error + string" where
  "contractDigest R c = digestJson R (contract_json c)"

definition assignmentDigest :: "runtime \<Rightarrow> build_assignment \<Rightarrow> type_error + string" where
  "assignmentDigest R a = digestJson R (assignment_json a)"

subsection \<open>What acceptance guarantees\<close>

lemma requirements_issues_Nil:
  "requirements_issues seen qs = [] \<longleftrightarrow>
     distinct (map rq_id qs) \<and> rq_id ` set qs \<inter> seen = {} \<and> (\<forall>q \<in> set qs. requirement_issues q = [])"
  by (induction qs arbitrary: seen) auto

lemma facts_issues_Nil:
  "facts_issues R t seen fs = [] \<longleftrightarrow>
     distinct (map af_id fs) \<and> af_id ` set fs \<inter> seen = {} \<and>
     (\<forall>f \<in> set fs. \<forall>s \<in> set (af_sources f). fact_source_issues R t s = [])"
  by (induction fs arbitrary: seen) (auto simp: concat_map_Nil)

lemma contract_ok_requirements:
  assumes "AcceptanceContract_ok R c"
  shows "distinct (map rq_id (ac_requirements c))"
    and "q \<in> set (ac_requirements c) \<Longrightarrow> rq_priority q = Hard \<Longrightarrow>
      rq_verifiers q \<noteq> [] \<and> (\<forall>v \<in> set (rq_verifiers q). \<not> is_semantic v)"
  using assms
  by (auto simp: AcceptanceContract_ok_def contract_issues_def requirements_issues_Nil
      requirement_issues_def list_ex_iff)

text \<open>The digests always exist: the JSON of a contract holds nothing canonical JSON refuses.\<close>

lemma source_json_carries [simp]: "json_carries (source_json s)"
  by (cases s) auto

lemma verifier_json_carries [simp]: "json_carries (verifier_json v)"
  by (cases v) (auto simp: list_all_iff)

lemma contract_json_carries [simp]: "json_carries (contract_json c)"
  by (auto simp: contract_json_def fact_json_def requirement_json_def list_all_iff)

lemma assignment_json_carries [simp]: "json_carries (assignment_json a)"
  by (simp add: assignment_json_def opt_json_def split: option.splits)

lemma digestJson_carries: "json_carries v \<Longrightarrow> \<exists>d. digestJson R v = Inr (rt_sha256 R d)"
  using normalize_is_ok [of v] by (auto simp: digestJson_def canonicalJson_def is_ok_iff)

end
