(* ===== verification/Evidence.thy ===== *)
theory Evidence
  imports Contract
begin

text \<open>
  \<open>src/domain/evidence.ts\<close>: the receipts the proof gate reads.  One record per receipt kind, each
  holding the common receipt header, and the union as a datatype.  The issue list of the raster
  receipt is its \<open>superRefine\<close>; the shape of the CodeRabbit attestation is its strict schema.  Not
  carried, because no code modelled here reads them: \<open>asyncExecution\<close> and the free-text \<open>error\<close> of a
  review.
\<close>

datatype evidence_status = EvPass | EvFail | EvError

record receipt_base =
  rb_receipt_id :: string
  rb_run_id :: string
  rb_revision_hash :: string
  rb_status :: evidence_status
  rb_started_at :: string
  rb_completed_at :: string
  rb_input_digest :: string
  rb_output_digest :: string

datatype command_kind =
    KindArtifact | KindBuild | KindContainerBuild | KindDependencyBootstrap
  | KindForbiddenClaim | KindTest | KindRequirementCommand

record command_receipt =
  cr_base :: receipt_base
  cr_kind :: command_kind
  cr_requirement_id :: "string option"
  cr_verifier_index :: "nat option"
  cr_forbidden_claim_indices :: "nat list option"
  cr_command :: string
  cr_exit_code :: "int option"
  cr_stdout :: string
  cr_stderr :: string
  cr_stdout_truncated :: bool
  cr_stderr_truncated :: bool
  cr_duration_ms :: nat

record preview_check =
  pc_requirement_id :: "string option"
  pc_verifier_index :: "nat option"
  pc_discovered :: bool
  pc_path :: string
  pc_expected_status :: int
  pc_actual_status :: "int option"
  pc_expected_text :: "string list"
  pc_missing_text :: "string list"
  pc_forbidden_claim_indices :: "nat list option"
  pc_visible_text_digest :: "string option"
  pc_screenshots :: "string list option"
  pc_non_html_media_type :: "string option"
  pc_error :: "string option"

record preview_receipt =
  pr_base :: receipt_base
  pr_checks :: "preview_check list"

datatype severity = SevCritical | SevMajor | SevMinor | SevTrivial | SevInfo

record review_finding =
  rf_severity :: severity
  rf_file_name :: string
  rf_message :: string
  rf_codegen_instructions :: "string option"
  rf_suggestions :: "string list option"
  rf_start_line :: "nat option"
  rf_end_line :: "nat option"
  rf_category :: "string option"
  rf_governing_invariant :: "string option"
  rf_controller_rule_id :: "string option"

record doctor_evidence =
  dr_passed :: nat
  dr_warnings :: nat
  dr_failed :: nat
  dr_digest :: string

record review_context =
  rc_review_type :: string
  rc_current_branch :: string
  rc_base_branch :: string
  rc_base_commit :: string
  rc_working_directory_digest :: string

datatype review_kind = AuthoritativeFull | AdvisoryLight

record review_scope =
  rs_review_kind :: review_kind
  rs_review_type :: string
  rs_current_branch :: string
  rs_base_branch :: string
  rs_base_commit :: string
  rs_working_directory_digest :: string
  rs_reviewed_file_count :: nat
  rs_reviewed_files_digest :: string

record review_capability =
  ca_state :: string
  ca_policy_pack_version :: string
  ca_policy_pack_digest :: string
  ca_cli_version :: string
  ca_cli_executable_digest :: string
  ca_root_help_digest :: string
  ca_review_help_digest :: string
  ca_review_flags_digest :: string
  ca_agent_jsonl :: bool
  ca_supported_event_kinds :: "string list"
  ca_review_flags :: "string list"
  ca_authenticated :: bool
  ca_doctor :: doctor_evidence
  ca_update_policy :: string
  ca_service_connectivity :: string
  ca_controller_config :: string
  ca_tool_support :: string

record event_counts =
  ec_review_context :: nat
  ec_status :: nat
  ec_heartbeat :: nat
  ec_finding :: nat
  ec_complete :: nat
  ec_error :: nat

record severity_counts =
  sc_critical :: nat
  sc_major :: nat
  sc_minor :: nat
  sc_trivial :: nat
  sc_info :: nat

record attestation_digests =
  ad_authority_key :: string
  ad_source :: string
  ad_contract :: string
  ad_review :: string
  ad_finding_set :: string
  ad_review_context :: string
  ad_scope :: string
  ad_policy_pack :: string
  ad_config_schema :: string
  ad_config :: string
  ad_rules :: string
  ad_policy :: string
  ad_tool_policy :: string
  ad_event_schema :: string
  ad_capability :: string
  ad_cli_before :: string
  ad_cli_after :: string
  ad_review_flags :: string

record review_attestation =
  at_schema_version :: int
  at_review_kind :: review_kind
  at_capability_state :: string
  at_digests :: attestation_digests
  at_review_context :: review_context
  at_scope :: review_scope
  at_policy_pack_version :: string
  at_capability :: review_capability
  at_cli_version :: string
  at_update_policy :: string
  at_authentication :: string
  at_doctor :: doctor_evidence
  at_service_connectivity :: string
  at_agent_jsonl :: bool
  at_terminal_state :: string
  at_event_counts :: event_counts
  at_attempts :: nat
  at_retry_reasons :: "string list"
  at_duration_ms :: nat
  at_severity_counts :: severity_counts
  at_category_counts :: "(string \<times> nat) list"
  at_configured_tools :: "string list"
  at_observed_tools :: "string list"
  at_tool_coverage :: string

record review_receipt =
  rv_base :: receipt_base
  rv_complete :: bool
  rv_findings :: "review_finding list"
  rv_policy_digest :: "string option"
  rv_expected_policy_digest :: "string option"
  rv_attestation :: "review_attestation option"
  rv_expected_attestation_digest :: "string option"

datatype evaluation_status = EvalPass | EvalFail | EvalUnverified

record requirement_evaluation =
  re_requirement_id :: string
  re_status :: evaluation_status
  re_explanation :: string
  re_evidence_refs :: "string list"

record braintrust_scores =
  bs_hard_requirements :: int
  bs_supported_business_facts :: int
  bs_evidence_grounding :: int
  bs_preference_satisfaction :: rat

record unsupported_claim =
  uc_claim :: string
  uc_location :: string
  uc_reason :: string

record evaluation_receipt =
  ve_base :: receipt_base
  ve_provider :: string
  ve_trace_provider :: string
  ve_trace_id :: string
  ve_scores :: braintrust_scores
  ve_requirements :: "requirement_evaluation list"
  ve_unsupported_claims :: "unsupported_claim list"
  ve_summary :: string

datatype raster_provider = RasterController | RasterFireworks

record raster_match =
  rm_asset_index :: nat
  rm_asset_sha :: string
  rm_claim_indices :: "nat list"

record raster_receipt =
  ra_base :: receipt_base
  ra_provider :: raster_provider
  ra_trace_id :: string
  ra_claim_set_digest :: string
  ra_fact_set_digest :: string
  ra_rendered_input_digest :: string
  ra_claim_indices :: "nat list"
  ra_asset_count :: nat
  ra_workspace_asset_count :: nat
  ra_rendered_asset_count :: nat
  ra_aggregate_bytes :: nat
  ra_asset_digests :: "string list"
  ra_model_input_digests :: "string list"
  ra_model_digest :: "string option"
  ra_matches :: "raster_match list"
  ra_unsupported :: "nat list"
  ra_unverified :: "nat list"
  ra_error_code :: "string option"

datatype evidence_receipt =
    CommandEv command_receipt
  | PreviewEv preview_receipt
  | ReviewEv review_receipt
  | EvaluationEv evaluation_receipt
  | RasterEv raster_receipt

fun receipt_header :: "evidence_receipt \<Rightarrow> receipt_base" where
  "receipt_header (CommandEv r) = cr_base r"
| "receipt_header (PreviewEv r) = pr_base r"
| "receipt_header (ReviewEv r) = rv_base r"
| "receipt_header (EvaluationEv r) = ve_base r"
| "receipt_header (RasterEv r) = ra_base r"

abbreviation receipt_revision :: "evidence_receipt \<Rightarrow> string" where
  "receipt_revision r \<equiv> rb_revision_hash (receipt_header r)"

abbreviation receipt_run :: "evidence_receipt \<Rightarrow> string" where
  "receipt_run r \<equiv> rb_run_id (receipt_header r)"

subsection \<open>Schemas\<close>

definition base_shape :: "runtime \<Rightarrow> receipt_base \<Rightarrow> bool" where
  "base_shape R b \<longleftrightarrow> rt_is_uuid R (rb_receipt_id b) \<and> rt_is_uuid R (rb_run_id b)
     \<and> sha256_text (rb_revision_hash b) \<and> rt_is_datetime R (rb_started_at b)
     \<and> rt_is_datetime R (rb_completed_at b) \<and> sha256_text (rb_input_digest b)
     \<and> sha256_text (rb_output_digest b)"

definition command_shape :: "runtime \<Rightarrow> command_receipt \<Rightarrow> bool" where
  "command_shape R r \<longleftrightarrow> base_shape R (cr_base r)
     \<and> opt_all (\<lambda>ix. 1 \<le> length ix \<and> length ix \<le> 100) (cr_forbidden_claim_indices r)"

definition check_shape :: "preview_check \<Rightarrow> bool" where
  "check_shape c \<longleftrightarrow> opt_all (\<lambda>ix. length ix \<le> 100) (pc_forbidden_claim_indices c)
     \<and> opt_all sha256_text (pc_visible_text_digest c)
     \<and> opt_all (\<lambda>ds. 1 \<le> length ds \<and> length ds \<le> 256 \<and> list_all sha256_text ds) (pc_screenshots c)
     \<and> opt_all (str_between 1 200) (pc_non_html_media_type c)"

definition preview_shape :: "runtime \<Rightarrow> preview_receipt \<Rightarrow> bool" where
  "preview_shape R r \<longleftrightarrow> base_shape R (pr_base r) \<and> 1 \<le> length (pr_checks r)
     \<and> length (pr_checks r) \<le> 10033 \<and> list_all check_shape (pr_checks r)"

text \<open>Splitting at a character: \<open>path.split("/")\<close>.\<close>

fun split_on :: "char \<Rightarrow> string \<Rightarrow> string list" where
  "split_on d [] = [[]]"
| "split_on d (c # cs) =
     (if c = d then [] # split_on d cs
      else (case split_on d cs of [] \<Rightarrow> [[c]] | w # ws \<Rightarrow> (c # w) # ws))"

definition is_control :: "char \<Rightarrow> bool" where
  "is_control c \<longleftrightarrow> (of_char c :: nat) < 32 \<or> (of_char c :: nat) = 127"

definition review_file_path :: "string \<Rightarrow> bool" where
  "review_file_path p \<longleftrightarrow> str_between 1 2000 p \<and> \<not> starts_with ''/'' p \<and> CHR 0x5C \<notin> set p
     \<and> \<not> list_ex is_control p
     \<and> list_all (\<lambda>seg. seg \<noteq> [] \<and> seg \<noteq> ''.'' \<and> seg \<noteq> ''..'') (split_on (CHR ''/'') p)"

definition FINDING_CATEGORIES :: "string list" where
  "FINDING_CATEGORIES =
     [''access-control'', ''accessibility'', ''business-claims'', ''code-quality'',
      ''cross-project-isolation'', ''dependency-policy'', ''docker-delivery'', ''payment-gate'',
      ''privacy'', ''production-credentials'', ''proof-gate'', ''raw-preview-exposure'',
      ''unsafe-webhook'', ''unrestricted-logs'']"

definition finding_shape :: "review_finding \<Rightarrow> bool" where
  "finding_shape f \<longleftrightarrow> review_file_path (rf_file_name f) \<and> str_between 1 32000 (rf_message f)
     \<and> opt_all (str_between 1 32000) (rf_codegen_instructions f)
     \<and> opt_all (\<lambda>ss. length ss \<le> 20 \<and> list_all (str_between 1 8000) ss) (rf_suggestions f)
     \<and> opt_all (\<lambda>n. 0 < n \<and> n \<le> 10000000) (rf_start_line f)
     \<and> opt_all (\<lambda>n. 0 < n \<and> n \<le> 10000000) (rf_end_line f)
     \<and> opt_all (\<lambda>c. c \<in> set FINDING_CATEGORIES) (rf_category f)
     \<and> opt_all (str_between 1 256) (rf_governing_invariant f)
     \<and> opt_all (str_between 1 64) (rf_controller_rule_id f)"

text \<open>\<open>/^\d+\.\d+\.\d+$/\<close>, with the numbers it captures.\<close>

definition version_numbers :: "string \<Rightarrow> (nat \<times> nat \<times> nat) option" where
  "version_numbers v =
     (case split_on (CHR ''.'') v of
        [a, b, c] \<Rightarrow>
          if a \<noteq> [] \<and> b \<noteq> [] \<and> c \<noteq> [] \<and> list_all is_digit a \<and> list_all is_digit b \<and> list_all is_digit c
          then Some (digit_value a, digit_value b, digit_value c) else None
      | _ \<Rightarrow> None)"

definition doctor_shape :: "doctor_evidence \<Rightarrow> bool" where
  "doctor_shape d \<longleftrightarrow> dr_passed d \<le> 100 \<and> dr_warnings d \<le> 100 \<and> dr_failed d \<le> 100 \<and> sha256_text (dr_digest d)"

definition commit_text :: "string \<Rightarrow> bool" where
  "commit_text s \<longleftrightarrow> 40 \<le> length s \<and> length s \<le> 64 \<and> list_all is_hex s"

definition context_shape :: "review_context \<Rightarrow> bool" where
  "context_shape c \<longleftrightarrow> rc_review_type c = ''committed'' \<and> str_between 1 512 (rc_current_branch c)
     \<and> rc_base_branch c = ''main'' \<and> commit_text (rc_base_commit c)
     \<and> sha256_text (rc_working_directory_digest c)"

definition scope_shape :: "review_scope \<Rightarrow> bool" where
  "scope_shape s \<longleftrightarrow> rs_review_type s = ''committed'' \<and> str_between 1 512 (rs_current_branch s)
     \<and> rs_base_branch s = ''main'' \<and> commit_text (rs_base_commit s)
     \<and> sha256_text (rs_working_directory_digest s) \<and> rs_reviewed_file_count s \<le> 10000
     \<and> sha256_text (rs_reviewed_files_digest s)"

definition capability_shape :: "review_capability \<Rightarrow> bool" where
  "capability_shape c \<longleftrightarrow> ca_state c = ''healthy'' \<and> str_between 1 128 (ca_policy_pack_version c)
     \<and> sha256_text (ca_policy_pack_digest c) \<and> version_numbers (ca_cli_version c) \<noteq> None
     \<and> sha256_text (ca_cli_executable_digest c) \<and> sha256_text (ca_root_help_digest c)
     \<and> sha256_text (ca_review_help_digest c) \<and> sha256_text (ca_review_flags_digest c)
     \<and> ca_agent_jsonl c
     \<and> length (ca_supported_event_kinds c) = 6
     \<and> list_all (\<lambda>k. k \<in> {''review_context'', ''status'', ''heartbeat'', ''finding'', ''complete'', ''error''})
          (ca_supported_event_kinds c)
     \<and> length (ca_review_flags c) \<le> 32 \<and> list_all (str_between 1 64) (ca_review_flags c)
     \<and> ca_authenticated c \<and> doctor_shape (ca_doctor c)
     \<and> ca_update_policy c = ''disabled-and-digest-pinned'' \<and> ca_service_connectivity c = ''healthy''
     \<and> ca_controller_config c = ''supported'' \<and> ca_tool_support c = ''disabled-controller-policy''"

definition attestation_digests_shape :: "attestation_digests \<Rightarrow> bool" where
  "attestation_digests_shape d \<longleftrightarrow>
     list_all sha256_text
       [ad_authority_key d, ad_source d, ad_contract d, ad_review d, ad_finding_set d,
        ad_review_context d, ad_scope d, ad_policy_pack d, ad_config_schema d, ad_config d,
        ad_rules d, ad_policy d, ad_tool_policy d, ad_event_schema d, ad_capability d,
        ad_cli_before d, ad_cli_after d, ad_review_flags d]"

definition event_counts_shape :: "event_counts \<Rightarrow> bool" where
  "event_counts_shape e \<longleftrightarrow> ec_review_context e \<le> 10000 \<and> ec_status e \<le> 10000
     \<and> ec_heartbeat e \<le> 10000 \<and> ec_finding e \<le> 500 \<and> ec_complete e \<le> 10 \<and> ec_error e \<le> 10000"

definition severity_counts_shape :: "severity_counts \<Rightarrow> bool" where
  "severity_counts_shape s \<longleftrightarrow> sc_critical s \<le> 500 \<and> sc_major s \<le> 500 \<and> sc_minor s \<le> 500
     \<and> sc_trivial s \<le> 500 \<and> sc_info s \<le> 500"

definition attestation_shape :: "review_attestation \<Rightarrow> bool" where
  "attestation_shape a \<longleftrightarrow> at_schema_version a = 1
     \<and> at_capability_state a \<in> {''review-verified'', ''proof-integrated''}
     \<and> attestation_digests_shape (at_digests a) \<and> context_shape (at_review_context a)
     \<and> scope_shape (at_scope a) \<and> str_between 1 128 (at_policy_pack_version a)
     \<and> capability_shape (at_capability a) \<and> version_numbers (at_cli_version a) \<noteq> None
     \<and> at_update_policy a = ''disabled-and-digest-pinned'' \<and> at_authentication a = ''authenticated''
     \<and> doctor_shape (at_doctor a) \<and> at_service_connectivity a = ''healthy'' \<and> at_agent_jsonl a
     \<and> at_terminal_state a = ''review_completed'' \<and> event_counts_shape (at_event_counts a)
     \<and> 1 \<le> at_attempts a \<and> at_attempts a \<le> 3 \<and> length (at_retry_reasons a) \<le> 2
     \<and> list_all (\<lambda>r. r \<in> {''structured_rate_limit'', ''missing_terminal_completion''}) (at_retry_reasons a)
     \<and> severity_counts_shape (at_severity_counts a)
     \<and> length (at_category_counts a) \<le> 32
     \<and> list_all (\<lambda>(c, n). str_between 1 64 c \<and> 0 < n \<and> n \<le> 500) (at_category_counts a)
     \<and> length (at_configured_tools a) \<le> 64 \<and> list_all (str_between 1 64) (at_configured_tools a)
     \<and> length (at_observed_tools a) \<le> 64 \<and> list_all (str_between 1 64) (at_observed_tools a)
     \<and> at_tool_coverage a \<in> {''disabled-controller-policy'', ''protocol-observed''}"

definition review_shape :: "runtime \<Rightarrow> review_receipt \<Rightarrow> bool" where
  "review_shape R r \<longleftrightarrow> base_shape R (rv_base r) \<and> length (rv_findings r) \<le> 500
     \<and> list_all finding_shape (rv_findings r) \<and> opt_all sha256_text (rv_policy_digest r)
     \<and> opt_all sha256_text (rv_expected_policy_digest r) \<and> opt_all attestation_shape (rv_attestation r)
     \<and> opt_all sha256_text (rv_expected_attestation_digest r)"

definition evaluation_shape :: "runtime \<Rightarrow> evaluation_receipt \<Rightarrow> bool" where
  "evaluation_shape R r \<longleftrightarrow> base_shape R (ve_base r) \<and> ve_provider r = ''fireworks''
     \<and> ve_trace_provider r = ''braintrust'' \<and> ve_trace_id r \<noteq> []
     \<and> bs_hard_requirements (ve_scores r) \<in> {0, 1}
     \<and> bs_supported_business_facts (ve_scores r) \<in> {0, 1}
     \<and> bs_evidence_grounding (ve_scores r) \<in> {0, 1}
     \<and> 0 \<le> bs_preference_satisfaction (ve_scores r) \<and> bs_preference_satisfaction (ve_scores r) \<le> 1
     \<and> list_all (\<lambda>q. re_requirement_id q \<noteq> [] \<and> re_explanation q \<noteq> []) (ve_requirements r)
     \<and> list_all (\<lambda>u. uc_claim u \<noteq> [] \<and> uc_location u \<noteq> [] \<and> uc_reason u \<noteq> []) (ve_unsupported_claims r)
     \<and> ve_summary r \<noteq> []"

definition RASTER_ERROR_CODES :: "string list" where
  "RASTER_ERROR_CODES =
     [''aborted'', ''asset_bound_exceeded'', ''invalid_asset'', ''image_decode_failed'', ''multi_frame_asset'',
      ''policy_bound_exceeded'', ''model_capability_unavailable'', ''model_response_invalid'',
      ''provider_error'', ''provider_unverified'', ''unsupported_asset_format'', ''workspace_read_failed'']"

definition raster_shape :: "runtime \<Rightarrow> raster_receipt \<Rightarrow> bool" where
  "raster_shape R r \<longleftrightarrow> base_shape R (ra_base r) \<and> ra_trace_id r \<noteq> []
     \<and> sha256_text (ra_claim_set_digest r) \<and> sha256_text (ra_fact_set_digest r)
     \<and> sha256_text (ra_rendered_input_digest r)
     \<and> length (ra_claim_indices r) \<le> 100 \<and> list_all (\<lambda>i. i \<le> 99) (ra_claim_indices r)
     \<and> ra_asset_count r \<le> 576 \<and> ra_workspace_asset_count r \<le> 64 \<and> ra_rendered_asset_count r \<le> 512
     \<and> ra_aggregate_bytes r \<le> 70 * 1024 * 1024
     \<and> length (ra_asset_digests r) \<le> 576 \<and> list_all sha256_text (ra_asset_digests r)
     \<and> length (ra_model_input_digests r) \<le> 576 \<and> list_all sha256_text (ra_model_input_digests r)
     \<and> opt_all sha256_text (ra_model_digest r)
     \<and> length (ra_matches r) \<le> 576
     \<and> list_all (\<lambda>m. rm_asset_index m \<le> 575 \<and> sha256_text (rm_asset_sha m)
          \<and> length (rm_claim_indices m) \<le> 100 \<and> list_all (\<lambda>i. i \<le> 99) (rm_claim_indices m)) (ra_matches r)
     \<and> length (ra_unsupported r) \<le> 576 \<and> list_all (\<lambda>i. i \<le> 575) (ra_unsupported r)
     \<and> length (ra_unverified r) \<le> 576 \<and> list_all (\<lambda>i. i \<le> 575) (ra_unverified r)
     \<and> opt_all (\<lambda>c. c \<in> set RASTER_ERROR_CODES) (ra_error_code r)"

definition match_bound :: "raster_receipt \<Rightarrow> raster_match \<Rightarrow> bool" where
  "match_bound r m \<longleftrightarrow> rm_asset_index m < ra_asset_count r
     \<and> rm_asset_index m < length (ra_asset_digests r)
     \<and> ra_asset_digests r ! rm_asset_index m = rm_asset_sha m
     \<and> rm_claim_indices m \<noteq> [] \<and> distinct (rm_claim_indices m)
     \<and> sorted_wrt (<) (rm_claim_indices m)
     \<and> list_all (\<lambda>i. i \<in> set (ra_claim_indices r)) (rm_claim_indices m)"

definition raster_issues :: "raster_receipt \<Rightarrow> string list" where
  "raster_issues r =
     issue_if (length (ra_asset_digests r) \<noteq> ra_asset_count r
         \<or> length (ra_model_input_digests r) \<noteq> ra_asset_count r
         \<or> ra_workspace_asset_count r + ra_rendered_asset_count r \<noteq> ra_asset_count r)
       ''Visual claim evidence does not bind every raster asset'' @
     issue_if (ra_claim_indices r \<noteq> [0 ..< length (ra_claim_indices r)])
       ''Visual claim indices must be complete and ordered'' @
     issue_if (\<not> distinct (map rm_asset_index (ra_matches r)) \<or> \<not> distinct (ra_unsupported r)
         \<or> \<not> distinct (ra_unverified r)
         \<or> \<not> distinct (map rm_asset_index (ra_matches r) @ ra_unsupported r @ ra_unverified r))
       ''Visual claim findings must be unique and non-overlapping'' @
     concat (map (\<lambda>m. issue_if (\<not> match_bound r m)
       ''Visual claim match is not bound to the scanned input'') (ra_matches r)) @
     issue_if (list_ex (\<lambda>i. ra_asset_count r \<le> i) (ra_unsupported r)
         \<or> list_ex (\<lambda>i. ra_asset_count r \<le> i) (ra_unverified r))
       ''Unverified visual claim index is outside the scanned input'' @
     issue_if (rb_status (ra_base r) = EvPass
         \<and> (ra_matches r \<noteq> [] \<or> ra_unsupported r \<noteq> [] \<or> ra_unverified r \<noteq> [] \<or> ra_error_code r \<noteq> None))
       ''Passing visual claim evidence must be complete and clean'' @
     issue_if (rb_status (ra_base r) = EvFail \<and> ra_matches r = [] \<and> ra_unsupported r = [])
       ''Failed visual claim evidence must contain a claim finding'' @
     issue_if (rb_status (ra_base r) = EvFail \<and> (ra_unverified r \<noteq> [] \<or> ra_error_code r \<noteq> None))
       ''Failed visual claim evidence cannot be unverified or errored'' @
     issue_if (rb_status (ra_base r) = EvError \<and> ra_error_code r = None)
       ''Errored visual claim evidence requires a bounded error code'' @
     issue_if (rb_status (ra_base r) = EvError \<and> (ra_matches r \<noteq> [] \<or> ra_unsupported r \<noteq> []))
       ''Errored visual claim evidence cannot contain claim findings'' @
     issue_if (0 < ra_asset_count r \<and> rb_status (ra_base r) \<noteq> EvError
         \<and> (ra_provider r \<noteq> RasterFireworks \<or> ra_model_digest r = None))
       ''Scanned visual claim evidence requires a Fireworks model''"

definition RasterClaimReceipt_ok :: "runtime \<Rightarrow> raster_receipt \<Rightarrow> bool" where
  "RasterClaimReceipt_ok R r \<longleftrightarrow> raster_shape R r \<and> raster_issues r = []"

fun EvidenceReceipt_ok :: "runtime \<Rightarrow> evidence_receipt \<Rightarrow> bool" where
  "EvidenceReceipt_ok R (CommandEv r) = command_shape R r"
| "EvidenceReceipt_ok R (PreviewEv r) = preview_shape R r"
| "EvidenceReceipt_ok R (ReviewEv r) = review_shape R r"
| "EvidenceReceipt_ok R (EvaluationEv r) = evaluation_shape R r"
| "EvidenceReceipt_ok R (RasterEv r) = RasterClaimReceipt_ok R r"

text \<open>An accepted raster receipt partitions its findings and is clean exactly when it passes.\<close>

lemma RasterClaimReceipt_clean:
  assumes "RasterClaimReceipt_ok R r" and "rb_status (ra_base r) = EvPass"
  shows "ra_matches r = [] \<and> ra_unsupported r = [] \<and> ra_unverified r = [] \<and> ra_error_code r = None"
  using assms by (auto simp: RasterClaimReceipt_ok_def raster_issues_def)

end
