(* ===== verification/Proof_Gate.thy ===== *)
theory Proof_Gate
  imports Evidence
begin

text \<open>
  \<open>src/application/proof-gate.ts\<close>: \<open>decideProof\<close>, the deterministic decision whether a frozen
  revision is proven, and the CodeRabbit attestation check it rests on.  Each block of the function
  is one definition that returns the reasons the block pushes, in order; \<open>decideProof\<close> appends them.
  A reason is its message template with the identifiers and numbers interpolated into it.  The
  fixed command lines, policy documents and their digests are the record \<open>controller_policy\<close>.

  The lemmas: a decision depends only on the receipts of the frozen revision; it passes exactly when
  every block is empty; a passing decision therefore has, for every command the contract names, a
  latest receipt that passed with exit code 0, a clean scan, one authoritative review, and for every
  hard requirement a passing, cited verification.
\<close>

record finding_class =
  fc_category :: string
  fc_governing_invariant :: string
  fc_severity :: severity
  fc_rule_id :: "string option"

record controller_policy =
  pol_dockerfile_command :: string
  pol_bootstrap_command :: string
  pol_container_command :: string
  pol_forbidden_claims_command :: "string list \<Rightarrow> string"
  pol_preview_input_digest :: "acceptance_contract \<Rightarrow> string"
  pol_policy_pack_version :: string
  pol_policy_pack_digest :: string
  pol_config_schema_digest :: string
  pol_controller_config_digest :: string
  pol_controller_rules_digest :: string
  pol_tool_policy_digest :: string
  pol_event_schema_digest :: string
  pol_doctor_digest :: string
  pol_required_review_flags :: "string list"
  pol_handshake_review_flags :: "string list"
  pol_supported_event_kinds :: "string list"
  pol_configured_tools :: "string list"
  pol_classify_finding :: "review_finding \<Rightarrow> finding_class"

datatype reason = Reason string "string list" "nat list"

abbreviation plain :: "string \<Rightarrow> reason" where
  "plain s \<equiv> Reason s [] []"

record proof_decision =
  pd_passed :: bool
  pd_reasons :: "reason list"

fun status_text :: "evidence_status \<Rightarrow> string" where
  "status_text EvPass = ''PASS''"
| "status_text EvFail = ''FAIL''"
| "status_text EvError = ''ERROR''"

subsection \<open>Selecting receipts\<close>

definition latest :: "runtime \<Rightarrow> ('r \<Rightarrow> string) \<Rightarrow> 'r list \<Rightarrow> 'r option" where
  "latest R completed rs =
     (case sort_by (\<lambda>l r. rt_locale_compare R (completed r) (completed l)) rs of
        [] \<Rightarrow> None | r # _ \<Rightarrow> Some r)"

fun command_of :: "evidence_receipt \<Rightarrow> command_receipt list" where
  "command_of (CommandEv r) = [r]" | "command_of _ = []"

fun preview_of :: "evidence_receipt \<Rightarrow> preview_receipt list" where
  "preview_of (PreviewEv r) = [r]" | "preview_of _ = []"

fun review_of :: "evidence_receipt \<Rightarrow> review_receipt list" where
  "review_of (ReviewEv r) = [r]" | "review_of _ = []"

fun evaluation_of :: "evidence_receipt \<Rightarrow> evaluation_receipt list" where
  "evaluation_of (EvaluationEv r) = [r]" | "evaluation_of _ = []"

fun raster_of :: "evidence_receipt \<Rightarrow> raster_receipt list" where
  "raster_of (RasterEv r) = [r]" | "raster_of _ = []"

definition latest_command :: "runtime \<Rightarrow> (command_receipt \<Rightarrow> bool) \<Rightarrow> evidence_receipt list \<Rightarrow> command_receipt option" where
  "latest_command R P rs =
     latest R (\<lambda>r. rb_completed_at (cr_base r)) (filter P (List.maps command_of rs))"

definition latest_preview :: "runtime \<Rightarrow> evidence_receipt list \<Rightarrow> preview_receipt option" where
  "latest_preview R rs = latest R (\<lambda>r. rb_completed_at (pr_base r)) (List.maps preview_of rs)"

definition latest_evaluation :: "runtime \<Rightarrow> evidence_receipt list \<Rightarrow> evaluation_receipt option" where
  "latest_evaluation R rs = latest R (\<lambda>r. rb_completed_at (ve_base r)) (List.maps evaluation_of rs)"

definition latest_raster :: "runtime \<Rightarrow> (raster_receipt \<Rightarrow> bool) \<Rightarrow> evidence_receipt list \<Rightarrow> raster_receipt option" where
  "latest_raster R P rs =
     latest R (\<lambda>r. rb_completed_at (ra_base r)) (filter P (List.maps raster_of rs))"

subsection \<open>Command evidence\<close>

definition command_passed :: "command_receipt \<Rightarrow> bool" where
  "command_passed r \<longleftrightarrow> rb_status (cr_base r) = EvPass \<and> cr_exit_code r = Some 0"

definition dockerfile_reasons :: "runtime \<Rightarrow> controller_policy \<Rightarrow> evidence_receipt list \<Rightarrow> reason list" where
  "dockerfile_reasons R P rs =
     (case latest_command R (\<lambda>r. cr_kind r = KindArtifact \<and> cr_command r = pol_dockerfile_command P) rs of
        None \<Rightarrow> [plain ''Missing Dockerfile evidence for the frozen revision'']
      | Some r \<Rightarrow> issue_if (\<not> command_passed r)
          (Reason ''Dockerfile artifact did not pass (%)'' [status_text (rb_status (cr_base r))] []))"

definition bootstrap_reasons :: "runtime \<Rightarrow> controller_policy \<Rightarrow> evidence_receipt list \<Rightarrow> reason list" where
  "bootstrap_reasons R P rs =
     (case latest_command R (\<lambda>r. cr_kind r = KindDependencyBootstrap \<and> cr_command r = pol_bootstrap_command P) rs of
        None \<Rightarrow> [plain ''Missing dependency bootstrap evidence'']
      | Some r \<Rightarrow> issue_if (\<not> command_passed r)
          (Reason ''Dependency bootstrap did not pass (%)'' [status_text (rb_status (cr_base r))] []))"

definition build_reasons :: "runtime \<Rightarrow> acceptance_contract \<Rightarrow> evidence_receipt list \<Rightarrow> reason list" where
  "build_reasons R c rs =
     (case latest_command R (\<lambda>r. cr_kind r = KindBuild \<and> cr_command r = vp_build_command (ac_verification c)) rs of
        None \<Rightarrow> [plain ''Missing build evidence for the frozen revision'']
      | Some r \<Rightarrow> issue_if (\<not> command_passed r)
          (Reason ''Build did not pass (%)'' [status_text (rb_status (cr_base r))] []))"

definition container_reasons :: "runtime \<Rightarrow> controller_policy \<Rightarrow> evidence_receipt list \<Rightarrow> reason list" where
  "container_reasons R P rs =
     (case latest_command R (\<lambda>r. cr_kind r = KindContainerBuild \<and> cr_command r = pol_container_command P) rs of
        None \<Rightarrow> [plain ''Missing container build evidence for the frozen revision'']
      | Some r \<Rightarrow> issue_if (\<not> command_passed r)
          (Reason ''Container image did not build (%)'' [status_text (rb_status (cr_base r))] []))"

definition test_reasons :: "runtime \<Rightarrow> evidence_receipt list \<Rightarrow> string \<Rightarrow> reason list" where
  "test_reasons R rs command =
     (case latest_command R (\<lambda>r. cr_kind r = KindTest \<and> cr_command r = command) rs of
        None \<Rightarrow> [Reason ''Missing test evidence: %'' [command] []]
      | Some r \<Rightarrow> issue_if (\<not> command_passed r)
          (Reason ''Test did not pass: % (%)'' [command, status_text (rb_status (cr_base r))] []))"

definition expectedIndices :: "acceptance_contract \<Rightarrow> nat list" where
  "expectedIndices c = [0 ..< length (ac_forbidden_claims c)]"

definition forbidden_scan_reasons ::
  "runtime \<Rightarrow> controller_policy \<Rightarrow> acceptance_contract \<Rightarrow> evidence_receipt list \<Rightarrow> reason list" where
  "forbidden_scan_reasons R P c rs =
     (if ac_forbidden_claims c = [] then []
      else case latest_command R (\<lambda>r. cr_kind r = KindForbiddenClaim
             \<and> cr_forbidden_claim_indices r = Some (expectedIndices c)
             \<and> cr_command r = pol_forbidden_claims_command P (ac_forbidden_claims c)) rs of
        None \<Rightarrow> [plain ''Missing complete forbidden-claim scan'']
      | Some r \<Rightarrow> issue_if (\<not> command_passed r) (plain ''One or more forbidden claims were detected''))"

subsection \<open>Raster inspection and rendered preview\<close>

definition visual_scan :: "runtime \<Rightarrow> acceptance_contract \<Rightarrow> evidence_receipt list \<Rightarrow> raster_receipt option" where
  "visual_scan R c rs = latest_raster R (\<lambda>r. ra_claim_indices r = expectedIndices c
     \<and> digestJson R (JArray (map JString (ac_forbidden_claims c))) = Inr (ra_claim_set_digest r)
     \<and> digestJson R (JArray (map (\<lambda>f. JString (af_statement f)) (ac_approved_facts c)))
         = Inr (ra_fact_set_digest r)) rs"

definition visual_reasons :: "raster_receipt option \<Rightarrow> reason list" where
  "visual_reasons scan =
     (case scan of
        None \<Rightarrow> [plain ''Missing complete raster claim inspection'']
      | Some r \<Rightarrow>
          if rb_status (ra_base r) \<noteq> EvPass
          then [Reason ''Raster claim inspection did not pass (%)'' [status_text (rb_status (ra_base r))] []]
          else issue_if (ra_matches r \<noteq> [] \<or> ra_unsupported r \<noteq> [] \<or> ra_unverified r \<noteq> [])
            (plain ''Raster assets contain unsupported or forbidden claims''))"

definition opt_nat_json :: "nat option \<Rightarrow> jsval" where
  "opt_nat_json v = (case v of None \<Rightarrow> JUndefined | Some n \<Rightarrow> JNumber (of_nat n))"

definition strings_json :: "string list \<Rightarrow> jsval" where
  "strings_json ss = JArray (map JString ss)"

definition check_json :: "preview_check \<Rightarrow> jsval" where
  "check_json k = JObject
     [(''requirementId'', opt_json (pc_requirement_id k)), (''verifierIndex'', opt_nat_json (pc_verifier_index k)),
      (''discovered'', if pc_discovered k then JBool True else JUndefined), (''path'', JString (pc_path k)),
      (''expectedStatus'', JNumber (of_int (pc_expected_status k))),
      (''actualStatus'', case pc_actual_status k of None \<Rightarrow> JNull | Some n \<Rightarrow> JNumber (of_int n)),
      (''expectedText'', strings_json (pc_expected_text k)), (''missingText'', strings_json (pc_missing_text k)),
      (''forbiddenClaimIndices'', case pc_forbidden_claim_indices k of None \<Rightarrow> JUndefined
         | Some is \<Rightarrow> JArray (map (\<lambda>i. JNumber (of_nat i)) is)),
      (''visibleTextDigest'', opt_json (pc_visible_text_digest k)),
      (''screenshotSha256s'', case pc_screenshots k of None \<Rightarrow> JUndefined | Some ds \<Rightarrow> strings_json ds),
      (''nonHtmlMediaType'', opt_json (pc_non_html_media_type k)), (''error'', opt_json (pc_error k))]"

definition preview_reasons ::
  "runtime \<Rightarrow> controller_policy \<Rightarrow> acceptance_contract \<Rightarrow> preview_receipt option \<Rightarrow> reason list" where
  "preview_reasons R P c preview =
     (case preview of
        None \<Rightarrow> [plain ''Missing preview evidence'']
      | Some p \<Rightarrow>
          (if rb_input_digest (pr_base p) \<noteq> pol_preview_input_digest P c
           then [plain ''Preview evidence does not match the controller rendered-verifier input'']
           else if digestJson R (JArray (map check_json (pr_checks p))) \<noteq> Inr (rb_output_digest (pr_base p))
           then [plain ''Preview evidence output digest does not match its checks'']
           else issue_if (rb_status (pr_base p) \<noteq> EvPass) (plain ''One or more preview checks did not pass'')) @
          issue_if (list_ex (\<lambda>k. case pc_forbidden_claim_indices k of None \<Rightarrow> False | Some is \<Rightarrow> is \<noteq> [])
              (pr_checks p))
            (plain ''Rendered preview contains one or more forbidden claims''))"

text \<open>\<open>previewRenderedRasterInput\<close>: one screenshot list per path, in byte order of the paths.\<close>

fun screenshots_by_path :: "(string \<times> string list) list \<Rightarrow> preview_check list \<Rightarrow> (string \<times> string list) list option" where
  "screenshots_by_path acc [] = Some acc"
| "screenshots_by_path acc (k # ks) =
     (case pc_screenshots k of
        None \<Rightarrow> screenshots_by_path acc ks
      | Some ds \<Rightarrow>
          (case map_of acc (pc_path k) of
             None \<Rightarrow> screenshots_by_path (acc @ [(pc_path k, ds)]) ks
           | Some ds' \<Rightarrow> if ds' = ds then screenshots_by_path acc ks else None))"

definition entry_json :: "string \<times> string list \<Rightarrow> jsval" where
  "entry_json e = JObject [(''path'', JString (fst e)), (''screenshotSha256s'', strings_json (snd e))]"

definition previewRenderedRasterInput ::
  "runtime \<Rightarrow> preview_receipt option \<Rightarrow> ((type_error + string) \<times> string list) option" where
  "previewRenderedRasterInput R preview =
     (case preview of
        None \<Rightarrow> None
      | Some p \<Rightarrow> map_option (\<lambda>entries. let es = order_by fst entries in
          (digestJson R (JArray (map entry_json es)), concat (map snd es)))
          (screenshots_by_path [] (pr_checks p)))"

definition raster_binding_reasons :: "runtime \<Rightarrow> raster_receipt option \<Rightarrow> preview_receipt option \<Rightarrow> reason list" where
  "raster_binding_reasons R scan preview =
     (case scan of
        None \<Rightarrow> []
      | Some r \<Rightarrow> issue_if
          (case previewRenderedRasterInput R preview of
             None \<Rightarrow> True
           | Some (digest, digests) \<Rightarrow>
               digest \<noteq> Inr (ra_rendered_input_digest r)
               \<or> ra_rendered_asset_count r \<noteq> length digests
               \<or> drop (ra_workspace_asset_count r) (ra_asset_digests r) \<noteq> digests)
          (plain ''Raster claim inspection is not bound to the rendered preview pixels''))"

definition hasScreenshotTileDigests :: "string list option \<Rightarrow> bool" where
  "hasScreenshotTileDigests ds =
     (case ds of None \<Rightarrow> False
      | Some xs \<Rightarrow> 1 \<le> length xs \<and> length xs \<le> 256 \<and> list_all sha256_text xs)"

definition is_root_check :: "preview_check \<Rightarrow> bool" where
  "is_root_check k \<longleftrightarrow> pc_requirement_id k = None \<and> pc_verifier_index k = None \<and> pc_path k = ''/''"

definition rendered_ok :: "preview_check \<Rightarrow> bool" where
  "rendered_ok k \<longleftrightarrow> pc_expected_status k = 200 \<and> pc_actual_status k = Some 200
     \<and> pc_expected_text k = [] \<and> pc_missing_text k = [] \<and> truthy (pc_error k) = None
     \<and> truthy (pc_visible_text_digest k) \<noteq> None \<and> hasScreenshotTileDigests (pc_screenshots k)"

definition root_check_reasons :: "preview_receipt option \<Rightarrow> reason list" where
  "root_check_reasons preview =
     (case preview of
        None \<Rightarrow> []
      | Some p \<Rightarrow> issue_if
          (case filter is_root_check (pr_checks p) of
             [k] \<Rightarrow> \<not> rendered_ok k
           | _ \<Rightarrow> True)
          (plain ''Root rendered preview check is missing or invalid''))"

definition requestedPaths :: "acceptance_contract \<Rightarrow> string set" where
  "requestedPaths c = set (renderedPaths c)"

fun route_reasons :: "string set \<Rightarrow> string set \<Rightarrow> preview_check list \<Rightarrow> reason list \<times> string set" where
  "route_reasons requested discovered [] = ([], discovered)"
| "route_reasons requested discovered (k # ks) =
     (if pc_discovered k then
        let rest = route_reasons requested (insert (pc_path k) discovered) ks in
        (issue_if (pc_path k \<in> requested \<or> pc_path k \<in> discovered \<or> pc_requirement_id k \<noteq> None
            \<or> pc_verifier_index k \<noteq> None \<or> \<not> rendered_ok k \<or> pc_non_html_media_type k \<noteq> None)
           (plain ''Discovered rendered route check is invalid'') @ fst rest, snd rest)
      else
        let rest = route_reasons requested discovered ks in
        (issue_if (pc_requirement_id k = None \<and> pc_verifier_index k = None \<and> pc_path k \<noteq> ''/'')
           (plain ''Preview evidence contains an unbound route check'') @ fst rest, snd rest))"

definition routes_reasons :: "acceptance_contract \<Rightarrow> preview_receipt option \<Rightarrow> reason list" where
  "routes_reasons c preview =
     (case preview of
        None \<Rightarrow> []
      | Some p \<Rightarrow>
          let res = route_reasons (requestedPaths c) {} (pr_checks p) in
          fst res @
          issue_if (32 < card (requestedPaths c) + card (snd res))
            (plain ''Preview evidence exceeds the rendered route limit''))"

subsection \<open>The CodeRabbit attestation\<close>

fun severity_text :: "severity \<Rightarrow> string" where
  "severity_text SevCritical = ''critical''"
| "severity_text SevMajor = ''major''"
| "severity_text SevMinor = ''minor''"
| "severity_text SevTrivial = ''trivial''"
| "severity_text SevInfo = ''info''"

fun review_kind_text :: "review_kind \<Rightarrow> string" where
  "review_kind_text AuthoritativeFull = ''authoritative_full''"
| "review_kind_text AdvisoryLight = ''advisory_light''"

definition finding_json :: "review_finding \<Rightarrow> jsval" where
  "finding_json f = JObject
     [(''severity'', JString (severity_text (rf_severity f))), (''fileName'', JString (rf_file_name f)),
      (''message'', JString (rf_message f)), (''codegenInstructions'', opt_json (rf_codegen_instructions f)),
      (''suggestions'', case rf_suggestions f of None \<Rightarrow> JUndefined | Some ss \<Rightarrow> strings_json ss),
      (''startLine'', opt_nat_json (rf_start_line f)), (''endLine'', opt_nat_json (rf_end_line f)),
      (''category'', opt_json (rf_category f)), (''governingInvariant'', opt_json (rf_governing_invariant f)),
      (''controllerRuleId'', opt_json (rf_controller_rule_id f))]"

definition nat_json :: "nat \<Rightarrow> jsval" where
  "nat_json n = JNumber (of_nat n)"

definition doctor_json :: "doctor_evidence \<Rightarrow> jsval" where
  "doctor_json d = JObject [(''passed'', nat_json (dr_passed d)), (''warnings'', nat_json (dr_warnings d)),
     (''failed'', nat_json (dr_failed d)), (''digest'', JString (dr_digest d))]"

definition context_json :: "review_context \<Rightarrow> jsval" where
  "context_json c = JObject [(''reviewType'', JString (rc_review_type c)),
     (''currentBranch'', JString (rc_current_branch c)), (''baseBranch'', JString (rc_base_branch c)),
     (''baseCommit'', JString (rc_base_commit c)),
     (''workingDirectoryDigest'', JString (rc_working_directory_digest c))]"

definition scope_json :: "review_scope \<Rightarrow> jsval" where
  "scope_json s = JObject [(''reviewKind'', JString (review_kind_text (rs_review_kind s))),
     (''reviewType'', JString (rs_review_type s)), (''currentBranch'', JString (rs_current_branch s)),
     (''baseBranch'', JString (rs_base_branch s)), (''baseCommit'', JString (rs_base_commit s)),
     (''workingDirectoryDigest'', JString (rs_working_directory_digest s)),
     (''reviewedFileCount'', nat_json (rs_reviewed_file_count s)),
     (''reviewedFilesDigest'', JString (rs_reviewed_files_digest s))]"

definition capability_json :: "review_capability \<Rightarrow> jsval" where
  "capability_json c = JObject
     [(''state'', JString (ca_state c)), (''policyPackVersion'', JString (ca_policy_pack_version c)),
      (''policyPackDigest'', JString (ca_policy_pack_digest c)), (''cliVersion'', JString (ca_cli_version c)),
      (''cliExecutableDigest'', JString (ca_cli_executable_digest c)),
      (''rootHelpDigest'', JString (ca_root_help_digest c)),
      (''reviewHelpDigest'', JString (ca_review_help_digest c)),
      (''reviewFlagsDigest'', JString (ca_review_flags_digest c)), (''agentJsonl'', JBool (ca_agent_jsonl c)),
      (''supportedEventKinds'', strings_json (ca_supported_event_kinds c)),
      (''reviewFlags'', strings_json (ca_review_flags c)), (''authenticated'', JBool (ca_authenticated c)),
      (''doctor'', doctor_json (ca_doctor c)), (''updatePolicy'', JString (ca_update_policy c)),
      (''serviceConnectivity'', JString (ca_service_connectivity c)),
      (''controllerConfig'', JString (ca_controller_config c)), (''toolSupport'', JString (ca_tool_support c))]"

definition severity_counts_json :: "severity_counts \<Rightarrow> jsval" where
  "severity_counts_json s = JObject [(''critical'', nat_json (sc_critical s)), (''major'', nat_json (sc_major s)),
     (''minor'', nat_json (sc_minor s)), (''trivial'', nat_json (sc_trivial s)), (''info'', nat_json (sc_info s))]"

definition category_counts_json :: "(string \<times> nat) list \<Rightarrow> jsval" where
  "category_counts_json cs =
     JArray (map (\<lambda>(c, n). JObject [(''category'', JString c), (''count'', nat_json n)]) cs)"

definition event_counts_json :: "event_counts \<Rightarrow> jsval" where
  "event_counts_json e = JObject [(''reviewContext'', nat_json (ec_review_context e)),
     (''status'', nat_json (ec_status e)), (''heartbeat'', nat_json (ec_heartbeat e)),
     (''finding'', nat_json (ec_finding e)), (''complete'', nat_json (ec_complete e)),
     (''error'', nat_json (ec_error e))]"

definition attestation_json :: "review_attestation \<Rightarrow> jsval" where
  "attestation_json a = (let d = at_digests a in JObject
     [(''schemaVersion'', JNumber (of_int (at_schema_version a))),
      (''reviewKind'', JString (review_kind_text (at_review_kind a))),
      (''capabilityState'', JString (at_capability_state a)), (''authorityKey'', JString (ad_authority_key d)),
      (''sourceDigest'', JString (ad_source d)), (''contractDigest'', JString (ad_contract d)),
      (''reviewDigest'', JString (ad_review d)), (''findingSetDigest'', JString (ad_finding_set d)),
      (''reviewContext'', context_json (at_review_context a)),
      (''reviewContextDigest'', JString (ad_review_context d)), (''scope'', scope_json (at_scope a)),
      (''scopeDigest'', JString (ad_scope d)), (''policyPackVersion'', JString (at_policy_pack_version a)),
      (''policyPackDigest'', JString (ad_policy_pack d)), (''configSchemaDigest'', JString (ad_config_schema d)),
      (''configDigest'', JString (ad_config d)), (''rulesDigest'', JString (ad_rules d)),
      (''policyDigest'', JString (ad_policy d)), (''toolPolicyDigest'', JString (ad_tool_policy d)),
      (''eventSchemaDigest'', JString (ad_event_schema d)), (''capability'', capability_json (at_capability a)),
      (''capabilityDigest'', JString (ad_capability d)), (''cliVersion'', JString (at_cli_version a)),
      (''cliExecutableDigestBefore'', JString (ad_cli_before d)),
      (''cliExecutableDigestAfter'', JString (ad_cli_after d)),
      (''reviewFlagsDigest'', JString (ad_review_flags d)), (''updatePolicy'', JString (at_update_policy a)),
      (''authentication'', JString (at_authentication a)), (''doctor'', doctor_json (at_doctor a)),
      (''serviceConnectivity'', JString (at_service_connectivity a)), (''agentJsonl'', JBool (at_agent_jsonl a)),
      (''terminalState'', JString (at_terminal_state a)), (''eventCounts'', event_counts_json (at_event_counts a)),
      (''attempts'', nat_json (at_attempts a)), (''retryReasons'', strings_json (at_retry_reasons a)),
      (''durationMs'', nat_json (at_duration_ms a)),
      (''severityCounts'', severity_counts_json (at_severity_counts a)),
      (''categoryCounts'', category_counts_json (at_category_counts a)),
      (''configuredTools'', strings_json (at_configured_tools a)),
      (''observedTools'', strings_json (at_observed_tools a)),
      (''toolCoverage'', JString (at_tool_coverage a))])"

text \<open>\<open>compareCodeRabbitVersion\<close> and the supported range \<open>[0.7.0, 0.8.0)\<close>.\<close>

fun compareCodeRabbitVersion :: "nat list \<Rightarrow> nat list \<Rightarrow> int" where
  "compareCodeRabbitVersion [] [] = 0"
| "compareCodeRabbitVersion (l # ls) [] = (if l \<noteq> 0 then int l else compareCodeRabbitVersion ls [])"
| "compareCodeRabbitVersion [] (r # rs) = (if r \<noteq> 0 then - int r else compareCodeRabbitVersion [] rs)"
| "compareCodeRabbitVersion (l # ls) (r # rs) =
     (if l \<noteq> r then int l - int r else compareCodeRabbitVersion ls rs)"

definition isSupportedCodeRabbitVersion :: "nat list \<Rightarrow> bool" where
  "isSupportedCodeRabbitVersion v \<longleftrightarrow>
     0 \<le> compareCodeRabbitVersion v [0, 7, 0] \<and> compareCodeRabbitVersion v [0, 8, 0] < 0"

definition parseCodeRabbitVersion :: "string \<Rightarrow> nat list option" where
  "parseCodeRabbitVersion v =
     (case version_numbers v of
        None \<Rightarrow> None
      | Some (a, b, c) \<Rightarrow> if a < 2 ^ 53 \<and> b < 2 ^ 53 \<and> c < 2 ^ 53 then Some [a, b, c] else None)"

definition source_reasons ::
  "runtime \<Rightarrow> acceptance_contract \<Rightarrow> string \<Rightarrow> review_receipt \<Rightarrow> review_attestation \<Rightarrow> reason list" where
  "source_reasons R c revision review a = (let d = at_digests a; x = at_review_context a; s = at_scope a in
     issue_if (at_schema_version a \<noteq> 1 \<or> at_review_kind a \<noteq> AuthoritativeFull)
       (plain ''CodeRabbit review does not use the authoritative attestation schema'') @
     issue_if (at_capability_state a \<noteq> ''proof-integrated'')
       (plain ''CodeRabbit review capability was not integrated into the proof gate'') @
     issue_if (digestJson R (JObject [(''schemaVersion'', JNumber 1),
           (''runId'', JString (rb_run_id (rv_base review))), (''sourceDigest'', JString revision)])
         \<noteq> Inr (ad_authority_key d))
       (plain ''CodeRabbit review authority does not match the run and frozen source'') @
     issue_if (ad_source d \<noteq> revision \<or> ad_source d \<noteq> rb_revision_hash (rv_base review))
       (plain ''CodeRabbit review attestation does not match the frozen source digest'') @
     issue_if (digestJson R (contract_json c) \<noteq> Inr (ad_contract d))
       (plain ''CodeRabbit review attestation does not match the acceptance contract'') @
     issue_if (digestJson R (JArray (map finding_json (rv_findings review))) \<noteq> Inr (ad_finding_set d))
       (plain ''CodeRabbit review attestation does not match its normalized findings'') @
     issue_if (digestJson R (context_json x) \<noteq> Inr (ad_review_context d)
         \<or> digestJson R (scope_json s) \<noteq> Inr (ad_scope d))
       (plain ''CodeRabbit review context or scope digest does not match its evidence'') @
     issue_if (rc_review_type x \<noteq> ''committed'' \<or> rc_current_branch x \<noteq> ''candidate''
         \<or> rc_base_branch x \<noteq> ''main'' \<or> rs_review_kind s \<noteq> AuthoritativeFull
         \<or> rs_review_type s \<noteq> rc_review_type x \<or> rs_current_branch s \<noteq> rc_current_branch x
         \<or> rs_base_branch s \<noteq> rc_base_branch x \<or> rs_base_commit s \<noteq> rc_base_commit x
         \<or> rs_working_directory_digest s \<noteq> rc_working_directory_digest x
         \<or> rs_reviewed_file_count s < 1)
       (plain ''CodeRabbit review scope evidence is not authoritative''))"

definition policy_reasons ::
  "controller_policy \<Rightarrow> review_receipt \<Rightarrow> review_attestation \<Rightarrow> reason list" where
  "policy_reasons P review a = (let d = at_digests a in
     issue_if (at_policy_pack_version a \<noteq> pol_policy_pack_version P
         \<or> ad_policy_pack d \<noteq> pol_policy_pack_digest P)
       (plain ''CodeRabbit review does not use the current controller policy pack'') @
     issue_if (ad_config_schema d \<noteq> pol_config_schema_digest P)
       (plain ''CodeRabbit review configuration schema digest does not match the controller'') @
     issue_if (ad_config d \<noteq> pol_controller_config_digest P)
       (plain ''CodeRabbit review configuration digest does not match the controller'') @
     issue_if (ad_rules d \<noteq> pol_controller_rules_digest P)
       (plain ''CodeRabbit review rules digest does not match the controller'') @
     issue_if (ad_tool_policy d \<noteq> pol_tool_policy_digest P)
       (plain ''CodeRabbit review tool policy digest does not match the controller'') @
     issue_if (ad_event_schema d \<noteq> pol_event_schema_digest P)
       (plain ''CodeRabbit review event schema digest does not match the controller'') @
     issue_if (truthy (rv_policy_digest review) = None \<or> truthy (rv_expected_policy_digest review) = None
         \<or> rv_policy_digest review \<noteq> Some (ad_policy d)
         \<or> rv_expected_policy_digest review \<noteq> Some (ad_policy d))
       (plain ''CodeRabbit review attestation is not bound to the controller review policy''))"

definition capability_reasons ::
  "runtime \<Rightarrow> controller_policy \<Rightarrow> review_attestation \<Rightarrow> reason list" where
  "capability_reasons R P a = (let d = at_digests a; k = at_capability a in
     issue_if (case parseCodeRabbitVersion (at_cli_version a) of
           None \<Rightarrow> True | Some v \<Rightarrow> \<not> isSupportedCodeRabbitVersion v)
       (plain ''CodeRabbit review CLI version is outside the allowed range'') @
     issue_if (ad_cli_before d \<noteq> ad_cli_after d \<or> ad_cli_before d \<noteq> ca_cli_executable_digest k)
       (plain ''CodeRabbit review CLI executable changed during review'') @
     issue_if (digestJson R (capability_json k) \<noteq> Inr (ad_capability d) \<or> ca_state k \<noteq> ''healthy''
         \<or> ca_policy_pack_version k \<noteq> pol_policy_pack_version P
         \<or> ca_policy_pack_digest k \<noteq> pol_policy_pack_digest P
         \<or> ca_cli_version k \<noteq> at_cli_version a
         \<or> digestJson R (strings_json (ca_review_flags k)) \<noteq> Inr (ca_review_flags_digest k)
         \<or> ca_review_flags k \<noteq> pol_handshake_review_flags P
         \<or> ca_supported_event_kinds k \<noteq> pol_supported_event_kinds P
         \<or> \<not> ca_agent_jsonl k \<or> \<not> ca_authenticated k
         \<or> ca_update_policy k \<noteq> ''disabled-and-digest-pinned''
         \<or> ca_service_connectivity k \<noteq> ''healthy'' \<or> ca_controller_config k \<noteq> ''supported''
         \<or> ca_tool_support k \<noteq> ''disabled-controller-policy''
         \<or> canonicalJson R (doctor_json (ca_doctor k)) \<noteq> canonicalJson R (doctor_json (at_doctor a)))
       (plain ''CodeRabbit review capability digest does not match its healthy handshake'') @
     issue_if (digestJson R (strings_json (pol_required_review_flags P)) \<noteq> Inr (ad_review_flags d))
       (plain ''CodeRabbit review flags digest does not match the authoritative full review''))"

definition session_reasons :: "controller_policy \<Rightarrow> review_receipt \<Rightarrow> review_attestation \<Rightarrow> reason list" where
  "session_reasons P review a = (let e = at_event_counts a; dr = at_doctor a in
     issue_if (at_update_policy a \<noteq> ''disabled-and-digest-pinned'')
       (plain ''CodeRabbit review update policy is not proof-safe'') @
     issue_if (at_authentication a \<noteq> ''authenticated'')
       (plain ''CodeRabbit review was not authenticated'') @
     issue_if (dr_passed dr \<noteq> 8 \<or> dr_warnings dr \<noteq> 1 \<or> dr_failed dr \<noteq> 0
         \<or> dr_digest dr \<noteq> pol_doctor_digest P)
       (plain ''CodeRabbit review doctor checks were not healthy'') @
     issue_if (at_service_connectivity a \<noteq> ''healthy'')
       (plain ''CodeRabbit review service connectivity was not healthy'') @
     issue_if (\<not> at_agent_jsonl a) (plain ''CodeRabbit review did not use agent-mode JSONL'') @
     issue_if (at_terminal_state a \<noteq> ''review_completed'')
       (plain ''CodeRabbit review is missing successful terminal completion'') @
     issue_if (ec_review_context e \<noteq> 1 \<or> ec_status e < 1
         \<or> ec_finding e \<noteq> length (rv_findings review) \<or> ec_complete e \<noteq> 1 \<or> ec_error e \<noteq> 0)
       (plain ''CodeRabbit review event counts do not prove one complete full review'') @
     issue_if (at_attempts a \<noteq> length (at_retry_reasons a) + 1)
       (plain ''CodeRabbit review attempts do not match its bounded retry evidence''))"

definition count_severity :: "severity \<Rightarrow> review_finding list \<Rightarrow> nat" where
  "count_severity s fs = length (filter (\<lambda>f. rf_severity f = s) fs)"

definition expectedSeverityCounts :: "review_finding list \<Rightarrow> severity_counts" where
  "expectedSeverityCounts fs = \<lparr>sc_critical = count_severity SevCritical fs, sc_major = count_severity SevMajor fs,
     sc_minor = count_severity SevMinor fs, sc_trivial = count_severity SevTrivial fs,
     sc_info = count_severity SevInfo fs\<rparr>"

definition finding_categories :: "review_finding list \<Rightarrow> string list" where
  "finding_categories fs = List.maps (\<lambda>f. case truthy (rf_category f) of None \<Rightarrow> [] | Some c \<Rightarrow> [c]) fs"

definition normalizedCategoryCounts :: "review_finding list \<Rightarrow> (string \<times> nat) list" where
  "normalizedCategoryCounts fs =
     (let cs = finding_categories fs in order_by fst (map (\<lambda>c. (c, count_list cs c)) (remdups cs)))"

definition finding_metadata_matches :: "controller_policy \<Rightarrow> review_finding \<Rightarrow> bool" where
  "finding_metadata_matches P f \<longleftrightarrow> (let k = pol_classify_finding P f in
     rf_category f = Some (fc_category k) \<and> rf_governing_invariant f = Some (fc_governing_invariant k)
     \<and> rf_severity f = fc_severity k \<and> rf_controller_rule_id f = fc_rule_id k)"

definition finding_range_valid :: "review_finding \<Rightarrow> bool" where
  "finding_range_valid f \<longleftrightarrow>
     (case (rf_start_line f, rf_end_line f) of
        (None, None) \<Rightarrow> True
      | (Some a, Some b) \<Rightarrow> a \<le> b
      | _ \<Rightarrow> False)"

definition finding_reasons ::
  "runtime \<Rightarrow> controller_policy \<Rightarrow> review_receipt \<Rightarrow> review_attestation \<Rightarrow> reason list" where
  "finding_reasons R P review a = (let fs = rv_findings review in
     issue_if (canonicalJson R (severity_counts_json (at_severity_counts a))
         \<noteq> canonicalJson R (severity_counts_json (expectedSeverityCounts fs)))
       (plain ''CodeRabbit review severity counts do not match its findings'') @
     issue_if (list_ex (\<lambda>f. truthy (rf_category f) = None) fs
         \<or> canonicalJson R (category_counts_json (at_category_counts a))
           \<noteq> canonicalJson R (category_counts_json (normalizedCategoryCounts fs)))
       (plain ''CodeRabbit review category counts do not match its findings'') @
     issue_if (\<not> list_all (finding_metadata_matches P) fs)
       (plain ''CodeRabbit review findings do not match controller severity classification'') @
     issue_if (\<not> list_all finding_range_valid fs)
       (plain ''CodeRabbit review contains an invalid finding line range'') @
     issue_if (at_configured_tools a \<noteq> pol_configured_tools P \<or> at_observed_tools a \<noteq> []
         \<or> at_tool_coverage a \<noteq> ''disabled-controller-policy'')
       (plain ''CodeRabbit review tool coverage does not match controller policy''))"

definition codeRabbitAttestationFailures ::
  "runtime \<Rightarrow> controller_policy \<Rightarrow> acceptance_contract \<Rightarrow> string \<Rightarrow> review_receipt \<Rightarrow> reason list" where
  "codeRabbitAttestationFailures R P c revision review =
     (case rv_attestation review of
        None \<Rightarrow> [plain ''CodeRabbit review is missing its controller attestation'']
      | Some a \<Rightarrow>
          (case truthy (rv_expected_attestation_digest review) of
             None \<Rightarrow> [plain ''CodeRabbit review is missing its expected controller attestation digest'']
           | Some d \<Rightarrow> issue_if (digestJson R (attestation_json a) \<noteq> Inr d)
               (plain ''CodeRabbit review controller attestation digest does not match'')) @
          (if \<not> attestation_shape a
           then [plain ''CodeRabbit review controller attestation schema is invalid'']
           else source_reasons R c revision review a @ policy_reasons P review a @ capability_reasons R P a @
             session_reasons P review a @ finding_reasons R P review a))"

subsection \<open>The review, the evaluation and the hard requirements\<close>

definition authoritative_reviews :: "evidence_receipt list \<Rightarrow> review_receipt list" where
  "authoritative_reviews rs =
     filter (\<lambda>r. case rv_attestation r of None \<Rightarrow> False | Some a \<Rightarrow> at_review_kind a = AuthoritativeFull)
       (List.maps review_of rs)"

definition review_body_reasons ::
  "runtime \<Rightarrow> controller_policy \<Rightarrow> acceptance_contract \<Rightarrow> string \<Rightarrow> review_receipt \<Rightarrow> reason list" where
  "review_body_reasons R P c revision review =
     codeRabbitAttestationFailures R P c revision review @
     issue_if (rb_status (rv_base review) \<noteq> EvPass \<or> \<not> rv_complete review)
       (Reason ''CodeRabbit review did not complete cleanly (%)'' [status_text (rb_status (rv_base review))] []) @
     (if rv_complete review \<and> (truthy (rv_policy_digest review) = None
           \<or> truthy (rv_expected_policy_digest review) = None)
      then [plain ''CodeRabbit review is missing its controller policy digest'']
      else issue_if (rv_complete review \<and> rv_policy_digest review \<noteq> rv_expected_policy_digest review)
        (plain ''CodeRabbit review policy digest does not match the controller policy'')) @
     (let n = count_severity SevCritical (rv_findings review) in
      issue_if (0 < n) (Reason ''CodeRabbit reported % critical finding(s)'' [] [n]))"

definition review_reasons ::
  "runtime \<Rightarrow> controller_policy \<Rightarrow> acceptance_contract \<Rightarrow> string \<Rightarrow> evidence_receipt list \<Rightarrow> reason list" where
  "review_reasons R P c revision rs =
     (let reviews = List.maps review_of rs; full = authoritative_reviews rs in
      issue_if (reviews = []) (plain ''Missing CodeRabbit review evidence'') @
      issue_if (list_ex (\<lambda>r. rv_attestation r = None) reviews)
        (plain ''CodeRabbit review evidence contains a legacy unattested review'') @
      (if full = [] \<and> reviews \<noteq> []
       then [plain ''Missing authoritative full CodeRabbit review evidence for the frozen revision'']
       else issue_if (1 < length full)
         (plain ''Multiple authoritative full CodeRabbit reviews target the frozen revision'')) @
      (case full of [review] \<Rightarrow> review_body_reasons R P c revision review | _ \<Rightarrow> []))"

definition evaluation_reasons :: "evaluation_receipt option \<Rightarrow> reason list" where
  "evaluation_reasons evaluation =
     (case evaluation of
        None \<Rightarrow> [plain ''Missing Fireworks/Braintrust contract evaluation evidence'']
      | Some e \<Rightarrow>
          issue_if (rb_status (ve_base e) \<noteq> EvPass \<or> ve_trace_id e = [])
            (Reason ''Contract evaluation did not pass (%)'' [status_text (rb_status (ve_base e))] []) @
          issue_if (ve_unsupported_claims e \<noteq> [])
            (Reason ''Candidate contains % unsupported claim(s)'' [] [length (ve_unsupported_claims e)]) @
          issue_if (ve_provider e \<noteq> ''fireworks'' \<or> ve_trace_provider e \<noteq> ''braintrust''
              \<or> bs_hard_requirements (ve_scores e) \<noteq> 1 \<or> bs_supported_business_facts (ve_scores e) \<noteq> 1
              \<or> bs_evidence_grounding (ve_scores e) \<noteq> 1)
            (plain ''Braintrust gate scores are incomplete or failing''))"

fun evaluation_status_text :: "evaluation_status \<Rightarrow> string" where
  "evaluation_status_text EvalPass = ''PASS''"
| "evaluation_status_text EvalFail = ''FAIL''"
| "evaluation_status_text EvalUnverified = ''UNVERIFIED''"

definition evaluation_for :: "evaluation_receipt option \<Rightarrow> string \<Rightarrow> requirement_evaluation option" where
  "evaluation_for evaluation rid =
     (case evaluation of None \<Rightarrow> None
      | Some e \<Rightarrow> find (\<lambda>q. re_requirement_id q = rid) (ve_requirements e))"

text \<open>\<open>evaluationResult?.status === "PASS" && !citedEvidence.has(ref)\<close>.\<close>

definition uncited :: "requirement_evaluation option \<Rightarrow> string \<Rightarrow> bool" where
  "uncited result ref =
     (case result of None \<Rightarrow> False
      | Some q \<Rightarrow> re_status q = EvalPass \<and> ref \<notin> set (re_evidence_refs q))"

definition command_verifier_reasons ::
  "runtime \<Rightarrow> evidence_receipt list \<Rightarrow> requirement_evaluation option \<Rightarrow> string \<Rightarrow> nat \<Rightarrow> string \<Rightarrow> reason list" where
  "command_verifier_reasons R rs result rid i command =
     (case latest_command R (\<lambda>r. cr_kind r = KindRequirementCommand \<and> cr_requirement_id r = Some rid
             \<and> cr_verifier_index r = Some i \<and> cr_command r = command) rs of
        None \<Rightarrow> [Reason ''Missing command verifier % for hard requirement %'' [rid] [i]]
      | Some r \<Rightarrow>
          if \<not> command_passed r
          then [Reason ''Command verifier % failed for hard requirement %'' [rid] [i]]
          else issue_if (uncited result (''receipt:'' @ rb_receipt_id (cr_base r)))
            (Reason ''Hard requirement % did not cite command verifier % evidence'' [rid] [i]))"

definition http_check_failed :: "preview_check \<Rightarrow> string \<Rightarrow> int \<Rightarrow> string list \<Rightarrow> bool" where
  "http_check_failed k path st body \<longleftrightarrow> pc_path k \<noteq> path \<or> pc_expected_status k \<noteq> st
     \<or> pc_expected_text k \<noteq> body \<or> truthy (pc_error k) \<noteq> None \<or> pc_actual_status k \<noteq> Some st
     \<or> pc_missing_text k \<noteq> []"

definition http_verifier_reasons ::
  "preview_receipt option \<Rightarrow> requirement_evaluation option \<Rightarrow> string \<Rightarrow> nat \<Rightarrow> string \<Rightarrow> int \<Rightarrow> string list
    \<Rightarrow> reason list" where
  "http_verifier_reasons preview result rid i path st body =
     (let checks = (case preview of None \<Rightarrow> []
            | Some p \<Rightarrow> filter (\<lambda>k. pc_requirement_id k = Some rid \<and> pc_verifier_index k = Some i) (pr_checks p)) in
      case checks of
        [] \<Rightarrow> [Reason ''Missing HTTP verifier % for hard requirement %'' [rid] [i]]
      | k # others \<Rightarrow>
          if others \<noteq> [] then [Reason ''HTTP verifier % is ambiguous for hard requirement %'' [rid] [i]]
          else if http_check_failed k path st body
          then [Reason ''HTTP verifier % failed for hard requirement %'' [rid] [i]]
          else (case truthy (pc_visible_text_digest k) of
            None \<Rightarrow> [Reason ''HTTP verifier % is missing rendered-page evidence for hard requirement %'' [rid] [i]]
          | Some d \<Rightarrow>
              if \<not> hasScreenshotTileDigests (pc_screenshots k)
              then [Reason ''HTTP verifier % is missing rendered screenshot evidence for hard requirement %'' [rid] [i]]
              else issue_if (uncited result (''page:'' @ pc_path k @ '':'' @ d))
                (Reason ''Hard requirement % did not cite HTTP verifier % evidence'' [rid] [i])))"

fun verifier_reasons ::
  "runtime \<Rightarrow> evidence_receipt list \<Rightarrow> preview_receipt option \<Rightarrow> requirement_evaluation option \<Rightarrow> string
    \<Rightarrow> nat \<Rightarrow> verifier \<Rightarrow> reason list" where
  "verifier_reasons R rs preview result rid i (CommandVerifier cmd t) =
     command_verifier_reasons R rs result rid i cmd"
| "verifier_reasons R rs preview result rid i (HttpVerifier path st body) =
     http_verifier_reasons preview result rid i path st body"
| "verifier_reasons R rs preview result rid i (SemanticVerifier crit) = []"

definition hard_requirement_reasons ::
  "runtime \<Rightarrow> evidence_receipt list \<Rightarrow> preview_receipt option \<Rightarrow> evaluation_receipt option \<Rightarrow> requirement
    \<Rightarrow> reason list" where
  "hard_requirement_reasons R rs preview evaluation q =
     (if rq_priority q \<noteq> Hard then []
      else let result = evaluation_for evaluation (rq_id q) in
        (case result of
           None \<Rightarrow> [Reason ''Missing evaluation for hard requirement %'' [rq_id q] []]
         | Some e \<Rightarrow> issue_if (re_status e \<noteq> EvalPass)
             (Reason ''Hard requirement % is %'' [rq_id q, evaluation_status_text (re_status e)] [])) @
        concat (map (\<lambda>(i, v). verifier_reasons R rs preview result (rq_id q) i v)
          (enumerate 0 (rq_verifiers q))))"

subsection \<open>The decision\<close>

definition run_identity_reasons :: "evidence_receipt list \<Rightarrow> reason list" where
  "run_identity_reasons rs =
     issue_if (1 < card (receipt_run ` set rs))
       (plain ''Proof evidence mixes multiple controller run identities'')"

definition gate_reasons ::
  "runtime \<Rightarrow> controller_policy \<Rightarrow> acceptance_contract \<Rightarrow> string \<Rightarrow> evidence_receipt list \<Rightarrow> reason list" where
  "gate_reasons R P c revision rs =
     (let preview = latest_preview R rs; scan = visual_scan R c rs; evaluation = latest_evaluation R rs in
      run_identity_reasons rs @ dockerfile_reasons R P rs @ bootstrap_reasons R P rs @
      build_reasons R c rs @ container_reasons R P rs @
      concat (map (test_reasons R rs) (vp_test_commands (ac_verification c))) @
      forbidden_scan_reasons R P c rs @ visual_reasons scan @ preview_reasons R P c preview @
      raster_binding_reasons R scan preview @ root_check_reasons preview @ routes_reasons c preview @
      review_reasons R P c revision rs @ evaluation_reasons evaluation @
      concat (map (hard_requirement_reasons R rs preview evaluation) (ac_requirements c)))"

definition for_revision :: "string \<Rightarrow> evidence_receipt list \<Rightarrow> evidence_receipt list" where
  "for_revision revision rs = filter (\<lambda>r. receipt_revision r = revision) rs"

definition decideProof ::
  "runtime \<Rightarrow> controller_policy \<Rightarrow> acceptance_contract \<Rightarrow> string \<Rightarrow> evidence_receipt list \<Rightarrow> proof_decision" where
  "decideProof R P c revision allReceipts =
     (let reasons = gate_reasons R P c revision (for_revision revision allReceipts) in
      \<lparr>pd_passed = (reasons = []), pd_reasons = rev (remdups (rev reasons))\<rparr>)"

subsection \<open>Selection lemmas\<close>

lemma latest_None [simp]: "latest R k rs = None \<longleftrightarrow> rs = []"
  by (auto simp: latest_def split: list.splits)

lemma latest_in: "latest R k rs = Some r \<Longrightarrow> r \<in> set rs"
proof -
  let ?s = "sort_by (\<lambda>l r. rt_locale_compare R (k r) (k l)) rs"
  assume "latest R k rs = Some r"
  then obtain t where "?s = r # t" by (auto simp: latest_def split: list.splits)
  then have "r \<in> set ?s" by (metis list.set_intros(1))
  then show "r \<in> set rs" by simp
qed

text \<open>When \<open>localeCompare\<close> is a total preorder, \<open>latest\<close> really is a newest receipt.\<close>

lemma latest_newest:
  assumes "consistent_cmp (rt_locale_compare R)" and "latest R k rs = Some r" and "x \<in> set rs"
  shows "rt_locale_compare R (k x) (k r) \<le> 0"
proof -
  let ?c = "\<lambda>l r. rt_locale_compare R (k r) (k l)"
  have "consistent_cmp ?c"
    using assms(1) unfolding consistent_cmp_def by (metis linorder_linear)
  then have "?c (hd (sort_by ?c rs)) x \<le> 0" by (rule hd_sort_by_least) (rule assms(3))
  moreover have "r = hd (sort_by ?c rs)"
    using assms(2) by (auto simp: latest_def split: list.splits)
  ultimately show ?thesis by simp
qed

lemma in_command_of [simp]: "r \<in> set (command_of e) \<longleftrightarrow> e = CommandEv r"
  by (cases e) auto

lemma in_preview_of [simp]: "r \<in> set (preview_of e) \<longleftrightarrow> e = PreviewEv r"
  by (cases e) auto

lemma in_review_of [simp]: "r \<in> set (review_of e) \<longleftrightarrow> e = ReviewEv r"
  by (cases e) auto

lemma in_evaluation_of [simp]: "r \<in> set (evaluation_of e) \<longleftrightarrow> e = EvaluationEv r"
  by (cases e) auto

lemma in_raster_of [simp]: "r \<in> set (raster_of e) \<longleftrightarrow> e = RasterEv r"
  by (cases e) auto

lemma latest_command_SomeD:
  "latest_command R P rs = Some r \<Longrightarrow> CommandEv r \<in> set rs \<and> P r"
  by (auto simp: latest_command_def dest!: latest_in)

lemma latest_preview_SomeD: "latest_preview R rs = Some p \<Longrightarrow> PreviewEv p \<in> set rs"
  by (auto simp: latest_preview_def dest!: latest_in)

lemma latest_evaluation_SomeD: "latest_evaluation R rs = Some e \<Longrightarrow> EvaluationEv e \<in> set rs"
  by (auto simp: latest_evaluation_def dest!: latest_in)

lemma visual_scan_SomeD: "visual_scan R c rs = Some r \<Longrightarrow> RasterEv r \<in> set rs"
  by (auto simp: visual_scan_def latest_raster_def dest!: latest_in)

lemma in_for_revision [simp]:
  "r \<in> set (for_revision revision rs) \<longleftrightarrow> r \<in> set rs \<and> receipt_revision r = revision"
  by (auto simp: for_revision_def)

lemma for_revision_idem [simp]: "for_revision revision (for_revision revision rs) = for_revision revision rs"
  by (simp add: for_revision_def)

lemma decideProof_passed:
  "pd_passed (decideProof R P c revision rs) \<longleftrightarrow> gate_reasons R P c revision (for_revision revision rs) = []"
  by (simp add: decideProof_def Let_def)

text \<open>A passing decision leaves every block of the gate without a reason.\<close>

lemma gate_reasons_Nil:
  assumes "gate_reasons R P c revision rs = []"
  shows "run_identity_reasons rs = []" "dockerfile_reasons R P rs = []" "bootstrap_reasons R P rs = []"
    "build_reasons R c rs = []" "container_reasons R P rs = []"
    "\<And>t. t \<in> set (vp_test_commands (ac_verification c)) \<Longrightarrow> test_reasons R rs t = []"
    "forbidden_scan_reasons R P c rs = []" "visual_reasons (visual_scan R c rs) = []"
    "preview_reasons R P c (latest_preview R rs) = []"
    "raster_binding_reasons R (visual_scan R c rs) (latest_preview R rs) = []"
    "root_check_reasons (latest_preview R rs) = []" "routes_reasons c (latest_preview R rs) = []"
    "review_reasons R P c revision rs = []" "evaluation_reasons (latest_evaluation R rs) = []"
    "\<And>q. q \<in> set (ac_requirements c) \<Longrightarrow>
      hard_requirement_reasons R rs (latest_preview R rs) (latest_evaluation R rs) q = []"
  using assms by (simp_all add: gate_reasons_def Let_def)

subsection \<open>What a passing decision proves\<close>

text \<open>
  The specification of one command's evidence: some receipt of the frozen revision, of the given
  kind and for exactly this command, passed with exit code 0.
\<close>

definition command_evidence :: "evidence_receipt list \<Rightarrow> string \<Rightarrow> command_kind \<Rightarrow> string \<Rightarrow> bool" where
  "command_evidence rs revision kind command \<longleftrightarrow>
     (\<exists>r. CommandEv r \<in> set rs \<and> rb_revision_hash (cr_base r) = revision \<and> cr_kind r = kind
       \<and> cr_command r = command \<and> command_passed r)"

lemma command_case_Nil:
  assumes "(case latest_command R Q (for_revision revision rs) of None \<Rightarrow> [m]
      | Some r \<Rightarrow> issue_if (\<not> command_passed r) (f r)) = []"
  shows "\<exists>r. latest_command R Q (for_revision revision rs) = Some r \<and> CommandEv r \<in> set rs
    \<and> rb_revision_hash (cr_base r) = revision \<and> Q r \<and> command_passed r"
  using assms by (auto split: option.splits dest: latest_command_SomeD)

lemma gate_command_evidence:
  assumes "gate_reasons R P c revision (for_revision revision rs) = []"
  shows "command_evidence rs revision KindArtifact (pol_dockerfile_command P)"
    and "command_evidence rs revision KindDependencyBootstrap (pol_bootstrap_command P)"
    and "command_evidence rs revision KindBuild (vp_build_command (ac_verification c))"
    and "command_evidence rs revision KindContainerBuild (pol_container_command P)"
    and "t \<in> set (vp_test_commands (ac_verification c)) \<Longrightarrow> command_evidence rs revision KindTest t"
proof -
  note n = gate_reasons_Nil [OF assms]
  show "command_evidence rs revision KindArtifact (pol_dockerfile_command P)"
    using command_case_Nil [OF n(2) [unfolded dockerfile_reasons_def]]
    by (auto simp: command_evidence_def)
  show "command_evidence rs revision KindDependencyBootstrap (pol_bootstrap_command P)"
    using command_case_Nil [OF n(3) [unfolded bootstrap_reasons_def]]
    by (auto simp: command_evidence_def)
  show "command_evidence rs revision KindBuild (vp_build_command (ac_verification c))"
    using command_case_Nil [OF n(4) [unfolded build_reasons_def]]
    by (auto simp: command_evidence_def)
  show "command_evidence rs revision KindContainerBuild (pol_container_command P)"
    using command_case_Nil [OF n(5) [unfolded container_reasons_def]]
    by (auto simp: command_evidence_def)
  show "command_evidence rs revision KindTest t" if "t \<in> set (vp_test_commands (ac_verification c))"
    using command_case_Nil [OF n(6) [OF that, unfolded test_reasons_def]]
    by (auto simp: command_evidence_def)
qed

text \<open>What the gate requires of one hard requirement's verifier.\<close>

fun verifier_evidence :: "evidence_receipt list \<Rightarrow> string \<Rightarrow> string list \<Rightarrow> string \<Rightarrow> nat \<Rightarrow> verifier \<Rightarrow> bool" where
  "verifier_evidence rs revision refs rid i (CommandVerifier cmd t) \<longleftrightarrow>
     (\<exists>r. CommandEv r \<in> set rs \<and> rb_revision_hash (cr_base r) = revision \<and> cr_kind r = KindRequirementCommand
       \<and> cr_requirement_id r = Some rid \<and> cr_verifier_index r = Some i \<and> cr_command r = cmd
       \<and> command_passed r \<and> ''receipt:'' @ rb_receipt_id (cr_base r) \<in> set refs)"
| "verifier_evidence rs revision refs rid i (HttpVerifier path st body) \<longleftrightarrow>
     (\<exists>p k d. PreviewEv p \<in> set rs \<and> rb_revision_hash (pr_base p) = revision \<and> k \<in> set (pr_checks p)
       \<and> pc_requirement_id k = Some rid \<and> pc_verifier_index k = Some i \<and> pc_path k = path
       \<and> pc_actual_status k = Some st \<and> pc_expected_text k = body \<and> pc_missing_text k = []
       \<and> pc_visible_text_digest k = Some d \<and> hasScreenshotTileDigests (pc_screenshots k)
       \<and> ''page:'' @ path @ '':'' @ d \<in> set refs)"
| "verifier_evidence rs revision refs rid i (SemanticVerifier crit) \<longleftrightarrow> True"

lemma command_verifier_evidence:
  assumes "command_verifier_reasons R (for_revision revision rs) (Some e) rid i cmd = []"
    and "re_status e = EvalPass"
  shows "verifier_evidence rs revision (re_evidence_refs e) rid i (CommandVerifier cmd t)"
  using assms
  by (fastforce simp: command_verifier_reasons_def uncited_def split: option.splits if_splits
      dest!: latest_command_SomeD)

lemma http_verifier_evidence:
  assumes ok: "http_verifier_reasons (latest_preview R (for_revision revision rs)) (Some e) rid i path st body = []"
    and pass: "re_status e = EvalPass"
  shows "verifier_evidence rs revision (re_evidence_refs e) rid i (HttpVerifier path st body)"
proof -
  let ?bound = "\<lambda>k. pc_requirement_id k = Some rid \<and> pc_verifier_index k = Some i"
  obtain p where p: "latest_preview R (for_revision revision rs) = Some p"
    using ok by (cases "latest_preview R (for_revision revision rs)") (auto simp: http_verifier_reasons_def)
  obtain k where k: "filter ?bound (pr_checks p) = [k]"
    using ok by (auto simp: http_verifier_reasons_def p Let_def split: list.splits if_splits)
  from k have "k \<in> set (filter ?bound (pr_checks p))" by simp
  then have in_p: "k \<in> set (pr_checks p)" "?bound k" by simp_all
  have rest: "\<not> http_check_failed k path st body" "hasScreenshotTileDigests (pc_screenshots k)"
    "\<exists>d. truthy (pc_visible_text_digest k) = Some d \<and> ''page:'' @ pc_path k @ '':'' @ d \<in> set (re_evidence_refs e)"
    using ok pass
    by (auto simp: http_verifier_reasons_def p k Let_def uncited_def split: list.splits if_splits option.splits)
  from latest_preview_SomeD [OF p] have "PreviewEv p \<in> set rs" "rb_revision_hash (pr_base p) = revision"
    by auto
  with in_p rest show ?thesis
    by (fastforce simp: http_check_failed_def dest: truthy_SomeD)
qed

lemma verifier_reasons_evidence:
  assumes "verifier_reasons R (for_revision revision rs) (latest_preview R (for_revision revision rs)) (Some e) rid i v = []"
    and "re_status e = EvalPass"
  shows "verifier_evidence rs revision (re_evidence_refs e) rid i v"
proof (cases v)
  case (CommandVerifier cmd t)
  with assms command_verifier_evidence show ?thesis by simp
next
  case (HttpVerifier path st body)
  with assms http_verifier_evidence [of R revision rs e rid i path st body] show ?thesis by simp
next
  case (SemanticVerifier crit)
  then show ?thesis by simp
qed

lemma hard_requirement_verified:
  assumes "gate_reasons R P c revision (for_revision revision rs) = []"
    and "q \<in> set (ac_requirements c)" and "rq_priority q = Hard"
  shows "\<exists>ev e. EvaluationEv ev \<in> set rs \<and> rb_revision_hash (ve_base ev) = revision
    \<and> rb_status (ve_base ev) = EvPass \<and> e \<in> set (ve_requirements ev) \<and> re_requirement_id e = rq_id q
    \<and> re_status e = EvalPass
    \<and> (\<forall>i < length (rq_verifiers q).
          verifier_evidence rs revision (re_evidence_refs e) (rq_id q) i (rq_verifiers q ! i))"
proof -
  let ?rs = "for_revision revision rs"
  note n = gate_reasons_Nil [OF assms(1)]
  obtain ev where ev: "latest_evaluation R ?rs = Some ev" and "rb_status (ve_base ev) = EvPass"
    using n(14) by (cases "latest_evaluation R ?rs") (auto simp: evaluation_reasons_def)
  from latest_evaluation_SomeD [OF ev]
  have in_rs: "EvaluationEv ev \<in> set rs" "rb_revision_hash (ve_base ev) = revision" by auto
  have hard: "hard_requirement_reasons R ?rs (latest_preview R ?rs) (Some ev) q = []"
    using n(15) [OF assms(2)] ev by simp
  then obtain e where e: "find (\<lambda>x. re_requirement_id x = rq_id q) (ve_requirements ev) = Some e"
    and pass: "re_status e = EvalPass"
    using assms(3) by (auto simp: hard_requirement_reasons_def evaluation_for_def Let_def split: option.splits)
  have "verifier_reasons R ?rs (latest_preview R ?rs) (Some e) (rq_id q) i v = []"
    if "(i, v) \<in> set (enumerate 0 (rq_verifiers q))" for i v
    using hard assms(3) e that by (auto simp: hard_requirement_reasons_def evaluation_for_def Let_def)
  then have "verifier_evidence rs revision (re_evidence_refs e) (rq_id q) i (rq_verifiers q ! i)"
    if "i < length (rq_verifiers q)" for i
    using that pass verifier_reasons_evidence
    by (metis add_0 enumerate_eq_zip in_set_zip fst_conv length_upt minus_nat.diff_0 nth_upt snd_conv)
  with ev in_rs e pass \<open>rb_status (ve_base ev) = EvPass\<close> show ?thesis
    by (blast dest: find_eq_SomeD)
qed

end
