(* ===== verification/Run_Store.thy ===== *)
theory Run_Store
  imports Proof_Gate
begin

text \<open>
  \<open>src/adapters/sqlite/run-store.ts\<close>: the SQLite store of build runs, slot leases, evidence,
  artifacts, events and the outbox, as operations on a record of tables.  An operation takes the
  successive clock readings it makes (\<open>c 0\<close>, \<open>c 1\<close>, ...) and the identifiers
  \<open>randomUUID()\<close> returns, and gives either the exception it throws (the transaction is rolled
  back, so no new database) or its result with the new database.  The table constraints of
  \<open>migrations.ts\<close> are explicit: a broken PRIMARY KEY, UNIQUE, CHECK or foreign key is
  \<open>ConstraintViolation\<close>.  Documents a row stores as JSON text (assignment, receipt, artifact,
  payload) are stored as the values that text denotes.  A \<open>SELECT\<close> without \<open>ORDER BY\<close>, and ties
  of one with it, are taken in insertion order.
\<close>

datatype store_error =
    SchemaError string
  | JsonError type_error
  | ConstraintViolation string
  | IdempotencyConflict string
  | RunNotFound string
  | StaleLease string
  | InvalidRunState string string
  | ProofGateRejected string "reason list"
  | MissingRankingScore
  | PendingOutboxNotFound string

definition CURRENT_PROOF_PROTOCOL_VERSION :: nat where
  "CURRENT_PROOF_PROTOCOL_VERSION = 1"

subsection \<open>Tables\<close>

record run_row = build_run +
  rw_assignment :: build_assignment
  rw_proof_protocol_version :: nat
  rw_recovery_cleanup_at :: "time option"

record slot_row =
  sr_slot_id :: nat
  sr_run_id :: "string option"
  sr_fencing_token :: nat
  sr_heartbeat_at :: "time option"
  sr_expires_at :: "time option"

record run_db =
  db_contracts :: "(string \<times> acceptance_contract) list"
  db_runs :: "run_row list"
  db_events :: "run_event list"
  db_last_sequence :: nat
  db_evidence :: "evidence_receipt list"
  db_slots :: "slot_row list"
  db_artifacts :: "proven_artifact list"
  db_outbox :: "outbox_event list"

text \<open>The tables after the migrations: four free slots and nothing else.\<close>

definition free_slot :: "nat \<Rightarrow> slot_row" where
  "free_slot n = \<lparr>sr_slot_id = n, sr_run_id = None, sr_fencing_token = 0, sr_heartbeat_at = None,
     sr_expires_at = None\<rparr>"

definition empty_db :: run_db where
  "empty_db = \<lparr>db_contracts = [], db_runs = [], db_events = [], db_last_sequence = 0, db_evidence = [],
     db_slots = map free_slot [1, 2, 3, 4], db_artifacts = [], db_outbox = []\<rparr>"

text \<open>\<open>Math.min(4, Math.max(1, options.slotCount ?? 4))\<close>.\<close>

definition slot_count :: "int option \<Rightarrow> nat" where
  "slot_count n = nat (min 4 (max 1 (case n of None \<Rightarrow> 4 | Some k \<Rightarrow> k)))"

fun run_status_text :: "run_status \<Rightarrow> string" where
  "run_status_text RunQueued = ''queued''" | "run_status_text RunRunning = ''running''"
| "run_status_text RunPassed = ''passed''" | "run_status_text RunRejected = ''rejected''"
| "run_status_text RunFailed = ''failed''" | "run_status_text RunCancelled = ''cancelled''"

fun run_stage_text :: "run_stage \<Rightarrow> string" where
  "run_stage_text StageQueued = ''queued''" | "run_stage_text StageProvisioning = ''provisioning''"
| "run_stage_text StageGenerating = ''generating''" | "run_stage_text StageVerifying = ''verifying''"
| "run_stage_text StageReviewing = ''reviewing''" | "run_stage_text StageEvaluating = ''evaluating''"
| "run_stage_text StageFinalizing = ''finalizing''" | "run_stage_text StageComplete = ''complete''"

fun purpose_text :: "sandbox_purpose \<Rightarrow> string" where
  "purpose_text PurposeCommands = ''commands''" | "purpose_text PurposeDelivery = ''delivery''"

fun tool_text :: "agent_tool \<Rightarrow> string" where
  "tool_text ToolFinish = ''finish''" | "tool_text ToolListFiles = ''list_files''"
| "tool_text ToolReadFile = ''read_file''" | "tool_text ToolRunCommand = ''run_command''"
| "tool_text ToolStartPreview = ''start_preview''" | "tool_text ToolUnknown = ''unknown''"
| "tool_text ToolWriteFile = ''write_file''" | "tool_text ToolWriteFiles = ''write_files''"

fun command_kind_text :: "command_kind \<Rightarrow> string" where
  "command_kind_text KindArtifact = ''artifact''" | "command_kind_text KindBuild = ''build''"
| "command_kind_text KindContainerBuild = ''container-build''"
| "command_kind_text KindDependencyBootstrap = ''dependency-bootstrap''"
| "command_kind_text KindForbiddenClaim = ''forbidden-claim''" | "command_kind_text KindTest = ''test''"
| "command_kind_text KindRequirementCommand = ''requirement-command''"

fun receipt_kind_text :: "evidence_receipt \<Rightarrow> string" where
  "receipt_kind_text (CommandEv r) = command_kind_text (cr_kind r)"
| "receipt_kind_text (PreviewEv r) = ''preview''"
| "receipt_kind_text (ReviewEv r) = ''coderabbit''"
| "receipt_kind_text (EvaluationEv r) = ''contract-evaluation''"
| "receipt_kind_text (RasterEv r) = ''visual-claim''"

abbreviation jstr :: "string \<Rightarrow> jsval" where "jstr s \<equiv> JString s"
abbreviation jint :: "int \<Rightarrow> jsval" where "jint n \<equiv> JNumber (of_int n)"
abbreviation jnat :: "nat \<Rightarrow> jsval" where "jnat n \<equiv> JNumber (of_nat n)"

subsection \<open>Rows\<close>

definition run_of :: "run_db \<Rightarrow> string \<Rightarrow> run_row option" where
  "run_of db runId = find (\<lambda>r. br_id r = runId) (db_runs db)"

text \<open>\<open>#rowToRun\<close>: empty text columns are left out of the run.\<close>

definition rowToRun :: "run_row \<Rightarrow> build_run" where
  "rowToRun row = (build_run.truncate row)
     \<lparr>br_sandbox_id := truthy (br_sandbox_id row),
      br_builder_sandbox_id := truthy (br_builder_sandbox_id row),
      br_verification_sandbox_id := truthy (br_verification_sandbox_id row),
      br_revision_hash := truthy (br_revision_hash row),
      br_error_code := truthy (br_error_code row),
      br_error_message := truthy (br_error_message row)\<rparr>"

definition getRun :: "string \<Rightarrow> run_db \<Rightarrow> build_run option" where
  "getRun runId db = map_option rowToRun (run_of db runId)"

definition getAssignment :: "string \<Rightarrow> run_db \<Rightarrow> build_assignment option" where
  "getAssignment runId db = map_option rw_assignment (run_of db runId)"

definition requireRun :: "string \<Rightarrow> run_db \<Rightarrow> store_error + build_run" where
  "requireRun runId db = the_or (RunNotFound runId) (getRun runId db)"

definition update_run :: "string \<Rightarrow> (run_row \<Rightarrow> run_row) \<Rightarrow> run_db \<Rightarrow> run_db" where
  "update_run runId f db = db\<lparr>db_runs := update_where (\<lambda>r. br_id r = runId) f (db_runs db)\<rparr>"

text \<open>
  \<open>#appendEventStatement\<close>: AUTOINCREMENT gives one more than the largest sequence ever used, the
  foreign key wants the run, and the payload is stored redacted and canonical.
\<close>

definition appendEvent ::
  "string \<Rightarrow> string \<Rightarrow> run_stage \<Rightarrow> jsval \<Rightarrow> time \<Rightarrow> run_db \<Rightarrow> store_error + run_db" where
  "appendEvent runId eventType stage payload createdAt db =
     (case normalize (redactValue payload) of
        Inl e \<Rightarrow> Inl (JsonError e)
      | Inr stored \<Rightarrow>
          if run_of db runId = None then Inl (ConstraintViolation ''run_events.run_id'')
          else Inr (db\<lparr>db_events := db_events db @
                 [\<lparr>ev_sequence = Suc (db_last_sequence db), ev_run_id = runId, ev_type = eventType,
                   ev_stage = stage, ev_payload = stored, ev_created_at = createdAt\<rparr>],
               db_last_sequence := Suc (db_last_sequence db)\<rparr>))"

subsection \<open>Reading\<close>

text \<open>\<open>Math.max(1, Math.min(max, Math.floor(limit)))\<close>.\<close>

definition safe_limit :: "int \<Rightarrow> int \<Rightarrow> nat" where
  "safe_limit hi limit = nat (max 1 (min hi limit))"

definition listRecent :: "int \<Rightarrow> string option \<Rightarrow> run_db \<Rightarrow> build_run list" where
  "listRecent limit projectId db = map rowToRun (take (safe_limit 100 limit)
     (order_by (\<lambda>r. (- br_updated_at r, br_id r))
       (filter (\<lambda>r. case truthy projectId of None \<Rightarrow> True | Some p \<Rightarrow> br_project_id r = p) (db_runs db))))"

definition listQueued :: "int \<Rightarrow> run_db \<Rightarrow> build_run list" where
  "listQueued limit db = map rowToRun (take (safe_limit 1000 limit)
     (order_by (\<lambda>r. (br_created_at r, br_id r))
       (filter (\<lambda>r. br_status r = RunQueued \<and> \<not> br_cancel_requested r) (db_runs db))))"

definition listEvents :: "string \<Rightarrow> int \<Rightarrow> int option \<Rightarrow> run_db \<Rightarrow> run_event list" where
  "listEvents runId afterSequence limit db =
     take (case limit of None \<Rightarrow> 1000 | Some n \<Rightarrow> safe_limit 1000 n)
       (order_by ev_sequence
         (filter (\<lambda>e. ev_run_id e = runId \<and> nat afterSequence < ev_sequence e) (db_events db)))"

definition getLatestEventSequence :: "string \<Rightarrow> run_db \<Rightarrow> nat" where
  "getLatestEventSequence runId db =
     fold max (map ev_sequence (filter (\<lambda>e. ev_run_id e = runId) (db_events db))) 0"

definition evidence_of :: "run_db \<Rightarrow> string \<Rightarrow> evidence_receipt list" where
  "evidence_of db runId = filter (\<lambda>r. receipt_run r = runId) (db_evidence db)"

definition listEvidence :: "string \<Rightarrow> run_db \<Rightarrow> evidence_receipt list" where
  "listEvidence runId db =
     order_by (\<lambda>r. (rb_completed_at (receipt_header r), rb_receipt_id (receipt_header r))) (evidence_of db runId)"

definition artifacts_of :: "run_db \<Rightarrow> string \<Rightarrow> proven_artifact list" where
  "artifacts_of db runId = filter (\<lambda>a. pa_run_id a = runId) (db_artifacts db)"

text \<open>\<open>ORDER BY created_at DESC LIMIT 1\<close>.\<close>

definition newest_artifact :: "proven_artifact list \<Rightarrow> proven_artifact option" where
  "newest_artifact as =
     (case sort_by (\<lambda>a b. cmp_of_key pa_created_at b a) as of [] \<Rightarrow> None | a # _ \<Rightarrow> Some a)"

definition getRecordedArtifact :: "string \<Rightarrow> run_db \<Rightarrow> proven_artifact option" where
  "getRecordedArtifact runId db = newest_artifact (artifacts_of db runId)"

text \<open>The join condition of the artifact and outbox reads; \<open>NULL\<close> columns make it false.\<close>

definition delivery_promoted :: "'a build_run_scheme \<Rightarrow> bool" where
  "delivery_promoted r \<longleftrightarrow>
     br_builder_sandbox_id r \<noteq> None \<and> br_verification_sandbox_id r \<noteq> None
     \<and> br_builder_sandbox_id r \<noteq> br_verification_sandbox_id r
     \<and> br_verification_purpose r = Some PurposeDelivery
     \<and> br_sandbox_id r = br_verification_sandbox_id r"

definition proven_row :: "string \<Rightarrow> run_row \<Rightarrow> bool" where
  "proven_row revision r \<longleftrightarrow> br_revision_hash r = Some revision \<and> br_status r = RunPassed
     \<and> rw_proof_protocol_version r = CURRENT_PROOF_PROTOCOL_VERSION \<and> delivery_promoted r"

definition getArtifact :: "string \<Rightarrow> run_db \<Rightarrow> proven_artifact option" where
  "getArtifact runId db =
     (case run_of db runId of
        None \<Rightarrow> None
      | Some r \<Rightarrow> newest_artifact (filter (\<lambda>a. proven_row (pa_revision_hash a) r) (artifacts_of db runId)))"

definition publishable :: "run_db \<Rightarrow> outbox_event \<Rightarrow> bool" where
  "publishable db e \<longleftrightarrow>
     (case run_of db (ob_run_id e) of None \<Rightarrow> False | Some r \<Rightarrow> proven_row (ob_revision_hash e) r)"

definition parse_outbox :: "runtime \<Rightarrow> outbox_event \<Rightarrow> store_error + outbox_event" where
  "parse_outbox R e = (if OutboxEvent_ok R e then Inr e else Inl (SchemaError ''OutboxEvent''))"

definition listOutbox ::
  "runtime \<Rightarrow> int \<Rightarrow> string option \<Rightarrow> string list option \<Rightarrow> run_db \<Rightarrow> store_error + outbox_event list" where
  "listOutbox R limit projectId runIds db =
     (let project = truthy (map_option trim projectId);
          ids = (case runIds of None \<Rightarrow> [] | Some rs \<Rightarrow> remdups rs) in
      if \<not> list_all (rt_is_uuid R) ids then Inl (SchemaError ''runId'')
      else if runIds \<noteq> None \<and> (length ids < 1 \<or> 4 < length ids)
      then Inl (SchemaError ''Outbox run filter requires one to four run IDs'')
      else collect_ok (map (parse_outbox R) (take (safe_limit 1000 limit)
        (order_by (\<lambda>e. (ob_created_at e, ob_event_id e))
          (filter (\<lambda>e. ob_published_at e = None \<and> publishable db e
             \<and> (project = None \<or> map_option br_project_id (run_of db (ob_run_id e)) = project)
             \<and> (ids = [] \<or> ob_run_id e \<in> set ids)) (db_outbox db))))))"

definition getPendingOutbox :: "runtime \<Rightarrow> string \<Rightarrow> run_db \<Rightarrow> store_error + outbox_event option" where
  "getPendingOutbox R eventId db =
     (case find (\<lambda>e. ob_event_id e = eventId \<and> ob_published_at e = None \<and> publishable db e) (db_outbox db) of
        None \<Rightarrow> Inr None
      | Some e \<Rightarrow> bind_ok (parse_outbox R e) (\<lambda>x. Inr (Some x)))"

subsection \<open>Creating a run\<close>

record create_result =
  crr_run :: build_run
  crr_created :: bool

definition queued_row :: "string \<Rightarrow> build_assignment \<Rightarrow> string \<Rightarrow> string \<Rightarrow> time \<Rightarrow> run_row" where
  "queued_row runId a assignmentHash contractHash now =
     \<lparr>br_id = runId, br_assignment_id = ba_assignment_id a, br_assignment_hash = assignmentHash,
      br_project_id = ba_project_id a, br_candidate_id = ba_candidate_id a, br_contract_hash = contractHash,
      br_status = RunQueued, br_stage = StageQueued, br_slot_id = None, br_fencing_token = None,
      br_sandbox_id = None, br_builder_sandbox_id = None, br_verification_sandbox_id = None,
      br_verification_purpose = None, br_revision_hash = None, br_preview_port = None,
      br_cancel_requested = False, br_error_code = None, br_error_message = None, br_created_at = now,
      br_updated_at = now, br_completed_at = None, rw_assignment = a, rw_proof_protocol_version = 0,
      rw_recovery_cleanup_at = None\<rparr>"

text \<open>\<open>INSERT OR IGNORE\<close> skips a contract whose hash is there, or breaks a CHECK.\<close>

definition insert_contract :: "string \<Rightarrow> acceptance_contract \<Rightarrow> run_db \<Rightarrow> run_db" where
  "insert_contract h k db =
     (if h \<in> fst ` set (db_contracts db) \<or> length h \<noteq> 64 \<or> length (ac_transcript_sha k) \<noteq> 64 then db
      else db\<lparr>db_contracts := db_contracts db @ [(h, k)]\<rparr>)"

definition insert_run :: "run_row \<Rightarrow> run_db \<Rightarrow> store_error + run_db" where
  "insert_run row db =
     (if br_id row \<in> br_id ` set (db_runs db) then Inl (ConstraintViolation ''build_runs.id'')
      else if br_assignment_id row \<in> br_assignment_id ` set (db_runs db)
      then Inl (ConstraintViolation ''build_runs.assignment_id'')
      else if length (br_assignment_hash row) \<noteq> 64 then Inl (ConstraintViolation ''build_runs.assignment_hash'')
      else if br_contract_hash row \<notin> fst ` set (db_contracts db)
      then Inl (ConstraintViolation ''build_runs.contract_hash'')
      else Inr (db\<lparr>db_runs := db_runs db @ [row]\<rparr>))"

definition lift_json :: "type_error + 'a \<Rightarrow> store_error + 'a" where
  "lift_json m = (case m of Inl e \<Rightarrow> Inl (JsonError e) | Inr x \<Rightarrow> Inr x)"

definition createRun ::
  "runtime \<Rightarrow> clock \<Rightarrow> string \<Rightarrow> build_assignment \<Rightarrow> run_db \<Rightarrow> store_error + (create_result \<times> run_db)" where
  "createRun R c uuid a db =
     bind_ok (require (BuildAssignment_ok R a) (SchemaError ''BuildAssignment'')) (\<lambda>_.
     bind_ok (lift_json (assignmentDigest R a)) (\<lambda>assignmentHash.
     case find (\<lambda>r. br_assignment_id r = ba_assignment_id a) (db_runs db) of
       Some existing \<Rightarrow>
         bind_ok (require (br_assignment_hash existing = assignmentHash)
             (IdempotencyConflict (ba_assignment_id a))) (\<lambda>_.
         bind_ok (requireRun (br_id existing) db) (\<lambda>run.
         Inr (\<lparr>crr_run = run, crr_created = False\<rparr>, db)))
     | None \<Rightarrow>
         bind_ok (lift_json (contractDigest R (ba_contract a))) (\<lambda>contractHash.
         bind_ok (insert_run (queued_row uuid a assignmentHash contractHash (c 0))
             (insert_contract contractHash (ba_contract a) db)) (\<lambda>db1.
         bind_ok (appendEvent uuid ''run.queued'' StageQueued
             (JObject [(''assignmentId'', jstr (ba_assignment_id a)),
                       (''candidateId'', jstr (ba_candidate_id a)), (''contractHash'', jstr contractHash)])
             (c 0) db1) (\<lambda>db2.
         bind_ok (requireRun uuid db2) (\<lambda>run.
         Inr (\<lparr>crr_run = run, crr_created = True\<rparr>, db2)))))))"


subsection \<open>Slot leases\<close>

definition slot_of :: "run_db \<Rightarrow> nat \<Rightarrow> slot_row option" where
  "slot_of db n = find (\<lambda>s. sr_slot_id s = n) (db_slots db)"

definition slot_free :: "time \<Rightarrow> slot_row \<Rightarrow> bool" where
  "slot_free now s \<longleftrightarrow> sr_run_id s = None
     \<or> (case sr_expires_at s of None \<Rightarrow> False | Some t \<Rightarrow> t \<le> now)"

definition first_free_slot :: "nat \<Rightarrow> time \<Rightarrow> run_db \<Rightarrow> slot_row option" where
  "first_free_slot n now db =
     (case order_by sr_slot_id (filter (\<lambda>s. sr_slot_id s \<le> n \<and> slot_free now s) (db_slots db)) of
        [] \<Rightarrow> None | s # _ \<Rightarrow> Some s)"

definition failed_row :: "string \<Rightarrow> string \<Rightarrow> time \<Rightarrow> run_row \<Rightarrow> run_row" where
  "failed_row code message now r = r\<lparr>br_status := RunFailed, br_stage := StageComplete,
     br_error_code := Some code, br_error_message := Some message, br_updated_at := now,
     br_completed_at := Some now\<rparr>"

definition failExpiredRun :: "string \<Rightarrow> time \<Rightarrow> run_db \<Rightarrow> store_error + run_db" where
  "failExpiredRun runId now db =
     (case run_of db runId of
        None \<Rightarrow> Inr db
      | Some run \<Rightarrow>
          if isTerminalStatus (br_status run) then Inr db
          else appendEvent runId ''run.failed'' StageComplete (JObject [(''code'', jstr ''lease_expired'')]) now
            (update_run runId (failed_row ''lease_expired'' ''Worker lease expired before completion'' now) db))"

definition lease_row :: "string \<Rightarrow> nat \<Rightarrow> time \<Rightarrow> time \<Rightarrow> slot_row \<Rightarrow> slot_row" where
  "lease_row runId token now expires s = s\<lparr>sr_run_id := Some runId, sr_fencing_token := token,
     sr_heartbeat_at := Some now, sr_expires_at := Some expires\<rparr>"

definition clear_row :: "slot_row \<Rightarrow> slot_row" where
  "clear_row s = s\<lparr>sr_run_id := None, sr_heartbeat_at := None, sr_expires_at := None\<rparr>"

definition acquireSlot ::
  "nat \<Rightarrow> clock \<Rightarrow> string \<Rightarrow> int \<Rightarrow> run_db \<Rightarrow> store_error + (slot_lease option \<times> run_db)" where
  "acquireSlot slotCount c runId leaseMilliseconds db =
     bind_ok (requireRun runId db) (\<lambda>run.
     if br_status run \<noteq> RunQueued \<or> br_cancel_requested run then Inr (None, db)
     else case first_free_slot slotCount (c 0) db of
       None \<Rightarrow> Inr (None, db)
     | Some s \<Rightarrow>
         bind_ok (case truthy (sr_run_id s) of None \<Rightarrow> Inr db | Some holder \<Rightarrow> failExpiredRun holder (c 0) db)
           (\<lambda>db1. let token = Suc (sr_fencing_token s); expires = c 1 + leaseMilliseconds in
           Inr (Some \<lparr>sl_slot_id = sr_slot_id s, sl_run_id = runId, sl_fencing_token = token,
                  sl_expires_at = expires\<rparr>,
             db1\<lparr>db_slots := update_where (\<lambda>x. sr_slot_id x = sr_slot_id s)
                  (lease_row runId token (c 0) expires) (db_slots db1)\<rparr>)))"

definition holds_lease :: "slot_lease \<Rightarrow> slot_row \<Rightarrow> bool" where
  "holds_lease lease s \<longleftrightarrow> sr_slot_id s = sl_slot_id lease \<and> sr_run_id s = Some (sl_run_id lease)
     \<and> sr_fencing_token s = sl_fencing_token lease"

definition lease_current :: "slot_lease \<Rightarrow> time \<Rightarrow> slot_row \<Rightarrow> bool" where
  "lease_current lease now s \<longleftrightarrow> holds_lease lease s
     \<and> (case sr_expires_at s of None \<Rightarrow> False | Some t \<Rightarrow> now < t)"

definition heartbeat ::
  "clock \<Rightarrow> slot_lease \<Rightarrow> int \<Rightarrow> run_db \<Rightarrow> store_error + (slot_lease \<times> run_db)" where
  "heartbeat c lease leaseMilliseconds db =
     (let expires = c 1 + leaseMilliseconds in
      if length (filter (lease_current lease (c 0)) (db_slots db)) \<noteq> 1 then Inl (StaleLease (sl_run_id lease))
      else Inr (lease\<lparr>sl_expires_at := expires\<rparr>,
        db\<lparr>db_slots := update_where (lease_current lease (c 0))
             (\<lambda>s. s\<lparr>sr_heartbeat_at := Some (c 0), sr_expires_at := Some expires\<rparr>) (db_slots db)\<rparr>))"

definition releaseSlot :: "slot_lease \<Rightarrow> run_db \<Rightarrow> run_db" where
  "releaseSlot lease db = db\<lparr>db_slots := update_where (holds_lease lease) clear_row (db_slots db)\<rparr>"

definition assertLease :: "string \<Rightarrow> slot_lease \<Rightarrow> time \<Rightarrow> run_db \<Rightarrow> store_error + unit" where
  "assertLease runId lease now db =
     (if sl_run_id lease \<noteq> runId then Inl (StaleLease runId)
      else require (list_ex (lease_current lease now) (db_slots db)) (StaleLease runId))"

definition assertActiveRun :: "string \<Rightarrow> slot_lease \<Rightarrow> time \<Rightarrow> run_db \<Rightarrow> store_error + build_run" where
  "assertActiveRun runId lease now db =
     bind_ok (assertLease runId lease now db) (\<lambda>_.
     bind_ok (requireRun runId db) (\<lambda>run.
     bind_ok (require (br_status run = RunRunning)
        (InvalidRunState runId (''expected running, got '' @ run_status_text (br_status run)))) (\<lambda>_.
     Inr run)))"

subsection \<open>A running run\<close>

text \<open>Update the run's row, append the event, read the run back: how most operations end.\<close>

definition update_and_log ::
  "string \<Rightarrow> (run_row \<Rightarrow> run_row) \<Rightarrow> string \<Rightarrow> run_stage \<Rightarrow> jsval \<Rightarrow> time \<Rightarrow> run_db
    \<Rightarrow> store_error + (build_run \<times> run_db)" where
  "update_and_log runId f eventType stage payload now db =
     bind_ok (appendEvent runId eventType stage payload now (update_run runId f db)) (\<lambda>db'.
     bind_ok (requireRun runId db') (\<lambda>run'. Inr (run', db')))"

definition startRun ::
  "clock \<Rightarrow> string \<Rightarrow> slot_lease \<Rightarrow> run_db \<Rightarrow> store_error + (build_run \<times> run_db)" where
  "startRun c runId lease db =
     bind_ok (assertLease runId lease (c 0) db) (\<lambda>_.
     bind_ok (requireRun runId db) (\<lambda>run.
     bind_ok (require (br_status run = RunQueued)
        (InvalidRunState runId (''expected queued, got '' @ run_status_text (br_status run)))) (\<lambda>_.
     update_and_log runId (\<lambda>r. r\<lparr>br_status := RunRunning, br_stage := StageProvisioning,
         br_slot_id := Some (sl_slot_id lease), br_fencing_token := Some (sl_fencing_token lease),
         br_updated_at := c 1\<rparr>)
       ''run.started'' StageProvisioning
       (JObject [(''slotId'', jnat (sl_slot_id lease)), (''fencingToken'', jnat (sl_fencing_token lease))]) (c 1) db)))"

definition updateStage ::
  "clock \<Rightarrow> string \<Rightarrow> slot_lease \<Rightarrow> run_stage \<Rightarrow> jsval \<Rightarrow> run_db \<Rightarrow> store_error + (build_run \<times> run_db)" where
  "updateStage c runId lease stage payload db =
     bind_ok (assertActiveRun runId lease (c 0) db) (\<lambda>_.
     update_and_log runId (\<lambda>r. r\<lparr>br_stage := stage, br_updated_at := c 1\<rparr>)
       (''stage.'' @ run_stage_text stage) stage payload (c 1) db)"

definition recordAgentProgress ::
  "clock \<Rightarrow> string \<Rightarrow> slot_lease \<Rightarrow> agent_progress \<Rightarrow> run_db \<Rightarrow> store_error + run_db" where
  "recordAgentProgress c runId lease p db =
     bind_ok (require (agent_progress_ok p) (SchemaError ''AgentProgress'')) (\<lambda>_.
     bind_ok (assertActiveRun runId lease (c 0) db) (\<lambda>run.
     bind_ok (require (br_stage run = StageGenerating) (InvalidRunState runId
        (''agent progress requires generating stage, got '' @ run_stage_text (br_stage run)))) (\<lambda>_.
     appendEvent runId ''agent.tool_completed'' (br_stage run)
       (JObject [(''step'', jint (ap_step p)), (''repairRound'', jint (ap_repair_round p)),
                 (''toolName'', jstr (tool_text (ap_tool_name p))), (''ok'', JBool (ap_ok p))]) (c 1) db)))"

definition attachSandbox ::
  "clock \<Rightarrow> string \<Rightarrow> slot_lease \<Rightarrow> string \<Rightarrow> run_db \<Rightarrow> store_error + (build_run \<times> run_db)" where
  "attachSandbox c runId lease sandboxId db =
     bind_ok (assertActiveRun runId lease (c 0) db) (\<lambda>run.
     bind_ok (require (br_builder_sandbox_id run = None \<or> br_builder_sandbox_id run = Some sandboxId)
        (InvalidRunState runId ''builder sandbox id is immutable once set'')) (\<lambda>_.
     update_and_log runId (\<lambda>r. r\<lparr>br_sandbox_id := Some sandboxId, br_builder_sandbox_id := Some sandboxId,
         br_updated_at := c 1\<rparr>)
       ''sandbox.builder_attached'' (br_stage run) (JObject [(''sandboxId'', jstr sandboxId)]) (c 1) db))"

definition attachVerificationSandbox ::
  "clock \<Rightarrow> string \<Rightarrow> slot_lease \<Rightarrow> string \<Rightarrow> sandbox_purpose \<Rightarrow> run_db
    \<Rightarrow> store_error + (build_run \<times> run_db)" where
  "attachVerificationSandbox c runId lease sandboxId purpose db =
     bind_ok (assertActiveRun runId lease (c 0) db) (\<lambda>run.
     bind_ok (require (br_builder_sandbox_id run \<noteq> None)
        (InvalidRunState runId ''builder sandbox is required before verification'')) (\<lambda>_.
     bind_ok (require (br_builder_sandbox_id run \<noteq> Some sandboxId)
        (InvalidRunState runId ''verification sandbox must be distinct from the builder sandbox'')) (\<lambda>_.
     update_and_log runId (\<lambda>r. r\<lparr>br_verification_sandbox_id := Some sandboxId,
         br_verification_purpose := Some purpose, br_updated_at := c 1\<rparr>)
       ''sandbox.verification_attached'' (br_stage run)
       (JObject [(''sandboxId'', jstr sandboxId), (''purpose'', jstr (purpose_text purpose))]) (c 1) db)))"

definition promoteVerificationSandbox ::
  "clock \<Rightarrow> string \<Rightarrow> slot_lease \<Rightarrow> string \<Rightarrow> run_db \<Rightarrow> store_error + (build_run \<times> run_db)" where
  "promoteVerificationSandbox c runId lease sandboxId db =
     bind_ok (assertActiveRun runId lease (c 0) db) (\<lambda>run.
     bind_ok (require (br_verification_sandbox_id run = Some sandboxId)
        (InvalidRunState runId ''only the current verification sandbox can be promoted'')) (\<lambda>_.
     bind_ok (require (br_verification_purpose run = Some PurposeDelivery)
        (InvalidRunState runId ''only a delivery verification sandbox can be promoted'')) (\<lambda>_.
     update_and_log runId (\<lambda>r. r\<lparr>br_sandbox_id := Some sandboxId, br_updated_at := c 1\<rparr>)
       ''sandbox.verification_promoted'' (br_stage run) (JObject [(''sandboxId'', jstr sandboxId)]) (c 1) db)))"

definition setRevision ::
  "clock \<Rightarrow> string \<Rightarrow> slot_lease \<Rightarrow> string \<Rightarrow> int \<Rightarrow> run_db \<Rightarrow> store_error + (build_run \<times> run_db)" where
  "setRevision c runId lease revisionHash previewPort db =
     bind_ok (assertActiveRun runId lease (c 0) db) (\<lambda>run.
     bind_ok (require (length revisionHash = 64) (ConstraintViolation ''build_runs.revision_hash'')) (\<lambda>_.
     bind_ok (require (int_between 1 65535 previewPort) (ConstraintViolation ''build_runs.preview_port'')) (\<lambda>_.
     update_and_log runId (\<lambda>r. r\<lparr>br_revision_hash := Some revisionHash, br_preview_port := Some previewPort,
         br_updated_at := c 1\<rparr>)
       ''revision.frozen'' (br_stage run)
       (JObject [(''revisionHash'', jstr revisionHash), (''previewPort'', jint previewPort)]) (c 1) db)))"

definition addEvidence ::
  "runtime \<Rightarrow> clock \<Rightarrow> string \<Rightarrow> slot_lease \<Rightarrow> evidence_receipt \<Rightarrow> run_db \<Rightarrow> store_error + run_db" where
  "addEvidence R c runId lease receipt db = (let h = receipt_header receipt in
     bind_ok (require (EvidenceReceipt_ok R receipt) (SchemaError ''EvidenceReceipt'')) (\<lambda>_.
     bind_ok (assertActiveRun runId lease (c 0) db) (\<lambda>run.
     bind_ok (require (receipt_run receipt = runId)
        (InvalidRunState runId ''receipt belongs to another run'')) (\<lambda>_.
     bind_ok (require (br_revision_hash run = Some (receipt_revision receipt))
        (InvalidRunState runId ''receipt does not cover the current source revision'')) (\<lambda>_.
     bind_ok (require (rb_receipt_id h \<notin> (rb_receipt_id \<circ> receipt_header) ` set (db_evidence db))
        (ConstraintViolation ''evidence_receipts.receipt_id'')) (\<lambda>_.
     appendEvent runId ''evidence.recorded'' (br_stage run)
       (JObject [(''receiptId'', jstr (rb_receipt_id h)), (''revisionHash'', jstr (rb_revision_hash h)),
                 (''kind'', jstr (receipt_kind_text receipt)), (''status'', jstr (status_text (rb_status h)))]) (c 1)
       (db\<lparr>db_evidence := db_evidence db @ [receipt]\<rparr>)))))))"

definition recordArtifact ::
  "runtime \<Rightarrow> clock \<Rightarrow> string \<Rightarrow> slot_lease \<Rightarrow> proven_artifact \<Rightarrow> run_db \<Rightarrow> store_error + run_db" where
  "recordArtifact R c runId lease artifact db =
     bind_ok (require (ProvenArtifact_ok R artifact) (SchemaError ''ProvenArtifact'')) (\<lambda>_.
     bind_ok (assertActiveRun runId lease (c 0) db) (\<lambda>run.
     bind_ok (require (pa_run_id artifact = runId)
        (InvalidRunState runId ''artifact run id does not match'')) (\<lambda>_.
     bind_ok (require (br_revision_hash run = Some (pa_revision_hash artifact))
        (InvalidRunState runId ''artifact does not match the current frozen revision'')) (\<lambda>_.
     bind_ok (require (pa_artifact_id artifact \<notin> pa_artifact_id ` set (db_artifacts db))
        (ConstraintViolation ''proven_artifacts.artifact_id'')) (\<lambda>_.
     bind_ok (require ((runId, pa_revision_hash artifact)
            \<notin> (\<lambda>a. (pa_run_id a, pa_revision_hash a)) ` set (db_artifacts db))
        (ConstraintViolation ''proven_artifacts.run_id'')) (\<lambda>_.
     appendEvent runId ''artifact.recorded'' (br_stage run)
       (JObject [(''artifactId'', jstr (pa_artifact_id artifact)),
                 (''revisionHash'', jstr (pa_revision_hash artifact)),
                 (''sha256'', jstr (pa_sha256 artifact)), (''sizeBytes'', jint (pa_size_bytes artifact))]) (c 1)
       (db\<lparr>db_artifacts := db_artifacts db @ [artifact]\<rparr>)))))))"


subsection \<open>Terminal decisions\<close>

text \<open>\<open>rankingFor\<close>: the newest passing evaluation of the trace gives the score.\<close>

definition rankingFor :: "runtime \<Rightarrow> evidence_receipt list \<Rightarrow> string \<Rightarrow> store_error + candidate_ranking" where
  "rankingFor R receipts traceId =
     (case latest R (\<lambda>e. rb_completed_at (ve_base e))
         (filter (\<lambda>e. ve_trace_id e = traceId \<and> rb_status (ve_base e) = EvPass) (List.maps evaluation_of receipts)) of
        None \<Rightarrow> Inl MissingRankingScore
      | Some e \<Rightarrow> let score = bs_preference_satisfaction (ve_scores e) in
          Inr \<lparr>rk_preference_satisfaction = score, rk_score_tuple = [score], rk_trace_id = traceId\<rparr>)"

definition insert_outbox :: "outbox_event \<Rightarrow> run_db \<Rightarrow> store_error + run_db" where
  "insert_outbox e db =
     (if ob_event_id e \<in> ob_event_id ` set (db_outbox db) then Inl (ConstraintViolation ''outbox.event_id'')
      else if (ob_type e, ob_run_id e, ob_revision_hash e)
        \<in> (\<lambda>x. (ob_type x, ob_run_id x, ob_revision_hash x)) ` set (db_outbox db)
      then Inl (ConstraintViolation ''outbox.event_type'')
      else if length (ob_revision_hash e) \<noteq> 64 then Inl (ConstraintViolation ''outbox.revision_hash'')
      else Inr (db\<lparr>db_outbox := db_outbox db @ [e]\<rparr>))"

definition passed_row :: "time \<Rightarrow> run_row \<Rightarrow> run_row" where
  "passed_row now r = r\<lparr>br_status := RunPassed, br_stage := StageComplete,
     rw_proof_protocol_version := CURRENT_PROOF_PROTOCOL_VERSION, br_updated_at := now,
     br_completed_at := Some now\<rparr>"

definition promoted_run :: "build_run \<Rightarrow> bool" where
  "promoted_run run \<longleftrightarrow> br_builder_sandbox_id run \<noteq> None \<and> br_verification_sandbox_id run \<noteq> None
     \<and> br_builder_sandbox_id run \<noteq> br_verification_sandbox_id run
     \<and> br_verification_purpose run = Some PurposeDelivery
     \<and> br_sandbox_id run = br_verification_sandbox_id run"

definition proven_payload ::
  "build_run \<Rightarrow> string \<Rightarrow> string \<Rightarrow> proven_artifact \<Rightarrow> string \<Rightarrow> candidate_ranking \<Rightarrow> candidate_proven_payload" where
  "proven_payload run runId revisionHash artifact traceId ranking =
     \<lparr>cp_run_id = runId, cp_project_id = br_project_id run, cp_candidate_id = br_candidate_id run,
      cp_contract_hash = br_contract_hash run, cp_revision_hash = revisionHash,
      cp_sandbox_id = the (br_sandbox_id run), cp_preview_port = the (br_preview_port run),
      cp_artifact = artifact, cp_trace_id = traceId, cp_ranking = ranking\<rparr>"

text \<open>The checks of \<open>markPassed\<close>, in order: the run, its artifact and the proof decision.\<close>

definition passing_checks ::
  "runtime \<Rightarrow> controller_policy \<Rightarrow> string \<Rightarrow> string \<Rightarrow> build_run \<Rightarrow> run_db \<Rightarrow> store_error + proven_artifact" where
  "passing_checks R P runId revisionHash run db =
     bind_ok (require (\<not> br_cancel_requested run)
        (InvalidRunState runId ''cannot pass after cancellation was requested'')) (\<lambda>_.
     bind_ok (require (br_revision_hash run = Some revisionHash)
        (InvalidRunState runId ''cannot pass a revision other than the current frozen revision'')) (\<lambda>_.
     bind_ok (require (br_sandbox_id run \<noteq> None \<and> br_preview_port run \<noteq> None \<and> br_preview_port run \<noteq> Some 0)
        (InvalidRunState runId ''sandbox and preview port are required before passing'')) (\<lambda>_.
     bind_ok (require (promoted_run run)
        (InvalidRunState runId ''a promoted verification sandbox is required before passing'')) (\<lambda>_.
     bind_ok (case getRecordedArtifact runId db of
          None \<Rightarrow> Inl (InvalidRunState runId ''a proven artifact for the frozen revision is required before passing'')
        | Some a \<Rightarrow> if pa_revision_hash a = revisionHash then Inr a
            else Inl (InvalidRunState runId ''a proven artifact for the frozen revision is required before passing'')) (\<lambda>artifact.
     bind_ok (the_or (InvalidRunState runId ''assignment is missing'') (getAssignment runId db)) (\<lambda>assignment.
     let decision = decideProof R P (ba_contract assignment) revisionHash (listEvidence runId db) in
     bind_ok (require (pd_passed decision) (ProofGateRejected runId (pd_reasons decision))) (\<lambda>_.
     Inr artifact)))))))"

text \<open>\<open>markPassed\<close>; the row update, which cannot fail, is written with the event that follows it.\<close>

definition markPassed ::
  "runtime \<Rightarrow> controller_policy \<Rightarrow> clock \<Rightarrow> string \<Rightarrow> string \<Rightarrow> slot_lease \<Rightarrow> string \<Rightarrow> string \<Rightarrow> run_db
    \<Rightarrow> store_error + (build_run \<times> run_db)" where
  "markPassed R P c uuid runId lease revisionHash traceId db =
     bind_ok (assertActiveRun runId lease (c 0) db) (\<lambda>run.
     bind_ok (passing_checks R P runId revisionHash run db) (\<lambda>artifact.
     bind_ok (rankingFor R (listEvidence runId db) traceId) (\<lambda>ranking.
     let payload = proven_payload run runId revisionHash artifact traceId ranking in
     bind_ok (require (CandidateProvenPayload_ok R payload) (SchemaError ''CandidateProvenPayload'')) (\<lambda>_.
     bind_ok (insert_outbox \<lparr>ob_event_id = uuid, ob_type = ''candidate.proven'', ob_run_id = runId,
          ob_revision_hash = revisionHash, ob_trace_id = traceId, ob_payload = payload,
          ob_created_at = c 1, ob_published_at = None\<rparr> db) (\<lambda>db1.
     update_and_log runId (passed_row (c 1)) ''candidate.proven'' StageComplete (payload_json payload) (c 1) db1)))))"

definition ended_row :: "run_status \<Rightarrow> string \<Rightarrow> string \<Rightarrow> time \<Rightarrow> run_row \<Rightarrow> run_row" where
  "ended_row status code message now r = r\<lparr>br_status := status, br_stage := StageComplete,
     br_error_code := Some code, br_error_message := Some (redactText message), br_updated_at := now,
     br_completed_at := Some now\<rparr>"

text \<open>\<open>#markTerminal\<close>; the clock is read once more when a lease is checked.\<close>

definition markTerminal ::
  "clock \<Rightarrow> string \<Rightarrow> slot_lease option \<Rightarrow> run_status \<Rightarrow> string \<Rightarrow> string \<Rightarrow> jsval \<Rightarrow> run_db
    \<Rightarrow> store_error + (build_run \<times> run_db)" where
  "markTerminal c runId lease status code message payload db =
     (let now = (case lease of None \<Rightarrow> c 0 | Some _ \<Rightarrow> c 1) in
      bind_ok (case lease of None \<Rightarrow> Inr () | Some l \<Rightarrow>
          bind_ok (assertActiveRun runId l (c 0) db) (\<lambda>_. Inr ())) (\<lambda>_.
      bind_ok (requireRun runId db) (\<lambda>run.
      if isTerminalStatus (br_status run) then Inr (run, db)
      else bind_ok (require (\<not> (lease = None \<and> br_status run = RunRunning)) (StaleLease runId)) (\<lambda>_.
        update_and_log runId (ended_row status code message now) (''run.'' @ run_status_text status)
          StageComplete payload now db))))"

definition markRejected ::
  "clock \<Rightarrow> string \<Rightarrow> slot_lease \<Rightarrow> string list \<Rightarrow> run_db \<Rightarrow> store_error + (build_run \<times> run_db)" where
  "markRejected c runId lease reasons db =
     markTerminal c runId (Some lease) RunRejected ''proof_gate_rejected'' (join ''; '' reasons)
       (JObject [(''reasons'', JArray (map JString reasons))]) db"

definition markFailed ::
  "clock \<Rightarrow> string \<Rightarrow> slot_lease option \<Rightarrow> string \<Rightarrow> string \<Rightarrow> run_db \<Rightarrow> store_error + (build_run \<times> run_db)" where
  "markFailed c runId lease code message db =
     markTerminal c runId lease RunFailed code message (JObject [(''code'', jstr code)]) db"

definition markCancelled ::
  "clock \<Rightarrow> string \<Rightarrow> slot_lease \<Rightarrow> run_db \<Rightarrow> store_error + (build_run \<times> run_db)" where
  "markCancelled c runId lease db =
     markTerminal c runId (Some lease) RunCancelled ''cancelled'' ''Build run cancelled'' (JObject []) db"

subsection \<open>Cancellation\<close>

record cancellation_request =
  cq_source :: string
  cq_reason_code :: "string option"
  cq_correlation_id :: "string option"
  cq_expected :: "(run_status \<times> time) option"

datatype cancellation_reason =
    CandidateIsTerminal | CandidateStateChanged | CancellationAlreadyRequested | CancellationRequested

record cancellation_result =
  cx_changed :: bool
  cx_reason :: cancellation_reason
  cx_run :: build_run

definition CANCELLATION_SOURCES :: "string list" where
  "CANCELLATION_SOURCES = [''elevenlabs_webhook'', ''internal'', ''operator_api'', ''studio_speech_engine'']"

definition cancellation_payload :: "cancellation_request option \<Rightarrow> string \<Rightarrow> jsval" where
  "cancellation_payload request runId =
     (let source = (case request of None \<Rightarrow> ''internal''
            | Some q \<Rightarrow> if cq_source q \<in> set CANCELLATION_SOURCES then cq_source q else ''internal'');
          reason = (case Option.bind request cq_reason_code of None \<Rightarrow> ''scheduler_cancellation'' | Some r \<Rightarrow> r);
          correlation = (case Option.bind request cq_correlation_id of None \<Rightarrow> []
            | Some k \<Rightarrow> if sha256_text k then [(''conversationCorrelationId'', jstr k)] else []) in
      JObject ([(''runId'', jstr runId), (''source'', jstr source), (''reasonCode'', jstr reason)] @ correlation))"

text \<open>\<open>requestCancel\<close>; the overload without a request returns only the run of the result.\<close>

definition requestCancel ::
  "clock \<Rightarrow> string \<Rightarrow> cancellation_request option \<Rightarrow> run_db \<Rightarrow> store_error + (cancellation_result \<times> run_db)" where
  "requestCancel c runId request db =
     bind_ok (requireRun runId db) (\<lambda>run.
     let unchanged = (\<lambda>why. Inr (\<lparr>cx_changed = False, cx_reason = why, cx_run = run\<rparr>, db));
         payload = cancellation_payload request runId;
         changed = (\<lambda>m. bind_ok m (\<lambda>(run', db').
           Inr (\<lparr>cx_changed = True, cx_reason = CancellationRequested, cx_run = run'\<rparr>, db'))) in
     if isTerminalStatus (br_status run) then unchanged CandidateIsTerminal
     else if br_cancel_requested run then unchanged CancellationAlreadyRequested
     else if (case Option.bind request cq_expected of None \<Rightarrow> False
        | Some (status, updatedAt) \<Rightarrow> br_status run \<noteq> status \<or> br_updated_at run \<noteq> updatedAt)
     then unchanged CandidateStateChanged
     else if br_status run = RunQueued
     then changed (update_and_log runId (\<lambda>r. r\<lparr>br_status := RunCancelled, br_stage := StageComplete,
         br_cancel_requested := True, br_updated_at := c 0, br_completed_at := Some (c 0)\<rparr>)
       ''run.cancelled'' StageComplete payload (c 0) db)
     else changed (update_and_log runId (\<lambda>r. r\<lparr>br_cancel_requested := True, br_updated_at := c 0\<rparr>)
       ''run.cancel_requested'' (br_stage run) payload (c 0) db))"

subsection \<open>The outbox and recovery\<close>

definition markOutboxPublished :: "clock \<Rightarrow> string \<Rightarrow> run_db \<Rightarrow> store_error + (bool \<times> run_db)" where
  "markOutboxPublished c eventId db =
     (let due = (\<lambda>e. ob_event_id e = eventId \<and> ob_published_at e = None \<and> publishable db e) in
      if length (filter due (db_outbox db)) = 1
      then Inr (True, db\<lparr>db_outbox := update_where due (\<lambda>e. e\<lparr>ob_published_at := Some (c 0)\<rparr>) (db_outbox db)\<rparr>)
      else case find (\<lambda>e. ob_event_id e = eventId) (db_outbox db) of
        None \<Rightarrow> Inr (False, db)
      | Some e \<Rightarrow> if ob_published_at e \<noteq> None then Inr (True, db) else Inl (PendingOutboxNotFound eventId))"

fun fail_interrupted :: "time \<Rightarrow> run_row list \<Rightarrow> run_db \<Rightarrow> store_error + run_db" where
  "fail_interrupted now [] db = Inr db"
| "fail_interrupted now (row # rows) db =
     bind_ok (appendEvent (br_id row) ''run.failed'' StageComplete
         (JObject [(''code'', jstr ''worker_restarted''), (''previousStage'', jstr (run_stage_text (br_stage row)))]) now
         (update_run (br_id row) (failed_row ''worker_restarted''
            ''Worker stopped before a terminal proof decision'' now) db))
       (fail_interrupted now rows)"

definition cleanup_due :: "run_row \<Rightarrow> bool" where
  "cleanup_due r \<longleftrightarrow> br_status r = RunFailed \<and> br_error_code r = Some ''worker_restarted''
     \<and> rw_recovery_cleanup_at r = None"

definition recovered :: "string set \<Rightarrow> run_row \<Rightarrow> recovered_run" where
  "recovered newly r = \<lparr>rr_run_id = br_id r,
     rr_sandbox_ids = List.maps (\<lambda>v. case v of None \<Rightarrow> [] | Some s \<Rightarrow> [s])
       [br_sandbox_id r, br_builder_sandbox_id r, br_verification_sandbox_id r],
     rr_newly_recovered = (br_id r \<in> newly)\<rparr>"

definition recoverInterruptedRuns :: "clock \<Rightarrow> run_db \<Rightarrow> store_error + (recovered_run list \<times> run_db)" where
  "recoverInterruptedRuns c db =
     (let interrupted = filter (\<lambda>r. br_status r = RunRunning) (db_runs db) in
      bind_ok (fail_interrupted (c 0) interrupted db) (\<lambda>db1.
      let db2 = db1\<lparr>db_slots := map clear_row (db_slots db1)\<rparr> in
      Inr (map (recovered (br_id ` set interrupted)) (filter cleanup_due (db_runs db2)), db2)))"

definition markRecoveryCleanupComplete :: "clock \<Rightarrow> string \<Rightarrow> run_db \<Rightarrow> store_error + run_db" where
  "markRecoveryCleanupComplete c runId db =
     (case run_of db runId of
        None \<Rightarrow> Inl (RunNotFound runId)
      | Some row \<Rightarrow>
          if rw_recovery_cleanup_at row \<noteq> None then Inr db
          else bind_ok (require (br_status row = RunFailed \<and> br_error_code row = Some ''worker_restarted'')
              (InvalidRunState runId ''recovery cleanup can only complete for an interrupted run'')) (\<lambda>_.
            Inr (update_run runId (\<lambda>r. if rw_recovery_cleanup_at r = None
              then r\<lparr>rw_recovery_cleanup_at := Some (c 0)\<rparr> else r) db)))"

end
