(* ===== verification/Run_Invariants.thy ===== *)
theory Run_Invariants
  imports Run_Store
begin

text \<open>
  The run store of \<open>Run_Store\<close> as a state machine: what a well-formed database is
  (\<open>store_ok\<close>), how a database may evolve (\<open>advances\<close>: rows keep their identity, terminal rows
  their contents, events, evidence and artifacts only grow, fencing tokens never fall), that every
  operation keeps the one and follows the other, and the step relation built from them.  The
  heart of \<open>store_ok\<close> is that a passed run is proven: its three-sandbox protocol is complete, its
  frozen revision has an artifact, the proof gate accepts the stored evidence, and exactly one
  outbox event announces it.
\<close>

subsection \<open>Well-formed rows\<close>

definition row_ok :: "run_row \<Rightarrow> bool" where
  "row_ok r \<longleftrightarrow>
     (isTerminalStatus (br_status r) \<longleftrightarrow> br_completed_at r \<noteq> None)
     \<and> (isTerminalStatus (br_status r) \<longrightarrow> br_stage r = StageComplete)
     \<and> (br_status r = RunQueued \<longrightarrow> br_stage r = StageQueued \<and> br_slot_id r = None
          \<and> br_fencing_token r = None \<and> br_sandbox_id r = None \<and> br_revision_hash r = None
          \<and> \<not> br_cancel_requested r)
     \<and> (br_status r = RunRunning \<longrightarrow> br_slot_id r \<noteq> None \<and> br_fencing_token r \<noteq> None)
     \<and> (br_status r = RunPassed \<longrightarrow> \<not> br_cancel_requested r)
     \<and> (br_status r \<noteq> RunPassed \<longrightarrow> rw_proof_protocol_version r = 0)
     \<and> (br_status r \<noteq> RunFailed \<longrightarrow> rw_recovery_cleanup_at r = None)
     \<and> (br_verification_sandbox_id r \<noteq> None \<longrightarrow> truthy (br_builder_sandbox_id r) \<noteq> None
          \<and> br_verification_sandbox_id r \<noteq> br_builder_sandbox_id r)"

text \<open>The statuses a run's status may come to, in any number of operations.\<close>

fun status_step :: "run_status \<Rightarrow> run_status \<Rightarrow> bool" where
  "status_step RunQueued s \<longleftrightarrow> True"
| "status_step RunRunning s \<longleftrightarrow> s \<noteq> RunQueued"
| "status_step t s \<longleftrightarrow> s = t"

definition same_identity :: "run_row \<Rightarrow> run_row \<Rightarrow> bool" where
  "same_identity r r' \<longleftrightarrow> br_id r' = br_id r \<and> br_assignment_id r' = br_assignment_id r
     \<and> br_assignment_hash r' = br_assignment_hash r \<and> br_project_id r' = br_project_id r
     \<and> br_candidate_id r' = br_candidate_id r \<and> br_contract_hash r' = br_contract_hash r
     \<and> rw_assignment r' = rw_assignment r \<and> br_created_at r' = br_created_at r"

definition cleanup_only :: "run_row \<Rightarrow> run_row \<Rightarrow> bool" where
  "cleanup_only r r' \<longleftrightarrow> r' = r
     \<or> (rw_recovery_cleanup_at r = None \<and> (\<exists>t. r' = r\<lparr>rw_recovery_cleanup_at := Some t\<rparr>))"

text \<open>What is never taken back: a cancellation request, and the builder sandbox once attached.\<close>

definition keeps_commitments :: "run_row \<Rightarrow> run_row \<Rightarrow> bool" where
  "keeps_commitments r r' \<longleftrightarrow> (br_cancel_requested r \<longrightarrow> br_cancel_requested r')
     \<and> (truthy (br_builder_sandbox_id r) \<noteq> None \<longrightarrow> br_builder_sandbox_id r' = br_builder_sandbox_id r)"

definition row_step :: "run_row \<Rightarrow> run_row \<Rightarrow> bool" where
  "row_step r r' \<longleftrightarrow> same_identity r r' \<and> status_step (br_status r) (br_status r')
     \<and> keeps_commitments r r'
     \<and> (isTerminalStatus (br_status r) \<longrightarrow> cleanup_only r r')"

lemma isTerminal_simps [simp]:
  "isTerminalStatus RunPassed" "isTerminalStatus RunRejected" "isTerminalStatus RunFailed"
  "isTerminalStatus RunCancelled" "\<not> isTerminalStatus RunQueued" "\<not> isTerminalStatus RunRunning"
  by (simp_all add: isTerminalStatus_def TERMINAL_STATUSES_def)

lemma not_terminal_iff: "\<not> isTerminalStatus s \<longleftrightarrow> s = RunQueued \<or> s = RunRunning"
  by (cases s) simp_all

lemma status_step_refl [simp]: "status_step s s"
  by (cases s) simp_all

lemma status_step_terminal: "isTerminalStatus s \<Longrightarrow> status_step s t \<longleftrightarrow> t = s"
  by (cases s) auto

lemma status_step_trans: "status_step a b \<Longrightarrow> status_step b c \<Longrightarrow> status_step a c"
  by (cases a; cases b) auto

lemma cleanup_only_trans:
  assumes ab: "cleanup_only a b" and bc: "cleanup_only b c" shows "cleanup_only a c"
proof (cases "b = a")
  case True
  with bc show ?thesis by (simp only:)
next
  case False
  with ab have "rw_recovery_cleanup_at b \<noteq> None" unfolding cleanup_only_def by (elim disjE conjE exE) simp_all
  with bc have "c = b" unfolding cleanup_only_def by simp
  with ab show ?thesis by (simp only:)
qed

lemma cleanup_only_status: "cleanup_only a b \<Longrightarrow> br_status b = br_status a"
  unfolding cleanup_only_def by (elim disjE conjE exE) simp_all

lemma row_step_refl [simp]: "row_step r r"
  by (simp add: row_step_def same_identity_def cleanup_only_def keeps_commitments_def)

lemma same_identity_trans: "same_identity a b \<Longrightarrow> same_identity b c \<Longrightarrow> same_identity a c"
  unfolding same_identity_def by simp

lemma keeps_commitments_trans: "keeps_commitments a b \<Longrightarrow> keeps_commitments b c \<Longrightarrow> keeps_commitments a c"
  unfolding keeps_commitments_def by simp

lemma row_step_trans: "row_step a b \<Longrightarrow> row_step b c \<Longrightarrow> row_step a c"
  unfolding row_step_def
  by (metis cleanup_only_status cleanup_only_trans keeps_commitments_trans same_identity_trans status_step_trans)

lemma row_step_id [simp]: "row_step r r' \<Longrightarrow> br_id r' = br_id r"
  by (simp add: row_step_def same_identity_def)

subsection \<open>Well-formed databases\<close>

definition outbox_of :: "run_db \<Rightarrow> string \<Rightarrow> outbox_event list" where
  "outbox_of db runId = filter (\<lambda>e. ob_run_id e = runId) (db_outbox db)"

text \<open>What the store promises of a passed run.\<close>

definition proven_run :: "runtime \<Rightarrow> controller_policy \<Rightarrow> run_db \<Rightarrow> run_row \<Rightarrow> bool" where
  "proven_run R P db r \<longleftrightarrow> rw_proof_protocol_version r = CURRENT_PROOF_PROTOCOL_VERSION
     \<and> delivery_promoted r
     \<and> (\<exists>revision a e. br_revision_hash r = Some revision
          \<and> getRecordedArtifact (br_id r) db = Some a \<and> pa_revision_hash a = revision
          \<and> pd_passed (decideProof R P (ba_contract (rw_assignment r)) revision (listEvidence (br_id r) db))
          \<and> outbox_of db (br_id r) = [e] \<and> ob_type e = ''candidate.proven''
          \<and> ob_revision_hash e = revision \<and> cp_artifact (ob_payload e) = a
          \<and> cp_run_id (ob_payload e) = br_id r \<and> cp_revision_hash (ob_payload e) = revision
          \<and> cp_trace_id (ob_payload e) = ob_trace_id e \<and> CandidateProvenPayload_ok R (ob_payload e))"

definition run_ok :: "runtime \<Rightarrow> controller_policy \<Rightarrow> run_db \<Rightarrow> string \<Rightarrow> bool" where
  "run_ok R P db runId \<longleftrightarrow>
     (case run_of db runId of
        None \<Rightarrow> evidence_of db runId = [] \<and> artifacts_of db runId = [] \<and> outbox_of db runId = []
      | Some r \<Rightarrow> if br_status r = RunPassed then proven_run R P db r else outbox_of db runId = [])"

definition events_ok :: "run_db \<Rightarrow> bool" where
  "events_ok db \<longleftrightarrow> sorted_wrt (<) (map ev_sequence (db_events db))
     \<and> (\<forall>e \<in> set (db_events db). 0 < ev_sequence e \<and> ev_sequence e \<le> db_last_sequence db
          \<and> run_of db (ev_run_id e) \<noteq> None)"

definition slots_ok :: "run_db \<Rightarrow> bool" where
  "slots_ok db \<longleftrightarrow> map sr_slot_id (db_slots db) = [1, 2, 3, 4]
     \<and> (\<forall>s \<in> set (db_slots db). (sr_run_id s = None \<longleftrightarrow> sr_expires_at s = None)
          \<and> (\<forall>runId. sr_run_id s = Some runId \<longrightarrow> run_of db runId \<noteq> None))"

definition rows_ok :: "run_db \<Rightarrow> bool" where
  "rows_ok db \<longleftrightarrow> distinct (map br_id (db_runs db)) \<and> distinct (map br_assignment_id (db_runs db))
     \<and> (\<forall>r \<in> set (db_runs db). row_ok r \<and> br_contract_hash r \<in> fst ` set (db_contracts db))"

definition outbox_ok :: "run_db \<Rightarrow> bool" where
  "outbox_ok db \<longleftrightarrow> distinct (map ob_event_id (db_outbox db))"

definition store_ok :: "runtime \<Rightarrow> controller_policy \<Rightarrow> run_db \<Rightarrow> bool" where
  "store_ok R P db \<longleftrightarrow> rows_ok db \<and> events_ok db \<and> slots_ok db \<and> outbox_ok db
     \<and> (\<forall>runId. run_ok R P db runId)"

subsection \<open>How a database evolves\<close>

definition slot_step :: "slot_row \<Rightarrow> slot_row \<Rightarrow> bool" where
  "slot_step s s' \<longleftrightarrow> sr_slot_id s' = sr_slot_id s
     \<and> (s' = s \<or> sr_fencing_token s < sr_fencing_token s'
        \<or> (sr_fencing_token s' = sr_fencing_token s \<and> sr_run_id s' \<in> {None, sr_run_id s}))"

definition event_step :: "outbox_event \<Rightarrow> outbox_event \<Rightarrow> bool" where
  "event_step e e' \<longleftrightarrow> e' = e \<or> (ob_published_at e = None \<and> (\<exists>t. e' = e\<lparr>ob_published_at := Some t\<rparr>))"

definition grows :: "'a list \<Rightarrow> 'a list \<Rightarrow> bool" where
  "grows xs ys \<longleftrightarrow> (\<exists>zs. ys = xs @ zs)"

definition advances :: "run_db \<Rightarrow> run_db \<Rightarrow> bool" where
  "advances db db' \<longleftrightarrow>
     (\<forall>runId r. run_of db runId = Some r \<longrightarrow> (\<exists>r'. run_of db' runId = Some r' \<and> row_step r r'))
     \<and> grows (db_events db) (db_events db') \<and> grows (db_evidence db) (db_evidence db')
     \<and> grows (db_artifacts db) (db_artifacts db') \<and> grows (db_contracts db) (db_contracts db')
     \<and> list_all2 slot_step (db_slots db) (db_slots db')
     \<and> (\<forall>e \<in> set (db_outbox db). \<exists>e' \<in> set (db_outbox db'). event_step e e')"

lemma grows_refl [simp]: "grows xs xs" and grows_append [simp]: "grows xs (xs @ ys)"
  by (simp_all add: grows_def)

lemma grows_trans: "grows xs ys \<Longrightarrow> grows ys zs \<Longrightarrow> grows xs zs"
  by (auto simp: grows_def)

lemma slot_step_refl [simp]: "slot_step s s"
  by (simp add: slot_step_def)

lemma slot_step_trans: "slot_step a b \<Longrightarrow> slot_step b c \<Longrightarrow> slot_step a c"
  by (auto simp: slot_step_def)

lemma event_step_refl [simp]: "event_step e e"
  by (simp add: event_step_def)

lemma event_step_trans: "event_step a b \<Longrightarrow> event_step b c \<Longrightarrow> event_step a c"
  by (auto simp: event_step_def)

text \<open>The parts of \<open>advances\<close>, each a preorder.\<close>

definition rows_advance :: "run_db \<Rightarrow> run_db \<Rightarrow> bool" where
  "rows_advance db db' \<longleftrightarrow>
     (\<forall>runId r. run_of db runId = Some r \<longrightarrow> (\<exists>r'. run_of db' runId = Some r' \<and> row_step r r'))"

definition outbox_advances :: "run_db \<Rightarrow> run_db \<Rightarrow> bool" where
  "outbox_advances db db' \<longleftrightarrow> (\<forall>e \<in> set (db_outbox db). \<exists>e' \<in> set (db_outbox db'). event_step e e')"

lemma advances_iff:
  "advances db db' \<longleftrightarrow> rows_advance db db'
     \<and> grows (db_events db) (db_events db') \<and> grows (db_evidence db) (db_evidence db')
     \<and> grows (db_artifacts db) (db_artifacts db') \<and> grows (db_contracts db) (db_contracts db')
     \<and> list_all2 slot_step (db_slots db) (db_slots db') \<and> outbox_advances db db'"
  by (simp add: advances_def rows_advance_def outbox_advances_def)

lemma rows_advance_refl [simp]: "rows_advance db db"
  by (simp add: rows_advance_def)

lemma rows_advance_trans: "rows_advance a b \<Longrightarrow> rows_advance b c \<Longrightarrow> rows_advance a c"
  unfolding rows_advance_def by (meson row_step_trans)

lemma outbox_advances_refl [simp]: "outbox_advances db db"
  unfolding outbox_advances_def by (meson event_step_refl)

lemma outbox_advances_trans: "outbox_advances a b \<Longrightarrow> outbox_advances b c \<Longrightarrow> outbox_advances a c"
  unfolding outbox_advances_def by (meson event_step_trans)

lemma slots_refl [simp]: "list_all2 slot_step ss ss"
  by (simp add: list_all2_refl)

lemma slots_trans: "list_all2 slot_step a b \<Longrightarrow> list_all2 slot_step b c \<Longrightarrow> list_all2 slot_step a c"
  by (rule list_all2_trans [OF slot_step_trans])

lemma advances_run:
  "advances db db' \<Longrightarrow> run_of db i = Some r \<Longrightarrow> \<exists>r'. run_of db' i = Some r' \<and> row_step r r'"
  by (simp add: advances_def)

lemma advances_refl [simp]: "advances db db"
  by (simp add: advances_iff)

lemma advances_trans: "advances a b \<Longrightarrow> advances b c \<Longrightarrow> advances a c"
  unfolding advances_iff
  by (elim conjE, intro conjI)
    (erule (1) rows_advance_trans grows_trans slots_trans outbox_advances_trans)+


subsection \<open>What each table update leaves alone\<close>

lemma run_of_updates [simp]:
  "run_of (db_contracts_update k db) i = run_of db i" "run_of (db_events_update e db) i = run_of db i"
  "run_of (db_last_sequence_update n db) i = run_of db i" "run_of (db_evidence_update v db) i = run_of db i"
  "run_of (db_slots_update s db) i = run_of db i" "run_of (db_artifacts_update a db) i = run_of db i"
  "run_of (db_outbox_update ob db) i = run_of db i"
  by (simp_all add: run_of_def)

lemma evidence_of_updates [simp]:
  "evidence_of (db_contracts_update k db) i = evidence_of db i" "evidence_of (db_events_update e db) i = evidence_of db i"
  "evidence_of (db_last_sequence_update n db) i = evidence_of db i" "evidence_of (db_runs_update v db) i = evidence_of db i"
  "evidence_of (db_slots_update s db) i = evidence_of db i" "evidence_of (db_artifacts_update a db) i = evidence_of db i"
  "evidence_of (db_outbox_update ob db) i = evidence_of db i"
  by (simp_all add: evidence_of_def)

lemma artifacts_of_updates [simp]:
  "artifacts_of (db_contracts_update k db) i = artifacts_of db i" "artifacts_of (db_events_update e db) i = artifacts_of db i"
  "artifacts_of (db_last_sequence_update n db) i = artifacts_of db i" "artifacts_of (db_runs_update v db) i = artifacts_of db i"
  "artifacts_of (db_slots_update s db) i = artifacts_of db i" "artifacts_of (db_evidence_update a db) i = artifacts_of db i"
  "artifacts_of (db_outbox_update ob db) i = artifacts_of db i"
  by (simp_all add: artifacts_of_def)

lemma outbox_of_updates [simp]:
  "outbox_of (db_contracts_update k db) i = outbox_of db i" "outbox_of (db_events_update e db) i = outbox_of db i"
  "outbox_of (db_last_sequence_update n db) i = outbox_of db i" "outbox_of (db_runs_update v db) i = outbox_of db i"
  "outbox_of (db_slots_update s db) i = outbox_of db i" "outbox_of (db_evidence_update a db) i = outbox_of db i"
  "outbox_of (db_artifacts_update ob db) i = outbox_of db i"
  by (simp_all add: outbox_of_def)

lemma update_run_tables [simp]:
  "db_contracts (update_run i f db) = db_contracts db" "db_events (update_run i f db) = db_events db"
  "db_last_sequence (update_run i f db) = db_last_sequence db" "db_evidence (update_run i f db) = db_evidence db"
  "db_slots (update_run i f db) = db_slots db" "db_artifacts (update_run i f db) = db_artifacts db"
  "db_outbox (update_run i f db) = db_outbox db"
  "evidence_of (update_run i f db) = evidence_of db" "artifacts_of (update_run i f db) = artifacts_of db"
  "outbox_of (update_run i f db) = outbox_of db"
  by (simp_all add: update_run_def fun_eq_iff)

lemma run_of_update_run:
  assumes "\<And>r. br_id (f r) = br_id r"
  shows "run_of (update_run i f db) j = map_option (\<lambda>r. if j = i then f r else r) (run_of db j)"
  using find_update_where_key [of "\<lambda>r. br_id r = i" br_id f j "db_runs db"] assms
  by (auto simp: run_of_def update_run_def option.map_comp dest: find_eq_SomeD intro!: option.map_cong)

lemma run_of_SomeD: "run_of db i = Some r \<Longrightarrow> r \<in> set (db_runs db) \<and> br_id r = i"
  by (auto simp: run_of_def dest: find_eq_SomeD)

lemma run_of_iff:
  "distinct (map br_id (db_runs db)) \<Longrightarrow> run_of db i = Some r \<longleftrightarrow> r \<in> set (db_runs db) \<and> br_id r = i"
  using find_key_unique [of br_id "db_runs db" r] by (auto simp: run_of_def dest: find_eq_SomeD)

lemma run_of_None: "run_of db i = None \<longleftrightarrow> i \<notin> br_id ` set (db_runs db)"
  by (auto simp: run_of_def find_is_None)

text \<open>A run's condition depends only on its own rows.\<close>

lemma run_ok_cong:
  assumes "run_of db' i = run_of db i" "evidence_of db' i = evidence_of db i"
    "artifacts_of db' i = artifacts_of db i" "outbox_of db' i = outbox_of db i"
  shows "run_ok R P db' i = run_ok R P db i"
proof (cases "run_of db i")
  case None
  then show ?thesis using assms by (simp add: run_ok_def)
next
  case (Some r)
  then have "br_id r = i" by (simp add: run_of_SomeD)
  then show ?thesis
    using assms Some by (simp add: run_ok_def proven_run_def listEvidence_def getRecordedArtifact_def)
qed

lemma grows_set: "grows xs ys \<Longrightarrow> set xs \<subseteq> set ys"
  by (auto simp: grows_def)

subsection \<open>Appending an event\<close>

lemma appendEvent_InrD:
  assumes "appendEvent i ty st p t db = Inr db'"
  obtains w where "normalize (redactValue p) = Inr w" "run_of db i \<noteq> None"
    "db' = db\<lparr>db_events := db_events db @ [\<lparr>ev_sequence = Suc (db_last_sequence db), ev_run_id = i,
       ev_type = ty, ev_stage = st, ev_payload = w, ev_created_at = t\<rparr>],
       db_last_sequence := Suc (db_last_sequence db)\<rparr>"
  using assms by (auto simp: appendEvent_def split: sum.splits if_splits)

lemma appendEvent_store_ok:
  assumes ap: "appendEvent i ty st p t db = Inr db'" and ok: "store_ok R P db"
  shows "store_ok R P db'"
proof -
  from ap obtain w where run: "run_of db i \<noteq> None"
    and db': "db' = db\<lparr>db_events := db_events db @ [\<lparr>ev_sequence = Suc (db_last_sequence db), ev_run_id = i,
       ev_type = ty, ev_stage = st, ev_payload = w, ev_created_at = t\<rparr>],
       db_last_sequence := Suc (db_last_sequence db)\<rparr>"
    by (rule appendEvent_InrD)
  have "events_ok db'"
    using ok run by (auto simp: store_ok_def events_ok_def db' sorted_wrt_append less_Suc_eq_le le_SucI)
  moreover have "run_ok R P db' j" for j
    using ok by (simp add: store_ok_def db' run_ok_cong [of db' j db, unfolded db'])
  ultimately show ?thesis
    using ok by (simp add: store_ok_def db' rows_ok_def slots_ok_def outbox_ok_def)
qed

lemma appendEvent_advances:
  "appendEvent i ty st p t db = Inr db' \<Longrightarrow> advances db db'"
  by (erule appendEvent_InrD) (simp add: advances_iff rows_advance_def outbox_advances_def,
      meson event_step_refl)

lemma appendEvent_tables:
  assumes "appendEvent i ty st p t db = Inr db'"
  shows "db_runs db' = db_runs db" "db_slots db' = db_slots db" "db_evidence db' = db_evidence db"
    "db_artifacts db' = db_artifacts db" "db_outbox db' = db_outbox db" "run_of db' = run_of db"
  using assms by (auto elim!: appendEvent_InrD simp: fun_eq_iff)


subsection \<open>Updating one run\<close>

text \<open>An operation keeps the store when it takes well-formed databases to well-formed ones and advances.\<close>

definition keeps :: "runtime \<Rightarrow> controller_policy \<Rightarrow> run_db \<Rightarrow> run_db \<Rightarrow> bool" where
  "keeps R P db db' \<longleftrightarrow> (store_ok R P db \<longrightarrow> store_ok R P db' \<and> advances db db')"

lemma keeps_refl [simp]: "keeps R P db db"
  by (simp add: keeps_def)

lemma keeps_trans: "keeps R P a b \<Longrightarrow> keeps R P b c \<Longrightarrow> keeps R P a c"
  unfolding keeps_def by (metis advances_trans)

lemma appendEvent_keeps: "appendEvent i ty st p t db = Inr db' \<Longrightarrow> keeps R P db db'"
  by (simp add: keeps_def appendEvent_store_ok appendEvent_advances)

lemma update_run_rows_ok:
  assumes ok: "rows_ok db" and id: "\<And>r. same_identity r (f r)"
    and r: "\<And>r. run_of db i = Some r \<Longrightarrow> row_ok (f r)"
  shows "rows_ok (update_run i f db)"
proof -
  have ids: "map br_id (db_runs (update_run i f db)) = map br_id (db_runs db)"
    "map br_assignment_id (db_runs (update_run i f db)) = map br_assignment_id (db_runs db)"
    using id by (auto simp: update_run_def same_identity_def intro: map_update_where_same)
  moreover have "row_ok x \<and> br_contract_hash x \<in> fst ` set (db_contracts db)"
    if "x \<in> set (db_runs (update_run i f db))" for x
  proof -
    from that consider y where "y \<in> set (db_runs db)" "br_id y = i" "x = f y" | "x \<in> set (db_runs db)"
      by (auto simp: update_run_def)
    then show ?thesis
    proof cases
      case 1
      then have "run_of db i = Some y" using ok by (simp add: run_of_iff rows_ok_def)
      with 1 r id [of y] ok show ?thesis by (simp add: rows_ok_def same_identity_def)
    next
      case 2
      then show ?thesis using ok by (simp add: rows_ok_def)
    qed
  qed
  ultimately show ?thesis using ok by (simp add: rows_ok_def)
qed

lemma update_run_keeps:
  assumes id: "\<And>r. same_identity r (f r)"
    and r: "\<And>r. run_of db i = Some r \<Longrightarrow> row_ok r \<Longrightarrow> row_ok (f r) \<and> row_step r (f r)"
    and run: "store_ok R P db \<Longrightarrow> run_ok R P (update_run i f db) i"
  shows "keeps R P db (update_run i f db)"
proof -
  have bid: "br_id (f r) = br_id r" for r using id by (simp add: same_identity_def)
  note run_of = run_of_update_run [of f, OF bid]
  have "store_ok R P (update_run i f db) \<and> advances db (update_run i f db)" if ok: "store_ok R P db"
  proof -
    have row: "row_ok r" if "run_of db i = Some r" for r
      using ok that by (auto simp: store_ok_def rows_ok_def dest: run_of_SomeD)
    have "rows_ok (update_run i f db)"
      using ok id r row by (intro update_run_rows_ok) (auto simp: store_ok_def)
    moreover have "run_ok R P (update_run i f db) j" for j
      using run ok run_ok_cong [of "update_run i f db" j db]
      by (cases "j = i") (auto simp: run_of store_ok_def option.map_ident)
    moreover have "events_ok (update_run i f db)" "slots_ok (update_run i f db)" "outbox_ok (update_run i f db)"
      using ok by (simp_all add: store_ok_def events_ok_def slots_ok_def outbox_ok_def run_of)
    ultimately have "store_ok R P (update_run i f db)" by (simp add: store_ok_def)
    moreover have "rows_advance db (update_run i f db)"
      using r row by (simp add: rows_advance_def run_of)
    ultimately show ?thesis by (simp add: advances_iff outbox_advances_def) (meson event_step_refl)
  qed
  then show ?thesis by (simp add: keeps_def)
qed

text \<open>The common case: a run that is not terminal, and is not passed by the update.\<close>

definition live_update :: "(run_row \<Rightarrow> run_row) \<Rightarrow> run_row \<Rightarrow> bool" where
  "live_update f r \<longleftrightarrow> \<not> isTerminalStatus (br_status r) \<and> br_status (f r) \<noteq> RunPassed
     \<and> status_step (br_status r) (br_status (f r)) \<and> keeps_commitments r (f r) \<and> (row_ok r \<longrightarrow> row_ok (f r))"

lemma live_update_keeps:
  assumes id: "\<And>r. same_identity r (f r)" and r: "\<And>r. run_of db i = Some r \<Longrightarrow> live_update f r"
  shows "keeps R P db (update_run i f db)"
proof (rule update_run_keeps [OF id])
  show "row_ok (f r) \<and> row_step r (f r)" if "run_of db i = Some r" "row_ok r" for r
    using r [OF that(1)] that(2) id by (simp add: live_update_def row_step_def)
  have bid: "br_id (f r) = br_id r" for r using id by (simp add: same_identity_def)
  show "run_ok R P (update_run i f db) i" if ok: "store_ok R P db"
  proof (cases "run_of db i")
    case None
    moreover have "run_ok R P db i" using ok by (simp add: store_ok_def)
    ultimately show ?thesis by (simp add: run_ok_def run_of_update_run [of f, OF bid])
  next
    case (Some x)
    then have "br_status x \<noteq> RunPassed" using r by (auto simp: live_update_def)
    moreover have "run_ok R P db i" using ok by (simp add: store_ok_def)
    ultimately show ?thesis
      using Some r [OF Some] by (simp add: run_ok_def run_of_update_run [of f, OF bid] live_update_def)
  qed
qed

lemma update_and_log_keeps:
  assumes "update_and_log i f ty st p t db = Inr (x, db')"
    and "\<And>r. same_identity r (f r)" and "\<And>r. run_of db i = Some r \<Longrightarrow> live_update f r"
  shows "keeps R P db db'"
proof -
  from assms(1) have "appendEvent i ty st p t (update_run i f db) = Inr db'"
    by (auto simp: update_and_log_def store_simps)
  then have "keeps R P (update_run i f db) db'" by (rule appendEvent_keeps)
  with live_update_keeps [of f db i R P, OF assms(2,3)] show ?thesis by (rule keeps_trans)
qed

lemma requireRun_Inr [store_simps]:
  "requireRun i db = Inr run \<longleftrightarrow> (\<exists>r. run_of db i = Some r \<and> run = rowToRun r)"
  by (auto simp: requireRun_def getRun_def the_or_Inr)

lemma rowToRun_simps [simp]:
  "br_id (rowToRun r) = br_id r" "br_status (rowToRun r) = br_status r" "br_stage (rowToRun r) = br_stage r"
  "br_cancel_requested (rowToRun r) = br_cancel_requested r" "br_updated_at (rowToRun r) = br_updated_at r"
  "br_project_id (rowToRun r) = br_project_id r" "br_candidate_id (rowToRun r) = br_candidate_id r"
  "br_contract_hash (rowToRun r) = br_contract_hash r" "br_preview_port (rowToRun r) = br_preview_port r"
  "br_verification_purpose (rowToRun r) = br_verification_purpose r"
  "br_revision_hash (rowToRun r) = truthy (br_revision_hash r)"
  "br_sandbox_id (rowToRun r) = truthy (br_sandbox_id r)"
  "br_builder_sandbox_id (rowToRun r) = truthy (br_builder_sandbox_id r)"
  "br_verification_sandbox_id (rowToRun r) = truthy (br_verification_sandbox_id r)"
  "br_assignment_id (rowToRun r) = br_assignment_id r" "br_assignment_hash (rowToRun r) = br_assignment_hash r"
  by (simp_all add: rowToRun_def build_run.truncate_def)

lemma assertLease_Inr [store_simps]:
  "assertLease i lease now db = Inr u \<longleftrightarrow>
     sl_run_id lease = i \<and> list_ex (lease_current lease now) (db_slots db)"
  by (simp add: assertLease_def require_Inr)

lemma assertActiveRun_Inr [store_simps]:
  "assertActiveRun i lease now db = Inr run \<longleftrightarrow>
     sl_run_id lease = i \<and> list_ex (lease_current lease now) (db_slots db)
     \<and> (\<exists>r. run_of db i = Some r \<and> run = rowToRun r \<and> br_status r = RunRunning)"
  by (auto simp: assertActiveRun_def store_simps)


subsection \<open>The operations on a running run\<close>

lemma live_updateI:
  assumes "\<not> isTerminalStatus (br_status r)" "br_status (f r) \<noteq> RunPassed"
    "status_step (br_status r) (br_status (f r))" "keeps_commitments r (f r)" "row_ok r \<Longrightarrow> row_ok (f r)"
  shows "live_update f r"
  using assms by (simp add: live_update_def)

lemma startRun_keeps: "startRun c i lease db = Inr (x, db') \<Longrightarrow> keeps R P db db'"
  unfolding startRun_def
  by (clarsimp simp: store_simps, erule update_and_log_keeps)
    (auto simp: same_identity_def row_ok_def keeps_commitments_def intro!: live_updateI dest!: truthy_SomeD)

lemma updateStage_keeps: "updateStage c i lease st p db = Inr (x, db') \<Longrightarrow> keeps R P db db'"
  unfolding updateStage_def
  by (clarsimp simp: store_simps, erule update_and_log_keeps)
    (auto simp: same_identity_def row_ok_def keeps_commitments_def intro!: live_updateI dest!: truthy_SomeD)

lemma recordAgentProgress_keeps: "recordAgentProgress c i lease p db = Inr db' \<Longrightarrow> keeps R P db db'"
  unfolding recordAgentProgress_def by (clarsimp simp: store_simps, erule appendEvent_keeps)

lemma attachSandbox_keeps: "attachSandbox c i lease sb db = Inr (x, db') \<Longrightarrow> keeps R P db db'"
  unfolding attachSandbox_def
  by (clarsimp simp: store_simps, erule update_and_log_keeps)
    (auto simp: same_identity_def row_ok_def keeps_commitments_def intro!: live_updateI dest!: truthy_SomeD)

lemma attachVerificationSandbox_keeps:
  "attachVerificationSandbox c i lease sb pu db = Inr (x, db') \<Longrightarrow> keeps R P db db'"
  unfolding attachVerificationSandbox_def
  by (clarsimp simp: store_simps, erule update_and_log_keeps)
    (auto simp: same_identity_def row_ok_def keeps_commitments_def intro!: live_updateI dest!: truthy_SomeD)

lemma promoteVerificationSandbox_keeps:
  "promoteVerificationSandbox c i lease sb db = Inr (x, db') \<Longrightarrow> keeps R P db db'"
  unfolding promoteVerificationSandbox_def
  by (clarsimp simp: store_simps, erule update_and_log_keeps)
    (auto simp: same_identity_def row_ok_def keeps_commitments_def intro!: live_updateI dest!: truthy_SomeD)

lemma setRevision_keeps: "setRevision c i lease h port db = Inr (x, db') \<Longrightarrow> keeps R P db db'"
  unfolding setRevision_def
  by (clarsimp simp: store_simps, erule update_and_log_keeps)
    (auto simp: same_identity_def row_ok_def keeps_commitments_def intro!: live_updateI dest!: truthy_SomeD)

lemma markTerminal_keeps:
  assumes "markTerminal c i lease st code m p db = Inr (x, db')"
    and "st \<in> {RunRejected, RunFailed, RunCancelled}" "lease = None \<Longrightarrow> st = RunFailed"
  shows "keeps R P db db'"
proof -
  from assms(1) consider "db' = db"
    | f t where "f = ended_row st code m t"
      "update_and_log i f (''run.'' @ run_status_text st) StageComplete p t db = Inr (x, db')"
      "\<And>r. run_of db i = Some r \<Longrightarrow> \<not> isTerminalStatus (br_status r)"
    by (auto simp: markTerminal_def Let_def store_simps split: if_splits)
  then show ?thesis
  proof cases
    case 1
    then show ?thesis by simp
  next
    case 2
    show ?thesis
      by (rule update_and_log_keeps [OF 2(2)])
        (use assms(2) 2(1,3) in \<open>auto simp: same_identity_def row_ok_def keeps_commitments_def ended_row_def not_terminal_iff
          intro!: live_updateI\<close>)
  qed
qed

lemma markRejected_keeps: "markRejected c i lease reasons db = Inr (x, db') \<Longrightarrow> keeps R P db db'"
  by (auto simp: markRejected_def intro: markTerminal_keeps)

lemma markFailed_keeps: "markFailed c i lease code m db = Inr (x, db') \<Longrightarrow> keeps R P db db'"
  by (auto simp: markFailed_def intro: markTerminal_keeps)

lemma markCancelled_keeps: "markCancelled c i lease db = Inr (x, db') \<Longrightarrow> keeps R P db db'"
  by (auto simp: markCancelled_def intro: markTerminal_keeps)


text \<open>Evidence and artifacts join the tables of a run that is running.\<close>

lemma insert_keeps:
  assumes run: "run_of db i = Some r" "br_status r \<noteq> RunPassed"
    and same: "db_runs db' = db_runs db" "db_events db' = db_events db" "db_slots db' = db_slots db"
      "db_outbox db' = db_outbox db" "db_contracts db' = db_contracts db" "db_last_sequence db' = db_last_sequence db"
    and other: "\<And>j. j \<noteq> i \<Longrightarrow> evidence_of db' j = evidence_of db j \<and> artifacts_of db' j = artifacts_of db j"
    and grows: "grows (db_evidence db) (db_evidence db')" "grows (db_artifacts db) (db_artifacts db')"
  shows "keeps R P db db'"
proof -
  have r: "run_of db' = run_of db" and ob: "outbox_of db' = outbox_of db"
    using same by (simp_all add: run_of_def outbox_of_def fun_eq_iff)
  have "run_ok R P db' j" if ok: "store_ok R P db" for j
  proof (cases "j = i")
    case True
    have "run_ok R P db i" using ok by (simp add: store_ok_def)
    with True run show ?thesis by (simp add: run_ok_def r ob)
  next
    case False
    have "run_ok R P db j" using ok by (simp add: store_ok_def)
    with other [OF False] show ?thesis by (subst run_ok_cong [of db' j db]) (simp_all add: r ob)
  qed
  then have all: "store_ok R P db \<Longrightarrow> All (run_ok R P db')" by blast
  have "store_ok R P db'" if ok: "store_ok R P db"
    using ok all [OF ok] by (simp add: store_ok_def rows_ok_def events_ok_def slots_ok_def outbox_ok_def same r)
  moreover have "advances db db'"
    using grows by (simp add: advances_iff rows_advance_def outbox_advances_def same r) (meson event_step_refl)
  ultimately show ?thesis by (simp add: keeps_def)
qed

lemma addEvidence_keeps:
  assumes "addEvidence R c i lease rc db = Inr db'"
  shows "keeps R' P db db'"
proof -
  let ?mid = "db\<lparr>db_evidence := db_evidence db @ [rc]\<rparr>"
  from assms obtain r ty st p where run: "run_of db i = Some r" "br_status r \<noteq> RunPassed" "receipt_run rc = i"
    and ap: "appendEvent i ty st p (c 1) ?mid = Inr db'"
    by (auto simp: addEvidence_def Let_def store_simps)
  have "keeps R' P db ?mid"
    by (rule insert_keeps [OF run(1,2)]) (use run(3) in \<open>auto simp: evidence_of_def artifacts_of_def\<close>)
  with appendEvent_keeps [OF ap] show ?thesis by (rule keeps_trans [rotated])
qed

lemma recordArtifact_keeps:
  assumes "recordArtifact R c i lease a db = Inr db'"
  shows "keeps R' P db db'"
proof -
  let ?mid = "db\<lparr>db_artifacts := db_artifacts db @ [a]\<rparr>"
  from assms obtain r ty st p where run: "run_of db i = Some r" "br_status r \<noteq> RunPassed" "pa_run_id a = i"
    and ap: "appendEvent i ty st p (c 1) ?mid = Inr db'"
    by (auto simp: recordArtifact_def store_simps)
  have "keeps R' P db ?mid"
    by (rule insert_keeps [OF run(1,2)]) (use run(3) in \<open>auto simp: evidence_of_def artifacts_of_def\<close>)
  with appendEvent_keeps [OF ap] show ?thesis by (rule keeps_trans [rotated])
qed

subsection \<open>Slots\<close>

lemma slots_keeps:
  assumes step: "slots_ok db \<Longrightarrow> list_all2 slot_step (db_slots db) ss"
    and ok: "slots_ok db \<Longrightarrow> slots_ok (db\<lparr>db_slots := ss\<rparr>)"
  shows "keeps R P db (db\<lparr>db_slots := ss\<rparr>)"
proof -
  let ?d = "db\<lparr>db_slots := ss\<rparr>"
  have "run_ok R P ?d j = run_ok R P db j" for j by (rule run_ok_cong) simp_all
  then have "store_ok R P db \<Longrightarrow> store_ok R P ?d"
    using ok by (simp add: store_ok_def rows_ok_def events_ok_def outbox_ok_def)
  moreover have "advances db ?d" if "store_ok R P db"
    using step that
    by (simp add: store_ok_def advances_iff rows_advance_def outbox_advances_def) (meson event_step_refl)
  ultimately show ?thesis by (simp add: keeps_def)
qed

lemma update_slots_step:
  "(\<And>s. s \<in> set ss \<Longrightarrow> Q s \<Longrightarrow> slot_step s (f s)) \<Longrightarrow> list_all2 slot_step ss (update_where Q f ss)"
  by (induction ss) auto

lemma update_slots_ok:
  assumes "slots_ok db" "\<And>s. sr_slot_id (f s) = sr_slot_id s"
    and "\<And>s. s \<in> set (db_slots db) \<Longrightarrow> Q s \<Longrightarrow> (sr_run_id (f s) = None \<longleftrightarrow> sr_expires_at (f s) = None)
      \<and> (\<forall>i. sr_run_id (f s) = Some i \<longrightarrow> run_of db i \<noteq> None)"
  shows "slots_ok (db\<lparr>db_slots := update_where Q f (db_slots db)\<rparr>)"
proof -
  have "map sr_slot_id (update_where Q f (db_slots db)) = map sr_slot_id (db_slots db)"
    using assms(2) by (rule map_update_where_same)
  moreover have "(sr_run_id x = None \<longleftrightarrow> sr_expires_at x = None)
      \<and> (\<forall>i. sr_run_id x = Some i \<longrightarrow> run_of db i \<noteq> None)"
    if "x \<in> set (update_where Q f (db_slots db))" for x
    using that
  proof (rule in_update_whereE)
    fix s assume "s \<in> set (db_slots db)" "Q s" "x = f s"
    then show ?thesis using assms(3) by simp
  next
    assume "x \<in> set (db_slots db)" "\<not> Q x"
    then show ?thesis using assms(1) by (simp add: slots_ok_def)
  qed
  ultimately show ?thesis using assms(1) by (simp add: slots_ok_def)
qed

lemma slots_distinct: "slots_ok db \<Longrightarrow> distinct (map sr_slot_id (db_slots db))"
  by (simp add: slots_ok_def)

lemma first_free_slot_SomeD:
  assumes "first_free_slot n now db = Some s"
  shows "s \<in> set (db_slots db)" "sr_slot_id s \<le> n" "slot_free now s"
proof -
  let ?f = "\<lambda>s. sr_slot_id s \<le> n \<and> slot_free now s"
  from assms obtain t where "order_by sr_slot_id (filter ?f (db_slots db)) = s # t"
    by (auto simp: first_free_slot_def split: list.splits)
  then have "s \<in> set (order_by sr_slot_id (filter ?f (db_slots db)))" by simp
  then show "s \<in> set (db_slots db)" "sr_slot_id s \<le> n" "slot_free now s" by auto
qed

lemma failed_row_live:
  "\<not> isTerminalStatus (br_status r) \<Longrightarrow> live_update (failed_row code m now) r"
  by (cases "br_status r") (simp_all add: live_update_def failed_row_def row_ok_def keeps_commitments_def)

lemma failed_row_identity [simp]: "same_identity r (failed_row code m now r)"
  by (simp add: same_identity_def failed_row_def)

lemma failExpiredRun_keeps: "failExpiredRun i now db = Inr db' \<Longrightarrow> keeps R P db db'"
proof (cases "run_of db i")
  case (Some r)
  assume a: "failExpiredRun i now db = Inr db'"
  show ?thesis
  proof (cases "isTerminalStatus (br_status r)")
    case False
    let ?f = "failed_row ''lease_expired'' ''Worker lease expired before completion'' now"
    have "keeps R P db (update_run i ?f db)"
      using Some False by (intro live_update_keeps) (auto intro: failed_row_live)
    moreover have "keeps R P (update_run i ?f db) db'"
      using a Some False by (auto simp: failExpiredRun_def intro: appendEvent_keeps)
    ultimately show ?thesis by (rule keeps_trans)
  qed (use a Some in \<open>auto simp: failExpiredRun_def\<close>)
qed (auto simp: failExpiredRun_def)

lemma failExpiredRun_slots: "failExpiredRun i now db = Inr db' \<Longrightarrow> db_slots db' = db_slots db"
  by (auto simp: failExpiredRun_def appendEvent_tables split: option.splits if_splits)


lemma lease_slot_keeps:
  assumes free: "s \<in> set (db_slots db)" and run: "run_of db i \<noteq> None"
  shows "keeps R P db (db\<lparr>db_slots := update_where (\<lambda>x. sr_slot_id x = sr_slot_id s)
    (lease_row i (Suc (sr_fencing_token s)) now expires) (db_slots db)\<rparr>)"
proof (rule slots_keeps)
  assume ok: "slots_ok db"
  show "list_all2 slot_step (db_slots db) (update_where (\<lambda>x. sr_slot_id x = sr_slot_id s)
    (lease_row i (Suc (sr_fencing_token s)) now expires) (db_slots db))"
  proof (rule update_slots_step)
    fix x assume "x \<in> set (db_slots db)" "sr_slot_id x = sr_slot_id s"
    then have "x = s" using free slots_distinct [OF ok] by (metis distinct_key_eq)
    then show "slot_step x (lease_row i (Suc (sr_fencing_token s)) now expires x)"
      by (simp add: slot_step_def lease_row_def)
  qed
  show "slots_ok (db\<lparr>db_slots := update_where (\<lambda>x. sr_slot_id x = sr_slot_id s)
    (lease_row i (Suc (sr_fencing_token s)) now expires) (db_slots db)\<rparr>)"
    using ok run by (intro update_slots_ok) (simp_all add: lease_row_def)
qed

lemma acquireSlot_InrD:
  assumes "acquireSlot n c i ms db = Inr (v, db')"
  obtains "v = None" "db' = db"
  | s db1 r where "first_free_slot n (c 0) db = Some s" "run_of db i = Some r" "br_status r = RunQueued"
      "\<not> br_cancel_requested r"
      "(case truthy (sr_run_id s) of None \<Rightarrow> Inr db | Some holder \<Rightarrow> failExpiredRun holder (c 0) db) = Inr db1"
      "v = Some \<lparr>sl_slot_id = sr_slot_id s, sl_run_id = i, sl_fencing_token = Suc (sr_fencing_token s),
         sl_expires_at = c 1 + ms\<rparr>"
      "db' = db1\<lparr>db_slots := update_where (\<lambda>x. sr_slot_id x = sr_slot_id s)
         (lease_row i (Suc (sr_fencing_token s)) (c 0) (c 1 + ms)) (db_slots db1)\<rparr>"
  using assms
  by (auto simp: acquireSlot_def store_simps Let_def split: if_splits option.splits)

lemma free_holder_keeps:
  assumes "(case h of None \<Rightarrow> Inr db | Some holder \<Rightarrow> failExpiredRun holder now db) = Inr db1"
  shows "keeps R P db db1" "db_slots db1 = db_slots db"
  using assms by (auto split: option.splits intro: failExpiredRun_keeps dest: failExpiredRun_slots)

lemma acquireSlot_keeps:
  assumes "acquireSlot n c i ms db = Inr (v, db')"
  shows "keeps R P db db'"
  using assms
proof (rule acquireSlot_InrD)
  assume "db' = db"
  then show ?thesis by simp
next
  fix s db1 r
  assume free: "first_free_slot n (c 0) db = Some s" and run: "run_of db i = Some r"
    and fail: "(case truthy (sr_run_id s) of None \<Rightarrow> Inr db | Some holder \<Rightarrow> failExpiredRun holder (c 0) db) = Inr db1"
    and db': "db' = db1\<lparr>db_slots := update_where (\<lambda>x. sr_slot_id x = sr_slot_id s)
         (lease_row i (Suc (sr_fencing_token s)) (c 0) (c 1 + ms)) (db_slots db1)\<rparr>"
  note first = free_holder_keeps [OF fail]
  show "keeps R P db db'"
  proof (cases "store_ok R P db")
    case True
    then have "advances db db1" using first(1) [of R P] by (simp add: keeps_def)
    then have "run_of db1 i \<noteq> None" using advances_run [OF _ run] by blast
    moreover have "s \<in> set (db_slots db1)" using first_free_slot_SomeD(1) [OF free] first(2) by simp
    ultimately show ?thesis unfolding db' by (intro keeps_trans [OF first(1) lease_slot_keeps])
  qed (simp add: keeps_def)
qed

lemma heartbeat_keeps: "heartbeat c lease ms db = Inr (x, db') \<Longrightarrow> keeps R P db db'"
proof -
  assume "heartbeat c lease ms db = Inr (x, db')"
  then have db': "db' = db\<lparr>db_slots := update_where (lease_current lease (c 0))
      (\<lambda>s. s\<lparr>sr_heartbeat_at := Some (c 0), sr_expires_at := Some (c 1 + ms)\<rparr>) (db_slots db)\<rparr>"
    by (auto simp: heartbeat_def Let_def split: if_splits)
  show ?thesis
    unfolding db'
  proof (intro slots_keeps update_slots_step update_slots_ok)
    fix s assume "slots_ok db" "s \<in> set (db_slots db)" "lease_current lease (c 0) s"
    then show "(sr_run_id (s\<lparr>sr_heartbeat_at := Some (c 0), sr_expires_at := Some (c 1 + ms)\<rparr>) = None)
        = (sr_expires_at (s\<lparr>sr_heartbeat_at := Some (c 0), sr_expires_at := Some (c 1 + ms)\<rparr>) = None)
      \<and> (\<forall>i. sr_run_id (s\<lparr>sr_heartbeat_at := Some (c 0), sr_expires_at := Some (c 1 + ms)\<rparr>) = Some i
          \<longrightarrow> run_of db i \<noteq> None)"
      by (auto simp: lease_current_def holds_lease_def slots_ok_def)
  qed (simp_all add: slot_step_def)
qed

lemma releaseSlot_keeps: "keeps R P db (releaseSlot lease db)"
  unfolding releaseSlot_def
  by (intro slots_keeps update_slots_step update_slots_ok) (simp_all add: slot_step_def clear_row_def)

lemma clear_slots_keeps: "keeps R P db (db\<lparr>db_slots := map clear_row (db_slots db)\<rparr>)"
proof -
  have eq: "map clear_row (db_slots db) = update_where (\<lambda>_. True) clear_row (db_slots db)"
    by (simp add: update_where_def)
  show ?thesis
    unfolding eq
    by (intro slots_keeps update_slots_step update_slots_ok) (simp_all add: slot_step_def clear_row_def)
qed


subsection \<open>Cancellation, the outbox and recovery\<close>

lemma requestCancel_keeps:
  assumes "requestCancel c i q db = Inr (x, db')"
  shows "keeps R P db db'"
proof -
  let ?p = "cancellation_payload q i"
  from assms consider "db' = db"
    | run' where "run_of db i \<noteq> None" "\<And>r. run_of db i = Some r \<Longrightarrow> br_status r = RunQueued"
        "update_and_log i (\<lambda>r. r\<lparr>br_status := RunCancelled, br_stage := StageComplete,
           br_cancel_requested := True, br_updated_at := c 0, br_completed_at := Some (c 0)\<rparr>)
         ''run.cancelled'' StageComplete ?p (c 0) db = Inr (run', db')"
    | run' st where "\<And>r. run_of db i = Some r \<Longrightarrow> br_status r = RunRunning"
        "update_and_log i (\<lambda>r. r\<lparr>br_cancel_requested := True, br_updated_at := c 0\<rparr>)
         ''run.cancel_requested'' st ?p (c 0) db = Inr (run', db')"
    by (auto simp: requestCancel_def Let_def store_simps not_terminal_iff split: if_splits)
  then show ?thesis
  proof cases
    case 1
    then show ?thesis by simp
  next
    case 2
    show ?thesis
      by (rule update_and_log_keeps [OF 2(3)])
        (use 2(2) in \<open>auto simp: same_identity_def row_ok_def keeps_commitments_def intro!: live_updateI\<close>)
  next
    case 3
    show ?thesis
      by (rule update_and_log_keeps [OF 3(2)])
        (use 3(1) in \<open>auto simp: same_identity_def row_ok_def keeps_commitments_def intro!: live_updateI\<close>)
  qed
qed

lemma fail_interrupted_keeps:
  "fail_interrupted now rows db = Inr db' \<Longrightarrow> \<forall>r \<in> set rows. \<forall>x. run_of db (br_id r) = Some x
      \<longrightarrow> \<not> isTerminalStatus (br_status x) \<Longrightarrow> distinct (map br_id rows) \<Longrightarrow> keeps R P db db'"
proof (induction rows arbitrary: db)
  case Nil
  then show ?case by simp
next
  case (Cons row rows)
  let ?f = "failed_row ''worker_restarted'' ''Worker stopped before a terminal proof decision'' now"
  let ?u = "update_run (br_id row) ?f db"
  from Cons.prems(1) obtain ty st p db1 where ap: "appendEvent (br_id row) ty st p now ?u = Inr db1"
    and rest: "fail_interrupted now rows db1 = Inr db'"
    by (auto simp: store_simps)
  have "keeps R P db ?u"
    using Cons.prems(2) by (intro live_update_keeps) (auto intro: failed_row_live)
  moreover have "keeps R P ?u db1" using ap by (rule appendEvent_keeps)
  moreover have "keeps R P db1 db'"
  proof (rule Cons.IH [OF rest])
    show "\<forall>r \<in> set rows. \<forall>x. run_of db1 (br_id r) = Some x \<longrightarrow> \<not> isTerminalStatus (br_status x)"
    proof (intro ballI allI impI)
      fix r x assume r: "r \<in> set rows" and x: "run_of db1 (br_id r) = Some x"
      have "br_id r \<in> br_id ` set rows" "br_id row \<notin> br_id ` set rows" using r Cons.prems(3) by simp_all
      then have "br_id r \<noteq> br_id row" by metis
      then have "run_of db (br_id r) = Some x"
        using x by (simp add: appendEvent_tables(6) [OF ap] run_of_update_run failed_row_def option.map_ident)
      then show "\<not> isTerminalStatus (br_status x)" using r Cons.prems(2) by auto
    qed
  qed (use Cons.prems(3) in simp)
  ultimately show ?case by (blast intro: keeps_trans)
qed

lemma recoverInterruptedRuns_keeps:
  assumes "recoverInterruptedRuns c db = Inr (x, db')"
  shows "keeps R P db db'"
proof (cases "store_ok R P db")
  case ok: True
  let ?rows = "filter (\<lambda>r. br_status r = RunRunning) (db_runs db)"
  from assms obtain db1 where f: "fail_interrupted (c 0) ?rows db = Inr db1"
    and db': "db' = db1\<lparr>db_slots := map clear_row (db_slots db1)\<rparr>"
    by (auto simp: recoverInterruptedRuns_def Let_def store_simps)
  have d: "distinct (map br_id (db_runs db))" using ok by (simp add: store_ok_def rows_ok_def)
  have "keeps R P db db1"
  proof (rule fail_interrupted_keeps [OF f])
    show "\<forall>r \<in> set ?rows. \<forall>x. run_of db (br_id r) = Some x \<longrightarrow> \<not> isTerminalStatus (br_status x)"
    proof (intro ballI allI impI)
      fix r x assume r: "r \<in> set ?rows" and x: "run_of db (br_id r) = Some x"
      from r d have "run_of db (br_id r) = Some r" by (simp add: run_of_iff)
      with r x show "\<not> isTerminalStatus (br_status x)" by simp
    qed
    show "distinct (map br_id ?rows)" using d by (rule distinct_map_filter)
  qed
  then show ?thesis unfolding db' by (rule keeps_trans [OF _ clear_slots_keeps])
qed (simp add: keeps_def)

lemma markRecoveryCleanupComplete_keeps:
  assumes "markRecoveryCleanupComplete c i db = Inr db'"
  shows "keeps R P db db'"
proof -
  let ?f = "\<lambda>r. if rw_recovery_cleanup_at r = None then r\<lparr>rw_recovery_cleanup_at := Some (c 0)\<rparr> else r"
  from assms consider "db' = db"
    | row where "run_of db i = Some row" "br_status row = RunFailed" "db' = update_run i ?f db"
    by (auto simp: markRecoveryCleanupComplete_def store_simps split: option.splits if_splits)
  then show ?thesis
  proof cases
    case 1
    then show ?thesis by simp
  next
    case 2
    have id: "same_identity r (?f r)" for r by (simp add: same_identity_def)
    have bid: "br_id (?f r) = br_id r" for r by simp
    show ?thesis
      unfolding 2(3)
    proof (rule update_run_keeps [OF id])
      fix r assume r: "run_of db i = Some r" and ok: "row_ok r"
      have failed: "br_status r = RunFailed" using r 2(1,2) by simp
      have "cleanup_only r (?f r)" unfolding cleanup_only_def by (simp, blast)
      moreover have "row_ok (?f r)" using ok failed by (simp add: row_ok_def)
      ultimately show "row_ok (?f r) \<and> row_step r (?f r)"
        using id [of r] by (simp add: row_step_def keeps_commitments_def)
    next
      assume "store_ok R P db"
      then have "run_ok R P db i" by (simp add: store_ok_def)
      then show "run_ok R P (update_run i ?f db) i"
        using 2(1,2) by (simp add: run_ok_def run_of_update_run [of ?f, OF bid])
    qed
  qed
qed


lemma filter_update_where:
  "(\<And>r. Q r \<Longrightarrow> P (f r) = P r) \<Longrightarrow> filter P (update_where Q f rows) = update_where Q f (filter P rows)"
  by (induction rows) auto

lemma publish_keeps:
  fixes t :: time
  defines "f \<equiv> \<lambda>e. e\<lparr>ob_published_at := Some t\<rparr>"
  assumes due: "\<And>e. Q e \<Longrightarrow> ob_published_at e = None"
  shows "keeps R P db (db\<lparr>db_outbox := update_where Q f (db_outbox db)\<rparr>)"
proof -
  let ?d = "db\<lparr>db_outbox := update_where Q f (db_outbox db)\<rparr>"
  have of: "outbox_of ?d i = update_where Q f (outbox_of db i)" for i
    by (simp add: outbox_of_def filter_update_where f_def)
  have fields: "ob_type (f e) = ob_type e" "ob_revision_hash (f e) = ob_revision_hash e"
    "ob_payload (f e) = ob_payload e" "ob_trace_id (f e) = ob_trace_id e" for e
    by (simp_all add: f_def)
  have one: "run_ok R P ?d i" if "run_ok R P db i" for i
  proof (cases "run_of db i")
    case (Some r)
    show ?thesis
    proof (cases "br_status r = RunPassed")
      case True
      with that Some have "proven_run R P db r" by (simp add: run_ok_def)
      then have "proven_run R P ?d r"
        by (auto simp: proven_run_def of fields getRecordedArtifact_def listEvidence_def simp del: outbox_of_updates)
      with True Some show ?thesis by (simp add: run_ok_def)
    qed (use that Some in \<open>simp add: run_ok_def of\<close>)
  qed (use that in \<open>simp add: run_ok_def of\<close>)
  have ids: "map ob_event_id (update_where Q f (db_outbox db)) = map ob_event_id (db_outbox db)"
    by (rule map_update_where_same) (simp add: f_def)
  have "store_ok R P ?d" if "store_ok R P db"
    using that one
    by (simp add: store_ok_def rows_ok_def events_ok_def slots_ok_def outbox_ok_def ids)
  moreover have "\<exists>e' \<in> set (update_where Q f (db_outbox db)). event_step e e'" if "e \<in> set (db_outbox db)" for e
  proof (cases "Q e")
    case True
    then have "event_step e (f e)" using due by (auto simp: event_step_def f_def)
    with that True show ?thesis by (auto simp: set_update_where)
  next
    case False
    with that show ?thesis by (auto simp: set_update_where intro: event_step_refl)
  qed
  then have "advances db ?d"
    by (simp add: advances_iff rows_advance_def outbox_advances_def)
  ultimately show ?thesis by (simp add: keeps_def)
qed

lemma markOutboxPublished_keeps:
  assumes "markOutboxPublished c i db = Inr (x, db')"
  shows "keeps R P db db'"
  using assms publish_keeps [of "\<lambda>e. ob_event_id e = i \<and> ob_published_at e = None \<and> publishable db e" R P db "c 0"]
  by (auto simp: markOutboxPublished_def Let_def split: if_splits option.splits)

subsection \<open>Creating and passing a run\<close>

lemma insert_contract_tables [simp]:
  "db_runs (insert_contract h k db) = db_runs db" "db_events (insert_contract h k db) = db_events db"
  "db_slots (insert_contract h k db) = db_slots db" "db_outbox (insert_contract h k db) = db_outbox db"
  "db_evidence (insert_contract h k db) = db_evidence db" "db_artifacts (insert_contract h k db) = db_artifacts db"
  "db_last_sequence (insert_contract h k db) = db_last_sequence db"
  by (simp_all add: insert_contract_def)

lemma insert_contract_grows: "grows (db_contracts db) (db_contracts (insert_contract h k db))"
  by (simp add: insert_contract_def)

lemma insert_contract_keeps: "keeps R P db (insert_contract h k db)"
proof -
  let ?d = "insert_contract h k db"
  have r: "run_of ?d = run_of db" by (simp add: run_of_def fun_eq_iff)
  have "run_ok R P ?d i = run_ok R P db i" for i
    by (rule run_ok_cong) (simp_all add: r evidence_of_def artifacts_of_def outbox_of_def)
  moreover have "rows_ok ?d" if "rows_ok db"
    using that grows_set [OF insert_contract_grows, of db h k] by (fastforce simp: rows_ok_def)
  ultimately have "store_ok R P ?d" if "store_ok R P db"
    using that by (simp add: store_ok_def events_ok_def slots_ok_def outbox_ok_def r)
  moreover have "advances db ?d"
    by (simp add: advances_iff rows_advance_def outbox_advances_def r insert_contract_grows)
      (meson event_step_refl)
  ultimately show ?thesis by (simp add: keeps_def)
qed

lemma events_ok_mono:
  "events_ok db \<Longrightarrow> db_events db' = db_events db \<Longrightarrow> db_last_sequence db' = db_last_sequence db \<Longrightarrow>
    (\<And>i. run_of db i \<noteq> None \<Longrightarrow> run_of db' i \<noteq> None) \<Longrightarrow> events_ok db'"
  unfolding events_ok_def by simp

lemma slots_ok_mono:
  "slots_ok db \<Longrightarrow> db_slots db' = db_slots db \<Longrightarrow>
    (\<And>i. run_of db i \<noteq> None \<Longrightarrow> run_of db' i \<noteq> None) \<Longrightarrow> slots_ok db'"
  unfolding slots_ok_def by metis

lemma insert_run_of:
  assumes "insert_run row db = Inr db'"
  shows "run_of db' i = (if i = br_id row then Some row else run_of db i)"
proof -
  have "br_id row \<notin> br_id ` set (db_runs db)" using assms by (auto simp: insert_run_def split: if_splits)
  then have n: "run_of db (br_id row) = None" by (simp add: run_of_None)
  have "db' = db\<lparr>db_runs := db_runs db @ [row]\<rparr>" using assms by (auto simp: insert_run_def split: if_splits)
  then show ?thesis
    using n by (cases "run_of db i") (auto simp: run_of_def find_append)
qed

lemma insert_run_keeps:
  assumes "insert_run row db = Inr db'" and "row_ok row" and "br_status row \<noteq> RunPassed"
  shows "keeps R P db db'"
proof -
  from assms(1) have db': "db' = db\<lparr>db_runs := db_runs db @ [row]\<rparr>"
    and new: "br_id row \<notin> br_id ` set (db_runs db)"
      "br_assignment_id row \<notin> br_assignment_id ` set (db_runs db)"
      "br_contract_hash row \<in> fst ` set (db_contracts db)"
    by (auto simp: insert_run_def split: if_splits)
  note r = insert_run_of [OF assms(1)]
  have ob: "outbox_of db' = outbox_of db" by (simp add: db' fun_eq_iff)
  have one: "run_ok R P db' i" if "store_ok R P db" for i
  proof (cases "i = br_id row")
    case True
    moreover have "run_ok R P db i" using that by (simp add: store_ok_def)
    ultimately show ?thesis
      using new(1) assms(3) by (simp add: run_ok_def r ob run_of_None [THEN iffD2])
  next
    case False
    moreover have "run_ok R P db i" using that by (simp add: store_ok_def)
    ultimately show ?thesis by (subst run_ok_cong [of db' i db]) (simp_all add: r, simp_all add: db')
  qed
  have "rows_ok db'" if "rows_ok db"
    using that new assms(2) by (simp add: rows_ok_def db')
  moreover have "events_ok db'" if "events_ok db"
    using that by (rule events_ok_mono) (simp_all add: r, simp_all add: db')
  moreover have "slots_ok db'" if "slots_ok db"
    using that by (rule slots_ok_mono) (simp_all add: r, simp_all add: db')
  moreover have "outbox_ok db'" if "outbox_ok db" using that by (simp add: outbox_ok_def db')
  ultimately have "store_ok R P db'" if "store_ok R P db"
    using that one by (simp add: store_ok_def)
  moreover have "rows_advance db db'"
    using new(1) by (auto simp: rows_advance_def r run_of_None [THEN iffD2])
  then have "advances db db'"
    by (simp add: advances_iff) (simp add: db' outbox_advances_def, meson event_step_refl)
  ultimately show ?thesis by (simp add: keeps_def)
qed

lemma createRun_keeps:
  assumes "createRun R c uuid a db = Inr (x, db')"
  shows "keeps R' P db db'"
proof -
  from assms consider "db' = db"
    | ah ch ty st p db1 where "insert_run (queued_row uuid a ah ch (c 0)) (insert_contract ch (ba_contract a) db) = Inr db1"
      "appendEvent uuid ty st p (c 0) db1 = Inr db'"
    by (auto simp: createRun_def store_simps split: option.splits)
  then show ?thesis
  proof cases
    case 1
    then show ?thesis by simp
  next
    case 2
    have "row_ok (queued_row uuid a ah ch (c 0))" by (simp add: row_ok_def queued_row_def)
    then have "keeps R' P (insert_contract ch (ba_contract a) db) db1"
      by (intro insert_run_keeps [OF 2(1)]) (simp_all add: queued_row_def)
    then show ?thesis
      using insert_contract_keeps appendEvent_keeps [OF 2(2)] by (blast intro: keeps_trans)
  qed
qed


lemma truthy_eq: "truthy v \<noteq> None \<Longrightarrow> truthy v = v"
  by (auto simp: truthy_def split: option.splits if_splits)

lemma promoted_run_row: "promoted_run (rowToRun r) \<Longrightarrow> delivery_promoted r"
proof -
  assume p: "promoted_run (rowToRun r)"
  then have t: "truthy (br_builder_sandbox_id r) \<noteq> None" "truthy (br_verification_sandbox_id r) \<noteq> None"
    "truthy (br_sandbox_id r) \<noteq> None"
    by (simp_all add: promoted_run_def)
  have "truthy (br_builder_sandbox_id r) = br_builder_sandbox_id r"
    "truthy (br_verification_sandbox_id r) = br_verification_sandbox_id r"
    "truthy (br_sandbox_id r) = br_sandbox_id r"
    by (rule truthy_eq [OF t(1)] truthy_eq [OF t(2)] truthy_eq [OF t(3)])+
  with p show ?thesis by (simp add: promoted_run_def delivery_promoted_def)
qed

text \<open>What \<open>markPassed\<close> has checked when it returns.\<close>

lemma markPassed_InrD:
  assumes "markPassed R P c uuid i lease rv tr db = Inr (x, db')"
  obtains r a asg rk e where "run_of db i = Some r" "br_status r = RunRunning" "\<not> br_cancel_requested r"
    "br_revision_hash r = Some rv" "delivery_promoted r" "getRecordedArtifact i db = Some a"
    "pa_revision_hash a = rv"
    "pd_passed (decideProof R P (ba_contract (rw_assignment r)) rv (listEvidence i db))"
    "CandidateProvenPayload_ok R (proven_payload (rowToRun r) i rv a tr rk)"
    "e = \<lparr>ob_event_id = uuid, ob_type = ''candidate.proven'', ob_run_id = i, ob_revision_hash = rv,
       ob_trace_id = tr, ob_payload = proven_payload (rowToRun r) i rv a tr rk,
       ob_created_at = c 1, ob_published_at = None\<rparr>"
    "insert_outbox e db = Inr (db\<lparr>db_outbox := db_outbox db @ [e]\<rparr>)"
    "uuid \<notin> ob_event_id ` set (db_outbox db)"
    "update_and_log i (passed_row (c 1)) ''candidate.proven'' StageComplete
       (payload_json (proven_payload (rowToRun r) i rv a tr rk)) (c 1) (db\<lparr>db_outbox := db_outbox db @ [e]\<rparr>)
       = Inr (x, db')"
proof -
  from assms obtain r a rk db1 where run: "run_of db i = Some r" "br_status r = RunRunning"
    and checks: "passing_checks R P i rv (rowToRun r) db = Inr a"
    and ok: "CandidateProvenPayload_ok R (proven_payload (rowToRun r) i rv a tr rk)"
    and ins: "insert_outbox \<lparr>ob_event_id = uuid, ob_type = ''candidate.proven'', ob_run_id = i,
       ob_revision_hash = rv, ob_trace_id = tr, ob_payload = proven_payload (rowToRun r) i rv a tr rk,
       ob_created_at = c 1, ob_published_at = None\<rparr> db = Inr db1"
    and log: "update_and_log i (passed_row (c 1)) ''candidate.proven'' StageComplete
       (payload_json (proven_payload (rowToRun r) i rv a tr rk)) (c 1) db1 = Inr (x, db')"
    by (auto simp: markPassed_def Let_def store_simps)
  have c: "\<not> br_cancel_requested r" "truthy (br_revision_hash r) = Some rv" "promoted_run (rowToRun r)"
    "getRecordedArtifact i db = Some a" "pa_revision_hash a = rv"
    "pd_passed (decideProof R P (ba_contract (rw_assignment r)) rv (listEvidence i db))"
    using checks run(1)
    by (auto simp: passing_checks_def Let_def store_simps getAssignment_def split: option.splits if_splits)
  have "br_revision_hash r = Some rv" using truthy_SomeD [OF c(2)] by simp
  moreover have "delivery_promoted r" using c(3) by (rule promoted_run_row)
  ultimately show ?thesis
    using that [OF run c(1) _ _ c(4-6) ok refl _ _] ins log
    by (simp add: insert_outbox_def split: if_splits)
qed

lemma markPassed_keeps:
  assumes "markPassed R P c uuid i lease rv tr db = Inr (x, db')"
  shows "keeps R P db db'"
  using assms
proof (rule markPassed_InrD)
  fix r a asg rk e
  assume run: "run_of db i = Some r" "br_status r = RunRunning" "\<not> br_cancel_requested r"
    "br_revision_hash r = Some rv" "delivery_promoted r" "getRecordedArtifact i db = Some a"
    "pa_revision_hash a = rv"
    "pd_passed (decideProof R P (ba_contract (rw_assignment r)) rv (listEvidence i db))"
    "CandidateProvenPayload_ok R (proven_payload (rowToRun r) i rv a tr rk)"
    and e: "e = \<lparr>ob_event_id = uuid, ob_type = ''candidate.proven'', ob_run_id = i, ob_revision_hash = rv,
       ob_trace_id = tr, ob_payload = proven_payload (rowToRun r) i rv a tr rk,
       ob_created_at = c 1, ob_published_at = None\<rparr>"
    and new: "uuid \<notin> ob_event_id ` set (db_outbox db)"
    and log: "update_and_log i (passed_row (c 1)) ''candidate.proven'' StageComplete
       (payload_json (proven_payload (rowToRun r) i rv a tr rk)) (c 1) (db\<lparr>db_outbox := db_outbox db @ [e]\<rparr>)
       = Inr (x, db')"
  define f where "f = passed_row (c 1)"
  let ?u = "db\<lparr>db_outbox := db_outbox db @ [e]\<rparr>"
  have id: "same_identity q (f q)" and bid: "br_id (f q) = br_id q" for q
    by (simp_all add: f_def passed_row_def same_identity_def)
  have passed: "br_status (f q) = RunPassed" for q by (simp add: f_def passed_row_def)
  have "store_ok R P (update_run i f ?u) \<and> advances db (update_run i f ?u)" if ok: "store_ok R P db"
  proof -
    have rid: "br_id r = i" using run(1) by (simp add: run_of_SomeD)
    have ob: "outbox_of ?u j = (if j = i then outbox_of db i @ [e] else outbox_of db j)" for j
      by (simp add: outbox_of_def e)
    have "outbox_of db i = []" using ok run(1,2) by (auto simp: store_ok_def run_ok_def dest!: spec [of _ i])
    moreover have rid': "br_id (f r) = i" using rid bid by simp
    ultimately have one: "outbox_of (update_run i f ?u) i = [e]" using ob [of i] by simp
    have "ob_type e = ''candidate.proven'' \<and> ob_revision_hash e = rv \<and> cp_artifact (ob_payload e) = a
        \<and> cp_run_id (ob_payload e) = i \<and> cp_revision_hash (ob_payload e) = rv
        \<and> cp_trace_id (ob_payload e) = ob_trace_id e \<and> CandidateProvenPayload_ok R (ob_payload e)"
      using run(9) by (simp add: e proven_payload_def)
    moreover have "br_revision_hash (f r) = Some rv" "delivery_promoted (f r)"
      "rw_assignment (f r) = rw_assignment r"
      "rw_proof_protocol_version (f r) = CURRENT_PROOF_PROTOCOL_VERSION"
      using run(4,5) by (simp_all add: f_def passed_row_def delivery_promoted_def)
    ultimately have "proven_run R P (update_run i f ?u) (f r)"
      using run(6-8) one
      unfolding proven_run_def rid' getRecordedArtifact_def listEvidence_def by auto
    then have "run_ok R P (update_run i f ?u) i"
      using run(1) passed [of r] by (simp add: run_ok_def run_of_update_run [of f, OF bid])
    moreover have "run_ok R P (update_run i f ?u) j" if "j \<noteq> i" for j
      using that ok by (subst run_ok_cong [of _ j db])
        (simp_all add: ob run_of_update_run [of f, OF bid] option.map_ident store_ok_def)
    moreover have "rows_ok (update_run i f ?u)"
    proof (rule update_run_rows_ok [OF _ id])
      show "rows_ok ?u" using ok by (simp add: store_ok_def rows_ok_def)
      have "row_ok r" using ok run(1) by (auto simp: store_ok_def rows_ok_def dest: run_of_SomeD)
      moreover fix q assume "run_of ?u i = Some q"
      ultimately show "row_ok (f q)" using run(1-3) by (simp add: row_ok_def f_def passed_row_def)
    qed
    moreover have "events_ok (update_run i f ?u)" "slots_ok (update_run i f ?u)"
      using ok by (simp_all add: store_ok_def events_ok_def slots_ok_def run_of_update_run [of f, OF bid])
    moreover have "outbox_ok (update_run i f ?u)"
      using ok new by (auto simp: store_ok_def outbox_ok_def e)
    ultimately have "store_ok R P (update_run i f ?u)" unfolding store_ok_def by metis
    moreover have "keeps_commitments r (f r)" by (simp add: keeps_commitments_def f_def passed_row_def)
    then have "row_step r (f r)"
      using id [of r] run(2) passed [of r] by (simp add: row_step_def)
    then have "rows_advance db (update_run i f ?u)"
      using run(1) by (simp add: rows_advance_def run_of_update_run [of f, OF bid])
    then have "advances db (update_run i f ?u)"
      by (simp add: advances_iff outbox_advances_def) (meson event_step_refl)
    ultimately show ?thesis by simp
  qed
  then have "keeps R P db (update_run i f ?u)" by (simp add: keeps_def)
  moreover have "keeps R P (update_run i f ?u) db'"
    using log by (auto simp: f_def update_and_log_def store_simps intro: appendEvent_keeps)
  ultimately show "keeps R P db db'" by (rule keeps_trans)
qed

end
