(* ===== verification/Run_Machine.thy ===== *)
theory Run_Machine
  imports Run_Invariants
begin

text \<open>
  The run store as a transition system: one rule of \<open>store_step\<close> per operation that may change
  the database (an operation that throws is rolled back and is no step), with the runtime, the
  controller policy and the configured slot count as parameters.  \<open>store_steps\<close> is any number of
  steps and \<open>reachable\<close> what they make of the freshly migrated database.  Every reachable database
  is well formed, and every later one advances it.
\<close>

inductive store_step :: "runtime \<Rightarrow> controller_policy \<Rightarrow> nat \<Rightarrow> run_db \<Rightarrow> run_db \<Rightarrow> bool"
  for R P n where
  createRun: "createRun R c uuid a db = Inr (v, db') \<Longrightarrow> store_step R P n db db'"
| acquireSlot: "acquireSlot n c i ms db = Inr (lv, db') \<Longrightarrow> store_step R P n db db'"
| heartbeat: "heartbeat c lease ms db = Inr (l, db') \<Longrightarrow> store_step R P n db db'"
| releaseSlot: "store_step R P n db (releaseSlot lease db)"
| startRun: "startRun c i lease db = Inr (x, db') \<Longrightarrow> store_step R P n db db'"
| updateStage: "updateStage c i lease st p db = Inr (x, db') \<Longrightarrow> store_step R P n db db'"
| recordAgentProgress: "recordAgentProgress c i lease ap db = Inr db' \<Longrightarrow> store_step R P n db db'"
| attachSandbox: "attachSandbox c i lease sb db = Inr (x, db') \<Longrightarrow> store_step R P n db db'"
| attachVerificationSandbox:
    "attachVerificationSandbox c i lease sb pu db = Inr (x, db') \<Longrightarrow> store_step R P n db db'"
| promoteVerificationSandbox:
    "promoteVerificationSandbox c i lease sb db = Inr (x, db') \<Longrightarrow> store_step R P n db db'"
| setRevision: "setRevision c i lease h port db = Inr (x, db') \<Longrightarrow> store_step R P n db db'"
| addEvidence: "addEvidence R c i lease rc db = Inr db' \<Longrightarrow> store_step R P n db db'"
| recordArtifact: "recordArtifact R c i lease art db = Inr db' \<Longrightarrow> store_step R P n db db'"
| markOutboxPublished: "markOutboxPublished c i db = Inr (b, db') \<Longrightarrow> store_step R P n db db'"
| requestCancel: "requestCancel c i q db = Inr (cx, db') \<Longrightarrow> store_step R P n db db'"
| markPassed: "markPassed R P c uuid i lease rv tr db = Inr (x, db') \<Longrightarrow> store_step R P n db db'"
| markRejected: "markRejected c i lease reasons db = Inr (x, db') \<Longrightarrow> store_step R P n db db'"
| markFailed: "markFailed c i lv code m db = Inr (x, db') \<Longrightarrow> store_step R P n db db'"
| markCancelled: "markCancelled c i lease db = Inr (x, db') \<Longrightarrow> store_step R P n db db'"
| recoverInterruptedRuns: "recoverInterruptedRuns c db = Inr (rs, db') \<Longrightarrow> store_step R P n db db'"
| markRecoveryCleanupComplete: "markRecoveryCleanupComplete c i db = Inr db' \<Longrightarrow> store_step R P n db db'"

inductive store_steps :: "runtime \<Rightarrow> controller_policy \<Rightarrow> nat \<Rightarrow> run_db \<Rightarrow> run_db \<Rightarrow> bool"
  for R P n where
  steps_refl: "store_steps R P n db db"
| steps_step: "store_steps R P n db db1 \<Longrightarrow> store_step R P n db1 db2 \<Longrightarrow> store_steps R P n db db2"

definition reachable :: "runtime \<Rightarrow> controller_policy \<Rightarrow> nat \<Rightarrow> run_db \<Rightarrow> bool" where
  "reachable R P n db \<longleftrightarrow> store_steps R P n empty_db db"

lemmas op_keeps =
  createRun_keeps acquireSlot_keeps heartbeat_keeps releaseSlot_keeps startRun_keeps updateStage_keeps
  recordAgentProgress_keeps attachSandbox_keeps attachVerificationSandbox_keeps
  promoteVerificationSandbox_keeps setRevision_keeps addEvidence_keeps recordArtifact_keeps
  markOutboxPublished_keeps requestCancel_keeps markPassed_keeps markRejected_keeps markFailed_keeps
  markCancelled_keeps recoverInterruptedRuns_keeps markRecoveryCleanupComplete_keeps

lemma store_step_keeps: "store_step R P n db db' \<Longrightarrow> keeps R P db db'"
  by (induction rule: store_step.induct) (erule op_keeps | rule op_keeps)+

lemma store_steps_keeps: "store_steps R P n db db' \<Longrightarrow> keeps R P db db'"
  by (induction rule: store_steps.induct) (auto intro: keeps_trans dest: store_step_keeps)

lemma store_steps_trans:
  assumes "store_steps R P n a b" "store_steps R P n b c" shows "store_steps R P n a c"
  using assms(2,1) by (induction rule: store_steps.induct) (auto intro: steps_step)

lemma empty_db_ok: "store_ok R P empty_db"
  by (simp add: store_ok_def rows_ok_def events_ok_def slots_ok_def outbox_ok_def run_ok_def run_of_def
      evidence_of_def artifacts_of_def outbox_of_def empty_db_def free_slot_def)

lemma reachable_ok: "reachable R P n db \<Longrightarrow> store_ok R P db"
  using store_steps_keeps empty_db_ok by (auto simp: reachable_def keeps_def)

lemma reachable_empty [simp]: "reachable R P n empty_db"
  by (simp add: reachable_def steps_refl)

lemma reachable_step: "reachable R P n db \<Longrightarrow> store_step R P n db db' \<Longrightarrow> reachable R P n db'"
  by (auto simp: reachable_def intro: steps_step)

lemma reachable_steps: "reachable R P n db \<Longrightarrow> store_steps R P n db db' \<Longrightarrow> reachable R P n db'"
  by (auto simp: reachable_def intro: store_steps_trans)

lemma steps_advance: "reachable R P n db \<Longrightarrow> store_steps R P n db db' \<Longrightarrow> advances db db'"
  using store_steps_keeps reachable_ok by (auto simp: keeps_def)

lemma reachable_row_ok: "reachable R P n db \<Longrightarrow> run_of db i = Some r \<Longrightarrow> row_ok r"
  using reachable_ok by (auto simp: store_ok_def rows_ok_def dest: run_of_SomeD)

lemma reachable_distinct: "reachable R P n db \<Longrightarrow> distinct (map br_id (db_runs db))"
  using reachable_ok by (auto simp: store_ok_def rows_ok_def)

lemma reachable_passed:
  "reachable R P n db \<Longrightarrow> run_of db i = Some r \<Longrightarrow> br_status r = RunPassed \<Longrightarrow> proven_run R P db r"
  using reachable_ok [of R P n db] by (auto simp: store_ok_def run_ok_def dest!: spec [of _ i])

subsection \<open>Leases\<close>

text \<open>A lease whose slot was leased again is dead for good.\<close>

lemma slot_in_advance:
  assumes "advances db db'" "s \<in> set (db_slots db)"
  shows "\<exists>s' \<in> set (db_slots db'). slot_step s s'"
proof -
  have l: "list_all2 slot_step (db_slots db) (db_slots db')" using assms(1) by (simp add: advances_iff)
  obtain k where k: "k < length (db_slots db)" "s = db_slots db ! k"
    using assms(2) by (auto simp: in_set_conv_nth)
  then have "slot_step s (db_slots db' ! k)" using list_all2_nthD [OF l] by simp
  moreover have "db_slots db' ! k \<in> set (db_slots db')" using k(1) list_all2_lengthD [OF l] by simp
  ultimately show ?thesis by blast
qed

lemma older_lease_stale:
  assumes adv: "advances db db'" and ok: "slots_ok db'"
    and s: "s \<in> set (db_slots db)" "sr_slot_id s = sl_slot_id lease" "sl_fencing_token lease < sr_fencing_token s"
  shows "\<not> list_ex (lease_current lease now) (db_slots db')"
proof
  assume "list_ex (lease_current lease now) (db_slots db')"
  then obtain x where x: "x \<in> set (db_slots db')" "sr_slot_id x = sl_slot_id lease"
    "sr_fencing_token x = sl_fencing_token lease"
    by (auto simp: list_ex_iff lease_current_def holds_lease_def)
  obtain s' where s': "s' \<in> set (db_slots db')" "slot_step s s'"
    using slot_in_advance [OF adv s(1)] by blast
  have "sr_slot_id s' = sr_slot_id x" using s'(2) s(2) x(2) by (simp add: slot_step_def)
  with slots_distinct [OF ok] s'(1) x(1) have "s' = x" by (metis distinct_key_eq)
  with s'(2) s(3) x(3) show False by (auto simp: slot_step_def)
qed

lemma reachable_slots_ok: "reachable R P n db \<Longrightarrow> slots_ok db"
  using reachable_ok by (auto simp: store_ok_def)

end
