(* ===== verification/Sample_Run.thy ===== *)
theory Sample_Run
  imports Run_Machine
begin

text \<open>
  One concrete candidate, from assignment to \<open>candidate.proven\<close>: a runtime and a controller policy
  in which every service is a simple function, an Acceptance Contract with an approved transcript
  fact, a forbidden claim and a hard requirement verified by a command and by an HTTP check, and
  the receipts a clean run produces.  The lemmas evaluate the validators, the proof gate and the
  store on it; the properties of the other theories are exercised on these values.
\<close>

definition sample_hash :: string where
  "sample_hash = replicate 64 (CHR ''a'')"

definition sample_runtime :: runtime where
  "sample_runtime = \<lparr>rt_sha256 = (\<lambda>_. sample_hash), rt_number = (\<lambda>_. ''0''), rt_locale_compare = cmp_of_key id,
     rt_date_parse = (\<lambda>_. None),
     rt_parse_url = (\<lambda>u. Some \<lparr>url_protocol = ''http:'', url_username = '''', url_password = '''',
        url_hostname = ''127.0.0.1'', url_pathname = drop 16 u, url_search = '''', url_hash = ''''\<rparr>),
     rt_is_datetime = (\<lambda>_. True), rt_is_uuid = (\<lambda>s. s \<noteq> []), rt_is_url = (\<lambda>_. True), rt_is_email = (\<lambda>_. True)\<rparr>"

definition sample_policy :: controller_policy where
  "sample_policy = \<lparr>pol_dockerfile_command = ''docker'', pol_bootstrap_command = ''bootstrap'',
     pol_container_command = ''container'', pol_forbidden_claims_command = (\<lambda>_. ''scan''),
     pol_preview_input_digest = (\<lambda>_. sample_hash), pol_policy_pack_version = ''v1'',
     pol_policy_pack_digest = sample_hash, pol_config_schema_digest = sample_hash,
     pol_controller_config_digest = sample_hash, pol_controller_rules_digest = sample_hash,
     pol_tool_policy_digest = sample_hash, pol_event_schema_digest = sample_hash,
     pol_doctor_digest = sample_hash, pol_required_review_flags = [''--agent''],
     pol_handshake_review_flags = [''--agent''],
     pol_supported_event_kinds = [''review_context'', ''status'', ''heartbeat'', ''finding'', ''complete'', ''error''],
     pol_configured_tools = [],
     pol_classify_finding = (\<lambda>f. \<lparr>fc_category = ''code-quality'', fc_governing_invariant = ''quality'',
        fc_severity = SevMinor, fc_rule_id = None\<rparr>)\<rparr>"

definition sample_contract :: acceptance_contract where
  "sample_contract = \<lparr>ac_contract_revision = 1, ac_contract_id = ''contract-1'', ac_project_id = ''project-1'',
     ac_transcript_sha = sample_hash, ac_approved_at = ''t0'',
     ac_approved_facts = [\<lparr>af_id = ''fact-1'', af_statement = ''Open daily'',
        af_sources = [TranscriptSource sample_hash 0 4 ''Open'' sample_hash]\<rparr>],
     ac_forbidden_claims = [''Best in town''],
     ac_requirements = [\<lparr>rq_id = ''req-1'', rq_description = ''Shop page'', rq_priority = Hard,
        rq_verifiers = [CommandVerifier ''check'' 60, HttpVerifier ''/shop'' 200 [''Open'']]\<rparr>],
     ac_verification = \<lparr>vp_build_command = ''build'', vp_test_commands = [''test''],
        vp_preview_command = ''preview'', vp_preview_port = 3000\<rparr>\<rparr>"

definition sample_assignment :: build_assignment where
  "sample_assignment = \<lparr>ba_assignment_id = ''assignment-1'', ba_project_id = ''project-1'',
     ba_candidate_id = ''candidate-1'', ba_requested_at = ''t0'', ba_strategy_label = ''classic'',
     ba_build_prompt = ''Build it'', ba_transcript_content = ''Open daily'', ba_transcript_sha = sample_hash,
     ba_contract = sample_contract,
     ba_sandbox = \<lparr>sb_language = ''typescript'', sb_snapshot = None, sb_auto_stop = 60, sb_auto_archive = 60\<rparr>,
     ba_limits = \<lparr>lm_max_agent_steps = 10, lm_max_repair_rounds = 1, lm_wall_clock_seconds = 600,
        lm_max_tool_output_bytes = 4096\<rparr>\<rparr>"

definition sample_base :: "string \<Rightarrow> receipt_base" where
  "sample_base receiptId = \<lparr>rb_receipt_id = receiptId, rb_run_id = ''run-1'', rb_revision_hash = sample_hash,
     rb_status = EvPass, rb_started_at = ''t1'', rb_completed_at = ''t2'', rb_input_digest = sample_hash,
     rb_output_digest = sample_hash\<rparr>"

definition sample_command ::
  "string \<Rightarrow> command_kind \<Rightarrow> string \<Rightarrow> string option \<Rightarrow> nat option \<Rightarrow> nat list option \<Rightarrow> command_receipt" where
  "sample_command receiptId kind command rid i claims = \<lparr>cr_base = sample_base receiptId, cr_kind = kind,
     cr_requirement_id = rid, cr_verifier_index = i, cr_forbidden_claim_indices = claims, cr_command = command,
     cr_exit_code = Some 0, cr_stdout = '''', cr_stderr = '''', cr_stdout_truncated = False,
     cr_stderr_truncated = False, cr_duration_ms = 5\<rparr>"

definition sample_check :: "string option \<Rightarrow> nat option \<Rightarrow> string \<Rightarrow> string list \<Rightarrow> preview_check" where
  "sample_check rid i path body = \<lparr>pc_requirement_id = rid, pc_verifier_index = i, pc_discovered = False,
     pc_path = path, pc_expected_status = 200, pc_actual_status = Some 200, pc_expected_text = body,
     pc_missing_text = [], pc_forbidden_claim_indices = None, pc_visible_text_digest = Some sample_hash,
     pc_screenshots = Some [sample_hash], pc_non_html_media_type = None, pc_error = None\<rparr>"

definition sample_preview :: preview_receipt where
  "sample_preview = \<lparr>pr_base = sample_base ''r-08'',
     pr_checks = [sample_check None None ''/'' [], sample_check (Some ''req-1'') (Some 1) ''/shop'' [''Open'']]\<rparr>"

definition sample_raster :: raster_receipt where
  "sample_raster = \<lparr>ra_base = sample_base ''r-09'', ra_provider = RasterFireworks, ra_trace_id = ''trace-1'',
     ra_claim_set_digest = sample_hash, ra_fact_set_digest = sample_hash, ra_rendered_input_digest = sample_hash,
     ra_claim_indices = [0], ra_asset_count = 2, ra_workspace_asset_count = 0, ra_rendered_asset_count = 2,
     ra_aggregate_bytes = 10, ra_asset_digests = [sample_hash, sample_hash],
     ra_model_input_digests = [sample_hash, sample_hash], ra_model_digest = Some sample_hash, ra_matches = [],
     ra_unsupported = [], ra_unverified = [], ra_error_code = None\<rparr>"

definition sample_doctor :: doctor_evidence where
  "sample_doctor = \<lparr>dr_passed = 8, dr_warnings = 1, dr_failed = 0, dr_digest = sample_hash\<rparr>"

definition sample_attestation :: review_attestation where
  "sample_attestation = \<lparr>at_schema_version = 1, at_review_kind = AuthoritativeFull,
     at_capability_state = ''proof-integrated'',
     at_digests = \<lparr>ad_authority_key = sample_hash, ad_source = sample_hash, ad_contract = sample_hash,
        ad_review = sample_hash, ad_finding_set = sample_hash, ad_review_context = sample_hash,
        ad_scope = sample_hash, ad_policy_pack = sample_hash, ad_config_schema = sample_hash,
        ad_config = sample_hash, ad_rules = sample_hash, ad_policy = sample_hash, ad_tool_policy = sample_hash,
        ad_event_schema = sample_hash, ad_capability = sample_hash, ad_cli_before = sample_hash,
        ad_cli_after = sample_hash, ad_review_flags = sample_hash\<rparr>,
     at_review_context = \<lparr>rc_review_type = ''committed'', rc_current_branch = ''candidate'', rc_base_branch = ''main'',
        rc_base_commit = sample_hash, rc_working_directory_digest = sample_hash\<rparr>,
     at_scope = \<lparr>rs_review_kind = AuthoritativeFull, rs_review_type = ''committed'',
        rs_current_branch = ''candidate'', rs_base_branch = ''main'', rs_base_commit = sample_hash,
        rs_working_directory_digest = sample_hash, rs_reviewed_file_count = 3,
        rs_reviewed_files_digest = sample_hash\<rparr>,
     at_policy_pack_version = ''v1'',
     at_capability = \<lparr>ca_state = ''healthy'', ca_policy_pack_version = ''v1'', ca_policy_pack_digest = sample_hash,
        ca_cli_version = ''0.7.1'', ca_cli_executable_digest = sample_hash, ca_root_help_digest = sample_hash,
        ca_review_help_digest = sample_hash, ca_review_flags_digest = sample_hash, ca_agent_jsonl = True,
        ca_supported_event_kinds = [''review_context'', ''status'', ''heartbeat'', ''finding'', ''complete'', ''error''],
        ca_review_flags = [''--agent''], ca_authenticated = True, ca_doctor = sample_doctor,
        ca_update_policy = ''disabled-and-digest-pinned'', ca_service_connectivity = ''healthy'',
        ca_controller_config = ''supported'', ca_tool_support = ''disabled-controller-policy''\<rparr>,
     at_cli_version = ''0.7.1'', at_update_policy = ''disabled-and-digest-pinned'',
     at_authentication = ''authenticated'', at_doctor = sample_doctor, at_service_connectivity = ''healthy'',
     at_agent_jsonl = True, at_terminal_state = ''review_completed'',
     at_event_counts = \<lparr>ec_review_context = 1, ec_status = 2, ec_heartbeat = 0, ec_finding = 0,
        ec_complete = 1, ec_error = 0\<rparr>,
     at_attempts = 1, at_retry_reasons = [], at_duration_ms = 100,
     at_severity_counts = \<lparr>sc_critical = 0, sc_major = 0, sc_minor = 0, sc_trivial = 0, sc_info = 0\<rparr>,
     at_category_counts = [], at_configured_tools = [], at_observed_tools = [],
     at_tool_coverage = ''disabled-controller-policy''\<rparr>"

definition sample_review :: review_receipt where
  "sample_review = \<lparr>rv_base = sample_base ''r-10'', rv_complete = True, rv_findings = [],
     rv_policy_digest = Some sample_hash, rv_expected_policy_digest = Some sample_hash,
     rv_attestation = Some sample_attestation, rv_expected_attestation_digest = Some sample_hash\<rparr>"

definition sample_evaluation :: evaluation_receipt where
  "sample_evaluation = \<lparr>ve_base = sample_base ''r-11'', ve_provider = ''fireworks'',
     ve_trace_provider = ''braintrust'', ve_trace_id = ''trace-1'',
     ve_scores = \<lparr>bs_hard_requirements = 1, bs_supported_business_facts = 1, bs_evidence_grounding = 1,
        bs_preference_satisfaction = 1 / 2\<rparr>,
     ve_requirements = [\<lparr>re_requirement_id = ''req-1'', re_status = EvalPass, re_explanation = ''shown'',
        re_evidence_refs = [''receipt:r-07'', ''page:/shop:'' @ sample_hash]\<rparr>],
     ve_unsupported_claims = [], ve_summary = ''fine''\<rparr>"

definition sample_evidence :: "evidence_receipt list" where
  "sample_evidence =
     [CommandEv (sample_command ''r-01'' KindArtifact ''docker'' None None None),
      CommandEv (sample_command ''r-02'' KindDependencyBootstrap ''bootstrap'' None None None),
      CommandEv (sample_command ''r-03'' KindBuild ''build'' None None None),
      CommandEv (sample_command ''r-04'' KindContainerBuild ''container'' None None None),
      CommandEv (sample_command ''r-05'' KindTest ''test'' None None None),
      CommandEv (sample_command ''r-06'' KindForbiddenClaim ''scan'' None None (Some [0])),
      CommandEv (sample_command ''r-07'' KindRequirementCommand ''check'' (Some ''req-1'') (Some 0) None),
      PreviewEv sample_preview, RasterEv sample_raster, ReviewEv sample_review,
      EvaluationEv sample_evaluation]"

subsection \<open>The validators accept it\<close>

lemma sample_hash_facts [simp]:
  "sha256_text sample_hash" "length sample_hash = 64" "sample_hash \<noteq> []" "list_all is_hex sample_hash"
  by (simp_all add: sample_hash_def sha256_text_def is_hex_def in_range_def list_all_iff)

lemma sample_runtime_simps [simp]:
  "rt_sha256 sample_runtime s = sample_hash" "rt_is_datetime sample_runtime s" "rt_is_url sample_runtime s"
  "rt_is_uuid sample_runtime s = (s \<noteq> [])" "rt_locale_compare sample_runtime a b = cmp_of_key id a b"
  by (simp_all add: sample_runtime_def)

lemma sample_digest [simp]: "json_carries v \<Longrightarrow> digestJson sample_runtime v = Inr sample_hash"
  using digestJson_carries [of v sample_runtime] by auto

lemma sample_contract_ok: "AcceptanceContract_ok sample_runtime sample_contract"
  by (simp add: AcceptanceContract_ok_def contract_shape_def contract_issues_def sample_contract_def
      approved_fact_shape_def requirement_shape_def str_between_def int_between_def entity_id_def
      id_tail_def is_alnum_def is_lower_def is_upper_def is_digit_def in_range_def one_of_def
      requirement_issues_def renderedPaths_def MAX_RENDERED_ROUTE_COUNT_def http_path_ok_def
      starts_with_def sample_runtime_def)


lemma sample_assignment_ok: "BuildAssignment_ok sample_runtime sample_assignment"
  using sample_contract_ok
  by (simp add: BuildAssignment_ok_def assignment_shape_def assignment_issues_def sample_assignment_def
      str_between_def int_between_def entity_id_def id_tail_def is_alnum_def is_lower_def is_upper_def
      is_digit_def in_range_def one_of_def)
    (simp add: sample_contract_def slice_def)

lemma sample_base_ok: "receiptId \<noteq> [] \<Longrightarrow> base_shape sample_runtime (sample_base receiptId)"
  by (simp add: base_shape_def sample_base_def)

lemma sample_command_ok: "receiptId \<noteq> [] \<Longrightarrow> claims \<in> {None, Some [0]} \<Longrightarrow>
    command_shape sample_runtime (sample_command receiptId kind command rid i claims)"
  by (auto simp: command_shape_def sample_command_def sample_base_ok)

lemma sample_attestation_ok: "attestation_shape sample_attestation"
  by (simp add: attestation_shape_def sample_attestation_def attestation_digests_shape_def context_shape_def
      scope_shape_def capability_shape_def doctor_shape_def sample_doctor_def event_counts_shape_def
      severity_counts_shape_def str_between_def commit_text_def version_numbers_def is_digit_def in_range_def)

lemma sample_evidence_ok: "list_all (EvidenceReceipt_ok sample_runtime) sample_evidence"
  using sample_attestation_ok
  by (simp add: sample_evidence_def sample_command_ok)
    (simp add: preview_shape_def sample_preview_def sample_base_ok check_shape_def sample_check_def
      RasterClaimReceipt_ok_def raster_shape_def raster_issues_def sample_raster_def
      review_shape_def sample_review_def evaluation_shape_def sample_evaluation_def,
      simp add: sample_base_def)

subsection \<open>The gate passes it\<close>

lemma sample_latest:
  "latest sample_runtime k [] = None" "latest sample_runtime k [r] = Some r"
  by (simp_all add: latest_def)

lemma sample_commands:
  "concat (map command_of sample_evidence) =
     [sample_command ''r-01'' KindArtifact ''docker'' None None None,
      sample_command ''r-02'' KindDependencyBootstrap ''bootstrap'' None None None,
      sample_command ''r-03'' KindBuild ''build'' None None None,
      sample_command ''r-04'' KindContainerBuild ''container'' None None None,
      sample_command ''r-05'' KindTest ''test'' None None None,
      sample_command ''r-06'' KindForbiddenClaim ''scan'' None None (Some [0]),
      sample_command ''r-07'' KindRequirementCommand ''check'' (Some ''req-1'') (Some 0) None]"
  "concat (map preview_of sample_evidence) = [sample_preview]"
  "concat (map raster_of sample_evidence) = [sample_raster]"
  "concat (map review_of sample_evidence) = [sample_review]"
  "concat (map evaluation_of sample_evidence) = [sample_evaluation]"
  by (simp_all add: sample_evidence_def)

lemma sample_command_fields [simp]:
  "cr_kind (sample_command rc kind command rid i claims) = kind"
  "cr_command (sample_command rc kind command rid i claims) = command"
  "cr_requirement_id (sample_command rc kind command rid i claims) = rid"
  "cr_verifier_index (sample_command rc kind command rid i claims) = i"
  "cr_forbidden_claim_indices (sample_command rc kind command rid i claims) = claims"
  "command_passed (sample_command rc kind command rid i claims)"
  "cr_base (sample_command rc kind command rid i claims) = sample_base rc"
  by (simp_all add: sample_command_def command_passed_def sample_base_def)

lemma sample_base_fields [simp]:
  "rb_receipt_id (sample_base rc) = rc" "rb_run_id (sample_base rc) = ''run-1''"
  "rb_revision_hash (sample_base rc) = sample_hash" "rb_status (sample_base rc) = EvPass"
  "rb_completed_at (sample_base rc) = ''t2''" "rb_input_digest (sample_base rc) = sample_hash"
  "rb_output_digest (sample_base rc) = sample_hash"
  by (simp_all add: sample_base_def)

lemma sample_preview_latest: "latest_preview sample_runtime sample_evidence = Some sample_preview"
  and sample_evaluation_latest: "latest_evaluation sample_runtime sample_evidence = Some sample_evaluation"
  by (simp_all add: latest_preview_def latest_evaluation_def sample_commands sample_latest)

lemma sample_scan: "visual_scan sample_runtime sample_contract sample_evidence = Some sample_raster"
  by (simp add: visual_scan_def latest_raster_def sample_commands expectedIndices_def sample_contract_def
      sample_raster_def list_all_iff sample_latest)

lemma sample_command_reasons:
  "dockerfile_reasons sample_runtime sample_policy sample_evidence = []"
  "bootstrap_reasons sample_runtime sample_policy sample_evidence = []"
  "build_reasons sample_runtime sample_contract sample_evidence = []"
  "container_reasons sample_runtime sample_policy sample_evidence = []"
  "test_reasons sample_runtime sample_evidence ''test'' = []"
  "forbidden_scan_reasons sample_runtime sample_policy sample_contract sample_evidence = []"
  by (simp_all add: dockerfile_reasons_def bootstrap_reasons_def build_reasons_def container_reasons_def
      test_reasons_def forbidden_scan_reasons_def latest_command_def sample_commands sample_latest
      sample_policy_def sample_contract_def expectedIndices_def)

lemma check_json_carries [simp]: "json_carries (check_json k)"
  by (auto simp: check_json_def opt_json_def opt_nat_json_def strings_json_def list_all_iff split: option.splits)

lemma sample_preview_reasons:
  "visual_reasons (Some sample_raster) = []"
  "preview_reasons sample_runtime sample_policy sample_contract (Some sample_preview) = []"
  "raster_binding_reasons sample_runtime (Some sample_raster) (Some sample_preview) = []"
  "root_check_reasons (Some sample_preview) = []" "routes_reasons sample_contract (Some sample_preview) = []"
  by (simp_all add: visual_reasons_def preview_reasons_def raster_binding_reasons_def root_check_reasons_def
      routes_reasons_def previewRenderedRasterInput_def sample_raster_def sample_preview_def sample_check_def
      sample_policy_def list_all_iff order_by_def cmp_of_key_def entry_json_def strings_json_def
      is_root_check_def rendered_ok_def hasScreenshotTileDigests_def requestedPaths_def renderedPaths_def
      sample_contract_def)


lemma receipt_json_carries [simp]:
  "json_carries (finding_json f)" "json_carries (doctor_json d)" "json_carries (context_json x)"
  "json_carries (scope_json sc)" "json_carries (capability_json k)" "json_carries (severity_counts_json n)"
  "json_carries (strings_json ss)" "json_carries (attestation_json a)"
  by (auto simp: finding_json_def doctor_json_def context_json_def scope_json_def capability_json_def
      severity_counts_json_def strings_json_def attestation_json_def category_counts_json_def
      event_counts_json_def nat_json_def opt_json_def opt_nat_json_def list_all_iff Let_def split: option.splits)

lemma sample_attestation_reasons:
  "codeRabbitAttestationFailures sample_runtime sample_policy sample_contract sample_hash sample_review = []"
proof -
  have "source_reasons sample_runtime sample_contract sample_hash sample_review sample_attestation = []"
    by (simp add: source_reasons_def Let_def list_all_iff, simp add: sample_attestation_def sample_review_def)
  moreover have "policy_reasons sample_policy sample_review sample_attestation = []"
    by (simp add: policy_reasons_def Let_def sample_policy_def sample_attestation_def sample_review_def)
  moreover have "capability_reasons sample_runtime sample_policy sample_attestation = []"
    by (simp add: capability_reasons_def Let_def, simp add: sample_policy_def sample_attestation_def
        parseCodeRabbitVersion_def version_numbers_def is_digit_def in_range_def digit_value_def
        isSupportedCodeRabbitVersion_def)
  moreover have "session_reasons sample_policy sample_review sample_attestation = []"
    by (simp add: session_reasons_def Let_def sample_policy_def sample_attestation_def sample_review_def sample_doctor_def)
  moreover have "finding_reasons sample_runtime sample_policy sample_review sample_attestation = []"
    by (simp add: finding_reasons_def Let_def sample_policy_def sample_attestation_def sample_review_def
        expectedSeverityCounts_def count_severity_def normalizedCategoryCounts_def finding_categories_def order_by_def)
  moreover have "rv_attestation sample_review = Some sample_attestation"
    "rv_expected_attestation_digest sample_review = Some sample_hash"
    by (simp_all add: sample_review_def)
  ultimately show ?thesis
    by (simp add: codeRabbitAttestationFailures_def sample_attestation_ok)
qed

lemma sample_review_reasons:
  "review_reasons sample_runtime sample_policy sample_contract sample_hash sample_evidence = []"
proof -
  have f: "rv_attestation sample_review = Some sample_attestation" "at_review_kind sample_attestation = AuthoritativeFull"
    by (simp_all add: sample_review_def sample_attestation_def)
  then have full: "authoritative_reviews sample_evidence = [sample_review]"
    by (simp add: authoritative_reviews_def sample_commands)
  have "review_body_reasons sample_runtime sample_policy sample_contract sample_hash sample_review = []"
    by (simp add: review_body_reasons_def sample_attestation_reasons)
      (simp add: sample_review_def count_severity_def Let_def)
  then show ?thesis by (simp add: review_reasons_def full sample_commands Let_def f)
qed

lemma sample_evaluation_reasons:
  "evaluation_reasons (Some sample_evaluation) = []"
  "concat (map (hard_requirement_reasons sample_runtime sample_evidence (Some sample_preview)
     (Some sample_evaluation)) (ac_requirements sample_contract)) = []"
proof -
  show "evaluation_reasons (Some sample_evaluation) = []"
    by (simp add: evaluation_reasons_def sample_evaluation_def)
  show "concat (map (hard_requirement_reasons sample_runtime sample_evidence (Some sample_preview)
     (Some sample_evaluation)) (ac_requirements sample_contract)) = []"
    by (simp add: sample_contract_def hard_requirement_reasons_def evaluation_for_def sample_evaluation_def
        command_verifier_reasons_def latest_command_def sample_commands sample_latest uncited_def Let_def
        http_verifier_reasons_def sample_preview_def sample_check_def http_check_failed_def hasScreenshotTileDigests_def)
qed

lemma sample_for_revision [simp]: "for_revision sample_hash sample_evidence = sample_evidence"
  by (simp add: for_revision_def sample_evidence_def sample_preview_def sample_raster_def sample_review_def
      sample_evaluation_def)

lemma sample_runs: "receipt_run ` set sample_evidence = {''run-1''}"
  by (simp add: sample_evidence_def sample_preview_def sample_raster_def sample_review_def sample_evaluation_def)

lemma sample_gate_reasons:
  "gate_reasons sample_runtime sample_policy sample_contract sample_hash sample_evidence = []"
proof -
  have t: "vp_test_commands (ac_verification sample_contract) = [''test'']" by (simp add: sample_contract_def)
  show ?thesis
    unfolding gate_reasons_def Let_def sample_preview_latest sample_evaluation_latest sample_scan
      sample_command_reasons sample_preview_reasons sample_review_reasons sample_evaluation_reasons
    by (simp add: t sample_command_reasons run_identity_reasons_def sample_runs)
qed

lemma sample_decision: "pd_passed (decideProof sample_runtime sample_policy sample_contract sample_hash sample_evidence)"
  by (simp add: decideProof_passed sample_gate_reasons)


subsection \<open>The store takes it to \<open>candidate.proven\<close>\<close>

text \<open>All clock readings are 0 and the lease lasts a second.\<close>

definition sample_db ::
  "run_row \<Rightarrow> slot_row list \<Rightarrow> evidence_receipt list \<Rightarrow> proven_artifact list \<Rightarrow> outbox_event list
    \<Rightarrow> run_event list \<Rightarrow> nat \<Rightarrow> run_db" where
  "sample_db row ss es as ob evs n = \<lparr>db_contracts = [(sample_hash, sample_contract)], db_runs = [row],
     db_events = evs, db_last_sequence = n, db_evidence = es, db_slots = ss, db_artifacts = as, db_outbox = ob\<rparr>"

definition sample_reach ::
  "run_row \<Rightarrow> slot_row list \<Rightarrow> evidence_receipt list \<Rightarrow> proven_artifact list \<Rightarrow> outbox_event list \<Rightarrow> bool" where
  "sample_reach row ss es as ob \<longleftrightarrow>
     (\<exists>evs n. reachable sample_runtime sample_policy 4 (sample_db row ss es as ob evs n))"

definition sample_lease :: slot_lease where
  "sample_lease = \<lparr>sl_slot_id = 1, sl_run_id = ''run-1'', sl_fencing_token = 1, sl_expires_at = 1000\<rparr>"

definition sample_slots :: "slot_row list" where
  "sample_slots = \<lparr>sr_slot_id = 1, sr_run_id = Some ''run-1'', sr_fencing_token = 1, sr_heartbeat_at = Some 0,
     sr_expires_at = Some 1000\<rparr> # map free_slot [2, 3, 4]"

definition sample_queued :: run_row where
  "sample_queued = queued_row ''run-1'' sample_assignment sample_hash sample_hash 0"

definition sample_running :: run_row where
  "sample_running = sample_queued\<lparr>br_status := RunRunning, br_stage := StageProvisioning, br_slot_id := Some 1,
     br_fencing_token := Some 1\<rparr>"

definition sample_promoted :: run_row where
  "sample_promoted = sample_running\<lparr>br_builder_sandbox_id := Some ''sb-1'', br_verification_sandbox_id := Some ''sb-2'',
     br_verification_purpose := Some PurposeDelivery, br_sandbox_id := Some ''sb-2'',
     br_revision_hash := Some sample_hash, br_preview_port := Some 3000\<rparr>"

definition sample_artifact :: proven_artifact where
  "sample_artifact = \<lparr>pa_artifact_id = ''art-1'', pa_run_id = ''run-1'', pa_revision_hash = sample_hash,
     pa_uri = artifactDownloadPath ''run-1'' ''art-1'', pa_sha256 = sample_hash, pa_size_bytes = 9,
     pa_daytona_snapshot = ''snap'', pa_created_at = ''t3''\<rparr>"

lemma appendEvent_carries:
  "json_carries p \<Longrightarrow> run_of db i \<noteq> None \<Longrightarrow> \<exists>x. appendEvent i ty st p t db =
     Inr (db\<lparr>db_events := db_events db @ [x], db_last_sequence := Suc (db_last_sequence db)\<rparr>)"
  using normalize_is_ok [of "redactValue p"] redactValue_json_carries [of p]
  by (auto simp: appendEvent_def is_ok_iff)

lemma sample_db_run [simp]:
  "run_of (sample_db row ss es as ob evs n) i = (if br_id row = i then Some row else None)"
  by (simp add: run_of_def sample_db_def)

lemma sample_append:
  assumes "json_carries p" "br_id row = ''run-1''"
  shows "\<exists>x. appendEvent ''run-1'' ty st p t (sample_db row ss es as ob evs n) =
    Inr (sample_db row ss es as ob (evs @ [x]) (Suc n))"
proof -
  let ?d = "sample_db row ss es as ob evs n"
  have "run_of ?d ''run-1'' \<noteq> None" using assms(2) by simp
  then obtain x where x: "appendEvent ''run-1'' ty st p t ?d =
      Inr (?d\<lparr>db_events := db_events ?d @ [x], db_last_sequence := Suc (db_last_sequence ?d)\<rparr>)"
    using appendEvent_carries [OF assms(1)] by blast
  show ?thesis by (rule exI [of _ x], subst x) (simp add: sample_db_def)
qed

lemma sample_log:
  assumes "json_carries p" "br_id row = ''run-1''" "br_id (f row) = ''run-1''"
  shows "\<exists>x. update_and_log ''run-1'' f ty st p t (sample_db row ss es as ob evs n) =
    Inr (rowToRun (f row), sample_db (f row) ss es as ob (evs @ [x]) (Suc n))"
proof -
  have u: "update_run ''run-1'' f (sample_db row ss es as ob evs n) = sample_db (f row) ss es as ob evs n"
    using assms(2) by (simp add: update_run_def sample_db_def)
  obtain x where x: "appendEvent ''run-1'' ty st p t (sample_db (f row) ss es as ob evs n) =
      Inr (sample_db (f row) ss es as ob (evs @ [x]) (Suc n))"
    using sample_append [OF assms(1,3)] by blast
  then show ?thesis using assms(3) by (auto simp: update_and_log_def u x requireRun_def getRun_def)
qed

lemma sample_active:
  "br_id row = ''run-1'' \<Longrightarrow> br_status row = RunRunning \<Longrightarrow>
    assertActiveRun ''run-1'' sample_lease 0 (sample_db row sample_slots es as ob evs n) = Inr (rowToRun row)"
  by (simp add: assertActiveRun_Inr) (simp add: sample_db_def sample_slots_def sample_lease_def lease_current_def holds_lease_def)

lemma sample_create:
  "\<exists>x. createRun sample_runtime (\<lambda>_. 0) ''run-1'' sample_assignment empty_db =
      Inr (\<lparr>crr_run = rowToRun sample_queued, crr_created = True\<rparr>,
        sample_db sample_queued (map free_slot [1, 2, 3, 4]) [] [] [] [x] 1)"
proof -
  let ?d = "sample_db sample_queued (map free_slot [1, 2, 3, 4]) [] [] [] [] 0"
  let ?p = "JObject [(''assignmentId'', jstr (ba_assignment_id sample_assignment)),
                     (''candidateId'', jstr (ba_candidate_id sample_assignment)), (''contractHash'', jstr sample_hash)]"
  have id: "br_id sample_queued = ''run-1''" by (simp add: sample_queued_def queued_row_def)
  have a: "ac_transcript_sha (ba_contract sample_assignment) = sample_hash" "ba_contract sample_assignment = sample_contract"
    by (simp_all add: sample_assignment_def sample_contract_def)
  have ins: "insert_run (queued_row ''run-1'' sample_assignment sample_hash sample_hash 0)
      (insert_contract sample_hash (ba_contract sample_assignment) empty_db) = Inr ?d"
    using a by (simp add: insert_run_def insert_contract_def empty_db_def sample_db_def sample_queued_def queued_row_def)
  have jc: "json_carries ?p" by (simp add: list_all_iff)
  obtain x where x: "appendEvent ''run-1'' ''run.queued'' StageQueued ?p 0 ?d =
      Inr (sample_db sample_queued (map free_slot [1, 2, 3, 4]) [] [] [] ([] @ [x]) (Suc 0))"
    using sample_append [OF jc id] by blast
  have e: "db_runs empty_db = []" by (simp add: empty_db_def)
  have dg: "assignmentDigest sample_runtime sample_assignment = Inr sample_hash"
    "contractDigest sample_runtime (ba_contract sample_assignment) = Inr sample_hash"
    by (simp_all add: assignmentDigest_def contractDigest_def)
  have "createRun sample_runtime (\<lambda>_. 0) ''run-1'' sample_assignment empty_db =
      Inr (\<lparr>crr_run = rowToRun sample_queued, crr_created = True\<rparr>,
        sample_db sample_queued (map free_slot [1, 2, 3, 4]) [] [] [] [x] 1)"
    using x by (simp add: createRun_def sample_assignment_ok dg lift_json_def ins e requireRun_def getRun_def id)
  then show ?thesis by blast
qed

lemma sample_created: "sample_reach sample_queued (map free_slot [1, 2, 3, 4]) [] [] []"
  using sample_create unfolding sample_reach_def by (meson reachable_empty reachable_step store_step.createRun)


lemma sample_queued_fields:
  "br_id sample_queued = ''run-1''" "br_status sample_queued = RunQueued" "\<not> br_cancel_requested sample_queued"
  by (simp_all add: sample_queued_def queued_row_def)

lemma sample_acquire:
  "acquireSlot 4 (\<lambda>_. 0) ''run-1'' 1000 (sample_db sample_queued (map free_slot [1, 2, 3, 4]) [] [] [] evs n)
    = Inr (Some sample_lease, sample_db sample_queued sample_slots [] [] [] evs n)"
  by (simp add: acquireSlot_def requireRun_def getRun_def sample_queued_fields Let_def first_free_slot_def
      order_by_def cmp_of_key_def sample_lease_def)
    (simp add: sample_db_def sample_slots_def free_slot_def slot_free_def cmp_of_key_def lease_row_def
      truthy_def Let_def)

lemma sample_acquired: "sample_reach sample_queued sample_slots [] [] []"
  using sample_created sample_acquire unfolding sample_reach_def by (meson reachable_step store_step.acquireSlot)

text \<open>One logged update of the running run.\<close>

lemma sample_reach_log:
  assumes "sample_reach row ss es as ob" "br_id row = ''run-1''" "br_id (f row) = ''run-1''" "json_carries p"
    and step: "\<And>evs n x db'. update_and_log ''run-1'' f ty st p 0 (sample_db row ss es as ob evs n) = Inr (x, db')
      \<Longrightarrow> store_step sample_runtime sample_policy 4 (sample_db row ss es as ob evs n) db'"
  shows "sample_reach (f row) ss es as ob"
proof -
  from assms(1) obtain evs n where r: "reachable sample_runtime sample_policy 4 (sample_db row ss es as ob evs n)"
    by (auto simp: sample_reach_def)
  obtain x where "update_and_log ''run-1'' f ty st p 0 (sample_db row ss es as ob evs n) =
      Inr (rowToRun (f row), sample_db (f row) ss es as ob (evs @ [x]) (Suc n))"
    using sample_log [of p row f, OF assms(4,2,3)] by blast
  with step r show ?thesis unfolding sample_reach_def by (meson reachable_step)
qed

lemma sample_started: "sample_reach sample_running sample_slots [] [] []"
proof -
  let ?f = "\<lambda>r. r\<lparr>br_status := RunRunning, br_stage := StageProvisioning, br_slot_id := Some (sl_slot_id sample_lease),
    br_fencing_token := Some (sl_fencing_token sample_lease), br_updated_at := 0\<rparr>"
  let ?p = "JObject [(''slotId'', jnat (sl_slot_id sample_lease)), (''fencingToken'', jnat (sl_fencing_token sample_lease))]"
  have "sample_reach (?f sample_queued) sample_slots [] [] []"
  proof (rule sample_reach_log [OF sample_acquired])
    fix evs n x db'
    let ?d = "sample_db sample_queued sample_slots [] [] [] evs n"
    assume u: "update_and_log ''run-1'' ?f ''run.started'' StageProvisioning ?p 0 ?d = Inr (x, db')"
    have "assertLease ''run-1'' sample_lease 0 ?d = Inr ()"
      by (simp add: assertLease_def sample_db_def sample_slots_def sample_lease_def lease_current_def holds_lease_def)
    then have "startRun (\<lambda>_. 0) ''run-1'' sample_lease ?d = Inr (x, db')"
      using u by (simp add: startRun_def requireRun_def getRun_def sample_queued_fields)
    then show "store_step sample_runtime sample_policy 4 ?d db'" by (rule store_step.startRun)
  qed (simp_all add: sample_queued_fields list_all_iff)
  moreover have "?f sample_queued = sample_running"
    by (simp add: sample_running_def sample_queued_def queued_row_def sample_lease_def)
  ultimately show ?thesis by simp
qed

lemma sample_running_fields:
  "br_id sample_running = ''run-1''" "br_status sample_running = RunRunning"
  "br_builder_sandbox_id sample_running = None"
  by (simp_all add: sample_running_def sample_queued_def queued_row_def)

lemma sample_attached:
  "sample_reach (sample_running\<lparr>br_sandbox_id := Some ''sb-1'', br_builder_sandbox_id := Some ''sb-1'',
     br_updated_at := 0\<rparr>) sample_slots [] [] []"
proof (rule sample_reach_log [OF sample_started])
  fix evs n x db'
  let ?d = "sample_db sample_running sample_slots [] [] [] evs n"
  assume u: "update_and_log ''run-1'' (\<lambda>r. r\<lparr>br_sandbox_id := Some ''sb-1'', br_builder_sandbox_id := Some ''sb-1'',
     br_updated_at := 0\<rparr>) ''sandbox.builder_attached'' (br_stage sample_running)
     (JObject [(''sandboxId'', jstr ''sb-1'')]) 0 ?d = Inr (x, db')"
  then have "attachSandbox (\<lambda>_. 0) ''run-1'' sample_lease ''sb-1'' ?d = Inr (x, db')"
    using sample_active [of sample_running] by (simp add: attachSandbox_def sample_running_fields)
  then show "store_step sample_runtime sample_policy 4 ?d db'" by (rule store_step.attachSandbox)
qed (simp_all add: sample_running_fields)

lemma sample_verifying:
  "sample_reach (sample_running\<lparr>br_sandbox_id := Some ''sb-1'', br_builder_sandbox_id := Some ''sb-1'',
     br_verification_sandbox_id := Some ''sb-2'', br_verification_purpose := Some PurposeDelivery,
     br_updated_at := 0\<rparr>) sample_slots [] [] []" (is "sample_reach ?goal _ _ _ _")
proof -
  let ?row = "sample_running\<lparr>br_sandbox_id := Some ''sb-1'', br_builder_sandbox_id := Some ''sb-1'', br_updated_at := 0\<rparr>"
  let ?f = "\<lambda>r. r\<lparr>br_verification_sandbox_id := Some ''sb-2'', br_verification_purpose := Some PurposeDelivery,
     br_updated_at := 0\<rparr>"
  have "sample_reach (?f ?row) sample_slots [] [] []"
  proof (rule sample_reach_log [OF sample_attached])
    fix evs n x db'
    let ?d = "sample_db ?row sample_slots [] [] [] evs n"
    assume u: "update_and_log ''run-1'' ?f ''sandbox.verification_attached'' (br_stage ?row)
       (JObject [(''sandboxId'', jstr ''sb-2''), (''purpose'', jstr (purpose_text PurposeDelivery))]) 0 ?d = Inr (x, db')"
    then have "attachVerificationSandbox (\<lambda>_. 0) ''run-1'' sample_lease ''sb-2'' PurposeDelivery ?d = Inr (x, db')"
      using sample_active [of ?row] by (simp add: attachVerificationSandbox_def sample_running_fields)
    then show "store_step sample_runtime sample_policy 4 ?d db'" by (rule store_step.attachVerificationSandbox)
  qed (simp_all add: sample_running_fields)
  then show ?thesis by simp
qed


lemma sample_promotion: "sample_reach sample_promoted sample_slots [] [] []"
proof -
  let ?row = "sample_running\<lparr>br_sandbox_id := Some ''sb-1'', br_builder_sandbox_id := Some ''sb-1'',
     br_verification_sandbox_id := Some ''sb-2'', br_verification_purpose := Some PurposeDelivery,
     br_updated_at := 0\<rparr>"
  let ?f = "\<lambda>r. r\<lparr>br_sandbox_id := Some ''sb-2'', br_updated_at := 0\<rparr>"
  let ?g = "\<lambda>r. r\<lparr>br_revision_hash := Some sample_hash, br_preview_port := Some 3000, br_updated_at := 0\<rparr>"
  have promoted: "sample_reach (?f ?row) sample_slots [] [] []"
  proof (rule sample_reach_log [OF sample_verifying])
    fix evs n x db'
    let ?d = "sample_db ?row sample_slots [] [] [] evs n"
    assume u: "update_and_log ''run-1'' ?f ''sandbox.verification_promoted'' (br_stage ?row)
       (JObject [(''sandboxId'', jstr ''sb-2'')]) 0 ?d = Inr (x, db')"
    then have "promoteVerificationSandbox (\<lambda>_. 0) ''run-1'' sample_lease ''sb-2'' ?d = Inr (x, db')"
      using sample_active [of ?row] by (simp add: promoteVerificationSandbox_def sample_running_fields)
    then show "store_step sample_runtime sample_policy 4 ?d db'" by (rule store_step.promoteVerificationSandbox)
  qed (simp_all add: sample_running_fields)
  have "sample_reach (?g (?f ?row)) sample_slots [] [] []"
  proof (rule sample_reach_log [OF promoted])
    fix evs n x db'
    let ?d = "sample_db (?f ?row) sample_slots [] [] [] evs n"
    assume u: "update_and_log ''run-1'' ?g ''revision.frozen'' (br_stage (?f ?row))
       (JObject [(''revisionHash'', jstr sample_hash), (''previewPort'', jint 3000)]) 0 ?d = Inr (x, db')"
    then have "setRevision (\<lambda>_. 0) ''run-1'' sample_lease sample_hash 3000 ?d = Inr (x, db')"
      using sample_active [of "?f ?row"] by (simp add: setRevision_def sample_running_fields int_between_def)
    then show "store_step sample_runtime sample_policy 4 ?d db'" by (rule store_step.setRevision)
  qed (simp_all add: sample_running_fields)
  moreover have "?g (?f ?row) = sample_promoted"
    by (simp add: sample_promoted_def sample_running_def sample_queued_def queued_row_def)
  ultimately show ?thesis by simp
qed

lemma sample_promoted_fields:
  "br_id sample_promoted = ''run-1''" "br_status sample_promoted = RunRunning"
  "br_revision_hash sample_promoted = Some sample_hash" "\<not> br_cancel_requested sample_promoted"
  "br_sandbox_id sample_promoted = Some ''sb-2''" "br_builder_sandbox_id sample_promoted = Some ''sb-1''"
  "br_verification_sandbox_id sample_promoted = Some ''sb-2''"
  "br_verification_purpose sample_promoted = Some PurposeDelivery" "br_preview_port sample_promoted = Some 3000"
  "rw_assignment sample_promoted = sample_assignment" "br_project_id sample_promoted = ''project-1''"
  "br_candidate_id sample_promoted = ''candidate-1''" "br_contract_hash sample_promoted = sample_hash"
  by (simp_all add: sample_promoted_def sample_running_def sample_queued_def queued_row_def sample_assignment_def)

lemma sample_one_receipt:
  assumes "sample_reach sample_promoted sample_slots es [] []" "EvidenceReceipt_ok sample_runtime rc"
    and "receipt_run rc = ''run-1''" "receipt_revision rc = sample_hash"
    and "rb_receipt_id (receipt_header rc) \<notin> (rb_receipt_id \<circ> receipt_header) ` set es"
  shows "sample_reach sample_promoted sample_slots (es @ [rc]) [] []"
proof -
  from assms(1) obtain evs n where r: "reachable sample_runtime sample_policy 4 (sample_db sample_promoted sample_slots es [] [] evs n)"
    by (auto simp: sample_reach_def)
  let ?d = "sample_db sample_promoted sample_slots es [] [] evs n"
  let ?h = "receipt_header rc"
  let ?p = "JObject [(''receiptId'', jstr (rb_receipt_id ?h)), (''revisionHash'', jstr (rb_revision_hash ?h)),
                 (''kind'', jstr (receipt_kind_text rc)), (''status'', jstr (status_text (rb_status ?h)))]"
  have jc: "json_carries ?p" by simp
  obtain x where x: "appendEvent ''run-1'' ''evidence.recorded'' (br_stage sample_promoted) ?p 0
      (sample_db sample_promoted sample_slots (es @ [rc]) [] [] evs n)
      = Inr (sample_db sample_promoted sample_slots (es @ [rc]) [] [] (evs @ [x]) (Suc n))"
    using sample_append [OF jc sample_promoted_fields(1)] by blast
  have ins: "?d\<lparr>db_evidence := db_evidence ?d @ [rc]\<rparr> = sample_db sample_promoted sample_slots (es @ [rc]) [] [] evs n"
    and ev: "db_evidence ?d = es"
    by (simp_all add: sample_db_def)
  have "addEvidence sample_runtime (\<lambda>_. 0) ''run-1'' sample_lease rc ?d
      = Inr (sample_db sample_promoted sample_slots (es @ [rc]) [] [] (evs @ [x]) (Suc n))"
    using assms(2-5) x ins sample_active [of sample_promoted]
    by (simp add: addEvidence_def Let_def sample_promoted_fields ev)
  then show ?thesis
    using r unfolding sample_reach_def by (meson reachable_step store_step.addEvidence)
qed

lemma sample_receipts:
  "sample_reach sample_promoted sample_slots es [] [] \<Longrightarrow> list_all (EvidenceReceipt_ok sample_runtime) rs \<Longrightarrow>
    list_all (\<lambda>rc. receipt_run rc = ''run-1'' \<and> receipt_revision rc = sample_hash) rs \<Longrightarrow>
    distinct (map (rb_receipt_id \<circ> receipt_header) (es @ rs)) \<Longrightarrow>
    sample_reach sample_promoted sample_slots (es @ rs) [] []"
proof (induction rs arbitrary: es)
  case (Cons rc rs)
  have "sample_reach sample_promoted sample_slots (es @ [rc]) [] []"
    by (rule sample_one_receipt) (use Cons.prems in \<open>auto simp: image_iff\<close>)
  from Cons.IH [OF this] Cons.prems show ?case by simp
qed simp

lemma sample_evidence_stored: "sample_reach sample_promoted sample_slots sample_evidence [] []"
proof -
  have f: "list_all (\<lambda>rc. receipt_run rc = ''run-1'' \<and> receipt_revision rc = sample_hash) sample_evidence"
    "distinct (map (rb_receipt_id \<circ> receipt_header) ([] @ sample_evidence))"
    by (simp_all add: sample_evidence_def sample_preview_def sample_raster_def sample_review_def sample_evaluation_def)
  show ?thesis
    using sample_receipts [OF sample_promotion sample_evidence_ok f] by simp
qed

lemma sample_artifact_ok: "ProvenArtifact_ok sample_runtime sample_artifact"
  by (simp add: ProvenArtifact_ok_def artifact_shape_def artifact_issues_def sample_artifact_def
      artifactDownloadPath_def starts_with_def str_between_def)

lemma sample_archived: "sample_reach sample_promoted sample_slots sample_evidence [sample_artifact] []"
proof -
  from sample_evidence_stored obtain evs n where
    r: "reachable sample_runtime sample_policy 4 (sample_db sample_promoted sample_slots sample_evidence [] [] evs n)"
    by (auto simp: sample_reach_def)
  let ?d = "sample_db sample_promoted sample_slots sample_evidence [] [] evs n"
  let ?p = "JObject [(''artifactId'', jstr (pa_artifact_id sample_artifact)),
                 (''revisionHash'', jstr (pa_revision_hash sample_artifact)),
                 (''sha256'', jstr (pa_sha256 sample_artifact)), (''sizeBytes'', jint (pa_size_bytes sample_artifact))]"
  have jc: "json_carries ?p" by simp
  obtain x where x: "appendEvent ''run-1'' ''artifact.recorded'' (br_stage sample_promoted) ?p 0
      (sample_db sample_promoted sample_slots sample_evidence [sample_artifact] [] evs n)
      = Inr (sample_db sample_promoted sample_slots sample_evidence [sample_artifact] [] (evs @ [x]) (Suc n))"
    using sample_append [OF jc sample_promoted_fields(1)] by blast
  have ins: "?d\<lparr>db_artifacts := db_artifacts ?d @ [sample_artifact]\<rparr>
      = sample_db sample_promoted sample_slots sample_evidence [sample_artifact] [] evs n"
    and as: "db_artifacts ?d = []" by (simp_all add: sample_db_def)
  have "pa_run_id sample_artifact = ''run-1''" "pa_revision_hash sample_artifact = sample_hash"
    by (simp_all add: sample_artifact_def)
  then have "recordArtifact sample_runtime (\<lambda>_. 0) ''run-1'' sample_lease sample_artifact ?d
      = Inr (sample_db sample_promoted sample_slots sample_evidence [sample_artifact] [] (evs @ [x]) (Suc n))"
    using x ins sample_active [of sample_promoted]
    by (simp add: recordArtifact_def sample_artifact_ok sample_promoted_fields as)
  then show ?thesis
    using r unfolding sample_reach_def by (meson reachable_step store_step.recordArtifact)
qed


lemma sample_listEvidence:
  "listEvidence ''run-1'' (sample_db row ss sample_evidence as ob evs n) = sample_evidence"
proof -
  have run: "\<forall>rc \<in> set sample_evidence. receipt_run rc = ''run-1''" using sample_runs by auto
  have "evidence_of (sample_db row ss sample_evidence as ob evs n) ''run-1'' = filter (\<lambda>rc. receipt_run rc = ''run-1'') sample_evidence"
    by (simp add: evidence_of_def sample_db_def)
  also have "\<dots> = sample_evidence" using run by (simp add: filter_True)
  finally have ev: "evidence_of (sample_db row ss sample_evidence as ob evs n) ''run-1'' = sample_evidence" .
  have "sorted (map (\<lambda>r. (rb_completed_at (receipt_header r), rb_receipt_id (receipt_header r))) sample_evidence)"
    by (simp add: sample_evidence_def sample_preview_def sample_raster_def sample_review_def sample_evaluation_def)
  then show ?thesis by (simp add: listEvidence_def ev order_by_sorted_id)
qed

definition sample_ranking :: candidate_ranking where
  "sample_ranking = \<lparr>rk_preference_satisfaction = 1 / 2, rk_score_tuple = [1 / 2], rk_trace_id = ''trace-1''\<rparr>"

definition sample_payload :: candidate_proven_payload where
  "sample_payload = proven_payload (rowToRun sample_promoted) ''run-1'' sample_hash sample_artifact ''trace-1'' sample_ranking"

definition sample_event :: outbox_event where
  "sample_event = \<lparr>ob_event_id = ''event-1'', ob_type = ''candidate.proven'', ob_run_id = ''run-1'',
     ob_revision_hash = sample_hash, ob_trace_id = ''trace-1'', ob_payload = sample_payload,
     ob_created_at = 0, ob_published_at = None\<rparr>"

abbreviation sample_before :: "run_event list \<Rightarrow> nat \<Rightarrow> run_db" where
  "sample_before evs n \<equiv> sample_db sample_promoted sample_slots sample_evidence [sample_artifact] [] evs n"

abbreviation sample_after :: "run_event list \<Rightarrow> nat \<Rightarrow> run_db" where
  "sample_after evs n \<equiv>
     sample_db (passed_row 0 sample_promoted) sample_slots sample_evidence [sample_artifact] [sample_event] evs n"

lemma sample_recorded: "getRecordedArtifact ''run-1'' (sample_db row ss es [sample_artifact] ob evs n) = Some sample_artifact"
  by (simp add: getRecordedArtifact_def artifacts_of_def sample_db_def newest_artifact_def)
    (simp add: sample_artifact_def)

lemma sample_payload_ok: "CandidateProvenPayload_ok sample_runtime sample_payload"
  by (simp add: CandidateProvenPayload_ok_def payload_shape_def payload_issues_def sample_payload_def
      proven_payload_def sample_promoted_fields sample_artifact_ok entity_id_def id_tail_def is_alnum_def
      is_lower_def is_upper_def is_digit_def in_range_def one_of_def str_between_def int_between_def
      trace_id_shape_def CandidateRanking_ok_def ranking_shape_def ranking_issues_def sample_ranking_def)
    (simp add: sample_artifact_def)

lemma payload_json_carries [simp]: "json_carries (payload_json p)"
  by (simp add: payload_json_def artifact_json_def ranking_json_def list_all_iff)

lemma sample_rankingFor: "rankingFor sample_runtime sample_evidence ''trace-1'' = Inr sample_ranking"
  by (simp add: rankingFor_def sample_commands, simp add: sample_evaluation_def sample_latest sample_ranking_def Let_def)

lemma sample_checks:
  "passing_checks sample_runtime sample_policy ''run-1'' sample_hash (rowToRun sample_promoted) (sample_before evs n)
    = Inr sample_artifact"
proof -
  have "pa_revision_hash sample_artifact = sample_hash" "ba_contract sample_assignment = sample_contract"
    by (simp_all add: sample_artifact_def sample_assignment_def)
  then show ?thesis
    by (simp add: passing_checks_def sample_promoted_fields promoted_run_def sample_recorded getAssignment_def
        sample_listEvidence Let_def sample_decision)
qed

lemma sample_markPassed:
  "\<exists>x. markPassed sample_runtime sample_policy (\<lambda>_. 0) ''event-1'' ''run-1'' sample_lease sample_hash ''trace-1''
      (sample_before evs n) = Inr (rowToRun (passed_row 0 sample_promoted), sample_after (evs @ [x]) (Suc n))"
proof -
  have ins: "insert_outbox sample_event (sample_before evs n) =
      Inr (sample_db sample_promoted sample_slots sample_evidence [sample_artifact] [sample_event] evs n)"
    by (simp add: insert_outbox_def sample_db_def) (simp add: sample_event_def)
  have id: "br_id (passed_row 0 sample_promoted) = ''run-1''" by (simp add: passed_row_def sample_promoted_fields)
  obtain x where "update_and_log ''run-1'' (passed_row 0) ''candidate.proven'' StageComplete (payload_json sample_payload) 0
      (sample_db sample_promoted sample_slots sample_evidence [sample_artifact] [sample_event] evs n)
      = Inr (rowToRun (passed_row 0 sample_promoted), sample_after (evs @ [x]) (Suc n))"
    using sample_log [of "payload_json sample_payload" sample_promoted "passed_row 0", OF payload_json_carries
        sample_promoted_fields(1) id] by blast
  then show ?thesis
    using sample_active [OF sample_promoted_fields(1,2), of sample_evidence "[sample_artifact]" "[]" evs n]
    by (auto simp: markPassed_def sample_checks sample_listEvidence sample_rankingFor Let_def
        sample_payload_ok ins sample_payload_def [symmetric] sample_event_def [symmetric])
qed

lemma sample_passed:
  "\<exists>evs n. reachable sample_runtime sample_policy 4 (sample_after evs n)"
  using sample_archived sample_markPassed unfolding sample_reach_def
  by (meson reachable_step store_step.markPassed)

end
