(* ===== verification/Gate_Properties.thy ===== *)
theory Gate_Properties
  imports Sample_Run
begin

text \<open>
  The properties of the proof gate \<open>decideProof\<close>, each with its evaluation on the sample candidate.
\<close>

subsection \<open>Lemmas\<close>

lemma passed_gate:
  "pd_passed (decideProof R P c rv rs) \<Longrightarrow> gate_reasons R P c rv (for_revision rv rs) = []"
  by (simp add: decideProof_passed)

lemma latest_only_newest:
  assumes "consistent_cmp (rt_locale_compare R)" "x \<in> set rs"
    and "\<And>r. r \<in> set rs \<Longrightarrow> r \<noteq> x \<Longrightarrow> rt_locale_compare R (k r) (k x) < 0"
  shows "latest R k rs = Some x"
proof (cases "latest R k rs")
  case None
  then show ?thesis using assms(2) by simp
next
  case (Some l)
  have le: "rt_locale_compare R (k x) (k l) \<le> 0" by (rule latest_newest [OF assms(1) Some assms(2)])
  have "l = x"
  proof (rule ccontr)
    assume "l \<noteq> x"
    then have "rt_locale_compare R (k l) (k x) < 0" using assms(3) latest_in [OF Some] by blast
    moreover have "0 \<le> rt_locale_compare R (k l) (k x)"
      using le assms(1) unfolding consistent_cmp_def by metis
    ultimately show False by simp
  qed
  with Some show ?thesis by simp
qed

lemma review_reasons_Nil:
  assumes "review_reasons R P c rv rs = []"
  obtains review where "authoritative_reviews rs = [review]"
    "\<forall>r \<in> set (List.maps review_of rs). rv_attestation r \<noteq> None"
    "review_body_reasons R P c rv review = []"
proof (cases "authoritative_reviews rs")
  case Nil
  then show ?thesis using assms by (auto simp: review_reasons_def Let_def authoritative_reviews_def split: if_splits)
next
  case (Cons review more)
  then have "more = []" using assms by (auto simp: review_reasons_def Let_def split: if_splits)
  then show ?thesis
    using Cons that [of review] assms by (auto simp: review_reasons_def Let_def list_ex_iff split: if_splits)
qed

lemma authoritative_in:
  "review \<in> set (authoritative_reviews rs) \<Longrightarrow> ReviewEv review \<in> set rs"
  by (auto simp: authoritative_reviews_def)

lemma attestation_bound:
  assumes "codeRabbitAttestationFailures R P c rv review = []"
  obtains a d where "rv_attestation review = Some a" "rv_expected_attestation_digest review = Some d"
    "digestJson R (attestation_json a) = Inr d" "at_review_kind a = AuthoritativeFull"
    "ad_source (at_digests a) = rv" "digestJson R (contract_json c) = Inr (ad_contract (at_digests a))"
    "digestJson R (JArray (map finding_json (rv_findings review))) = Inr (ad_finding_set (at_digests a))"
    "at_terminal_state a = ''review_completed''"
proof -
  from assms obtain a where a: "rv_attestation review = Some a"
    by (auto simp: codeRabbitAttestationFailures_def split: option.splits)
  from assms obtain d where d: "truthy (rv_expected_attestation_digest review) = Some d"
    by (auto simp: codeRabbitAttestationFailures_def a split: option.splits)
  have all: "digestJson R (attestation_json a) = Inr d" "source_reasons R c rv review a = []"
    "session_reasons P review a = []"
    using assms by (auto simp: codeRabbitAttestationFailures_def a d split: if_splits)
  show ?thesis
    by (rule that [OF a _ all(1)]) (use truthy_SomeD [OF d] all(2,3) in \<open>auto simp: source_reasons_def session_reasons_def Let_def\<close>)
qed

subsection \<open>Properties\<close>



text \<open>C3. Every hard requirement of a passing decision is verified: the newest evaluation marks it
  PASS, and each of its verifiers has passing evidence of the frozen revision that the evaluation
  cites (the command's receipt, or the rendered page with its digest and screenshots).\<close>

theorem gate_hard_requirements:
  assumes "pd_passed (decideProof R P c rv rs)" and "q \<in> set (ac_requirements c)" and "rq_priority q = Hard"
  shows "\<exists>ev e. EvaluationEv ev \<in> set rs \<and> rb_revision_hash (ve_base ev) = rv
    \<and> rb_status (ve_base ev) = EvPass \<and> e \<in> set (ve_requirements ev) \<and> re_requirement_id e = rq_id q
    \<and> re_status e = EvalPass
    \<and> (\<forall>i < length (rq_verifiers q). verifier_evidence rs rv (re_evidence_refs e) (rq_id q) i (rq_verifiers q ! i))"
  by (rule hard_requirement_verified [OF passed_gate [OF assms(1)] assms(2,3)])

theorem gate_hard_requirements_witness:
  "\<exists>ev e. EvaluationEv ev \<in> set sample_evidence \<and> rb_revision_hash (ve_base ev) = sample_hash
    \<and> rb_status (ve_base ev) = EvPass \<and> e \<in> set (ve_requirements ev) \<and> re_requirement_id e = ''req-1''
    \<and> re_status e = EvalPass
    \<and> verifier_evidence sample_evidence sample_hash (re_evidence_refs e) ''req-1'' 1 (HttpVerifier ''/shop'' 200 [''Open''])"
proof -
  let ?q = "hd (ac_requirements sample_contract)"
  have q: "?q \<in> set (ac_requirements sample_contract)" "rq_priority ?q = Hard" "rq_id ?q = ''req-1''"
    "length (rq_verifiers ?q) = 2" "rq_verifiers ?q ! 1 = HttpVerifier ''/shop'' 200 [''Open'']"
    by (simp_all add: sample_contract_def)
  show ?thesis
    using gate_hard_requirements [OF sample_decision q(1,2)] q(3-5) by (metis one_less_numeral_iff semiring_norm(76))
qed

text \<open>The decision looks at nothing but the receipts of the frozen revision: evidence of any
  other revision can neither help nor hurt a candidate.\<close>

lemma gate_revision_only:
  "decideProof R P c rv rs = decideProof R P c rv (filter (\<lambda>r. receipt_revision r = rv) rs)"
  by (simp add: decideProof_def for_revision_def [symmetric])

text \<open>A newer failing build receipt blocks the candidate however many older ones passed (with a
  \<open>localeCompare\<close> that orders the completion times consistently).\<close>

lemma gate_newer_failure_blocks:
  assumes "consistent_cmp (rt_locale_compare R)"
    and "CommandEv x \<in> set rs" "rb_revision_hash (cr_base x) = rv" "cr_kind x = KindBuild"
      "cr_command x = vp_build_command (ac_verification c)" "\<not> command_passed x"
    and "\<And>y. CommandEv y \<in> set rs \<Longrightarrow> y \<noteq> x \<Longrightarrow> cr_kind y = KindBuild \<Longrightarrow>
      rt_locale_compare R (rb_completed_at (cr_base y)) (rb_completed_at (cr_base x)) < 0"
  shows "\<not> pd_passed (decideProof R P c rv rs)"
proof
  assume "pd_passed (decideProof R P c rv rs)"
  then have n: "build_reasons R c (for_revision rv rs) = []" by (intro gate_reasons_Nil(4) [of R P c rv] passed_gate)
  have "latest_command R (\<lambda>r. cr_kind r = KindBuild \<and> cr_command r = vp_build_command (ac_verification c))
      (for_revision rv rs) = Some x"
    unfolding latest_command_def by (rule latest_only_newest) (use assms in auto)
  with n assms(6) show False by (simp add: build_reasons_def)
qed

definition failed_build :: command_receipt where
  "failed_build = (sample_command ''r-12'' KindBuild ''build'' None None None)
     \<lparr>cr_base := (sample_base ''r-12'')\<lparr>rb_status := EvFail, rb_completed_at := ''t3''\<rparr>, cr_exit_code := Some 1\<rparr>"

lemma gate_newer_failure_blocks_sample:
  "\<not> pd_passed (decideProof sample_runtime sample_policy sample_contract sample_hash (CommandEv failed_build # sample_evidence))"
proof (rule gate_newer_failure_blocks [where x = failed_build])
  have "rt_locale_compare sample_runtime = cmp_of_key id" by (simp add: fun_eq_iff)
  then show "consistent_cmp (rt_locale_compare sample_runtime)" by simp
  show "\<not> command_passed failed_build" by (simp add: command_passed_def failed_build_def)
  show "rb_revision_hash (cr_base failed_build) = sample_hash" "cr_kind failed_build = KindBuild"
    "cr_command failed_build = vp_build_command (ac_verification sample_contract)"
    by (simp_all add: failed_build_def sample_contract_def)
  fix y assume "CommandEv y \<in> set (CommandEv failed_build # sample_evidence)" "y \<noteq> failed_build"
  then have "rb_completed_at (cr_base y) = ''t2''" by (auto simp: sample_evidence_def)
  then show "rt_locale_compare sample_runtime (rb_completed_at (cr_base y)) (rb_completed_at (cr_base failed_build)) < 0"
    by (simp add: failed_build_def cmp_of_key_def)
qed simp

text \<open>C9. A passing decision has exactly one authoritative CodeRabbit review of the frozen revision;
  it is complete, passed, reports no critical finding, and its attestation is digest-bound to this
  source revision, this contract and these findings.\<close>

theorem gate_authoritative_review:
  assumes "pd_passed (decideProof R P c rv rs)"
  shows "\<exists>review a d. authoritative_reviews (for_revision rv rs) = [review] \<and> ReviewEv review \<in> set rs
    \<and> rb_status (rv_base review) = EvPass \<and> rv_complete review
    \<and> (\<forall>f \<in> set (rv_findings review). rf_severity f \<noteq> SevCritical)
    \<and> rv_attestation review = Some a \<and> digestJson R (attestation_json a) = Inr d
    \<and> rv_expected_attestation_digest review = Some d \<and> ad_source (at_digests a) = rv
    \<and> digestJson R (contract_json c) = Inr (ad_contract (at_digests a))
    \<and> digestJson R (JArray (map finding_json (rv_findings review))) = Inr (ad_finding_set (at_digests a))"
proof -
  have "review_reasons R P c rv (for_revision rv rs) = []"
    using gate_reasons_Nil(13) [OF passed_gate [OF assms]] .
  then obtain review where one: "authoritative_reviews (for_revision rv rs) = [review]"
    and body: "review_body_reasons R P c rv review = []"
    by (rule review_reasons_Nil)
  have att: "codeRabbitAttestationFailures R P c rv review = []"
    and rest: "rb_status (rv_base review) = EvPass" "rv_complete review" "count_severity SevCritical (rv_findings review) = 0"
    using body by (auto simp: review_body_reasons_def Let_def split: if_splits)
  have "ReviewEv review \<in> set rs" using authoritative_in [of review "for_revision rv rs"] one by simp
  moreover have "\<forall>f \<in> set (rv_findings review). rf_severity f \<noteq> SevCritical"
    using rest(3) by (simp add: count_severity_def filter_empty_conv)
  ultimately show ?thesis
    using attestation_bound [OF att] one rest(1,2) by metis
qed

theorem gate_authoritative_review_witness:
  "\<exists>review a. authoritative_reviews sample_evidence = [review] \<and> rv_complete review
    \<and> rv_attestation review = Some a \<and> ad_source (at_digests a) = sample_hash"
  using gate_authoritative_review [OF sample_decision] by (simp, blast)

text \<open>All receipts of the frozen revision of a passing decision come from a single controller
  run, and no raster image, rendered page or scan shows a forbidden claim.\<close>

lemma gate_single_run_clean:
  assumes "pd_passed (decideProof R P c rv rs)"
  shows "(\<exists>i. \<forall>r \<in> set rs. receipt_revision r = rv \<longrightarrow> receipt_run r = i)
    \<and> (ac_forbidden_claims c \<noteq> [] \<longrightarrow>
        (\<exists>r. CommandEv r \<in> set rs \<and> rb_revision_hash (cr_base r) = rv \<and> cr_kind r = KindForbiddenClaim
          \<and> cr_forbidden_claim_indices r = Some (expectedIndices c) \<and> command_passed r))
    \<and> (\<exists>r. RasterEv r \<in> set rs \<and> rb_revision_hash (ra_base r) = rv \<and> rb_status (ra_base r) = EvPass
          \<and> ra_matches r = [] \<and> ra_unsupported r = [] \<and> ra_unverified r = [])
    \<and> (\<exists>p. PreviewEv p \<in> set rs \<and> rb_revision_hash (pr_base p) = rv \<and> rb_status (pr_base p) = EvPass
          \<and> (\<forall>k \<in> set (pr_checks p). pc_forbidden_claim_indices k \<in> {None, Some []}))"
proof (intro conjI impI)
  note n = gate_reasons_Nil [OF passed_gate [OF assms]]
  let ?rs = "for_revision rv rs"
  have "\<not> 1 < card (receipt_run ` set ?rs)"
    using n(1) unfolding run_identity_reasons_def issue_if_Nil .
  then have "card (receipt_run ` set ?rs) \<le> Suc 0" by linarith
  then have "\<forall>a \<in> receipt_run ` set ?rs. \<forall>b \<in> receipt_run ` set ?rs. a = b"
    by (rule iffD1 [OF card_le_Suc0_iff_eq [OF finite_imageI [OF finite_set]]])
  then have same: "receipt_run a = receipt_run b" if "a \<in> set ?rs" "b \<in> set ?rs" for a b using that by blast
  show "\<exists>i. \<forall>r \<in> set rs. receipt_revision r = rv \<longrightarrow> receipt_run r = i"
  proof (intro exI ballI impI)
    fix r assume "r \<in> set rs" "receipt_revision r = rv"
    then have r: "r \<in> set ?rs" by simp
    then have "hd ?rs \<in> set ?rs" by (cases ?rs) (simp_all del: in_for_revision)
    with r show "receipt_run r = receipt_run (hd ?rs)" by (rule same)
  qed
  show "\<exists>r. CommandEv r \<in> set rs \<and> rb_revision_hash (cr_base r) = rv \<and> cr_kind r = KindForbiddenClaim
          \<and> cr_forbidden_claim_indices r = Some (expectedIndices c) \<and> command_passed r"
    if "ac_forbidden_claims c \<noteq> []"
    using command_case_Nil [OF n(7) [unfolded forbidden_scan_reasons_def if_not_P [OF that]]] by blast
  show "\<exists>r. RasterEv r \<in> set rs \<and> rb_revision_hash (ra_base r) = rv \<and> rb_status (ra_base r) = EvPass
          \<and> ra_matches r = [] \<and> ra_unsupported r = [] \<and> ra_unverified r = []"
  proof (cases "visual_scan R c ?rs")
    case (Some r)
    with n(8) visual_scan_SomeD [OF Some] show ?thesis
      by (intro exI [of _ r]) (auto simp: visual_reasons_def split: if_splits)
  qed (use n(8) in \<open>simp add: visual_reasons_def\<close>)
  show "\<exists>p. PreviewEv p \<in> set rs \<and> rb_revision_hash (pr_base p) = rv \<and> rb_status (pr_base p) = EvPass
          \<and> (\<forall>k \<in> set (pr_checks p). pc_forbidden_claim_indices k \<in> {None, Some []})"
  proof (cases "latest_preview R ?rs")
    case (Some p)
    with n(9) latest_preview_SomeD [OF Some] show ?thesis
      by (intro exI [of _ p])
        (auto simp: preview_reasons_def list_ex_iff split: if_splits option.splits, metis option.exhaust)
  qed (use n(9) in \<open>simp add: preview_reasons_def\<close>)
qed

lemma gate_single_run_clean_sample:
  "\<exists>p. PreviewEv p \<in> set sample_evidence \<and> (\<forall>k \<in> set (pr_checks p). pc_forbidden_claim_indices k \<in> {None, Some []})"
  using gate_single_run_clean [OF sample_decision] by blast

end
