(* ===== verification/Run_Properties.thy ===== *)
theory Run_Properties
  imports Sample_Run
begin

text \<open>
  The properties of the run store: what holds of every database its operations can reach, and what
  single operations do.  Each is exercised on the sample candidate.
\<close>

subsection \<open>Lemmas\<close>

lemma sample_after_run: "run_of (sample_after evs n) ''run-1'' = Some (passed_row 0 sample_promoted)"
  by (simp add: passed_row_def sample_promoted_fields)

lemma reachable_sequences: "reachable R P n db \<Longrightarrow> sorted_wrt (<) (map ev_sequence (db_events db))"
  using reachable_ok by (auto simp: store_ok_def events_ok_def)

lemma acquired_slot:
  assumes "reachable R P n db" "acquireSlot k c i ms db = Inr (Some lease, db1)"
  shows "\<exists>s \<in> set (db_slots db1). lease_current lease now s = (now < sl_expires_at lease)
    \<and> sr_slot_id s = sl_slot_id lease \<and> sr_fencing_token s = sl_fencing_token lease \<and> holds_lease lease s"
  using assms(2)
proof (rule acquireSlot_InrD)
  fix s dbm r
  assume free: "first_free_slot k (c 0) db = Some s"
    and fail: "(case truthy (sr_run_id s) of None \<Rightarrow> Inr db | Some holder \<Rightarrow> failExpiredRun holder (c 0) db) = Inr dbm"
    and lease: "Some lease = Some \<lparr>sl_slot_id = sr_slot_id s, sl_run_id = i, sl_fencing_token = Suc (sr_fencing_token s),
         sl_expires_at = c 1 + ms\<rparr>"
    and db1: "db1 = dbm\<lparr>db_slots := update_where (\<lambda>x. sr_slot_id x = sr_slot_id s)
         (lease_row i (Suc (sr_fencing_token s)) (c 0) (c 1 + ms)) (db_slots dbm)\<rparr>"
  let ?l = "lease_row i (Suc (sr_fencing_token s)) (c 0) (c 1 + ms) s"
  have "s \<in> set (db_slots dbm)" using first_free_slot_SomeD(1) [OF free] free_holder_keeps(2) [OF fail] by simp
  then have "?l \<in> set (db_slots db1)" by (auto simp: db1 set_update_where)
  then show ?thesis
    using lease by (intro bexI [of _ ?l]) (simp_all add: lease_row_def lease_current_def holds_lease_def)
qed simp

subsection \<open>Properties of every reachable database\<close>

text \<open>C1. A run the store calls passed is proven, however the operations were interleaved: its
  builder and verification sandboxes differ, the promoted sandbox is the delivery one, an artifact
  of the frozen revision is recorded, the proof gate accepts exactly the evidence stored for the
  run, and one and only one outbox event announces it, with a payload that names this run,
  revision, artifact and trace.\<close>

theorem passed_run_is_proven:
  assumes "reachable R P n db" and "run_of db i = Some r" and "br_status r = RunPassed"
  shows "delivery_promoted r \<and> (\<exists>revision a e. br_revision_hash r = Some revision
    \<and> getRecordedArtifact i db = Some a \<and> pa_revision_hash a = revision
    \<and> pd_passed (decideProof R P (ba_contract (rw_assignment r)) revision (listEvidence i db))
    \<and> filter (\<lambda>e. ob_run_id e = i) (db_outbox db) = [e] \<and> ob_revision_hash e = revision
    \<and> cp_artifact (ob_payload e) = a \<and> cp_run_id (ob_payload e) = i
    \<and> cp_trace_id (ob_payload e) = ob_trace_id e \<and> CandidateProvenPayload_ok R (ob_payload e))"
proof -
  have "br_id r = i" using assms(2) by (simp add: run_of_SomeD)
  with reachable_passed [OF assms] show ?thesis
    unfolding proven_run_def outbox_of_def by metis
qed

theorem passed_run_is_proven_witness:
  "\<exists>db r. reachable sample_runtime sample_policy 4 db \<and> run_of db ''run-1'' = Some r \<and> br_status r = RunPassed
    \<and> getRecordedArtifact ''run-1'' db \<noteq> None \<and> (\<exists>e. filter (\<lambda>e. ob_run_id e = ''run-1'') (db_outbox db) = [e])"
proof -
  obtain evs n where r: "reachable sample_runtime sample_policy 4 (sample_after evs n)" using sample_passed by blast
  have "br_status (passed_row 0 sample_promoted) = RunPassed" by (simp add: passed_row_def)
  with passed_run_is_proven [OF r sample_after_run] r sample_after_run show ?thesis by blast
qed

text \<open>C10. A terminal run is final: whatever operations follow, its row stays as it is, but for the
  time stamp that records the clean-up of its sandboxes.\<close>

theorem terminal_run_is_final:
  assumes "reachable R P n db" and "store_steps R P n db db'" and "run_of db i = Some r"
    and "isTerminalStatus (br_status r)"
  shows "\<exists>r'. run_of db' i = Some r' \<and> (r' = r \<or> (\<exists>t. r' = r\<lparr>rw_recovery_cleanup_at := Some t\<rparr>))"
  using advances_run [OF steps_advance [OF assms(1,2)] assms(3)] assms(4)
  unfolding row_step_def cleanup_only_def by blast

theorem terminal_run_is_final_witness:
  "\<exists>evs n lease r'. run_of (releaseSlot lease (sample_after evs n)) ''run-1'' = Some r' \<and> br_status r' = RunPassed"
proof -
  obtain evs n where r: "reachable sample_runtime sample_policy 4 (sample_after evs n)" using sample_passed by blast
  have s: "store_steps sample_runtime sample_policy 4 (sample_after evs n) (releaseSlot sample_lease (sample_after evs n))"
    by (rule steps_step [OF steps_refl store_step.releaseSlot])
  have t: "isTerminalStatus (br_status (passed_row 0 sample_promoted))" by (simp add: passed_row_def)
  obtain r' where "run_of (releaseSlot sample_lease (sample_after evs n)) ''run-1'' = Some r'"
    "r' = passed_row 0 sample_promoted \<or> (\<exists>t. r' = (passed_row 0 sample_promoted)\<lparr>rw_recovery_cleanup_at := Some t\<rparr>)"
    using terminal_run_is_final [OF r s sample_after_run t] by blast
  moreover from this(2) have "br_status r' = RunPassed" by (elim disjE exE) (simp_all add: passed_row_def)
  ultimately show ?thesis by blast
qed

text \<open>C11. History is append-only: events, evidence receipts, artifacts and contracts are never changed
  or dropped by later operations, and event sequence numbers stay strictly increasing.\<close>

theorem history_is_append_only:
  assumes "reachable R P n db" and "store_steps R P n db db'"
  shows "(\<exists>es. db_events db' = db_events db @ es) \<and> (\<exists>rs. db_evidence db' = db_evidence db @ rs)
    \<and> (\<exists>as. db_artifacts db' = db_artifacts db @ as) \<and> (\<exists>cs. db_contracts db' = db_contracts db @ cs)
    \<and> sorted_wrt (<) (map ev_sequence (db_events db'))"
  using steps_advance [OF assms] reachable_sequences [OF reachable_steps [OF assms]]
  by (simp add: advances_def grows_def)

theorem history_is_append_only_witness:
  "\<exists>evs n. length (db_evidence (releaseSlot sample_lease (sample_after evs n))) \<ge> 11
    \<and> sorted_wrt (<) (map ev_sequence (db_events (releaseSlot sample_lease (sample_after evs n))))"
proof -
  obtain evs n where r: "reachable sample_runtime sample_policy 4 (sample_after evs n)" using sample_passed by blast
  have s: "store_steps sample_runtime sample_policy 4 (sample_after evs n) (releaseSlot sample_lease (sample_after evs n))"
    by (rule steps_step [OF steps_refl store_step.releaseSlot])
  have "length (db_evidence (sample_after evs n)) = 11" by (simp add: sample_db_def sample_evidence_def)
  with history_is_append_only [OF r s] show ?thesis by (metis le_add1 length_append)
qed




text \<open>C4. Once a cancellation was requested a run can never be passed, whatever happens later.\<close>

theorem cancelled_run_never_passes:
  assumes "reachable R P n db" and "store_steps R P n db db'" and "run_of db i = Some r"
    and "br_cancel_requested r"
  shows "\<exists>r'. run_of db' i = Some r' \<and> br_cancel_requested r' \<and> br_status r' \<noteq> RunPassed"
proof -
  obtain r' where r': "run_of db' i = Some r'" "row_step r r'"
    using advances_run [OF steps_advance [OF assms(1,2)] assms(3)] by blast
  then have "br_cancel_requested r'" using assms(4) by (simp add: row_step_def keeps_commitments_def)
  moreover have "row_ok r'" by (rule reachable_row_ok [OF reachable_steps [OF assms(1,2)] r'(1)])
  ultimately show ?thesis using r'(1) by (auto simp: row_ok_def)
qed

lemma sample_cancel:
  "\<exists>db r. reachable sample_runtime sample_policy 4 db \<and> run_of db ''run-1'' = Some r \<and> br_cancel_requested r"
proof -
  let ?f = "\<lambda>r. r\<lparr>br_cancel_requested := True, br_updated_at := 0\<rparr>"
  have "sample_reach (?f sample_promoted) sample_slots [] [] []"
  proof (rule sample_reach_log [OF sample_promotion])
    fix evs n x db'
    let ?d = "sample_db sample_promoted sample_slots [] [] [] evs n"
    assume u: "update_and_log ''run-1'' ?f ''run.cancel_requested'' (br_stage sample_promoted)
      (cancellation_payload None ''run-1'') 0 ?d = Inr (x, db')"
    then have "requestCancel (\<lambda>_. 0) ''run-1'' None ?d
      = Inr (\<lparr>cx_changed = True, cx_reason = CancellationRequested, cx_run = x\<rparr>, db')"
      by (simp add: requestCancel_def Let_def requireRun_def getRun_def sample_promoted_fields)
    then show "store_step sample_runtime sample_policy 4 ?d db'" by (rule store_step.requestCancel)
  qed (simp_all add: sample_promoted_fields cancellation_payload_def)
  then obtain evs n where r: "reachable sample_runtime sample_policy 4 (sample_db (?f sample_promoted) sample_slots [] [] [] evs n)"
    by (auto simp: sample_reach_def)
  have "run_of (sample_db (?f sample_promoted) sample_slots [] [] [] evs n) ''run-1'' = Some (?f sample_promoted)"
    by (simp add: sample_promoted_fields)
  moreover have "br_cancel_requested (?f sample_promoted)" by simp
  ultimately show ?thesis using r by blast
qed

theorem cancelled_run_never_passes_witness:
  "\<exists>db r'. run_of db ''run-1'' = Some r' \<and> br_cancel_requested r' \<and> br_status r' \<noteq> RunPassed"
  using sample_cancel cancelled_run_never_passes [OF _ steps_refl] by blast

text \<open>C12. A verification sandbox is never the builder's: in every reachable database a run with a
  verification sandbox has a builder sandbox, and the two differ; and the builder sandbox, once
  attached, is the builder sandbox for ever.\<close>

theorem verification_is_independent:
  assumes "reachable R P n db" and "store_steps R P n db db'" and "run_of db i = Some r"
  shows "(br_verification_sandbox_id r \<noteq> None \<longrightarrow>
      truthy (br_builder_sandbox_id r) \<noteq> None \<and> br_verification_sandbox_id r \<noteq> br_builder_sandbox_id r)
    \<and> (truthy (br_builder_sandbox_id r) \<noteq> None \<longrightarrow>
      (\<exists>r'. run_of db' i = Some r' \<and> br_builder_sandbox_id r' = br_builder_sandbox_id r))"
proof
  show "br_verification_sandbox_id r \<noteq> None \<longrightarrow>
      truthy (br_builder_sandbox_id r) \<noteq> None \<and> br_verification_sandbox_id r \<noteq> br_builder_sandbox_id r"
    using reachable_row_ok [OF assms(1,3)] by (simp add: row_ok_def)
  show "truthy (br_builder_sandbox_id r) \<noteq> None \<longrightarrow>
      (\<exists>r'. run_of db' i = Some r' \<and> br_builder_sandbox_id r' = br_builder_sandbox_id r)"
    using advances_run [OF steps_advance [OF assms(1,2)] assms(3)]
    by (auto simp: row_step_def keeps_commitments_def)
qed

theorem verification_is_independent_witness:
  "\<exists>db r. run_of db ''run-1'' = Some r \<and> br_verification_sandbox_id r = Some ''sb-2''
    \<and> br_verification_sandbox_id r \<noteq> br_builder_sandbox_id r"
proof -
  obtain evs n where r: "reachable sample_runtime sample_policy 4 (sample_after evs n)" using sample_passed by blast
  have "br_verification_sandbox_id (passed_row 0 sample_promoted) = Some ''sb-2''"
    by (simp add: passed_row_def sample_promoted_fields)
  moreover have "br_verification_sandbox_id (passed_row 0 sample_promoted) \<noteq> br_builder_sandbox_id (passed_row 0 sample_promoted)"
    using verification_is_independent [OF r steps_refl sample_after_run] calculation by blast
  ultimately show ?thesis using sample_after_run by blast
qed



end
