(* ===== verification/Slot_Properties.thy ===== *)
theory Slot_Properties
  imports Run_Properties
begin

text \<open>
  Slots, recovery and publication: when a slot is granted and to whom, how many can be held, what
  recovery leaves behind, and how a passed run reaches the outbox exactly once.
\<close>

subsection \<open>Lemmas\<close>

lemma first_free_slot_least:
  assumes "first_free_slot n now db = Some s" "x \<in> set (db_slots db)" "sr_slot_id x \<le> n" "slot_free now x"
  shows "sr_slot_id s \<le> sr_slot_id x"
proof -
  let ?xs = "filter (\<lambda>s. sr_slot_id s \<le> n \<and> slot_free now s) (db_slots db)"
  have "cmp_of_key sr_slot_id (hd (sort_by (cmp_of_key sr_slot_id) ?xs)) x \<le> 0"
    using assms(2-4) by (intro hd_sort_by_least) simp_all
  moreover have "s = hd (sort_by (cmp_of_key sr_slot_id) ?xs)"
    using assms(1) by (auto simp: first_free_slot_def order_by_def split: list.splits)
  ultimately show ?thesis by simp
qed

lemma first_free_slot_None:
  "first_free_slot n now db = None \<longleftrightarrow> \<not> (\<exists>s \<in> set (db_slots db). sr_slot_id s \<le> n \<and> slot_free now s)"
proof -
  have "first_free_slot n now db = None \<longleftrightarrow>
      order_by sr_slot_id (filter (\<lambda>s. sr_slot_id s \<le> n \<and> slot_free now s) (db_slots db)) = []"
    by (auto simp: first_free_slot_def split: list.splits)
  then show ?thesis by (simp add: order_by_def filter_empty_conv)
qed

lemma failExpiredRun_total: "\<exists>db'. failExpiredRun i now db = Inr db'"
proof (cases "run_of db i")
  case (Some r)
  let ?u = "update_run i (failed_row ''lease_expired'' ''Worker lease expired before completion'' now) db"
  have "run_of ?u i \<noteq> None" using Some by (simp add: run_of_update_run failed_row_def)
  then show ?thesis
    using Some appendEvent_carries [of "JObject [(''code'', jstr ''lease_expired'')]" ?u i]
    by (fastforce simp: failExpiredRun_def)
qed (simp add: failExpiredRun_def)

text \<open>The slots above the configured count are never leased.\<close>

definition leased_within :: "nat \<Rightarrow> run_db \<Rightarrow> bool" where
  "leased_within n db \<longleftrightarrow> (\<forall>s \<in> set (db_slots db). sr_run_id s \<noteq> None \<longrightarrow> sr_slot_id s \<le> n)"

lemma update_and_log_slots: "update_and_log i f ty st p t db = Inr (x, db') \<Longrightarrow> db_slots db' = db_slots db"
  by (auto simp: update_and_log_def store_simps appendEvent_tables)

lemma fail_interrupted_slots: "fail_interrupted now rows db = Inr db' \<Longrightarrow> db_slots db' = db_slots db"
  by (induction rows arbitrary: db) (auto simp: store_simps appendEvent_tables)

lemma markTerminal_slots: "markTerminal c i lv st code m p db = Inr (x, db') \<Longrightarrow> db_slots db' = db_slots db"
  by (auto simp: markTerminal_def Let_def store_simps dest: update_and_log_slots split: if_splits)

lemma requestCancel_slots: "requestCancel c i q db = Inr (x, db') \<Longrightarrow> db_slots db' = db_slots db"
  by (auto simp: requestCancel_def Let_def store_simps dest: update_and_log_slots split: if_splits)

lemma markPassed_slots: "markPassed R P c uuid i lease rv tr db = Inr (x, db') \<Longrightarrow> db_slots db' = db_slots db"
  by (erule markPassed_InrD) (auto dest!: update_and_log_slots)

lemma createRun_slots: "createRun R c uuid a db = Inr (v, db') \<Longrightarrow> db_slots db' = db_slots db"
  by (auto simp: createRun_def store_simps insert_run_def appendEvent_tables split: option.splits if_splits)

lemmas logged_op_defs =
  startRun_def updateStage_def attachSandbox_def attachVerificationSandbox_def promoteVerificationSandbox_def
  setRevision_def markRejected_def markFailed_def markCancelled_def

lemma step_slots:
  assumes "store_step R P n db db'"
  shows "db_slots db' = db_slots db \<or> (\<exists>c i ms lv. acquireSlot n c i ms db = Inr (lv, db'))
    \<or> (\<exists>Q f. db_slots db' = update_where Q f (db_slots db)
          \<and> (\<forall>s. sr_slot_id (f s) = sr_slot_id s \<and> sr_run_id (f s) \<in> {None, sr_run_id s}))"
  using assms
proof cases
  case (releaseSlot lease)
  then have "db_slots db' = update_where (holds_lease lease) clear_row (db_slots db)" by (simp add: releaseSlot_def)
  moreover have "\<forall>s. sr_slot_id (clear_row s) = sr_slot_id s \<and> sr_run_id (clear_row s) \<in> {None, sr_run_id s}"
    by (simp add: clear_row_def)
  ultimately show ?thesis by blast
next
  case (heartbeat c lease ms l)
  let ?f = "\<lambda>s. s\<lparr>sr_heartbeat_at := Some (c 0), sr_expires_at := Some (c 1 + ms)\<rparr>"
  from heartbeat have "db_slots db' = update_where (lease_current lease (c 0)) ?f (db_slots db)"
    by (auto simp: heartbeat_def Let_def split: if_splits)
  moreover have "\<forall>s. sr_slot_id (?f s) = sr_slot_id s \<and> sr_run_id (?f s) \<in> {None, sr_run_id s}" by simp
  ultimately show ?thesis by blast
next
  case (recoverInterruptedRuns c rs)
  then have "db_slots db' = update_where (\<lambda>_. True) clear_row (db_slots db)"
    by (auto simp: recoverInterruptedRuns_def Let_def store_simps update_where_def dest: fail_interrupted_slots)
  moreover have "\<forall>s. sr_slot_id (clear_row s) = sr_slot_id s \<and> sr_run_id (clear_row s) \<in> {None, sr_run_id s}"
    by (simp add: clear_row_def)
  ultimately show ?thesis by blast
next
  case (acquireSlot c i ms lv)
  then show ?thesis by blast
next
  case (markPassed c uuid i lease rv tr x)
  then show ?thesis by (simp add: markPassed_slots)
next
  case (createRun c uuid a v)
  then show ?thesis by (simp add: createRun_slots)
next
  case (requestCancel c i q cx)
  then show ?thesis by (simp add: requestCancel_slots)
qed (auto simp: logged_op_defs store_simps recordAgentProgress_def addEvidence_def recordArtifact_def Let_def
      markOutboxPublished_def markRecoveryCleanupComplete_def update_run_def appendEvent_tables
      dest: update_and_log_slots markTerminal_slots split: if_splits option.splits)

lemma acquire_within:
  assumes "acquireSlot n c i ms db = Inr (lv, db')" "leased_within n db"
  shows "leased_within n db'"
  using assms(1)
proof (rule acquireSlot_InrD)
  fix s db1 r
  assume free: "first_free_slot n (c 0) db = Some s"
    and fail: "(case truthy (sr_run_id s) of None \<Rightarrow> Inr db | Some holder \<Rightarrow> failExpiredRun holder (c 0) db) = Inr db1"
    and db': "db' = db1\<lparr>db_slots := update_where (\<lambda>x. sr_slot_id x = sr_slot_id s)
         (lease_row i (Suc (sr_fencing_token s)) (c 0) (c 1 + ms)) (db_slots db1)\<rparr>"
  show "leased_within n db'"
    using assms(2) first_free_slot_SomeD(2) [OF free] free_holder_keeps(2) [OF fail]
    by (auto simp: leased_within_def db' lease_row_def)
qed (use assms(2) in simp)

lemma step_within:
  assumes "store_step R P n db db'" "leased_within n db" shows "leased_within n db'"
  using step_slots [OF assms(1)]
proof (elim disjE exE conjE)
  fix Q f assume f: "db_slots db' = update_where Q f (db_slots db)"
    "\<forall>s. sr_slot_id (f s) = sr_slot_id s \<and> sr_run_id (f s) \<in> {None, sr_run_id s}"
  show ?thesis
    unfolding leased_within_def f(1)
  proof (intro ballI impI)
    fix x assume "x \<in> set (update_where Q f (db_slots db))" "sr_run_id x \<noteq> None"
    then show "sr_slot_id x \<le> n" using f(2) assms(2) unfolding leased_within_def by (elim in_update_whereE) (metis empty_iff insert_iff)+
  qed
qed (use assms(2) acquire_within in \<open>auto simp: leased_within_def\<close>)

lemma reachable_within: "reachable R P n db \<Longrightarrow> leased_within n db"
proof -
  have "store_steps R P n a b \<Longrightarrow> leased_within n a \<Longrightarrow> leased_within n b" for a b
    by (induction rule: store_steps.induct) (auto intro: step_within)
  moreover have "leased_within n empty_db" by (simp add: leased_within_def empty_db_def free_slot_def)
  ultimately show "reachable R P n db \<Longrightarrow> leased_within n db" by (auto simp: reachable_def)
qed


lemma fail_interrupted_runs:
  "fail_interrupted now rows db = Inr db' \<Longrightarrow> distinct (map br_id rows) \<Longrightarrow>
    run_of db' j = map_option (\<lambda>r. if j \<in> br_id ` set rows then failed_row ''worker_restarted''
       ''Worker stopped before a terminal proof decision'' now r else r) (run_of db j)"
proof (induction rows arbitrary: db)
  case Nil
  then show ?case by (simp add: option.map_ident)
next
  case (Cons row rows)
  let ?f = "failed_row ''worker_restarted'' ''Worker stopped before a terminal proof decision'' now"
  from Cons.prems(1) obtain ty st p db1 where
    ap: "appendEvent (br_id row) ty st p now (update_run (br_id row) ?f db) = Inr db1"
    and rest: "fail_interrupted now rows db1 = Inr db'"
    by (auto simp: store_simps)
  have "run_of db1 j = map_option (\<lambda>r. if j = br_id row then ?f r else r) (run_of db j)"
    by (simp add: appendEvent_tables(6) [OF ap] run_of_update_run failed_row_def)
  then show ?case
    using Cons.IH [OF rest] Cons.prems(2) by (cases "run_of db j") auto
qed

lemma fail_interrupted_total:
  "\<forall>r \<in> set rows. run_of db (br_id r) \<noteq> None \<Longrightarrow> \<exists>db'. fail_interrupted now rows db = Inr db'"
proof (induction rows arbitrary: db)
  case (Cons row rows)
  let ?u = "update_run (br_id row) (failed_row ''worker_restarted''
    ''Worker stopped before a terminal proof decision'' now) db"
  let ?p = "JObject [(''code'', jstr ''worker_restarted''), (''previousStage'', jstr (run_stage_text (br_stage row)))]"
  have u: "run_of ?u j = None \<longleftrightarrow> run_of db j = None" for j by (simp add: run_of_update_run failed_row_def)
  have "json_carries ?p" by simp
  then obtain x where x: "appendEvent (br_id row) ''run.failed'' StageComplete ?p now ?u =
      Inr (?u\<lparr>db_events := db_events ?u @ [x], db_last_sequence := Suc (db_last_sequence ?u)\<rparr>)"
    using appendEvent_carries [of ?p ?u "br_id row" "''run.failed''" StageComplete now] u Cons.prems by auto
  have "\<forall>r \<in> set rows. run_of (?u\<lparr>db_events := db_events ?u @ [x], db_last_sequence := Suc (db_last_sequence ?u)\<rparr>) (br_id r) \<noteq> None"
    using u Cons.prems by simp
  from Cons.IH [OF this] x show ?case by simp
qed simp

subsection \<open>Slots\<close>



text \<open>Capacity: with \<open>n\<close> configured slots, no more than \<open>n\<close> runs ever hold a slot at a time.\<close>

theorem slot_capacity:
  assumes "reachable R P n db"
  shows "card {i. \<exists>s \<in> set (db_slots db). sr_run_id s = Some i} \<le> n"
proof -
  let ?held = "{s \<in> set (db_slots db). sr_run_id s \<noteq> None}"
  have ids: "sr_slot_id ` ?held \<subseteq> {1..n}"
  proof
    fix k assume "k \<in> sr_slot_id ` ?held"
    then obtain s where s: "s \<in> set (db_slots db)" "sr_run_id s \<noteq> None" "k = sr_slot_id s" by blast
    have "sr_slot_id s \<in> set (map sr_slot_id (db_slots db))" using s(1) by simp
    then have "sr_slot_id s \<in> set [1, 2, 3, 4]" using reachable_slots_ok [OF assms] unfolding slots_ok_def by metis
    with s reachable_within [OF assms] show "k \<in> {1..n}" by (auto simp: leased_within_def)
  qed
  have "{i. \<exists>s \<in> set (db_slots db). sr_run_id s = Some i} \<subseteq> (\<lambda>s. the (sr_run_id s)) ` ?held" by force
  then have "card {i. \<exists>s \<in> set (db_slots db). sr_run_id s = Some i} \<le> card ?held"
    by (rule surj_card_le [rotated]) simp
  also have "\<dots> = card (sr_slot_id ` ?held)"
  proof (rule card_image [symmetric])
    show "inj_on sr_slot_id ?held"
      using slots_distinct [OF reachable_slots_ok [OF assms]] by (auto simp: distinct_map inj_on_def)
  qed
  also have "\<dots> \<le> card {1..n}" by (rule card_mono [OF _ ids]) simp
  finally show ?thesis by simp
qed

lemma slots_are_held:
  "\<exists>db :: run_db. {i. \<exists>s \<in> set (db_slots db). sr_run_id s = Some i} \<noteq> {} \<and> card {i. \<exists>s \<in> set (db_slots db). sr_run_id s = Some i} \<le> 4"
proof -
  obtain evs n where r: "reachable sample_runtime sample_policy 4 (sample_after evs n)" using sample_passed by blast
  have "''run-1'' \<in> {i. \<exists>s \<in> set (db_slots (sample_after evs n)). sr_run_id s = Some i}"
    by (simp add: sample_db_def sample_slots_def)
  with slot_capacity [OF r] show ?thesis by blast
qed


text \<open>C14. A queued run whose own earlier lease ran out is granted that slot again, but the same
  operation has just failed it for the expiry: the lease is valid, and the run can never start
  with it.\<close>

theorem own_expired_lease_fails_run:
  assumes "reachable R P n db" and "run_of db i = Some r" and "br_status r = RunQueued" and "i \<noteq> []"
    and "first_free_slot k (c 0) db = Some s" and "sr_run_id s = Some i"
    and "now < c 1 + ms" and "c' 0 = now"
  shows "\<exists>lease db' r'. acquireSlot k c i ms db = Inr (Some lease, db') \<and> assertLease i lease now db' = Inr ()
    \<and> run_of db' i = Some r' \<and> br_status r' = RunFailed \<and> br_error_code r' = Some ''lease_expired''
    \<and> startRun c' i lease db' = Inl (InvalidRunState i ''expected queued, got failed'')"
proof -
  have q: "requireRun i db = Inr (rowToRun r)" "br_status (rowToRun r) = RunQueued" "\<not> br_cancel_requested (rowToRun r)"
    using assms(2,3) reachable_row_ok [OF assms(1,2)] by (auto simp: requireRun_Inr row_ok_def)
  let ?f = "failed_row ''lease_expired'' ''Worker lease expired before completion'' (c 0)"
  obtain db1 where db1: "failExpiredRun i (c 0) db = Inr db1" using failExpiredRun_total by blast
  then have "run_of db1 = run_of (update_run i ?f db)"
    using assms(2,3) by (auto simp: failExpiredRun_def appendEvent_tables)
  then have r1: "run_of db1 i = Some (?f r)" using assms(2) by (simp add: run_of_update_run failed_row_def)
  let ?lease = "\<lparr>sl_slot_id = sr_slot_id s, sl_run_id = i, sl_fencing_token = Suc (sr_fencing_token s),
    sl_expires_at = c 1 + ms\<rparr>"
  let ?db' = "db1\<lparr>db_slots := update_where (\<lambda>x. sr_slot_id x = sr_slot_id s)
       (lease_row i (Suc (sr_fencing_token s)) (c 0) (c 1 + ms)) (db_slots db1)\<rparr>"
  have ac: "acquireSlot k c i ms db = Inr (Some ?lease, ?db')"
    using q assms(4-6) db1 by (simp add: acquireSlot_def Let_def)
  have l: "assertLease i ?lease now ?db' = Inr ()"
    using acquired_slot [OF assms(1) ac] assms(7) by (auto simp: assertLease_def list_ex_iff require_Inr)
  moreover have "run_of ?db' i = Some (?f r)" "br_status (?f r) = RunFailed" "br_error_code (?f r) = Some ''lease_expired''"
    using r1 by (simp_all add: failed_row_def)
  moreover have "startRun c' i ?lease ?db' = Inl (InvalidRunState i ''expected queued, got failed'')"
    using l r1 assms(8) by (simp add: startRun_def requireRun_def getRun_def failed_row_def)
  ultimately show ?thesis using ac by blast
qed

theorem own_expired_lease_fails_run_witness:
  "\<exists>db lease db' r'. acquireSlot 4 (\<lambda>_. 2000) ''run-1'' 1000 db = Inr (Some lease, db')
    \<and> run_of db' ''run-1'' = Some r' \<and> br_status r' = RunFailed
    \<and> startRun (\<lambda>_. 2500) ''run-1'' lease db' = Inl (InvalidRunState ''run-1'' ''expected queued, got failed'')"
proof -
  obtain evs n where r: "reachable sample_runtime sample_policy 4 (sample_db sample_queued sample_slots [] [] [] evs n)"
    using sample_acquired by (auto simp: sample_reach_def)
  let ?d = "sample_db sample_queued sample_slots [] [] [] evs n"
  have run: "run_of ?d ''run-1'' = Some sample_queued" by (simp add: sample_queued_fields)
  have f: "first_free_slot 4 2000 ?d = Some (hd sample_slots)" "sr_run_id (hd sample_slots) = Some ''run-1''"
    by (simp_all add: first_free_slot_def sample_db_def sample_slots_def free_slot_def slot_free_def order_by_def cmp_of_key_def)
  show ?thesis
    using own_expired_lease_fails_run [OF r run sample_queued_fields(2), where k = 4 and c = "\<lambda>_. 2000" and ms = 1000
        and s = "hd sample_slots" and now = 2500 and c' = "\<lambda>_. 2500"] f by fastforce
qed

subsection \<open>Recovery\<close>

text \<open>C13. Restart recovery never throws; afterwards no run is running, no slot is held, every run
  that was running is failed with the restart code and is reported, marked as newly recovered,
  with every sandbox it had attached.\<close>

theorem recovery_clears_interrupted_runs:
  assumes "reachable R P n db"
  shows "\<exists>rs db'. recoverInterruptedRuns c db = Inr (rs, db')
    \<and> (\<forall>r' \<in> set (db_runs db'). br_status r' \<noteq> RunRunning)
    \<and> (\<forall>s \<in> set (db_slots db'). sr_run_id s = None)
    \<and> (\<forall>i r. run_of db i = Some r \<and> br_status r = RunRunning \<longrightarrow>
        (\<exists>r' \<in> set rs. rr_run_id r' = i \<and> rr_newly_recovered r'
          \<and> set (rr_sandbox_ids r') = {sb. Some sb \<in> {br_sandbox_id r, br_builder_sandbox_id r, br_verification_sandbox_id r}})
        \<and> (\<exists>r'. run_of db' i = Some r' \<and> br_status r' = RunFailed \<and> br_error_code r' = Some ''worker_restarted''))"
proof -
  let ?rows = "filter (\<lambda>r. br_status r = RunRunning) (db_runs db)"
  let ?f = "failed_row ''worker_restarted'' ''Worker stopped before a terminal proof decision'' (c 0)"
  note d = reachable_distinct [OF assms]
  have "\<forall>r \<in> set ?rows. run_of db (br_id r) \<noteq> None" using d by (auto simp: run_of_iff)
  then obtain db1 where f: "fail_interrupted (c 0) ?rows db = Inr db1" using fail_interrupted_total by blast
  let ?db' = "db1\<lparr>db_slots := map clear_row (db_slots db1)\<rparr>"
  let ?rs = "map (recovered (br_id ` set ?rows)) (filter cleanup_due (db_runs ?db'))"
  have rec: "recoverInterruptedRuns c db = Inr (?rs, ?db')"
    using f by (simp add: recoverInterruptedRuns_def Let_def)
  have runs: "run_of ?db' j = map_option (\<lambda>r. if j \<in> br_id ` set ?rows then ?f r else r) (run_of db j)" for j
    using fail_interrupted_runs [OF f distinct_map_filter [OF d], of j] by simp
  have d': "distinct (map br_id (db_runs ?db'))"
    using reachable_distinct [OF reachable_step [OF assms store_step.recoverInterruptedRuns [OF rec]]] .
  have "br_status r' \<noteq> RunRunning" if "r' \<in> set (db_runs ?db')" for r'
  proof -
    have "run_of ?db' (br_id r') = Some r'" using that d' by (simp add: run_of_iff)
    then obtain r where r: "run_of db (br_id r') = Some r" "r' = (if br_id r' \<in> br_id ` set ?rows then ?f r else r)"
      using runs by auto
    show ?thesis
    proof (cases "br_id r' \<in> br_id ` set ?rows")
      case True
      then have "r' = ?f r" using r(2) by simp
      then show ?thesis by (simp add: failed_row_def)
    next
      case False
      then have "r' = r" using r(2) by simp
      with False run_of_SomeD [OF r(1)] show ?thesis by force
    qed
  qed
  moreover have "\<forall>s \<in> set (db_slots ?db'). sr_run_id s = None" by (simp add: clear_row_def)
  moreover have "(\<exists>r' \<in> set ?rs. rr_run_id r' = i \<and> rr_newly_recovered r'
          \<and> set (rr_sandbox_ids r') = {sb. Some sb \<in> {br_sandbox_id r, br_builder_sandbox_id r, br_verification_sandbox_id r}})
        \<and> (\<exists>r'. run_of ?db' i = Some r' \<and> br_status r' = RunFailed \<and> br_error_code r' = Some ''worker_restarted'')"
    if "run_of db i = Some r" "br_status r = RunRunning" for i r
  proof -
    note r = run_of_SomeD [OF that(1)]
    have mem: "i \<in> br_id ` set ?rows" using r that(2) by force
    then have run': "run_of ?db' i = Some (?f r)" using runs that(1) by simp
    have clean: "rw_recovery_cleanup_at r = None" using that(2) reachable_row_ok [OF assms that(1)] by (simp add: row_ok_def)
    then have "?f r \<in> set (filter cleanup_due (db_runs ?db'))"
      using run_of_SomeD [OF run'] by (simp add: cleanup_due_def failed_row_def)
    moreover have "rr_run_id (recovered (br_id ` set ?rows) (?f r)) = i" "rr_newly_recovered (recovered (br_id ` set ?rows) (?f r))"
      "set (rr_sandbox_ids (recovered (br_id ` set ?rows) (?f r)))
        = {sb. Some sb \<in> {br_sandbox_id r, br_builder_sandbox_id r, br_verification_sandbox_id r}}"
      using r mem by (auto simp: recovered_def failed_row_def split: option.splits)
    ultimately show ?thesis using run' by (force simp: failed_row_def)
  qed
  ultimately show ?thesis using rec by blast
qed


theorem recovery_clears_interrupted_runs_witness:
  "\<exists>db rs db' r'. recoverInterruptedRuns (\<lambda>_. 7) db = Inr (rs, db') \<and> run_of db' ''run-1'' = Some r'
    \<and> br_status r' = RunFailed \<and> (\<exists>x \<in> set rs. rr_run_id x = ''run-1'' \<and> set (rr_sandbox_ids x) = {''sb-1'', ''sb-2''})"
proof -
  obtain evs n where r: "reachable sample_runtime sample_policy 4 (sample_db sample_promoted sample_slots [] [] [] evs n)"
    using sample_promotion by (auto simp: sample_reach_def)
  let ?d = "sample_db sample_promoted sample_slots [] [] [] evs n"
  have run: "run_of ?d ''run-1'' = Some sample_promoted" "br_status sample_promoted = RunRunning"
    by (simp_all add: sample_promoted_fields)
  have sb: "{sb. Some sb \<in> {br_sandbox_id sample_promoted, br_builder_sandbox_id sample_promoted,
      br_verification_sandbox_id sample_promoted}} = {''sb-1'', ''sb-2''}"
    by (auto simp: sample_promoted_fields)
  from recovery_clears_interrupted_runs [OF r, of "\<lambda>_. 7"] show ?thesis
  proof (elim exE conjE)
    fix rs db'
    assume rec: "recoverInterruptedRuns (\<lambda>_. 7) ?d = Inr (rs, db')"
      and all: "\<forall>i r. run_of ?d i = Some r \<and> br_status r = RunRunning \<longrightarrow>
        (\<exists>r' \<in> set rs. rr_run_id r' = i \<and> rr_newly_recovered r'
          \<and> set (rr_sandbox_ids r') = {sb. Some sb \<in> {br_sandbox_id r, br_builder_sandbox_id r, br_verification_sandbox_id r}})
        \<and> (\<exists>r'. run_of db' i = Some r' \<and> br_status r' = RunFailed \<and> br_error_code r' = Some ''worker_restarted'')"
    have "(\<exists>x \<in> set rs. rr_run_id x = ''run-1'' \<and> set (rr_sandbox_ids x) = {''sb-1'', ''sb-2''})
      \<and> (\<exists>r'. run_of db' ''run-1'' = Some r' \<and> br_status r' = RunFailed)"
      using all [rule_format, OF conjI [OF run]] unfolding sb by blast
    then obtain r' where "\<exists>x \<in> set rs. rr_run_id x = ''run-1'' \<and> set (rr_sandbox_ids x) = {''sb-1'', ''sb-2''}"
      "run_of db' ''run-1'' = Some r'" "br_status r' = RunFailed" by (elim conjE exE)
    with rec show ?thesis
      by (intro exI [of _ ?d] exI [of _ rs] exI [of _ db'] exI [of _ r'] conjI) assumption+
  qed
qed

subsection \<open>Publication\<close>

lemma find_outbox_key:
  "outbox_ok db \<Longrightarrow> e \<in> set (db_outbox db) \<Longrightarrow> find (\<lambda>x. ob_event_id x = ob_event_id e) (db_outbox db) = Some e"
  unfolding outbox_ok_def by (rule find_key_unique)

lemma find_unique_cond:
  "distinct (map k xs) \<Longrightarrow> x \<in> set xs \<Longrightarrow> P x \<Longrightarrow> find (\<lambda>y. k y = k x \<and> P y) xs = Some x"
  by (induction xs) (auto simp: rev_image_eqI)

lemma newest_filter:
  assumes "newest_artifact as = Some a" "Q a" shows "newest_artifact (filter Q as) = Some a"
proof -
  let ?c = "\<lambda>a b. cmp_of_key pa_created_at b a"
  have "consistent_cmp ?c" by (auto simp: consistent_cmp_def cmp_of_key_def)
  then have flt: "sort_by ?c (filter Q as) = filter Q (sort_by ?c as)" by (rule sort_by_filter)
  from assms(1) obtain t where "sort_by ?c as = a # t" by (auto simp: newest_artifact_def split: list.splits)
  then show ?thesis using assms(2) by (simp add: newest_artifact_def flt)
qed

text \<open>C8. Passing a run publishes it: the artifact becomes readable, and the event of the given id is
  pending in the outbox, valid, and about this run and revision.\<close>

theorem passing_publishes:
  assumes "reachable R P n db" and "markPassed R P c uuid i lease rv tr db = Inr (run, db')"
    and "rt_is_uuid R uuid"
  shows "br_status run = RunPassed \<and> (\<exists>a e. getArtifact i db' = Some a \<and> pa_revision_hash a = rv
    \<and> getPendingOutbox R uuid db' = Inr (Some e) \<and> ob_run_id e = i \<and> ob_revision_hash e = rv
    \<and> ob_trace_id e = tr \<and> cp_artifact (ob_payload e) = a)"
  using assms(2)
proof (rule markPassed_InrD)
  fix r a asg rk e
  assume run: "run_of db i = Some r" "br_revision_hash r = Some rv" "delivery_promoted r"
      "getRecordedArtifact i db = Some a" "pa_revision_hash a = rv"
    and pay: "CandidateProvenPayload_ok R (proven_payload (rowToRun r) i rv a tr rk)"
    and e: "e = \<lparr>ob_event_id = uuid, ob_type = ''candidate.proven'', ob_run_id = i, ob_revision_hash = rv,
       ob_trace_id = tr, ob_payload = proven_payload (rowToRun r) i rv a tr rk,
       ob_created_at = c 1, ob_published_at = None\<rparr>"
    and log: "update_and_log i (passed_row (c 1)) ''candidate.proven'' StageComplete
       (payload_json (proven_payload (rowToRun r) i rv a tr rk)) (c 1) (db\<lparr>db_outbox := db_outbox db @ [e]\<rparr>)
       = Inr (run, db')"
  define f where "f = passed_row (c 1)"
  have bid: "br_id (f q) = br_id q" for q by (simp add: f_def passed_row_def)
  from log obtain ty st p where ap: "appendEvent i ty st p (c 1) (update_run i f (db\<lparr>db_outbox := db_outbox db @ [e]\<rparr>)) = Inr db'"
    and rd: "requireRun i db' = Inr run"
    by (auto simp: update_and_log_def f_def store_simps)
  have run': "run_of db' i = Some (f r)"
    using run(1) by (simp add: appendEvent_tables(6) [OF ap] run_of_update_run [of f, OF bid])
  have proven: "proven_row rv (f r)"
    using run(2,3) by (simp add: proven_row_def f_def passed_row_def delivery_promoted_def)
  have ob: "db_outbox db' = db_outbox db @ [e]" using appendEvent_tables(5) [OF ap] by simp
  have ok: "OutboxEvent_ok R e"
    using pay assms(3) by (simp add: OutboxEvent_ok_def outbox_shape_def outbox_issues_def e proven_payload_def
        CandidateProvenPayload_ok_def payload_shape_def)
  have ok': "store_ok R P db'" using reachable_ok [OF reachable_step [OF assms(1) store_step.markPassed [OF assms(2)]]] .
  then have dist: "distinct (map ob_event_id (db_outbox db'))" by (simp add: store_ok_def outbox_ok_def)
  have mem: "e \<in> set (db_outbox db')" by (simp add: ob)
  have due: "ob_published_at e = None \<and> publishable db' e" using run' proven by (simp add: publishable_def e)
  have "find (\<lambda>x. ob_event_id x = ob_event_id e \<and> (ob_published_at x = None \<and> publishable db' x)) (db_outbox db') = Some e"
    using find_unique_cond [OF dist mem, of "\<lambda>x. ob_published_at x = None \<and> publishable db' x", OF due] .
  then have "getPendingOutbox R uuid db' = Inr (Some e)"
    using ok by (simp add: getPendingOutbox_def parse_outbox_def e)
  moreover have "getArtifact i db' = Some a"
  proof -
    have "artifacts_of db' i = artifacts_of db i" by (simp add: artifacts_of_def appendEvent_tables(4) [OF ap])
    moreover have sel: "newest_artifact (artifacts_of db i) = Some a" using run(4) by (simp add: getRecordedArtifact_def)
    moreover have "newest_artifact (filter (\<lambda>x. proven_row (pa_revision_hash x) (f r)) (artifacts_of db i)) = Some a"
      using newest_filter [OF sel] proven run(5) by simp
    ultimately show ?thesis using run' by (simp add: getArtifact_def)
  qed
  moreover have "br_status run = RunPassed" using rd run' by (auto simp: requireRun_Inr f_def passed_row_def)
  ultimately show ?thesis using run(5) by (auto simp: e proven_payload_def)
qed

theorem passing_publishes_witness:
  "\<exists>db db' run a e. markPassed sample_runtime sample_policy (\<lambda>_. 0) ''event-1'' ''run-1'' sample_lease sample_hash ''trace-1'' db
      = Inr (run, db') \<and> getArtifact ''run-1'' db' = Some a
    \<and> getPendingOutbox sample_runtime ''event-1'' db' = Inr (Some e) \<and> ob_run_id e = ''run-1''"
proof -
  obtain evs n where r: "reachable sample_runtime sample_policy 4 (sample_before evs n)"
    using sample_archived by (auto simp: sample_reach_def)
  obtain run db' where m: "markPassed sample_runtime sample_policy (\<lambda>_. 0) ''event-1'' ''run-1'' sample_lease sample_hash ''trace-1''
      (sample_before evs n) = Inr (run, db')"
    using sample_markPassed by blast
  have "rt_is_uuid sample_runtime ''event-1''" by simp
  from passing_publishes [OF r m this] m show ?thesis by blast
qed

lemma sample_event_due:
  "\<exists>db'. markOutboxPublished (\<lambda>_. 5) ''event-1'' (sample_after evs n) = Inr (True, db')"
proof -
  let ?row = "passed_row 0 sample_promoted"
  have "br_id ?row = ''run-1''" "proven_row sample_hash ?row"
    using sample_promoted_fields by (simp_all add: proven_row_def delivery_promoted_def passed_row_def)
  then have p: "publishable (sample_after evs n) sample_event" by (simp add: publishable_def sample_event_def)
  have "db_outbox (sample_after evs n) = [sample_event]" by (simp add: sample_db_def)
  with p show ?thesis by (simp add: markOutboxPublished_def) (simp add: sample_event_def)
qed

text \<open>Publication happens once: after \<open>markOutboxPublished\<close> has answered yes the event is pending
  no more, and marking it again answers yes and changes nothing.\<close>

lemma publication_is_idempotent:
  assumes "reachable R P n db" and "markOutboxPublished c eventId db = Inr (True, db')"
  shows "getPendingOutbox R eventId db' = Inr None \<and> markOutboxPublished c' eventId db' = Inr (True, db')"
proof -
  let ?due = "\<lambda>e. ob_event_id e = eventId \<and> ob_published_at e = None \<and> publishable db e"
  have dist: "distinct (map ob_event_id (db_outbox db))"
    and dist': "distinct (map ob_event_id (db_outbox db'))"
    using reachable_ok [OF assms(1)] reachable_ok [OF reachable_step [OF assms(1) store_step.markOutboxPublished [OF assms(2)]]]
    by (simp_all add: store_ok_def outbox_ok_def)
  obtain e where e: "e \<in> set (db_outbox db')" "ob_event_id e = eventId" "ob_published_at e \<noteq> None"
  proof (cases "length (filter ?due (db_outbox db)) = 1")
    case True
    then have db': "db' = db\<lparr>db_outbox := update_where ?due (\<lambda>e. e\<lparr>ob_published_at := Some (c 0)\<rparr>) (db_outbox db)\<rparr>"
      using assms(2) by (simp add: markOutboxPublished_def Let_def)
    from True obtain x where "filter ?due (db_outbox db) = [x]" by (auto simp: length_Suc_conv)
    then have "x \<in> set (filter ?due (db_outbox db))" by simp
    then have "x \<in> set (db_outbox db)" "?due x" by simp_all
    then have "x\<lparr>ob_published_at := Some (c 0)\<rparr> \<in> set (db_outbox db')" by (auto simp: db' set_update_where)
    then show ?thesis using \<open>?due x\<close> that [of "x\<lparr>ob_published_at := Some (c 0)\<rparr>"] by simp
  next
    case False
    with assms(2) obtain x where x: "find (\<lambda>e. ob_event_id e = eventId) (db_outbox db) = Some x"
      "ob_published_at x \<noteq> None" "db' = db"
      by (auto simp: markOutboxPublished_def Let_def split: option.splits if_splits)
    then show ?thesis using find_eq_SomeD [OF x(1)] that [of x] by simp
  qed
  have only: "x = e" if "x \<in> set (db_outbox db')" "ob_event_id x = eventId" for x
    using distinct_key_eq [OF dist' that(1) e(1)] that(2) e(2) by simp
  then have none: "find (\<lambda>x. ob_event_id x = eventId \<and> ob_published_at x = None \<and> publishable db' x) (db_outbox db') = None"
    "filter (\<lambda>x. ob_event_id x = eventId \<and> ob_published_at x = None \<and> publishable db' x) (db_outbox db') = []"
    using e(3) by (auto simp: find_is_None filter_empty_conv)
  have "find (\<lambda>x. ob_event_id x = eventId) (db_outbox db') = Some e"
    using find_key_unique [OF dist' e(1)] e(2) by simp
  with none e(3) show ?thesis by (simp add: getPendingOutbox_def markOutboxPublished_def Let_def)
qed

lemma publication_is_idempotent_sample:
  "\<exists>db db'. markOutboxPublished (\<lambda>_. 5) ''event-1'' db = Inr (True, db')
    \<and> getPendingOutbox sample_runtime ''event-1'' db' = Inr None
    \<and> markOutboxPublished (\<lambda>_. 9) ''event-1'' db' = Inr (True, db')"
proof -
  obtain evs n where r: "reachable sample_runtime sample_policy 4 (sample_after evs n)"
    using sample_passed by (auto simp: sample_reach_def)
  obtain db' where m: "markOutboxPublished (\<lambda>_. 5) ''event-1'' (sample_after evs n) = Inr (True, db')"
    using sample_event_due by blast
  from publication_is_idempotent [OF r m] m show ?thesis by blast
qed

end
