(* ===== verification/Project.thy ===== *)
theory Project
  imports Contract
begin

text \<open>
  \<open>src/orchestration/domain/project.ts\<close>, first part: what a customer says (intake, profile), what
  is proposed (sources, plan, quote, acceptance contract, proposal version) and the refinements
  that bind them.  As in \<open>Contract\<close> a schema is a shape, the field checks, and a list of issues, its
  \<open>superRefine\<close>.  Timestamps are the strings the program keeps; \<open>rt_date_parse\<close> reads them.
  Numbers a schema bounds below by zero are \<open>nat\<close>; zod's \<open>int()\<close> admits safe integers only.
\<close>

subsection \<open>Scalars\<close>

definition MAX_SAFE_INTEGER :: int where
  "MAX_SAFE_INTEGER = 2 ^ 53 - 1"

definition safe_nat :: "nat \<Rightarrow> bool" where
  "safe_nat n \<longleftrightarrow> int n \<le> MAX_SAFE_INTEGER"

definition safe_positive :: "nat \<Rightarrow> bool" where
  "safe_positive n \<longleftrightarrow> 0 < n \<and> safe_nat n"

definition orchestration_id :: "string \<Rightarrow> bool" where
  "orchestration_id s = entity_id 1 256 s"

definition idempotency_key :: "string \<Rightarrow> bool" where
  "idempotency_key s = entity_id 8 256 s"

definition currency_text :: "string \<Rightarrow> bool" where
  "currency_text s \<longleftrightarrow> length s = 3 \<and> list_all is_lower s"

text \<open>\<open>/^[a-z][a-z0-9_-]*$/\<close> with a length of 1 to 64.\<close>

definition provider_text :: "string \<Rightarrow> bool" where
  "provider_text s \<longleftrightarrow> str_between 1 64 s \<and>
     (case s of [] \<Rightarrow> False | c # cs \<Rightarrow> is_lower c \<and> list_all (\<lambda>d. is_lower d \<or> is_digit d \<or> one_of ''_-'' d) cs)"

subsection \<open>Intake and customer\<close>

datatype pii_category =
    PiiName | PiiEmail | PiiPhone | PiiPostalAddress | PiiGovernmentIdentifier | PiiFinancial
  | PiiAccountIdentifier | PiiOtherSensitive

datatype pii_handling = RetainInProfile | TokenizePii | DiscardPii

record pii_span =
  ps_category :: pii_category
  ps_start :: nat
  ps_end :: nat
  ps_value_digest :: string
  ps_confidence :: rat
  ps_handling :: pii_handling

definition pii_span_shape :: "pii_span \<Rightarrow> bool" where
  "pii_span_shape s \<longleftrightarrow> safe_nat (ps_start s) \<and> safe_positive (ps_end s) \<and> sha256_text (ps_value_digest s)
     \<and> 0 \<le> ps_confidence s \<and> ps_confidence s \<le> 1"

definition pii_span_issues :: "pii_span \<Rightarrow> string list" where
  "pii_span_issues s = issue_if (ps_end s \<le> ps_start s) ''PII endOffset must be greater than startOffset''"

datatype intake_source =
    VoiceIntake (is_conversation_id: string)
  | EmailIntake (is_subject: "string option") (is_provider: string) (is_message_id: string)
      (is_thread_id: "string option") (is_signature: bool)
  | TextIntake (is_provider: string) (is_message_id: string) (is_text_conversation: "string option")
      (is_signature: bool)

record intake =
  in_id :: string
  in_received_at :: string
  in_content :: string
  in_content_digest :: string
  in_pii_spans :: "pii_span list"
  in_source :: intake_source

fun intake_source_shape :: "intake_source \<Rightarrow> bool" where
  "intake_source_shape (VoiceIntake conversation) \<longleftrightarrow> orchestration_id conversation"
| "intake_source_shape (EmailIntake subject provider message thread sig) \<longleftrightarrow>
     opt_all (str_between 1 998) subject \<and> provider_text provider \<and> orchestration_id message
     \<and> opt_all orchestration_id thread"
| "intake_source_shape (TextIntake provider message conversation sig) \<longleftrightarrow>
     provider_text provider \<and> orchestration_id message \<and> opt_all orchestration_id conversation"

definition intake_shape :: "runtime \<Rightarrow> intake \<Rightarrow> bool" where
  "intake_shape R i \<longleftrightarrow> orchestration_id (in_id i) \<and> rt_is_datetime R (in_received_at i)
     \<and> str_between 1 1500000 (in_content i) \<and> sha256_text (in_content_digest i)
     \<and> length (in_pii_spans i) \<le> 5000 \<and> list_all (\<lambda>s. pii_span_shape s \<and> pii_span_issues s = []) (in_pii_spans i)
     \<and> intake_source_shape (in_source i)"

text \<open>A span past the end is reported and its value digest not looked at (\<open>continue\<close>).\<close>

definition intake_span_issues :: "runtime \<Rightarrow> string \<Rightarrow> pii_span \<Rightarrow> string list" where
  "intake_span_issues R content s =
     (if length content < ps_end s then [''PII span exceeds intake content'']
      else issue_if (rt_sha256 R (slice (ps_start s) (ps_end s) content) \<noteq> ps_value_digest s)
        ''PII valueDigest does not match the referenced content'')"

definition intake_issues :: "runtime \<Rightarrow> intake \<Rightarrow> string list" where
  "intake_issues R i =
     issue_if (rt_sha256 R (in_content i) \<noteq> in_content_digest i) ''Intake contentDigest does not match content'' @
     concat (map (intake_span_issues R (in_content i)) (in_pii_spans i))"

definition Intake_ok :: "runtime \<Rightarrow> intake \<Rightarrow> bool" where
  "Intake_ok R i \<longleftrightarrow> intake_shape R i \<and> intake_issues R i = []"

record contact =
  ct_value :: string
  ct_verified :: bool
  ct_verified_at :: "string option"

definition contact_issues :: "string \<Rightarrow> contact \<Rightarrow> string list" where
  "contact_issues what c =
     issue_if (ct_verified c \<and> truthy (ct_verified_at c) = None) (''verifiedAt is required for a verified '' @ what)"

definition ContactEmail_ok :: "runtime \<Rightarrow> contact \<Rightarrow> bool" where
  "ContactEmail_ok R c \<longleftrightarrow> rt_is_email R (ct_value c) \<and> opt_all (rt_is_datetime R) (ct_verified_at c)
     \<and> contact_issues ''email'' c = []"

definition ContactPhone_ok :: "runtime \<Rightarrow> contact \<Rightarrow> bool" where
  "ContactPhone_ok R c \<longleftrightarrow> str_between 3 64 (ct_value c) \<and> opt_all (rt_is_datetime R) (ct_verified_at c)
     \<and> contact_issues ''phone'' c = []"

record research_consent =
  rc_granted :: bool
  rc_captured_at :: "string option"
  rc_source_intake_id :: "string option"

definition consent_issues :: "research_consent \<Rightarrow> string list" where
  "consent_issues c = issue_if (rc_granted c \<and> (truthy (rc_captured_at c) = None \<or> truthy (rc_source_intake_id c) = None))
     ''Granted research consent requires capturedAt and sourceIntakeId''"

definition ResearchConsent_ok :: "runtime \<Rightarrow> research_consent \<Rightarrow> bool" where
  "ResearchConsent_ok R c \<longleftrightarrow> opt_all (rt_is_datetime R) (rc_captured_at c)
     \<and> opt_all orchestration_id (rc_source_intake_id c) \<and> consent_issues c = []"

datatype contact_channel = ViaEmail | ViaText | ViaVoice

record customer_profile =
  cp_profile_id :: string
  cp_display_name :: "string option"
  cp_email :: "contact option"
  cp_phone :: "contact option"
  cp_organization_name :: "string option"
  cp_preferred_channel :: "contact_channel option"
  cp_research_consent :: research_consent

definition CustomerProfile_ok :: "runtime \<Rightarrow> customer_profile \<Rightarrow> bool" where
  "CustomerProfile_ok R c \<longleftrightarrow> orchestration_id (cp_profile_id c) \<and> opt_all (str_between 1 300) (cp_display_name c)
     \<and> opt_all (ContactEmail_ok R) (cp_email c) \<and> opt_all (ContactPhone_ok R) (cp_phone c)
     \<and> opt_all (str_between 1 500) (cp_organization_name c) \<and> ResearchConsent_ok R (cp_research_consent c)"

subsection \<open>Proposal sources\<close>

text \<open>An excerpt of a conversation: of the intake, or of an inbound message.\<close>

record conversation_source =
  cs_source_id :: string
  cs_origin_id :: string
  cs_content_digest :: string
  cs_minimized_digest :: string
  cs_start :: nat
  cs_end :: nat
  cs_excerpt :: string
  cs_excerpt_digest :: string

record research_source =
  rs_source_id :: string
  rs_url :: string
  rs_requested_url :: string
  rs_final_url :: string
  rs_redirect_chain :: "string list"
  rs_canonical_url :: "string option"
  rs_title :: "string option"
  rs_publisher :: "string option"
  rs_captured_at :: string
  rs_retrieved_at :: string
  rs_capture_digest :: string
  rs_start :: nat
  rs_end :: nat
  rs_excerpt :: string
  rs_excerpt_digest :: string

datatype proposal_source =
    FromIntake conversation_source
  | FromResearch research_source
  | FromMessage conversation_source

definition conversation_source_shape :: "conversation_source \<Rightarrow> bool" where
  "conversation_source_shape s \<longleftrightarrow> orchestration_id (cs_source_id s) \<and> orchestration_id (cs_origin_id s)
     \<and> sha256_text (cs_content_digest s) \<and> sha256_text (cs_minimized_digest s)
     \<and> safe_nat (cs_start s) \<and> safe_positive (cs_end s)
     \<and> str_between 1 1500000 (cs_excerpt s) \<and> sha256_text (cs_excerpt_digest s)"

definition conversation_source_issues :: "runtime \<Rightarrow> conversation_source \<Rightarrow> string list" where
  "conversation_source_issues R s =
     issue_if (cs_end s \<le> cs_start s) ''Source endOffset must be greater than startOffset'' @
     issue_if (int (cs_end s) - int (cs_start s) \<noteq> int (length (cs_excerpt s)))
       ''Source offsets must span the exact minimized excerpt'' @
     issue_if (rt_sha256 R (cs_excerpt s) \<noteq> cs_excerpt_digest s) ''Source excerptDigest does not match excerpt''"

definition research_url_ok :: "runtime \<Rightarrow> string \<Rightarrow> bool" where
  "research_url_ok R u \<longleftrightarrow> rt_is_url R u \<and>
     (case rt_parse_url R u of
        None \<Rightarrow> False
      | Some p \<Rightarrow> url_protocol p = ''https:'' \<and> url_username p = [] \<and> url_password p = [] \<and> url_hash p = [])"

definition research_metadata_ok :: "nat \<Rightarrow> string \<Rightarrow> bool" where
  "research_metadata_ok hi s \<longleftrightarrow> str_between 1 hi s \<and> \<not> list_ex (\<lambda>c. (of_char c :: nat) < 32 \<or> (of_char c :: nat) = 127) s"

definition research_source_shape :: "runtime \<Rightarrow> research_source \<Rightarrow> bool" where
  "research_source_shape R s \<longleftrightarrow> orchestration_id (rs_source_id s)
     \<and> research_url_ok R (rs_url s) \<and> research_url_ok R (rs_requested_url s) \<and> research_url_ok R (rs_final_url s)
     \<and> rs_redirect_chain s \<noteq> [] \<and> length (rs_redirect_chain s) \<le> 11
     \<and> list_all (research_url_ok R) (rs_redirect_chain s)
     \<and> opt_all (research_url_ok R) (rs_canonical_url s)
     \<and> opt_all (research_metadata_ok 1000) (rs_title s) \<and> opt_all (research_metadata_ok 500) (rs_publisher s)
     \<and> rt_is_datetime R (rs_captured_at s) \<and> rt_is_datetime R (rs_retrieved_at s)
     \<and> sha256_text (rs_capture_digest s) \<and> safe_nat (rs_start s) \<and> safe_positive (rs_end s)
     \<and> str_between 1 10000 (rs_excerpt s) \<and> sha256_text (rs_excerpt_digest s)"

text \<open>\<open>new URL(u).hostname.toLowerCase()\<close>; a URL that does not parse throws, which the shape excludes.\<close>

definition hostname :: "runtime \<Rightarrow> string \<Rightarrow> string" where
  "hostname R u = (case rt_parse_url R u of None \<Rightarrow> [] | Some p \<Rightarrow> map to_lower (url_hostname p))"

definition researchUrlsShareHostnameTree :: "runtime \<Rightarrow> string \<Rightarrow> string \<Rightarrow> bool" where
  "researchUrlsShareHostnameTree R a b \<longleftrightarrow>
     (let l = hostname R a; r = hostname R b in
      l = r \<or> ends_with (CHR ''.'' # r) l \<or> ends_with (CHR ''.'' # l) r)"

definition research_source_issues :: "runtime \<Rightarrow> research_source \<Rightarrow> string list" where
  "research_source_issues R s =
     issue_if (rs_end s \<le> rs_start s) ''Research endOffset must be greater than startOffset'' @
     issue_if (int (rs_end s) - int (rs_start s) \<noteq> int (length (rs_excerpt s)))
       ''Research offsets must span the exact excerpt'' @
     issue_if (rs_url s \<noteq> rs_final_url s) ''Research url compatibility alias must equal finalUrl'' @
     issue_if (rs_captured_at s \<noteq> rs_retrieved_at s)
       ''Research capturedAt compatibility alias must equal retrievedAt'' @
     issue_if (hd (rs_redirect_chain s) \<noteq> rs_requested_url s)
       ''Research redirect chain must begin with requestedUrl'' @
     issue_if (last (rs_redirect_chain s) \<noteq> rs_final_url s) ''Research redirect chain must end with finalUrl'' @
     issue_if (\<not> distinct (rs_redirect_chain s)) ''Research redirect chain cannot contain a loop'' @
     issue_if (case truthy (rs_canonical_url s) of None \<Rightarrow> False
         | Some u \<Rightarrow> \<not> researchUrlsShareHostnameTree R (rs_requested_url s) u)
       ''Research canonicalUrl is outside the authorized hostname tree'' @
     issue_if (rt_sha256 R (rs_excerpt s) \<noteq> rs_excerpt_digest s) ''Research excerptDigest does not match excerpt''"

fun ProposalSource_ok :: "runtime \<Rightarrow> proposal_source \<Rightarrow> bool" where
  "ProposalSource_ok R (FromIntake s) \<longleftrightarrow> conversation_source_shape s \<and> conversation_source_issues R s = []"
| "ProposalSource_ok R (FromResearch s) \<longleftrightarrow> research_source_shape R s \<and> research_source_issues R s = []"
| "ProposalSource_ok R (FromMessage s) \<longleftrightarrow> conversation_source_shape s \<and> conversation_source_issues R s = []"

fun source_id :: "proposal_source \<Rightarrow> string" where
  "source_id (FromIntake s) = cs_source_id s"
| "source_id (FromResearch s) = rs_source_id s"
| "source_id (FromMessage s) = cs_source_id s"

subsection \<open>Plan, quote and contract\<close>

datatype evidence_basis = CustomerConversation | ConfirmedResearch

record sourced_text =
  st_text :: string
  st_source_ids :: "string list"

record plan_item =
  pi_item_id :: string
  pi_text :: string
  pi_source_ids :: "string list"
  pi_evidence_basis :: evidence_basis

record sourced_requirement = plan_item +
  sq_priority :: priority

record sourced_asset =
  sa_asset_id :: string
  sa_url :: string
  sa_description :: string
  sa_source_ids :: "string list"

record proposal_plan =
  pp_summary :: sourced_text
  pp_deliverables :: "plan_item list"
  pp_requirements :: "sourced_requirement list"
  pp_approved_facts :: "plan_item list"
  pp_assets :: "sourced_asset list"
  pp_exclusions :: "string list"
  pp_unknowns :: "string list"

record money_quote =
  mq_amount_minor :: nat
  mq_currency :: string

definition source_ids_shape :: "string list \<Rightarrow> bool" where
  "source_ids_shape ids \<longleftrightarrow> ids \<noteq> [] \<and> length ids \<le> 100 \<and> list_all orchestration_id ids"

definition plan_item_shape :: "'a plan_item_scheme \<Rightarrow> bool" where
  "plan_item_shape i \<longleftrightarrow> orchestration_id (pi_item_id i) \<and> str_between 1 10000 (pi_text i)
     \<and> source_ids_shape (pi_source_ids i)"

definition plan_shape :: "runtime \<Rightarrow> proposal_plan \<Rightarrow> bool" where
  "plan_shape R p \<longleftrightarrow> str_between 1 20000 (st_text (pp_summary p)) \<and> source_ids_shape (st_source_ids (pp_summary p))
     \<and> pp_deliverables p \<noteq> [] \<and> length (pp_deliverables p) \<le> 500 \<and> list_all plan_item_shape (pp_deliverables p)
     \<and> pp_requirements p \<noteq> [] \<and> length (pp_requirements p) \<le> 500 \<and> list_all plan_item_shape (pp_requirements p)
     \<and> length (pp_approved_facts p) \<le> 500 \<and> list_all plan_item_shape (pp_approved_facts p)
     \<and> length (pp_assets p) \<le> 500
     \<and> list_all (\<lambda>a. orchestration_id (sa_asset_id a) \<and> rt_is_url R (sa_url a)
          \<and> str_between 1 2000 (sa_description a) \<and> source_ids_shape (sa_source_ids a)) (pp_assets p)
     \<and> length (pp_exclusions p) \<le> 500 \<and> list_all (str_between 1 5000) (pp_exclusions p)
     \<and> length (pp_unknowns p) \<le> 500 \<and> list_all (str_between 1 5000) (pp_unknowns p)"

definition quote_shape :: "money_quote \<Rightarrow> bool" where
  "quote_shape q \<longleftrightarrow> safe_positive (mq_amount_minor q) \<and> currency_text (mq_currency q)"

record contract_fact =
  cf_fact_id :: string
  cf_statement :: string
  cf_source_ids :: "string list"

record contract_requirement =
  cq_requirement_id :: string
  cq_description :: string
  cq_priority :: priority
  cq_source_ids :: "string list"
  cq_evidence_basis :: evidence_basis
  cq_verifiers :: "verifier list"

record contract_content =
  oc_contract_id :: string
  oc_project_id :: string
  oc_version :: nat
  oc_parent_version :: "nat option"
  oc_approved_facts :: "contract_fact list"
  oc_forbidden_claims :: "string list"
  oc_requirements :: "contract_requirement list"
  oc_verification :: verification_plan
  oc_created_at :: string

record orchestration_contract = contract_content +
  oc_digest :: string

subsection \<open>The acceptance contract of a proposal\<close>

fun contract_verifier_shape :: "verifier \<Rightarrow> bool" where
  "contract_verifier_shape (CommandVerifier cmd t) \<longleftrightarrow> str_between 1 2000 cmd \<and> int_between 1 900 t"
| "contract_verifier_shape (HttpVerifier path st body) \<longleftrightarrow>
     str_between 1 1000 path \<and> starts_with ''/'' path \<and> \<not> starts_with ''//'' path \<and> CHR 0x5C \<notin> set path
     \<and> int_between 100 599 st \<and> length body \<le> 20 \<and> list_all (str_between 1 500) body"
| "contract_verifier_shape (SemanticVerifier crit) \<longleftrightarrow> str_between 1 2000 crit"

definition contract_requirement_issues :: "contract_requirement \<Rightarrow> string list" where
  "contract_requirement_issues q =
     issue_if (cq_priority q = Hard \<and> cq_verifiers q = []) ''Hard requirements require at least one verifier''"

definition contract_requirement_shape :: "contract_requirement \<Rightarrow> bool" where
  "contract_requirement_shape q \<longleftrightarrow> orchestration_id (cq_requirement_id q) \<and> str_between 1 2000 (cq_description q)
     \<and> source_ids_shape (cq_source_ids q) \<and> length (cq_verifiers q) \<le> 20
     \<and> list_all contract_verifier_shape (cq_verifiers q) \<and> contract_requirement_issues q = []"

definition contract_content_shape :: "runtime \<Rightarrow> 'a contract_content_scheme \<Rightarrow> bool" where
  "contract_content_shape R c \<longleftrightarrow> orchestration_id (oc_contract_id c) \<and> orchestration_id (oc_project_id c)
     \<and> safe_positive (oc_version c) \<and> opt_all safe_positive (oc_parent_version c)
     \<and> length (oc_approved_facts c) \<le> 500
     \<and> list_all (\<lambda>f. orchestration_id (cf_fact_id f) \<and> str_between 1 2000 (cf_statement f)
          \<and> source_ids_shape (cf_source_ids f)) (oc_approved_facts c)
     \<and> length (oc_forbidden_claims c) \<le> 500 \<and> list_all (str_between 1 2000) (oc_forbidden_claims c)
     \<and> oc_requirements c \<noteq> [] \<and> length (oc_requirements c) \<le> 500
     \<and> list_all contract_requirement_shape (oc_requirements c)
     \<and> str_between 1 2000 (vp_build_command (oc_verification c))
     \<and> vp_test_commands (oc_verification c) \<noteq> [] \<and> length (vp_test_commands (oc_verification c)) \<le> 20
     \<and> list_all (str_between 1 2000) (vp_test_commands (oc_verification c))
     \<and> str_between 1 2000 (vp_preview_command (oc_verification c))
     \<and> int_between 1 65535 (vp_preview_port (oc_verification c))
     \<and> rt_is_datetime R (oc_created_at c)"

definition validateAcceptanceContract :: "'a contract_content_scheme \<Rightarrow> string list" where
  "validateAcceptanceContract c =
     issue_if (oc_version c = 1 \<and> oc_parent_version c \<noteq> None)
       ''Acceptance Contract version 1 cannot have a parentVersion'' @
     issue_if (1 < oc_version c \<and> oc_parent_version c \<noteq> Some (oc_version c - 1))
       ''A revised Acceptance Contract must reference the immediately prior version'' @
     dup_issues (\<lambda>i. ''Duplicate approved fact id: '' @ i) {} (map cf_fact_id (oc_approved_facts c)) @
     dup_issues (\<lambda>i. ''Duplicate requirement id: '' @ i) {} (map cq_requirement_id (oc_requirements c))"

definition AcceptanceContractContent_ok :: "runtime \<Rightarrow> 'a contract_content_scheme \<Rightarrow> bool" where
  "AcceptanceContractContent_ok R c \<longleftrightarrow> contract_content_shape R c \<and> validateAcceptanceContract c = []"

text \<open>What a digest is taken over: every field but the digest.\<close>

abbreviation jtext :: "string \<Rightarrow> jsval" where "jtext s \<equiv> JString s"
abbreviation jnum :: "nat \<Rightarrow> jsval" where "jnum n \<equiv> JNumber (of_nat n)"

definition texts_json :: "string list \<Rightarrow> jsval" where
  "texts_json xs = JArray (map JString xs)"

definition opt_num_json :: "nat option \<Rightarrow> jsval" where
  "opt_num_json v = (case v of None \<Rightarrow> JUndefined | Some n \<Rightarrow> jnum n)"

fun basis_text :: "evidence_basis \<Rightarrow> string" where
  "basis_text CustomerConversation = ''customer_conversation''"
| "basis_text ConfirmedResearch = ''confirmed_research''"

definition contract_fact_json :: "contract_fact \<Rightarrow> jsval" where
  "contract_fact_json f = JObject [(''factId'', jtext (cf_fact_id f)), (''statement'', jtext (cf_statement f)),
     (''sourceIds'', texts_json (cf_source_ids f))]"

definition contract_requirement_json :: "contract_requirement \<Rightarrow> jsval" where
  "contract_requirement_json q = JObject [(''requirementId'', jtext (cq_requirement_id q)),
     (''description'', jtext (cq_description q)), (''priority'', jtext (priority_text (cq_priority q))),
     (''sourceIds'', texts_json (cq_source_ids q)), (''evidenceBasis'', jtext (basis_text (cq_evidence_basis q))),
     (''verificationBasis'', jtext ''system_policy''), (''verifiers'', JArray (map verifier_json (cq_verifiers q)))]"

definition contract_fields_json :: "'a contract_content_scheme \<Rightarrow> (string \<times> jsval) list" where
  "contract_fields_json c =
     [(''contractId'', jtext (oc_contract_id c)), (''projectId'', jtext (oc_project_id c)),
      (''version'', jnum (oc_version c)), (''parentVersion'', opt_num_json (oc_parent_version c)),
      (''approvedFacts'', JArray (map contract_fact_json (oc_approved_facts c))),
      (''forbiddenClaims'', texts_json (oc_forbidden_claims c)),
      (''requirements'', JArray (map contract_requirement_json (oc_requirements c))),
      (''verification'', JObject
         [(''origin'', jtext ''system_policy''), (''policyId'', jtext ''buildlabs-proof-gate-v1''),
          (''buildCommand'', jtext (vp_build_command (oc_verification c))),
          (''testCommands'', texts_json (vp_test_commands (oc_verification c))),
          (''previewCommand'', jtext (vp_preview_command (oc_verification c))),
          (''previewPort'', JNumber (of_int (vp_preview_port (oc_verification c))))]),
      (''createdAt'', jtext (oc_created_at c))]"

definition contract_content_json :: "'a contract_content_scheme \<Rightarrow> jsval" where
  "contract_content_json c = JObject (contract_fields_json c)"

definition acceptanceContractDigest :: "runtime \<Rightarrow> contract_content \<Rightarrow> (type_error option) + string" where
  "acceptanceContractDigest R c =
     (if \<not> AcceptanceContractContent_ok R c then Inl None
      else case digestJson R (contract_content_json c) of Inl e \<Rightarrow> Inl (Some e) | Inr d \<Rightarrow> Inr d)"

definition orchestration_contract_issues :: "runtime \<Rightarrow> orchestration_contract \<Rightarrow> string list" where
  "orchestration_contract_issues R c = validateAcceptanceContract c @
     issue_if (digestJson R (contract_content_json c) \<noteq> Inr (oc_digest c))
       ''Acceptance Contract digest does not match its immutable contents''"

definition OrchestrationAcceptanceContract_ok :: "runtime \<Rightarrow> orchestration_contract \<Rightarrow> bool" where
  "OrchestrationAcceptanceContract_ok R c \<longleftrightarrow> contract_content_shape R c \<and> sha256_text (oc_digest c)
     \<and> orchestration_contract_issues R c = []"

subsection \<open>Proposal versions\<close>

record proposal_content =
  pv_proposal_id :: string
  pv_version :: nat
  pv_parent_version :: "nat option"
  pv_commercial_basis :: "nat option"
  pv_change_rationale :: "string option"
  pv_project_title :: string
  pv_build_prompt :: string
  pv_strategy_labels :: "string list"
  pv_sources :: "proposal_source list"
  pv_plan :: proposal_plan
  pv_quote :: money_quote
  pv_contract :: orchestration_contract
  pv_created_at :: string

record proposal_version = proposal_content +
  pv_digest :: string

definition proposal_shape :: "runtime \<Rightarrow> 'a proposal_content_scheme \<Rightarrow> bool" where
  "proposal_shape R p \<longleftrightarrow> orchestration_id (pv_proposal_id p) \<and> safe_positive (pv_version p)
     \<and> opt_all safe_positive (pv_parent_version p) \<and> opt_all safe_positive (pv_commercial_basis p)
     \<and> opt_all (str_between 1 10000) (pv_change_rationale p) \<and> str_between 1 500 (pv_project_title p)
     \<and> str_between 1 100000 (pv_build_prompt p)
     \<and> pv_strategy_labels p \<noteq> [] \<and> length (pv_strategy_labels p) \<le> 4
     \<and> list_all (str_between 1 200) (pv_strategy_labels p)
     \<and> pv_sources p \<noteq> [] \<and> length (pv_sources p) \<le> 2000 \<and> list_all (ProposalSource_ok R) (pv_sources p)
     \<and> plan_shape R (pv_plan p) \<and> quote_shape (pv_quote p)
     \<and> OrchestrationAcceptanceContract_ok R (pv_contract p) \<and> rt_is_datetime R (pv_created_at p)"

text \<open>The conversation sources of a proposal with the key of their origin.\<close>

fun conversation_of :: "proposal_source \<Rightarrow> (string \<times> conversation_source) list" where
  "conversation_of (FromIntake s) = [(''intake:'' @ cs_origin_id s, s)]"
| "conversation_of (FromMessage s) = [(''customer_message:'' @ cs_origin_id s, s)]"
| "conversation_of (FromResearch s) = []"

fun research_of :: "proposal_source \<Rightarrow> research_source list" where
  "research_of (FromResearch s) = [s]"
| "research_of (FromIntake s) = []"
| "research_of (FromMessage s) = []"

definition conversation_sources :: "proposal_source list \<Rightarrow> (string \<times> conversation_source) list" where
  "conversation_sources ss = concat (map conversation_of ss)"

definition research_sources :: "proposal_source list \<Rightarrow> research_source list" where
  "research_sources ss = concat (map research_of ss)"

text \<open>The full minimized source an excerpt must resolve in.\<close>

definition full_conversation :: "(string \<times> conversation_source) list \<Rightarrow> string \<times> conversation_source \<Rightarrow> conversation_source option" where
  "full_conversation cs os =
     map_option snd (find (\<lambda>c. fst c = fst os
        \<and> cs_content_digest (snd c) = cs_content_digest (snd os)
        \<and> cs_minimized_digest (snd c) = cs_minimized_digest (snd os)
        \<and> cs_start (snd c) = 0 \<and> cs_end (snd os) \<le> cs_end (snd c)
        \<and> cs_end (snd c) = length (cs_excerpt (snd c))
        \<and> cs_excerpt_digest (snd c) = cs_minimized_digest (snd c)) cs)"

definition resolve_issue :: "string option \<Rightarrow> nat \<Rightarrow> nat \<Rightarrow> string \<Rightarrow> string \<Rightarrow> string \<Rightarrow> string list" where
  "resolve_issue full a b excerpt missing wrong =
     (case full of None \<Rightarrow> [missing] | Some t \<Rightarrow> issue_if (slice a b t \<noteq> excerpt) wrong)"

text \<open>The loop over conversation sources, with the digests seen per origin.\<close>

fun conversation_issues ::
  "(string \<times> conversation_source) list \<Rightarrow> (string \<rightharpoonup> string) \<Rightarrow> (string \<times> conversation_source) list \<Rightarrow> string list" where
  "conversation_issues all seen [] = []"
| "conversation_issues all seen (os # rest) =
     (let digests = cs_content_digest (snd os) @ '':'' @ cs_minimized_digest (snd os) in
      issue_if (seen (fst os) \<noteq> None \<and> seen (fst os) \<noteq> Some digests)
        ''One conversation origin cannot have conflicting evidence digests'' @
      resolve_issue (map_option cs_excerpt (full_conversation all os)) (cs_start (snd os)) (cs_end (snd os))
        (cs_excerpt (snd os)) ''Conversation evidence has no digest-bound full minimized source''
        ''Conversation evidence offsets do not resolve in the full minimized source'' @
      conversation_issues all (seen(fst os \<mapsto> digests)) rest)"

definition sameResearchProvenance :: "research_source \<Rightarrow> research_source \<Rightarrow> bool" where
  "sameResearchProvenance a b \<longleftrightarrow> rs_url a = rs_url b \<and> rs_requested_url a = rs_requested_url b
     \<and> rs_final_url a = rs_final_url b \<and> rs_captured_at a = rs_captured_at b
     \<and> rs_retrieved_at a = rs_retrieved_at b \<and> rs_title a = rs_title b \<and> rs_publisher a = rs_publisher b
     \<and> rs_canonical_url a = rs_canonical_url b \<and> rs_redirect_chain a = rs_redirect_chain b"

definition full_capture :: "research_source list \<Rightarrow> research_source \<Rightarrow> research_source option" where
  "full_capture rs s =
     find (\<lambda>c. sameResearchProvenance c s \<and> rs_capture_digest c = rs_capture_digest s \<and> rs_start c = 0
        \<and> rs_end s \<le> rs_end c \<and> rs_end c = length (rs_excerpt c) \<and> rs_excerpt_digest c = rs_capture_digest c) rs"

definition research_issues :: "research_source list \<Rightarrow> string list" where
  "research_issues rs =
     concat (map (\<lambda>s. resolve_issue (map_option rs_excerpt (full_capture rs s)) (rs_start s) (rs_end s) (rs_excerpt s)
       ''Research evidence has no digest-bound full capture''
       ''Research evidence offsets do not resolve in the full capture'') rs)"

text \<open>Every \<open>sourceIds\<close> the plan and the contract carry, and the items bound to an evidence basis.\<close>

definition sourced_values :: "'a proposal_content_scheme \<Rightarrow> string list list" where
  "sourced_values p =
     [st_source_ids (pp_summary (pv_plan p))] @ map pi_source_ids (pp_deliverables (pv_plan p)) @
     map pi_source_ids (pp_requirements (pv_plan p)) @ map pi_source_ids (pp_approved_facts (pv_plan p)) @
     map sa_source_ids (pp_assets (pv_plan p)) @ map cf_source_ids (oc_approved_facts (pv_contract p)) @
     map cq_source_ids (oc_requirements (pv_contract p))"

definition evidence_bound_items :: "'a proposal_content_scheme \<Rightarrow> (evidence_basis \<times> string list) list" where
  "evidence_bound_items p =
     map (\<lambda>i. (pi_evidence_basis i, pi_source_ids i)) (pp_deliverables (pv_plan p)) @
     map (\<lambda>i. (pi_evidence_basis i, pi_source_ids i)) (pp_requirements (pv_plan p)) @
     map (\<lambda>q. (cq_evidence_basis q, cq_source_ids q)) (oc_requirements (pv_contract p))"

text \<open>\<open>new Map(sources.map(s => [s.sourceId, s]))\<close>: the last source of an id wins.\<close>

definition source_by_id :: "proposal_source list \<Rightarrow> string \<Rightarrow> proposal_source option" where
  "source_by_id ss i = find (\<lambda>s. source_id s = i) (rev ss)"

fun basis_matches :: "evidence_basis \<Rightarrow> proposal_source \<Rightarrow> bool" where
  "basis_matches CustomerConversation (FromIntake s) = True"
| "basis_matches CustomerConversation (FromMessage s) = True"
| "basis_matches CustomerConversation (FromResearch s) = False"
| "basis_matches ConfirmedResearch (FromResearch s) = True"
| "basis_matches ConfirmedResearch (FromIntake s) = False"
| "basis_matches ConfirmedResearch (FromMessage s) = False"

definition basis_issue :: "proposal_source list \<Rightarrow> evidence_basis \<times> string list \<Rightarrow> string list" where
  "basis_issue ss i =
     issue_if (\<not> list_all (\<lambda>sid. opt_all (basis_matches (fst i)) (source_by_id ss sid) \<and> source_by_id ss sid \<noteq> None) (snd i))
       ''Proposal item evidenceBasis does not match its exact source kind''"

definition validateProposalContent :: "'a proposal_content_scheme \<Rightarrow> string list" where
  "validateProposalContent p =
     issue_if (pv_version p = 1 \<and> pv_parent_version p \<noteq> None) ''Proposal version 1 cannot have a parentVersion'' @
     issue_if (1 < pv_version p \<and> pv_parent_version p \<noteq> Some (pv_version p - 1))
       ''A revised proposal must reference the immediately prior version'' @
     issue_if (case pv_commercial_basis p of None \<Rightarrow> False | Some v \<Rightarrow> pv_version p \<le> v)
       ''A commercial basis must reference an earlier paid proposal version'' @
     issue_if (oc_version (pv_contract p) \<noteq> pv_version p) ''Proposal and Acceptance Contract versions must match'' @
     dup_issues (\<lambda>i. ''Duplicate proposal sourceId: '' @ i) {} (map source_id (pv_sources p)) @
     conversation_issues (conversation_sources (pv_sources p)) Map.empty (conversation_sources (pv_sources p)) @
     research_issues (research_sources (pv_sources p)) @
     concat (map (\<lambda>i. issue_if (i \<notin> source_id ` set (pv_sources p)) (''Unknown proposal sourceId: '' @ i))
       (concat (sourced_values p))) @
     concat (map (basis_issue (pv_sources p)) (evidence_bound_items p)) @
     dup_issues (\<lambda>i. ''Duplicate deliverables item id: '' @ i) {} (map pi_item_id (pp_deliverables (pv_plan p))) @
     dup_issues (\<lambda>i. ''Duplicate requirements item id: '' @ i) {} (map pi_item_id (pp_requirements (pv_plan p))) @
     issue_if (\<not> distinct (pv_strategy_labels p)) ''Proposal strategyLabels must be unique''"

definition ProposalVersionContent_ok :: "runtime \<Rightarrow> 'a proposal_content_scheme \<Rightarrow> bool" where
  "ProposalVersionContent_ok R p \<longleftrightarrow> proposal_shape R p \<and> validateProposalContent p = []"

subsection \<open>The digest of a proposal\<close>

definition opt_text_json :: "string option \<Rightarrow> jsval" where
  "opt_text_json v = (case v of None \<Rightarrow> JUndefined | Some s \<Rightarrow> jtext s)"

definition conversation_json :: "string \<Rightarrow> string \<Rightarrow> conversation_source \<Rightarrow> jsval" where
  "conversation_json kind origin s = JObject [(''sourceId'', jtext (cs_source_id s)), (''kind'', jtext kind),
     (origin, jtext (cs_origin_id s)), (''contentDigest'', jtext (cs_content_digest s)),
     (''minimizedContentDigest'', jtext (cs_minimized_digest s)), (''startOffset'', jnum (cs_start s)),
     (''endOffset'', jnum (cs_end s)), (''excerpt'', jtext (cs_excerpt s)),
     (''excerptDigest'', jtext (cs_excerpt_digest s))]"

fun proposal_source_json :: "proposal_source \<Rightarrow> jsval" where
  "proposal_source_json (FromIntake s) = conversation_json ''intake'' ''intakeId'' s"
| "proposal_source_json (FromMessage s) = conversation_json ''customer_message'' ''messageId'' s"
| "proposal_source_json (FromResearch s) = JObject
     [(''sourceId'', jtext (rs_source_id s)), (''kind'', jtext ''research''), (''url'', jtext (rs_url s)),
      (''requestedUrl'', jtext (rs_requested_url s)), (''finalUrl'', jtext (rs_final_url s)),
      (''redirectChain'', texts_json (rs_redirect_chain s)), (''canonicalUrl'', opt_text_json (rs_canonical_url s)),
      (''title'', opt_text_json (rs_title s)), (''publisher'', opt_text_json (rs_publisher s)),
      (''capturedAt'', jtext (rs_captured_at s)), (''retrievedAt'', jtext (rs_retrieved_at s)),
      (''captureDigest'', jtext (rs_capture_digest s)), (''startOffset'', jnum (rs_start s)),
      (''endOffset'', jnum (rs_end s)), (''excerpt'', jtext (rs_excerpt s)),
      (''excerptDigest'', jtext (rs_excerpt_digest s)), (''promptInjectionChecked'', JBool True)]"

definition plan_item_fields :: "'a plan_item_scheme \<Rightarrow> (string \<times> jsval) list" where
  "plan_item_fields i = [(''itemId'', jtext (pi_item_id i)), (''text'', jtext (pi_text i)),
     (''sourceIds'', texts_json (pi_source_ids i)), (''evidenceBasis'', jtext (basis_text (pi_evidence_basis i)))]"

definition plan_json :: "proposal_plan \<Rightarrow> jsval" where
  "plan_json p = JObject
     [(''summary'', JObject [(''text'', jtext (st_text (pp_summary p))),
                             (''sourceIds'', texts_json (st_source_ids (pp_summary p)))]),
      (''deliverables'', JArray (map (\<lambda>i. JObject (plan_item_fields i)) (pp_deliverables p))),
      (''requirements'', JArray (map (\<lambda>i. JObject (plan_item_fields i @
         [(''priority'', jtext (priority_text (sq_priority i))), (''verificationBasis'', jtext ''system_policy'')]))
         (pp_requirements p))),
      (''approvedFacts'', JArray (map (\<lambda>i. JObject (plan_item_fields i)) (pp_approved_facts p))),
      (''assets'', JArray (map (\<lambda>a. JObject [(''assetId'', jtext (sa_asset_id a)), (''url'', jtext (sa_url a)),
         (''description'', jtext (sa_description a)), (''sourceIds'', texts_json (sa_source_ids a))]) (pp_assets p))),
      (''exclusions'', texts_json (pp_exclusions p)), (''unknowns'', texts_json (pp_unknowns p))]"

definition proposal_content_json :: "'a proposal_content_scheme \<Rightarrow> jsval" where
  "proposal_content_json p = JObject
     [(''proposalId'', jtext (pv_proposal_id p)), (''version'', jnum (pv_version p)),
      (''parentVersion'', opt_num_json (pv_parent_version p)),
      (''commercialBasisVersion'', opt_num_json (pv_commercial_basis p)),
      (''changeRationale'', opt_text_json (pv_change_rationale p)),
      (''projectTitle'', jtext (pv_project_title p)), (''buildPrompt'', jtext (pv_build_prompt p)),
      (''strategyLabels'', texts_json (pv_strategy_labels p)),
      (''sources'', JArray (map proposal_source_json (pv_sources p))), (''plan'', plan_json (pv_plan p)),
      (''quote'', JObject [(''amountMinor'', jnum (mq_amount_minor (pv_quote p))),
                           (''currency'', jtext (mq_currency (pv_quote p)))]),
      (''contract'', JObject (contract_fields_json (pv_contract p) @ [(''digest'', jtext (oc_digest (pv_contract p)))])),
      (''createdAt'', jtext (pv_created_at p))]"

definition proposalDigest :: "runtime \<Rightarrow> proposal_content \<Rightarrow> (type_error option) + string" where
  "proposalDigest R p =
     (if \<not> ProposalVersionContent_ok R p then Inl None
      else case digestJson R (proposal_content_json p) of Inl e \<Rightarrow> Inl (Some e) | Inr d \<Rightarrow> Inr d)"

definition proposal_version_issues :: "runtime \<Rightarrow> proposal_version \<Rightarrow> string list" where
  "proposal_version_issues R p = validateProposalContent p @
     issue_if (digestJson R (proposal_content_json p) \<noteq> Inr (pv_digest p))
       ''Proposal digest does not match its immutable contents''"

definition ProposalVersion_ok :: "runtime \<Rightarrow> proposal_version \<Rightarrow> bool" where
  "ProposalVersion_ok R p \<longleftrightarrow> proposal_shape R p \<and> sha256_text (pv_digest p) \<and> proposal_version_issues R p = []"

subsection \<open>What an accepted proposal guarantees\<close>

lemma resolve_issue_Nil:
  "resolve_issue full a b e m w = [] \<longleftrightarrow> (\<exists>t. full = Some t \<and> slice a b t = e)"
  by (cases full) (auto simp: resolve_issue_def)

lemma conversation_issues_resolve:
  "conversation_issues all seen os = [] \<Longrightarrow> x \<in> set os \<Longrightarrow>
    \<exists>t. map_option cs_excerpt (full_conversation all x) = Some t \<and> slice (cs_start (snd x)) (cs_end (snd x)) t = cs_excerpt (snd x)"
  by (induction all seen os rule: conversation_issues.induct) (auto simp: Let_def resolve_issue_Nil)

text \<open>Every conversation excerpt is the text at its offsets in a source whose digest is the minimized
  content's.\<close>

lemma full_conversation_SomeD:
  assumes "full_conversation cs os = Some f"
  shows "\<exists>o'. (o', f) \<in> set cs \<and> o' = fst os \<and> cs_minimized_digest f = cs_minimized_digest (snd os)
    \<and> cs_excerpt_digest f = cs_minimized_digest f \<and> cs_start f = 0 \<and> cs_end f = length (cs_excerpt f)"
  using assms by (force simp: full_conversation_def dest: find_eq_SomeD)

lemma research_issues_Nil:
  "research_issues rs = [] \<longleftrightarrow> (\<forall>s \<in> set rs. \<exists>f. full_capture rs s = Some f
     \<and> slice (rs_start s) (rs_end s) (rs_excerpt f) = rs_excerpt s)"
  by (auto simp: research_issues_def concat_map_Nil resolve_issue_Nil)

lemma validateProposalContent_Nil:
  "validateProposalContent p = [] \<longleftrightarrow>
     (pv_version p = 1 \<longrightarrow> pv_parent_version p = None)
     \<and> (1 < pv_version p \<longrightarrow> pv_parent_version p = Some (pv_version p - 1))
     \<and> (\<forall>v. pv_commercial_basis p = Some v \<longrightarrow> v < pv_version p)
     \<and> oc_version (pv_contract p) = pv_version p
     \<and> distinct (map source_id (pv_sources p))
     \<and> conversation_issues (conversation_sources (pv_sources p)) Map.empty (conversation_sources (pv_sources p)) = []
     \<and> research_issues (research_sources (pv_sources p)) = []
     \<and> (\<forall>ids \<in> set (sourced_values p). set ids \<subseteq> source_id ` set (pv_sources p))
     \<and> (\<forall>i \<in> set (evidence_bound_items p). basis_issue (pv_sources p) i = [])
     \<and> distinct (map pi_item_id (pp_deliverables (pv_plan p)))
     \<and> distinct (map pi_item_id (pp_requirements (pv_plan p)))
     \<and> distinct (pv_strategy_labels p)"
proof -
  have "concat (map (\<lambda>i. issue_if (i \<notin> S) (m i)) (concat vs)) = [] \<longleftrightarrow> (\<forall>ids \<in> set vs. set ids \<subseteq> S)"
    for S :: "string set" and m vs by (auto simp: concat_map_Nil)
  moreover have "issue_if (case b of None \<Rightarrow> False | Some v \<Rightarrow> n \<le> v) m = [] \<longleftrightarrow> (\<forall>v. b = Some v \<longrightarrow> v < n)"
    for b :: "nat option" and n m by (cases b) auto
  ultimately show ?thesis
    by (simp add: validateProposalContent_def concat_map_Nil)
qed

lemma basis_issue_Nil:
  "basis_issue ss i = [] \<longleftrightarrow> (\<forall>sid \<in> set (snd i). \<exists>s. source_by_id ss sid = Some s \<and> basis_matches (fst i) s)"
  by (auto simp: basis_issue_def list_all_iff)

lemma source_by_id_SomeD: "source_by_id ss i = Some s \<Longrightarrow> s \<in> set ss \<and> source_id s = i"
  by (auto simp: source_by_id_def dest: find_eq_SomeD)

end
