(* ===== verification/Project_Aggregate.thy ===== *)
theory Project_Aggregate
  imports Project
begin

text \<open>
  \<open>src/orchestration/domain/project.ts\<close>, second part: checkout, payment, build batch, proven
  candidate, preview, deployment, message, error and effect records, the project aggregate that
  owns them, and its refinement, which binds every record to the proposal, payment, batch and
  candidate it claims.  The lemmas turn an empty issue list into those bindings.
\<close>

subsection \<open>Payment\<close>

datatype checkout_status = CheckoutOpen | CheckoutComplete | CheckoutExpired | CheckoutCancelled

record checkout_session =
  ck_session_id :: string
  ck_project_id :: string
  ck_proposal_version :: nat
  ck_proposal_digest :: string
  ck_amount_minor :: nat
  ck_currency :: string
  ck_url :: string
  ck_status :: checkout_status
  ck_expires_at :: string
  ck_created_at :: string
  ck_updated_at :: string

definition checkout_shape :: "runtime \<Rightarrow> checkout_session \<Rightarrow> bool" where
  "checkout_shape R c \<longleftrightarrow> orchestration_id (ck_session_id c) \<and> orchestration_id (ck_project_id c)
     \<and> safe_positive (ck_proposal_version c) \<and> sha256_text (ck_proposal_digest c)
     \<and> safe_positive (ck_amount_minor c) \<and> currency_text (ck_currency c) \<and> rt_is_url R (ck_url c)
     \<and> rt_is_datetime R (ck_expires_at c) \<and> rt_is_datetime R (ck_created_at c) \<and> rt_is_datetime R (ck_updated_at c)"

datatype verification_source = SignedWebhook | ProviderApi

record payment_receipt =
  pm_receipt_id :: string
  pm_provider_event_id :: string
  pm_provider_evidence_digest :: string
  pm_checkout_session_id :: string
  pm_payment_intent_id :: string
  pm_project_id :: string
  pm_proposal_id :: string
  pm_proposal_version :: nat
  pm_proposal_digest :: string
  pm_amount_minor :: nat
  pm_amount_received_minor :: nat
  pm_currency :: string
  pm_customer_email_digest :: string
  pm_customer_id :: "string option"
  pm_intent_created_at :: string
  pm_verification_source :: verification_source
  pm_signature_verified :: bool
  pm_signed_event_digest :: "string option"
  pm_paid_at :: string
  pm_verified_at :: string
  pm_livemode :: bool

definition payment_shape :: "runtime \<Rightarrow> payment_receipt \<Rightarrow> bool" where
  "payment_shape R p \<longleftrightarrow> orchestration_id (pm_receipt_id p) \<and> orchestration_id (pm_provider_event_id p)
     \<and> sha256_text (pm_provider_evidence_digest p) \<and> orchestration_id (pm_checkout_session_id p)
     \<and> orchestration_id (pm_payment_intent_id p) \<and> orchestration_id (pm_project_id p)
     \<and> orchestration_id (pm_proposal_id p) \<and> safe_positive (pm_proposal_version p)
     \<and> sha256_text (pm_proposal_digest p) \<and> safe_positive (pm_amount_minor p)
     \<and> safe_positive (pm_amount_received_minor p) \<and> currency_text (pm_currency p)
     \<and> sha256_text (pm_customer_email_digest p) \<and> opt_all orchestration_id (pm_customer_id p)
     \<and> rt_is_datetime R (pm_intent_created_at p) \<and> opt_all sha256_text (pm_signed_event_digest p)
     \<and> rt_is_datetime R (pm_paid_at p) \<and> rt_is_datetime R (pm_verified_at p)"

definition payment_issues :: "payment_receipt \<Rightarrow> string list" where
  "payment_issues p =
     issue_if (pm_signature_verified p \<noteq> (pm_verification_source p = SignedWebhook)
         \<or> pm_signature_verified p \<noteq> (pm_signed_event_digest p \<noteq> None))
       ''Payment signature evidence must truthfully match its source and signed-event digest''"

definition PaymentReceipt_ok :: "runtime \<Rightarrow> payment_receipt \<Rightarrow> bool" where
  "PaymentReceipt_ok R p \<longleftrightarrow> payment_shape R p \<and> payment_issues p = []"

subsection \<open>Builds\<close>

record build_run_identity =
  bi_run_id :: string
  bi_candidate_id :: string
  bi_assignment_id :: string
  bi_status :: run_status

datatype batch_status =
    BatchPending | BatchDispatched | BatchBuilding | BatchVerifying | BatchCompleted | BatchFailed | BatchCancelled

record build_batch =
  bb_batch_id :: string
  bb_project_id :: string
  bb_proposal_version :: nat
  bb_proposal_digest :: string
  bb_payment_receipt_id :: string
  bb_payment_proposal_version :: nat
  bb_contract_version :: nat
  bb_contract_digest :: string
  bb_build_contract_hash :: string
  bb_requested_candidate_count :: nat
  bb_runs :: "build_run_identity list"
  bb_build_deadline_at :: "string option"
  bb_proof_event_deadline_at :: "string option"
  bb_status :: batch_status
  bb_created_at :: string
  bb_completed_at :: "string option"

definition batch_shape :: "runtime \<Rightarrow> build_batch \<Rightarrow> bool" where
  "batch_shape R b \<longleftrightarrow> orchestration_id (bb_batch_id b) \<and> orchestration_id (bb_project_id b)
     \<and> safe_positive (bb_proposal_version b) \<and> sha256_text (bb_proposal_digest b)
     \<and> orchestration_id (bb_payment_receipt_id b) \<and> safe_positive (bb_payment_proposal_version b)
     \<and> safe_positive (bb_contract_version b) \<and> sha256_text (bb_contract_digest b)
     \<and> sha256_text (bb_build_contract_hash b)
     \<and> 1 \<le> bb_requested_candidate_count b \<and> bb_requested_candidate_count b \<le> 4
     \<and> length (bb_runs b) \<le> 4
     \<and> list_all (\<lambda>r. orchestration_id (bi_run_id r) \<and> orchestration_id (bi_candidate_id r)
          \<and> orchestration_id (bi_assignment_id r)) (bb_runs b)
     \<and> opt_all (rt_is_datetime R) (bb_build_deadline_at b) \<and> opt_all (rt_is_datetime R) (bb_proof_event_deadline_at b)
     \<and> rt_is_datetime R (bb_created_at b) \<and> opt_all (rt_is_datetime R) (bb_completed_at b)"

text \<open>\<open>Date.parse(a) < Date.parse(b)\<close> and \<open><=\<close>: false as soon as one of them is NaN.\<close>

definition date_less :: "runtime \<Rightarrow> string \<Rightarrow> string \<Rightarrow> bool" where
  "date_less R a b \<longleftrightarrow> (case (rt_date_parse R a, rt_date_parse R b) of (Some x, Some y) \<Rightarrow> x < y | _ \<Rightarrow> False)"

definition date_le :: "runtime \<Rightarrow> string \<Rightarrow> string \<Rightarrow> bool" where
  "date_le R a b \<longleftrightarrow> (case (rt_date_parse R a, rt_date_parse R b) of (Some x, Some y) \<Rightarrow> x \<le> y | _ \<Rightarrow> False)"

fun run_identity_issues :: "string set \<Rightarrow> string set \<Rightarrow> build_run_identity list \<Rightarrow> string list" where
  "run_identity_issues runs cands [] = []"
| "run_identity_issues runs cands (r # rs) =
     issue_if (bi_run_id r \<in> runs) (''Duplicate build run id: '' @ bi_run_id r) @
     issue_if (bi_candidate_id r \<in> cands) (''Duplicate candidate id: '' @ bi_candidate_id r) @
     run_identity_issues (insert (bi_run_id r) runs) (insert (bi_candidate_id r) cands) rs"

definition batch_issues :: "runtime \<Rightarrow> build_batch \<Rightarrow> string list" where
  "batch_issues R b =
     issue_if (bb_requested_candidate_count b < length (bb_runs b))
       ''Build batch has more runs than requested candidates'' @
     issue_if (case bb_build_deadline_at b of None \<Rightarrow> False | Some d \<Rightarrow> date_le R d (bb_created_at b))
       ''Build deadline must be later than batch creation'' @
     issue_if (case bb_proof_event_deadline_at b of None \<Rightarrow> False | Some d \<Rightarrow> date_less R d (bb_created_at b))
       ''Proof-event deadline cannot predate batch creation'' @
     run_identity_issues {} {} (bb_runs b)"

definition BuildBatch_ok :: "runtime \<Rightarrow> build_batch \<Rightarrow> bool" where
  "BuildBatch_ok R b \<longleftrightarrow> batch_shape R b \<and> batch_issues R b = []"

record proven_candidate =
  pcd_batch_id :: string
  pcd_proposal_version :: nat
  pcd_proposal_digest :: string
  pcd_event :: outbox_event
  pcd_received_at :: string

definition ProvenCandidate_ok :: "runtime \<Rightarrow> proven_candidate \<Rightarrow> bool" where
  "ProvenCandidate_ok R c \<longleftrightarrow> orchestration_id (pcd_batch_id c) \<and> safe_positive (pcd_proposal_version c)
     \<and> sha256_text (pcd_proposal_digest c) \<and> OutboxEvent_ok R (pcd_event c) \<and> rt_is_datetime R (pcd_received_at c)"

subsection \<open>Previews and deployments\<close>

record project_preview =
  pw_receipt_id :: string
  pw_project_id :: string
  pw_batch_id :: string
  pw_run_id :: string
  pw_candidate_id :: string
  pw_proposal_version :: nat
  pw_proposal_digest :: string
  pw_revision_hash :: string
  pw_artifact_digest :: string
  pw_snapshot_id :: string
  pw_url :: string
  pw_expires_at :: string
  pw_created_at :: string
  pw_verified_at :: string

definition project_preview_shape :: "runtime \<Rightarrow> project_preview \<Rightarrow> bool" where
  "project_preview_shape R p \<longleftrightarrow> orchestration_id (pw_receipt_id p) \<and> orchestration_id (pw_project_id p)
     \<and> orchestration_id (pw_batch_id p) \<and> orchestration_id (pw_run_id p) \<and> orchestration_id (pw_candidate_id p)
     \<and> safe_positive (pw_proposal_version p) \<and> sha256_text (pw_proposal_digest p)
     \<and> sha256_text (pw_revision_hash p) \<and> sha256_text (pw_artifact_digest p)
     \<and> str_between 1 512 (pw_snapshot_id p) \<and> rt_is_url R (pw_url p) \<and> rt_is_datetime R (pw_expires_at p)
     \<and> rt_is_datetime R (pw_created_at p) \<and> rt_is_datetime R (pw_verified_at p)"

record deployment_receipt =
  dp_receipt_id :: string
  dp_project_id :: string
  dp_batch_id :: string
  dp_run_id :: string
  dp_candidate_id :: string
  dp_proposal_version :: nat
  dp_proposal_digest :: string
  dp_revision_hash :: string
  dp_artifact_digest :: string
  dp_release_id :: string
  dp_release_key :: string
  dp_release_version :: nat
  dp_image_digest :: string
  dp_workspace_digest :: string
  dp_machine_ids :: "string list"
  dp_machine_instance_ids :: "string list"
  dp_deployment_attempted :: bool
  dp_recovered_from_provider :: bool
  dp_url :: string
  dp_deployed_at :: string
  dp_release_verified_at :: string
  dp_verified_at :: string

definition deployment_shape :: "runtime \<Rightarrow> deployment_receipt \<Rightarrow> bool" where
  "deployment_shape R d \<longleftrightarrow> orchestration_id (dp_receipt_id d) \<and> orchestration_id (dp_project_id d)
     \<and> orchestration_id (dp_batch_id d) \<and> orchestration_id (dp_run_id d) \<and> orchestration_id (dp_candidate_id d)
     \<and> safe_positive (dp_proposal_version d) \<and> sha256_text (dp_proposal_digest d)
     \<and> sha256_text (dp_revision_hash d) \<and> sha256_text (dp_artifact_digest d) \<and> orchestration_id (dp_release_id d)
     \<and> sha256_text (dp_release_key d) \<and> safe_positive (dp_release_version d)
     \<and> starts_with ''sha256:'' (dp_image_digest d) \<and> sha256_text (drop 7 (dp_image_digest d))
     \<and> sha256_text (dp_workspace_digest d)
     \<and> dp_machine_ids d \<noteq> [] \<and> length (dp_machine_ids d) \<le> 1000 \<and> list_all orchestration_id (dp_machine_ids d)
     \<and> dp_machine_instance_ids d \<noteq> [] \<and> length (dp_machine_instance_ids d) \<le> 1000
     \<and> list_all orchestration_id (dp_machine_instance_ids d)
     \<and> rt_is_url R (dp_url d) \<and> rt_is_datetime R (dp_deployed_at d) \<and> rt_is_datetime R (dp_release_verified_at d)
     \<and> rt_is_datetime R (dp_verified_at d)"

definition deployment_issues :: "runtime \<Rightarrow> deployment_receipt \<Rightarrow> string list" where
  "deployment_issues R d =
     issue_if (length (dp_machine_ids d) \<noteq> length (dp_machine_instance_ids d)
         \<or> \<not> distinct (dp_machine_ids d) \<or> \<not> distinct (dp_machine_instance_ids d))
       ''Fly machine identities must be unique one-to-one pairs'' @
     issue_if (date_less R (dp_release_verified_at d) (dp_deployed_at d)
         \<or> date_less R (dp_verified_at d) (dp_release_verified_at d))
       ''Deployment, release verification, and health verification timestamps are out of order''"

definition DeploymentReceipt_ok :: "runtime \<Rightarrow> deployment_receipt \<Rightarrow> bool" where
  "DeploymentReceipt_ok R d \<longleftrightarrow> deployment_shape R d \<and> deployment_issues R d = []"

subsection \<open>Messages, errors and durable effects\<close>

datatype message_purpose =
    IntakeMail | EmailVerification | Clarification | ProposalMail | CustomerRevision | PaymentConfirmation
  | DashboardAccess | ProvenPreviewMail | Steering | FinalDelivery | OperatorNotice

datatype message_direction = Inbound | Outbound

datatype message_channel = ChannelDashboard | ChannelEmail | ChannelText | ChannelVoice

datatype delivery_status = MailReceived | MailPending | MailSent | MailDelivered | MailBounced | MailFailed

record project_message =
  mg_message_id :: string
  mg_direction :: message_direction
  mg_channel :: message_channel
  mg_purpose :: message_purpose
  mg_provider :: string
  mg_provider_message_id :: "string option"
  mg_rfc_message_id :: "string option"
  mg_thread_id :: "string option"
  mg_in_reply_to :: "string option"
  mg_references :: "string list"
  mg_subject :: "string option"
  mg_content :: string
  mg_content_digest :: string
  mg_sender_authenticated :: bool
  mg_delivery_status :: delivery_status
  mg_created_at :: string
  mg_delivery_updated_at :: "string option"

definition message_shape :: "runtime \<Rightarrow> project_message \<Rightarrow> bool" where
  "message_shape R m \<longleftrightarrow> orchestration_id (mg_message_id m) \<and> provider_text (mg_provider m)
     \<and> opt_all orchestration_id (mg_provider_message_id m) \<and> opt_all orchestration_id (mg_rfc_message_id m)
     \<and> opt_all orchestration_id (mg_thread_id m) \<and> opt_all orchestration_id (mg_in_reply_to m)
     \<and> length (mg_references m) \<le> 500 \<and> list_all orchestration_id (mg_references m)
     \<and> opt_all (str_between 1 998) (mg_subject m) \<and> str_between 1 1500000 (mg_content m)
     \<and> sha256_text (mg_content_digest m) \<and> rt_is_datetime R (mg_created_at m)
     \<and> opt_all (rt_is_datetime R) (mg_delivery_updated_at m)"

text \<open>\<open>/^resend-message:[A-Za-z0-9_-]+$/\<close>.\<close>

definition resend_message_id :: "string \<Rightarrow> bool" where
  "resend_message_id s \<longleftrightarrow> starts_with ''resend-message:'' s \<and> drop 15 s \<noteq> []
     \<and> list_all (\<lambda>c. is_alnum c \<or> one_of ''_-'' c) (drop 15 s)"

definition message_issues :: "runtime \<Rightarrow> project_message \<Rightarrow> string list" where
  "message_issues R m =
     issue_if (rt_sha256 R (mg_content m) \<noteq> mg_content_digest m) ''Message contentDigest does not match content'' @
     issue_if (mg_direction m = Outbound \<and> mg_channel m = ChannelEmail \<and> mg_provider m = ''resend''
         \<and> (case truthy (mg_rfc_message_id m) of None \<Rightarrow> True | Some i \<Rightarrow> \<not> resend_message_id i))
       ''Outbound Resend mail requires a reversible persisted RFC Message-ID'' @
     issue_if (mg_delivery_status m \<in> {MailDelivered, MailBounced, MailFailed}
         \<and> truthy (mg_delivery_updated_at m) = None)
       ''Terminal mail delivery status requires its provider timestamp''"

definition ProjectMessage_ok :: "runtime \<Rightarrow> project_message \<Rightarrow> bool" where
  "ProjectMessage_ok R m \<longleftrightarrow> message_shape R m \<and> message_issues R m = []"

datatype error_category = TransientError | PermanentError | PolicyError | SecurityError

record orchestration_error =
  oe_error_id :: string
  oe_code :: string
  oe_category :: error_category
  oe_message :: string
  oe_retryable :: bool
  oe_effect_key :: "string option"
  oe_occurred_at :: string

text \<open>\<open>/^[a-z][a-z0-9_.-]*$/\<close> with a length of 1 to 128.\<close>

definition error_code_text :: "string \<Rightarrow> bool" where
  "error_code_text s \<longleftrightarrow> str_between 1 128 s \<and>
     (case s of [] \<Rightarrow> False | c # cs \<Rightarrow> is_lower c \<and> list_all (\<lambda>d. is_lower d \<or> is_digit d \<or> one_of ''_.-'' d) cs)"

definition OrchestrationError_ok :: "runtime \<Rightarrow> orchestration_error \<Rightarrow> bool" where
  "OrchestrationError_ok R e \<longleftrightarrow> orchestration_id (oe_error_id e) \<and> error_code_text (oe_code e)
     \<and> str_between 1 20000 (oe_message e) \<and> opt_all idempotency_key (oe_effect_key e)
     \<and> rt_is_datetime R (oe_occurred_at e)"

datatype effect_type =
    ResearchBusiness | SendEmailVerification | SendDashboardLogin | SendClarification | CreateCheckoutSession
  | ExpireCheckoutSession | SendProposal | ReconcilePayment | SendPaymentConfirmation | SendDashboardAccess
  | SendSteeringAcknowledgement | DispatchBuildBatch | CancelBuildRun | AcknowledgeProvenEvent
  | MaterializeProvenPreview | RefreshProvenPreview | SendProvenPreview | ReconcileMailDelivery
  | DeployProvenCandidate | VerifyDeployment | PersistProofSummarySnapshot | SendFinalDelivery

datatype effect_status = EffectPending | EffectCompleted | EffectFailed

record durable_effect =
  ef_key :: string
  ef_type :: effect_type
  ef_status :: effect_status
  ef_attempts :: nat
  ef_input_digest :: string
  ef_provider_id :: "string option"
  ef_receipt_digest :: "string option"
  ef_proof_snapshot_id :: "string option"
  ef_proof_snapshot_digest :: "string option"
  ef_error :: "orchestration_error option"
  ef_next_attempt_at :: "string option"
  ef_next_check_at :: "string option"
  ef_created_at :: string
  ef_updated_at :: string
  ef_completed_at :: "string option"

definition effect_shape :: "runtime \<Rightarrow> durable_effect \<Rightarrow> bool" where
  "effect_shape R e \<longleftrightarrow> idempotency_key (ef_key e) \<and> safe_nat (ef_attempts e) \<and> sha256_text (ef_input_digest e)
     \<and> opt_all orchestration_id (ef_provider_id e) \<and> opt_all sha256_text (ef_receipt_digest e)
     \<and> opt_all orchestration_id (ef_proof_snapshot_id e) \<and> opt_all sha256_text (ef_proof_snapshot_digest e)
     \<and> opt_all (OrchestrationError_ok R) (ef_error e) \<and> opt_all (rt_is_datetime R) (ef_next_attempt_at e)
     \<and> opt_all (rt_is_datetime R) (ef_next_check_at e) \<and> rt_is_datetime R (ef_created_at e)
     \<and> rt_is_datetime R (ef_updated_at e) \<and> opt_all (rt_is_datetime R) (ef_completed_at e)"

definition proof_bound :: "durable_effect \<Rightarrow> bool" where
  "proof_bound e \<longleftrightarrow> ef_type e = PersistProofSummarySnapshot \<or> ef_type e = SendFinalDelivery"

definition effect_issues :: "durable_effect \<Rightarrow> string list" where
  "effect_issues e =
     issue_if (ef_status e = EffectCompleted \<and> truthy (ef_completed_at e) = None)
       ''A completed effect requires completedAt'' @
     issue_if (ef_status e = EffectFailed \<and> ef_error e = None) ''A failed effect requires an error'' @
     issue_if (ef_status e \<noteq> EffectPending \<and> ef_next_attempt_at e \<noteq> None)
       ''Only a pending effect may have a next retry time'' @
     issue_if (ef_next_attempt_at e \<noteq> None \<and> ef_error e = None)
       ''A scheduled retry requires its last safe error'' @
     issue_if (ef_status e \<noteq> EffectPending \<and> ef_next_check_at e \<noteq> None)
       ''Only a pending effect may have a next provider check time'' @
     issue_if (ef_next_attempt_at e \<noteq> None \<and> ef_next_check_at e \<noteq> None)
       ''A failed retry and a healthy provider recheck cannot be scheduled together'' @
     issue_if (ef_type e = PersistProofSummarySnapshot \<and> ef_status e \<noteq> EffectFailed
         \<and> (truthy (ef_proof_snapshot_id e) = None \<or> truthy (ef_proof_snapshot_digest e) = None))
       ''Proof publication and delivery effects require an exact snapshot identity and digest'' @
     issue_if ((ef_proof_snapshot_id e = None) \<noteq> (ef_proof_snapshot_digest e = None))
       ''Proof snapshot identity and digest must be stored together'' @
     issue_if (\<not> proof_bound e \<and> (ef_proof_snapshot_id e \<noteq> None \<or> ef_proof_snapshot_digest e \<noteq> None))
       ''Only proof publication and delivery effects may bind a snapshot''"

definition DurableEffect_ok :: "runtime \<Rightarrow> durable_effect \<Rightarrow> bool" where
  "DurableEffect_ok R e \<longleftrightarrow> effect_shape R e \<and> effect_issues e = []"

subsection \<open>The project aggregate\<close>

datatype lifecycle_status =
    IntakeReceived | NeedsClarification | Researching | ProposalDrafting | AwaitingCustomerRevision
  | AwaitingPayment | PaymentVerificationFailed | Paid | Building | Verifying | NoProvenCandidate
  | PreviewReady | RevisionPending | Deploying | DeploymentVerificationFailed | Delivering
  | ProjectCompleted | ProjectCancelled | ProjectFailed | NeedsOperatorAttention

record project =
  pj_project_id :: string
  pj_revision :: nat
  pj_status :: lifecycle_status
  pj_intake :: intake
  pj_customer :: customer_profile
  pj_proposals :: "proposal_version list"
  pj_active_proposal :: "nat option"
  pj_paid_proposal :: "nat option"
  pj_checkouts :: "checkout_session list"
  pj_payments :: "payment_receipt list"
  pj_batches :: "build_batch list"
  pj_active_batch_id :: "string option"
  pj_candidates :: "proven_candidate list"
  pj_previews :: "project_preview list"
  pj_deployments :: "deployment_receipt list"
  pj_messages :: "project_message list"
  pj_open_questions :: "string list"
  pj_effects :: "durable_effect list"
  pj_errors :: "orchestration_error list"
  pj_created_at :: string
  pj_updated_at :: string

definition project_shape :: "runtime \<Rightarrow> project \<Rightarrow> bool" where
  "project_shape R p \<longleftrightarrow> orchestration_id (pj_project_id p) \<and> safe_nat (pj_revision p)
     \<and> Intake_ok R (pj_intake p) \<and> CustomerProfile_ok R (pj_customer p)
     \<and> length (pj_proposals p) \<le> 1000 \<and> list_all (ProposalVersion_ok R) (pj_proposals p)
     \<and> opt_all safe_positive (pj_active_proposal p) \<and> opt_all safe_positive (pj_paid_proposal p)
     \<and> length (pj_checkouts p) \<le> 2000 \<and> list_all (checkout_shape R) (pj_checkouts p)
     \<and> length (pj_payments p) \<le> 1000 \<and> list_all (PaymentReceipt_ok R) (pj_payments p)
     \<and> length (pj_batches p) \<le> 1000 \<and> list_all (BuildBatch_ok R) (pj_batches p)
     \<and> opt_all orchestration_id (pj_active_batch_id p)
     \<and> length (pj_candidates p) \<le> 4000 \<and> list_all (ProvenCandidate_ok R) (pj_candidates p)
     \<and> length (pj_previews p) \<le> 1000 \<and> list_all (project_preview_shape R) (pj_previews p)
     \<and> length (pj_deployments p) \<le> 1000 \<and> list_all (DeploymentReceipt_ok R) (pj_deployments p)
     \<and> length (pj_messages p) \<le> 10000 \<and> list_all (ProjectMessage_ok R) (pj_messages p)
     \<and> length (pj_open_questions p) \<le> 20 \<and> list_all (str_between 1 1000) (pj_open_questions p)
     \<and> length (pj_effects p) \<le> 10000 \<and> list_all (DurableEffect_ok R) (pj_effects p)
     \<and> length (pj_errors p) \<le> 10000 \<and> list_all (OrchestrationError_ok R) (pj_errors p)
     \<and> rt_is_datetime R (pj_created_at p) \<and> rt_is_datetime R (pj_updated_at p)"

subsection \<open>The refinement of the aggregate\<close>

text \<open>A \<open>Map\<close> filled in list order: the last entry of a key wins.\<close>

definition map_get :: "('r \<Rightarrow> 'k) \<Rightarrow> 'r list \<Rightarrow> 'k \<Rightarrow> 'r option" where
  "map_get key rows k = find (\<lambda>r. key r = k) (rev rows)"

lemma map_get_SomeD: "map_get key rows k = Some r \<Longrightarrow> r \<in> set rows \<and> key r = k"
  by (auto simp: map_get_def dest: find_eq_SomeD)

lemma map_get_None: "map_get key rows k = None \<longleftrightarrow> k \<notin> key ` set rows"
  by (auto simp: map_get_def find_is_None)

lemma map_get_unique: "distinct (map key rows) \<Longrightarrow> r \<in> set rows \<Longrightarrow> map_get key rows (key r) = Some r"
  unfolding map_get_def by (rule find_key_unique) (simp_all add: rev_map [symmetric])

definition proposal_at :: "project \<Rightarrow> nat \<Rightarrow> proposal_version option" where
  "proposal_at p v = map_get pv_version (pj_proposals p) v"

definition consent_binding_issues :: "project \<Rightarrow> string list" where
  "consent_binding_issues p =
     issue_if (case truthy (rc_source_intake_id (cp_research_consent (pj_customer p))) of None \<Rightarrow> False
         | Some i \<Rightarrow> i \<noteq> in_id (pj_intake p)) ''Research consent references a different intake''"

fun source_binding_issue :: "project \<Rightarrow> proposal_source \<Rightarrow> string list" where
  "source_binding_issue p (FromIntake s) =
     issue_if (cs_origin_id s \<noteq> in_id (pj_intake p) \<or> cs_content_digest s \<noteq> in_content_digest (pj_intake p))
       ''Proposal intake evidence is not bound to the original intake''"
| "source_binding_issue p (FromMessage s) =
     issue_if (case find (\<lambda>m. mg_direction m = Inbound \<and> mg_message_id m = cs_origin_id s) (pj_messages p) of
         None \<Rightarrow> True | Some m \<Rightarrow> mg_content_digest m \<noteq> cs_content_digest s)
       ''Proposal message evidence is not bound to an original inbound message''"
| "source_binding_issue p (FromResearch s) = []"

fun proposals_issues :: "project \<Rightarrow> nat set \<Rightarrow> string set \<Rightarrow> proposal_version list \<Rightarrow> string list" where
  "proposals_issues p versions ids [] = []"
| "proposals_issues p versions ids (q # qs) =
     issue_if (pv_version q \<in> versions) ''Duplicate proposal version'' @
     issue_if (pv_proposal_id q \<in> ids) (''Duplicate proposal id: '' @ pv_proposal_id q) @
     issue_if (oc_project_id (pv_contract q) \<noteq> pj_project_id p)
       ''Proposal Acceptance Contract belongs to another project'' @
     concat (map (source_binding_issue p) (pv_sources q)) @
     proposals_issues p (insert (pv_version q) versions) (insert (pv_proposal_id q) ids) qs"

definition checkout_bound :: "project \<Rightarrow> checkout_session \<Rightarrow> bool" where
  "checkout_bound p c \<longleftrightarrow>
     (case proposal_at p (ck_proposal_version c) of
        None \<Rightarrow> False
      | Some q \<Rightarrow> ck_project_id c = pj_project_id p \<and> ck_proposal_digest c = pv_digest q
          \<and> ck_amount_minor c = mq_amount_minor (pv_quote q) \<and> ck_currency c = mq_currency (pv_quote q))"

definition checkouts_issues :: "project \<Rightarrow> string list" where
  "checkouts_issues p =
     dup_issues (\<lambda>i. ''Duplicate Checkout Session id: '' @ i) {} (map ck_session_id (pj_checkouts p)) @
     concat (map (\<lambda>c. issue_if (\<not> checkout_bound p c)
       ''Checkout Session is not bound to the exact project/proposal/amount/currency'') (pj_checkouts p))"

text \<open>Payments: one without a proposal is reported and takes no further part (\<open>continue\<close>).\<close>

definition priced_payments :: "project \<Rightarrow> payment_receipt list" where
  "priced_payments p = filter (\<lambda>y. proposal_at p (pm_proposal_version y) \<noteq> None) (pj_payments p)"

definition customer_email_digest :: "runtime \<Rightarrow> project \<Rightarrow> string" where
  "customer_email_digest R p =
     rt_sha256 R (case cp_email (pj_customer p) of None \<Rightarrow> [] | Some e \<Rightarrow> map to_lower (trim (ct_value e)))"

definition payment_bound :: "runtime \<Rightarrow> project \<Rightarrow> payment_receipt \<Rightarrow> bool" where
  "payment_bound R p y \<longleftrightarrow>
     (case proposal_at p (pm_proposal_version y) of
        None \<Rightarrow> False
      | Some q \<Rightarrow>
          pm_project_id y = pj_project_id p \<and> pm_proposal_id y = pv_proposal_id q \<and> pm_proposal_digest y = pv_digest q
          \<and> pm_amount_minor y = mq_amount_minor (pv_quote q) \<and> pm_amount_received_minor y = mq_amount_minor (pv_quote q)
          \<and> pm_currency y = mq_currency (pv_quote q) \<and> pm_customer_email_digest y = customer_email_digest R p
          \<and> (case find (\<lambda>c. ck_session_id c = pm_checkout_session_id y) (pj_checkouts p) of
               None \<Rightarrow> False
             | Some c \<Rightarrow> ck_proposal_version c = pm_proposal_version y \<and> ck_proposal_digest c = pm_proposal_digest y
                 \<and> ck_amount_minor c = pm_amount_minor y \<and> ck_currency c = pm_currency y))"

fun payment_identity_issues :: "string set \<Rightarrow> string set \<Rightarrow> payment_receipt list \<Rightarrow> string list" where
  "payment_identity_issues receipts events [] = []"
| "payment_identity_issues receipts events (y # ys) =
     issue_if (pm_receipt_id y \<in> receipts \<or> pm_provider_event_id y \<in> events)
       ''Payment receipt and provider event identities must be unique'' @
     payment_identity_issues (insert (pm_receipt_id y) receipts) (insert (pm_provider_event_id y) events) ys"

definition paid_versions :: "runtime \<Rightarrow> project \<Rightarrow> nat set" where
  "paid_versions R p = set (map pm_proposal_version (filter (payment_bound R p) (pj_payments p)))"

definition payments_issues :: "runtime \<Rightarrow> project \<Rightarrow> string list" where
  "payments_issues R p =
     concat (map (\<lambda>y. issue_if (proposal_at p (pm_proposal_version y) = None) ''Payment references a missing proposal'')
       (pj_payments p)) @
     payment_identity_issues {} {} (priced_payments p) @
     concat (map (\<lambda>y. issue_if (\<not> payment_bound R p y)
       ''Payment is not bound to this project and the exact proposal digest, amount, and currency'') (priced_payments p)) @
     issue_if (case pj_paid_proposal p of None \<Rightarrow> False | Some v \<Rightarrow> v \<notin> paid_versions R p)
       ''paidProposalVersion lacks a matching verified payment'' @
     concat (map (\<lambda>q. issue_if (case pv_commercial_basis q of None \<Rightarrow> False | Some v \<Rightarrow> v \<notin> paid_versions R p)
       ''Proposal commercialBasisVersion lacks a matching verified payment'') (pj_proposals p))"

definition payment_of :: "project \<Rightarrow> string \<Rightarrow> payment_receipt option" where
  "payment_of p i = map_get pm_receipt_id (priced_payments p) i"

definition batch_of :: "project \<Rightarrow> string \<Rightarrow> build_batch option" where
  "batch_of p i = map_get bb_batch_id (pj_batches p) i"

definition payment_version :: "proposal_version \<Rightarrow> nat" where
  "payment_version q = (case pv_commercial_basis q of None \<Rightarrow> pv_version q | Some v \<Rightarrow> v)"

definition batch_bound :: "project \<Rightarrow> build_batch \<Rightarrow> bool" where
  "batch_bound p b \<longleftrightarrow>
     (case (proposal_at p (bb_proposal_version b), payment_of p (bb_payment_receipt_id b)) of
        (Some q, Some y) \<Rightarrow>
          bb_project_id b = pj_project_id p \<and> bb_proposal_digest b = pv_digest q
          \<and> pm_proposal_version y = bb_payment_proposal_version b \<and> pm_proposal_version y = payment_version q
          \<and> bb_contract_version b = oc_version (pv_contract q) \<and> bb_contract_digest b = oc_digest (pv_contract q)
      | _ \<Rightarrow> False)"

definition batches_issues :: "project \<Rightarrow> string list" where
  "batches_issues p =
     dup_issues (\<lambda>i. ''Duplicate build batch id: '' @ i) {} (map bb_batch_id (pj_batches p)) @
     concat (map (\<lambda>b. issue_if (\<not> batch_bound p b) ''Build batch is not bound to its project/proposal/contract'')
       (pj_batches p)) @
     issue_if (case pj_active_batch_id p of None \<Rightarrow> False | Some i \<Rightarrow> batch_of p i = None)
       ''activeBuildBatchId does not exist''"

definition candidate_bound :: "project \<Rightarrow> proven_candidate \<Rightarrow> bool" where
  "candidate_bound p c \<longleftrightarrow>
     (case batch_of p (pcd_batch_id c) of
        None \<Rightarrow> False
      | Some b \<Rightarrow> let payload = ob_payload (pcd_event c) in
          cp_project_id payload = pj_project_id p \<and> pcd_proposal_version c = bb_proposal_version b
          \<and> pcd_proposal_digest c = bb_proposal_digest b \<and> cp_contract_hash payload = bb_build_contract_hash b
          \<and> list_ex (\<lambda>r. bi_run_id r = cp_run_id payload \<and> bi_candidate_id r = cp_candidate_id payload) (bb_runs b))"

definition candidate_at :: "project \<Rightarrow> string \<Rightarrow> string \<Rightarrow> string \<Rightarrow> string \<Rightarrow> proven_candidate option" where
  "candidate_at p batch run cand revision =
     find (\<lambda>c. pcd_batch_id c = batch \<and> ob_run_id (pcd_event c) = run
       \<and> cp_candidate_id (ob_payload (pcd_event c)) = cand \<and> ob_revision_hash (pcd_event c) = revision) (pj_candidates p)"

definition preview_bound :: "project \<Rightarrow> project_preview \<Rightarrow> bool" where
  "preview_bound p v \<longleftrightarrow>
     (case (batch_of p (pw_batch_id v), candidate_at p (pw_batch_id v) (pw_run_id v) (pw_candidate_id v) (pw_revision_hash v)) of
        (Some b, Some c) \<Rightarrow> let a = cp_artifact (ob_payload (pcd_event c)) in
          pw_project_id v = pj_project_id p \<and> pw_proposal_version v = bb_proposal_version b
          \<and> pw_proposal_digest v = bb_proposal_digest b \<and> pw_artifact_digest v = pa_sha256 a
          \<and> pw_snapshot_id v = pa_daytona_snapshot a
      | _ \<Rightarrow> False)"

definition deployment_bound :: "project \<Rightarrow> deployment_receipt \<Rightarrow> bool" where
  "deployment_bound p d \<longleftrightarrow>
     (case (batch_of p (dp_batch_id d), candidate_at p (dp_batch_id d) (dp_run_id d) (dp_candidate_id d) (dp_revision_hash d)) of
        (Some b, Some c) \<Rightarrow>
          dp_project_id d = pj_project_id p \<and> dp_proposal_version d = bb_proposal_version b
          \<and> dp_proposal_digest d = bb_proposal_digest b
          \<and> dp_artifact_digest d = pa_sha256 (cp_artifact (ob_payload (pcd_event c)))
      | _ \<Rightarrow> False)"

definition active_batch :: "project \<Rightarrow> build_batch option" where
  "active_batch p = (case pj_active_batch_id p of None \<Rightarrow> None | Some i \<Rightarrow> batch_of p i)"

definition ACTIVE_STATUSES :: "lifecycle_status list" where
  "ACTIVE_STATUSES = [Building, Verifying, PreviewReady, Deploying, Delivering, ProjectCompleted]"

text \<open>\<open>completed\<close>: a deployment of the active batch's proposal, and its delivery mail.\<close>

definition completed_deployment :: "project \<Rightarrow> build_batch \<Rightarrow> deployment_receipt option" where
  "completed_deployment p b =
     find (\<lambda>d. dp_batch_id d = bb_batch_id b \<and> dp_proposal_version d = bb_proposal_version b
       \<and> dp_proposal_digest d = bb_proposal_digest b) (pj_deployments p)"

definition delivery_effect_key :: "runtime \<Rightarrow> project \<Rightarrow> nat \<Rightarrow> deployment_receipt \<Rightarrow> string" where
  "delivery_effect_key R p v d = ''mail:delivery:'' @ pj_project_id p @ '':v'' @ rt_number R (of_nat v) @ '':'' @ dp_revision_hash d"

definition final_message :: "runtime \<Rightarrow> project \<Rightarrow> build_batch \<Rightarrow> project_message option" where
  "final_message R p b =
     (case (completed_deployment p b, pj_active_proposal p) of
        (Some d, Some v) \<Rightarrow>
          find (\<lambda>m. mg_direction m = Outbound \<and> mg_purpose m = FinalDelivery \<and> mg_delivery_status m = MailDelivered
            \<and> mg_provider_message_id m \<noteq> None \<and> bb_proposal_version b = v
            \<and> list_ex (\<lambda>e. ef_type e = SendFinalDelivery \<and> ef_status e = EffectCompleted
                 \<and> ef_provider_id e = mg_provider_message_id m \<and> ef_key e = delivery_effect_key R p v d) (pj_effects p))
            (pj_messages p)
      | _ \<Rightarrow> None)"

definition status_issues :: "runtime \<Rightarrow> project \<Rightarrow> string list" where
  "status_issues R p =
     issue_if (pj_status p \<in> set ACTIVE_STATUSES \<and> active_batch p = None)
       ''Active lifecycle status requires an active build batch'' @
     (case active_batch p of
        None \<Rightarrow> []
      | Some b \<Rightarrow>
          issue_if (pj_status p = PreviewReady \<and> \<not> list_ex (\<lambda>v. pw_batch_id v = bb_batch_id b) (pj_previews p))
            ''preview_ready requires an exact proven preview receipt'' @
          issue_if (pj_status p = ProjectCompleted \<and> (completed_deployment p b = None \<or> final_message R p b = None))
            ''completed requires an exact verified deployment and delivered final email'')"

definition unique_collections_issues :: "project \<Rightarrow> string list" where
  "unique_collections_issues p =
     dup_issues (\<lambda>i. ''Duplicate messageId: '' @ i) {} (map mg_message_id (pj_messages p)) @
     dup_issues (\<lambda>i. ''Duplicate key: '' @ i) {} (map ef_key (pj_effects p)) @
     dup_issues (\<lambda>i. ''Duplicate errorId: '' @ i) {} (map oe_error_id (pj_errors p)) @
     dup_issues (\<lambda>i. ''Duplicate receiptId: '' @ i) {} (map pw_receipt_id (pj_previews p)) @
     dup_issues (\<lambda>i. ''Duplicate receiptId: '' @ i) {} (map dp_receipt_id (pj_deployments p)) @
     dup_issues (\<lambda>i. ''Duplicate eventId: '' @ i) {} (map (\<lambda>c. ob_event_id (pcd_event c)) (pj_candidates p))"

definition project_issues :: "runtime \<Rightarrow> project \<Rightarrow> string list" where
  "project_issues R p =
     consent_binding_issues p @
     proposals_issues p {} {} (pj_proposals p) @
     issue_if (case pj_active_proposal p of None \<Rightarrow> False | Some v \<Rightarrow> proposal_at p v = None)
       ''activeProposalVersion does not exist'' @
     checkouts_issues p @ payments_issues R p @ batches_issues p @
     concat (map (\<lambda>c. issue_if (\<not> candidate_bound p c)
       ''Proven candidate is not bound to its project/build batch/compiled build contract'') (pj_candidates p)) @
     concat (map (\<lambda>v. issue_if (\<not> preview_bound p v)
       ''Preview is not bound to its exact proven project/batch/revision/artifact'') (pj_previews p)) @
     concat (map (\<lambda>d. issue_if (\<not> deployment_bound p d)
       ''Deployment is not bound to its exact proven project/batch/revision/artifact'') (pj_deployments p)) @
     status_issues R p @ unique_collections_issues p"

definition ProjectAggregate_ok :: "runtime \<Rightarrow> project \<Rightarrow> bool" where
  "ProjectAggregate_ok R p \<longleftrightarrow> project_shape R p \<and> project_issues R p = []"

subsection \<open>What an accepted aggregate guarantees\<close>

lemma case_option_issue [simp]:
  "(case v of None \<Rightarrow> False | Some x \<Rightarrow> \<not> P x) \<longleftrightarrow> \<not> (\<forall>x. v = Some x \<longrightarrow> P x)"
  by (cases v) auto

lemma project_issues_Nil:
  "project_issues R p = [] \<longleftrightarrow>
     consent_binding_issues p = [] \<and> proposals_issues p {} {} (pj_proposals p) = []
     \<and> (\<forall>v. pj_active_proposal p = Some v \<longrightarrow> proposal_at p v \<noteq> None)
     \<and> checkouts_issues p = [] \<and> payments_issues R p = [] \<and> batches_issues p = []
     \<and> (\<forall>c \<in> set (pj_candidates p). candidate_bound p c) \<and> (\<forall>v \<in> set (pj_previews p). preview_bound p v)
     \<and> (\<forall>d \<in> set (pj_deployments p). deployment_bound p d)
     \<and> status_issues R p = [] \<and> unique_collections_issues p = []"
  by (cases "pj_active_proposal p") (auto simp: project_issues_def concat_map_Nil)

lemma proposals_issues_Nil:
  "proposals_issues p versions ids qs = [] \<longleftrightarrow>
     distinct (map pv_version qs) \<and> pv_version ` set qs \<inter> versions = {}
     \<and> distinct (map pv_proposal_id qs) \<and> pv_proposal_id ` set qs \<inter> ids = {}
     \<and> (\<forall>q \<in> set qs. oc_project_id (pv_contract q) = pj_project_id p
          \<and> (\<forall>s \<in> set (pv_sources q). source_binding_issue p s = []))"
  by (induction qs arbitrary: versions ids) (auto simp: concat_map_Nil)

lemma payment_identity_issues_Nil:
  "payment_identity_issues receipts events ys = [] \<longleftrightarrow>
     distinct (map pm_receipt_id ys) \<and> pm_receipt_id ` set ys \<inter> receipts = {}
     \<and> distinct (map pm_provider_event_id ys) \<and> pm_provider_event_id ` set ys \<inter> events = {}"
  by (induction ys arbitrary: receipts events) auto

lemma payment_bound_priced: "payment_bound R p y \<Longrightarrow> proposal_at p (pm_proposal_version y) \<noteq> None"
  by (auto simp: payment_bound_def split: option.splits)

lemma payments_issues_Nil:
  "payments_issues R p = [] \<longleftrightarrow>
     (\<forall>y \<in> set (pj_payments p). payment_bound R p y)
     \<and> distinct (map pm_receipt_id (pj_payments p)) \<and> distinct (map pm_provider_event_id (pj_payments p))
     \<and> (\<forall>v. pj_paid_proposal p = Some v \<longrightarrow> v \<in> paid_versions R p)
     \<and> (\<forall>q \<in> set (pj_proposals p). \<forall>v. pv_commercial_basis q = Some v \<longrightarrow> v \<in> paid_versions R p)"
    (is "?L \<longleftrightarrow> ?R")
proof -
  have priced: "priced_payments p = pj_payments p" if "\<forall>y \<in> set (pj_payments p). proposal_at p (pm_proposal_version y) \<noteq> None"
    using that by (simp add: priced_payments_def filter_id_conv)
  have case_issue: "(case b of None \<Rightarrow> False | Some v \<Rightarrow> v \<notin> paid_versions R p) = (\<not> (\<forall>v. b = Some v \<longrightarrow> v \<in> paid_versions R p))" for b
    by (cases b) auto
  have "?L \<longleftrightarrow> (\<forall>y \<in> set (pj_payments p). proposal_at p (pm_proposal_version y) \<noteq> None)
      \<and> payment_identity_issues {} {} (priced_payments p) = []
      \<and> (\<forall>y \<in> set (priced_payments p). payment_bound R p y)
      \<and> (\<forall>v. pj_paid_proposal p = Some v \<longrightarrow> v \<in> paid_versions R p)
      \<and> (\<forall>q \<in> set (pj_proposals p). \<forall>v. pv_commercial_basis q = Some v \<longrightarrow> v \<in> paid_versions R p)"
    by (simp add: payments_issues_def concat_map_Nil case_issue)
  also have "\<dots> \<longleftrightarrow> ?R"
  proof (cases "\<forall>y \<in> set (pj_payments p). proposal_at p (pm_proposal_version y) \<noteq> None")
    case True
    then show ?thesis by (simp add: priced payment_identity_issues_Nil conj_ac)
  next
    case False
    then show ?thesis by (blast dest: payment_bound_priced)
  qed
  finally show ?thesis .
qed

lemma batches_issues_Nil:
  "batches_issues p = [] \<longleftrightarrow> distinct (map bb_batch_id (pj_batches p)) \<and> (\<forall>b \<in> set (pj_batches p). batch_bound p b)
     \<and> (\<forall>i. pj_active_batch_id p = Some i \<longrightarrow> batch_of p i \<noteq> None)"
  by (cases "pj_active_batch_id p") (auto simp: batches_issues_def concat_map_Nil)

lemma checkouts_issues_Nil:
  "checkouts_issues p = [] \<longleftrightarrow> distinct (map ck_session_id (pj_checkouts p)) \<and> (\<forall>c \<in> set (pj_checkouts p). checkout_bound p c)"
  by (simp add: checkouts_issues_def concat_map_Nil)

end
