(* ===== verification/Sample_Project.thy ===== *)
theory Sample_Project
  imports Project_Aggregate Sample_Run
begin

text \<open>
  One concrete project that was paid for, built, deployed and delivered, around the candidate of
  \<open>Sample_Run\<close>; the lemmas evaluate the aggregate schema on it, part by part.
\<close>

definition sample_intake :: intake where
  "sample_intake = \<lparr>in_id = ''intake-1'', in_received_at = ''t0'', in_content = ''Open daily'',
     in_content_digest = sample_hash,
     in_pii_spans = [\<lparr>ps_category = PiiName, ps_start = 0, ps_end = 4, ps_value_digest = sample_hash,
        ps_confidence = 1, ps_handling = TokenizePii\<rparr>],
     in_source = TextIntake ''plivo'' ''sms-1'' None True\<rparr>"

definition sample_customer :: customer_profile where
  "sample_customer = \<lparr>cp_profile_id = ''profile-1'', cp_display_name = Some ''Ann'',
     cp_email = Some \<lparr>ct_value = ''ann@example.com'', ct_verified = True, ct_verified_at = Some ''t0''\<rparr>,
     cp_phone = None, cp_organization_name = None, cp_preferred_channel = Some ViaEmail,
     cp_research_consent = \<lparr>rc_granted = True, rc_captured_at = Some ''t0'', rc_source_intake_id = Some ''intake-1''\<rparr>\<rparr>"

definition sample_source :: conversation_source where
  "sample_source = \<lparr>cs_source_id = ''source-1'', cs_origin_id = ''intake-1'', cs_content_digest = sample_hash,
     cs_minimized_digest = sample_hash, cs_start = 0, cs_end = 10, cs_excerpt = ''Open daily'',
     cs_excerpt_digest = sample_hash\<rparr>"

definition sample_excerpt :: conversation_source where
  "sample_excerpt = sample_source\<lparr>cs_source_id := ''source-2'', cs_start := 5, cs_end := 10, cs_excerpt := ''daily''\<rparr>"

definition sample_plan :: proposal_plan where
  "sample_plan = \<lparr>pp_summary = \<lparr>st_text = ''Site'', st_source_ids = [''source-1'']\<rparr>,
     pp_deliverables = [\<lparr>pi_item_id = ''item-1'', pi_text = ''Shop page'', pi_source_ids = [''source-2''],
        pi_evidence_basis = CustomerConversation\<rparr>],
     pp_requirements = [\<lparr>pi_item_id = ''item-2'', pi_text = ''Shop page'', pi_source_ids = [''source-1''],
        pi_evidence_basis = CustomerConversation, sq_priority = Hard\<rparr>],
     pp_approved_facts = [], pp_assets = [], pp_exclusions = [], pp_unknowns = []\<rparr>"

definition sample_terms :: orchestration_contract where
  "sample_terms = \<lparr>oc_contract_id = ''contract-1'', oc_project_id = ''project-1'', oc_version = 1,
     oc_parent_version = None, oc_approved_facts = [], oc_forbidden_claims = [],
     oc_requirements = [\<lparr>cq_requirement_id = ''req-1'', cq_description = ''Shop page'', cq_priority = Hard,
        cq_source_ids = [''source-1''], cq_evidence_basis = CustomerConversation,
        cq_verifiers = [CommandVerifier ''check'' 60]\<rparr>],
     oc_verification = \<lparr>vp_build_command = ''build'', vp_test_commands = [''test''],
        vp_preview_command = ''preview'', vp_preview_port = 3000\<rparr>,
     oc_created_at = ''t0'', oc_digest = sample_hash\<rparr>"

definition sample_proposal :: proposal_version where
  "sample_proposal = \<lparr>pv_proposal_id = ''proposal-1'', pv_version = 1, pv_parent_version = None,
     pv_commercial_basis = None, pv_change_rationale = None, pv_project_title = ''Shop'',
     pv_build_prompt = ''Build it'', pv_strategy_labels = [''classic''],
     pv_sources = [FromIntake sample_source, FromIntake sample_excerpt], pv_plan = sample_plan,
     pv_quote = \<lparr>mq_amount_minor = 4900, mq_currency = ''usd''\<rparr>, pv_contract = sample_terms,
     pv_created_at = ''t0'', pv_digest = sample_hash\<rparr>"

definition sample_checkout :: checkout_session where
  "sample_checkout = \<lparr>ck_session_id = ''cs-1'', ck_project_id = ''project-1'', ck_proposal_version = 1,
     ck_proposal_digest = sample_hash, ck_amount_minor = 4900, ck_currency = ''usd'', ck_url = ''https://pay'',
     ck_status = CheckoutComplete, ck_expires_at = ''t9'', ck_created_at = ''t1'', ck_updated_at = ''t1''\<rparr>"

definition sample_payment :: payment_receipt where
  "sample_payment = \<lparr>pm_receipt_id = ''pay-1'', pm_provider_event_id = ''evt-1'',
     pm_provider_evidence_digest = sample_hash, pm_checkout_session_id = ''cs-1'', pm_payment_intent_id = ''pi-1'',
     pm_project_id = ''project-1'', pm_proposal_id = ''proposal-1'', pm_proposal_version = 1,
     pm_proposal_digest = sample_hash, pm_amount_minor = 4900, pm_amount_received_minor = 4900,
     pm_currency = ''usd'', pm_customer_email_digest = sample_hash, pm_customer_id = None,
     pm_intent_created_at = ''t1'', pm_verification_source = SignedWebhook, pm_signature_verified = True,
     pm_signed_event_digest = Some sample_hash, pm_paid_at = ''t1'', pm_verified_at = ''t1'', pm_livemode = False\<rparr>"

definition sample_batch :: build_batch where
  "sample_batch = \<lparr>bb_batch_id = ''batch-1'', bb_project_id = ''project-1'', bb_proposal_version = 1,
     bb_proposal_digest = sample_hash, bb_payment_receipt_id = ''pay-1'', bb_payment_proposal_version = 1,
     bb_contract_version = 1, bb_contract_digest = sample_hash, bb_build_contract_hash = sample_hash,
     bb_requested_candidate_count = 1,
     bb_runs = [\<lparr>bi_run_id = ''run-1'', bi_candidate_id = ''candidate-1'', bi_assignment_id = ''assignment-1'',
        bi_status = RunPassed\<rparr>],
     bb_build_deadline_at = None, bb_proof_event_deadline_at = None, bb_status = BatchCompleted,
     bb_created_at = ''t2'', bb_completed_at = Some ''t3''\<rparr>"

definition sample_candidate :: proven_candidate where
  "sample_candidate = \<lparr>pcd_batch_id = ''batch-1'', pcd_proposal_version = 1, pcd_proposal_digest = sample_hash,
     pcd_event = sample_event, pcd_received_at = ''t3''\<rparr>"

definition sample_deployment :: deployment_receipt where
  "sample_deployment = \<lparr>dp_receipt_id = ''dep-1'', dp_project_id = ''project-1'', dp_batch_id = ''batch-1'',
     dp_run_id = ''run-1'', dp_candidate_id = ''candidate-1'', dp_proposal_version = 1,
     dp_proposal_digest = sample_hash, dp_revision_hash = sample_hash, dp_artifact_digest = sample_hash,
     dp_release_id = ''rel-1'', dp_release_key = sample_hash, dp_release_version = 1,
     dp_image_digest = ''sha256:'' @ sample_hash, dp_workspace_digest = sample_hash,
     dp_machine_ids = [''m-1''], dp_machine_instance_ids = [''i-1''], dp_deployment_attempted = True,
     dp_recovered_from_provider = False, dp_url = ''https://shop'', dp_deployed_at = ''t4'',
     dp_release_verified_at = ''t4'', dp_verified_at = ''t4''\<rparr>"

definition sample_message :: project_message where
  "sample_message = \<lparr>mg_message_id = ''msg-1'', mg_direction = Outbound, mg_channel = ChannelEmail,
     mg_purpose = FinalDelivery, mg_provider = ''resend'', mg_provider_message_id = Some ''mail-1'',
     mg_rfc_message_id = Some ''resend-message:mail-1'', mg_thread_id = None, mg_in_reply_to = None,
     mg_references = [], mg_subject = Some ''Ready'', mg_content = ''Your site is live'',
     mg_content_digest = sample_hash, mg_sender_authenticated = True, mg_delivery_status = MailDelivered,
     mg_created_at = ''t5'', mg_delivery_updated_at = Some ''t5''\<rparr>"

text \<open>The number printed for the version is the sample runtime's.\<close>

definition sample_effect :: durable_effect where
  "sample_effect = \<lparr>ef_key = ''mail:delivery:project-1:v0:'' @ sample_hash, ef_type = SendFinalDelivery,
     ef_status = EffectCompleted, ef_attempts = 1, ef_input_digest = sample_hash, ef_provider_id = Some ''mail-1'',
     ef_receipt_digest = None, ef_proof_snapshot_id = Some ''proof-1'', ef_proof_snapshot_digest = Some sample_hash,
     ef_error = None, ef_next_attempt_at = None, ef_next_check_at = None, ef_created_at = ''t4'',
     ef_updated_at = ''t5'', ef_completed_at = Some ''t5''\<rparr>"

definition sample_project :: project where
  "sample_project = \<lparr>pj_project_id = ''project-1'', pj_revision = 7, pj_status = ProjectCompleted,
     pj_intake = sample_intake, pj_customer = sample_customer, pj_proposals = [sample_proposal],
     pj_active_proposal = Some 1, pj_paid_proposal = Some 1, pj_checkouts = [sample_checkout],
     pj_payments = [sample_payment], pj_batches = [sample_batch], pj_active_batch_id = Some ''batch-1'',
     pj_candidates = [sample_candidate], pj_previews = [], pj_deployments = [sample_deployment],
     pj_messages = [sample_message], pj_open_questions = [], pj_effects = [sample_effect], pj_errors = [],
     pj_created_at = ''t0'', pj_updated_at = ''t5''\<rparr>"

subsection \<open>The schema accepts it\<close>

lemmas text_simps = orchestration_id_def idempotency_key_def entity_id_def id_tail_def is_alnum_def is_lower_def
  is_upper_def is_digit_def in_range_def one_of_def str_between_def int_between_def safe_positive_def safe_nat_def
  MAX_SAFE_INTEGER_def provider_text_def currency_text_def source_ids_shape_def

lemma sample_intake_ok: "Intake_ok sample_runtime sample_intake"
  by (simp add: Intake_ok_def intake_shape_def intake_issues_def intake_span_issues_def sample_intake_def
      pii_span_shape_def pii_span_issues_def text_simps)

lemma sample_customer_ok: "CustomerProfile_ok sample_runtime sample_customer"
  by (simp add: CustomerProfile_ok_def ContactEmail_ok_def contact_issues_def ResearchConsent_ok_def
      consent_issues_def sample_customer_def text_simps) (simp add: sample_runtime_def)

lemma sample_source_ok: "ProposalSource_ok sample_runtime (FromIntake sample_source)"
  by (simp add: conversation_source_shape_def conversation_source_issues_def sample_source_def text_simps)

lemma sample_excerpt_ok: "ProposalSource_ok sample_runtime (FromIntake sample_excerpt)"
  by (simp add: conversation_source_shape_def conversation_source_issues_def sample_source_def sample_excerpt_def text_simps)

lemma sample_plan_ok: "plan_shape sample_runtime sample_plan"
  by (simp add: plan_shape_def plan_item_shape_def sample_plan_def text_simps)

lemma texts_json_carries [simp]: "json_carries (texts_json xs)"
  by (simp add: texts_json_def list_all_iff)

lemma opt_num_carries [simp]: "opt_num_json v = JUndefined \<or> json_carries (opt_num_json v)"
  by (cases v) (simp_all add: opt_num_json_def)

lemma opt_text_carries [simp]: "opt_text_json v = JUndefined \<or> json_carries (opt_text_json v)"
  by (cases v) (simp_all add: opt_text_json_def)

lemma contract_fields_carry [simp]: "\<forall>kv \<in> set (contract_fields_json c). snd kv = JUndefined \<or> json_carries (snd kv)"
  by (simp add: contract_fields_json_def contract_fact_json_def contract_requirement_json_def list_all_iff)

lemma origin_json_carries [simp]: "json_carries (proposal_source_json s)"
  by (cases s) (simp_all add: conversation_json_def)

lemma plan_json_carries [simp]: "json_carries (plan_json p)"
  by (simp add: plan_json_def plan_item_fields_def list_all_iff)

lemma proposal_json_carries [simp]: "json_carries (proposal_content_json p)"
  by (simp add: proposal_content_json_def list_all_iff)

lemma sample_terms_ok: "OrchestrationAcceptanceContract_ok sample_runtime sample_terms"
proof -
  have d: "digestJson sample_runtime (contract_content_json sample_terms) = Inr sample_hash"
    by (simp add: contract_content_json_def list_all_iff)
  show ?thesis
    by (simp add: OrchestrationAcceptanceContract_ok_def orchestration_contract_issues_def d)
      (simp add: sample_terms_def contract_content_shape_def validateAcceptanceContract_def
        contract_requirement_shape_def contract_requirement_issues_def text_simps)
qed

lemma sample_proposal_ok: "ProposalVersion_ok sample_runtime sample_proposal"
proof -
  have d: "digestJson sample_runtime (proposal_content_json sample_proposal) = Inr sample_hash" by simp
  have v: "validateProposalContent sample_proposal = []"
    by (simp add: validateProposalContent_def sample_proposal_def conversation_sources_def research_sources_def
        research_issues_def sourced_values_def evidence_bound_items_def basis_issue_def source_by_id_def
        full_conversation_def resolve_issue_def sample_source_def sample_excerpt_def sample_plan_def sample_terms_def
        slice_def Let_def)
  have "proposal_shape sample_runtime sample_proposal"
    using sample_source_ok sample_excerpt_ok sample_plan_ok sample_terms_ok
    by (simp add: proposal_shape_def sample_proposal_def quote_shape_def text_simps)
  moreover have "pv_digest sample_proposal = sample_hash" by (simp add: sample_proposal_def)
  ultimately show ?thesis by (simp add: ProposalVersion_ok_def proposal_version_issues_def d v)
qed

lemma sample_event_ok: "OutboxEvent_ok sample_runtime sample_event"
  using sample_payload_ok
  by (simp add: OutboxEvent_ok_def outbox_shape_def outbox_issues_def sample_event_def trace_id_shape_def str_between_def)
    (simp add: sample_payload_def proven_payload_def)

lemma sample_hash_id [simp]: "list_all id_tail sample_hash"
  by (simp add: sample_hash_def list_all_iff id_tail_def is_alnum_def is_lower_def in_range_def)

lemma sample_project_shape: "project_shape sample_runtime sample_project"
proof -
  have "checkout_shape sample_runtime sample_checkout" "PaymentReceipt_ok sample_runtime sample_payment"
    by (simp_all add: checkout_shape_def PaymentReceipt_ok_def payment_shape_def payment_issues_def
        sample_checkout_def sample_payment_def text_simps)
  moreover have "BuildBatch_ok sample_runtime sample_batch"
    by (simp add: BuildBatch_ok_def batch_shape_def batch_issues_def sample_batch_def text_simps)
  moreover have "ProvenCandidate_ok sample_runtime sample_candidate"
    using sample_event_ok by (simp add: ProvenCandidate_ok_def sample_candidate_def text_simps)
  moreover have "DeploymentReceipt_ok sample_runtime sample_deployment"
    by (simp add: DeploymentReceipt_ok_def deployment_shape_def deployment_issues_def sample_deployment_def
        starts_with_def date_less_def text_simps) (simp add: sample_runtime_def)
  moreover have "ProjectMessage_ok sample_runtime sample_message"
    by (simp add: ProjectMessage_ok_def message_shape_def message_issues_def resend_message_id_def starts_with_def
        sample_message_def text_simps)
  moreover have "DurableEffect_ok sample_runtime sample_effect"
    by (simp add: DurableEffect_ok_def effect_shape_def effect_issues_def proof_bound_def sample_effect_def
        idempotency_key_def orchestration_id_def entity_id_def)
      (simp add: id_tail_def is_alnum_def is_lower_def is_digit_def in_range_def one_of_def safe_nat_def MAX_SAFE_INTEGER_def)
  ultimately show ?thesis
    using sample_intake_ok sample_customer_ok sample_proposal_ok
    by (simp add: project_shape_def sample_project_def text_simps)
qed

text \<open>The fields the bindings compare.\<close>

lemma sample_event_fields [simp]:
  "ob_run_id sample_event = ''run-1''" "ob_revision_hash sample_event = sample_hash" "ob_payload sample_event = sample_payload"
  "cp_candidate_id sample_payload = ''candidate-1''" "cp_project_id sample_payload = ''project-1''"
  "cp_run_id sample_payload = ''run-1''" "cp_contract_hash sample_payload = sample_hash"
  "pa_sha256 (cp_artifact sample_payload) = sample_hash"
  by (simp_all add: sample_event_def sample_payload_def proven_payload_def sample_promoted_fields)
    (simp add: sample_artifact_def)

lemma sample_lookups:
  "proposal_at sample_project v = (if v = 1 then Some sample_proposal else None)"
  "batch_of sample_project i = (if i = ''batch-1'' then Some sample_batch else None)"
  "payment_of sample_project j = (if j = ''pay-1'' then Some sample_payment else None)"
  by (simp_all add: proposal_at_def batch_of_def payment_of_def map_get_def priced_payments_def sample_project_def)
    (simp_all add: sample_proposal_def sample_batch_def sample_payment_def)

lemma sample_payment_bound: "payment_bound sample_runtime sample_project sample_payment"
  by (simp add: payment_bound_def sample_lookups customer_email_digest_def)
    (simp add: sample_payment_def sample_project_def sample_proposal_def sample_checkout_def)

lemma sample_project_ok: "ProjectAggregate_ok sample_runtime sample_project"
proof -
  have lists: "pj_payments sample_project = [sample_payment]" "pj_proposals sample_project = [sample_proposal]"
    by (simp_all add: sample_project_def)
  have "consent_binding_issues sample_project = []"
    by (simp add: consent_binding_issues_def sample_project_def sample_customer_def sample_intake_def)
  moreover have "proposals_issues sample_project {} {} (pj_proposals sample_project) = []"
    by (simp add: proposals_issues_Nil lists)
      (simp add: sample_project_def sample_proposal_def sample_terms_def sample_source_def sample_excerpt_def sample_intake_def)
  moreover have "checkouts_issues sample_project = []"
    by (simp add: checkouts_issues_Nil checkout_bound_def sample_lookups)
      (simp add: sample_project_def sample_checkout_def sample_proposal_def)
  moreover have "payments_issues sample_runtime sample_project = []"
    by (simp add: payments_issues_Nil lists paid_versions_def sample_payment_bound)
      (simp add: sample_project_def sample_proposal_def sample_payment_def)
  moreover have "batches_issues sample_project = []"
    by (simp add: batches_issues_Nil batch_bound_def sample_lookups)
      (simp add: sample_project_def sample_batch_def sample_proposal_def sample_payment_def payment_version_def sample_terms_def)
  moreover have "\<forall>c \<in> set (pj_candidates sample_project). candidate_bound sample_project c"
    by (simp add: candidate_bound_def sample_lookups) (simp add: sample_project_def sample_candidate_def sample_batch_def)
  moreover have dep: "deployment_bound sample_project sample_deployment"
    by (simp add: deployment_bound_def sample_lookups candidate_at_def)
      (simp add: sample_project_def sample_candidate_def sample_batch_def sample_deployment_def)
  moreover have "status_issues sample_runtime sample_project = []"
  proof -
    have "pj_active_batch_id sample_project = Some ''batch-1''" by (simp add: sample_project_def)
    then have act: "active_batch sample_project = Some sample_batch" by (simp add: active_batch_def sample_lookups)
    have dep: "completed_deployment sample_project sample_batch = Some sample_deployment"
      by (simp add: completed_deployment_def sample_project_def) (simp add: sample_batch_def sample_deployment_def)
    have key: "delivery_effect_key sample_runtime sample_project 1 sample_deployment = ef_key sample_effect"
      by (simp add: delivery_effect_key_def) (simp add: sample_project_def sample_deployment_def sample_effect_def sample_runtime_def)
    have fields: "pj_active_proposal sample_project = Some 1" "pj_messages sample_project = [sample_message]"
      "pj_effects sample_project = [sample_effect]" "bb_proposal_version sample_batch = 1"
      by (simp_all add: sample_project_def sample_batch_def)
    have mail: "mg_direction sample_message = Outbound" "mg_purpose sample_message = FinalDelivery"
      "mg_delivery_status sample_message = MailDelivered" "mg_provider_message_id sample_message = Some ''mail-1''"
      "ef_type sample_effect = SendFinalDelivery" "ef_status sample_effect = EffectCompleted"
      "ef_provider_id sample_effect = Some ''mail-1''"
      by (simp_all add: sample_message_def sample_effect_def)
    have "final_message sample_runtime sample_project sample_batch = Some sample_message"
      by (simp add: final_message_def dep fields mail key [simplified])
    with act dep show ?thesis by (simp add: status_issues_def) (simp add: sample_project_def)
  qed
  moreover have "unique_collections_issues sample_project = []"
    by (simp add: unique_collections_issues_def sample_project_def)
  moreover have "pj_previews sample_project = []" "pj_deployments sample_project = [sample_deployment]"
    "pj_active_proposal sample_project = Some 1"
    by (simp_all add: sample_project_def)
  ultimately show ?thesis
    by (simp add: ProjectAggregate_ok_def project_issues_Nil sample_project_shape sample_lookups)
qed

end
