(* ===== verification/Project_Properties.thy ===== *)
theory Project_Properties
  imports Sample_Project
begin

text \<open>
  What it means that the aggregate schema accepts a project: money, builds and delivery hang
  together.  The properties are applied to the completed project of \<open>Sample_Project\<close>.
\<close>

subsection \<open>From issues to bindings\<close>

lemma accepted_parts:
  assumes "ProjectAggregate_ok R p"
  shows "project_shape R p" "proposals_issues p {} {} (pj_proposals p) = []" "checkouts_issues p = []"
    "payments_issues R p = []" "batches_issues p = []" "status_issues R p = []"
    "c \<in> set (pj_candidates p) \<Longrightarrow> candidate_bound p c" "v \<in> set (pj_previews p) \<Longrightarrow> preview_bound p v"
    "d \<in> set (pj_deployments p) \<Longrightarrow> deployment_bound p d"
  using assms by (auto simp: ProjectAggregate_ok_def project_issues_Nil)

lemma proposal_at_SomeD: "proposal_at p v = Some q \<Longrightarrow> q \<in> set (pj_proposals p) \<and> pv_version q = v"
  unfolding proposal_at_def by (rule map_get_SomeD)

lemma batch_of_SomeD: "batch_of p i = Some b \<Longrightarrow> b \<in> set (pj_batches p) \<and> bb_batch_id b = i"
  unfolding batch_of_def by (rule map_get_SomeD)

lemma payment_of_SomeD: "payment_of p i = Some y \<Longrightarrow> y \<in> set (pj_payments p) \<and> pm_receipt_id y = i"
  unfolding payment_of_def by (drule map_get_SomeD) (simp add: priced_payments_def)

lemma candidate_at_SomeD:
  "candidate_at p b r c v = Some x \<Longrightarrow> x \<in> set (pj_candidates p) \<and> pcd_batch_id x = b
    \<and> ob_run_id (pcd_event x) = r \<and> cp_candidate_id (ob_payload (pcd_event x)) = c \<and> ob_revision_hash (pcd_event x) = v"
  unfolding candidate_at_def by (drule find_eq_SomeD) simp

text \<open>Exactly the quoted amount was received for version \<open>v\<close>, through a checkout for it.\<close>

definition version_paid :: "runtime \<Rightarrow> project \<Rightarrow> nat \<Rightarrow> payment_receipt \<Rightarrow> bool" where
  "version_paid R p v y \<longleftrightarrow> y \<in> set (pj_payments p) \<and> pm_proposal_version y = v \<and>
     (\<exists>q \<in> set (pj_proposals p). \<exists>c \<in> set (pj_checkouts p). pv_version q = v \<and> pm_proposal_digest y = pv_digest q
        \<and> pm_amount_received_minor y = mq_amount_minor (pv_quote q) \<and> pm_currency y = mq_currency (pv_quote q)
        \<and> pm_customer_email_digest y = customer_email_digest R p
        \<and> ck_session_id c = pm_checkout_session_id y \<and> ck_proposal_version c = v
        \<and> ck_amount_minor c = mq_amount_minor (pv_quote q))"

lemma payment_bound_paid:
  assumes "payment_bound R p y" "y \<in> set (pj_payments p)"
  shows "version_paid R p (pm_proposal_version y) y"
proof -
  obtain q where q: "proposal_at p (pm_proposal_version y) = Some q"
    using payment_bound_priced [OF assms(1)] by blast
  obtain c where c: "find (\<lambda>c. ck_session_id c = pm_checkout_session_id y) (pj_checkouts p) = Some c"
    using assms(1) q by (auto simp: payment_bound_def split: option.splits)
  have eqs: "pm_proposal_digest y = pv_digest q" "pm_amount_minor y = mq_amount_minor (pv_quote q)"
    "pm_amount_received_minor y = mq_amount_minor (pv_quote q)" "pm_currency y = mq_currency (pv_quote q)"
    "pm_customer_email_digest y = customer_email_digest R p" "ck_proposal_version c = pm_proposal_version y"
    "ck_amount_minor c = pm_amount_minor y"
    using assms(1) q c by (simp_all add: payment_bound_def)
  from proposal_at_SomeD [OF q] find_eq_SomeD [OF c] eqs assms(2) show ?thesis
    unfolding version_paid_def by auto
qed

lemma batch_bound_paid:
  assumes "ProjectAggregate_ok R p" "b \<in> set (pj_batches p)"
  shows "\<exists>q y. q \<in> set (pj_proposals p) \<and> pv_version q = bb_proposal_version b \<and> pv_digest q = bb_proposal_digest b
    \<and> oc_digest (pv_contract q) = bb_contract_digest b \<and> version_paid R p (payment_version q) y"
proof -
  have "batch_bound p b" using accepted_parts(5) [OF assms(1)] assms(2) by (simp add: batches_issues_Nil)
  then obtain q y where q: "proposal_at p (bb_proposal_version b) = Some q" and y: "payment_of p (bb_payment_receipt_id b) = Some y"
    and eqs: "bb_proposal_digest b = pv_digest q" "pm_proposal_version y = payment_version q" "bb_contract_digest b = oc_digest (pv_contract q)"
    by (auto simp: batch_bound_def split: option.splits)
  have "payment_bound R p y" "y \<in> set (pj_payments p)"
    using accepted_parts(4) [OF assms(1)] payment_of_SomeD [OF y] by (simp_all add: payments_issues_Nil)
  from payment_bound_paid [OF this] proposal_at_SomeD [OF q] eqs show ?thesis by auto
qed

lemma deployment_bound_proven:
  assumes "ProjectAggregate_ok R p" "d \<in> set (pj_deployments p)"
  shows "\<exists>b c r. b \<in> set (pj_batches p) \<and> bb_batch_id b = dp_batch_id d \<and> dp_proposal_digest d = bb_proposal_digest b
    \<and> c \<in> set (pj_candidates p) \<and> ob_run_id (pcd_event c) = dp_run_id d \<and> ob_revision_hash (pcd_event c) = dp_revision_hash d
    \<and> pa_sha256 (cp_artifact (ob_payload (pcd_event c))) = dp_artifact_digest d
    \<and> pa_revision_hash (cp_artifact (ob_payload (pcd_event c))) = dp_revision_hash d
    \<and> cp_contract_hash (ob_payload (pcd_event c)) = bb_build_contract_hash b
    \<and> r \<in> set (bb_runs b) \<and> bi_run_id r = dp_run_id d \<and> bi_candidate_id r = dp_candidate_id d"
proof -
  obtain b c where b: "batch_of p (dp_batch_id d) = Some b"
    and c: "candidate_at p (dp_batch_id d) (dp_run_id d) (dp_candidate_id d) (dp_revision_hash d) = Some c"
    and eqs: "dp_proposal_digest d = bb_proposal_digest b" "dp_artifact_digest d = pa_sha256 (cp_artifact (ob_payload (pcd_event c)))"
    using accepted_parts(9) [OF assms] by (auto simp: deployment_bound_def split: option.splits)
  note c' = candidate_at_SomeD [OF c]
  have "OutboxEvent_ok R (pcd_event c)"
    using accepted_parts(1) [OF assms(1)] c' by (auto simp: project_shape_def list_all_iff ProvenCandidate_ok_def)
  note ids = OutboxEvent_identities [OF this]
  have "candidate_bound p c" using accepted_parts(7) [OF assms(1)] c' by blast
  with b c' obtain r where "r \<in> set (bb_runs b)" "bi_run_id r = cp_run_id (ob_payload (pcd_event c))"
    "bi_candidate_id r = cp_candidate_id (ob_payload (pcd_event c))" "cp_contract_hash (ob_payload (pcd_event c)) = bb_build_contract_hash b"
    by (auto simp: candidate_bound_def Let_def list_ex_iff)
  with batch_of_SomeD [OF b] c' eqs ids show ?thesis by (intro exI [of _ b] exI [of _ c] exI [of _ r]) simp
qed

subsection \<open>Properties\<close>

text \<open>C20. What is deployed was proven and paid for: every deployment of an accepted project ships the
  artifact of a proven candidate, for a run of the batch it names, and the proposal that batch
  builds (or the earlier version it revises) was paid with exactly the quoted amount, through a
  checkout for that version, by the customer's address.\<close>

theorem deployment_is_proven_and_paid:
  assumes "ProjectAggregate_ok R p" and "d \<in> set (pj_deployments p)"
  shows "\<exists>b c q y. b \<in> set (pj_batches p) \<and> bb_batch_id b = dp_batch_id d
    \<and> c \<in> set (pj_candidates p) \<and> ob_run_id (pcd_event c) = dp_run_id d
    \<and> pa_sha256 (cp_artifact (ob_payload (pcd_event c))) = dp_artifact_digest d
    \<and> pa_revision_hash (cp_artifact (ob_payload (pcd_event c))) = dp_revision_hash d
    \<and> (\<exists>r \<in> set (bb_runs b). bi_run_id r = dp_run_id d \<and> bi_candidate_id r = dp_candidate_id d)
    \<and> q \<in> set (pj_proposals p) \<and> pv_version q = bb_proposal_version b \<and> pv_digest q = dp_proposal_digest d
    \<and> version_paid R p (payment_version q) y"
proof -
  from deployment_bound_proven [OF assms] obtain b c r where b: "b \<in> set (pj_batches p)" "bb_batch_id b = dp_batch_id d"
    "dp_proposal_digest d = bb_proposal_digest b"
    and c: "c \<in> set (pj_candidates p)" "ob_run_id (pcd_event c) = dp_run_id d"
      "pa_sha256 (cp_artifact (ob_payload (pcd_event c))) = dp_artifact_digest d"
      "pa_revision_hash (cp_artifact (ob_payload (pcd_event c))) = dp_revision_hash d"
    and r: "r \<in> set (bb_runs b)" "bi_run_id r = dp_run_id d" "bi_candidate_id r = dp_candidate_id d"
    by blast
  from batch_bound_paid [OF assms(1) b(1)] obtain q y where "q \<in> set (pj_proposals p)"
    "pv_version q = bb_proposal_version b" "pv_digest q = bb_proposal_digest b" "version_paid R p (payment_version q) y"
    by blast
  with b c r show ?thesis by metis
qed

theorem deployment_is_proven_and_paid_witness:
  "\<exists>y. version_paid sample_runtime sample_project 1 y \<and> pm_amount_received_minor sample_payment = 4900"
proof -
  have d: "sample_deployment \<in> set (pj_deployments sample_project)" by (simp add: sample_project_def)
  from deployment_is_proven_and_paid [OF sample_project_ok d] obtain q y where
    "q \<in> set (pj_proposals sample_project)" "version_paid sample_runtime sample_project (payment_version q) y" by blast
  moreover from this(1) have "payment_version q = 1"
    by (simp add: sample_project_def sample_proposal_def payment_version_def)
  ultimately show ?thesis by (auto simp: sample_payment_def)
qed

text \<open>C22. A completed project was delivered: it has an active batch, a deployment of that batch's
  proposal, which is the active one, and an outbound delivery mail the provider reported as delivered,
  sent by the completed effect keyed by the deployed revision.\<close>

theorem completed_project_is_delivered:
  assumes "ProjectAggregate_ok R p" and "pj_status p = ProjectCompleted"
  shows "\<exists>b d m e. active_batch p = Some b \<and> d \<in> set (pj_deployments p) \<and> dp_batch_id d = bb_batch_id b
    \<and> pj_active_proposal p = Some (dp_proposal_version d) \<and> m \<in> set (pj_messages p)
    \<and> mg_direction m = Outbound \<and> mg_purpose m = FinalDelivery \<and> mg_delivery_status m = MailDelivered
    \<and> e \<in> set (pj_effects p) \<and> ef_status e = EffectCompleted \<and> ef_provider_id e = mg_provider_message_id m
    \<and> ef_key e = delivery_effect_key R p (dp_proposal_version d) d"
proof -
  have st: "status_issues R p = []" by (rule accepted_parts(6) [OF assms(1)])
  then obtain b where b: "active_batch p = Some b" using assms(2) by (auto simp: status_issues_def ACTIVE_STATUSES_def)
  with st assms(2) obtain d m where d: "completed_deployment p b = Some d" and m: "final_message R p b = Some m"
    by (auto simp: status_issues_def)
  from d have d': "d \<in> set (pj_deployments p)" "dp_batch_id d = bb_batch_id b" "dp_proposal_version d = bb_proposal_version b"
    unfolding completed_deployment_def by (auto dest: find_eq_SomeD)
  from m d obtain v where v: "pj_active_proposal p = Some v" by (auto simp: final_message_def split: option.splits)
  from m d v have "m \<in> set (pj_messages p)" "mg_direction m = Outbound" "mg_purpose m = FinalDelivery"
    "mg_delivery_status m = MailDelivered" "bb_proposal_version b = v"
    "list_ex (\<lambda>e. ef_type e = SendFinalDelivery \<and> ef_status e = EffectCompleted
       \<and> ef_provider_id e = mg_provider_message_id m \<and> ef_key e = delivery_effect_key R p v d) (pj_effects p)"
    by (auto simp: final_message_def dest!: find_eq_SomeD)
  with b d' v show ?thesis by (auto simp: list_ex_iff)
qed

theorem completed_project_is_delivered_witness:
  "\<exists>b d. active_batch sample_project = Some b \<and> d \<in> set (pj_deployments sample_project)
    \<and> pj_active_proposal sample_project = Some (dp_proposal_version d)"
proof -
  have "pj_status sample_project = ProjectCompleted" by (simp add: sample_project_def)
  from completed_project_is_delivered [OF sample_project_ok this] show ?thesis by blast
qed

text \<open>Quoted evidence is real: every conversation excerpt of an accepted proposal is, character for
  character, the text at its offsets in a source of the same proposal whose text hashes to the
  digest of the minimized conversation.\<close>

theorem proposal_excerpts_resolve:
  assumes "ProposalVersion_ok R q" and "(origin, s) \<in> set (conversation_sources (pv_sources q))"
  shows "\<exists>f. (origin, f) \<in> set (conversation_sources (pv_sources q))
    \<and> rt_sha256 R (cs_excerpt f) = cs_minimized_digest s
    \<and> slice (cs_start s) (cs_end s) (cs_excerpt f) = cs_excerpt s"
proof -
  let ?cs = "conversation_sources (pv_sources q)"
  have "validateProposalContent q = []" using assms(1) by (simp add: ProposalVersion_ok_def proposal_version_issues_def)
  then have "conversation_issues ?cs Map.empty ?cs = []" by (simp add: validateProposalContent_Nil)
  from conversation_issues_resolve [OF this assms(2)] obtain f where f: "full_conversation ?cs (origin, s) = Some f"
    and sl: "slice (cs_start s) (cs_end s) (cs_excerpt f) = cs_excerpt s" by auto
  from full_conversation_SomeD [OF f] have mem: "(origin, f) \<in> set ?cs"
    and dg: "cs_excerpt_digest f = cs_minimized_digest s" by auto
  from mem obtain x where "x \<in> set (pv_sources q)" "(origin, f) \<in> set (conversation_of x)"
    by (auto simp: conversation_sources_def)
  moreover have "list_all (ProposalSource_ok R) (pv_sources q)"
    using assms(1) by (simp add: ProposalVersion_ok_def proposal_shape_def)
  ultimately have "ProposalSource_ok R x" "(origin, f) \<in> set (conversation_of x)" by (auto simp: list_all_iff)
  then have "conversation_source_issues R f = []" by (cases x) auto
  then have "rt_sha256 R (cs_excerpt f) = cs_excerpt_digest f" by (simp add: conversation_source_issues_def)
  with mem dg sl show ?thesis by auto
qed

lemma sample_excerpt_resolves:
  "\<exists>f :: conversation_source. slice 5 10 (cs_excerpt f) = ''daily'' \<and> rt_sha256 sample_runtime (cs_excerpt f) = sample_hash"
proof -
  have "(''intake:intake-1'', sample_excerpt) \<in> set (conversation_sources (pv_sources sample_proposal))"
    by (simp add: sample_proposal_def conversation_sources_def) (simp add: sample_excerpt_def sample_source_def)
  from proposal_excerpts_resolve [OF sample_proposal_ok this] show ?thesis
    by (auto simp: sample_excerpt_def sample_source_def)
qed

end
