(* ===== verification/Orchestration_Store.thy ===== *)
theory Orchestration_Store
  imports Project_Aggregate
begin

text \<open>
  \<open>src/orchestration/adapters/sqlite/orchestration-store.ts\<close> over the tables of
  \<open>src/orchestration/adapters/sqlite/migrations.ts\<close>: the durable store of the orchestration.  The
  state \<open>orch_db\<close> has one list of rows per table, in insertion order; every operation is the body
  of a transaction that answers a value and the new tables, or an error, and an error rolls back.
  Timestamps are the strings the program stores, compared as SQLite compares text.  A \<open>text_clock\<close>
  gives the successive readings of the store's clock during one operation.

  Outside the repository, and so parameters: AES-256-GCM under the store's key, which is the record
  \<open>vault\<close> with the printing and structural parsing of an aggregate, \<open>JSON.parse\<close> and
  \<open>Buffer.byteLength\<close>.
\<close>

subsection \<open>Parameters and errors\<close>

type_synonym text_clock = "nat \<Rightarrow> string"

record sealed_value =
  sv_nonce :: string
  sv_tag :: string
  sv_ciphertext :: string

record vault =
  vt_seal :: "string \<Rightarrow> string \<Rightarrow> string \<Rightarrow> sealed_value"
  vt_open :: "sealed_value \<Rightarrow> string \<Rightarrow> string option"
  vt_print :: "project \<Rightarrow> string"
  vt_parse :: "string \<Rightarrow> project option"
  vt_json_parse :: "string \<Rightarrow> jsval option"
  vt_byte_length :: "string \<Rightarrow> nat"

text \<open>What the code relies on: decryption under the same authenticated data inverts encryption, and
  parsing inverts printing on accepted aggregates.\<close>

definition vault_sound :: "runtime \<Rightarrow> vault \<Rightarrow> bool" where
  "vault_sound R V \<longleftrightarrow> (\<forall>nonce aad t. vt_open V (vt_seal V nonce aad t) aad = Some t)
     \<and> (\<forall>p. ProjectAggregate_ok R p \<longrightarrow> vt_parse V (vt_print V p) = Some p)"

datatype orchestration_store_error =
    InvalidInput string
  | OrchestrationIdempotencyConflict string
  | CustomerDashboardLoginConflict
  | ProjectAlreadyExists string
  | ProjectNotFound string
  | OptimisticConcurrency string nat nat
  | InvalidAggregateRevision string nat nat
  | InboxConflict string string
  | InboundMailEnvelopeConflict string
  | InboundMailEnvelopeMissing
  | ProofSummarySnapshotConflict string
  | ProofSummarySnapshotNotFound
  | ProofSummarySnapshotRevocationConflict
  | ProofSummarySnapshotDecryption string
  | AggregateDecryption string
  | TableConstraint string

definition MAX_SECURITY_AUDIT_OVERFLOW_OBSERVATIONS_PER_GROUP :: nat where
  "MAX_SECURITY_AUDIT_OVERFLOW_OBSERVATIONS_PER_GROUP = 1000000000000000"

definition MAX_PROOF_SUMMARY_SNAPSHOT_BYTES :: nat where
  "MAX_PROOF_SUMMARY_SNAPSHOT_BYTES = 64 * 1024"

definition RECONCILABLE_PROJECT_STATUSES :: "lifecycle_status list" where
  "RECONCILABLE_PROJECT_STATUSES =
     [IntakeReceived, NeedsClarification, ProposalDrafting, AwaitingCustomerRevision, AwaitingPayment, Paid,
      Building, Verifying, PreviewReady, RevisionPending, Deploying, DeploymentVerificationFailed, Delivering]"

subsection \<open>Events of a project\<close>

datatype event_actor = ActorSystem | ActorCustomer | ActorProvider | ActorOperator

datatype supersession = DeadlineExpired | Superseded

record event_payload =
  ep_previous_status :: "lifecycle_status option"
  ep_status :: "lifecycle_status option"
  ep_proposal_version :: "nat option"
  ep_proposal_digest :: "string option"
  ep_payment_receipt_id :: "string option"
  ep_build_batch_id :: "string option"
  ep_run_id :: "string option"
  ep_candidate_id :: "string option"
  ep_preview_receipt_id :: "string option"
  ep_deployment_receipt_id :: "string option"
  ep_proof_snapshot_id :: "string option"
  ep_proof_snapshot_digest :: "string option"
  ep_effect_key :: "string option"
  ep_effect_type :: "effect_type option"
  ep_message_id :: "string option"
  ep_message_digest :: "string option"
  ep_consumed_message_ids :: "string list option"
  ep_error_code :: "string option"
  ep_provider :: "string option"
  ep_provider_event_digest :: "string option"
  ep_correlation_id :: "string option"
  ep_attempt :: "nat option"
  ep_count :: "nat option"
  ep_reason :: "supersession option"

definition no_payload :: event_payload where
  "no_payload = \<lparr>ep_previous_status = None, ep_status = None, ep_proposal_version = None, ep_proposal_digest = None,
     ep_payment_receipt_id = None, ep_build_batch_id = None, ep_run_id = None, ep_candidate_id = None,
     ep_preview_receipt_id = None, ep_deployment_receipt_id = None, ep_proof_snapshot_id = None,
     ep_proof_snapshot_digest = None, ep_effect_key = None, ep_effect_type = None, ep_message_id = None,
     ep_message_digest = None, ep_consumed_message_ids = None, ep_error_code = None, ep_provider = None,
     ep_provider_event_digest = None, ep_correlation_id = None, ep_attempt = None, ep_count = None, ep_reason = None\<rparr>"

definition RedactedEventPayload_ok :: "event_payload \<Rightarrow> bool" where
  "RedactedEventPayload_ok e \<longleftrightarrow> opt_all safe_positive (ep_proposal_version e) \<and> opt_all sha256_text (ep_proposal_digest e)
     \<and> opt_all orchestration_id (ep_payment_receipt_id e) \<and> opt_all orchestration_id (ep_build_batch_id e)
     \<and> opt_all orchestration_id (ep_run_id e) \<and> opt_all orchestration_id (ep_candidate_id e)
     \<and> opt_all orchestration_id (ep_preview_receipt_id e) \<and> opt_all orchestration_id (ep_deployment_receipt_id e)
     \<and> opt_all orchestration_id (ep_proof_snapshot_id e) \<and> opt_all sha256_text (ep_proof_snapshot_digest e)
     \<and> opt_all idempotency_key (ep_effect_key e) \<and> opt_all orchestration_id (ep_message_id e)
     \<and> opt_all sha256_text (ep_message_digest e)
     \<and> opt_all (\<lambda>ms. ms \<noteq> [] \<and> length ms \<le> 10000 \<and> list_all orchestration_id ms \<and> distinct ms) (ep_consumed_message_ids e)
     \<and> opt_all error_code_text (ep_error_code e) \<and> opt_all provider_text (ep_provider e)
     \<and> opt_all sha256_text (ep_provider_event_digest e) \<and> opt_all orchestration_id (ep_correlation_id e)
     \<and> opt_all safe_nat (ep_attempt e) \<and> opt_all safe_nat (ep_count e)"

text \<open>\<open>/^[a-z][a-z0-9]*(?:[._-][a-z0-9]+)*$/\<close>: separated words, the first beginning with a letter.
  The automaton state is whether the last character was a separator.\<close>

fun event_words :: "bool \<Rightarrow> string \<Rightarrow> bool" where
  "event_words sep [] = (\<not> sep)"
| "event_words sep (c # cs) =
     (if is_lower c \<or> is_digit c then event_words False cs
      else if one_of ''._-'' c then \<not> sep \<and> event_words True cs
      else False)"

definition event_type_text :: "string \<Rightarrow> bool" where
  "event_type_text s \<longleftrightarrow> str_between 1 128 s \<and> (case s of [] \<Rightarrow> False | c # cs \<Rightarrow> is_lower c \<and> event_words False cs)"

record event_input =
  ei_type :: string
  ei_actor :: event_actor
  ei_payload :: event_payload

definition ProjectEventInput_ok :: "event_input \<Rightarrow> bool" where
  "ProjectEventInput_ok e \<longleftrightarrow> event_type_text (ei_type e) \<and> RedactedEventPayload_ok (ei_payload e)"

record project_event =
  pe_sequence :: nat
  pe_event_id :: string
  pe_project_id :: string
  pe_aggregate_revision :: nat
  pe_type :: string
  pe_actor :: event_actor
  pe_payload :: event_payload
  pe_occurred_at :: string

definition ProjectEvent_ok :: "runtime \<Rightarrow> project_event \<Rightarrow> bool" where
  "ProjectEvent_ok R e \<longleftrightarrow> rt_is_uuid R (pe_event_id e) \<and> safe_positive (pe_sequence e)
     \<and> orchestration_id (pe_project_id e) \<and> safe_nat (pe_aggregate_revision e) \<and> event_type_text (pe_type e)
     \<and> RedactedEventPayload_ok (pe_payload e) \<and> rt_is_datetime R (pe_occurred_at e)"

subsection \<open>Tables\<close>

record project_index =
  ix_project_id :: string
  ix_idempotency_key :: string
  ix_idempotency_digest :: string
  ix_status :: lifecycle_status
  ix_revision :: nat
  ix_created_at :: string
  ix_updated_at :: string

record project_row = project_index +
  px_pending_login :: bool
  px_sealed :: sealed_value

record inbox_row =
  xr_provider :: string
  xr_event_id :: string
  xr_digest :: string
  xr_received_at :: string

datatype envelope_status = EnvelopePending | EnvelopeProcessed | EnvelopeRejected | EnvelopeFailed

record mail_envelope =
  me_event_id :: string
  me_event_digest :: string
  me_project_id :: string
  me_email_id :: string
  me_identity_digest :: string
  me_status :: envelope_status
  me_attempts :: nat
  me_next_attempt_at :: "string option"
  me_last_error_code :: "string option"
  me_received_at :: string
  me_updated_at :: string
  me_processed_at :: "string option"

datatype audit_provider = AuditResend | AuditStripe

datatype audit_failure = InvalidSignatureHeaders | WebhookVerificationFailed

record audit_row =
  au_provider :: audit_provider
  au_body_digest :: string
  au_header_digest :: string
  au_failure :: audit_failure
  au_observed_at :: string

record overflow_row =
  ov_provider :: audit_provider
  ov_failure :: audit_failure
  ov_count :: nat
  ov_first :: string
  ov_last :: string

record snapshot_index =
  sx_snapshot_id :: string
  sx_project_id :: string
  sx_deployment_id :: string
  sx_revision_hash :: string
  sx_digest :: string

record snapshot_row = snapshot_index +
  sw_created_at :: string
  sw_sealed :: sealed_value

datatype revocation_reason = OperatorRequested | CapabilityCompromised | PrivacyRequest | SecurityPolicy

record revocation_row =
  rv_snapshot_id :: string
  rv_reason :: revocation_reason
  rv_revoked_at :: string

record login_row =
  lg_token_digest :: string
  lg_project_id :: string
  lg_expires_at :: string
  lg_consumed_at :: string

record orch_db =
  od_projects :: "project_row list"
  od_events :: "project_event list"
  od_last_sequence :: nat
  od_inbox :: "inbox_row list"
  od_envelopes :: "mail_envelope list"
  od_audit :: "audit_row list"
  od_overflow :: "overflow_row list"
  od_snapshots :: "snapshot_row list"
  od_revocations :: "revocation_row list"
  od_logins :: "login_row list"

definition empty_orch_db :: orch_db where
  "empty_orch_db = \<lparr>od_projects = [], od_events = [], od_last_sequence = 0, od_inbox = [], od_envelopes = [],
     od_audit = [], od_overflow = [], od_snapshots = [], od_revocations = [], od_logins = []\<rparr>"

subsection \<open>Sealing an aggregate\<close>

fun lifecycle_text :: "lifecycle_status \<Rightarrow> string" where
  "lifecycle_text IntakeReceived = ''intake_received''"
| "lifecycle_text NeedsClarification = ''needs_clarification''"
| "lifecycle_text Researching = ''researching''"
| "lifecycle_text ProposalDrafting = ''proposal_drafting''"
| "lifecycle_text AwaitingCustomerRevision = ''awaiting_customer_revision''"
| "lifecycle_text AwaitingPayment = ''awaiting_payment''"
| "lifecycle_text PaymentVerificationFailed = ''payment_verification_failed''"
| "lifecycle_text Paid = ''paid''"
| "lifecycle_text Building = ''building''"
| "lifecycle_text Verifying = ''verifying''"
| "lifecycle_text NoProvenCandidate = ''no_proven_candidate''"
| "lifecycle_text PreviewReady = ''preview_ready''"
| "lifecycle_text RevisionPending = ''revision_pending''"
| "lifecycle_text Deploying = ''deploying''"
| "lifecycle_text DeploymentVerificationFailed = ''deployment_verification_failed''"
| "lifecycle_text Delivering = ''delivering''"
| "lifecycle_text ProjectCompleted = ''completed''"
| "lifecycle_text ProjectCancelled = ''cancelled''"
| "lifecycle_text ProjectFailed = ''failed''"
| "lifecycle_text NeedsOperatorAttention = ''needs_operator_attention''"

definition json_text :: "runtime \<Rightarrow> jsval \<Rightarrow> string" where
  "json_text R v = (case canonicalJson R v of Inl _ \<Rightarrow> [] | Inr s \<Rightarrow> s)"

text \<open>The index columns, canonically printed, are the authenticated data of the ciphertext.\<close>

definition indexAad :: "runtime \<Rightarrow> 'a project_index_scheme \<Rightarrow> string" where
  "indexAad R i = json_text R (JObject
     [(''projectId'', jtext (ix_project_id i)), (''idempotencyKey'', jtext (ix_idempotency_key i)),
      (''idempotencyDigest'', jtext (ix_idempotency_digest i)), (''status'', jtext (lifecycle_text (ix_status i))),
      (''revision'', jnum (ix_revision i)), (''createdAt'', jtext (ix_created_at i)),
      (''updatedAt'', jtext (ix_updated_at i))])"

definition encrypt_project :: "runtime \<Rightarrow> vault \<Rightarrow> string \<Rightarrow> project \<Rightarrow> 'a project_index_scheme \<Rightarrow> sealed_value" where
  "encrypt_project R V nonce p i = vt_seal V nonce (indexAad R i) (vt_print V p)"

definition agrees_with_index :: "project \<Rightarrow> 'a project_index_scheme \<Rightarrow> bool" where
  "agrees_with_index p i \<longleftrightarrow> pj_project_id p = ix_project_id i \<and> pj_status p = ix_status i
     \<and> pj_revision p = ix_revision i \<and> pj_created_at p = ix_created_at i \<and> pj_updated_at p = ix_updated_at i"

definition rowToProject :: "runtime \<Rightarrow> vault \<Rightarrow> project_row \<Rightarrow> orchestration_store_error + project" where
  "rowToProject R V r =
     (case vt_open V (px_sealed r) (indexAad R r) of
        None \<Rightarrow> Inl (AggregateDecryption (ix_project_id r))
      | Some plaintext \<Rightarrow>
          (case vt_parse V plaintext of
             None \<Rightarrow> Inl (AggregateDecryption (ix_project_id r))
           | Some p \<Rightarrow>
               if ProjectAggregate_ok R p \<and> agrees_with_index p r then Inr p
               else Inl (AggregateDecryption (ix_project_id r))))"

definition project_row_of :: "orch_db \<Rightarrow> string \<Rightarrow> project_row option" where
  "project_row_of db i = find (\<lambda>r. ix_project_id r = i) (od_projects db)"

definition hasPendingDashboardLoginEffect :: "project \<Rightarrow> bool" where
  "hasPendingDashboardLoginEffect p = list_ex (\<lambda>e. ef_type e = SendDashboardLogin \<and> ef_status e = EffectPending) (pj_effects p)"

definition check_input :: "bool \<Rightarrow> string \<Rightarrow> orchestration_store_error + unit" where
  "check_input P what = require P (InvalidInput what)"

text \<open>\<open>#appendEvent\<close>.\<close>

definition appendProjectEvent ::
  "string \<Rightarrow> string \<Rightarrow> nat \<Rightarrow> event_input \<Rightarrow> string \<Rightarrow> orch_db \<Rightarrow> orchestration_store_error + orch_db" where
  "appendProjectEvent uuid projectId revision e occurredAt db =
     bind_ok (check_input (ProjectEventInput_ok e) ''ProjectEventInput'') (\<lambda>_.
     if list_ex (\<lambda>x. pe_event_id x = uuid) (od_events db) then Inl (TableConstraint ''orchestration_events.event_id'')
     else if project_row_of db projectId = None then Inl (TableConstraint ''orchestration_events.project_id'')
     else Inr (db\<lparr>od_events := od_events db @
            [\<lparr>pe_sequence = Suc (od_last_sequence db), pe_event_id = uuid, pe_project_id = projectId,
              pe_aggregate_revision = revision, pe_type = ei_type e, pe_actor = ei_actor e,
              pe_payload = ei_payload e, pe_occurred_at = occurredAt\<rparr>],
          od_last_sequence := Suc (od_last_sequence db)\<rparr>))"

subsection \<open>Creating and reading projects\<close>

datatype first_status = StartReceived | StartNeedsClarification

fun first_lifecycle :: "first_status \<Rightarrow> lifecycle_status" where
  "first_lifecycle StartReceived = IntakeReceived"
| "first_lifecycle StartNeedsClarification = NeedsClarification"

record create_project_input =
  ci_project_id :: "string option"
  ci_idempotency_key :: string
  ci_status :: first_status
  ci_intake :: intake
  ci_customer :: customer_profile

definition CreateProjectInput_ok :: "runtime \<Rightarrow> create_project_input \<Rightarrow> bool" where
  "CreateProjectInput_ok R c \<longleftrightarrow> opt_all orchestration_id (ci_project_id c) \<and> idempotency_key (ci_idempotency_key c)
     \<and> Intake_ok R (ci_intake c) \<and> CustomerProfile_ok R (ci_customer c)"

fun pii_category_text :: "pii_category \<Rightarrow> string" where
  "pii_category_text PiiName = ''name''"
| "pii_category_text PiiEmail = ''email''"
| "pii_category_text PiiPhone = ''phone''"
| "pii_category_text PiiPostalAddress = ''postal_address''"
| "pii_category_text PiiGovernmentIdentifier = ''government_identifier''"
| "pii_category_text PiiFinancial = ''financial''"
| "pii_category_text PiiAccountIdentifier = ''account_identifier''"
| "pii_category_text PiiOtherSensitive = ''other_sensitive''"

fun pii_handling_text :: "pii_handling \<Rightarrow> string" where
  "pii_handling_text RetainInProfile = ''retain_in_profile''"
| "pii_handling_text TokenizePii = ''tokenize''"
| "pii_handling_text DiscardPii = ''discard''"

definition pii_span_json :: "pii_span \<Rightarrow> jsval" where
  "pii_span_json s = JObject [(''category'', jtext (pii_category_text (ps_category s))),
     (''startOffset'', jnum (ps_start s)), (''endOffset'', jnum (ps_end s)), (''valueDigest'', jtext (ps_value_digest s)),
     (''confidence'', JNumber (ps_confidence s)), (''handling'', jtext (pii_handling_text (ps_handling s)))]"

fun intake_source_json :: "intake_source \<Rightarrow> (string \<times> jsval) list" where
  "intake_source_json (VoiceIntake conversation) =
     [(''kind'', jtext ''voice''),
      (''source'', JObject [(''provider'', jtext ''elevenlabs''), (''conversationId'', jtext conversation)])]"
| "intake_source_json (EmailIntake subject provider message thread sig) =
     [(''kind'', jtext ''email''), (''subject'', opt_text_json subject),
      (''source'', JObject [(''provider'', jtext provider), (''providerMessageId'', jtext message),
         (''threadId'', opt_text_json thread), (''signatureVerified'', JBool sig)])]"
| "intake_source_json (TextIntake provider message conversation sig) =
     [(''kind'', jtext ''text''),
      (''source'', JObject [(''provider'', jtext provider), (''providerMessageId'', jtext message),
         (''conversationId'', opt_text_json conversation), (''signatureVerified'', JBool sig)])]"

definition intake_json :: "intake \<Rightarrow> jsval" where
  "intake_json i = JObject ([(''intakeId'', jtext (in_id i)), (''receivedAt'', jtext (in_received_at i)),
     (''content'', jtext (in_content i)), (''contentDigest'', jtext (in_content_digest i)),
     (''piiSpans'', JArray (map pii_span_json (in_pii_spans i)))] @ intake_source_json (in_source i))"

definition contact_json :: "contact option \<Rightarrow> jsval" where
  "contact_json v = (case v of None \<Rightarrow> JUndefined | Some c \<Rightarrow>
     JObject [(''value'', jtext (ct_value c)), (''verified'', JBool (ct_verified c)),
              (''verifiedAt'', opt_text_json (ct_verified_at c))])"

fun channel_text :: "contact_channel \<Rightarrow> string" where
  "channel_text ViaEmail = ''email''"
| "channel_text ViaText = ''text''"
| "channel_text ViaVoice = ''voice''"

definition customer_json :: "customer_profile \<Rightarrow> jsval" where
  "customer_json c = JObject [(''profileId'', jtext (cp_profile_id c)), (''displayName'', opt_text_json (cp_display_name c)),
     (''email'', contact_json (cp_email c)), (''phone'', contact_json (cp_phone c)),
     (''organizationName'', opt_text_json (cp_organization_name c)),
     (''preferredChannel'', opt_text_json (map_option channel_text (cp_preferred_channel c))),
     (''researchConsent'', JObject [(''granted'', JBool (rc_granted (cp_research_consent c))),
        (''scope'', jtext ''own_business_only''), (''capturedAt'', opt_text_json (rc_captured_at (cp_research_consent c))),
        (''sourceIntakeId'', opt_text_json (rc_source_intake_id (cp_research_consent c)))])]"

definition idempotencyDigest :: "runtime \<Rightarrow> create_project_input \<Rightarrow> string" where
  "idempotencyDigest R c = rt_sha256 R (json_text R (JObject
     [(''projectId'', case ci_project_id c of None \<Rightarrow> JNull | Some i \<Rightarrow> jtext i),
      (''status'', jtext (lifecycle_text (first_lifecycle (ci_status c)))),
      (''intake'', intake_json (ci_intake c)), (''customer'', customer_json (ci_customer c))]))"

definition new_project :: "string \<Rightarrow> create_project_input \<Rightarrow> string \<Rightarrow> project" where
  "new_project projectId c timestamp = \<lparr>pj_project_id = projectId, pj_revision = 0,
     pj_status = first_lifecycle (ci_status c), pj_intake = ci_intake c, pj_customer = ci_customer c,
     pj_proposals = [], pj_active_proposal = None, pj_paid_proposal = None, pj_checkouts = [], pj_payments = [],
     pj_batches = [], pj_active_batch_id = None, pj_candidates = [], pj_previews = [], pj_deployments = [],
     pj_messages = [], pj_open_questions = [], pj_effects = [], pj_errors = [], pj_created_at = timestamp,
     pj_updated_at = timestamp\<rparr>"

definition project_created_event :: "lifecycle_status \<Rightarrow> event_input" where
  "project_created_event st = \<lparr>ei_type = ''project.created'', ei_actor = ActorSystem,
     ei_payload = no_payload\<lparr>ep_status := Some st\<rparr>\<rparr>"

record create_project_result =
  cpr_project :: project
  cpr_created :: bool

definition createProject ::
  "runtime \<Rightarrow> vault \<Rightarrow> text_clock \<Rightarrow> string \<Rightarrow> string \<Rightarrow> string \<Rightarrow> create_project_input \<Rightarrow> orch_db
    \<Rightarrow> orchestration_store_error + (create_project_result \<times> orch_db)" where
  "createProject R V c uuid eventId nonce input db =
     bind_ok (check_input (CreateProjectInput_ok R input) ''CreateProjectInput'') (\<lambda>_.
     let digest = idempotencyDigest R input in
     case find (\<lambda>r. ix_idempotency_key r = ci_idempotency_key input) (od_projects db) of
       Some existing \<Rightarrow>
         bind_ok (require (ix_idempotency_digest existing = digest)
             (OrchestrationIdempotencyConflict (ci_idempotency_key input))) (\<lambda>_.
         bind_ok (rowToProject R V existing) (\<lambda>p. Inr (\<lparr>cpr_project = p, cpr_created = False\<rparr>, db)))
     | None \<Rightarrow>
         let projectId = (case ci_project_id input of None \<Rightarrow> uuid | Some i \<Rightarrow> i) in
         bind_ok (require (project_row_of db projectId = None) (ProjectAlreadyExists projectId)) (\<lambda>_.
         let p = new_project projectId input (c 0) in
         bind_ok (check_input (ProjectAggregate_ok R p) ''ProjectAggregate'') (\<lambda>_.
         let i = \<lparr>ix_project_id = projectId, ix_idempotency_key = ci_idempotency_key input,
                   ix_idempotency_digest = digest, ix_status = pj_status p, ix_revision = pj_revision p,
                   ix_created_at = pj_created_at p, ix_updated_at = pj_updated_at p\<rparr> in
         bind_ok (appendProjectEvent eventId projectId 0 (project_created_event (pj_status p)) (c 0)
             (db\<lparr>od_projects := od_projects db @ [project_index.extend i
                \<lparr>px_pending_login = hasPendingDashboardLoginEffect p, px_sealed = encrypt_project R V nonce p i\<rparr>]\<rparr>)) (\<lambda>db'.
         Inr (\<lparr>cpr_project = p, cpr_created = True\<rparr>, db')))))"

definition getProject :: "runtime \<Rightarrow> vault \<Rightarrow> string \<Rightarrow> orch_db \<Rightarrow> orchestration_store_error + project option" where
  "getProject R V projectId db =
     bind_ok (check_input (orchestration_id projectId) ''projectId'') (\<lambda>_.
     case project_row_of db projectId of
       None \<Rightarrow> Inr None
     | Some r \<Rightarrow> bind_ok (rowToProject R V r) (\<lambda>p. Inr (Some p)))"

subsection \<open>Webhook inbox and one-time logins\<close>

text \<open>\<open>WebhookProviderSchema\<close>: an identifier that is also \<open>/^[a-z][a-z0-9_-]*$/\<close>.\<close>

definition webhook_provider :: "string \<Rightarrow> bool" where
  "webhook_provider s \<longleftrightarrow> orchestration_id s \<and>
     (case s of [] \<Rightarrow> False | c # cs \<Rightarrow> is_lower c \<and> list_all (\<lambda>d. is_lower d \<or> is_digit d \<or> one_of ''_-'' d) cs)"

record inbox_event =
  xe_provider :: string
  xe_event_id :: string
  xe_digest :: string

definition verified_inbox_ok :: "inbox_event \<Rightarrow> bool" where
  "verified_inbox_ok e \<longleftrightarrow> webhook_provider (xe_provider e) \<and> orchestration_id (xe_event_id e) \<and> sha256_text (xe_digest e)"

definition inbox_row_of :: "orch_db \<Rightarrow> string \<Rightarrow> string \<Rightarrow> inbox_row option" where
  "inbox_row_of db provider eventId = find (\<lambda>r. xr_provider r = provider \<and> xr_event_id r = eventId) (od_inbox db)"

text \<open>\<open>#recordInboxInCurrentTransaction\<close>.\<close>

definition record_inbox ::
  "string \<Rightarrow> inbox_event \<Rightarrow> orch_db \<Rightarrow> orchestration_store_error + (bool \<times> orch_db)" where
  "record_inbox now e db =
     (case inbox_row_of db (xe_provider e) (xe_event_id e) of
        Some r \<Rightarrow> if xr_digest r \<noteq> xe_digest e then Inl (InboxConflict (xe_provider e) (xe_event_id e)) else Inr (False, db)
      | None \<Rightarrow> Inr (True, db\<lparr>od_inbox := od_inbox db @ [\<lparr>xr_provider = xe_provider e, xr_event_id = xe_event_id e,
          xr_digest = xe_digest e, xr_received_at = now\<rparr>]\<rparr>))"

definition recordInbox ::
  "text_clock \<Rightarrow> inbox_event \<Rightarrow> orch_db \<Rightarrow> orchestration_store_error + (bool \<times> orch_db)" where
  "recordInbox c e db = bind_ok (check_input (verified_inbox_ok e) ''VerifiedInboxEvent'') (\<lambda>_. record_inbox (c 0) e db)"

definition hasVerifiedInboxEvent :: "inbox_event \<Rightarrow> orch_db \<Rightarrow> orchestration_store_error + bool" where
  "hasVerifiedInboxEvent e db =
     bind_ok (check_input (verified_inbox_ok e) ''VerifiedInboxEvent'') (\<lambda>_.
     case inbox_row_of db (xe_provider e) (xe_event_id e) of
       None \<Rightarrow> Inr False
     | Some r \<Rightarrow> if xr_digest r \<noteq> xe_digest e then Inl (InboxConflict (xe_provider e) (xe_event_id e)) else Inr True)"

text \<open>\<open>INSERT OR IGNORE\<close> ignores a repeated token, not a missing project.\<close>

definition consumeCustomerDashboardLogin ::
  "runtime \<Rightarrow> text_clock \<Rightarrow> string \<Rightarrow> string \<Rightarrow> string \<Rightarrow> orch_db \<Rightarrow> orchestration_store_error + (bool \<times> orch_db)" where
  "consumeCustomerDashboardLogin R c tokenDigest projectId expiresAt db =
     bind_ok (check_input (sha256_text tokenDigest \<and> orchestration_id projectId \<and> rt_is_datetime R expiresAt)
        ''CustomerDashboardLogin'') (\<lambda>_.
     let consumedAt = c 0 in
     if date_le R expiresAt consumedAt then Inr (False, db)
     else if list_ex (\<lambda>l. lg_token_digest l = tokenDigest) (od_logins db) then Inr (False, db)
     else if project_row_of db projectId = None then Inl (TableConstraint ''orchestration_customer_dashboard_logins.project_id'')
     else Inr (True, db\<lparr>od_logins := od_logins db @ [\<lparr>lg_token_digest = tokenDigest, lg_project_id = projectId,
            lg_expires_at = expiresAt, lg_consumed_at = consumedAt\<rparr>]\<rparr>))"

definition hasConsumedCustomerDashboardLogin ::
  "string \<Rightarrow> string \<Rightarrow> orch_db \<Rightarrow> orchestration_store_error + bool" where
  "hasConsumedCustomerDashboardLogin tokenDigest projectId db =
     bind_ok (check_input (sha256_text tokenDigest \<and> orchestration_id projectId) ''CustomerDashboardLogin'') (\<lambda>_.
     Inr (list_ex (\<lambda>l. lg_token_digest l = tokenDigest \<and> lg_project_id l = projectId) (od_logins db)))"

subsection \<open>Saving a project\<close>

record login_consumption =
  lc_token_digest :: string
  lc_project_id :: string
  lc_expires_at :: string

definition next_project :: "project \<Rightarrow> 'a project_index_scheme \<Rightarrow> string \<Rightarrow> project" where
  "next_project p i timestamp =
     p\<lparr>pj_revision := pj_revision p + 1, pj_created_at := ix_created_at i, pj_updated_at := timestamp\<rparr>"

definition saved_row :: "runtime \<Rightarrow> vault \<Rightarrow> string \<Rightarrow> project \<Rightarrow> project_row \<Rightarrow> project_row" where
  "saved_row R V nonce p r =
     (let i = r\<lparr>ix_status := pj_status p, ix_revision := pj_revision p, ix_updated_at := pj_updated_at p\<rparr> in
      i\<lparr>px_pending_login := hasPendingDashboardLoginEffect p, px_sealed := encrypt_project R V nonce p i\<rparr>)"

text \<open>The login and the inbox entry of a save, inside its transaction.  \<open>None\<close> is the early return of
  the stored project for a webhook seen before.\<close>

definition consume_login ::
  "runtime \<Rightarrow> text_clock \<Rightarrow> login_consumption option \<Rightarrow> orch_db \<Rightarrow> orchestration_store_error + orch_db" where
  "consume_login R c login db =
     (case login of
        None \<Rightarrow> Inr db
      | Some l \<Rightarrow>
          bind_ok (consumeCustomerDashboardLogin R c (lc_token_digest l) (lc_project_id l) (lc_expires_at l) db) (\<lambda>(done, db1).
          if done then Inr db1 else Inl CustomerDashboardLoginConflict))"

definition accept_inbox ::
  "string \<Rightarrow> inbox_event option \<Rightarrow> bool \<Rightarrow> orch_db \<Rightarrow> orchestration_store_error + orch_db option" where
  "accept_inbox now inbox login db =
     (case inbox of
        None \<Rightarrow> Inr (Some db)
      | Some e \<Rightarrow>
          bind_ok (record_inbox now e db) (\<lambda>(new, db1).
          if new then Inr (Some db1) else if login then Inl CustomerDashboardLoginConflict else Inr None))"

text \<open>The compare-and-set itself.  Inside one transaction the \<open>UPDATE ... WHERE revision = ?\<close> changes the row
  just read, so its \<open>changes\<close> is 1.\<close>

definition write_project ::
  "runtime \<Rightarrow> vault \<Rightarrow> string \<Rightarrow> string \<Rightarrow> string \<Rightarrow> project \<Rightarrow> nat \<Rightarrow> event_input \<Rightarrow> project_row \<Rightarrow> orch_db
    \<Rightarrow> orchestration_store_error + (project \<times> orch_db)" where
  "write_project R V now uuid nonce p expected e row db =
     bind_ok (require (ix_revision row = expected)
        (OptimisticConcurrency (pj_project_id p) expected (ix_revision row))) (\<lambda>_.
     let q = next_project p row now in
     bind_ok (check_input (ProjectAggregate_ok R q) ''ProjectAggregate'') (\<lambda>_.
     bind_ok (appendProjectEvent uuid (pj_project_id q) (pj_revision q) e now
        (db\<lparr>od_projects := update_where (\<lambda>r. ix_project_id r = pj_project_id p \<and> ix_revision r = expected)
           (saved_row R V nonce q) (od_projects db)\<rparr>)) (\<lambda>db'.
     Inr (q, db'))))"

definition saveProject ::
  "runtime \<Rightarrow> vault \<Rightarrow> text_clock \<Rightarrow> string \<Rightarrow> string \<Rightarrow> project \<Rightarrow> nat \<Rightarrow> event_input \<Rightarrow> inbox_event option
    \<Rightarrow> login_consumption option \<Rightarrow> orch_db \<Rightarrow> orchestration_store_error + (project \<times> orch_db)" where
  "saveProject R V c uuid nonce p expected e inbox login db =
     bind_ok (check_input (ProjectAggregate_ok R p \<and> ProjectEventInput_ok e \<and> opt_all verified_inbox_ok inbox
        \<and> opt_all (\<lambda>l. sha256_text (lc_token_digest l) \<and> orchestration_id (lc_project_id l)
             \<and> rt_is_datetime R (lc_expires_at l)) login) ''saveProject'') (\<lambda>_.
     bind_ok (check_input (opt_all (\<lambda>l. lc_project_id l = pj_project_id p) login)
        ''Customer dashboard login must belong to the saved project'') (\<lambda>_.
     bind_ok (check_input (safe_nat expected) ''expectedRevision must be a non-negative safe integer'') (\<lambda>_.
     bind_ok (require (pj_revision p = expected)
        (InvalidAggregateRevision (pj_project_id p) (pj_revision p) expected)) (\<lambda>_.
     bind_ok (the_or (ProjectNotFound (pj_project_id p)) (project_row_of db (pj_project_id p))) (\<lambda>row.
     bind_ok (consume_login R c login db) (\<lambda>db1.
     bind_ok (accept_inbox (c 1) inbox (login \<noteq> None) db1) (\<lambda>accepted.
     case accepted of
       None \<Rightarrow> bind_ok (rowToProject R V row) (\<lambda>current. Inr (current, db1))
     | Some db2 \<Rightarrow> write_project R V (c 2) uuid nonce p expected e row db2)))))))"

subsection \<open>Rejected webhooks\<close>

record webhook_failure =
  wf_provider :: audit_provider
  wf_body_digest :: string
  wf_header_digest :: string
  wf_failure :: audit_failure

datatype audit_outcome = AuditRecorded | AuditDuplicate | AuditOverflow

text \<open>\<open>INSERT ... ON CONFLICT(provider, failure_code) DO UPDATE\<close>.\<close>

definition bump_overflow :: "webhook_failure \<Rightarrow> string \<Rightarrow> overflow_row list \<Rightarrow> overflow_row list" where
  "bump_overflow w now rows =
     (let same = (\<lambda>o'. ov_provider o' = wf_provider w \<and> ov_failure o' = wf_failure w) in
      if list_ex same rows
      then update_where same (\<lambda>o'. o'\<lparr>ov_count := min (ov_count o' + 1) MAX_SECURITY_AUDIT_OVERFLOW_OBSERVATIONS_PER_GROUP,
             ov_last := max (ov_last o') now\<rparr>) rows
      else rows @ [\<lparr>ov_provider = wf_provider w, ov_failure = wf_failure w, ov_count = 1, ov_first = now, ov_last = now\<rparr>])"

definition recordWebhookSecurityFailure ::
  "nat \<Rightarrow> text_clock \<Rightarrow> webhook_failure \<Rightarrow> orch_db \<Rightarrow> orchestration_store_error + (audit_outcome \<times> orch_db)" where
  "recordWebhookSecurityFailure receiptLimit c w db =
     bind_ok (check_input (sha256_text (wf_body_digest w) \<and> sha256_text (wf_header_digest w)) ''WebhookSecurityFailure'') (\<lambda>_.
     if list_ex (\<lambda>a. au_provider a = wf_provider w \<and> au_body_digest a = wf_body_digest w
          \<and> au_header_digest a = wf_header_digest w \<and> au_failure a = wf_failure w) (od_audit db)
     then Inr (AuditDuplicate, db)
     else if length (od_audit db) < receiptLimit
     then Inr (AuditRecorded, db\<lparr>od_audit := od_audit db @ [\<lparr>au_provider = wf_provider w,
            au_body_digest = wf_body_digest w, au_header_digest = wf_header_digest w, au_failure = wf_failure w,
            au_observed_at = c 0\<rparr>]\<rparr>)
     else Inr (AuditOverflow, db\<lparr>od_overflow := bump_overflow w (c 0) (od_overflow db)\<rparr>))"

definition parseSecurityAuditReceiptLimit :: "int \<Rightarrow> orchestration_store_error + nat" where
  "parseSecurityAuditReceiptLimit n =
     (if n < 1 \<or> 100000 < n then Inl (InvalidInput ''securityAuditReceiptLimit'') else Inr (nat n))"

record audit_group =
  ag_provider :: audit_provider
  ag_failure :: audit_failure
  ag_retained :: nat
  ag_overflow :: nat
  ag_first :: string
  ag_last :: string

record audit_summary =
  as_receipt_limit :: nat
  as_retained :: nat
  as_overflow :: nat
  as_groups :: "audit_group list"

fun audit_provider_text :: "audit_provider \<Rightarrow> string" where
  "audit_provider_text AuditResend = ''resend''"
| "audit_provider_text AuditStripe = ''stripe''"

fun audit_failure_text :: "audit_failure \<Rightarrow> string" where
  "audit_failure_text InvalidSignatureHeaders = ''invalid_signature_headers''"
| "audit_failure_text WebhookVerificationFailed = ''webhook_verification_failed''"

definition webhookSecurityGroupKey :: "audit_provider \<Rightarrow> audit_failure \<Rightarrow> string" where
  "webhookSecurityGroupKey a f = audit_provider_text a @ [CHR 0x00] @ audit_failure_text f"

text \<open>The groups \<open>GROUP BY provider, failure_code\<close> can have, in key order.\<close>

definition audit_keys :: "(audit_provider \<times> audit_failure) list" where
  "audit_keys = [(AuditResend, InvalidSignatureHeaders), (AuditResend, WebhookVerificationFailed),
     (AuditStripe, InvalidSignatureHeaders), (AuditStripe, WebhookVerificationFailed)]"

fun min_text :: "string list \<Rightarrow> string" where
  "min_text [] = []"
| "min_text [x] = x"
| "min_text (x # y # zs) = min x (min_text (y # zs))"

fun max_text :: "string list \<Rightarrow> string" where
  "max_text [] = []"
| "max_text (x # xs) = max x (max_text xs)"

definition stored_timestamp :: "runtime \<Rightarrow> string \<Rightarrow> bool" where
  "stored_timestamp R s \<longleftrightarrow> 20 \<le> length s \<and> length s \<le> 64 \<and> rt_date_parse R s \<noteq> None"

definition audit_group_of :: "orch_db \<Rightarrow> audit_provider \<times> audit_failure \<Rightarrow> audit_group list" where
  "audit_group_of db k =
     (let receipts = filter (\<lambda>a. (au_provider a, au_failure a) = k) (od_audit db);
          overflow = find (\<lambda>o'. (ov_provider o', ov_failure o') = k) (od_overflow db);
          times = map au_observed_at receipts in
      case overflow of
        None \<Rightarrow> if receipts = [] then [] else
          [\<lparr>ag_provider = fst k, ag_failure = snd k, ag_retained = length receipts, ag_overflow = 0,
            ag_first = min_text times, ag_last = max_text times\<rparr>]
      | Some o' \<Rightarrow>
          [\<lparr>ag_provider = fst k, ag_failure = snd k, ag_retained = length receipts, ag_overflow = ov_count o',
            ag_first = (if receipts \<noteq> [] \<and> min_text times < ov_first o' then min_text times else ov_first o'),
            ag_last = (if receipts \<noteq> [] \<and> ov_last o' < max_text times then max_text times else ov_last o')\<rparr>])"

text \<open>The oldest and the newest receipt of a group are the ones read and checked.\<close>

definition audit_times_ok :: "runtime \<Rightarrow> orch_db \<Rightarrow> audit_provider \<times> audit_failure \<Rightarrow> bool" where
  "audit_times_ok R db k \<longleftrightarrow>
     (let times = map au_observed_at (filter (\<lambda>a. (au_provider a, au_failure a) = k) (od_audit db)) in
      times = [] \<or> stored_timestamp R (min_text times) \<and> stored_timestamp R (max_text times))"

definition summarizeWebhookSecurityFailures ::
  "runtime \<Rightarrow> nat \<Rightarrow> orch_db \<Rightarrow> orchestration_store_error + audit_summary" where
  "summarizeWebhookSecurityFailures R receiptLimit db =
     (let groups = concat (map (audit_group_of db) audit_keys);
          sorted_groups = sort_by (\<lambda>a b. rt_locale_compare R (webhookSecurityGroupKey (ag_provider a) (ag_failure a))
             (webhookSecurityGroupKey (ag_provider b) (ag_failure b))) groups in
      bind_ok (check_input (list_all (audit_times_ok R db) audit_keys
         \<and> list_all (\<lambda>o'. stored_timestamp R (ov_first o') \<and> stored_timestamp R (ov_last o')) (od_overflow db))
         ''Invalid webhook security audit timestamp'') (\<lambda>_.
      Inr \<lparr>as_receipt_limit = receiptLimit, as_retained = sum_list (map ag_retained sorted_groups),
           as_overflow = sum_list (map ag_overflow sorted_groups), as_groups = sorted_groups\<rparr>))"

subsection \<open>Inbound mail envelopes\<close>

definition opaque_email_id :: "string \<Rightarrow> bool" where
  "opaque_email_id s \<longleftrightarrow> str_between 1 256 s \<and> trim s = s
     \<and> \<not> list_ex (\<lambda>c. (of_char c :: nat) < 32 \<or> (of_char c :: nat) = 127) s"

definition parse_timestamp :: "runtime \<Rightarrow> string \<Rightarrow> bool" where
  "parse_timestamp R s \<longleftrightarrow> 20 \<le> length s \<and> length s \<le> 64 \<and> rt_date_parse R s \<noteq> None"

record envelope_input =
  vi_event_id :: string
  vi_event_digest :: string
  vi_project_id :: string
  vi_email_id :: string
  vi_identity_digest :: string
  vi_received_at :: string

definition envelope_input_ok :: "runtime \<Rightarrow> envelope_input \<Rightarrow> bool" where
  "envelope_input_ok R i \<longleftrightarrow> orchestration_id (vi_event_id i) \<and> sha256_text (vi_event_digest i)
     \<and> orchestration_id (vi_project_id i) \<and> opaque_email_id (vi_email_id i) \<and> sha256_text (vi_identity_digest i)
     \<and> parse_timestamp R (vi_received_at i)"

definition sameInboundMailEnvelopeIdentity :: "mail_envelope \<Rightarrow> envelope_input \<Rightarrow> bool" where
  "sameInboundMailEnvelopeIdentity m i \<longleftrightarrow> me_event_id m = vi_event_id i \<and> me_event_digest m = vi_event_digest i
     \<and> me_project_id m = vi_project_id i \<and> me_email_id m = vi_email_id i
     \<and> me_identity_digest m = vi_identity_digest i \<and> me_received_at m = vi_received_at i"

text \<open>\<open>rowToInboundMailEnvelope\<close> reads a row back through the same checks; an empty column counts as
  absent.\<close>

definition envelope_row_ok :: "runtime \<Rightarrow> mail_envelope \<Rightarrow> bool" where
  "envelope_row_ok R m \<longleftrightarrow> orchestration_id (me_event_id m) \<and> sha256_text (me_event_digest m)
     \<and> orchestration_id (me_project_id m) \<and> opaque_email_id (me_email_id m) \<and> sha256_text (me_identity_digest m)
     \<and> opt_all (parse_timestamp R) (truthy (me_next_attempt_at m)) \<and> opt_all error_code_text (truthy (me_last_error_code m))
     \<and> parse_timestamp R (me_received_at m) \<and> parse_timestamp R (me_updated_at m)
     \<and> opt_all (parse_timestamp R) (truthy (me_processed_at m))"

definition rowToInboundMailEnvelope :: "runtime \<Rightarrow> mail_envelope \<Rightarrow> orchestration_store_error + mail_envelope" where
  "rowToInboundMailEnvelope R m =
     bind_ok (check_input (envelope_row_ok R m) ''inbound mail envelope'') (\<lambda>_.
     Inr (m\<lparr>me_next_attempt_at := truthy (me_next_attempt_at m), me_last_error_code := truthy (me_last_error_code m),
            me_processed_at := truthy (me_processed_at m)\<rparr>))"

definition envelope_of :: "orch_db \<Rightarrow> string \<Rightarrow> mail_envelope option" where
  "envelope_of db eventId = find (\<lambda>m. me_event_id m = eventId) (od_envelopes db)"

definition stageInboundMailEnvelope ::
  "runtime \<Rightarrow> text_clock \<Rightarrow> envelope_input \<Rightarrow> orch_db \<Rightarrow> orchestration_store_error + (mail_envelope \<times> orch_db)" where
  "stageInboundMailEnvelope R c i db =
     bind_ok (check_input (envelope_input_ok R i) ''InboundMailEnvelopeInput'') (\<lambda>_.
     case envelope_of db (vi_event_id i) of
       Some row \<Rightarrow>
         bind_ok (rowToInboundMailEnvelope R row) (\<lambda>m.
         bind_ok (require (sameInboundMailEnvelopeIdentity m i) (InboundMailEnvelopeConflict (vi_event_id i))) (\<lambda>_.
         Inr (m, db)))
     | None \<Rightarrow>
         bind_ok (require (project_row_of db (vi_project_id i) \<noteq> None) (ProjectNotFound (vi_project_id i))) (\<lambda>_.
         let m = \<lparr>me_event_id = vi_event_id i, me_event_digest = vi_event_digest i, me_project_id = vi_project_id i,
                   me_email_id = vi_email_id i, me_identity_digest = vi_identity_digest i, me_status = EnvelopePending,
                   me_attempts = 0, me_next_attempt_at = None, me_last_error_code = None,
                   me_received_at = vi_received_at i, me_updated_at = c 0, me_processed_at = None\<rparr> in
         Inr (m, db\<lparr>od_envelopes := od_envelopes db @ [m]\<rparr>)))"

text \<open>\<open>status = 'pending' AND (next_attempt_at IS NULL OR next_attempt_at <= ?)\<close>.\<close>

definition envelope_due :: "string \<Rightarrow> mail_envelope \<Rightarrow> bool" where
  "envelope_due readyAt m \<longleftrightarrow> me_status m = EnvelopePending
     \<and> (case me_next_attempt_at m of None \<Rightarrow> True | Some t \<Rightarrow> t \<le> readyAt)"

definition claim_envelope :: "string \<Rightarrow> string \<Rightarrow> mail_envelope \<Rightarrow> mail_envelope" where
  "claim_envelope readyAt leaseUntil m =
     m\<lparr>me_attempts := me_attempts m + 1, me_next_attempt_at := Some leaseUntil, me_updated_at := readyAt\<rparr>"

definition due_envelopes :: "string \<Rightarrow> string \<Rightarrow> nat \<Rightarrow> orch_db \<Rightarrow> mail_envelope list" where
  "due_envelopes projectId readyAt limit db =
     take limit (order_by (\<lambda>m. (me_received_at m, me_event_id m))
       (filter (\<lambda>m. me_project_id m = projectId \<and> envelope_due readyAt m) (od_envelopes db)))"

text \<open>The rows are read once and updated one by one; each update matches, since only this transaction
  writes.\<close>

definition claimPendingInboundMailEnvelopes ::
  "runtime \<Rightarrow> string \<Rightarrow> string \<Rightarrow> string \<Rightarrow> int \<Rightarrow> orch_db \<Rightarrow> orchestration_store_error + (mail_envelope list \<times> orch_db)" where
  "claimPendingInboundMailEnvelopes R projectId readyAt leaseUntil limit db =
     bind_ok (check_input (orchestration_id projectId \<and> parse_timestamp R readyAt \<and> parse_timestamp R leaseUntil)
        ''claimPendingInboundMailEnvelopes'') (\<lambda>_.
     bind_ok (check_input (\<not> date_le R leaseUntil readyAt) ''Inbound mail claim lease must end after readyAt'') (\<lambda>_.
     bind_ok (check_input (1 \<le> limit \<and> limit \<le> 100) ''Inbound mail claim limit must be from 1 to 100'') (\<lambda>_.
     let rows = due_envelopes projectId readyAt (nat limit) db in
     bind_ok (collect_ok (map (rowToInboundMailEnvelope R) rows)) (\<lambda>ms.
     Inr (map (claim_envelope readyAt leaseUntil) ms,
       db\<lparr>od_envelopes := update_where (\<lambda>m. me_event_id m \<in> me_event_id ` set rows \<and> envelope_due readyAt m)
            (claim_envelope readyAt leaseUntil) (od_envelopes db)\<rparr>)))))"

definition requireInboundMailEnvelope ::
  "runtime \<Rightarrow> string \<Rightarrow> string \<Rightarrow> orch_db \<Rightarrow> orchestration_store_error + mail_envelope" where
  "requireInboundMailEnvelope R eventId digest db =
     bind_ok (the_or InboundMailEnvelopeMissing (envelope_of db eventId)) (\<lambda>row.
     bind_ok (rowToInboundMailEnvelope R row) (\<lambda>m.
     bind_ok (require (me_event_digest m = digest) (InboundMailEnvelopeConflict eventId)) (\<lambda>_. Inr m)))"

definition update_envelope :: "string \<Rightarrow> (mail_envelope \<Rightarrow> mail_envelope) \<Rightarrow> orch_db \<Rightarrow> orch_db" where
  "update_envelope eventId f db =
     db\<lparr>od_envelopes := update_where (\<lambda>m. me_event_id m = eventId) f (od_envelopes db)\<rparr>"

definition completeInboundMailEnvelope ::
  "runtime \<Rightarrow> string \<Rightarrow> string \<Rightarrow> string \<Rightarrow> orch_db \<Rightarrow> orchestration_store_error + orch_db" where
  "completeInboundMailEnvelope R eventId digest processedAt db =
     bind_ok (check_input (orchestration_id eventId \<and> sha256_text digest \<and> parse_timestamp R processedAt)
        ''completeInboundMailEnvelope'') (\<lambda>_.
     bind_ok (requireInboundMailEnvelope R eventId digest db) (\<lambda>m.
     if me_status m = EnvelopeProcessed then Inr db
     else Inr (update_envelope eventId (\<lambda>r. r\<lparr>me_status := EnvelopeProcessed, me_next_attempt_at := None,
            me_last_error_code := None, me_updated_at := processedAt, me_processed_at := Some processedAt\<rparr>) db)))"

datatype terminal_failure = TerminalRejected | TerminalFailed

record envelope_failure =
  vf_event_id :: string
  vf_event_digest :: string
  vf_error_code :: string
  vf_retryable :: bool
  vf_terminal :: "terminal_failure option"
  vf_next_attempt_at :: "string option"
  vf_failed_at :: string

definition failure_status :: "envelope_failure \<Rightarrow> envelope_status" where
  "failure_status f =
     (if vf_retryable f then EnvelopePending
      else case vf_terminal f of Some TerminalRejected \<Rightarrow> EnvelopeRejected | _ \<Rightarrow> EnvelopeFailed)"

text \<open>Only an envelope already processed is left alone; one an operator discarded is not.\<close>

definition recordInboundMailEnvelopeFailure ::
  "runtime \<Rightarrow> envelope_failure \<Rightarrow> orch_db \<Rightarrow> orchestration_store_error + orch_db" where
  "recordInboundMailEnvelopeFailure R f db =
     bind_ok (check_input (orchestration_id (vf_event_id f) \<and> sha256_text (vf_event_digest f)
        \<and> parse_timestamp R (vf_failed_at f) \<and> error_code_text (vf_error_code f)
        \<and> opt_all (parse_timestamp R) (vf_next_attempt_at f)) ''InboundMailEnvelopeFailure'') (\<lambda>_.
     bind_ok (check_input (vf_retryable f = (vf_next_attempt_at f \<noteq> None))
        ''A retryable inbound mail failure requires exactly one nextAttemptAt'') (\<lambda>_.
     bind_ok (check_input (vf_retryable f \<noteq> (vf_terminal f \<noteq> None))
        ''A terminal inbound mail failure requires a valid terminalStatus'') (\<lambda>_.
     bind_ok (requireInboundMailEnvelope R (vf_event_id f) (vf_event_digest f) db) (\<lambda>m.
     if me_status m = EnvelopeProcessed then Inr db
     else Inr (update_envelope (vf_event_id f) (\<lambda>r. r\<lparr>me_status := failure_status f,
            me_next_attempt_at := vf_next_attempt_at f, me_last_error_code := Some (vf_error_code f),
            me_updated_at := vf_failed_at f\<rparr>) db)))))"

definition listInboundMailEnvelopes ::
  "runtime \<Rightarrow> string \<Rightarrow> int \<Rightarrow> orch_db \<Rightarrow> orchestration_store_error + mail_envelope list" where
  "listInboundMailEnvelopes R projectId limit db =
     bind_ok (check_input (orchestration_id projectId) ''projectId'') (\<lambda>_.
     bind_ok (check_input (1 \<le> limit \<and> limit \<le> 1000) ''Inbound mail list limit must be from 1 to 1000'') (\<lambda>_.
     collect_ok (map (rowToInboundMailEnvelope R) (take (nat limit)
       (order_by (\<lambda>m. (me_received_at m, me_event_id m))
         (filter (\<lambda>m. me_project_id m = projectId) (od_envelopes db)))))))"

definition unresolved :: "mail_envelope \<Rightarrow> bool" where
  "unresolved m \<longleftrightarrow> me_status m = EnvelopePending \<or> me_status m = EnvelopeFailed"

definition hasUnresolvedInboundMailEnvelope :: "string \<Rightarrow> orch_db \<Rightarrow> orchestration_store_error + bool" where
  "hasUnresolvedInboundMailEnvelope projectId db =
     bind_ok (check_input (orchestration_id projectId) ''projectId'') (\<lambda>_.
     Inr (list_ex (\<lambda>m. me_project_id m = projectId \<and> unresolved m) (od_envelopes db)))"

datatype envelope_resolution = ResolveRetry | ResolveDiscard

fun resolve_row :: "envelope_resolution \<Rightarrow> string \<Rightarrow> mail_envelope \<Rightarrow> mail_envelope" where
  "resolve_row ResolveRetry now m = m\<lparr>me_status := EnvelopePending, me_next_attempt_at := None,
     me_last_error_code := None, me_updated_at := now, me_processed_at := None\<rparr>"
| "resolve_row ResolveDiscard now m = m\<lparr>me_status := EnvelopeRejected, me_next_attempt_at := None,
     me_last_error_code := Some ''inbound_mail.operator_discarded'', me_updated_at := now, me_processed_at := Some now\<rparr>"

definition resolveInboundMailEnvelope ::
  "runtime \<Rightarrow> string \<Rightarrow> string \<Rightarrow> envelope_resolution \<Rightarrow> string \<Rightarrow> orch_db \<Rightarrow> orchestration_store_error + orch_db" where
  "resolveInboundMailEnvelope R projectId eventId resolution resolvedAt db =
     bind_ok (check_input (orchestration_id projectId \<and> orchestration_id eventId \<and> parse_timestamp R resolvedAt)
        ''resolveInboundMailEnvelope'') (\<lambda>_.
     bind_ok (the_or InboundMailEnvelopeMissing
        (find (\<lambda>m. me_project_id m = projectId \<and> me_event_id m = eventId) (od_envelopes db))) (\<lambda>row.
     bind_ok (rowToInboundMailEnvelope R row) (\<lambda>m.
     if me_status m = EnvelopeProcessed \<or> me_status m = EnvelopeRejected then Inr db
     else Inr (db\<lparr>od_envelopes := update_where (\<lambda>m. me_project_id m = projectId \<and> me_event_id m = eventId)
            (resolve_row resolution resolvedAt) (od_envelopes db)\<rparr>))))"

subsection \<open>Proof summary snapshots\<close>

record snapshot_input = snapshot_index +
  sp_canonical :: string

record proof_snapshot = snapshot_input +
  ss_created_at :: string
  ss_revocation_reason :: "revocation_reason option"
  ss_revoked_at :: "string option"

definition canonical_text :: "runtime \<Rightarrow> vault \<Rightarrow> string \<Rightarrow> bool" where
  "canonical_text R V s \<longleftrightarrow> (case vt_json_parse V s of None \<Rightarrow> False | Some v \<Rightarrow> canonicalJson R v = Inr s)"

definition snapshot_ids_ok :: "'a snapshot_index_scheme \<Rightarrow> bool" where
  "snapshot_ids_ok i \<longleftrightarrow> orchestration_id (sx_snapshot_id i) \<and> orchestration_id (sx_project_id i)
     \<and> orchestration_id (sx_deployment_id i) \<and> sha256_text (sx_revision_hash i) \<and> sha256_text (sx_digest i)"

definition parseProofSummarySnapshotInput :: "runtime \<Rightarrow> vault \<Rightarrow> snapshot_input \<Rightarrow> orchestration_store_error + unit" where
  "parseProofSummarySnapshotInput R V i =
     bind_ok (check_input (sp_canonical i \<noteq> [] \<and> vt_byte_length V (sp_canonical i) \<le> MAX_PROOF_SUMMARY_SNAPSHOT_BYTES)
        ''Proof summary snapshot exceeds its byte budget'') (\<lambda>_.
     bind_ok (check_input (canonical_text R V (sp_canonical i)) ''Proof summary snapshot must use canonical JSON'') (\<lambda>_.
     bind_ok (check_input (snapshot_ids_ok i) ''ProofSummarySnapshotInput'') (\<lambda>_.
     check_input (rt_sha256 R (sp_canonical i) = sx_digest i) ''Proof summary snapshot digest does not match'')))"

definition proofSummarySnapshotAad :: "runtime \<Rightarrow> 'a snapshot_index_scheme \<Rightarrow> string \<Rightarrow> string" where
  "proofSummarySnapshotAad R i createdAt = json_text R (JObject
     [(''snapshotId'', jtext (sx_snapshot_id i)), (''projectId'', jtext (sx_project_id i)),
      (''deploymentReceiptId'', jtext (sx_deployment_id i)), (''revisionHash'', jtext (sx_revision_hash i)),
      (''snapshotDigest'', jtext (sx_digest i)), (''createdAt'', jtext createdAt)])"

definition rowToProofSummarySnapshot ::
  "runtime \<Rightarrow> vault \<Rightarrow> orch_db \<Rightarrow> snapshot_row \<Rightarrow> orchestration_store_error + proof_snapshot" where
  "rowToProofSummarySnapshot R V db r =
     bind_ok (check_input (snapshot_ids_ok r \<and> parse_timestamp R (sw_created_at r)) ''proof summary snapshot row'') (\<lambda>_.
     case vt_open V (sw_sealed r) (proofSummarySnapshotAad R r (sw_created_at r)) of
       None \<Rightarrow> Inl (ProofSummarySnapshotDecryption (sx_snapshot_id r))
     | Some text \<Rightarrow>
         if MAX_PROOF_SUMMARY_SNAPSHOT_BYTES < vt_byte_length V text \<or> rt_sha256 R text \<noteq> sx_digest r
            \<or> \<not> canonical_text R V text
         then Inl (ProofSummarySnapshotDecryption (sx_snapshot_id r))
         else let rv = find (\<lambda>x. rv_snapshot_id x = sx_snapshot_id r) (od_revocations db) in
           Inr \<lparr>sx_snapshot_id = sx_snapshot_id r, sx_project_id = sx_project_id r, sx_deployment_id = sx_deployment_id r,
                sx_revision_hash = sx_revision_hash r, sx_digest = sx_digest r, sp_canonical = text,
                ss_created_at = sw_created_at r, ss_revocation_reason = map_option rv_reason rv,
                ss_revoked_at = map_option rv_revoked_at rv\<rparr>)"

definition sameProofSummarySnapshotInput :: "proof_snapshot \<Rightarrow> snapshot_input \<Rightarrow> bool" where
  "sameProofSummarySnapshotInput s i \<longleftrightarrow> sx_snapshot_id s = sx_snapshot_id i \<and> sx_project_id s = sx_project_id i
     \<and> sx_deployment_id s = sx_deployment_id i \<and> sx_revision_hash s = sx_revision_hash i \<and> sx_digest s = sx_digest i
     \<and> sp_canonical s = sp_canonical i"

definition snapshot_clash :: "snapshot_input \<Rightarrow> snapshot_row \<Rightarrow> bool" where
  "snapshot_clash i r \<longleftrightarrow> sx_snapshot_id r = sx_snapshot_id i
     \<or> sx_project_id r = sx_project_id i \<and> sx_deployment_id r = sx_deployment_id i \<and> sx_revision_hash r = sx_revision_hash i"

text \<open>\<open>... LIMIT 1\<close> without an order: any row that clashes may be the one read; the model takes the oldest.\<close>

definition createProofSummarySnapshot ::
  "runtime \<Rightarrow> vault \<Rightarrow> text_clock \<Rightarrow> string \<Rightarrow> snapshot_input \<Rightarrow> orch_db
    \<Rightarrow> orchestration_store_error + ((proof_snapshot \<times> bool) \<times> orch_db)" where
  "createProofSummarySnapshot R V c nonce i db =
     bind_ok (parseProofSummarySnapshotInput R V i) (\<lambda>_.
     case find (snapshot_clash i) (od_snapshots db) of
       Some row \<Rightarrow>
         bind_ok (rowToProofSummarySnapshot R V db row) (\<lambda>s.
         bind_ok (require (sameProofSummarySnapshotInput s i) (ProofSummarySnapshotConflict (sx_snapshot_id i))) (\<lambda>_.
         Inr ((s, False), db)))
     | None \<Rightarrow>
         bind_ok (require (project_row_of db (sx_project_id i) \<noteq> None)
            (TableConstraint ''orchestration_proof_summary_snapshots.project_id'')) (\<lambda>_.
         let row = \<lparr>sx_snapshot_id = sx_snapshot_id i, sx_project_id = sx_project_id i,
               sx_deployment_id = sx_deployment_id i, sx_revision_hash = sx_revision_hash i, sx_digest = sx_digest i,
               sw_created_at = c 0, sw_sealed = vt_seal V nonce (proofSummarySnapshotAad R i (c 0)) (sp_canonical i)\<rparr>;
             s = \<lparr>sx_snapshot_id = sx_snapshot_id i, sx_project_id = sx_project_id i,
               sx_deployment_id = sx_deployment_id i, sx_revision_hash = sx_revision_hash i, sx_digest = sx_digest i,
               sp_canonical = sp_canonical i, ss_created_at = c 0, ss_revocation_reason = None, ss_revoked_at = None\<rparr> in
         Inr ((s, True), db\<lparr>od_snapshots := od_snapshots db @ [row]\<rparr>)))"

definition getProofSummarySnapshot ::
  "runtime \<Rightarrow> vault \<Rightarrow> string \<Rightarrow> orch_db \<Rightarrow> orchestration_store_error + proof_snapshot option" where
  "getProofSummarySnapshot R V snapshotId db =
     bind_ok (check_input (orchestration_id snapshotId) ''snapshotId'') (\<lambda>_.
     case find (\<lambda>r. sx_snapshot_id r = snapshotId) (od_snapshots db) of
       None \<Rightarrow> Inr None
     | Some r \<Rightarrow> bind_ok (rowToProofSummarySnapshot R V db r) (\<lambda>s. Inr (Some s)))"

definition revokeProofSummarySnapshot ::
  "text_clock \<Rightarrow> string \<Rightarrow> revocation_reason \<Rightarrow> orch_db \<Rightarrow> orchestration_store_error + ((bool \<times> string) \<times> orch_db)" where
  "revokeProofSummarySnapshot c snapshotId reason db =
     bind_ok (check_input (orchestration_id snapshotId) ''snapshotId'') (\<lambda>_.
     bind_ok (the_or ProofSummarySnapshotNotFound (find (\<lambda>r. sx_snapshot_id r = snapshotId) (od_snapshots db))) (\<lambda>_.
     case find (\<lambda>x. rv_snapshot_id x = snapshotId) (od_revocations db) of
       Some x \<Rightarrow> if rv_reason x \<noteq> reason then Inl ProofSummarySnapshotRevocationConflict
                 else Inr ((False, rv_revoked_at x), db)
     | None \<Rightarrow> Inr ((True, c 0), db\<lparr>od_revocations := od_revocations db @
          [\<lparr>rv_snapshot_id = snapshotId, rv_reason = reason, rv_revoked_at = c 0\<rparr>]\<rparr>)))"

subsection \<open>Listing\<close>

record reconciliation_page =
  rp_project_ids :: "string list"
  rp_next :: "string option"

definition reconcilable :: "orch_db \<Rightarrow> project_row \<Rightarrow> bool" where
  "reconcilable db r \<longleftrightarrow> ix_status r \<in> set RECONCILABLE_PROJECT_STATUSES \<or> px_pending_login r
     \<or> list_ex (\<lambda>m. me_project_id m = ix_project_id r \<and> unresolved m) (od_envelopes db)"

definition listProjectIdsForReconciliation ::
  "int \<Rightarrow> string option \<Rightarrow> orch_db \<Rightarrow> orchestration_store_error + reconciliation_page" where
  "listProjectIdsForReconciliation limit after db =
     bind_ok (check_input (1 \<le> limit \<and> limit \<le> 1000)
        ''Reconciliation page limit must be an integer from 1 to 1000'') (\<lambda>_.
     bind_ok (check_input (opt_all orchestration_id after) ''afterProjectId'') (\<lambda>_.
     let cursor = (case after of None \<Rightarrow> [] | Some i \<Rightarrow> i);
         ids = map ix_project_id (take (nat limit) (order_by ix_project_id
            (filter (\<lambda>r. reconcilable db r \<and> cursor < ix_project_id r) (od_projects db)))) in
     bind_ok (check_input (list_all orchestration_id ids) ''project_id'') (\<lambda>_.
     Inr \<lparr>rp_project_ids = ids, rp_next = (if length ids = nat limit then Some (last ids) else None)\<rparr>)))"

definition listProjectEvents ::
  "runtime \<Rightarrow> string \<Rightarrow> int \<Rightarrow> int option \<Rightarrow> orch_db \<Rightarrow> orchestration_store_error + project_event list" where
  "listProjectEvents R projectId afterSequence limit db =
     bind_ok (check_input (orchestration_id projectId) ''projectId'') (\<lambda>_.
     bind_ok (check_input (0 \<le> afterSequence \<and> afterSequence \<le> MAX_SAFE_INTEGER)
        ''afterSequence must be a non-negative safe integer'') (\<lambda>_.
     bind_ok (check_input (opt_all (\<lambda>n. 1 \<le> n \<and> n \<le> 10000) limit)
        ''limit must be a safe integer between 1 and 10000'') (\<lambda>_.
     let rows = order_by pe_sequence (filter (\<lambda>e. pe_project_id e = projectId \<and> nat afterSequence < pe_sequence e) (od_events db));
         page = (case limit of None \<Rightarrow> rows | Some n \<Rightarrow> take (nat n) rows) in
     bind_ok (check_input (list_all (ProjectEvent_ok R) page) ''ProjectEvent'') (\<lambda>_. Inr page))))"

subsection \<open>The index of pending logins\<close>

text \<open>Migration 6 recomputes the column for the projects already stored.\<close>

definition backfillPendingDashboardLoginIndex ::
  "runtime \<Rightarrow> vault \<Rightarrow> orch_db \<Rightarrow> orchestration_store_error + orch_db" where
  "backfillPendingDashboardLoginIndex R V db =
     bind_ok (collect_ok (map (rowToProject R V) (order_by ix_project_id (od_projects db)))) (\<lambda>ps.
     Inr (db\<lparr>od_projects := foldl (\<lambda>rows p. update_where (\<lambda>r. ix_project_id r = pj_project_id p)
            (\<lambda>r. r\<lparr>px_pending_login := hasPendingDashboardLoginEffect p\<rparr>) rows) (od_projects db) ps\<rparr>))"

end
