(* ===== verification/Orchestration_Invariants.thy ===== *)
theory Orchestration_Invariants
  imports Orchestration_Store
begin

text \<open>
  The invariant of the orchestration store and what may change in it.  \<open>orch_ok\<close>: keys are unique,
  references resolve, every stored aggregate decrypts to an accepted project that agrees with its
  index, and the events of a project carry exactly the revisions from 0 to its current one.
  \<open>orch_advances\<close>: the history tables only grow, a project keeps its identity and never goes back
  in revision, an envelope keeps its identity and stays processed once it is.  Every operation keeps
  the first and makes the second.
\<close>

subsection \<open>The invariant\<close>

text \<open>A stored row decrypts to an accepted project, and its login column says what the project says.\<close>

definition row_sound :: "runtime \<Rightarrow> vault \<Rightarrow> project_row \<Rightarrow> bool" where
  "row_sound R V r \<longleftrightarrow> (\<exists>p. rowToProject R V r = Inr p \<and> px_pending_login r = hasPendingDashboardLoginEffect p)"

definition projects_ok :: "runtime \<Rightarrow> vault \<Rightarrow> project_row list \<Rightarrow> bool" where
  "projects_ok R V rows \<longleftrightarrow> distinct (map ix_project_id rows) \<and> distinct (map ix_idempotency_key rows)
     \<and> list_all (row_sound R V) rows"

definition history_ok :: "orch_db \<Rightarrow> bool" where
  "history_ok db \<longleftrightarrow> map pe_sequence (od_events db) = [1..<Suc (od_last_sequence db)]
     \<and> distinct (map pe_event_id (od_events db))
     \<and> pe_project_id ` set (od_events db) \<subseteq> ix_project_id ` set (od_projects db)
     \<and> (\<forall>r \<in> set (od_projects db).
          map pe_aggregate_revision (filter (\<lambda>e. pe_project_id e = ix_project_id r) (od_events db)) = [0..<Suc (ix_revision r)])"

definition references_ok :: "orch_db \<Rightarrow> bool" where
  "references_ok db \<longleftrightarrow> me_project_id ` set (od_envelopes db) \<subseteq> ix_project_id ` set (od_projects db)
     \<and> lg_project_id ` set (od_logins db) \<subseteq> ix_project_id ` set (od_projects db)
     \<and> sx_project_id ` set (od_snapshots db) \<subseteq> ix_project_id ` set (od_projects db)
     \<and> rv_snapshot_id ` set (od_revocations db) \<subseteq> sx_snapshot_id ` set (od_snapshots db)"

definition keys_ok :: "orch_db \<Rightarrow> bool" where
  "keys_ok db \<longleftrightarrow> distinct (map (\<lambda>r. (xr_provider r, xr_event_id r)) (od_inbox db))
     \<and> distinct (map me_event_id (od_envelopes db)) \<and> distinct (map lg_token_digest (od_logins db))
     \<and> distinct (map sx_snapshot_id (od_snapshots db)) \<and> distinct (map rv_snapshot_id (od_revocations db))"

definition audit_ok :: "nat \<Rightarrow> orch_db \<Rightarrow> bool" where
  "audit_ok receiptLimit db \<longleftrightarrow> length (od_audit db) \<le> receiptLimit
     \<and> distinct (map (\<lambda>a. (au_provider a, au_body_digest a, au_header_digest a, au_failure a)) (od_audit db))
     \<and> distinct (map (\<lambda>o'. (ov_provider o', ov_failure o')) (od_overflow db))
     \<and> (\<forall>o' \<in> set (od_overflow db). 1 \<le> ov_count o' \<and> ov_count o' \<le> MAX_SECURITY_AUDIT_OVERFLOW_OBSERVATIONS_PER_GROUP)"

definition orch_ok :: "runtime \<Rightarrow> vault \<Rightarrow> nat \<Rightarrow> orch_db \<Rightarrow> bool" where
  "orch_ok R V receiptLimit db \<longleftrightarrow> projects_ok R V (od_projects db) \<and> history_ok db \<and> references_ok db
     \<and> keys_ok db \<and> audit_ok receiptLimit db"

subsection \<open>How the tables may change\<close>

definition project_step :: "project_row \<Rightarrow> project_row \<Rightarrow> bool" where
  "project_step r r' \<longleftrightarrow> ix_project_id r' = ix_project_id r \<and> ix_idempotency_key r' = ix_idempotency_key r
     \<and> ix_idempotency_digest r' = ix_idempotency_digest r \<and> ix_created_at r' = ix_created_at r
     \<and> ix_revision r \<le> ix_revision r'"

definition envelope_step :: "mail_envelope \<Rightarrow> mail_envelope \<Rightarrow> bool" where
  "envelope_step m m' \<longleftrightarrow> me_event_id m' = me_event_id m \<and> me_event_digest m' = me_event_digest m
     \<and> me_project_id m' = me_project_id m \<and> me_email_id m' = me_email_id m
     \<and> me_identity_digest m' = me_identity_digest m \<and> me_received_at m' = me_received_at m
     \<and> me_attempts m \<le> me_attempts m' \<and> (me_status m = EnvelopeProcessed \<longrightarrow> m' = m)"

definition overflow_step :: "overflow_row \<Rightarrow> overflow_row \<Rightarrow> bool" where
  "overflow_step o1 o2 \<longleftrightarrow> ov_provider o2 = ov_provider o1 \<and> ov_failure o2 = ov_failure o1 \<and> ov_first o2 = ov_first o1
     \<and> ov_last o1 \<le> ov_last o2"

lemma step_refl [simp]: "project_step r r" "envelope_step m m" "overflow_step o1 o1"
  by (simp_all add: project_step_def envelope_step_def overflow_step_def)

lemma project_step_trans: "project_step a b \<Longrightarrow> project_step b c \<Longrightarrow> project_step a c"
  by (auto simp: project_step_def)

lemma envelope_step_trans: "envelope_step a b \<Longrightarrow> envelope_step b c \<Longrightarrow> envelope_step a c"
  by (auto simp: envelope_step_def)

lemma overflow_step_trans: "overflow_step a b \<Longrightarrow> overflow_step b c \<Longrightarrow> overflow_step a c"
  by (auto simp: overflow_step_def intro: order_trans)

definition orch_advances :: "orch_db \<Rightarrow> orch_db \<Rightarrow> bool" where
  "orch_advances a b \<longleftrightarrow> extends project_step (od_projects a) (od_projects b)
     \<and> extends (=) (od_events a) (od_events b) \<and> extends (=) (od_inbox a) (od_inbox b)
     \<and> extends envelope_step (od_envelopes a) (od_envelopes b) \<and> extends (=) (od_audit a) (od_audit b)
     \<and> extends overflow_step (od_overflow a) (od_overflow b) \<and> extends (=) (od_snapshots a) (od_snapshots b)
     \<and> extends (=) (od_revocations a) (od_revocations b) \<and> extends (=) (od_logins a) (od_logins b)"

lemma orch_advances_refl [simp]: "orch_advances db db"
  by (simp add: orch_advances_def extends_refl)

lemma orch_advances_trans: "orch_advances a b \<Longrightarrow> orch_advances b c \<Longrightarrow> orch_advances a c"
  unfolding orch_advances_def
  by (blast intro: extends_trans project_step_trans envelope_step_trans overflow_step_trans trans)

definition orch_keeps :: "runtime \<Rightarrow> vault \<Rightarrow> nat \<Rightarrow> orch_db \<Rightarrow> orch_db \<Rightarrow> bool" where
  "orch_keeps R V n db db' \<longleftrightarrow> (orch_ok R V n db \<longrightarrow> orch_ok R V n db' \<and> orch_advances db db')"

lemma orch_keeps_refl [simp]: "orch_keeps R V n db db"
  by (simp add: orch_keeps_def)

lemma orch_keeps_trans: "orch_keeps R V n a b \<Longrightarrow> orch_keeps R V n b c \<Longrightarrow> orch_keeps R V n a c"
  unfolding orch_keeps_def by (blast intro: orch_advances_trans)

subsection \<open>What an operation does not touch\<close>

lemma history_frame [simp]:
  "history_ok (db\<lparr>od_inbox := a\<rparr>) = history_ok db" "history_ok (db\<lparr>od_envelopes := b\<rparr>) = history_ok db"
  "history_ok (db\<lparr>od_audit := c\<rparr>) = history_ok db" "history_ok (db\<lparr>od_overflow := d\<rparr>) = history_ok db"
  "history_ok (db\<lparr>od_snapshots := e\<rparr>) = history_ok db" "history_ok (db\<lparr>od_revocations := f\<rparr>) = history_ok db"
  "history_ok (db\<lparr>od_logins := g\<rparr>) = history_ok db"
  by (simp_all add: history_ok_def)

lemma audit_frame [simp]:
  "audit_ok n (db\<lparr>od_inbox := a\<rparr>) = audit_ok n db" "audit_ok n (db\<lparr>od_envelopes := b\<rparr>) = audit_ok n db"
  "audit_ok n (db\<lparr>od_snapshots := e\<rparr>) = audit_ok n db" "audit_ok n (db\<lparr>od_revocations := f\<rparr>) = audit_ok n db"
  "audit_ok n (db\<lparr>od_logins := g\<rparr>) = audit_ok n db" "audit_ok n (db\<lparr>od_projects := h\<rparr>) = audit_ok n db"
  "audit_ok n (db\<lparr>od_projects := h, od_events := i, od_last_sequence := j\<rparr>) = audit_ok n db"
  by (simp_all add: audit_ok_def)

lemma references_frame [simp]:
  "references_ok (db\<lparr>od_inbox := a\<rparr>) = references_ok db" "references_ok (db\<lparr>od_audit := c\<rparr>) = references_ok db"
  "references_ok (db\<lparr>od_overflow := d\<rparr>) = references_ok db"
  by (simp_all add: references_ok_def)

lemma keys_frame [simp]:
  "keys_ok (db\<lparr>od_audit := c\<rparr>) = keys_ok db" "keys_ok (db\<lparr>od_overflow := d\<rparr>) = keys_ok db"
  "keys_ok (db\<lparr>od_projects := h\<rparr>) = keys_ok db"
  "keys_ok (db\<lparr>od_projects := h, od_events := i, od_last_sequence := j\<rparr>) = keys_ok db"
  by (simp_all add: keys_ok_def)

text \<open>The advance of an operation that appends to one history table, or updates one table in place.\<close>

lemma advance_append [simp]:
  "orch_advances db (db\<lparr>od_inbox := od_inbox db @ a\<rparr>)" "orch_advances db (db\<lparr>od_envelopes := od_envelopes db @ b\<rparr>)"
  "orch_advances db (db\<lparr>od_audit := od_audit db @ c\<rparr>)" "orch_advances db (db\<lparr>od_overflow := od_overflow db @ d\<rparr>)"
  "orch_advances db (db\<lparr>od_snapshots := od_snapshots db @ e\<rparr>)"
  "orch_advances db (db\<lparr>od_revocations := od_revocations db @ f\<rparr>)"
  "orch_advances db (db\<lparr>od_logins := od_logins db @ g\<rparr>)"
  by (simp_all add: orch_advances_def extends_refl extends_append)

lemma advance_envelopes:
  assumes "\<And>m. m \<in> set (od_envelopes db) \<Longrightarrow> P m \<Longrightarrow> envelope_step m (f m)"
  shows "orch_advances db (db\<lparr>od_envelopes := update_where P f (od_envelopes db)\<rparr>)"
  using assms by (simp add: orch_advances_def extends_refl extends_update_where)

text \<open>An update of envelopes that keeps their keys keeps the invariant.\<close>

lemma envelopes_keep:
  assumes "\<And>m. m \<in> set (od_envelopes db) \<Longrightarrow> P m \<Longrightarrow> envelope_step m (f m)"
    and id: "\<And>m. me_event_id (f m) = me_event_id m" "\<And>m. me_project_id (f m) = me_project_id m"
  shows "orch_keeps R V n db (db\<lparr>od_envelopes := update_where P f (od_envelopes db)\<rparr>)"
proof -
  have "map me_event_id (update_where P f (od_envelopes db)) = map me_event_id (od_envelopes db)"
    "map me_project_id (update_where P f (od_envelopes db)) = map me_project_id (od_envelopes db)"
    by (rule map_update_where_same, simp add: id)+
  then have "me_project_id ` set (update_where P f (od_envelopes db)) = me_project_id ` set (od_envelopes db)"
    and k: "map me_event_id (update_where P f (od_envelopes db)) = map me_event_id (od_envelopes db)"
    by (metis list.set_map)+
  then show ?thesis using advance_envelopes [OF assms(1)]
    by (simp add: orch_keeps_def orch_ok_def references_ok_def keys_ok_def)
qed

subsection \<open>Inbox, logins and rejected webhooks\<close>

lemma project_row_of_SomeD: "project_row_of db i = Some r \<Longrightarrow> r \<in> set (od_projects db) \<and> ix_project_id r = i"
  unfolding project_row_of_def by (rule find_eq_SomeD)

lemma project_row_of_None: "project_row_of db i = None \<longleftrightarrow> i \<notin> ix_project_id ` set (od_projects db)"
  by (auto simp: project_row_of_def find_is_None)

lemma check_input_Inr [store_simps]: "check_input P m = Inr u \<longleftrightarrow> P"
  by (simp add: check_input_def require_Inr)

lemma record_inbox_keeps:
  assumes "record_inbox now e db = Inr (b, db')"
  shows "orch_keeps R V n db db'"
proof (cases "inbox_row_of db (xe_provider e) (xe_event_id e)")
  case None
  then have fresh: "(xe_provider e, xe_event_id e) \<notin> (\<lambda>r. (xr_provider r, xr_event_id r)) ` set (od_inbox db)"
    by (auto simp: inbox_row_of_def find_is_None)
  from None assms have "db' = db\<lparr>od_inbox := od_inbox db @ [\<lparr>xr_provider = xe_provider e, xr_event_id = xe_event_id e,
          xr_digest = xe_digest e, xr_received_at = now\<rparr>]\<rparr>"
    by (simp add: record_inbox_def)
  with fresh show ?thesis by (simp add: orch_keeps_def orch_ok_def) (simp add: keys_ok_def)
next
  case (Some r)
  with assms show ?thesis by (simp add: record_inbox_def split: if_splits)
qed

lemma recordInbox_keeps: "recordInbox c e db = Inr (b, db') \<Longrightarrow> orch_keeps R V n db db'"
  by (auto simp: recordInbox_def bind_ok_Inr check_input_Inr intro: record_inbox_keeps)

lemma consume_keeps:
  assumes "consumeCustomerDashboardLogin R c t i x db = Inr (b, db')"
  shows "orch_keeps R V n db db'"
proof (cases "db' = db")
  case False
  with assms have "\<not> list_ex (\<lambda>l. lg_token_digest l = t) (od_logins db)" "project_row_of db i \<noteq> None"
    "db' = db\<lparr>od_logins := od_logins db @ [\<lparr>lg_token_digest = t, lg_project_id = i, lg_expires_at = x, lg_consumed_at = c 0\<rparr>]\<rparr>"
    by (auto simp: consumeCustomerDashboardLogin_def bind_ok_Inr check_input_Inr Let_def split: if_splits)
  then show ?thesis
    by (simp add: orch_keeps_def orch_ok_def project_row_of_None)
      (auto simp: keys_ok_def references_ok_def list_ex_iff)
qed simp

lemma consume_login_keeps:
  assumes "consume_login R c login db = Inr db'"
  shows "orch_keeps R V n db db'"
  using assms by (auto simp: consume_login_def bind_ok_Inr split: option.splits if_splits intro: consume_keeps)

lemma accept_inbox_keeps:
  assumes "accept_inbox now inbox login db = Inr (Some db')"
  shows "orch_keeps R V n db db'"
  using assms by (auto simp: accept_inbox_def bind_ok_Inr split: option.splits if_splits intro: record_inbox_keeps)

lemma bump_overflow_ok:
  assumes "audit_ok n db"
  shows "audit_ok n (db\<lparr>od_overflow := bump_overflow w now (od_overflow db)\<rparr>)"
    "extends overflow_step (od_overflow db) (bump_overflow w now (od_overflow db))"
proof -
  let ?k = "\<lambda>o'. (ov_provider o', ov_failure o')"
  let ?same = "\<lambda>o'. ov_provider o' = wf_provider w \<and> ov_failure o' = wf_failure w"
  let ?f = "\<lambda>o'. o'\<lparr>ov_count := min (ov_count o' + 1) MAX_SECURITY_AUDIT_OVERFLOW_OBSERVATIONS_PER_GROUP, ov_last := max (ov_last o') now\<rparr>"
  have keys: "map ?k (update_where ?same ?f (od_overflow db)) = map ?k (od_overflow db)"
    by (rule map_update_where_same) simp
  have bound: "1 \<le> ov_count (?f o') \<and> ov_count (?f o') \<le> MAX_SECURITY_AUDIT_OVERFLOW_OBSERVATIONS_PER_GROUP" for o'
    by (simp add: MAX_SECURITY_AUDIT_OVERFLOW_OBSERVATIONS_PER_GROUP_def)
  show "audit_ok n (db\<lparr>od_overflow := bump_overflow w now (od_overflow db)\<rparr>)"
  proof (cases "list_ex ?same (od_overflow db)")
    case True
    with assms keys bound show ?thesis by (auto simp: audit_ok_def bump_overflow_def Let_def)
  next
    case False
    with assms show ?thesis
      by (auto simp: audit_ok_def bump_overflow_def Let_def list_ex_iff MAX_SECURITY_AUDIT_OVERFLOW_OBSERVATIONS_PER_GROUP_def)
  qed
  show "extends overflow_step (od_overflow db) (bump_overflow w now (od_overflow db))"
    by (auto simp: bump_overflow_def Let_def overflow_step_def intro!: extends_append extends_update_where)
qed

lemma security_failure_keeps:
  assumes "recordWebhookSecurityFailure n c w db = Inr (v, db')"
  shows "orch_keeps R V n db db'"
proof -
  let ?row = "\<lparr>au_provider = wf_provider w, au_body_digest = wf_body_digest w, au_header_digest = wf_header_digest w,
    au_failure = wf_failure w, au_observed_at = c 0\<rparr>"
  consider "db' = db"
    | "\<not> list_ex (\<lambda>a. au_provider a = wf_provider w \<and> au_body_digest a = wf_body_digest w
          \<and> au_header_digest a = wf_header_digest w \<and> au_failure a = wf_failure w) (od_audit db)"
        "length (od_audit db) < n" "db' = db\<lparr>od_audit := od_audit db @ [?row]\<rparr>"
    | "db' = db\<lparr>od_overflow := bump_overflow w (c 0) (od_overflow db)\<rparr>"
    using assms by (auto simp: recordWebhookSecurityFailure_def bind_ok_Inr check_input_Inr split: if_splits)
  then show ?thesis
  proof cases
    case 2
    have "audit_ok n db'" if "audit_ok n db"
      using that 2 by (auto simp: audit_ok_def list_ex_iff)
    with 2 show ?thesis by (simp add: orch_keeps_def orch_ok_def)
  next
    case 3
    then show ?thesis using bump_overflow_ok [of n db w "c 0"]
      by (simp add: orch_keeps_def orch_ok_def orch_advances_def extends_refl)
  qed simp
qed

subsection \<open>Envelopes and snapshots\<close>

lemma envelope_of_SomeD: "envelope_of db i = Some m \<Longrightarrow> m \<in> set (od_envelopes db) \<and> me_event_id m = i"
  unfolding envelope_of_def by (rule find_eq_SomeD)

lemma envelope_of_None: "envelope_of db i = None \<longleftrightarrow> i \<notin> me_event_id ` set (od_envelopes db)"
  by (auto simp: envelope_of_def find_is_None)

lemma envelope_of_unique:
  "distinct (map me_event_id (od_envelopes db)) \<Longrightarrow> m \<in> set (od_envelopes db) \<Longrightarrow> envelope_of db (me_event_id m) = Some m"
  unfolding envelope_of_def by (rule find_key_unique)

lemma row_read:
  assumes "rowToInboundMailEnvelope R r = Inr m"
  shows "me_event_id m = me_event_id r" "me_status m = me_status r" "me_attempts m = me_attempts r"
    "me_event_digest m = me_event_digest r" "me_project_id m = me_project_id r"
  using assms by (auto simp: rowToInboundMailEnvelope_def bind_ok_Inr check_input_Inr)

lemma require_envelope:
  assumes "requireInboundMailEnvelope R i d db = Inr m"
  obtains r where "envelope_of db i = Some r" "me_status m = me_status r"
  using assms by (auto simp: requireInboundMailEnvelope_def bind_ok_Inr the_or_Inr row_read)

lemma stage_keeps:
  assumes "stageInboundMailEnvelope R c i db = Inr (m, db')"
  shows "orch_keeps R V n db db'"
proof (cases "envelope_of db (vi_event_id i)")
  case (Some r)
  with assms show ?thesis by (simp add: stageInboundMailEnvelope_def bind_ok_Inr)
next
  case None
  with assms have m: "project_row_of db (vi_project_id i) \<noteq> None" "db' = db\<lparr>od_envelopes := od_envelopes db @ [m]\<rparr>"
    "me_event_id m = vi_event_id i" "me_project_id m = vi_project_id i"
    by (auto simp: stageInboundMailEnvelope_def bind_ok_Inr check_input_Inr require_Inr Let_def)
  with None show ?thesis
    by (simp add: orch_keeps_def orch_ok_def project_row_of_None envelope_of_None)
      (auto simp: keys_ok_def references_ok_def)
qed

lemma claim_keeps:
  assumes "claimPendingInboundMailEnvelopes R i ready lease limit db = Inr (ms, db')"
  shows "orch_keeps R V n db db'"
proof -
  have db': "db' = db\<lparr>od_envelopes := update_where (\<lambda>m. me_event_id m \<in> me_event_id ` set (due_envelopes i ready (nat limit) db) \<and> envelope_due ready m)
      (claim_envelope ready lease) (od_envelopes db)\<rparr>"
    using assms by (auto simp: claimPendingInboundMailEnvelopes_def bind_ok_Inr Let_def)
  show ?thesis unfolding db'
    by (rule envelopes_keep) (auto simp: envelope_step_def claim_envelope_def envelope_due_def)
qed

text \<open>Rewriting one envelope that was read and is not processed.\<close>

lemma update_envelope_keeps:
  assumes r: "envelope_of db i = Some r" "me_status r \<noteq> EnvelopeProcessed"
    and f: "\<And>m. me_event_id (f m) = me_event_id m \<and> me_event_digest (f m) = me_event_digest m
      \<and> me_project_id (f m) = me_project_id m \<and> me_email_id (f m) = me_email_id m
      \<and> me_identity_digest (f m) = me_identity_digest m \<and> me_received_at (f m) = me_received_at m
      \<and> me_attempts (f m) = me_attempts m"
  shows "orch_keeps R V n db (update_envelope i f db)"
proof (cases "distinct (map me_event_id (od_envelopes db))")
  case True
  have "envelope_step m (f m)" if "m \<in> set (od_envelopes db)" "me_event_id m = i" for m
  proof -
    have "m = r" using envelope_of_unique [OF True that(1)] that(2) r(1) by simp
    with r(2) f show ?thesis by (simp add: envelope_step_def)
  qed
  then show ?thesis unfolding update_envelope_def by (intro envelopes_keep) (simp_all add: f)
next
  case False
  then show ?thesis by (simp add: orch_keeps_def orch_ok_def keys_ok_def)
qed

lemma complete_keeps:
  assumes "completeInboundMailEnvelope R i d t db = Inr db'"
  shows "orch_keeps R V n db db'"
proof -
  obtain m where m: "requireInboundMailEnvelope R i d db = Inr m"
    and db': "if me_status m = EnvelopeProcessed then db' = db else db' = update_envelope i (\<lambda>r. r\<lparr>me_status := EnvelopeProcessed,
        me_next_attempt_at := None, me_last_error_code := None, me_updated_at := t, me_processed_at := Some t\<rparr>) db"
    using assms by (auto simp: completeInboundMailEnvelope_def bind_ok_Inr split: if_splits)
  from require_envelope [OF m] obtain r where r: "envelope_of db i = Some r" "me_status m = me_status r" .
  with db' show ?thesis by (cases "me_status m = EnvelopeProcessed") (auto intro!: update_envelope_keeps)
qed

lemma failure_keeps:
  assumes "recordInboundMailEnvelopeFailure R f db = Inr db'"
  shows "orch_keeps R V n db db'"
proof -
  obtain m where m: "requireInboundMailEnvelope R (vf_event_id f) (vf_event_digest f) db = Inr m"
    and db': "if me_status m = EnvelopeProcessed then db' = db else db' = update_envelope (vf_event_id f)
        (\<lambda>r. r\<lparr>me_status := failure_status f, me_next_attempt_at := vf_next_attempt_at f,
          me_last_error_code := Some (vf_error_code f), me_updated_at := vf_failed_at f\<rparr>) db"
    using assms by (auto simp: recordInboundMailEnvelopeFailure_def bind_ok_Inr split: if_splits)
  from require_envelope [OF m] obtain r where r: "envelope_of db (vf_event_id f) = Some r" "me_status m = me_status r" .
  with db' show ?thesis by (cases "me_status m = EnvelopeProcessed") (auto intro!: update_envelope_keeps)
qed

lemma resolve_row_fields [simp]:
  "me_event_id (resolve_row q t m) = me_event_id m" "me_event_digest (resolve_row q t m) = me_event_digest m"
  "me_project_id (resolve_row q t m) = me_project_id m" "me_email_id (resolve_row q t m) = me_email_id m"
  "me_identity_digest (resolve_row q t m) = me_identity_digest m" "me_received_at (resolve_row q t m) = me_received_at m"
  "me_attempts (resolve_row q t m) = me_attempts m"
  by (cases q; simp)+

lemma resolve_keeps:
  assumes "resolveInboundMailEnvelope R p i q t db = Inr db'"
  shows "orch_keeps R V n db db'"
proof (cases "db' = db \<or> \<not> distinct (map me_event_id (od_envelopes db))")
  case False
  let ?P = "\<lambda>m. me_project_id m = p \<and> me_event_id m = i"
  from assms False obtain row m where row: "find ?P (od_envelopes db) = Some row" "rowToInboundMailEnvelope R row = Inr m"
    and st: "me_status m \<noteq> EnvelopeProcessed" and db': "db' = db\<lparr>od_envelopes := update_where ?P (resolve_row q t) (od_envelopes db)\<rparr>"
    by (auto simp: resolveInboundMailEnvelope_def bind_ok_Inr the_or_Inr split: if_splits)
  have "envelope_step x (resolve_row q t x)" if "x \<in> set (od_envelopes db)" "?P x" for x
  proof -
    have "x = row" using find_eq_SomeD [OF row(1)] that False by (auto intro: distinct_key_eq [of me_event_id])
    with st row_read(2) [OF row(2)] show ?thesis by (simp add: envelope_step_def)
  qed
  then show ?thesis unfolding db' by (intro envelopes_keep) simp_all
next
  case True
  then show ?thesis by (auto simp: orch_keeps_def orch_ok_def keys_ok_def)
qed

lemma create_snapshot_keeps:
  assumes "createProofSummarySnapshot R V c nonce i db = Inr (v, db')"
  shows "orch_keeps R V n db db'"
proof (cases "find (snapshot_clash i) (od_snapshots db)")
  case (Some r)
  with assms show ?thesis by (auto simp: createProofSummarySnapshot_def bind_ok_Inr)
next
  case None
  from assms None obtain row where row: "project_row_of db (sx_project_id i) \<noteq> None"
    "db' = db\<lparr>od_snapshots := od_snapshots db @ [row]\<rparr>" "sx_snapshot_id row = sx_snapshot_id i" "sx_project_id row = sx_project_id i"
    by (auto simp: createProofSummarySnapshot_def bind_ok_Inr require_Inr Let_def)
  have "sx_snapshot_id i \<notin> sx_snapshot_id ` set (od_snapshots db)"
    using None by (auto simp: find_is_None snapshot_clash_def)
  with row show ?thesis
    by (simp add: orch_keeps_def orch_ok_def project_row_of_None) (auto simp: keys_ok_def references_ok_def)
qed

lemma revoke_keeps:
  assumes "revokeProofSummarySnapshot c i reason db = Inr (v, db')"
  shows "orch_keeps R V n db db'"
proof (cases "find (\<lambda>x. rv_snapshot_id x = i) (od_revocations db)")
  case (Some x)
  with assms show ?thesis by (auto simp: revokeProofSummarySnapshot_def bind_ok_Inr split: if_splits)
next
  case None
  with assms obtain s where s: "find (\<lambda>r. sx_snapshot_id r = i) (od_snapshots db) = Some s"
    "db' = db\<lparr>od_revocations := od_revocations db @ [\<lparr>rv_snapshot_id = i, rv_reason = reason, rv_revoked_at = c 0\<rparr>]\<rparr>"
    by (auto simp: revokeProofSummarySnapshot_def bind_ok_Inr the_or_Inr)
  have "i \<notin> rv_snapshot_id ` set (od_revocations db)" using None by (auto simp: find_is_None)
  with s find_eq_SomeD [OF s(1)] show ?thesis
    by (simp add: orch_keeps_def orch_ok_def) (auto simp: keys_ok_def references_ok_def)
qed

subsection \<open>Creating and saving projects\<close>

lemma append_event_Inr:
  assumes "appendProjectEvent uuid i k e now db = Inr db'"
  obtains x where "pe_sequence x = Suc (od_last_sequence db)" "pe_event_id x = uuid" "pe_project_id x = i"
    "pe_aggregate_revision x = k" "pe_type x = ei_type e" "pe_payload x = ei_payload e"
    "uuid \<notin> pe_event_id ` set (od_events db)" "i \<in> ix_project_id ` set (od_projects db)"
    "db' = db\<lparr>od_events := od_events db @ [x], od_last_sequence := Suc (od_last_sequence db)\<rparr>"
proof -
  let ?x = "\<lparr>pe_sequence = Suc (od_last_sequence db), pe_event_id = uuid, pe_project_id = i, pe_aggregate_revision = k,
    pe_type = ei_type e, pe_actor = ei_actor e, pe_payload = ei_payload e, pe_occurred_at = now\<rparr>"
  have "\<not> list_ex (\<lambda>x. pe_event_id x = uuid) (od_events db)" "project_row_of db i \<noteq> None"
    "db' = db\<lparr>od_events := od_events db @ [?x], od_last_sequence := Suc (od_last_sequence db)\<rparr>"
    using assms by (simp_all add: appendProjectEvent_def bind_ok_Inr split: if_splits)
  then show ?thesis by (intro that [of ?x]) (auto simp: list_ex_iff project_row_of_None)
qed

text \<open>A sealed aggregate that agrees with its index reads back.\<close>

lemma sealed_row_reads:
  assumes "vault_sound R V" "ProjectAggregate_ok R p" "agrees_with_index p r"
    and "px_sealed r = vt_seal V nonce (indexAad R r) (vt_print V p)"
  shows "rowToProject R V r = Inr p"
  using assms by (simp add: vault_sound_def rowToProject_def)

lemma saved_row_fields [simp]:
  "ix_project_id (saved_row R V nonce p r) = ix_project_id r" "ix_idempotency_key (saved_row R V nonce p r) = ix_idempotency_key r"
  "ix_idempotency_digest (saved_row R V nonce p r) = ix_idempotency_digest r"
  "ix_created_at (saved_row R V nonce p r) = ix_created_at r" "ix_revision (saved_row R V nonce p r) = pj_revision p"
  "ix_status (saved_row R V nonce p r) = pj_status p" "ix_updated_at (saved_row R V nonce p r) = pj_updated_at p"
  by (simp_all add: saved_row_def Let_def)

lemma next_project_fields [simp]:
  "pj_revision (next_project p i t) = Suc (pj_revision p)" "pj_created_at (next_project p i t) = ix_created_at i"
  "pj_updated_at (next_project p i t) = t" "pj_project_id (next_project p i t) = pj_project_id p"
  "pj_status (next_project p i t) = pj_status p"
  by (simp_all add: next_project_def)

lemma indexAad_cong:
  assumes "ix_project_id a = ix_project_id b" "ix_idempotency_key a = ix_idempotency_key b"
    "ix_idempotency_digest a = ix_idempotency_digest b" "ix_status a = ix_status b" "ix_revision a = ix_revision b"
    "ix_created_at a = ix_created_at b" "ix_updated_at a = ix_updated_at b"
  shows "indexAad R a = indexAad R b"
  using assms by (simp add: indexAad_def)

lemma saved_row_reads:
  assumes "vault_sound R V" "ProjectAggregate_ok R q" "pj_project_id q = ix_project_id r" "pj_created_at q = ix_created_at r"
  shows "rowToProject R V (saved_row R V nonce q r) = Inr q"
proof -
  let ?i = "r\<lparr>ix_status := pj_status q, ix_revision := pj_revision q, ix_updated_at := pj_updated_at q\<rparr>"
  have "indexAad R (saved_row R V nonce q r) = indexAad R ?i" by (rule indexAad_cong) simp_all
  then have "px_sealed (saved_row R V nonce q r) = vt_seal V nonce (indexAad R (saved_row R V nonce q r)) (vt_print V q)"
    by (simp add: saved_row_def Let_def encrypt_project_def)
  then show ?thesis using assms by (intro sealed_row_reads) (simp_all add: agrees_with_index_def)
qed

text \<open>History after one more event of project \<open>i\<close>, which is at revision \<open>k\<close> and has the others behind it.\<close>

lemma history_append:
  assumes h: "history_ok db" and x: "pe_sequence x = Suc (od_last_sequence db)" "pe_event_id x \<notin> pe_event_id ` set (od_events db)"
    and ids: "ix_project_id ` set (od_projects db) \<subseteq> ix_project_id ` set rows" "pe_project_id x \<in> ix_project_id ` set rows"
    and own: "\<And>r. r \<in> set rows \<Longrightarrow> ix_project_id r = pe_project_id x \<Longrightarrow>
      map pe_aggregate_revision (filter (\<lambda>e. pe_project_id e = ix_project_id r) (od_events db)) @ [pe_aggregate_revision x] = [0..<Suc (ix_revision r)]"
    and other: "\<And>r. r \<in> set rows \<Longrightarrow> ix_project_id r \<noteq> pe_project_id x \<Longrightarrow> r \<in> set (od_projects db)"
  shows "history_ok (db\<lparr>od_projects := rows, od_events := od_events db @ [x], od_last_sequence := Suc (od_last_sequence db)\<rparr>)"
proof -
  have "map pe_aggregate_revision (filter (\<lambda>e. pe_project_id e = ix_project_id r) (od_events db @ [x])) = [0..<Suc (ix_revision r)]"
    if r: "r \<in> set rows" for r
  proof (cases "ix_project_id r = pe_project_id x")
    case True
    then show ?thesis using own [OF r] by simp
  next
    case False
    then show ?thesis using h other [OF r] by (simp add: history_ok_def)
  qed
  moreover have "pe_project_id ` set (od_events db) \<subseteq> ix_project_id ` set rows"
    using h ids(1) unfolding history_ok_def by blast
  moreover have "map pe_sequence (od_events db @ [x]) = [1..<Suc (Suc (od_last_sequence db))]"
    using h x(1) by (simp add: history_ok_def)
  moreover have "distinct (map pe_event_id (od_events db @ [x]))" using h x(2) by (auto simp: history_ok_def)
  ultimately show ?thesis using ids(2) by (simp add: history_ok_def)
qed

lemma write_project_keeps:
  assumes V: "vault_sound R V" and row: "project_row_of db (pj_project_id p) = Some row" and rev: "pj_revision p = expected"
    and w: "write_project R V now uuid nonce p expected e row db = Inr (q, db')"
  shows "orch_keeps R V n db db'"
proof -
  let ?q = "next_project p row now"
  let ?P = "\<lambda>r. ix_project_id r = pj_project_id p \<and> ix_revision r = expected"
  let ?rows = "update_where ?P (saved_row R V nonce ?q) (od_projects db)"
  from w have k: "ix_revision row = expected" and ok: "ProjectAggregate_ok R ?q"
    and ev: "appendProjectEvent uuid (pj_project_id p) (Suc (pj_revision p)) e now (db\<lparr>od_projects := ?rows\<rparr>) = Inr db'"
    by (auto simp: write_project_def bind_ok_Inr require_Inr check_input_Inr Let_def)
  from append_event_Inr [OF ev] obtain x where x: "pe_sequence x = Suc (od_last_sequence db)" "pe_event_id x = uuid"
    "pe_project_id x = pj_project_id p" "pe_aggregate_revision x = Suc expected" "uuid \<notin> pe_event_id ` set (od_events db)"
    and db': "db' = db\<lparr>od_projects := ?rows, od_events := od_events db @ [x], od_last_sequence := Suc (od_last_sequence db)\<rparr>"
    by (auto simp: rev)
  note row' = project_row_of_SomeD [OF row]
  have ids: "map ix_project_id ?rows = map ix_project_id (od_projects db)" "map ix_idempotency_key ?rows = map ix_idempotency_key (od_projects db)"
    by (rule map_update_where_same, simp)+
  then have idset: "ix_project_id ` set ?rows = ix_project_id ` set (od_projects db)" by (metis list.set_map)
  have step: "project_step r (saved_row R V nonce ?q r)" if "?P r" for r
    using that rev by (simp add: project_step_def)
  show ?thesis
  proof (cases "orch_ok R V n db")
    case ok': True
    then have dist: "distinct (map ix_project_id (od_projects db))" by (simp add: orch_ok_def projects_ok_def)
    have only: "r = row" if "r \<in> set (od_projects db)" "ix_project_id r = pj_project_id p" for r
      using distinct_key_eq [OF dist that(1)] row' that(2) by simp
    have reads: "row_sound R V r" if "r \<in> set ?rows" for r
      using that
    proof (cases rule: in_update_whereE)
      case (1 r')
      then have "r' = row" using only by blast
      with 1 row' saved_row_reads [OF V ok, of row nonce] show ?thesis by (simp add: row_sound_def saved_row_def Let_def)
    qed (use ok' in \<open>simp add: orch_ok_def projects_ok_def list_all_iff\<close>)
    have hist: "history_ok db'" unfolding db'
    proof (rule history_append)
      fix r assume r: "r \<in> set ?rows" and i: "ix_project_id r = pe_project_id x"
      from r have "ix_revision r = Suc expected"
      proof (cases rule: in_update_whereE)
        case 2
        then show ?thesis using only [of r] i x(3) k by simp
      qed (simp add: rev)
      moreover have "map pe_aggregate_revision (filter (\<lambda>e. pe_project_id e = ix_project_id row) (od_events db)) = [0..<Suc expected]"
        using ok' row' k by (auto simp: orch_ok_def history_ok_def simp del: upt_Suc)
      ultimately show "map pe_aggregate_revision (filter (\<lambda>e. pe_project_id e = ix_project_id r) (od_events db)) @ [pe_aggregate_revision x] = [0..<Suc (ix_revision r)]"
        using i x(3,4) row' by simp
    next
      fix r assume "r \<in> set ?rows" "ix_project_id r \<noteq> pe_project_id x"
      then show "r \<in> set (od_projects db)" using x(3) by (auto simp: set_update_where)
    next
      have "ix_project_id row \<in> ix_project_id ` set (od_projects db)" using row' by blast
      then show "pe_project_id x \<in> ix_project_id ` set ?rows" using x(3) row' idset by simp
    qed (use ok' x idset in \<open>simp_all add: orch_ok_def\<close>)
    have "references_ok db'" using ok' idset by (simp add: db' orch_ok_def references_ok_def)
    moreover have "projects_ok R V (od_projects db')" using ok' reads ids by (simp add: db' orch_ok_def projects_ok_def list_all_iff)
    moreover have "orch_advances db db'"
      by (simp add: db' orch_advances_def extends_refl extends_append extends_update_where step)
    ultimately show ?thesis using ok' hist by (simp add: orch_keeps_def orch_ok_def) (simp add: db')
  qed (simp add: orch_keeps_def)
qed

lemma consume_login_projects:
  "consume_login R c login db = Inr db' \<Longrightarrow> od_projects db' = od_projects db"
  by (auto simp: consume_login_def consumeCustomerDashboardLogin_def bind_ok_Inr Let_def
      split: option.splits if_splits)

lemma accept_inbox_projects:
  "accept_inbox now inbox login db = Inr (Some db') \<Longrightarrow> od_projects db' = od_projects db"
  by (auto simp: accept_inbox_def record_inbox_def bind_ok_Inr split: option.splits if_splits)

lemma saveProject_cases:
  assumes "saveProject R V c uuid nonce p expected e inbox login db = Inr (q, db')"
  obtains row db1 where "ProjectAggregate_ok R p" "pj_revision p = expected" "project_row_of db (pj_project_id p) = Some row"
    "consume_login R c login db = Inr db1"
    "(accept_inbox (c 1) inbox (login \<noteq> None) db1 = Inr None \<and> rowToProject R V row = Inr q \<and> db' = db1)
     \<or> (\<exists>db2. accept_inbox (c 1) inbox (login \<noteq> None) db1 = Inr (Some db2)
          \<and> project_row_of db2 (pj_project_id p) = Some row
          \<and> write_project R V (c 2) uuid nonce p expected e row db2 = Inr (q, db'))"
proof -
  from assms obtain row db1 accepted where *: "ProjectAggregate_ok R p" "pj_revision p = expected"
    "project_row_of db (pj_project_id p) = Some row" "consume_login R c login db = Inr db1"
    "accept_inbox (c 1) inbox (login \<noteq> None) db1 = Inr accepted"
    "(case accepted of None \<Rightarrow> bind_ok (rowToProject R V row) (\<lambda>current. Inr (current, db1))
       | Some db2 \<Rightarrow> write_project R V (c 2) uuid nonce p expected e row db2) = Inr (q, db')"
    by (auto simp: saveProject_def bind_ok_Inr check_input_Inr require_Inr the_or_Inr)
  show ?thesis
  proof (cases accepted)
    case None
    with * show ?thesis by (intro that [of row db1]) (auto simp: bind_ok_Inr)
  next
    case (Some db2)
    with * have "project_row_of db2 (pj_project_id p) = Some row"
      using consume_login_projects [OF *(4)] accept_inbox_projects [of _ _ _ db1 db2] by (simp add: project_row_of_def)
    with * Some show ?thesis by (intro that [of row db1]) auto
  qed
qed

lemma saveProject_keeps:
  assumes V: "vault_sound R V" and s: "saveProject R V c uuid nonce p expected e inbox login db = Inr (q, db')"
  shows "orch_keeps R V n db db'"
  using s
proof (cases rule: saveProject_cases)
  case (1 row db1)
  note first = consume_login_keeps [OF 1(4)]
  from 1(5) show ?thesis
  proof (elim disjE conjE exE)
    fix db2 assume "accept_inbox (c 1) inbox (login \<noteq> None) db1 = Inr (Some db2)"
      and row: "project_row_of db2 (pj_project_id p) = Some row" and w: "write_project R V (c 2) uuid nonce p expected e row db2 = Inr (q, db')"
    then have "orch_keeps R V n db1 db2" by (intro accept_inbox_keeps)
    then show ?thesis using first write_project_keeps [OF V row 1(2) w] orch_keeps_trans by blast
  qed (use first in simp)
qed

text \<open>A new row under a new identifier and key.\<close>

lemma createProject_cases:
  assumes "createProject R V c uuid eventId nonce input db = Inr (res, db')"
  obtains existing where "find (\<lambda>r. ix_idempotency_key r = ci_idempotency_key input) (od_projects db) = Some existing"
      "ix_idempotency_digest existing = idempotencyDigest R input" "rowToProject R V existing = Inr (cpr_project res)"
      "\<not> cpr_created res" "db' = db"
  | i p r where "find (\<lambda>r. ix_idempotency_key r = ci_idempotency_key input) (od_projects db) = None"
      "project_row_of db i = None" "p = new_project i input (c 0)" "ProjectAggregate_ok R p" "res = \<lparr>cpr_project = p, cpr_created = True\<rparr>"
      "ix_project_id r = i" "ix_idempotency_key r = ci_idempotency_key input" "ix_idempotency_digest r = idempotencyDigest R input"
      "ix_revision r = 0" "agrees_with_index p r" "px_sealed r = encrypt_project R V nonce p r"
      "appendProjectEvent eventId i 0 (project_created_event (pj_status p)) (c 0) (db\<lparr>od_projects := od_projects db @ [r]\<rparr>) = Inr db'"
      "px_pending_login r = hasPendingDashboardLoginEffect p"
proof (cases "find (\<lambda>r. ix_idempotency_key r = ci_idempotency_key input) (od_projects db)")
  case (Some r)
  with assms show ?thesis
    by (intro that(1) [of r]) (auto simp: createProject_def bind_ok_Inr check_input_Inr require_Inr Let_def)
next
  case None
  let ?i = "case ci_project_id input of None \<Rightarrow> uuid | Some i \<Rightarrow> i"
  let ?p = "new_project ?i input (c 0)"
  let ?x = "\<lparr>ix_project_id = ?i, ix_idempotency_key = ci_idempotency_key input, ix_idempotency_digest = idempotencyDigest R input,
     ix_status = pj_status ?p, ix_revision = pj_revision ?p, ix_created_at = pj_created_at ?p, ix_updated_at = pj_updated_at ?p\<rparr>"
  let ?r = "project_index.extend ?x \<lparr>px_pending_login = hasPendingDashboardLoginEffect ?p, px_sealed = encrypt_project R V nonce ?p ?x\<rparr>"
  have "indexAad R ?r = indexAad R ?x" by (rule indexAad_cong) (simp_all add: project_index.defs)
  then have sealed: "px_sealed ?r = encrypt_project R V nonce ?p ?r"
    by (simp add: encrypt_project_def project_index.defs)
  from None assms have "project_row_of db ?i = None" "ProjectAggregate_ok R ?p" "res = \<lparr>cpr_project = ?p, cpr_created = True\<rparr>"
    "appendProjectEvent eventId ?i 0 (project_created_event (pj_status ?p)) (c 0) (db\<lparr>od_projects := od_projects db @ [?r]\<rparr>) = Inr db'"
    by (auto simp: createProject_def bind_ok_Inr check_input_Inr require_Inr Let_def)
  then show ?thesis using None sealed
    by (intro that(2) [of ?i ?p ?r]) (simp_all add: project_index.defs agrees_with_index_def new_project_def)
qed

lemma createProject_keeps:
  assumes V: "vault_sound R V" and s: "createProject R V c uuid eventId nonce input db = Inr (res, db')"
  shows "orch_keeps R V n db db'"
  using s
proof (cases rule: createProject_cases)
  case (2 i p r)
  from append_event_Inr [OF 2(12)] obtain x where x: "pe_sequence x = Suc (od_last_sequence db)" "pe_event_id x = eventId"
    "pe_project_id x = i" "pe_aggregate_revision x = 0" "eventId \<notin> pe_event_id ` set (od_events db)"
    and db': "db' = db\<lparr>od_projects := od_projects db @ [r], od_events := od_events db @ [x], od_last_sequence := Suc (od_last_sequence db)\<rparr>"
    by auto
  have read: "rowToProject R V r = Inr p"
    using sealed_row_reads [OF V 2(4) 2(10)] 2(11) by (simp add: encrypt_project_def)
  have fresh: "i \<notin> ix_project_id ` set (od_projects db)" "ix_idempotency_key r \<notin> ix_idempotency_key ` set (od_projects db)"
    using 2(1,2,7) by (auto simp: project_row_of_None find_is_None)
  show ?thesis
  proof (cases "orch_ok R V n db")
    case ok: True
    have none: "filter (\<lambda>e. pe_project_id e = i) (od_events db) = []"
      using ok fresh(1) by (auto simp: orch_ok_def history_ok_def filter_empty_conv)
    have hist: "history_ok db'" unfolding db'
    proof (rule history_append)
      fix r' assume "r' \<in> set (od_projects db @ [r])" "ix_project_id r' = pe_project_id x"
      then have "r' = r" using x(3) fresh(1) by auto
      then show "map pe_aggregate_revision (filter (\<lambda>e. pe_project_id e = ix_project_id r') (od_events db)) @ [pe_aggregate_revision x] = [0..<Suc (ix_revision r')]"
        using none x(4) 2(6,9) by simp
    qed (use ok x 2(6) in \<open>auto simp: orch_ok_def\<close>)
    have "references_ok db'" using ok by (auto simp: db' orch_ok_def references_ok_def)
    moreover have "projects_ok R V (od_projects db')" using ok fresh read 2(6,13) by (simp add: db' orch_ok_def projects_ok_def row_sound_def)
    moreover have "orch_advances db db'" by (simp add: db' orch_advances_def extends_refl extends_append)
    ultimately show ?thesis using ok hist by (simp add: orch_keeps_def orch_ok_def) (simp add: db')
  qed (simp add: orch_keeps_def)
qed simp

text \<open>The column is right already, so computing it again changes nothing.\<close>

lemma flags_fold_same:
  assumes "\<And>p r. p \<in> set ps \<Longrightarrow> r \<in> set rows \<Longrightarrow> ix_project_id r = pj_project_id p \<Longrightarrow> px_pending_login r = hasPendingDashboardLoginEffect p"
  shows "foldl (\<lambda>rows p. update_where (\<lambda>r. ix_project_id r = pj_project_id p)
    (\<lambda>r. r\<lparr>px_pending_login := hasPendingDashboardLoginEffect p\<rparr>) rows) rows ps = rows"
  using assms
proof (induction ps)
  case (Cons p ps)
  have "update_where (\<lambda>r. ix_project_id r = pj_project_id p) (\<lambda>r. r\<lparr>px_pending_login := hasPendingDashboardLoginEffect p\<rparr>) rows = rows"
    unfolding update_where_def
  proof (rule map_idI)
    fix r assume "r \<in> set rows"
    then show "(if ix_project_id r = pj_project_id p then r\<lparr>px_pending_login := hasPendingDashboardLoginEffect p\<rparr> else r) = r"
      using Cons.prems [of p r] by (cases r) auto
  qed
  then show ?case using Cons by simp
qed simp

lemma collect_ok_in:
  "collect_ok rs = Inr xs \<Longrightarrow> x \<in> set xs \<Longrightarrow> Inr x \<in> set rs"
  by (induction rs arbitrary: xs rule: collect_ok.induct) (auto simp: bind_ok_Inr)

lemma backfill_same:
  assumes "backfillPendingDashboardLoginIndex R V db = Inr db'" and ok: "projects_ok R V (od_projects db)"
  shows "db' = db"
proof -
  obtain ps where ps: "collect_ok (map (rowToProject R V) (order_by ix_project_id (od_projects db))) = Inr ps"
    and db': "db' = db\<lparr>od_projects := foldl (\<lambda>rows p. update_where (\<lambda>r. ix_project_id r = pj_project_id p)
            (\<lambda>r. r\<lparr>px_pending_login := hasPendingDashboardLoginEffect p\<rparr>) rows) (od_projects db) ps\<rparr>"
    using assms(1) by (auto simp: backfillPendingDashboardLoginIndex_def bind_ok_Inr)
  have "px_pending_login r = hasPendingDashboardLoginEffect p"
    if p: "p \<in> set ps" and r: "r \<in> set (od_projects db)" "ix_project_id r = pj_project_id p" for p r
  proof -
    obtain r0 where r0: "r0 \<in> set (od_projects db)" "rowToProject R V r0 = Inr p"
      using collect_ok_in [OF ps p] by force
    then have "ix_project_id r0 = pj_project_id p"
      by (auto simp: rowToProject_def agrees_with_index_def split: option.splits if_splits)
    then have "r0 = r" using ok r0(1) r distinct_key_eq [of ix_project_id "od_projects db" r0 r] by (simp add: projects_ok_def)
    then show ?thesis using ok r0 by (auto simp: projects_ok_def list_all_iff row_sound_def)
  qed
  then show ?thesis using flags_fold_same [of ps "od_projects db"] by (simp add: db')
qed

lemma backfill_keeps: "backfillPendingDashboardLoginIndex R V db = Inr db' \<Longrightarrow> orch_keeps R V n db db'"
  using backfill_same [of R V db db'] by (auto simp: orch_keeps_def orch_ok_def)

end
