(* ===== verification/Orchestration_Machine.thy ===== *)
theory Orchestration_Machine
  imports Orchestration_Invariants
begin

text \<open>
  The orchestration store as a transition system: one rule of \<open>orch_step\<close> per operation that may
  change its tables (an operation that throws is rolled back and is no step), with the runtime, the
  vault and the configured number of audit receipts as parameters.  Under the laws of the vault every
  reachable state satisfies \<open>orch_ok\<close> and every later one advances it.
\<close>

inductive orch_step :: "runtime \<Rightarrow> vault \<Rightarrow> nat \<Rightarrow> orch_db \<Rightarrow> orch_db \<Rightarrow> bool" for R V n where
  createProject: "createProject R V c uuid ev nonce i db = Inr (x, db') \<Longrightarrow> orch_step R V n db db'"
| saveProject: "saveProject R V c uuid nonce p k e inbox login db = Inr (x, db') \<Longrightarrow> orch_step R V n db db'"
| recordInbox: "recordInbox c x db = Inr (b, db') \<Longrightarrow> orch_step R V n db db'"
| consumeLogin: "consumeCustomerDashboardLogin R c t i x db = Inr (b, db') \<Longrightarrow> orch_step R V n db db'"
| securityFailure: "recordWebhookSecurityFailure n c w db = Inr (o', db') \<Longrightarrow> orch_step R V n db db'"
| stageEnvelope: "stageInboundMailEnvelope R c vi db = Inr (m, db') \<Longrightarrow> orch_step R V n db db'"
| claimEnvelopes: "claimPendingInboundMailEnvelopes R i ready lease k' db = Inr (ms, db') \<Longrightarrow> orch_step R V n db db'"
| completeEnvelope: "completeInboundMailEnvelope R i d t db = Inr db' \<Longrightarrow> orch_step R V n db db'"
| envelopeFailure: "recordInboundMailEnvelopeFailure R f db = Inr db' \<Longrightarrow> orch_step R V n db db'"
| resolveEnvelope: "resolveInboundMailEnvelope R i j q t db = Inr db' \<Longrightarrow> orch_step R V n db db'"
| createSnapshot: "createProofSummarySnapshot R V c nonce si db = Inr (s, db') \<Longrightarrow> orch_step R V n db db'"
| revokeSnapshot: "revokeProofSummarySnapshot c i reason db = Inr (s, db') \<Longrightarrow> orch_step R V n db db'"
| backfillLogins: "backfillPendingDashboardLoginIndex R V db = Inr db' \<Longrightarrow> orch_step R V n db db'"

inductive orch_steps :: "runtime \<Rightarrow> vault \<Rightarrow> nat \<Rightarrow> orch_db \<Rightarrow> orch_db \<Rightarrow> bool" for R V n where
  osteps_refl: "orch_steps R V n db db"
| osteps_step: "orch_steps R V n db db1 \<Longrightarrow> orch_step R V n db1 db2 \<Longrightarrow> orch_steps R V n db db2"

inductive_cases orch_stepsE: "orch_steps R V n db db'"

definition orch_reachable :: "runtime \<Rightarrow> vault \<Rightarrow> nat \<Rightarrow> orch_db \<Rightarrow> bool" where
  "orch_reachable R V n db \<longleftrightarrow> orch_steps R V n empty_orch_db db"

lemmas orch_op_keeps = recordInbox_keeps consume_keeps security_failure_keeps stage_keeps claim_keeps
  complete_keeps failure_keeps resolve_keeps create_snapshot_keeps revoke_keeps backfill_keeps

lemma orch_step_keeps:
  assumes "vault_sound R V" "orch_step R V n db db'"
  shows "orch_keeps R V n db db'"
  using assms(2)
proof cases
  case createProject
  then show ?thesis by (rule createProject_keeps [OF assms(1)])
next
  case saveProject
  then show ?thesis by (rule saveProject_keeps [OF assms(1)])
qed (erule orch_op_keeps)+

lemma orch_steps_keeps:
  assumes V: "vault_sound R V" and s: "orch_steps R V n db db'"
  shows "orch_keeps R V n db db'"
  using s by (induction rule: orch_steps.induct) (auto intro: orch_keeps_trans orch_step_keeps [OF V])

lemma orch_steps_trans:
  assumes "orch_steps R V n a b" "orch_steps R V n b c" shows "orch_steps R V n a c"
  using assms(2,1) by (induction rule: orch_steps.induct) (auto intro: osteps_step)

lemma orch_steps_one: "orch_step R V n a b \<Longrightarrow> orch_steps R V n a b"
  by (rule osteps_step [OF osteps_refl])

lemma empty_orch_ok: "orch_ok R V n empty_orch_db"
  by (simp add: orch_ok_def projects_ok_def history_ok_def references_ok_def keys_ok_def audit_ok_def empty_orch_db_def)

lemma orch_reachable_ok: "vault_sound R V \<Longrightarrow> orch_reachable R V n db \<Longrightarrow> orch_ok R V n db"
  using orch_steps_keeps empty_orch_ok by (auto simp: orch_reachable_def orch_keeps_def)

lemma orch_reachable_empty [simp]: "orch_reachable R V n empty_orch_db"
  by (simp add: orch_reachable_def osteps_refl)

lemma orch_reachable_step: "orch_reachable R V n db \<Longrightarrow> orch_step R V n db db' \<Longrightarrow> orch_reachable R V n db'"
  by (auto simp: orch_reachable_def intro: osteps_step)

lemma orch_reachable_steps: "orch_reachable R V n db \<Longrightarrow> orch_steps R V n db db' \<Longrightarrow> orch_reachable R V n db'"
  by (auto simp: orch_reachable_def intro: orch_steps_trans)

lemma orch_steps_advance:
  "vault_sound R V \<Longrightarrow> orch_reachable R V n db \<Longrightarrow> orch_steps R V n db db' \<Longrightarrow> orch_advances db db'"
  using orch_steps_keeps orch_reachable_ok by (auto simp: orch_keeps_def)

subsection \<open>Reading the invariant\<close>

lemma orch_ok_parts:
  assumes "orch_ok R V n db"
  shows "distinct (map ix_project_id (od_projects db))" "distinct (map ix_idempotency_key (od_projects db))"
    "r \<in> set (od_projects db) \<Longrightarrow> is_ok (rowToProject R V r)" "distinct (map me_event_id (od_envelopes db))"
    "distinct (map (\<lambda>r. (xr_provider r, xr_event_id r)) (od_inbox db))" "distinct (map lg_token_digest (od_logins db))"
    "distinct (map sx_snapshot_id (od_snapshots db))" "distinct (map rv_snapshot_id (od_revocations db))"
    "distinct (map pe_event_id (od_events db))" "length (od_audit db) \<le> n"
  using assms by (auto simp: orch_ok_def projects_ok_def keys_ok_def history_ok_def audit_ok_def list_all_iff row_sound_def
      is_ok_def)

lemma orch_ok_history:
  assumes "orch_ok R V n db" "r \<in> set (od_projects db)"
  shows "map pe_aggregate_revision (filter (\<lambda>e. pe_project_id e = ix_project_id r) (od_events db)) = [0..<Suc (ix_revision r)]"
  using assms by (auto simp: orch_ok_def history_ok_def simp del: upt_Suc)

lemma orch_advances_parts:
  assumes "orch_advances a b"
  shows "extends project_step (od_projects a) (od_projects b)" "extends envelope_step (od_envelopes a) (od_envelopes b)"
    "extends (=) (od_events a) (od_events b)" "extends (=) (od_inbox a) (od_inbox b)"
    "extends (=) (od_snapshots a) (od_snapshots b)" "extends (=) (od_revocations a) (od_revocations b)"
    "extends (=) (od_logins a) (od_logins b)"
  using assms by (simp_all add: orch_advances_def)

text \<open>What a later state still has of a project, an envelope and a consumed login.\<close>

lemma later_project:
  assumes "orch_advances db db'" "distinct (map ix_project_id (od_projects db'))" "project_row_of db i = Some r"
  obtains r' where "project_row_of db' i = Some r'" "project_step r r'"
proof -
  have r: "r \<in> set (od_projects db)" "ix_project_id r = i" using project_row_of_SomeD [OF assms(3)] by auto
  obtain r' where r': "r' \<in> set (od_projects db')" "project_step r r'"
    using extends_in [OF orch_advances_parts(1) [OF assms(1)] r(1)] by blast
  then have "ix_project_id r' = i" using r(2) by (simp add: project_step_def)
  then have "project_row_of db' i = Some r'"
    using find_key_unique [OF assms(2) r'(1)] by (simp add: project_row_of_def)
  then show ?thesis using that r'(2) by blast
qed

lemma later_envelope:
  assumes "orch_advances db db'" "distinct (map me_event_id (od_envelopes db'))" "envelope_of db i = Some m"
  obtains m' where "envelope_of db' i = Some m'" "envelope_step m m'"
proof -
  have m: "m \<in> set (od_envelopes db)" "me_event_id m = i" using envelope_of_SomeD [OF assms(3)] by auto
  obtain m' where m': "m' \<in> set (od_envelopes db')" "envelope_step m m'"
    using extends_in [OF orch_advances_parts(2) [OF assms(1)] m(1)] by blast
  then have "me_event_id m' = i" using m(2) by (simp add: envelope_step_def)
  then have "envelope_of db' i = Some m'" using envelope_of_unique [OF assms(2) m'(1)] by simp
  then show ?thesis using that m'(2) by blast
qed

lemma later_rows:
  assumes "orch_advances db db'"
  shows "set (od_events db) \<subseteq> set (od_events db')" "set (od_inbox db) \<subseteq> set (od_inbox db')"
    "set (od_snapshots db) \<subseteq> set (od_snapshots db')" "set (od_revocations db) \<subseteq> set (od_revocations db')"
    "set (od_logins db) \<subseteq> set (od_logins db')"
  using orch_advances_parts(3-7) [OF assms] by (auto simp: extends_eq)

end
