(* ===== verification/Sample_Orchestration.thy ===== *)
theory Sample_Orchestration
  imports Orchestration_Machine Sample_Project "HOL-Library.Countable"
begin

text \<open>
  A concrete vault and a concrete database.  An aggregate has countably many values (the \<open>countable\<close>
  instances of its types), so there is a printing of aggregates as text that parsing inverts: as many
  digits as its number.  Sealing keeps the authenticated data as the tag and opening compares it.  The
  database is what creating a project, saving it once and staging a mail make of the empty one.
\<close>

subsection \<open>Aggregates are countable\<close>

instance batch_status :: countable by countable_datatype

instance run_status :: countable by countable_datatype

instance build_run_identity_ext :: (countable) countable
  by (rule countable_classI [of "\<lambda>r. to_nat (bi_run_id r, bi_candidate_id r, bi_assignment_id r,
      bi_status r, build_run_identity.more r)"])
    (rule build_run_identity.equality, simp_all)

instance build_batch_ext :: (countable) countable
  by (rule countable_classI [of "\<lambda>r. to_nat (bb_batch_id r, bb_project_id r, bb_proposal_version r,
      bb_proposal_digest r, bb_payment_receipt_id r, bb_payment_proposal_version r, bb_contract_version r,
      bb_contract_digest r, bb_build_contract_hash r, bb_requested_candidate_count r, bb_runs r,
      bb_build_deadline_at r, bb_proof_event_deadline_at r, bb_status r, bb_created_at r, bb_completed_at r,
      build_batch.more r)"])
    (rule build_batch.equality, simp_all)

instance checkout_status :: countable by countable_datatype

instance checkout_session_ext :: (countable) countable
  by (rule countable_classI [of "\<lambda>r. to_nat (ck_session_id r, ck_project_id r, ck_proposal_version
      r, ck_proposal_digest r, ck_amount_minor r, ck_currency r, ck_url r, ck_status r, ck_expires_at r,
      ck_created_at r, ck_updated_at r, checkout_session.more r)"])
    (rule checkout_session.equality, simp_all)

instance contact_ext :: (countable) countable
  by (rule countable_classI [of "\<lambda>r. to_nat (ct_value r, ct_verified r, ct_verified_at r,
      contact.more r)"])
    (rule contact.equality, simp_all)

instance contact_channel :: countable by countable_datatype

instance research_consent_ext :: (countable) countable
  by (rule countable_classI [of "\<lambda>r. to_nat (rc_granted r, rc_captured_at r, rc_source_intake_id r,
      research_consent.more r)"])
    (rule research_consent.equality, simp_all)

instance customer_profile_ext :: (countable) countable
  by (rule countable_classI [of "\<lambda>r. to_nat (cp_profile_id r, cp_display_name r, cp_email r,
      cp_phone r, cp_organization_name r, cp_preferred_channel r, cp_research_consent r,
      customer_profile.more r)"])
    (rule customer_profile.equality, simp_all)

instance deployment_receipt_ext :: (countable) countable
  by (rule countable_classI [of "\<lambda>r. to_nat (dp_receipt_id r, dp_project_id r, dp_batch_id r,
      dp_run_id r, dp_candidate_id r, dp_proposal_version r, dp_proposal_digest r, dp_revision_hash r,
      dp_artifact_digest r, dp_release_id r, dp_release_key r, dp_release_version r, dp_image_digest r,
      dp_workspace_digest r, dp_machine_ids r, dp_machine_instance_ids r, dp_deployment_attempted r,
      dp_recovered_from_provider r, dp_url r, dp_deployed_at r, dp_release_verified_at r, dp_verified_at r,
      deployment_receipt.more r)"])
    (rule deployment_receipt.equality, simp_all)

instance effect_status :: countable by countable_datatype

instance effect_type :: countable by countable_datatype

instance error_category :: countable by countable_datatype

instance orchestration_error_ext :: (countable) countable
  by (rule countable_classI [of "\<lambda>r. to_nat (oe_error_id r, oe_code r, oe_category r, oe_message r,
      oe_retryable r, oe_effect_key r, oe_occurred_at r, orchestration_error.more r)"])
    (rule orchestration_error.equality, simp_all)

instance durable_effect_ext :: (countable) countable
  by (rule countable_classI [of "\<lambda>r. to_nat (ef_key r, ef_type r, ef_status r, ef_attempts r,
      ef_input_digest r, ef_provider_id r, ef_receipt_digest r, ef_proof_snapshot_id r,
      ef_proof_snapshot_digest r, ef_error r, ef_next_attempt_at r, ef_next_check_at r, ef_created_at r,
      ef_updated_at r, ef_completed_at r, durable_effect.more r)"])
    (rule durable_effect.equality, simp_all)

instance intake_source :: countable by countable_datatype

instance pii_category :: countable by countable_datatype

instance pii_handling :: countable by countable_datatype

instance pii_span_ext :: (countable) countable
  by (rule countable_classI [of "\<lambda>r. to_nat (ps_category r, ps_start r, ps_end r, ps_value_digest r,
      ps_confidence r, ps_handling r, pii_span.more r)"])
    (rule pii_span.equality, simp_all)

instance intake_ext :: (countable) countable
  by (rule countable_classI [of "\<lambda>r. to_nat (in_id r, in_received_at r, in_content r,
      in_content_digest r, in_pii_spans r, in_source r, intake.more r)"])
    (rule intake.equality, simp_all)

instance lifecycle_status :: countable by countable_datatype

instance verification_source :: countable by countable_datatype

instance payment_receipt_ext :: (countable) countable
  by (rule countable_classI [of "\<lambda>r. to_nat (pm_receipt_id r, pm_provider_event_id r,
      pm_provider_evidence_digest r, pm_checkout_session_id r, pm_payment_intent_id r, pm_project_id r,
      pm_proposal_id r, pm_proposal_version r, pm_proposal_digest r, pm_amount_minor r,
      pm_amount_received_minor r, pm_currency r, pm_customer_email_digest r, pm_customer_id r,
      pm_intent_created_at r, pm_verification_source r, pm_signature_verified r, pm_signed_event_digest r,
      pm_paid_at r, pm_verified_at r, pm_livemode r, payment_receipt.more r)"])
    (rule payment_receipt.equality, simp_all)

instance delivery_status :: countable by countable_datatype

instance message_channel :: countable by countable_datatype

instance message_direction :: countable by countable_datatype

instance message_purpose :: countable by countable_datatype

instance project_message_ext :: (countable) countable
  by (rule countable_classI [of "\<lambda>r. to_nat (mg_message_id r, mg_direction r, mg_channel r,
      mg_purpose r, mg_provider r, mg_provider_message_id r, mg_rfc_message_id r, mg_thread_id r,
      mg_in_reply_to r, mg_references r, mg_subject r, mg_content r, mg_content_digest r,
      mg_sender_authenticated r, mg_delivery_status r, mg_created_at r, mg_delivery_updated_at r,
      project_message.more r)"])
    (rule project_message.equality, simp_all)

instance project_preview_ext :: (countable) countable
  by (rule countable_classI [of "\<lambda>r. to_nat (pw_receipt_id r, pw_project_id r, pw_batch_id r,
      pw_run_id r, pw_candidate_id r, pw_proposal_version r, pw_proposal_digest r, pw_revision_hash r,
      pw_artifact_digest r, pw_snapshot_id r, pw_url r, pw_expires_at r, pw_created_at r, pw_verified_at r,
      project_preview.more r)"])
    (rule project_preview.equality, simp_all)

instance money_quote_ext :: (countable) countable
  by (rule countable_classI [of "\<lambda>r. to_nat (mq_amount_minor r, mq_currency r, money_quote.more
      r)"])
    (rule money_quote.equality, simp_all)

instance contract_fact_ext :: (countable) countable
  by (rule countable_classI [of "\<lambda>r. to_nat (cf_fact_id r, cf_statement r, cf_source_ids r,
      contract_fact.more r)"])
    (rule contract_fact.equality, simp_all)

instance evidence_basis :: countable by countable_datatype

instance priority :: countable by countable_datatype

instance verifier :: countable by countable_datatype

instance contract_requirement_ext :: (countable) countable
  by (rule countable_classI [of "\<lambda>r. to_nat (cq_requirement_id r, cq_description r, cq_priority r,
      cq_source_ids r, cq_evidence_basis r, cq_verifiers r, contract_requirement.more r)"])
    (rule contract_requirement.equality, simp_all)

instance verification_plan_ext :: (countable) countable
  by (rule countable_classI [of "\<lambda>r. to_nat (vp_build_command r, vp_test_commands r,
      vp_preview_command r, vp_preview_port r, verification_plan.more r)"])
    (rule verification_plan.equality, simp_all)

instance contract_content_ext :: (countable) countable
  by (rule countable_classI [of "\<lambda>r. to_nat (oc_contract_id r, oc_project_id r, oc_version r,
      oc_parent_version r, oc_approved_facts r, oc_forbidden_claims r, oc_requirements r, oc_verification r,
      oc_created_at r, contract_content.more r)"])
    (rule contract_content.equality, simp_all)

instance orchestration_contract_ext :: (countable) countable
proof (rule countable_classI)
  fix x y :: "'a orchestration_contract_ext"
  let ?f = "\<lambda>e. to_nat (oc_digest (contract_content.extend (undefined :: contract_content) e), orchestration_contract.more (contract_content.extend (undefined :: contract_content) e))"
  show "?f x = ?f y \<Longrightarrow> x = y"
    by (induct x rule: orchestration_contract.ext_induct, induct y rule: orchestration_contract.ext_induct) (simp add: contract_content.defs)
qed

instance plan_item_ext :: (countable) countable
  by (rule countable_classI [of "\<lambda>r. to_nat (pi_item_id r, pi_text r, pi_source_ids r,
      pi_evidence_basis r, plan_item.more r)"])
    (rule plan_item.equality, simp_all)

instance sourced_asset_ext :: (countable) countable
  by (rule countable_classI [of "\<lambda>r. to_nat (sa_asset_id r, sa_url r, sa_description r,
      sa_source_ids r, sourced_asset.more r)"])
    (rule sourced_asset.equality, simp_all)

instance sourced_requirement_ext :: (countable) countable
proof (rule countable_classI)
  fix x y :: "'a sourced_requirement_ext"
  let ?f = "\<lambda>e. to_nat (sq_priority (plan_item.extend (undefined :: plan_item) e), sourced_requirement.more (plan_item.extend (undefined :: plan_item) e))"
  show "?f x = ?f y \<Longrightarrow> x = y"
    by (induct x rule: sourced_requirement.ext_induct, induct y rule: sourced_requirement.ext_induct) (simp add: plan_item.defs)
qed

instance sourced_text_ext :: (countable) countable
  by (rule countable_classI [of "\<lambda>r. to_nat (st_text r, st_source_ids r, sourced_text.more r)"])
    (rule sourced_text.equality, simp_all)

instance proposal_plan_ext :: (countable) countable
  by (rule countable_classI [of "\<lambda>r. to_nat (pp_summary r, pp_deliverables r, pp_requirements r,
      pp_approved_facts r, pp_assets r, pp_exclusions r, pp_unknowns r, proposal_plan.more r)"])
    (rule proposal_plan.equality, simp_all)

instance conversation_source_ext :: (countable) countable
  by (rule countable_classI [of "\<lambda>r. to_nat (cs_source_id r, cs_origin_id r, cs_content_digest r,
      cs_minimized_digest r, cs_start r, cs_end r, cs_excerpt r, cs_excerpt_digest r,
      conversation_source.more r)"])
    (rule conversation_source.equality, simp_all)

instance research_source_ext :: (countable) countable
  by (rule countable_classI [of "\<lambda>r. to_nat (rs_source_id r, rs_url r, rs_requested_url r,
      rs_final_url r, rs_redirect_chain r, rs_canonical_url r, rs_title r, rs_publisher r, rs_captured_at r,
      rs_retrieved_at r, rs_capture_digest r, rs_start r, rs_end r, rs_excerpt r, rs_excerpt_digest r,
      research_source.more r)"])
    (rule research_source.equality, simp_all)

instance proposal_source :: countable by countable_datatype

instance proposal_content_ext :: (countable) countable
  by (rule countable_classI [of "\<lambda>r. to_nat (pv_proposal_id r, pv_version r, pv_parent_version r,
      pv_commercial_basis r, pv_change_rationale r, pv_project_title r, pv_build_prompt r,
      pv_strategy_labels r, pv_sources r, pv_plan r, pv_quote r, pv_contract r, pv_created_at r,
      proposal_content.more r)"])
    (rule proposal_content.equality, simp_all)

instance proposal_version_ext :: (countable) countable
proof (rule countable_classI)
  fix x y :: "'a proposal_version_ext"
  let ?f = "\<lambda>e. to_nat (pv_digest (proposal_content.extend (undefined :: proposal_content) e), proposal_version.more (proposal_content.extend (undefined :: proposal_content) e))"
  show "?f x = ?f y \<Longrightarrow> x = y"
    by (induct x rule: proposal_version.ext_induct, induct y rule: proposal_version.ext_induct) (simp add: proposal_content.defs)
qed

instance candidate_ranking_ext :: (countable) countable
  by (rule countable_classI [of "\<lambda>r. to_nat (rk_preference_satisfaction r, rk_score_tuple r,
      rk_trace_id r, candidate_ranking.more r)"])
    (rule candidate_ranking.equality, simp_all)

instance proven_artifact_ext :: (countable) countable
  by (rule countable_classI [of "\<lambda>r. to_nat (pa_artifact_id r, pa_run_id r, pa_revision_hash r,
      pa_uri r, pa_sha256 r, pa_size_bytes r, pa_daytona_snapshot r, pa_created_at r, proven_artifact.more
      r)"])
    (rule proven_artifact.equality, simp_all)

instance candidate_proven_payload_ext :: (countable) countable
  by (rule countable_classI [of "\<lambda>r. to_nat (cp_run_id r, cp_project_id r, cp_candidate_id r,
      cp_contract_hash r, cp_revision_hash r, cp_sandbox_id r, cp_preview_port r, cp_artifact r, cp_trace_id
      r, cp_ranking r, candidate_proven_payload.more r)"])
    (rule candidate_proven_payload.equality, simp_all)

instance outbox_event_ext :: (countable) countable
  by (rule countable_classI [of "\<lambda>r. to_nat (ob_event_id r, ob_type r, ob_run_id r, ob_revision_hash
      r, ob_trace_id r, ob_payload r, ob_created_at r, ob_published_at r, outbox_event.more r)"])
    (rule outbox_event.equality, simp_all)

instance proven_candidate_ext :: (countable) countable
  by (rule countable_classI [of "\<lambda>r. to_nat (pcd_batch_id r, pcd_proposal_version r,
      pcd_proposal_digest r, pcd_event r, pcd_received_at r, proven_candidate.more r)"])
    (rule proven_candidate.equality, simp_all)

instance project_ext :: (countable) countable
  by (rule countable_classI [of "\<lambda>r. to_nat (pj_project_id r, pj_revision r, pj_status r, pj_intake
      r, pj_customer r, pj_proposals r, pj_active_proposal r, pj_paid_proposal r, pj_checkouts r,
      pj_payments r, pj_batches r, pj_active_batch_id r, pj_candidates r, pj_previews r, pj_deployments r,
      pj_messages r, pj_open_questions r, pj_effects r, pj_errors r, pj_created_at r, pj_updated_at r,
      project.more r)"])
    (rule project.equality, simp_all)

subsection \<open>A vault that keeps its laws\<close>

definition sample_vault :: vault where
  "sample_vault = \<lparr>vt_seal = (\<lambda>nonce aad t. \<lparr>sv_nonce = nonce, sv_tag = aad, sv_ciphertext = t\<rparr>),
     vt_open = (\<lambda>s aad. if sv_tag s = aad then Some (sv_ciphertext s) else None),
     vt_print = (\<lambda>p. replicate (to_nat p) CHR ''1''), vt_parse = (\<lambda>t. Some (from_nat (length t))),
     vt_json_parse = (\<lambda>t. if t = ''true'' then Some (JBool True) else None), vt_byte_length = length\<rparr>"

lemma sample_vault_sound: "vault_sound R sample_vault"
  by (simp add: vault_sound_def sample_vault_def)

subsection \<open>A first project\<close>

text \<open>The date of a text is its length, so later texts are longer.\<close>

definition orch_runtime :: runtime where
  "orch_runtime = sample_runtime\<lparr>rt_date_parse := \<lambda>s. Some (int (length s))\<rparr>"

definition time_text :: "nat \<Rightarrow> string" where
  "time_text k = replicate (20 + k) CHR ''t''"

lemma orch_runtime_fields [simp]:
  "rt_sha256 orch_runtime = (\<lambda>_. sample_hash)" "rt_is_datetime orch_runtime = (\<lambda>_. True)" "rt_is_email orch_runtime = (\<lambda>_. True)"
  "rt_date_parse orch_runtime = (\<lambda>s. Some (int (length s)))"
  by (simp_all add: orch_runtime_def sample_runtime_def)

lemma time_text_ok [simp]: "k \<le> 40 \<Longrightarrow> parse_timestamp orch_runtime (time_text k)"
  by (simp add: parse_timestamp_def time_text_def)

definition sample_create :: create_project_input where
  "sample_create = \<lparr>ci_project_id = Some ''project-1'', ci_idempotency_key = ''create-key'', ci_status = StartReceived,
     ci_intake = sample_intake, ci_customer = sample_customer\<rparr>"

definition first_project :: "nat \<Rightarrow> string \<Rightarrow> project" where
  "first_project k t = (new_project ''project-1'' sample_create (time_text 0))\<lparr>pj_revision := k, pj_updated_at := t\<rparr>"

lemma first_project_fields [simp]:
  "pj_project_id (first_project k t) = ''project-1''" "pj_revision (first_project k t) = k"
  "pj_status (first_project k t) = IntakeReceived" "pj_created_at (first_project k t) = time_text 0"
  "pj_updated_at (first_project k t) = t" "pj_effects (first_project k t) = []"
  by (simp_all add: first_project_def new_project_def sample_create_def)

lemma orch_intake_ok: "Intake_ok orch_runtime sample_intake"
  by (simp add: Intake_ok_def intake_shape_def intake_issues_def intake_span_issues_def sample_intake_def
      pii_span_shape_def pii_span_issues_def text_simps)

lemma orch_customer_ok: "CustomerProfile_ok orch_runtime sample_customer"
  by (simp add: CustomerProfile_ok_def ContactEmail_ok_def contact_issues_def ResearchConsent_ok_def
      consent_issues_def sample_customer_def text_simps)

lemma sample_create_ok: "CreateProjectInput_ok orch_runtime sample_create"
  using orch_intake_ok orch_customer_ok by (simp add: CreateProjectInput_ok_def sample_create_def text_simps)

lemma first_project_ok:
  assumes "safe_nat k"
  shows "ProjectAggregate_ok orch_runtime (first_project k t)"
proof -
  let ?p = "first_project k t"
  have lists: "pj_proposals ?p = []" "pj_checkouts ?p = []" "pj_payments ?p = []" "pj_batches ?p = []" "pj_candidates ?p = []"
    "pj_previews ?p = []" "pj_deployments ?p = []" "pj_messages ?p = []" "pj_open_questions ?p = []" "pj_errors ?p = []"
    "pj_active_proposal ?p = None" "pj_paid_proposal ?p = None" "pj_active_batch_id ?p = None"
    "pj_intake ?p = sample_intake" "pj_customer ?p = sample_customer"
    by (simp_all add: first_project_def new_project_def sample_create_def)
  have "project_shape orch_runtime ?p"
    using assms orch_intake_ok orch_customer_ok by (simp add: project_shape_def lists text_simps)
  moreover have "consent_binding_issues ?p = []"
    by (simp add: consent_binding_issues_def lists) (simp add: sample_customer_def sample_intake_def)
  moreover have "payments_issues orch_runtime ?p = []" by (simp add: payments_issues_Nil lists)
  moreover have "status_issues orch_runtime ?p = []"
    by (simp add: status_issues_def lists active_batch_def ACTIVE_STATUSES_def)
  moreover have "unique_collections_issues ?p = []" by (simp add: unique_collections_issues_def lists)
  ultimately show ?thesis
    by (simp add: ProjectAggregate_ok_def project_issues_def lists checkouts_issues_def batches_issues_def)
qed

subsection \<open>Three operations from the empty database\<close>

definition sample_clock :: "nat \<Rightarrow> text_clock" where
  "sample_clock k = (\<lambda>_. time_text k)"

lemma sample_clock_at [simp]: "sample_clock k j = time_text k"
  by (simp add: sample_clock_def)

definition first_index :: project_index where
  "first_index = \<lparr>ix_project_id = ''project-1'', ix_idempotency_key = ''create-key'', ix_idempotency_digest = sample_hash,
     ix_status = IntakeReceived, ix_revision = 0, ix_created_at = time_text 0, ix_updated_at = time_text 0\<rparr>"

definition first_row :: project_row where
  "first_row = project_index.extend first_index \<lparr>px_pending_login = False,
     px_sealed = encrypt_project orch_runtime sample_vault ''n0'' (first_project 0 (time_text 0)) first_index\<rparr>"

definition sample_event_row :: "nat \<Rightarrow> string \<Rightarrow> string \<Rightarrow> event_payload \<Rightarrow> project_event" where
  "sample_event_row k i ty pl = \<lparr>pe_sequence = Suc k, pe_event_id = i, pe_project_id = ''project-1'', pe_aggregate_revision = k,
     pe_type = ty, pe_actor = ActorSystem, pe_payload = pl, pe_occurred_at = time_text k\<rparr>"

definition created_db :: orch_db where
  "created_db = empty_orch_db\<lparr>od_projects := [first_row],
     od_events := [sample_event_row 0 ''e0'' ''project.created'' (no_payload\<lparr>ep_status := Some IntakeReceived\<rparr>)],
     od_last_sequence := 1\<rparr>"

lemma first_row_fields [simp]:
  "ix_project_id first_row = ''project-1''" "ix_idempotency_key first_row = ''create-key''"
  "ix_idempotency_digest first_row = sample_hash" "ix_status first_row = IntakeReceived" "ix_revision first_row = 0"
  "ix_created_at first_row = time_text 0" "ix_updated_at first_row = time_text 0" "px_pending_login first_row = False"
  by (simp_all add: first_row_def first_index_def project_index.defs)

lemma no_payload_ok: "RedactedEventPayload_ok (no_payload\<lparr>ep_status := s\<rparr>)"
  by (simp add: RedactedEventPayload_ok_def no_payload_def)

lemma event_types_ok: "event_type_text ''project.created''" "event_type_text ''intake.updated''"
  by (simp_all add: event_type_text_def text_simps)

lemma first_project_new: "first_project 0 (time_text 0) = new_project ''project-1'' sample_create (time_text 0)"
  by (simp add: first_project_def new_project_def)

lemma created_step:
  "createProject orch_runtime sample_vault (sample_clock 0) ''u0'' ''e0'' ''n0'' sample_create empty_orch_db
     = Inr (\<lparr>cpr_project = first_project 0 (time_text 0), cpr_created = True\<rparr>, created_db)"
proof -
  have p: "new_project ''project-1'' sample_create (time_text 0) = first_project 0 (time_text 0)"
    by (simp add: first_project_new)
  have ci: "ci_project_id sample_create = Some ''project-1''" "ci_idempotency_key sample_create = ''create-key''"
    by (simp_all add: sample_create_def)
  have digest: "idempotencyDigest orch_runtime sample_create = sample_hash" by (simp add: idempotencyDigest_def)
  have ok: "ProjectAggregate_ok orch_runtime (first_project 0 (time_text 0))"
    by (rule first_project_ok) (simp add: safe_nat_def MAX_SAFE_INTEGER_def)
  have row: "project_index.extend first_index \<lparr>px_pending_login = False,
      px_sealed = encrypt_project orch_runtime sample_vault ''n0'' (first_project 0 (time_text 0)) first_index\<rparr> = first_row"
    by (simp add: first_row_def)
  have ev: "ProjectEventInput_ok (project_created_event IntakeReceived)"
    using no_payload_ok event_types_ok by (simp add: ProjectEventInput_ok_def project_created_event_def)
  have i: "\<lparr>ix_project_id = ''project-1'', ix_idempotency_key = ''create-key'', ix_idempotency_digest = sample_hash,
     ix_status = IntakeReceived, ix_revision = 0, ix_created_at = time_text 0, ix_updated_at = time_text 0\<rparr> = first_index"
    by (simp add: first_index_def)
  show ?thesis
    by (simp add: createProject_def check_input_def sample_create_ok require_def ci digest project_row_of_def empty_orch_db_def
        sample_clock_def p ok Let_def i hasPendingDashboardLoginEffect_def row appendProjectEvent_def ev created_db_def)
      (simp add: sample_event_row_def project_created_event_def)
qed

definition sample_save_event :: event_input where
  "sample_save_event = \<lparr>ei_type = ''intake.updated'', ei_actor = ActorSystem, ei_payload = no_payload\<rparr>"

definition sample_inbox :: inbox_event where
  "sample_inbox = \<lparr>xe_provider = ''resend'', xe_event_id = ''evt-1'', xe_digest = sample_hash\<rparr>"

definition sample_login :: login_consumption where
  "sample_login = \<lparr>lc_token_digest = sample_hash, lc_project_id = ''project-1'', lc_expires_at = time_text 30\<rparr>"

definition saved_db :: orch_db where
  "saved_db = created_db\<lparr>
     od_projects := [saved_row orch_runtime sample_vault ''n1'' (first_project 1 (time_text 1)) first_row],
     od_events := od_events created_db @ [sample_event_row 1 ''e1'' ''intake.updated'' no_payload],
     od_last_sequence := 2,
     od_inbox := [\<lparr>xr_provider = ''resend'', xr_event_id = ''evt-1'', xr_digest = sample_hash, xr_received_at = time_text 1\<rparr>],
     od_logins := [\<lparr>lg_token_digest = sample_hash, lg_project_id = ''project-1'', lg_expires_at = time_text 30,
        lg_consumed_at = time_text 1\<rparr>]\<rparr>"

lemma created_db_fields [simp]:
  "od_projects created_db = [first_row]" "od_last_sequence created_db = 1" "od_inbox created_db = []"
  "od_logins created_db = []" "od_envelopes created_db = []" "od_snapshots created_db = []"
  "od_revocations created_db = []" "od_audit created_db = []" "od_overflow created_db = []"
  "map pe_event_id (od_events created_db) = [''e0'']"
  by (simp_all add: created_db_def empty_orch_db_def sample_event_row_def)

lemma first_projects_ok [simp]:
  "ProjectAggregate_ok orch_runtime (first_project 0 t)" "ProjectAggregate_ok orch_runtime (first_project 1 t)"
  "ProjectAggregate_ok orch_runtime (first_project (Suc 0) t)" "ProjectAggregate_ok orch_runtime (first_project 2 t)"
  by (rule first_project_ok, simp add: safe_nat_def MAX_SAFE_INTEGER_def)+

lemma sample_save_event_ok [simp]: "ProjectEventInput_ok sample_save_event"
  using event_types_ok no_payload_ok [of None] by (simp add: ProjectEventInput_ok_def sample_save_event_def no_payload_def)

lemma sample_inbox_ok [simp]: "verified_inbox_ok sample_inbox"
  by (simp add: verified_inbox_ok_def webhook_provider_def sample_inbox_def text_simps)

lemma sample_id [simp]: "orchestration_id ''project-1''"
  by (simp add: text_simps)

lemma sample_login_ok [simp]: "lc_token_digest sample_login = sample_hash" "lc_project_id sample_login = ''project-1''"
  "lc_expires_at sample_login = time_text 30" "\<not> date_le orch_runtime (time_text 30) (time_text (Suc 0))"
  by (simp_all add: sample_login_def date_le_def time_text_def)

lemma next_first_project: "next_project (first_project k t) first_row t' = first_project (Suc k) t'"
  by (simp add: next_project_def first_project_def new_project_def)

lemma sample_save:
  "saveProject orch_runtime sample_vault (sample_clock 1) ''e1'' ''n1'' (first_project 0 (time_text 0)) 0 sample_save_event
     (Some sample_inbox) (Some sample_login) created_db = Inr (first_project 1 (time_text 1), saved_db)"
proof -
  have row: "project_row_of created_db ''project-1'' = Some first_row" by (simp add: project_row_of_def)
  let ?db1 = "created_db\<lparr>od_logins := od_logins saved_db\<rparr>"
  let ?db2 = "?db1\<lparr>od_inbox := od_inbox saved_db\<rparr>"
  have login: "consume_login orch_runtime (sample_clock 1) (Some sample_login) created_db = Inr ?db1"
    by (simp add: consume_login_def consumeCustomerDashboardLogin_def check_input_def require_def row Let_def)
      (simp add: saved_db_def)
  have accepted: "accept_inbox (time_text 1) (Some sample_inbox) True ?db1 = Inr (Some ?db2)"
    by (simp add: accept_inbox_def record_inbox_def inbox_row_of_def) (simp add: saved_db_def sample_inbox_def)
  have fresh: "list_ex (\<lambda>x. pe_event_id x = ''e1'') (od_events created_db) = False"
    by (simp add: created_db_def sample_event_row_def)
  have written: "write_project orch_runtime sample_vault (time_text 1) ''e1'' ''n1'' (first_project 0 (time_text 0)) 0 sample_save_event
      first_row ?db2 = Inr (first_project 1 (time_text 1), saved_db)"
    by (simp add: write_project_def require_def check_input_def Let_def next_first_project appendProjectEvent_def fresh
        project_row_of_def update_where_def)
      (simp add: saved_db_def sample_event_row_def sample_save_event_def)
  show ?thesis
    by (simp add: saveProject_def check_input_def require_def row login [simplified] accepted [simplified]
        written [simplified] safe_nat_def MAX_SAFE_INTEGER_def)
qed

end
