(* ===== verification/Orchestration_Properties.thy ===== *)
theory Orchestration_Properties
  imports Sample_Orchestration
begin

text \<open>
  What the orchestration store promises of projects over every reachable database and every later
  one: their history is complete, a save is a compare-and-set whose result reads back, a stale save
  writes nothing, and creating is idempotent.  Applied to the database of \<open>Sample_Orchestration\<close>.
\<close>

subsection \<open>Lemmas on saving\<close>

lemma write_project_rows:
  assumes "write_project R V now uuid nonce p expected e row db = Inr (q, db')"
  shows "ix_revision row = expected" "q = next_project p row now" "ProjectAggregate_ok R q"
    "od_projects db' = update_where (\<lambda>r. ix_project_id r = pj_project_id p \<and> ix_revision r = expected)
       (saved_row R V nonce q) (od_projects db)"
    "\<exists>x. pe_project_id x = pj_project_id p \<and> pe_aggregate_revision x = Suc (pj_revision p)
       \<and> pe_type x = ei_type e \<and> pe_payload x = ei_payload e \<and> od_events db' = od_events db @ [x]"
    "od_inbox db' = od_inbox db" "od_logins db' = od_logins db"
  using assms by (auto simp: write_project_def appendProjectEvent_def bind_ok_Inr check_input_Inr require_Inr Let_def
      split: if_splits)

lemma consume_login_tables:
  assumes "consume_login R c login db = Inr db'"
  shows "od_projects db' = od_projects db" "od_events db' = od_events db" "od_inbox db' = od_inbox db"
  using assms by (auto simp: consume_login_def consumeCustomerDashboardLogin_def bind_ok_Inr Let_def
      split: option.splits if_splits)

lemma accept_inbox_tables:
  assumes "accept_inbox now inbox login db = Inr (Some db')"
  shows "od_projects db' = od_projects db" "od_events db' = od_events db" "od_logins db' = od_logins db"
  using assms by (auto simp: accept_inbox_def record_inbox_def bind_ok_Inr split: option.splits if_splits)

text \<open>A save without a webhook is the compare-and-set.\<close>

lemma save_without_inbox:
  assumes "saveProject R V c uuid nonce p expected e None login db = Inr (q, db')"
  obtains row db1 where "project_row_of db (pj_project_id p) = Some row" "pj_revision p = expected" "ProjectAggregate_ok R p"
    "consume_login R c login db = Inr db1" "od_projects db1 = od_projects db" "od_events db1 = od_events db"
    "write_project R V (c 2) uuid nonce p expected e row db1 = Inr (q, db')"
  using assms
proof (cases rule: saveProject_cases)
  case (1 row db1)
  then show ?thesis using consume_login_tables [OF 1(4)] by (intro that [of row db1]) (auto simp: accept_inbox_def)
qed

text \<open>After a write the row of the project is the sealed new aggregate, and the others are as before.\<close>

lemma written_row:
  assumes w: "write_project R V now uuid nonce p expected e row db = Inr (q, db')"
    and row: "project_row_of db (pj_project_id p) = Some row"
  shows "project_row_of db' (pj_project_id p) = Some (saved_row R V nonce q row)"
    "i \<noteq> pj_project_id p \<Longrightarrow> project_row_of db' i = project_row_of db i"
proof -
  note W = write_project_rows [OF w]
  note R = project_row_of_SomeD [OF row]
  let ?P = "\<lambda>r. ix_project_id r = pj_project_id p \<and> ix_revision r = expected"
  have same: "find (\<lambda>r. ix_project_id r = j) (update_where ?P (saved_row R V nonce q) rs)
      = map_option (\<lambda>r. if ?P r then saved_row R V nonce q r else r) (find (\<lambda>r. ix_project_id r = j) rs)" for j rs
    by (induction rs) (auto simp: update_where_def)
  show "project_row_of db' (pj_project_id p) = Some (saved_row R V nonce q row)"
    using row W(1) R by (simp add: project_row_of_def W(4) same)
  assume "i \<noteq> pj_project_id p"
  then show "project_row_of db' i = project_row_of db i"
    by (cases "project_row_of db i") (auto simp: project_row_of_def W(4) same dest: find_eq_SomeD)
qed

subsection \<open>Saving and reading back\<close>


text \<open>A save that only the test of the revision decides, in the sample database.\<close>

lemma sample_plain_save:
  "saveProject orch_runtime sample_vault (sample_clock 1) ''e1'' ''n1'' (first_project 0 (time_text 0)) 0 sample_save_event
     None None created_db = Inr (first_project 1 (time_text 1), saved_db\<lparr>od_inbox := [], od_logins := []\<rparr>)"
proof -
  have row: "project_row_of created_db ''project-1'' = Some first_row" by (simp add: project_row_of_def)
  have fresh: "list_ex (\<lambda>x. pe_event_id x = ''e1'') (od_events created_db) = False"
    by (simp add: created_db_def sample_event_row_def)
  show ?thesis
    by (simp add: saveProject_def consume_login_def accept_inbox_def write_project_def require_def check_input_def Let_def
        next_first_project appendProjectEvent_def fresh row project_row_of_def update_where_def safe_nat_def MAX_SAFE_INTEGER_def)
      (simp add: saved_db_def sample_event_row_def sample_save_event_def created_db_def empty_orch_db_def)
qed


subsection \<open>History\<close>

text \<open>C17. The history of a stored project is complete: in every reachable database its aggregate decrypts
  and agrees with its index, and the events recorded for it carry exactly the revisions from 0 to its
  current one, in order; so no revision was skipped, repeated or lost.\<close>

theorem history_is_complete:
  assumes "vault_sound R V" and "orch_reachable R V n db" and "project_row_of db i = Some r"
  shows "\<exists>p. rowToProject R V r = Inr p \<and> ProjectAggregate_ok R p \<and> pj_project_id p = i \<and> pj_revision p = ix_revision r
    \<and> map pe_aggregate_revision (filter (\<lambda>e. pe_project_id e = i) (od_events db)) = [0..<Suc (pj_revision p)]"
proof -
  note ok = orch_reachable_ok [OF assms(1,2)]
  have r: "r \<in> set (od_projects db)" "ix_project_id r = i" using project_row_of_SomeD [OF assms(3)] by auto
  obtain p where p: "rowToProject R V r = Inr p" using orch_ok_parts(3) [OF ok r(1)] by (auto simp: is_ok_def split: sum.splits)
  then have "ProjectAggregate_ok R p" "agrees_with_index p r"
    by (auto simp: rowToProject_def split: option.splits if_splits)
  then show ?thesis using p r orch_ok_history [OF ok r(1)] by (auto simp: agrees_with_index_def simp del: upt_Suc)
qed

lemma created_reachable: "orch_reachable orch_runtime sample_vault n created_db"
  by (rule orch_reachable_step [OF orch_reachable_empty orch_step.createProject [OF created_step]])

lemma saved_reachable: "orch_reachable orch_runtime sample_vault n saved_db"
  by (rule orch_reachable_step [OF created_reachable orch_step.saveProject [OF sample_save]])

lemma saved_db_row:
  "project_row_of saved_db ''project-1'' = Some (saved_row orch_runtime sample_vault ''n1'' (first_project 1 (time_text 1)) first_row)"
  by (simp add: project_row_of_def saved_db_def)

theorem history_is_complete_witness:
  "map pe_aggregate_revision (filter (\<lambda>e. pe_project_id e = ''project-1'') (od_events saved_db)) = [0, 1]"
  using history_is_complete [OF sample_vault_sound saved_reachable [of 5] saved_db_row] by auto

subsection \<open>Stale saves\<close>

lemma save_keeps_tables_or_writes:
  assumes "saveProject R V c uuid nonce p expected e inbox login db = Inr (q, db')"
  shows "od_projects db' = od_projects db \<and> od_events db' = od_events db
    \<or> (\<exists>row. project_row_of db (pj_project_id p) = Some row \<and> ix_revision row = expected)"
  using assms
proof (cases rule: saveProject_cases)
  case (1 row db1)
  from 1(5) show ?thesis
  proof (elim disjE conjE exE)
    assume "db' = db1"
    then show ?thesis using consume_login_tables [OF 1(4)] by simp
  next
    fix db2 assume "write_project R V (c 2) uuid nonce p expected e row db2 = Inr (q, db')"
    then show ?thesis using 1(3) write_project_rows(1) by blast
  qed
qed

text \<open>C16. No lost update: once a project has reached revision \<open>k\<close>, no save made from an older
  revision ever writes again, however many operations of any kind come between; it is an error, or, for
  a webhook already processed, an answer that leaves projects and events as they are.  Without a
  webhook it is always an error.\<close>

theorem stale_save_never_writes:
  assumes "vault_sound R V" and "orch_reachable R V n db" and "project_row_of db (pj_project_id p) = Some r"
    and "expected < ix_revision r" and "orch_steps R V n db db1"
  shows "case saveProject R V c uuid nonce p expected e inbox login db1 of
      Inl err \<Rightarrow> True
    | Inr (q, db2) \<Rightarrow> inbox \<noteq> None \<and> od_projects db2 = od_projects db1 \<and> od_events db2 = od_events db1"
proof (cases "saveProject R V c uuid nonce p expected e inbox login db1")
  case (Inr v)
  obtain q db2 where v: "v = (q, db2)" by (cases v)
  have adv: "orch_advances db db1" by (rule orch_steps_advance [OF assms(1,2,5)])
  have dist: "distinct (map ix_project_id (od_projects db1))"
    using orch_ok_parts(1) orch_reachable_ok [OF assms(1) orch_reachable_steps [OF assms(2,5)]] by blast
  obtain r' where r': "project_row_of db1 (pj_project_id p) = Some r'" "project_step r r'"
    by (rule later_project [OF adv dist assms(3)])
  then have stale: "\<not> (\<exists>row. project_row_of db1 (pj_project_id p) = Some row \<and> ix_revision row = expected)"
    using assms(4) by (auto simp: project_step_def)
  have "inbox \<noteq> None"
  proof
    assume "inbox = None"
    then have "saveProject R V c uuid nonce p expected e None login db1 = Inr (q, db2)" using Inr v by simp
    from save_without_inbox [OF this] obtain row x where "project_row_of db1 (pj_project_id p) = Some row"
      "write_project R V (c 2) uuid nonce p expected e row x = Inr (q, db2)" by blast
    then show False using stale write_project_rows(1) by blast
  qed
  then show ?thesis using save_keeps_tables_or_writes Inr v stale by fastforce
qed simp

theorem stale_save_never_writes_witness:
  "\<exists>err. saveProject orch_runtime sample_vault (sample_clock 2) ''e2'' ''n2'' (first_project 0 (time_text 0)) 0
     sample_save_event None None saved_db = Inl err"
proof -
  have r: "project_row_of saved_db (pj_project_id (first_project 0 (time_text 0)))
      = Some (saved_row orch_runtime sample_vault ''n1'' (first_project 1 (time_text 1)) first_row)"
    using saved_db_row by simp
  show ?thesis
    using stale_save_never_writes [OF sample_vault_sound saved_reachable [of 5] r _ osteps_refl, where expected = 0 and c = "sample_clock 2"
        and uuid = "''e2''" and nonce = "''n2''" and e = sample_save_event and inbox = None and login = None]
    by (auto split: sum.splits)
qed

subsection \<open>Creating twice\<close>

text \<open>Creating is idempotent: after \<open>createProject\<close> succeeded, the same request at any later time,
  whatever identifier, nonce or clock it brings, changes nothing and answers the stored project, under
  the identifier of the first creation, as not created; the same key with another content is an error.\<close>

lemma create_is_idempotent:
  assumes "vault_sound R V" and "orch_reachable R V n db" and "createProject R V c uuid ev nonce input db = Inr (res, db1)"
    and "orch_steps R V n db1 db2" and "CreateProjectInput_ok R input'" and "ci_idempotency_key input' = ci_idempotency_key input"
  shows "if idempotencyDigest R input' = idempotencyDigest R input
    then \<exists>p. createProject R V c' uuid' ev' nonce' input' db2 = Inr (\<lparr>cpr_project = p, cpr_created = False\<rparr>, db2)
           \<and> pj_project_id p = pj_project_id (cpr_project res) \<and> pj_revision (cpr_project res) \<le> pj_revision p
    else createProject R V c' uuid' ev' nonce' input' db2 = Inl (OrchestrationIdempotencyConflict (ci_idempotency_key input'))"
proof -
  have step: "orch_step R V n db db1" using assms(3) by (rule orch_step.createProject)
  have reach1: "orch_reachable R V n db1" by (rule orch_reachable_step [OF assms(2) step])
  note ok1 = orch_reachable_ok [OF assms(1) reach1]
    and ok2 = orch_reachable_ok [OF assms(1) orch_reachable_steps [OF reach1 assms(4)]]
  have "\<exists>r \<in> set (od_projects db1). ix_idempotency_key r = ci_idempotency_key input
      \<and> ix_idempotency_digest r = idempotencyDigest R input \<and> ix_project_id r = pj_project_id (cpr_project res)
      \<and> ix_revision r = pj_revision (cpr_project res)"
    using assms(3)
  proof (cases rule: createProject_cases)
    case (1 existing)
    then show ?thesis using find_eq_SomeD [OF 1(1)]
      by (auto simp: rowToProject_def agrees_with_index_def split: option.splits if_splits)
  next
    case (2 i p r)
    have "r \<in> set (od_projects db1)"
      by (rule append_event_Inr [OF 2(12)]) simp
    then show ?thesis using 2 by (auto simp: new_project_def)
  qed
  then obtain r where r: "r \<in> set (od_projects db1)" "ix_idempotency_key r = ci_idempotency_key input"
    "ix_idempotency_digest r = idempotencyDigest R input" "ix_project_id r = pj_project_id (cpr_project res)"
    "ix_revision r = pj_revision (cpr_project res)" by blast
  obtain r2 where r2: "r2 \<in> set (od_projects db2)" "project_step r r2"
    using extends_in [OF orch_advances_parts(1) [OF orch_steps_advance [OF assms(1) reach1 assms(4)]] r(1)] by blast
  obtain p where p: "rowToProject R V r2 = Inr p" using orch_ok_parts(3) [OF ok2 r2(1)] by (auto simp: is_ok_def split: sum.splits)
  then have agree: "agrees_with_index p r2" by (auto simp: rowToProject_def split: option.splits if_splits)
  have found: "find (\<lambda>r. ix_idempotency_key r = ci_idempotency_key input') (od_projects db2) = Some r2"
    using find_key_unique [OF orch_ok_parts(2) [OF ok2] r2(1)] r2(2) r(2) assms(6) by (simp add: project_step_def)
  show ?thesis
    using found p agree r r2(2) assms(5,6)
    by (simp add: createProject_def check_input_def require_def Let_def agrees_with_index_def project_step_def)
qed

lemma create_is_idempotent_sample:
  "\<exists>p. createProject orch_runtime sample_vault (sample_clock 9) ''u9'' ''e9'' ''n9'' sample_create saved_db
     = Inr (\<lparr>cpr_project = p, cpr_created = False\<rparr>, saved_db) \<and> pj_project_id p = ''project-1''"
  using create_is_idempotent [OF sample_vault_sound orch_reachable_empty created_step
      orch_steps_one [OF orch_step.saveProject [OF sample_save]] sample_create_ok refl,
      of "sample_clock 9" "''u9''" "''e9''" "''n9''"]
  by auto

end
