(* ===== verification/Inbox_Properties.thy ===== *)
theory Inbox_Properties
  imports Orchestration_Properties
begin

text \<open>
  What the orchestration store promises of webhooks, one-time logins, rejected webhooks, inbound mail
  and shared proof summaries: each is recorded once, cannot be used twice, and stays bounded.
\<close>

subsection \<open>Webhooks\<close>

lemma inbox_row_later:
  assumes ok: "orch_ok R V n db1" and adv: "orch_advances db db1" and r: "inbox_row_of db pr i = Some r"
  shows "inbox_row_of db1 pr i = Some r"
proof -
  have r': "r \<in> set (od_inbox db)" "xr_provider r = pr \<and> xr_event_id r = i"
    using find_eq_SomeD [OF r [unfolded inbox_row_of_def]] by auto
  have "r \<in> set (od_inbox db1)" using later_rows(2) [OF adv] r'(1) by blast
  then have "find (\<lambda>x. (xr_provider x, xr_event_id x) = (xr_provider r, xr_event_id r)) (od_inbox db1) = Some r"
    using find_key_unique [OF orch_ok_parts(5) [OF ok]] by fastforce
  then show ?thesis using r'(2) by (simp add: inbox_row_of_def)
qed

lemma accepted_inbox_row:
  assumes "accept_inbox now (Some e) login db = Inr (Some db')"
  shows "inbox_row_of db (xe_provider e) (xe_event_id e) = None"
    "\<exists>r. inbox_row_of db' (xe_provider e) (xe_event_id e) = Some r \<and> xr_digest r = xe_digest e"
proof -
  have new: "inbox_row_of db (xe_provider e) (xe_event_id e) = None"
    "db' = db\<lparr>od_inbox := od_inbox db @ [\<lparr>xr_provider = xe_provider e, xr_event_id = xe_event_id e,
          xr_digest = xe_digest e, xr_received_at = now\<rparr>]\<rparr>"
    using assms by (auto simp: accept_inbox_def record_inbox_def bind_ok_Inr split: option.splits if_splits)
  then show "inbox_row_of db (xe_provider e) (xe_event_id e) = None" by simp
  have app: "find P (xs @ [y]) = Some y" if "find P xs = None" "P y" for P xs and y :: inbox_row
    using that by (induction xs) (auto split: if_splits)
  show "\<exists>r. inbox_row_of db' (xe_provider e) (xe_event_id e) = Some r \<and> xr_digest r = xe_digest e"
    using new by (simp add: inbox_row_of_def app)
qed

text \<open>C18. A webhook takes effect once: when a save carrying the verified event wrote (the project went one
  revision further), then in every later state the event is on record, and no save carrying the same
  provider and event id writes again: with the same digest the stored project is answered and nothing
  changes, and with another digest it is an inbox conflict.\<close>

theorem webhook_takes_effect_once:
  assumes "vault_sound R V" and "orch_reachable R V n db"
    and "saveProject R V c uuid nonce p k ev (Some e) login db = Inr (q, db1)" and "od_events db1 \<noteq> od_events db"
    and "orch_steps R V n db1 db2" and "xe_provider e' = xe_provider e" and "xe_event_id e' = xe_event_id e"
  shows "recordInbox c3 e' db2 = (if \<not> verified_inbox_ok e' then Inl (InvalidInput ''VerifiedInboxEvent'')
      else if xe_digest e' = xe_digest e then Inr (False, db2) else Inl (InboxConflict (xe_provider e) (xe_event_id e)))
    \<and> (\<forall>q2 db3. saveProject R V c2 uuid2 nonce2 p2 k2 ev2 (Some e') login2 db2 = Inr (q2, db3) \<longrightarrow>
      login2 = None \<and> xe_digest e' = xe_digest e \<and> db3 = db2)"
proof -
  have step: "orch_step R V n db db1" using assms(3) by (rule orch_step.saveProject)
  have reach1: "orch_reachable R V n db1" by (rule orch_reachable_step [OF assms(2) step])
  note ok2 = orch_reachable_ok [OF assms(1) orch_reachable_steps [OF reach1 assms(5)]]
    and adv = orch_steps_advance [OF assms(1) reach1 assms(5)]
  obtain r where r1: "inbox_row_of db1 (xe_provider e) (xe_event_id e) = Some r" and d: "xr_digest r = xe_digest e"
    using assms(3)
  proof (cases rule: saveProject_cases)
    case (1 row dba)
    then obtain dbb where b: "accept_inbox (c 1) (Some e) (login \<noteq> None) dba = Inr (Some dbb)"
      "write_project R V (c 2) uuid nonce p k ev row dbb = Inr (q, db1)"
      using assms(4) consume_login_tables(2) by blast
    then have "inbox_row_of db1 pr i = inbox_row_of dbb pr i" for pr i
      using write_project_rows(6) [OF b(2)] by (simp add: inbox_row_of_def)
    then show ?thesis using that accepted_inbox_row(2) [OF b(1)] by auto
  qed
  have r2: "inbox_row_of db2 (xe_provider e') (xe_event_id e') = Some r"
    using inbox_row_later [OF ok2 adv r1] assms(6,7) by simp
  have again: "recordInbox c3 e' db2 = (if \<not> verified_inbox_ok e' then Inl (InvalidInput ''VerifiedInboxEvent'')
      else if xe_digest e' = xe_digest e then Inr (False, db2) else Inl (InboxConflict (xe_provider e) (xe_event_id e)))"
    using r2 d assms(6,7) by (simp add: recordInbox_def record_inbox_def check_input_def require_def)
  have "login2 = None \<and> xe_digest e' = xe_digest e \<and> db3 = db2"
    if "saveProject R V c2 uuid2 nonce2 p2 k2 ev2 (Some e') login2 db2 = Inr (q2, db3)" for q2 db3
    using that
  proof (cases rule: saveProject_cases)
    case (1 row dba)
    have "inbox_row_of dba (xe_provider e') (xe_event_id e') = Some r"
      using r2 consume_login_tables(3) [OF 1(4)] by (simp add: inbox_row_of_def)
    then have acc: "accept_inbox (c2 1) (Some e') l dba = (if xe_digest e' \<noteq> xe_digest e
        then Inl (InboxConflict (xe_provider e) (xe_event_id e)) else if l then Inl CustomerDashboardLoginConflict else Inr None)" for l
      using d assms(6,7) by (simp add: accept_inbox_def record_inbox_def)
    with 1(5) have "login2 = None" "xe_digest e' = xe_digest e" "db3 = dba" by (auto split: if_splits)
    then show ?thesis using 1(4) by (simp add: consume_login_def)
  qed
  with again show ?thesis by blast
qed

theorem webhook_takes_effect_once_witness:
  "recordInbox (sample_clock 2) sample_inbox saved_db = Inr (False, saved_db)"
proof -
  have grew: "od_events saved_db \<noteq> od_events created_db" by (simp add: saved_db_def)
  show ?thesis
    using webhook_takes_effect_once [OF sample_vault_sound created_reachable [of 5] sample_save grew osteps_refl refl refl]
    by simp
qed

subsection \<open>One-time logins\<close>

lemma consumed_login_row:
  assumes "consumeCustomerDashboardLogin R c t i x db = Inr (True, db')"
  shows "\<exists>l \<in> set (od_logins db'). lg_token_digest l = t \<and> lg_project_id l = i"
  using assms by (auto simp: consumeCustomerDashboardLogin_def bind_ok_Inr Let_def split: if_splits)

text \<open>C19. A dashboard login is single use: once its token was consumed, in every later state consuming the
  token again, for any project and any expiry, is refused and changes nothing, every save that carries it
  fails, and the store remembers that it was consumed.\<close>

theorem login_is_single_use:
  assumes "vault_sound R V" and "orch_reachable R V n db"
    and "consumeCustomerDashboardLogin R c t i x db = Inr (True, db1)" and "orch_steps R V n db1 db2"
  shows "(orchestration_id j \<and> rt_is_datetime R y \<longrightarrow> consumeCustomerDashboardLogin R c2 t j y db2 = Inr (False, db2))
    \<and> (\<forall>l. lc_token_digest l = t \<longrightarrow> (\<exists>err. saveProject R V c2 uuid nonce p k ev inbox (Some l) db2 = Inl err))
    \<and> hasConsumedCustomerDashboardLogin t i db2 = Inr True"
proof (intro conjI allI impI)
  have step: "orch_step R V n db db1" using assms(3) by (rule orch_step.consumeLogin)
  have reach1: "orch_reachable R V n db1" by (rule orch_reachable_step [OF assms(2) step])
  obtain lg where "lg \<in> set (od_logins db1)" "lg_token_digest lg = t" "lg_project_id lg = i"
    using consumed_login_row [OF assms(3)] by blast
  then have lg: "lg \<in> set (od_logins db2)" "lg_token_digest lg = t" "lg_project_id lg = i"
    using later_rows(5) [OF orch_steps_advance [OF assms(1) reach1 assms(4)]] by auto
  then have used: "list_ex (\<lambda>l. lg_token_digest l = t) (od_logins db2)"
    "list_ex (\<lambda>l. lg_token_digest l = t \<and> lg_project_id l = i) (od_logins db2)" by (auto simp: list_ex_iff)
  have t: "sha256_text t \<and> orchestration_id i"
    using assms(3) by (auto simp: consumeCustomerDashboardLogin_def bind_ok_Inr check_input_Inr)
  show "consumeCustomerDashboardLogin R c2 t j y db2 = Inr (False, db2)" if "orchestration_id j \<and> rt_is_datetime R y"
    using t that used(1) by (simp add: consumeCustomerDashboardLogin_def check_input_def require_def Let_def)
  have never: "consumeCustomerDashboardLogin R c2 t j y db2 \<noteq> Inr (True, db3)" for j y db3
    using used(1) by (auto simp: consumeCustomerDashboardLogin_def bind_ok_Inr Let_def split: if_splits)
  show "\<exists>err. saveProject R V c2 uuid nonce p k ev inbox (Some l) db2 = Inl err" if l: "lc_token_digest l = t" for l
  proof (cases "saveProject R V c2 uuid nonce p k ev inbox (Some l) db2")
    case (Inr v)
    then obtain q db3 where "saveProject R V c2 uuid nonce p k ev inbox (Some l) db2 = Inr (q, db3)" by (cases v) auto
    then show ?thesis
    proof (cases rule: saveProject_cases)
      case (1 row dba)
      from 1(4) never [of "lc_project_id l" "lc_expires_at l"] l show ?thesis
        by (auto simp: consume_login_def bind_ok_Inr split: if_splits)
    qed
  qed simp
  show "hasConsumedCustomerDashboardLogin t i db2 = Inr True"
    using t used(2) by (simp add: hasConsumedCustomerDashboardLogin_def check_input_def require_def)
qed

definition login_db :: orch_db where
  "login_db = created_db\<lparr>od_logins := [\<lparr>lg_token_digest = sample_hash, lg_project_id = ''project-1'', lg_expires_at = time_text 30,
     lg_consumed_at = time_text 1\<rparr>]\<rparr>"

lemma sample_consume:
  "consumeCustomerDashboardLogin orch_runtime (sample_clock 1) sample_hash ''project-1'' (time_text 30) created_db = Inr (True, login_db)"
  by (simp add: consumeCustomerDashboardLogin_def check_input_def require_def Let_def project_row_of_def login_db_def)

theorem login_is_single_use_witness:
  "consumeCustomerDashboardLogin orch_runtime (sample_clock 2) sample_hash ''project-1'' (time_text 30) login_db = Inr (False, login_db)"
  using login_is_single_use [OF sample_vault_sound created_reachable [of 5] sample_consume osteps_refl] by simp

end
