(* ===== verification/Mail_Properties.thy ===== *)
theory Mail_Properties
  imports Orchestration_Properties
begin

text \<open>
  What the orchestration store promises of rejected webhooks, inbound mail and shared proof summaries:
  the audit is bounded whatever arrives, a processed mail stays processed, a claimed mail is not claimed
  again before its lease ends, and a summary never changes.
\<close>

subsection \<open>The audit of rejected webhooks\<close>

lemma distinct_pairs_bound:
  assumes "distinct (map f xs)" "\<And>x. x \<in> set xs \<Longrightarrow> f x \<in> set ks"
  shows "length xs \<le> length ks"
proof -
  have "length xs = card (f ` set xs)" using distinct_card [OF assms(1)] by simp
  also have "\<dots> \<le> card (set ks)" using assms(2) by (intro card_mono) auto
  also have "\<dots> \<le> length ks" by (rule card_length)
  finally show ?thesis .
qed

lemma audit_key_in: "(p, f) \<in> set audit_keys"
  by (cases p; cases f; simp add: audit_keys_def)

text \<open>C24. Whatever number of forged webhooks arrives, the audit stays bounded: in every reachable database
  at most the configured number of receipts is retained, the overflow has at most four counters, one per
  provider and failure, each at least 1 and never above its cap.\<close>

theorem security_audit_is_bounded:
  assumes "vault_sound R V" and "orch_reachable R V n db"
  shows "length (od_audit db) \<le> n \<and> length (od_overflow db) \<le> 4
    \<and> list_all (\<lambda>o'. 1 \<le> ov_count o' \<and> ov_count o' \<le> 1000000000000000) (od_overflow db)"
proof -
  have ok: "audit_ok n db" using orch_reachable_ok [OF assms] by (simp add: orch_ok_def)
  then have "length (od_overflow db) \<le> length audit_keys"
    by (intro distinct_pairs_bound [of "\<lambda>o'. (ov_provider o', ov_failure o')"]) (auto simp: audit_ok_def audit_key_in)
  with ok show ?thesis
    by (simp add: audit_ok_def audit_keys_def list_all_iff MAX_SECURITY_AUDIT_OVERFLOW_OBSERVATIONS_PER_GROUP_def)
qed

definition sample_failure :: webhook_failure where
  "sample_failure = \<lparr>wf_provider = AuditStripe, wf_body_digest = sample_hash, wf_header_digest = sample_hash,
     wf_failure = WebhookVerificationFailed\<rparr>"

definition overflow_db :: orch_db where
  "overflow_db = empty_orch_db\<lparr>od_overflow := [\<lparr>ov_provider = AuditStripe, ov_failure = WebhookVerificationFailed, ov_count = 1,
     ov_first = time_text 1, ov_last = time_text 1\<rparr>]\<rparr>"

lemma sample_overflow:
  "recordWebhookSecurityFailure 0 (sample_clock 1) sample_failure empty_orch_db = Inr (AuditOverflow, overflow_db)"
  by (simp add: recordWebhookSecurityFailure_def check_input_def require_def sample_failure_def empty_orch_db_def
      bump_overflow_def overflow_db_def)

theorem security_audit_is_bounded_witness:
  "length (od_overflow overflow_db) \<le> 4 \<and> od_overflow overflow_db \<noteq> []"
  using security_audit_is_bounded [OF sample_vault_sound
      orch_reachable_step [OF orch_reachable_empty orch_step.securityFailure [OF sample_overflow]]]
  by (simp add: overflow_db_def)

subsection \<open>Inbound mail\<close>

text \<open>A processed mail is final: once an envelope is marked processed, it reads the same in every later
  state, whatever is staged, claimed, failed, resolved or saved, so a mail is never worked on twice after
  it was completed.\<close>

lemma processed_mail_is_final:
  assumes "vault_sound R V" and "orch_reachable R V n db" and "completeInboundMailEnvelope R i d t db = Inr db1"
    and "orch_steps R V n db1 db2"
  shows "\<exists>m. envelope_of db1 i = Some m \<and> me_status m = EnvelopeProcessed \<and> envelope_of db2 i = Some m"
proof -
  have step: "orch_step R V n db db1" using assms(3) by (rule orch_step.completeEnvelope)
  have reach1: "orch_reachable R V n db1" by (rule orch_reachable_step [OF assms(2) step])
  obtain m where m: "requireInboundMailEnvelope R i d db = Inr m"
    and db1: "if me_status m = EnvelopeProcessed then db1 = db else db1 = update_envelope i (\<lambda>r. r\<lparr>me_status := EnvelopeProcessed,
        me_next_attempt_at := None, me_last_error_code := None, me_updated_at := t, me_processed_at := Some t\<rparr>) db"
    using assms(3) by (auto simp: completeInboundMailEnvelope_def bind_ok_Inr split: if_splits)
  obtain r where r: "envelope_of db i = Some r" "me_status m = me_status r" by (rule require_envelope [OF m])
  have upd: "find (\<lambda>m. me_event_id m = i) (update_where (\<lambda>m. me_event_id m = i) f xs) = map_option f (find (\<lambda>m. me_event_id m = i) xs)"
    if "\<And>m. me_event_id (f m) = me_event_id m" for f and xs :: "mail_envelope list"
    using that by (induction xs) (auto simp: update_where_def)
  obtain m1 where m1: "envelope_of db1 i = Some m1" "me_status m1 = EnvelopeProcessed"
    using r db1 by (cases "me_status m = EnvelopeProcessed") (auto simp: envelope_of_def update_envelope_def upd)
  have dist: "distinct (map me_event_id (od_envelopes db2))"
    using orch_ok_parts(4) orch_reachable_ok [OF assms(1) orch_reachable_steps [OF reach1 assms(4)]] by blast
  obtain m2 where "envelope_of db2 i = Some m2" "envelope_step m1 m2"
    by (rule later_envelope [OF orch_steps_advance [OF assms(1) reach1 assms(4)] dist m1(1)])
  with m1 show ?thesis by (auto simp: envelope_step_def)
qed

definition sample_mail :: envelope_input where
  "sample_mail = \<lparr>vi_event_id = ''evt-9'', vi_event_digest = sample_hash, vi_project_id = ''project-1'', vi_email_id = ''mail-9'',
     vi_identity_digest = sample_hash, vi_received_at = time_text 1\<rparr>"

definition mail_row :: mail_envelope where
  "mail_row = \<lparr>me_event_id = ''evt-9'', me_event_digest = sample_hash, me_project_id = ''project-1'', me_email_id = ''mail-9'',
     me_identity_digest = sample_hash, me_status = EnvelopePending, me_attempts = 0, me_next_attempt_at = None,
     me_last_error_code = None, me_received_at = time_text 1, me_updated_at = time_text 1, me_processed_at = None\<rparr>"

definition mail_db :: "mail_envelope \<Rightarrow> orch_db" where
  "mail_db m = created_db\<lparr>od_envelopes := [m]\<rparr>"

lemma mail_ids_ok: "orchestration_id ''evt-9''" "opaque_email_id ''mail-9''"
  by (simp_all add: text_simps opaque_email_id_def trim_def is_space_def)

lemma sample_stage: "stageInboundMailEnvelope orch_runtime (sample_clock 1) sample_mail created_db = Inr (mail_row, mail_db mail_row)"
  using mail_ids_ok
  by (simp add: stageInboundMailEnvelope_def check_input_def require_def envelope_input_ok_def sample_mail_def envelope_of_def
      project_row_of_def mail_db_def mail_row_def Let_def)

lemma mail_row_reads:
  assumes "opt_all (parse_timestamp orch_runtime) (truthy a)" "opt_all error_code_text (truthy b)"
    "parse_timestamp orch_runtime u" "opt_all (parse_timestamp orch_runtime) (truthy x)"
  shows "envelope_row_ok orch_runtime (mail_row\<lparr>me_status := st, me_attempts := k, me_next_attempt_at := a, me_last_error_code := b,
     me_updated_at := u, me_processed_at := x\<rparr>)"
  using assms mail_ids_ok by (simp add: envelope_row_ok_def mail_row_def)

lemma mail_row_plain: "envelope_row_ok orch_runtime mail_row"
  using mail_ids_ok by (simp add: envelope_row_ok_def mail_row_def truthy_def)

lemma mail_reachable: "orch_reachable orch_runtime sample_vault n (mail_db mail_row)"
  by (rule orch_reachable_step [OF created_reachable orch_step.stageEnvelope [OF sample_stage]])

lemma sample_complete:
  "completeInboundMailEnvelope orch_runtime ''evt-9'' sample_hash (time_text 2) (mail_db mail_row)
     = Inr (mail_db (mail_row\<lparr>me_status := EnvelopeProcessed, me_updated_at := time_text 2, me_processed_at := Some (time_text 2)\<rparr>))"
  using mail_ids_ok mail_row_plain
  by (simp add: completeInboundMailEnvelope_def requireInboundMailEnvelope_def check_input_def require_def envelope_of_def
      the_or_def rowToInboundMailEnvelope_def mail_db_def update_envelope_def update_where_def)
    (simp add: mail_row_def)

lemma processed_mail_is_final_sample:
  "\<exists>m. envelope_of (mail_db (mail_row\<lparr>me_status := EnvelopeProcessed, me_updated_at := time_text 2,
      me_processed_at := Some (time_text 2)\<rparr>)) ''evt-9'' = Some m \<and> me_status m = EnvelopeProcessed"
  using processed_mail_is_final [OF sample_vault_sound mail_reachable [of 5] sample_complete osteps_refl] by blast

lemma claimed_ids:
  assumes "claimPendingInboundMailEnvelopes R i ready lease k db = Inr (ms, db')"
  defines "rows \<equiv> due_envelopes i ready (nat k) db"
  shows "length ms \<le> nat k" "map me_event_id ms = map me_event_id rows"
    "od_envelopes db' = update_where (\<lambda>m. me_event_id m \<in> me_event_id ` set rows \<and> envelope_due ready m) (claim_envelope ready lease) (od_envelopes db)"
    "\<And>m. m \<in> set rows \<Longrightarrow> m \<in> set (od_envelopes db) \<and> me_project_id m = i \<and> envelope_due ready m"
    "\<And>m. m \<in> set ms \<Longrightarrow> me_status m = EnvelopePending \<and> me_next_attempt_at m = Some lease \<and> me_project_id m = i"
proof -
  from assms obtain xs where xs: "collect_ok (map (rowToInboundMailEnvelope R) rows) = Inr xs" "ms = map (claim_envelope ready lease) xs"
    and db': "od_envelopes db' = update_where (\<lambda>m. me_event_id m \<in> me_event_id ` set rows \<and> envelope_due ready m) (claim_envelope ready lease) (od_envelopes db)"
    by (auto simp: claimPendingInboundMailEnvelopes_def bind_ok_Inr Let_def)
  have reads: "list_all2 (\<lambda>r x. rowToInboundMailEnvelope R r = Inr x) rs xs" if "collect_ok (map (rowToInboundMailEnvelope R) rs) = Inr xs" for rs xs
    using that
  proof (induction rs arbitrary: xs)
    case (Cons r rs)
    then show ?case by (cases "rowToInboundMailEnvelope R r") (auto simp: bind_ok_Inr)
  qed simp
  have rows: "m \<in> set (od_envelopes db) \<and> me_project_id m = i \<and> envelope_due ready m" if "m \<in> set rows" for m
    using in_set_takeD [OF that [unfolded rows_def due_envelopes_def]] by simp
  have same: "map me_event_id xs = map me_event_id rs" if "list_all2 (\<lambda>r x. rowToInboundMailEnvelope R r = Inr x) rs xs" for rs
    using that by induction (simp_all add: row_read(1))
  have source: "\<exists>r \<in> set rs. rowToInboundMailEnvelope R r = Inr x"
    if "list_all2 (\<lambda>r x. rowToInboundMailEnvelope R r = Inr x) rs ys" "x \<in> set ys" for rs ys x
    using that by induction auto
  have len: "length rows \<le> nat k" by (simp add: rows_def due_envelopes_def)
  have l: "list_all2 (\<lambda>r x. rowToInboundMailEnvelope R r = Inr x) rows xs" by (rule reads [OF xs(1)])
  show "length ms \<le> nat k" using len list_all2_lengthD [OF l] xs(2) by simp
  show "map me_event_id ms = map me_event_id rows" using same [OF l] xs(2) by (simp add: claim_envelope_def comp_def)
  show "od_envelopes db' = update_where (\<lambda>m. me_event_id m \<in> me_event_id ` set rows \<and> envelope_due ready m) (claim_envelope ready lease) (od_envelopes db)"
    by (rule db')
  show "m \<in> set rows \<Longrightarrow> m \<in> set (od_envelopes db) \<and> me_project_id m = i \<and> envelope_due ready m" for m by (rule rows)
  fix m assume "m \<in> set ms"
  then obtain x where x: "x \<in> set xs" "m = claim_envelope ready lease x" using xs(2) by auto
  obtain r where r: "r \<in> set rows" "rowToInboundMailEnvelope R r = Inr x"
    using source [OF l x(1)] by blast
  then show "me_status m = EnvelopePending \<and> me_next_attempt_at m = Some lease \<and> me_project_id m = i"
    using rows [OF r(1)] x(2) row_read(2,5) [OF r(2)] by (simp add: claim_envelope_def envelope_due_def)
qed


definition claimed_mail :: mail_envelope where
  "claimed_mail = claim_envelope (time_text 2) (time_text 5) mail_row"

lemma mail_db_due: "due_envelopes ''project-1'' (time_text 2) 10 (mail_db mail_row) = [mail_row]"
  by (simp add: due_envelopes_def mail_db_def mail_row_def envelope_due_def order_by_def sort_key_def insort_key_def)

lemma sample_claim:
  "claimPendingInboundMailEnvelopes orch_runtime ''project-1'' (time_text 2) (time_text 5) 10 (mail_db mail_row)
     = Inr ([claimed_mail], mail_db claimed_mail)"
proof -
  have due: "envelope_due (time_text 2) mail_row" by (simp add: envelope_due_def mail_row_def)
  have lease: "\<not> date_le orch_runtime (time_text 5) (time_text 2)" by (simp add: date_le_def time_text_def)
  have read: "rowToInboundMailEnvelope orch_runtime mail_row = Inr mail_row"
    using mail_row_plain by (simp add: rowToInboundMailEnvelope_def check_input_def require_def) (simp add: mail_row_def truthy_def)
  have env: "od_envelopes (mail_db mail_row) = [mail_row]" by (simp add: mail_db_def)
  show ?thesis
    by (simp add: claimPendingInboundMailEnvelopes_def check_input_def require_def lease mail_db_due read env due Let_def
        update_where_def claimed_mail_def)
      (simp add: mail_db_def)
qed

lemma time_text_less: "time_text 3 < time_text 5"
  by (simp add: time_text_def numeral_eq_Suc)

lemma sample_second_claim:
  "claimPendingInboundMailEnvelopes orch_runtime ''project-1'' (time_text 3) (time_text 5) 10 (mail_db claimed_mail)
     = Inr ([], mail_db claimed_mail)"
proof -
  have "\<not> envelope_due (time_text 3) claimed_mail"
    using time_text_less by (simp add: envelope_due_def claimed_mail_def claim_envelope_def not_le)
  then have "due_envelopes ''project-1'' (time_text 3) 10 (mail_db claimed_mail) = []"
    by (simp add: due_envelopes_def mail_db_def order_by_def sort_key_def)
  moreover have "\<not> date_le orch_runtime (time_text 5) (time_text 3)" by (simp add: date_le_def time_text_def)
  ultimately show ?thesis
    by (simp add: claimPendingInboundMailEnvelopes_def check_input_def require_def update_where_def mail_db_def)
qed


text \<open>C26. A discarded mail can come back: the operator's discard of a mail is undone by the worker that still
  holds its claim.  Recording a retryable failure for a discarded mail makes it pending again, due at
  the next attempt, although it keeps the time at which it was discarded; only processed mails are guarded.\<close>

theorem discarded_mail_returns:
  assumes "vault_sound R V" and "orch_reachable R V n db" and "resolveInboundMailEnvelope R p i ResolveDiscard t db = Inr db1"
    and "envelope_of db1 i = Some m" and "me_status m = EnvelopeRejected"
    and "recordInboundMailEnvelopeFailure R f db1 = Inr db2" and "vf_event_id f = i" and "vf_retryable f"
  shows "\<exists>later. vf_next_attempt_at f = Some later \<and> envelope_of db2 i = Some (m\<lparr>me_status := EnvelopePending, me_next_attempt_at := Some later,
      me_last_error_code := Some (vf_error_code f), me_updated_at := vf_failed_at f\<rparr>)
    \<and> (\<forall>ready. later \<le> ready \<longrightarrow> (\<exists>m'. envelope_of db2 i = Some m' \<and> envelope_due ready m'))"
proof -
  obtain later where later: "vf_next_attempt_at f = Some later"
    using assms(6,8) by (auto simp: recordInboundMailEnvelopeFailure_def bind_ok_Inr check_input_Inr)
  obtain x where x: "requireInboundMailEnvelope R i (vf_event_digest f) db1 = Inr x"
    and db2: "if me_status x = EnvelopeProcessed then db2 = db1 else db2 = update_envelope i
        (\<lambda>r. r\<lparr>me_status := failure_status f, me_next_attempt_at := vf_next_attempt_at f,
          me_last_error_code := Some (vf_error_code f), me_updated_at := vf_failed_at f\<rparr>) db1"
    using assms(6,7) by (auto simp: recordInboundMailEnvelopeFailure_def bind_ok_Inr split: if_splits)
  obtain r where "envelope_of db1 i = Some r" "me_status x = me_status r" by (rule require_envelope [OF x])
  then have "me_status x = EnvelopeRejected" using assms(4,5) by simp
  moreover have "failure_status f = EnvelopePending" using assms(8) by (simp add: failure_status_def)
  moreover have upd: "find (\<lambda>m. me_event_id m = i) (update_where (\<lambda>m. me_event_id m = i) g xs) = map_option g (find (\<lambda>m. me_event_id m = i) xs)"
    if "\<And>m. me_event_id (g m) = me_event_id m" for g and xs :: "mail_envelope list"
    using that by (induction xs) (auto simp: update_where_def)
  ultimately have "envelope_of db2 i = Some (m\<lparr>me_status := EnvelopePending, me_next_attempt_at := Some later,
      me_last_error_code := Some (vf_error_code f), me_updated_at := vf_failed_at f\<rparr>)"
    using db2 later assms(4) by (simp add: envelope_of_def update_envelope_def upd)
  with later show ?thesis by (simp add: envelope_due_def)
qed

definition sample_mail_failure :: envelope_failure where
  "sample_mail_failure = \<lparr>vf_event_id = ''evt-9'', vf_event_digest = sample_hash, vf_error_code = ''mail.fetch_failed'',
     vf_retryable = True, vf_terminal = None, vf_next_attempt_at = Some (time_text 6), vf_failed_at = time_text 4\<rparr>"

definition discarded_mail :: mail_envelope where
  "discarded_mail = resolve_row ResolveDiscard (time_text 3) claimed_mail"

lemma claimed_mail_eq: "claimed_mail = mail_row\<lparr>me_status := EnvelopePending, me_attempts := 1, me_next_attempt_at := Some (time_text 5),
    me_last_error_code := None, me_updated_at := time_text 2, me_processed_at := None\<rparr>"
  by (simp add: claimed_mail_def claim_envelope_def mail_row_def)

lemma discarded_mail_eq: "discarded_mail = mail_row\<lparr>me_status := EnvelopeRejected, me_attempts := 1, me_next_attempt_at := None,
    me_last_error_code := Some ''inbound_mail.operator_discarded'', me_updated_at := time_text 3, me_processed_at := Some (time_text 3)\<rparr>"
  by (simp add: discarded_mail_def claimed_mail_eq)

lemma error_codes_ok: "error_code_text ''inbound_mail.operator_discarded''" "error_code_text ''mail.fetch_failed''"
  by (simp_all add: error_code_text_def text_simps)

lemma time_text_nonempty [simp]: "time_text k \<noteq> []"
  by (simp add: time_text_def)

lemma sample_mails_read: "envelope_row_ok orch_runtime claimed_mail" "envelope_row_ok orch_runtime discarded_mail"
  using error_codes_ok by (auto simp: claimed_mail_eq discarded_mail_eq truthy_def intro!: mail_row_reads)

lemma envelope_in_mail_db [simp]: "envelope_of (mail_db m) (me_event_id m) = Some m" "od_envelopes (mail_db m) = [m]"
  by (simp_all add: envelope_of_def mail_db_def)

lemma mail_ids [simp]: "me_event_id discarded_mail = ''evt-9''" "me_event_id claimed_mail = ''evt-9''"
  "me_project_id claimed_mail = ''project-1''" "me_status claimed_mail = EnvelopePending"
  "me_status discarded_mail = EnvelopeRejected" "me_event_digest discarded_mail = sample_hash"
  by (simp_all add: discarded_mail_eq claimed_mail_eq mail_row_def)

lemma sample_discard:
  "resolveInboundMailEnvelope orch_runtime ''project-1'' ''evt-9'' ResolveDiscard (time_text 3) (mail_db claimed_mail) = Inr (mail_db discarded_mail)"
  using mail_ids_ok sample_mails_read(1)
  by (simp add: resolveInboundMailEnvelope_def check_input_def require_def the_or_def rowToInboundMailEnvelope_def update_where_def
      discarded_mail_def)
    (simp add: mail_db_def)

definition returned_mail :: mail_envelope where
  "returned_mail = discarded_mail\<lparr>me_status := EnvelopePending, me_next_attempt_at := Some (time_text 6),
     me_last_error_code := Some ''mail.fetch_failed'', me_updated_at := time_text 4\<rparr>"

lemma sample_mail_failed:
  "recordInboundMailEnvelopeFailure orch_runtime sample_mail_failure (mail_db discarded_mail) = Inr (mail_db returned_mail)"
  using mail_ids_ok error_codes_ok sample_mails_read(2) envelope_in_mail_db(1) [of discarded_mail]
  by (simp add: recordInboundMailEnvelopeFailure_def requireInboundMailEnvelope_def check_input_def require_def the_or_def
      rowToInboundMailEnvelope_def sample_mail_failure_def update_envelope_def update_where_def failure_status_def returned_mail_def)
    (simp add: mail_db_def)

theorem discarded_mail_returns_witness:
  "\<exists>m. envelope_of (mail_db returned_mail) ''evt-9'' = Some m \<and> envelope_due (time_text 6) m \<and> me_processed_at m = Some (time_text 3)"
proof -
  have m: "envelope_of (mail_db discarded_mail) ''evt-9'' = Some discarded_mail"
    using envelope_in_mail_db(1) [of discarded_mail] by simp
  have reach: "orch_reachable orch_runtime sample_vault 5 (mail_db claimed_mail)"
    by (rule orch_reachable_step [OF mail_reachable orch_step.claimEnvelopes [OF sample_claim]])
  have p: "me_processed_at discarded_mail = Some (time_text 3)" by (simp add: discarded_mail_eq)
  show ?thesis
    using discarded_mail_returns [OF sample_vault_sound reach sample_discard m _ sample_mail_failed] p
    by (auto simp: sample_mail_failure_def)
qed

subsection \<open>Proof summaries\<close>

lemma summary_row_reads:
  assumes V: "vault_sound R V" and i: "parseProofSummarySnapshotInput R V i = Inr u" and t: "parse_timestamp R now"
    and row: "row = \<lparr>sx_snapshot_id = sx_snapshot_id i, sx_project_id = sx_project_id i,
      sx_deployment_id = sx_deployment_id i, sx_revision_hash = sx_revision_hash i, sx_digest = sx_digest i,
      sw_created_at = now, sw_sealed = vt_seal V nonce (proofSummarySnapshotAad R i now) (sp_canonical i)\<rparr>"
  shows "\<exists>s. rowToProofSummarySnapshot R V db row = Inr s \<and> sp_canonical s = sp_canonical i \<and> sx_digest s = sx_digest i
    \<and> sx_snapshot_id s = sx_snapshot_id i \<and> ss_created_at s = now
    \<and> ss_revocation_reason s = map_option rv_reason (find (\<lambda>x. rv_snapshot_id x = sx_snapshot_id i) (od_revocations db))"
proof -
  have aad: "proofSummarySnapshotAad R row now = proofSummarySnapshotAad R i now"
    by (simp add: proofSummarySnapshotAad_def row)
  have p: "vt_byte_length V (sp_canonical i) \<le> MAX_PROOF_SUMMARY_SNAPSHOT_BYTES" "canonical_text R V (sp_canonical i)"
    "snapshot_ids_ok i" "rt_sha256 R (sp_canonical i) = sx_digest i"
    using i by (auto simp: parseProofSummarySnapshotInput_def bind_ok_Inr check_input_Inr)
  then have "snapshot_ids_ok row" by (simp add: snapshot_ids_ok_def row)
  with p t aad V show ?thesis
    by (simp add: rowToProofSummarySnapshot_def check_input_def require_def vault_sound_def row)
      (simp add: Let_def)
qed

text \<open>C25. A shared proof summary never changes: a summary that was created reads back, in every later state,
  with the canonical text and digest it was created with and the time of its creation; and it reads as
  revoked exactly when a revocation of it is on record, with that revocation's reason.\<close>

theorem proof_summary_is_immutable:
  assumes "vault_sound R V" and "orch_reachable R V n db"
    and "createProofSummarySnapshot R V c nonce i db = Inr ((s, True), db1)" and "parse_timestamp R (c 0)"
    and "orch_steps R V n db1 db2"
  shows "\<exists>s'. getProofSummarySnapshot R V (sx_snapshot_id i) db2 = Inr (Some s') \<and> sp_canonical s' = sp_canonical i
    \<and> sx_digest s' = rt_sha256 R (sp_canonical i) \<and> ss_created_at s' = c 0
    \<and> ss_revocation_reason s' = map_option rv_reason (find (\<lambda>x. rv_snapshot_id x = sx_snapshot_id i) (od_revocations db2))"
proof -
  have step: "orch_step R V n db db1" using assms(3) by (rule orch_step.createSnapshot)
  have reach1: "orch_reachable R V n db1" by (rule orch_reachable_step [OF assms(2) step])
  let ?row = "\<lparr>sx_snapshot_id = sx_snapshot_id i, sx_project_id = sx_project_id i,
      sx_deployment_id = sx_deployment_id i, sx_revision_hash = sx_revision_hash i, sx_digest = sx_digest i,
      sw_created_at = c 0, sw_sealed = vt_seal V nonce (proofSummarySnapshotAad R i (c 0)) (sp_canonical i)\<rparr>"
  have i: "parseProofSummarySnapshotInput R V i = Inr ()" and "?row \<in> set (od_snapshots db1)"
    using assms(3) by (auto simp: createProofSummarySnapshot_def bind_ok_Inr require_Inr Let_def split: option.splits)
  then have r: "?row \<in> set (od_snapshots db2)"
    using later_rows(3) [OF orch_steps_advance [OF assms(1) reach1 assms(5)]] by blast
  have "find (\<lambda>r. sx_snapshot_id r = sx_snapshot_id i) (od_snapshots db2) = Some ?row"
    using find_key_unique [OF orch_ok_parts(7) [OF orch_reachable_ok [OF assms(1) orch_reachable_steps [OF reach1 assms(5)]]] r] by simp
  moreover have "orchestration_id (sx_snapshot_id i)" "rt_sha256 R (sp_canonical i) = sx_digest i"
    using i by (auto simp: parseProofSummarySnapshotInput_def bind_ok_Inr check_input_Inr snapshot_ids_ok_def)
  moreover obtain s' where "rowToProofSummarySnapshot R V db2 ?row = Inr s'" "sp_canonical s' = sp_canonical i" "sx_digest s' = sx_digest i"
    "ss_created_at s' = c 0"
    "ss_revocation_reason s' = map_option rv_reason (find (\<lambda>x. rv_snapshot_id x = sx_snapshot_id i) (od_revocations db2))"
    using summary_row_reads [OF assms(1) i assms(4) refl, where db = db2] by blast
  ultimately show ?thesis by (simp add: getProofSummarySnapshot_def check_input_def require_def)
qed

definition sample_summary :: snapshot_input where
  "sample_summary = \<lparr>sx_snapshot_id = ''snapshot-1'', sx_project_id = ''project-1'', sx_deployment_id = ''dep-1'',
     sx_revision_hash = sample_hash, sx_digest = sample_hash, sp_canonical = ''true''\<rparr>"

lemma sample_summary_created:
  "\<exists>s db. createProofSummarySnapshot orch_runtime sample_vault (sample_clock 1) ''n1'' sample_summary created_db = Inr ((s, True), db)"
proof -
  have "canonical_text orch_runtime sample_vault ''true''" by (simp add: canonical_text_def sample_vault_def canonicalJson_def)
  then have "parseProofSummarySnapshotInput orch_runtime sample_vault sample_summary = Inr ()"
    by (simp add: parseProofSummarySnapshotInput_def check_input_def require_def sample_summary_def snapshot_ids_ok_def text_simps
        MAX_PROOF_SUMMARY_SNAPSHOT_BYTES_def) (simp add: sample_vault_def)
  then show ?thesis
    by (simp add: createProofSummarySnapshot_def require_def project_row_of_def Let_def) (simp add: sample_summary_def)
qed

theorem proof_summary_is_immutable_witness:
  "\<exists>s db s'. createProofSummarySnapshot orch_runtime sample_vault (sample_clock 1) ''n1'' sample_summary created_db = Inr ((s, True), db)
     \<and> getProofSummarySnapshot orch_runtime sample_vault ''snapshot-1'' db = Inr (Some s') \<and> sp_canonical s' = ''true''"
proof -
  obtain s db where c: "createProofSummarySnapshot orch_runtime sample_vault (sample_clock 1) ''n1'' sample_summary created_db = Inr ((s, True), db)"
    using sample_summary_created by blast
  show ?thesis
    using c proof_summary_is_immutable [OF sample_vault_sound created_reachable [of 5] c _ osteps_refl] by (auto simp: sample_summary_def)
qed

end
