(* ===== verification/Reconciliation_Worker.thy ===== *)
theory Reconciliation_Worker
  imports Orchestration_Machine "HOL-Library.Multiset"
begin

text \<open>
  \<open>src/orchestration/runtime/reconciliation-worker.ts\<close>: the recovery worker that walks the stored
  projects page by page.  A cycle reads one page after the worker's cursor, moves the cursor, and
  hands the page to a bounded pool of concurrent reconciliations.  The worker sees its store only as
  a page index, which is the locale \<open>project_pages\<close>; its lemmas say that the cursor comes round to
  every project that stays listed, and the interpretation is the index of the orchestration store.
  The pool is a step relation over the interleavings of its workers.

  Timers, abort signals and deadlines decide when a cycle starts and which reconciliations fail; a
  cycle is given the outcomes as an argument.
\<close>

subsection \<open>A cycle\<close>

datatype worker_error = NotInRange string int int

definition boundedInteger :: "int \<Rightarrow> int \<Rightarrow> int \<Rightarrow> string \<Rightarrow> worker_error + int" where
  "boundedInteger v lo hi name =
     (if abs v > MAX_SAFE_INTEGER \<or> v < lo \<or> hi < v then Inl (NotInRange name lo hi) else Inr v)"

record worker =
  wk_interval :: int
  wk_batch :: int
  wk_concurrency :: int
  wk_deadline :: int
  wk_after :: "string option"

definition new_worker :: "int \<Rightarrow> int \<Rightarrow> int \<Rightarrow> int option \<Rightarrow> worker_error + worker" where
  "new_worker interval batch concurrency deadline =
     bind_ok (boundedInteger interval 1000 (5 * 60000) ''intervalMilliseconds'') (\<lambda>i.
     bind_ok (boundedInteger batch 1 1000 ''batchSize'') (\<lambda>b.
     bind_ok (boundedInteger concurrency 1 (min 32 b) ''concurrency'') (\<lambda>c.
     bind_ok (boundedInteger (case deadline of None \<Rightarrow> 2 * 60000 | Some d \<Rightarrow> d) 1 (90 * 60000) ''projectDeadlineMilliseconds'') (\<lambda>d.
     Inr \<lparr>wk_interval = i, wk_batch = b, wk_concurrency = c, wk_deadline = d, wk_after = None\<rparr>))))"

record cycle =
  cy_attempted :: "string list"
  cy_succeeded :: nat
  cy_failed :: nat
  cy_wrapped :: bool

type_synonym 'e page_index = "int \<Rightarrow> string option \<Rightarrow> 'e + reconciliation_page"

text \<open>\<open>succeeds\<close> tells which reconciliations of this cycle settle without an error; the cycle is not
  aborted, so the pool attempts every project of the page.\<close>

definition runOnce :: "'e page_index \<Rightarrow> (string \<Rightarrow> bool) \<Rightarrow> worker \<Rightarrow> 'e + (cycle \<times> worker)" where
  "runOnce index succeeds w =
     bind_ok (index (wk_batch w) (wk_after w)) (\<lambda>page.
     if rp_project_ids page = [] \<and> wk_after w \<noteq> None
     then Inr (\<lparr>cy_attempted = [], cy_succeeded = 0, cy_failed = 0, cy_wrapped = True\<rparr>, w\<lparr>wk_after := None\<rparr>)
     else Inr (\<lparr>cy_attempted = rp_project_ids page, cy_succeeded = length (filter succeeds (rp_project_ids page)),
                cy_failed = length (filter (\<lambda>i. \<not> succeeds i) (rp_project_ids page)), cy_wrapped = False\<rparr>,
               w\<lparr>wk_after := rp_next page\<rparr>))"

text \<open>The worker before cycle \<open>k\<close>, and what cycle \<open>k\<close> attempts.  A cycle whose index throws is reported
  and changes nothing; the next one is scheduled all the same.\<close>

fun worker_at :: "(nat \<Rightarrow> 'e page_index) \<Rightarrow> (nat \<Rightarrow> string \<Rightarrow> bool) \<Rightarrow> worker \<Rightarrow> nat \<Rightarrow> worker" where
  "worker_at index succeeds w 0 = w"
| "worker_at index succeeds w (Suc k) =
     (case runOnce (index k) (succeeds k) (worker_at index succeeds w k) of
        Inl _ \<Rightarrow> worker_at index succeeds w k
      | Inr (_, w') \<Rightarrow> w')"

definition attempted_at :: "(nat \<Rightarrow> 'e page_index) \<Rightarrow> (nat \<Rightarrow> string \<Rightarrow> bool) \<Rightarrow> worker \<Rightarrow> nat \<Rightarrow> string list" where
  "attempted_at index succeeds w k =
     (case runOnce (index k) (succeeds k) (worker_at index succeeds w k) of Inl _ \<Rightarrow> [] | Inr (c, _) \<Rightarrow> cy_attempted c)"

subsection \<open>The page index\<close>

definition behind :: "string option \<Rightarrow> string \<Rightarrow> bool" where
  "behind after i \<longleftrightarrow> (case after of None \<Rightarrow> True | Some c \<Rightarrow> c < i)"

lemma behind_simps [simp]: "behind None i" "behind (Some c) i \<longleftrightarrow> c < i"
  by (simp_all add: behind_def)

text \<open>How far the cursor is from project \<open>i\<close>: the identifiers still before it, or, when the cursor is past
  it, a round more.\<close>

definition distance :: "string set \<Rightarrow> string \<Rightarrow> string option \<Rightarrow> nat" where
  "distance U i c = (if behind c i then card {u \<in> U. behind c u \<and> u < i} else Suc (card U) + card {u \<in> U. behind c u})"

lemma distance_bound: "finite U \<Longrightarrow> distance U i c \<le> 2 * card U + 1"
  unfolding distance_def
  using card_mono [of U "{u \<in> U. behind c u \<and> u < i}"] card_mono [of U "{u \<in> U. behind c u}"] by auto

text \<open>The contract: a page holds the first listed identifiers after the cursor, in order, and names
  its last one as the next cursor exactly when it is full.\<close>

locale project_pages =
  fixes wf :: "'s \<Rightarrow> bool" and listed :: "'s \<Rightarrow> string set" and index :: "'s \<Rightarrow> 'e page_index"
  assumes listed_finite: "wf s \<Longrightarrow> finite (listed s)"
    and listed_valid: "wf s \<Longrightarrow> i \<in> listed s \<Longrightarrow> orchestration_id i"
    and page: "wf s \<Longrightarrow> 1 \<le> n \<Longrightarrow> n \<le> 1000 \<Longrightarrow> opt_all orchestration_id after \<Longrightarrow>
      index s n after = (let ids = take (nat n) (sorted_list_of_set {i \<in> listed s. behind after i}) in
        Inr \<lparr>rp_project_ids = ids, rp_next = (if length ids = nat n then Some (last ids) else None)\<rparr>)"
begin

lemma page_ids:
  assumes "wf s" "1 \<le> n" "n \<le> 1000" "opt_all orchestration_id after"
  obtains p where "index s n after = Inr p"
    "\<And>i. i \<in> listed s \<Longrightarrow> behind after i \<Longrightarrow> i \<in> set (rp_project_ids p) \<or>
       (\<exists>l. rp_next p = Some l \<and> l \<in> listed s \<and> behind after l \<and> l < i)"
    "\<And>l. rp_next p = Some l \<Longrightarrow> l \<in> set (rp_project_ids p) \<and> l \<in> listed s \<and> behind after l"
proof -
  let ?S = "{i \<in> listed s. behind after i}"
  let ?xs = "sorted_list_of_set ?S"
  let ?ids = "take (nat n) ?xs"
  let ?p = "\<lparr>rp_project_ids = ?ids, rp_next = (if length ?ids = nat n then Some (last ?ids) else None)\<rparr>"
  have fin: "finite ?S" using listed_finite [OF assms(1)] by simp
  then have xs: "set ?xs = ?S" "sorted ?xs" "distinct ?xs" by simp_all
  have last: "last ?ids \<in> set ?ids \<and> last ?ids \<in> ?S" if "length ?ids = nat n"
  proof -
    have "?ids \<noteq> []"
    proof
      assume "?ids = []"
      then have "length ?ids = 0" by (simp only: list.size)
      with that assms(2) show False by linarith
    qed
    then have l: "last ?ids \<in> set ?ids" by (rule last_in_set)
    have "last ?ids \<in> set ?xs" by (rule in_set_takeD [OF l])
    with l xs(1) show ?thesis by blast
  qed
  have "i \<in> set ?ids \<or> length ?ids = nat n \<and> last ?ids < i" if "i \<in> ?S" for i
  proof (cases "i \<in> set ?ids")
    case False
    then have d: "i \<in> set (drop (nat n) ?xs)" using that xs(1) by (metis Un_iff append_take_drop_id set_append)
    then have full: "length ?ids = nat n" by (cases "nat n \<le> length ?xs") auto
    have "sorted (?ids @ drop (nat n) ?xs)" "distinct (?ids @ drop (nat n) ?xs)" using xs by simp_all
    then have "last ?ids \<le> i" "last ?ids \<noteq> i" using d last [OF full] unfolding sorted_append distinct_append by blast+
    then have "last ?ids < i" by (rule order.not_eq_order_implies_strict [rotated])
    then show ?thesis using full by blast
  qed blast
  then show ?thesis using last page [OF assms] by (intro that [of ?p]) (auto simp: Let_def split: if_splits)
qed

text \<open>A cycle attempts the project or brings the cursor closer.\<close>

lemma cycle_progress:
  assumes s: "wf s" "listed s \<subseteq> U" "finite U" "i \<in> listed s" and n: "1 \<le> wk_batch w" "wk_batch w \<le> 1000"
    and c: "opt_all orchestration_id (wk_after w)"
  obtains r w' where "runOnce (index s) ok w = Inr (r, w')" "wk_batch w' = wk_batch w" "opt_all orchestration_id (wk_after w')"
    "i \<in> set (cy_attempted r) \<or> distance U i (wk_after w') < distance U i (wk_after w)"
proof -
  obtain p where p: "index s (wk_batch w) (wk_after w) = Inr p"
    and ids: "\<And>i. i \<in> listed s \<Longrightarrow> behind (wk_after w) i \<Longrightarrow> i \<in> set (rp_project_ids p) \<or>
       (\<exists>l. rp_next p = Some l \<and> l \<in> listed s \<and> behind (wk_after w) l \<and> l < i)"
    and nxt: "\<And>l. rp_next p = Some l \<Longrightarrow> l \<in> set (rp_project_ids p) \<and> l \<in> listed s \<and> behind (wk_after w) l"
    by (rule page_ids [OF s(1) n c]) blast
  let ?c = "if rp_project_ids p = [] \<and> wk_after w \<noteq> None then None else rp_next p"
  obtain r where r: "runOnce (index s) ok w = Inr (r, w\<lparr>wk_after := ?c\<rparr>)" "cy_attempted r = rp_project_ids p"
    using p by (cases "rp_project_ids p = [] \<and> wk_after w \<noteq> None") (auto simp: runOnce_def)
  have c': "?c = None \<and> wk_after w \<noteq> None \<or> ?c = rp_next p" by auto
  have fin: "finite {u \<in> U. P u}" for P using s(3) by simp
  have closer: "distance U i ?c < distance U i (wk_after w)" if no: "i \<notin> set (rp_project_ids p)"
  proof (cases "behind (wk_after w) i")
    case True
    then obtain l where l: "rp_next p = Some l" "l \<in> listed s" "behind (wk_after w) l" "l < i" using ids [OF s(4)] no by blast
    have "?c = Some l" using l(1) nxt by auto
    moreover have "card {u \<in> U. l < u \<and> u < i} < card {u \<in> U. behind (wk_after w) u \<and> u < i}"
      using l s(2) by (intro psubset_card_mono fin) (auto simp: behind_def split: option.splits)
    ultimately show ?thesis using True l(4) by (simp add: distance_def)
  next
    case False
    then obtain x where x: "wk_after w = Some x" "i \<le> x" by (auto simp: behind_def not_less split: option.splits)
    show ?thesis
    proof (cases ?c)
      case None
      have "card {u \<in> U. u < i} \<le> card U" using s(3) by (intro card_mono) auto
      with None False show ?thesis by (simp add: distance_def)
    next
      case (Some l)
      then have l: "l \<in> listed s" "x < l" using nxt [of l] x(1) by (auto split: if_splits)
      then have "card {u \<in> U. l < u} < card {u \<in> U. x < u}"
        using s(2) by (intro psubset_card_mono fin) auto
      with l(2) x(2) Some False x(1) show ?thesis by (simp add: distance_def)
    qed
  qed
  have "opt_all orchestration_id ?c"
    using nxt listed_valid [OF s(1)] by (cases "rp_next p") auto
  then show ?thesis using that [OF r(1)] r(2) closer by auto
qed

text \<open>However the store changes between the cycles, a project that stays listed is attempted within
  two rounds over the identifiers in use.\<close>

lemma visited:
  assumes st: "\<And>k. wf (st k)" "\<And>k. listed (st k) \<subseteq> U" "finite U" "\<And>k. i \<in> listed (st k)"
    and n: "1 \<le> wk_batch w" "wk_batch w \<le> 1000" and c: "opt_all orchestration_id (wk_after w)"
  shows "\<exists>k \<le> 2 * card U + 1. i \<in> set (attempted_at (\<lambda>k. index (st k)) ok w k)"
proof (rule ccontr)
  let ?w = "worker_at (\<lambda>k. index (st k)) ok w"
  assume "\<not> ?thesis"
  then have never: "i \<notin> set (attempted_at (\<lambda>k. index (st k)) ok w k)" if "k \<le> 2 * card U + 1" for k using that by blast
  have "wk_batch (?w k) = wk_batch w \<and> opt_all orchestration_id (wk_after (?w k))
      \<and> distance U i (wk_after (?w k)) + k \<le> distance U i (wk_after w)" if "k \<le> 2 * card U + 2" for k
    using that
  proof (induction k)
    case (Suc k)
    then have w: "wk_batch (?w k) = wk_batch w" "opt_all orchestration_id (wk_after (?w k))"
      "distance U i (wk_after (?w k)) + k \<le> distance U i (wk_after w)" by simp_all
    obtain r w' where r: "runOnce (index (st k)) (ok k) (?w k) = Inr (r, w')" "wk_batch w' = wk_batch (?w k)"
      "opt_all orchestration_id (wk_after w')" "i \<in> set (cy_attempted r) \<or> distance U i (wk_after w') < distance U i (wk_after (?w k))"
      by (rule cycle_progress [where s = "st k" and w = "?w k" and ok = "ok k" and U = U and i = i]) (use st n w in simp_all)
    have "i \<notin> set (cy_attempted r)" using never [of k] Suc.prems r(1) by (simp add: attempted_at_def)
    then show ?case using r w by simp
  qed (simp add: c)
  from this [of "2 * card U + 2"] show False using distance_bound [OF st(3), of i "wk_after w"] by simp
qed


end

subsection \<open>The index of the orchestration store\<close>

definition reconcilable_ids :: "orch_db \<Rightarrow> string set" where
  "reconcilable_ids db = ix_project_id ` {r \<in> set (od_projects db). reconcilable db r}"

definition pages_ok :: "orch_db \<Rightarrow> bool" where
  "pages_ok db \<longleftrightarrow> distinct (map ix_project_id (od_projects db)) \<and> list_all (\<lambda>r. orchestration_id (ix_project_id r)) (od_projects db)"

definition store_index :: "orch_db \<Rightarrow> orchestration_store_error page_index" where
  "store_index db n after = listProjectIdsForReconciliation n after db"

lemma orchestration_id_above: "orchestration_id i \<Longrightarrow> [] < i"
  by (cases i) (simp_all add: orchestration_id_def entity_id_def str_between_def)

lemma store_page_ids:
  assumes "pages_ok db"
  shows "map ix_project_id (order_by ix_project_id (filter (\<lambda>r. reconcilable db r \<and> (case after of None \<Rightarrow> [] | Some i \<Rightarrow> i) < ix_project_id r) (od_projects db)))
    = sorted_list_of_set {i \<in> reconcilable_ids db. behind after i}"
proof (rule sorted_distinct_set_unique)
  have ok: "distinct (map ix_project_id (od_projects db))" "\<And>r. r \<in> set (od_projects db) \<Longrightarrow> [] < ix_project_id r"
    using assms orchestration_id_above by (auto simp: pages_ok_def list_all_iff)
  show "distinct (map ix_project_id (order_by ix_project_id (filter (\<lambda>r. reconcilable db r \<and> (case after of None \<Rightarrow> [] | Some i \<Rightarrow> i) < ix_project_id r) (od_projects db))))"
    using ok(1) by (simp add: distinct_map_filter)
  have "finite {i \<in> reconcilable_ids db. behind after i}" by (simp add: reconcilable_ids_def)
  then show "set (map ix_project_id (order_by ix_project_id (filter (\<lambda>r. reconcilable db r \<and> (case after of None \<Rightarrow> [] | Some i \<Rightarrow> i) < ix_project_id r) (od_projects db))))
    = set (sorted_list_of_set {i \<in> reconcilable_ids db. behind after i})"
    using ok(2) by (cases after) (auto simp: reconcilable_ids_def)
qed (simp_all add: sorted_order_by)

interpretation store_pages: project_pages pages_ok reconcilable_ids store_index
proof
  fix db assume "pages_ok db"
  show "finite (reconcilable_ids db)" by (simp add: reconcilable_ids_def)
next
  fix db i assume "pages_ok db" "i \<in> reconcilable_ids db"
  then show "orchestration_id i" by (auto simp: pages_ok_def list_all_iff reconcilable_ids_def)
next
  fix db after and n :: int assume ok: "pages_ok db" "1 \<le> n" "n \<le> 1000" "opt_all orchestration_id after"
  let ?S = "{i \<in> reconcilable_ids db. behind after i}"
  have "finite ?S" by (simp add: reconcilable_ids_def)
  then have "set (sorted_list_of_set ?S) = ?S" by simp
  then have "list_all orchestration_id (take (nat n) (sorted_list_of_set ?S))"
    using ok(1) by (auto simp: list_all_iff pages_ok_def reconcilable_ids_def dest!: in_set_takeD)
  moreover have "length (order_by ix_project_id (filter (\<lambda>r. reconcilable db r \<and> (case after of None \<Rightarrow> [] | Some i \<Rightarrow> i) < ix_project_id r) (od_projects db)))
      = card ?S"
    using arg_cong [OF store_page_ids [OF ok(1), of after], of length] by simp
  ultimately show "store_index db n after = (let ids = take (nat n) (sorted_list_of_set ?S) in
      Inr \<lparr>rp_project_ids = ids, rp_next = (if length ids = nat n then Some (last ids) else None)\<rparr>)"
    using ok by (simp add: store_index_def listProjectIdsForReconciliation_def check_input_def require_def take_map [symmetric]
        store_page_ids Let_def)
qed

lemma orch_ok_pages:
  assumes "orch_ok R V n db"
  shows "pages_ok db"
proof -
  have "orchestration_id (ix_project_id r)" if r: "r \<in> set (od_projects db)" for r
  proof -
    obtain p where "rowToProject R V r = Inr p"
      using orch_ok_parts(3) [OF assms r] by (auto simp: is_ok_def split: sum.splits)
    then have "ProjectAggregate_ok R p" "pj_project_id p = ix_project_id r"
      by (auto simp: rowToProject_def agrees_with_index_def split: option.splits if_splits)
    then show ?thesis by (simp add: ProjectAggregate_ok_def project_shape_def)
  qed
  then show ?thesis using orch_ok_parts(1) [OF assms] by (simp add: pages_ok_def list_all_iff)
qed

subsection \<open>The pool of a cycle\<close>

text \<open>\<open>mapWithConcurrency\<close>: each of the \<open>min concurrency n\<close> workers claims the next index, awaits its
  action, and claims again, until the indices run out or the signal is aborted.  A step is what one
  worker does between two awaits.\<close>

datatype pool_slot = Ready | Busy nat | Finished

record pool =
  po_next :: nat
  po_slots :: "pool_slot list"
  po_done :: "nat list"

definition start_pool :: "nat \<Rightarrow> nat \<Rightarrow> pool" where
  "start_pool concurrency n = \<lparr>po_next = 0, po_slots = replicate (min concurrency n) Ready, po_done = []\<rparr>"

inductive pool_step :: "bool \<Rightarrow> nat \<Rightarrow> pool \<Rightarrow> pool \<Rightarrow> bool" for aborts n where
  claim: "k < length (po_slots p) \<Longrightarrow> po_slots p ! k = Ready \<Longrightarrow> po_next p < n \<Longrightarrow>
    pool_step aborts n p (p\<lparr>po_next := Suc (po_next p), po_slots := (po_slots p)[k := Busy (po_next p)]\<rparr>)"
| settle: "k < length (po_slots p) \<Longrightarrow> po_slots p ! k = Busy i \<Longrightarrow>
    pool_step aborts n p (p\<lparr>po_slots := (po_slots p)[k := Ready], po_done := po_done p @ [i]\<rparr>)"
| leave: "k < length (po_slots p) \<Longrightarrow> po_slots p ! k = Ready \<Longrightarrow> \<not> po_next p < n \<or> aborts \<Longrightarrow>
    pool_step aborts n p (p\<lparr>po_slots := (po_slots p)[k := Finished]\<rparr>)"

inductive_cases pool_stepE [elim]: "pool_step aborts n p p'"

text \<open>Executions with their length.\<close>

inductive pool_run :: "bool \<Rightarrow> nat \<Rightarrow> pool \<Rightarrow> nat \<Rightarrow> pool \<Rightarrow> bool" for aborts n where
  run_none: "pool_run aborts n p 0 p"
| run_more: "pool_run aborts n p k p1 \<Longrightarrow> pool_step aborts n p1 p2 \<Longrightarrow> pool_run aborts n p (Suc k) p2"

fun slot_items :: "pool_slot \<Rightarrow> nat list" where
  "slot_items (Busy i) = [i]"
| "slot_items s = []"

definition in_flight :: "pool_slot list \<Rightarrow> nat list" where
  "in_flight ss = concat (map slot_items ss)"

lemma in_flight_update:
  assumes "k < length ss"
  shows "mset (in_flight (ss[k := s])) + mset (slot_items (ss ! k)) = mset (in_flight ss) + mset (slot_items s)"
proof -
  have "in_flight ss = in_flight (take k ss) @ slot_items (ss ! k) @ in_flight (drop (Suc k) ss)"
    by (subst id_take_nth_drop [OF assms]) (simp add: in_flight_def)
  moreover have "in_flight (ss[k := s]) = in_flight (take k ss) @ slot_items s @ in_flight (drop (Suc k) ss)"
    by (simp add: upd_conv_take_nth_drop [OF assms] in_flight_def)
  ultimately show ?thesis by simp
qed

lemma length_in_flight: "length (in_flight ss) \<le> length ss"
proof (induction ss)
  case (Cons s ss)
  then show ?case by (cases s) (simp_all add: in_flight_def)
qed (simp add: in_flight_def)

definition pool_ok :: "bool \<Rightarrow> nat \<Rightarrow> pool \<Rightarrow> bool" where
  "pool_ok aborts n p \<longleftrightarrow> po_next p \<le> n \<and> mset (po_done p) + mset (in_flight (po_slots p)) = mset [0..<po_next p]
     \<and> (\<not> aborts \<and> Finished \<in> set (po_slots p) \<longrightarrow> po_next p = n)"

text \<open>What is left to do: three for every index unclaimed, two for every action in flight, one for every
  worker about to claim.\<close>

fun slot_work :: "pool_slot \<Rightarrow> nat" where
  "slot_work Ready = 1"
| "slot_work (Busy i) = 2"
| "slot_work Finished = 0"

definition pool_work :: "nat \<Rightarrow> pool \<Rightarrow> nat" where
  "pool_work n p = 3 * (n - po_next p) + sum_list (map slot_work (po_slots p))"

lemma sum_list_update_nat:
  fixes f :: "'a \<Rightarrow> nat"
  assumes "k < length ss"
  shows "sum_list (map f (ss[k := s])) + f (ss ! k) = sum_list (map f ss) + f s"
proof -
  have "sum_list (map f ss) = sum_list (map f (take k ss)) + f (ss ! k) + sum_list (map f (drop (Suc k) ss))"
    by (subst id_take_nth_drop [OF assms]) simp
  then show ?thesis by (simp add: upd_conv_take_nth_drop [OF assms])
qed

lemma pool_step_ok:
  assumes "pool_step aborts n p p'" "pool_ok aborts n p"
  shows "pool_ok aborts n p' \<and> length (po_slots p') = length (po_slots p) \<and> Suc (pool_work n p') \<le> pool_work n p"
  using assms(1)
proof cases
  case (claim k)
  have "mset (in_flight (po_slots p')) = mset (in_flight (po_slots p)) + {#po_next p#}"
    using in_flight_update [OF claim(2), of "Busy (po_next p)"] claim by simp
  moreover have "sum_list (map slot_work (po_slots p')) = sum_list (map slot_work (po_slots p)) + 1"
    using sum_list_update_nat [OF claim(2), of slot_work "Busy (po_next p)"] claim by simp
  moreover have "Finished \<notin> set (po_slots p') \<or> Finished \<in> set (po_slots p)"
    using claim by (auto dest!: set_update_subset_insert [THEN subsetD])
  ultimately show ?thesis using assms(2) claim by (auto simp: pool_ok_def pool_work_def)
next
  case (settle k i)
  have "mset (in_flight (po_slots p')) + {#i#} = mset (in_flight (po_slots p))"
    using in_flight_update [OF settle(2), of Ready] settle by simp
  moreover have "mset (po_done p') = mset (po_done p) + {#i#}" using settle(1) by simp
  ultimately have "mset (po_done p') + mset (in_flight (po_slots p')) = mset (po_done p) + mset (in_flight (po_slots p))"
    by (metis union_assoc union_commute)
  moreover have "sum_list (map slot_work (po_slots p')) + 1 = sum_list (map slot_work (po_slots p))"
    using sum_list_update_nat [OF settle(2), of slot_work Ready] settle by simp
  moreover have "Finished \<notin> set (po_slots p') \<or> Finished \<in> set (po_slots p)"
    using settle by (auto dest!: set_update_subset_insert [THEN subsetD])
  moreover have "po_next p' = po_next p" "length (po_slots p') = length (po_slots p)" using settle(1) by simp_all
  ultimately show ?thesis using assms(2) by (auto simp: pool_ok_def pool_work_def)
next
  case (leave k)
  have "mset (in_flight (po_slots p')) = mset (in_flight (po_slots p))"
    using in_flight_update [OF leave(2), of Finished] leave by simp
  moreover have "sum_list (map slot_work (po_slots p')) + 1 = sum_list (map slot_work (po_slots p))"
    using sum_list_update_nat [OF leave(2), of slot_work Finished] leave by simp
  ultimately show ?thesis using assms(2) leave(1,4) by (auto simp: pool_ok_def pool_work_def)
qed

lemma pool_run_ok:
  assumes "pool_run aborts n p k p'" "pool_ok aborts n p"
  shows "pool_ok aborts n p' \<and> length (po_slots p') = length (po_slots p) \<and> pool_work n p' + k \<le> pool_work n p"
  using assms
proof (induction rule: pool_run.induct)
  case (run_more p k p1 p2)
  then show ?case using pool_step_ok [of aborts n p1 p2] by auto
qed simp

lemma start_pool_ok: "pool_ok aborts n (start_pool c n)" "pool_work n (start_pool c n) = 3 * n + min c n"
  by (simp_all add: pool_ok_def pool_work_def start_pool_def in_flight_def sum_list_replicate)

text \<open>A pool that cannot move has all its workers gone.\<close>

lemma pool_stuck:
  assumes "\<And>p'. \<not> pool_step aborts n p p'"
  shows "set (po_slots p) \<subseteq> {Finished}"
proof
  fix s assume "s \<in> set (po_slots p)"
  then obtain k where k: "k < length (po_slots p)" "po_slots p ! k = s" by (auto simp: in_set_conv_nth)
  show "s \<in> {Finished}"
  proof (cases s)
    case Ready
    then show ?thesis using assms pool_step.claim pool_step.leave k by metis
  next
    case (Busy i)
    then show ?thesis using assms pool_step.settle k by metis
  qed simp
qed

end
