(* ===== verification/Worker_Properties.thy ===== *)
theory Worker_Properties
  imports Reconciliation_Worker Orchestration_Properties
begin

text \<open>
  What the reconciliation worker promises over the orchestration store: no project that needs
  attention is starved, whatever happens to the store between cycles, and a cycle attempts each
  project of its page once with bounded concurrency.
\<close>

text \<open>A project needs attention by what its own aggregate says, or because of its mail.\<close>

definition needs_attention :: "runtime \<Rightarrow> vault \<Rightarrow> orch_db \<Rightarrow> string \<Rightarrow> bool" where
  "needs_attention R V db i \<longleftrightarrow> (case getProject R V i db of
     Inr (Some p) \<Rightarrow> pj_status p \<in> set RECONCILABLE_PROJECT_STATUSES \<or> hasPendingDashboardLoginEffect p
       \<or> hasUnresolvedInboundMailEnvelope i db = Inr True
   | _ \<Rightarrow> False)"

lemma needs_attention_listed:
  assumes ok: "orch_ok R V n db" and need: "needs_attention R V db i"
  shows "i \<in> reconcilable_ids db"
proof -
  obtain p where p: "getProject R V i db = Inr (Some p)" and why: "pj_status p \<in> set RECONCILABLE_PROJECT_STATUSES
      \<or> hasPendingDashboardLoginEffect p \<or> hasUnresolvedInboundMailEnvelope i db = Inr True"
    using need by (auto simp: needs_attention_def split: sum.splits option.splits)
  then obtain r where r: "project_row_of db i = Some r" "rowToProject R V r = Inr p"
    by (auto simp: getProject_def bind_ok_Inr check_input_Inr split: option.splits)
  have in_db: "r \<in> set (od_projects db)" "ix_project_id r = i" using project_row_of_SomeD [OF r(1)] by auto
  then have "row_sound R V r" using ok by (auto simp: orch_ok_def projects_ok_def list_all_iff)
  then have "px_pending_login r = hasPendingDashboardLoginEffect p" using r(2) by (simp add: row_sound_def)
  moreover have "pj_status p = ix_status r" using r(2) by (auto simp: rowToProject_def agrees_with_index_def split: option.splits if_splits)
  moreover have "hasUnresolvedInboundMailEnvelope i db = Inr True \<Longrightarrow> list_ex (\<lambda>m. me_project_id m = i \<and> unresolved m) (od_envelopes db)"
    by (simp add: hasUnresolvedInboundMailEnvelope_def bind_ok_Inr)
  ultimately have "reconcilable db r" using why in_db(2) by (auto simp: reconcilable_def)
  then show ?thesis using in_db by (auto simp: reconcilable_ids_def)
qed

lemma new_worker_bounds:
  assumes "new_worker interval batch concurrency deadline = Inr w"
  shows "1 \<le> wk_batch w" "wk_batch w \<le> 1000" "1 \<le> wk_concurrency w" "wk_concurrency w \<le> min 32 (wk_batch w)" "wk_after w = None"
  using assms by (auto simp: new_worker_def boundedInteger_def bind_ok_Inr split: if_splits)

text \<open>C27. No project starves: take any worker the constructor accepts and any sequence of reachable stores,
  one per cycle, in which the identifiers in use are among finitely many.  A project that needs
  attention throughout, by its own aggregate or its mail, is attempted within two rounds over those
  identifiers, however other projects come, go, or fail between the cycles.\<close>

theorem no_project_starves:
  assumes "vault_sound R V" and "new_worker interval batch concurrency deadline = Inr w"
    and "\<And>k. orch_reachable R V n (dbs k)" and "\<And>k. ix_project_id ` set (od_projects (dbs k)) \<subseteq> U" and "finite U"
    and "\<And>k. needs_attention R V (dbs k) i"
  shows "\<exists>k \<le> 2 * card U + 1. i \<in> set (attempted_at (\<lambda>k. store_index (dbs k)) outcomes w k)"
proof (rule store_pages.visited)
  note ok = orch_reachable_ok [OF assms(1,3)]
  show "pages_ok (dbs k)" for k by (rule orch_ok_pages [OF ok])
  show "i \<in> reconcilable_ids (dbs k)" for k by (rule needs_attention_listed [OF ok assms(6)])
  show "reconcilable_ids (dbs k) \<subseteq> U" for k using assms(4) [of k] by (auto simp: reconcilable_ids_def)
qed (use assms(5) new_worker_bounds [OF assms(2)] in simp_all)

definition sample_worker :: worker where
  "sample_worker = \<lparr>wk_interval = 5000, wk_batch = 10, wk_concurrency = 2, wk_deadline = 120000, wk_after = None\<rparr>"

lemma sample_worker_ok: "new_worker 5000 10 2 None = Inr sample_worker"
  by (simp add: new_worker_def boundedInteger_def sample_worker_def MAX_SAFE_INTEGER_def)

lemma created_needs_attention: "needs_attention orch_runtime sample_vault created_db ''project-1''"
proof -
  have "rowToProject orch_runtime sample_vault first_row = Inr (first_project 0 (time_text 0))"
  proof (rule sealed_row_reads [OF sample_vault_sound first_projects_ok(1)])
    show "agrees_with_index (first_project 0 (time_text 0)) first_row" by (simp add: agrees_with_index_def)
    have "indexAad orch_runtime first_row = indexAad orch_runtime first_index"
      by (rule indexAad_cong) (simp_all add: first_index_def)
    then show "px_sealed first_row = vt_seal sample_vault ''n0'' (indexAad orch_runtime first_row) (vt_print sample_vault (first_project 0 (time_text 0)))"
      by (simp add: first_row_def project_index.defs encrypt_project_def)
  qed
  then have "getProject orch_runtime sample_vault ''project-1'' created_db = Inr (Some (first_project 0 (time_text 0)))"
    by (simp add: getProject_def check_input_def require_def project_row_of_def)
  then show ?thesis by (simp add: needs_attention_def RECONCILABLE_PROJECT_STATUSES_def)
qed

theorem no_project_starves_witness:
  "\<exists>k \<le> 3. ''project-1'' \<in> set (attempted_at (\<lambda>_. store_index created_db) (\<lambda>_ _. False) sample_worker k)"
  using no_project_starves [OF sample_vault_sound sample_worker_ok, where R = orch_runtime and n = 5 and dbs = "\<lambda>_. created_db" and U = "{''project-1''}"
      and i = "''project-1''" and outcomes = "\<lambda>_ _. False"]
    created_reachable created_needs_attention by simp

text \<open>C31. A cycle's pool is safe under every interleaving of its workers: never more actions in flight than
  the concurrency, never one project twice, every run ends after at most three steps per project and
  one per worker, and a run that ended without an abort has settled every project of the page.\<close>

theorem pool_is_bounded:
  assumes "pool_run aborts n (start_pool concurrency n) k p" and "0 < concurrency"
  shows "length (in_flight (po_slots p)) \<le> min concurrency n \<and> distinct (po_done p @ in_flight (po_slots p))
    \<and> set (po_done p @ in_flight (po_slots p)) \<subseteq> {..<n} \<and> k \<le> 3 * n + min concurrency n
    \<and> ((\<forall>p'. \<not> pool_step aborts n p p') \<and> \<not> aborts \<longrightarrow> set (po_done p) = {..<n} \<and> in_flight (po_slots p) = [])"
proof -
  have ok: "pool_ok aborts n p" "length (po_slots p) = min concurrency n" "pool_work n p + k \<le> 3 * n + min concurrency n"
    using pool_run_ok [OF assms(1) start_pool_ok(1)] start_pool_ok(2) by (simp_all add: start_pool_def)
  have m: "mset (po_done p @ in_flight (po_slots p)) = mset [0..<po_next p]" and le: "po_next p \<le> n"
    using ok(1) by (simp_all add: pool_ok_def)
  have dist: "distinct (po_done p @ in_flight (po_slots p))" using mset_eq_imp_distinct_iff [OF m] by simp
  have set: "set (po_done p @ in_flight (po_slots p)) = {..<po_next p}" using mset_eq_setD [OF m] by (simp add: atLeast0LessThan)
  have "set (po_done p) = {..<n} \<and> in_flight (po_slots p) = []" if stuck: "\<forall>p'. \<not> pool_step aborts n p p'" and "\<not> aborts"
  proof -
    have gone: "set (po_slots p) \<subseteq> {Finished}" using pool_stuck stuck by blast
    then have none: "in_flight (po_slots p) = []" by (auto simp: in_flight_def)
    have "po_next p = n"
    proof (cases "po_slots p")
      case Nil
      then show ?thesis using ok(2) assms(2) le by (auto simp: min_def split: if_splits)
    next
      case (Cons s ss)
      then show ?thesis using gone ok(1) \<open>\<not> aborts\<close> by (auto simp: pool_ok_def)
    qed
    then show ?thesis using set none by simp
  qed
  then show ?thesis using length_in_flight [of "po_slots p"] ok(2,3) dist set le by auto
qed

theorem pool_is_bounded_witness:
  "\<exists>p. pool_run False 2 (start_pool 1 2) 2 p \<and> length (in_flight (po_slots p)) \<le> 1"
proof -
  let ?p0 = "start_pool 1 2"
  let ?p1 = "\<lparr>po_next = 1, po_slots = [Busy 0], po_done = []\<rparr>"
  let ?p2 = "\<lparr>po_next = 1, po_slots = [Ready], po_done = [0]\<rparr>"
  have "pool_step False 2 ?p0 ?p1" using pool_step.claim [of 0 ?p0 2 False] by (simp add: start_pool_def)
  moreover have "pool_step False 2 ?p1 ?p2" using pool_step.settle [of 0 ?p1 0 False 2] by simp
  ultimately have run: "pool_run False 2 ?p0 2 ?p2"
    using run_more [OF run_more [OF run_none]] by (simp add: numeral_2_eq_2)
  show ?thesis using run pool_is_bounded [OF run] by (intro exI [of _ ?p2]) simp
qed

end
