(* ===== verification/Winner_Selection.thy ===== *)
theory Winner_Selection
  imports Run_Domain
begin

text \<open>
  \<open>src/orchestration/application/winner-selection.ts\<close>: choosing the one proven candidate a project
  goes on with.  Candidates of other projects or contracts are skipped, a repeated delivery of one
  revision counts once, in its latest form, and the rest are ranked by score, then by identifier.
\<close>

record winner_scope =
  ws_project_id :: string
  ws_contract_hash :: string

datatype winner_error = InvalidCandidate | NoProvenCandidate winner_scope

definition winner_key :: "candidate_proven_payload \<Rightarrow> string" where
  "winner_key c = cp_run_id c @ '':'' @ cp_revision_hash c"

definition in_scope :: "winner_scope \<Rightarrow> candidate_proven_payload \<Rightarrow> bool" where
  "in_scope scope c \<longleftrightarrow> cp_project_id c = ws_project_id scope \<and> cp_contract_hash c = ws_contract_hash scope"

text \<open>A tuple that is shorter on the right is padded with zeros; one longer there is cut.\<close>

fun compareScoreTuplesDescending :: "rat list \<Rightarrow> rat list \<Rightarrow> rat" where
  "compareScoreTuplesDescending [] rs = 0"
| "compareScoreTuplesDescending (l # ls) rs =
     (let difference = (case rs of [] \<Rightarrow> 0 | r # _ \<Rightarrow> r) - l in
      if difference \<noteq> 0 then difference else compareScoreTuplesDescending ls (tl rs))"

text \<open>Only the sign of a comparator counts: it is negative, zero or positive.\<close>

definition compare_candidates :: "runtime \<Rightarrow> candidate_proven_payload \<Rightarrow> candidate_proven_payload \<Rightarrow> int" where
  "compare_candidates R l r =
     (let scoreDifference = compareScoreTuplesDescending (rk_score_tuple (cp_ranking l)) (rk_score_tuple (cp_ranking r));
          byCandidate = rt_locale_compare R (cp_candidate_id l) (cp_candidate_id r) in
      if scoreDifference \<noteq> 0 then (if scoreDifference < 0 then -1 else 1)
      else if byCandidate \<noteq> 0 then byCandidate
      else rt_locale_compare R (cp_run_id l) (cp_run_id r))"

fun collect_candidates ::
  "runtime \<Rightarrow> winner_scope \<Rightarrow> (string \<times> candidate_proven_payload) list \<Rightarrow> candidate_proven_payload list
    \<Rightarrow> winner_error + (string \<times> candidate_proven_payload) list" where
  "collect_candidates R scope unique [] = Inr unique"
| "collect_candidates R scope unique (c # cs) =
     (if \<not> CandidateProvenPayload_ok R c then Inl InvalidCandidate
      else if \<not> in_scope scope c then collect_candidates R scope unique cs
      else collect_candidates R scope (map_set (winner_key c) c unique) cs)"

definition selectProvenWinner ::
  "runtime \<Rightarrow> candidate_proven_payload list \<Rightarrow> winner_scope \<Rightarrow> winner_error + candidate_proven_payload" where
  "selectProvenWinner R inputs scope =
     bind_ok (collect_candidates R scope [] inputs) (\<lambda>unique.
     case sort_by (compare_candidates R) (map snd unique) of
       [] \<Rightarrow> Inl (NoProvenCandidate scope)
     | winner # _ \<Rightarrow> Inr winner)"

subsection \<open>The candidates that count\<close>

text \<open>The latest candidate in scope of each run and revision.\<close>

definition latest_of :: "winner_scope \<Rightarrow> candidate_proven_payload list \<Rightarrow> string \<Rightarrow> candidate_proven_payload option" where
  "latest_of scope cs k = find (\<lambda>c. in_scope scope c \<and> winner_key c = k) (rev cs)"

lemma latest_of_Nil [simp]: "latest_of scope [] k = None"
  by (simp add: latest_of_def)

lemma latest_of_Cons:
  "latest_of scope (c # cs) k = (case latest_of scope cs k of
     None \<Rightarrow> if in_scope scope c \<and> winner_key c = k then Some c else None | Some x \<Rightarrow> Some x)"
proof -
  have "find P (xs @ [y]) = (case find P xs of None \<Rightarrow> if P y then Some y else None | Some x \<Rightarrow> Some x)"
    for P xs and y :: candidate_proven_payload by (induction xs) auto
  then show ?thesis by (simp add: latest_of_def)
qed

lemma collect_candidates_map:
  assumes "collect_candidates R scope unique cs = Inr m"
  shows "map_of m k = (case latest_of scope cs k of None \<Rightarrow> map_of unique k | Some c \<Rightarrow> Some c)"
    "distinct (map fst unique) \<Longrightarrow> distinct (map fst m)" "\<forall>c \<in> set cs. CandidateProvenPayload_ok R c"
proof -
  show "map_of m k = (case latest_of scope cs k of None \<Rightarrow> map_of unique k | Some c \<Rightarrow> Some c)"
    using assms
  proof (induction cs arbitrary: unique)
    case (Cons c cs)
    show ?case
    proof (cases "in_scope scope c")
      case True
      with Cons.prems have "collect_candidates R scope (map_set (winner_key c) c unique) cs = Inr m" by (simp split: if_splits)
      from Cons.IH [OF this] True show ?thesis by (simp add: latest_of_Cons split: option.split)
    next
      case False
      with Cons.prems have "collect_candidates R scope unique cs = Inr m" by (simp split: if_splits)
      from Cons.IH [OF this] False show ?thesis by (simp add: latest_of_Cons split: option.split)
    qed
  qed simp
  show "distinct (map fst m)" if "distinct (map fst unique)"
    using assms that
  proof (induction cs arbitrary: unique)
    case (Cons c cs)
    have "distinct (map fst (map_set (winner_key c) c unique))" using Cons.prems(2) by (rule distinct_map_set)
    with Cons show ?case by (cases "in_scope scope c") (simp_all split: if_splits)
  qed simp
  show "\<forall>c \<in> set cs. CandidateProvenPayload_ok R c"
    using assms
  proof (induction cs arbitrary: unique)
    case (Cons c cs)
    from Cons.prems have c: "CandidateProvenPayload_ok R c" by (simp split: if_splits)
    with Cons have "\<forall>c \<in> set cs. CandidateProvenPayload_ok R c"
      by (cases "in_scope scope c") simp_all
    with c show ?case by simp
  qed simp
qed

lemma collect_candidates_values:
  assumes "collect_candidates R scope [] cs = Inr m"
  shows "set (map snd m) = {c. \<exists>k. latest_of scope cs k = Some c}"
proof -
  have "map_of m k = latest_of scope cs k" for k
    using collect_candidates_map(1) [OF assms, of k] by (simp split: option.splits)
  moreover have "(k, c) \<in> set m \<longleftrightarrow> map_of m k = Some c" for k c
    using collect_candidates_map(2) [OF assms] by simp
  ultimately show ?thesis by (force simp: image_iff)
qed

lemma latest_of_in: "latest_of scope cs k = Some c \<Longrightarrow> c \<in> set cs \<and> in_scope scope c \<and> winner_key c = k"
  unfolding latest_of_def by (drule find_eq_SomeD) simp

lemma latest_of_some:
  assumes "c \<in> set cs" "in_scope scope c"
  shows "\<exists>x. latest_of scope cs (winner_key c) = Some x"
proof (rule ccontr)
  assume "\<not> ?thesis"
  then have "find (\<lambda>x. in_scope scope x \<and> winner_key x = winner_key c) (rev cs) = None" by (simp add: latest_of_def)
  with assms show False by (auto simp: find_None_iff)
qed

subsection \<open>The ranking is an order on accepted candidates\<close>

text \<open>An accepted candidate has one score, its preference satisfaction.\<close>

lemma accepted_score:
  assumes "CandidateProvenPayload_ok R c"
  shows "rk_score_tuple (cp_ranking c) = [rk_preference_satisfaction (cp_ranking c)]"
proof -
  have "length (rk_score_tuple (cp_ranking c)) = 1"
    "hd (rk_score_tuple (cp_ranking c)) = rk_preference_satisfaction (cp_ranking c)"
    using assms by (simp_all add: CandidateProvenPayload_ok_def payload_shape_def CandidateRanking_ok_def ranking_shape_def ranking_issues_def)
  then show ?thesis by (cases "rk_score_tuple (cp_ranking c)") auto
qed

definition preference :: "candidate_proven_payload \<Rightarrow> rat" where
  "preference c = rk_preference_satisfaction (cp_ranking c)"

definition rank_accepted :: "runtime \<Rightarrow> candidate_proven_payload \<Rightarrow> candidate_proven_payload \<Rightarrow> int" where
  "rank_accepted R = then_by (cmp_of_key (\<lambda>c. - preference c))
     (then_by (\<lambda>l r. rt_locale_compare R (cp_candidate_id l) (cp_candidate_id r))
        (\<lambda>l r. rt_locale_compare R (cp_run_id l) (cp_run_id r)))"

lemma consistent_rank_accepted: "consistent_cmp (rt_locale_compare R) \<Longrightarrow> consistent_cmp (rank_accepted R)"
  unfolding rank_accepted_def
  by (rule consistent_then_by [OF consistent_cmp_of_key
        consistent_then_by [OF consistent_on [where k = cp_candidate_id] consistent_on [where k = cp_run_id]]])

lemma compare_accepted:
  assumes "CandidateProvenPayload_ok R l" "CandidateProvenPayload_ok R r"
  shows "compare_candidates R l r = rank_accepted R l r"
  using accepted_score [OF assms(1)] accepted_score [OF assms(2)]
  by (auto simp: compare_candidates_def rank_accepted_def then_by_def cmp_of_key_def preference_def Let_def)

lemma rank_accepted_le:
  "rank_accepted R l r \<le> 0 \<Longrightarrow> preference r < preference l \<or>
     preference r = preference l \<and> rt_locale_compare R (cp_candidate_id l) (cp_candidate_id r) \<le> 0"
  by (auto simp: rank_accepted_def then_by_le cmp_of_key_def split: if_splits)

lemma hd_ranked:
  assumes "consistent_cmp (rt_locale_compare R)" "\<forall>c \<in> set cs. CandidateProvenPayload_ok R c" "x \<in> set cs"
  shows "hd (sort_by (compare_candidates R) cs) \<in> set cs"
    "rank_accepted R (hd (sort_by (compare_candidates R) cs)) x \<le> 0"
proof -
  have same: "sort_by (compare_candidates R) cs = sort_by (rank_accepted R) cs"
    using assms(2) by (intro sort_by_cong compare_accepted) auto
  show "rank_accepted R (hd (sort_by (compare_candidates R) cs)) x \<le> 0"
    unfolding same by (rule hd_sort_by_least [OF consistent_rank_accepted [OF assms(1)] assms(3)])
  have "sort_by (compare_candidates R) cs \<noteq> []"
    using assms(3) set_sort_by [of "compare_candidates R" cs] by (metis empty_iff set_empty)
  then have "hd (sort_by (compare_candidates R) cs) \<in> set (sort_by (compare_candidates R) cs)" by (rule hd_in_set)
  then show "hd (sort_by (compare_candidates R) cs) \<in> set cs" by simp
qed

subsection \<open>What is selected\<close>

lemma collect_candidates_total:
  "collect_candidates R scope unique cs = (if \<forall>c \<in> set cs. CandidateProvenPayload_ok R c
     then Inr (foldl (\<lambda>m c. if in_scope scope c then map_set (winner_key c) c m else m) unique cs) else Inl InvalidCandidate)"
  by (induction cs arbitrary: unique) auto

lemma select_cases:
  obtains (invalid) "\<exists>c \<in> set cs. \<not> CandidateProvenPayload_ok R c" "selectProvenWinner R cs scope = Inl InvalidCandidate"
  | (none) "\<forall>c \<in> set cs. CandidateProvenPayload_ok R c" "\<forall>c \<in> set cs. \<not> in_scope scope c"
      "selectProvenWinner R cs scope = Inl (NoProvenCandidate scope)"
  | (ranked) u where "\<forall>c \<in> set cs. CandidateProvenPayload_ok R c" "\<exists>c \<in> set cs. in_scope scope c"
      "set u = {c. \<exists>k. latest_of scope cs k = Some c}" "u \<noteq> []"
      "selectProvenWinner R cs scope = Inr (hd (sort_by (compare_candidates R) u))"
proof (cases "\<forall>c \<in> set cs. CandidateProvenPayload_ok R c")
  case True
  then obtain m where m: "collect_candidates R scope [] cs = Inr m" by (simp add: collect_candidates_total)
  let ?u = "map snd m" and ?s = "sort_by (compare_candidates R) (map snd m)"
  have u: "set ?u = {c. \<exists>k. latest_of scope cs k = Some c}" by (rule collect_candidates_values [OF m])
  have sel: "selectProvenWinner R cs scope = (case ?s of [] \<Rightarrow> Inl (NoProvenCandidate scope) | w # _ \<Rightarrow> Inr w)"
    by (simp add: selectProvenWinner_def m)
  have empty: "?s = [] \<longleftrightarrow> ?u = []" by (metis set_sort_by set_empty)
  show thesis
  proof (cases "\<exists>c \<in> set cs. in_scope scope c")
    case in_sc: True
    then obtain c k where "latest_of scope cs k = Some c" using latest_of_some by blast
    then have "c \<in> set ?u" using u by blast
    then have "?u \<noteq> []" by auto
    moreover from this have "selectProvenWinner R cs scope = Inr (hd ?s)" using empty sel by (simp split: list.splits)
    ultimately show thesis using True in_sc u ranked by blast
  next
    case False
    have "set ?u = {}" unfolding u using latest_of_in False by blast
    then have "?s = []" using empty by simp
    then show thesis using True False sel none by simp
  qed
next
  case False
  then have "collect_candidates R scope [] cs = Inl InvalidCandidate" unfolding collect_candidates_total by (rule if_not_P)
  then have "selectProvenWinner R cs scope = Inl InvalidCandidate" by (simp add: selectProvenWinner_def)
  with False show thesis by (intro invalid) auto
qed

end
