(* ===== verification/Winner_Properties.thy ===== *)
theory Winner_Properties
  imports Winner_Selection Sample_Run
begin

text \<open>What \<open>selectProvenWinner\<close> promises its caller, on every input.\<close>

text \<open>C30. Choosing the winner.  One malformed candidate among the inputs refuses the whole
  selection; otherwise the selection fails exactly when no input belongs to the project and contract
  asked for.  The candidate returned is one of the inputs, in scope, and the latest delivery of its
  run and revision; no latest delivery in scope satisfies the preferences better, and one that
  satisfies them as well has a candidate identifier that does not sort before the winner's.\<close>

theorem winner_is_best:
  assumes "consistent_cmp (rt_locale_compare R)"
  shows "(selectProvenWinner R cs scope = Inl InvalidCandidate \<longleftrightarrow> (\<exists>c \<in> set cs. \<not> CandidateProvenPayload_ok R c)) \<and>
    (selectProvenWinner R cs scope = Inl (NoProvenCandidate scope) \<longleftrightarrow>
       (\<forall>c \<in> set cs. CandidateProvenPayload_ok R c \<and> \<not> in_scope scope c)) \<and>
    (\<forall>w. selectProvenWinner R cs scope = Inr w \<longrightarrow>
       w \<in> set cs \<and> in_scope scope w \<and> latest_of scope cs (winner_key w) = Some w \<and>
       (\<forall>k c. latest_of scope cs k = Some c \<longrightarrow> preference c < preference w \<or>
          preference c = preference w \<and> rt_locale_compare R (cp_candidate_id w) (cp_candidate_id c) \<le> 0))"
proof (cases rule: select_cases [of cs R scope])
  case invalid
  then show ?thesis by auto
next
  case none
  then show ?thesis by auto
next
  case (ranked u)
  let ?w = "hd (sort_by (compare_candidates R) u)"
  have ok: "\<forall>c \<in> set u. CandidateProvenPayload_ok R c" using ranked(1,3) latest_of_in by blast
  obtain x where "x \<in> set u" using \<open>u \<noteq> []\<close> by (cases u) auto
  have "?w \<in> set u" by (rule hd_ranked(1) [OF assms ok \<open>x \<in> set u\<close>])
  then obtain k where k: "latest_of scope cs k = Some ?w" using ranked(3) by auto
  note w = latest_of_in [OF k]
  have best: "preference c < preference ?w \<or>
      preference c = preference ?w \<and> rt_locale_compare R (cp_candidate_id ?w) (cp_candidate_id c) \<le> 0"
    if c: "latest_of scope cs k' = Some c" for k' c
  proof -
    have "c \<in> set u" using ranked(3) c by auto
    then show ?thesis by (rule rank_accepted_le [OF hd_ranked(2) [OF assms ok]])
  qed
  show ?thesis using ranked(1,2,5) k w best by auto
qed

definition sample_scope :: winner_scope where
  "sample_scope = \<lparr>ws_project_id = ''project-1'', ws_contract_hash = sample_hash\<rparr>"

theorem winner_is_best_witness:
  "selectProvenWinner sample_runtime [sample_payload, sample_payload] sample_scope = Inr sample_payload \<and>
   latest_of sample_scope [sample_payload, sample_payload] (winner_key sample_payload) = Some sample_payload"
proof -
  have "rt_locale_compare sample_runtime = cmp_of_key id" by (simp add: fun_eq_iff)
  then have cmp: "consistent_cmp (rt_locale_compare sample_runtime)" by simp
  have "cp_project_id sample_payload = ''project-1''" "cp_contract_hash sample_payload = sample_hash"
    by (simp_all add: sample_payload_def proven_payload_def sample_promoted_fields)
  then have sel: "selectProvenWinner sample_runtime [sample_payload, sample_payload] sample_scope = Inr sample_payload"
    by (simp add: selectProvenWinner_def sample_payload_ok in_scope_def sample_scope_def)
  with winner_is_best [OF cmp, of "[sample_payload, sample_payload]" sample_scope] show ?thesis by simp
qed

end
