(* ===== verification/Code_Review.thy ===== *)
theory Code_Review
  imports Proof_Gate Redaction
begin

text \<open>
  The review part of \<open>src/application/build-run-executor.ts\<close>: how the executor turns what the
  CodeRabbit port returns into a review receipt (\<open>reviewRevision\<close>,
  \<open>validateAndIntegrateCodeRabbitReview\<close>), what a repair round is told about it
  (\<open>reviewFeedback\<close>, \<open>createCodeRabbitRepairBriefs\<close>), and the ledger of earlier reviews.  The files
  the review must have covered, the review the provider returns, the policy digest and the clock
  are inputs.  The lemmas show which checks an integrated review has passed.
\<close>

record code_review_result =
  crs_complete :: bool
  crs_findings :: "review_finding list"
  crs_raw_digest :: string
  crs_policy_digest :: string
  crs_attestation :: review_attestation

record integrated_review = code_review_result +
  ir_expected_attestation_digest :: string

record frozen_revision =
  fr_source_digest :: string
  fr_commit_sha :: string
  fr_frozen_at :: string

text \<open>\<open>CodeRabbitEvidenceError\<close> with its code, or any other exception.\<close>

datatype review_error = EvidenceError string | OtherError

definition review_json :: "type_error + 'a \<Rightarrow> review_error + 'a" where
  "review_json m = (case m of Inl _ \<Rightarrow> Inl OtherError | Inr x \<Rightarrow> Inr x)"

text \<open>The first \<open>requireCodeRabbitEvidence\<close> whose condition is false throws its code.\<close>

fun requireEvidence :: "(bool \<times> string) list \<Rightarrow> review_error + unit" where
  "requireEvidence [] = Inr ()"
| "requireEvidence ((condition, code) # checks) = (if condition then requireEvidence checks else Inl (EvidenceError code))"

definition countReviewSeverities :: "review_finding list \<Rightarrow> severity_counts" where
  "countReviewSeverities fs = fold (\<lambda>f n. case rf_severity f of
       SevCritical \<Rightarrow> n\<lparr>sc_critical := sc_critical n + 1\<rparr> | SevMajor \<Rightarrow> n\<lparr>sc_major := sc_major n + 1\<rparr>
     | SevMinor \<Rightarrow> n\<lparr>sc_minor := sc_minor n + 1\<rparr> | SevTrivial \<Rightarrow> n\<lparr>sc_trivial := sc_trivial n + 1\<rparr>
     | SevInfo \<Rightarrow> n\<lparr>sc_info := sc_info n + 1\<rparr>) fs
     \<lparr>sc_critical = 0, sc_major = 0, sc_minor = 0, sc_trivial = 0, sc_info = 0\<rparr>"

definition countReviewCategories :: "string list \<Rightarrow> (string \<times> nat) list" where
  "countReviewCategories cs =
     fold (\<lambda>c m. map_set c ((case map_of m c of None \<Rightarrow> 0 | Some n \<Rightarrow> n) + 1) m) cs []"

text \<open>\<open>Buffer.compare\<close> of the UTF-8 bytes orders code points.\<close>

definition sortedCategoryCounts :: "(string \<times> nat) list \<Rightarrow> (string \<times> nat) list" where
  "sortedCategoryCounts counts = order_by fst counts"

definition authority_json :: "string \<Rightarrow> string \<Rightarrow> jsval" where
  "authority_json runId sourceDigest = JObject [(''schemaVersion'', JNumber 1), (''runId'', JString runId),
     (''sourceDigest'', JString sourceDigest)]"

definition sorted_strings :: "string list \<Rightarrow> string list" where
  "sorted_strings = order_by (\<lambda>s. s)"

definition same_digest :: "runtime \<Rightarrow> jsval \<Rightarrow> jsval \<Rightarrow> bool" where
  "same_digest R v w \<longleftrightarrow> digestJson R v = digestJson R w"

definition version_supported :: "string \<Rightarrow> bool" where
  "version_supported v = (case version_numbers v of None \<Rightarrow> False | Some (a, b, c) \<Rightarrow> isSupportedCodeRabbitVersion [a, b, c])"

text \<open>The checks before the findings, in the order of the source.\<close>

definition scope_checks ::
  "runtime \<Rightarrow> code_review_result \<Rightarrow> string \<Rightarrow> frozen_revision \<Rightarrow> acceptance_contract \<Rightarrow> string list \<Rightarrow> (bool \<times> string) list" where
  "scope_checks R result runId revision contract files =
     (let a = crs_attestation result; d = at_digests a; x = at_review_context a; s = at_scope a; findings = crs_findings result in
     [(crs_complete result, ''nonterminal_authoritative_review''),
      (at_review_kind a = AuthoritativeFull \<and> at_capability_state a = ''review-verified'', ''review_authority_state''),
      (digestJson R (authority_json runId (fr_source_digest revision)) = Inr (ad_authority_key d), ''authority_key''),
      (ad_source d = fr_source_digest revision, ''source_digest''),
      (contractDigest R contract = Inr (ad_contract d), ''contract_digest''),
      (ad_review d = crs_raw_digest result, ''review_digest''),
      (digestJson R (JArray (map finding_json findings)) = Inr (ad_finding_set d), ''finding_set_digest''),
      (digestJson R (context_json x) = Inr (ad_review_context d) \<and> digestJson R (scope_json s) = Inr (ad_scope d), ''review_scope_digest''),
      (rs_reviewed_file_count s = length files \<and> digestJson R (strings_json (sorted_strings files)) = Inr (rs_reviewed_files_digest s)
         \<and> list_all (\<lambda>f. rf_file_name f \<in> set files) findings, ''review_scope_files''),
      (rc_review_type x = ''committed'' \<and> rc_current_branch x = ''candidate'' \<and> rc_base_branch x = ''main''
         \<and> rs_review_kind s = AuthoritativeFull \<and> rs_review_type s = rc_review_type x
         \<and> rs_current_branch s = rc_current_branch x \<and> rs_base_branch s = rc_base_branch x
         \<and> rs_base_commit s = rc_base_commit x \<and> rs_working_directory_digest s = rc_working_directory_digest x
         \<and> 0 < rs_reviewed_file_count s, ''review_scope_evidence'')])"

definition controller_checks ::
  "runtime \<Rightarrow> controller_policy \<Rightarrow> code_review_result \<Rightarrow> string \<Rightarrow> (bool \<times> string) list" where
  "controller_checks R P result expectedPolicyDigest =
     (let a = crs_attestation result; d = at_digests a; k = at_capability a; findings = crs_findings result; e = at_event_counts a in
     [(crs_policy_digest result = expectedPolicyDigest \<and> ad_policy d = expectedPolicyDigest, ''review_policy_digest''),
      (at_policy_pack_version a = pol_policy_pack_version P \<and> ad_policy_pack d = pol_policy_pack_digest P
         \<and> ad_config_schema d = pol_config_schema_digest P \<and> ad_config d = pol_controller_config_digest P
         \<and> ad_rules d = pol_controller_rules_digest P \<and> ad_tool_policy d = pol_tool_policy_digest P
         \<and> ad_event_schema d = pol_event_schema_digest P, ''controller_policy_pack''),
      (digestJson R (strings_json (pol_required_review_flags P)) = Inr (ad_review_flags d), ''review_flags''),
      (version_supported (at_cli_version a), ''cli_version''),
      (ad_cli_before d = ad_cli_after d \<and> ad_cli_before d = ca_cli_executable_digest k, ''cli_executable_digest''),
      (digestJson R (capability_json k) = Inr (ad_capability d) \<and> ca_state k = ''healthy''
         \<and> ca_policy_pack_version k = pol_policy_pack_version P \<and> ca_policy_pack_digest k = pol_policy_pack_digest P
         \<and> ca_cli_version k = at_cli_version a
         \<and> digestJson R (strings_json (ca_review_flags k)) = Inr (ca_review_flags_digest k)
         \<and> same_digest R (strings_json (sorted_strings (ca_review_flags k))) (strings_json (sorted_strings (pol_handshake_review_flags P)))
         \<and> same_digest R (strings_json (sorted_strings (ca_supported_event_kinds k))) (strings_json (sorted_strings (pol_supported_event_kinds P)))
         \<and> ca_agent_jsonl k \<and> ca_authenticated k \<and> ca_update_policy k = ''disabled-and-digest-pinned''
         \<and> ca_service_connectivity k = ''healthy'' \<and> ca_controller_config k = ''supported''
         \<and> ca_tool_support k = ''disabled-controller-policy''
         \<and> same_digest R (doctor_json (ca_doctor k)) (doctor_json (at_doctor a)), ''capability_digest''),
      (at_update_policy a = ''disabled-and-digest-pinned'' \<and> at_authentication a = ''authenticated''
         \<and> at_service_connectivity a = ''healthy'' \<and> at_agent_jsonl a \<and> at_terminal_state a = ''review_completed'', ''capability_claim''),
      (dr_passed (at_doctor a) = 8 \<and> dr_warnings (at_doctor a) = 1 \<and> dr_failed (at_doctor a) = 0
         \<and> dr_digest (at_doctor a) = pol_doctor_digest P, ''doctor_result''),
      (ec_review_context e = 1 \<and> 1 \<le> ec_status e \<and> ec_finding e = length findings \<and> ec_complete e = 1 \<and> ec_error e = 0, ''event_counts''),
      (at_attempts a = length (at_retry_reasons a) + 1, ''retry_attestation''),
      (same_digest R (strings_json (sorted_strings (at_configured_tools a))) (strings_json (sorted_strings (pol_configured_tools P)))
         \<and> at_observed_tools a = [] \<and> at_tool_coverage a = ''disabled-controller-policy'', ''tool_policy'')])"

definition finding_checks ::
  "runtime \<Rightarrow> controller_policy \<Rightarrow> code_review_result \<Rightarrow> (bool \<times> string) list" where
  "finding_checks R P result =
     (let a = crs_attestation result; findings = crs_findings result in
      map (\<lambda>f. (finding_metadata_matches P f, ''finding_classification'')) findings @
      [(same_digest R (severity_counts_json (at_severity_counts a)) (severity_counts_json (countReviewSeverities findings)), ''severity_counts''),
       (same_digest R (category_counts_json (sortedCategoryCounts (at_category_counts a)))
          (category_counts_json (sortedCategoryCounts (countReviewCategories
             (map (\<lambda>f. case rf_category f of None \<Rightarrow> ''code-quality'' | Some c \<Rightarrow> c) findings)))), ''category_counts'')])"

definition validateAndIntegrateCodeRabbitReview ::
  "runtime \<Rightarrow> controller_policy \<Rightarrow> code_review_result \<Rightarrow> string \<Rightarrow> frozen_revision \<Rightarrow> acceptance_contract \<Rightarrow> string
    \<Rightarrow> string list \<Rightarrow> review_error + integrated_review" where
  "validateAndIntegrateCodeRabbitReview R P result runId revision contract expectedPolicyDigest files =
     bind_ok (requireEvidence
        [(length (crs_findings result) \<le> 500 \<and> list_all finding_shape (crs_findings result), ''finding_schema''),
         (attestation_shape (crs_attestation result), ''attestation_schema'')]) (\<lambda>_.
     bind_ok (requireEvidence (scope_checks R result runId revision contract files @
        controller_checks R P result expectedPolicyDigest @ finding_checks R P result)) (\<lambda>_.
     let attestation = (crs_attestation result)\<lparr>at_capability_state := ''proof-integrated''\<rparr> in
     bind_ok (if attestation_shape attestation then Inr () else Inl OtherError) (\<lambda>_.
     bind_ok (review_json (digestJson R (attestation_json attestation))) (\<lambda>digest.
     Inr (code_review_result.extend (result\<lparr>crs_attestation := attestation\<rparr>)
       (integrated_review.fields digest))))))"

definition createReceiptBase ::
  "runtime \<Rightarrow> string \<Rightarrow> string \<Rightarrow> string \<Rightarrow> evidence_status \<Rightarrow> string \<Rightarrow> string \<Rightarrow> jsval \<Rightarrow> jsval
    \<Rightarrow> review_error + receipt_base" where
  "createReceiptBase R uuid runId revisionHash status startedAt completedAt input output =
     bind_ok (review_json (digestJson R input)) (\<lambda>inputDigest.
     bind_ok (review_json (digestJson R output)) (\<lambda>outputDigest.
     Inr \<lparr>rb_receipt_id = uuid, rb_run_id = runId, rb_revision_hash = revisionHash, rb_status = status,
       rb_started_at = startedAt, rb_completed_at = completedAt, rb_input_digest = inputDigest,
       rb_output_digest = outputDigest\<rparr>))"

definition review_input_json :: "frozen_revision \<Rightarrow> jsval" where
  "review_input_json revision = JObject [(''revisionHash'', JString (fr_source_digest revision)),
     (''commitSha'', JString (fr_commit_sha revision))]"

definition review_output_json :: "integrated_review \<Rightarrow> jsval" where
  "review_output_json r = (let a = crs_attestation r in JObject
     [(''complete'', JBool (crs_complete r)), (''findingCount'', nat_json (length (crs_findings r))),
      (''rawDigest'', JString (crs_raw_digest r)), (''policyDigest'', JString (crs_policy_digest r)),
      (''expectedAttestationDigest'', JString (ir_expected_attestation_digest r)),
      (''severityCounts'', severity_counts_json (at_severity_counts a)),
      (''categoryCounts'', category_counts_json (at_category_counts a)),
      (''retryReasons'', strings_json (at_retry_reasons a)), (''toolCoverage'', JString (at_tool_coverage a))])"

text \<open>
  \<open>reviewRevision\<close>: the review of a frozen revision becomes a receipt whatever happens, unless the
  run was aborted.  \<open>workspace\<close> is the list of files a semantic review must cover (\<open>Inl\<close> when the
  inspection threw), \<open>provider\<close> what the port returned, \<open>aborted\<close> the signal when an exception
  reaches the outer handler.
\<close>

definition reviewed ::
  "runtime \<Rightarrow> controller_policy \<Rightarrow> string \<Rightarrow> string \<Rightarrow> frozen_revision \<Rightarrow> acceptance_contract \<Rightarrow> string \<Rightarrow> string \<Rightarrow> string
    \<Rightarrow> unit + string list \<Rightarrow> unit + code_review_result \<Rightarrow> review_error + review_receipt" where
  "reviewed R P uuid runId revision contract expectedPolicyDigest startedAt completedAt workspace provider =
     bind_ok (case workspace of Inl _ \<Rightarrow> Inl OtherError | Inr files \<Rightarrow> Inr files) (\<lambda>files.
     bind_ok (if files = [] then Inl (EvidenceError ''empty_review_scope'') else Inr ()) (\<lambda>_.
     bind_ok (case provider of Inl _ \<Rightarrow> Inl (EvidenceError ''provider_failure'') | Inr r \<Rightarrow> Inr r) (\<lambda>providerResult.
     bind_ok (validateAndIntegrateCodeRabbitReview R P providerResult runId revision contract expectedPolicyDigest files) (\<lambda>result.
     bind_ok (createReceiptBase R uuid runId (fr_source_digest revision)
        (if crs_complete result then (if list_ex (\<lambda>f. rf_severity f = SevCritical) (crs_findings result) then EvFail else EvPass)
         else EvError)
        startedAt completedAt (review_input_json revision) (review_output_json result)) (\<lambda>base.
     Inr \<lparr>rv_base = base, rv_complete = crs_complete result, rv_findings = crs_findings result,
       rv_policy_digest = Some (crs_policy_digest result), rv_expected_policy_digest = Some expectedPolicyDigest,
       rv_attestation = Some (crs_attestation result),
       rv_expected_attestation_digest = Some (ir_expected_attestation_digest result)\<rparr>)))))"

definition reviewRevision ::
  "runtime \<Rightarrow> controller_policy \<Rightarrow> string \<Rightarrow> string \<Rightarrow> frozen_revision \<Rightarrow> acceptance_contract \<Rightarrow> string \<Rightarrow> string \<Rightarrow> string
    \<Rightarrow> unit + string list \<Rightarrow> unit + code_review_result \<Rightarrow> bool \<Rightarrow> review_error + review_receipt" where
  "reviewRevision R P uuid runId revision contract expectedPolicyDigest startedAt completedAt workspace provider aborted =
     (case reviewed R P uuid runId revision contract expectedPolicyDigest startedAt completedAt workspace provider of
        Inr receipt \<Rightarrow> Inr receipt
      | Inl e \<Rightarrow>
          if aborted then Inl e
          else let failureCode = (case e of EvidenceError code \<Rightarrow> code | OtherError \<Rightarrow> ''integration_failure'') in
            bind_ok (createReceiptBase R uuid runId (fr_source_digest revision) EvError startedAt completedAt
              (review_input_json revision) (JObject [(''errorCode'', JString failureCode)])) (\<lambda>base.
            Inr \<lparr>rv_base = base, rv_complete = False, rv_findings = [], rv_policy_digest = None,
              rv_expected_policy_digest = Some expectedPolicyDigest, rv_attestation = None,
              rv_expected_attestation_digest = None\<rparr>))"

subsection \<open>What a repair round is told\<close>

definition actionable_severity :: "severity \<Rightarrow> bool" where
  "actionable_severity s \<longleftrightarrow> s \<in> {SevCritical, SevMajor, SevMinor}"

definition reviewFeedback :: "review_receipt \<Rightarrow> reason list" where
  "reviewFeedback r =
     (if \<not> rv_complete r then [plain ''CodeRabbit authoritative review did not complete'']
      else let counts = countReviewSeverities (rv_findings r);
               actionable = sc_critical counts + sc_major counts + sc_minor counts in
        if actionable = 0 then []
        else [Reason ''CodeRabbit authoritative review reported % actionable finding(s): % critical, % major, % minor'' []
                [actionable, sc_critical counts, sc_major counts, sc_minor counts]])"

text \<open>\<open>CodeRabbitRepairBriefSchema\<close>.\<close>

record repair_brief =
  rp_finding_digest :: string
  rp_file_name :: string
  rp_range :: "(nat \<times> nat) option"
  rp_severity :: severity
  rp_category :: string
  rp_governing_invariant :: string
  rp_controller_rule_id :: "string option"
  rp_controller_policy_version :: string
  rp_controller_policy_digest :: string
  rp_review_digest :: string
  rp_source_digest :: string
  rp_untrusted_summary :: string
  rp_untrusted_remediation :: "string option"

definition repair_brief_ok :: "repair_brief \<Rightarrow> bool" where
  "repair_brief_ok b \<longleftrightarrow> sha256_text (rp_finding_digest b) \<and> review_file_path (rp_file_name b)
     \<and> opt_all (\<lambda>(a, z). 0 < a \<and> a \<le> 10000000 \<and> 0 < z \<and> z \<le> 10000000) (rp_range b)
     \<and> str_between 1 64 (rp_category b) \<and> str_between 1 256 (rp_governing_invariant b)
     \<and> opt_all (str_between 1 64) (rp_controller_rule_id b) \<and> str_between 1 128 (rp_controller_policy_version b)
     \<and> sha256_text (rp_controller_policy_digest b) \<and> sha256_text (rp_review_digest b)
     \<and> sha256_text (rp_source_digest b) \<and> str_between 1 4000 (rp_untrusted_summary b)
     \<and> opt_all (str_between 1 4000) (rp_untrusted_remediation b)"

definition remediation_of :: "review_finding \<Rightarrow> string option" where
  "remediation_of f =
     (case truthy (rf_codegen_instructions f) of
        Some text \<Rightarrow> Some (boundText text 4000)
      | None \<Rightarrow> (case rf_suggestions f of
          Some (s # ss) \<Rightarrow> Some (boundText (join [CHR 0x0A] (s # ss)) 4000)
        | _ \<Rightarrow> None))"

definition valid_range :: "review_finding \<Rightarrow> (nat \<times> nat) option" where
  "valid_range f = (case (rf_start_line f, rf_end_line f) of
     (Some a, Some z) \<Rightarrow> if a \<le> z then Some (a, z) else None | _ \<Rightarrow> None)"

definition repair_brief_of ::
  "runtime \<Rightarrow> controller_policy \<Rightarrow> string \<Rightarrow> string \<Rightarrow> string \<Rightarrow> review_finding \<Rightarrow> review_error + repair_brief" where
  "repair_brief_of R P policyDigest reviewDigest sourceDigest f =
     (let k = pol_classify_finding P f in
      bind_ok (review_json (digestJson R (finding_json f))) (\<lambda>findingDigest.
      let brief = \<lparr>rp_finding_digest = findingDigest, rp_file_name = rf_file_name f, rp_range = valid_range f,
            rp_severity = fc_severity k, rp_category = fc_category k, rp_governing_invariant = fc_governing_invariant k,
            rp_controller_rule_id = truthy (fc_rule_id k), rp_controller_policy_version = pol_policy_pack_version P,
            rp_controller_policy_digest = policyDigest, rp_review_digest = reviewDigest,
            rp_source_digest = sourceDigest, rp_untrusted_summary = boundText (rf_message f) 4000,
            rp_untrusted_remediation = truthy (remediation_of f)\<rparr> in
      if repair_brief_ok brief then Inr brief else Inl OtherError))"

definition createCodeRabbitRepairBriefs ::
  "runtime \<Rightarrow> controller_policy \<Rightarrow> review_receipt \<Rightarrow> review_error + repair_brief list" where
  "createCodeRabbitRepairBriefs R P r =
     (case (rv_attestation r, truthy (rv_policy_digest r)) of
        (Some a, Some policyDigest) \<Rightarrow>
          if \<not> rv_complete r \<or> at_review_kind a \<noteq> AuthoritativeFull \<or> at_capability_state a \<noteq> ''proof-integrated''
             \<or> rv_policy_digest r \<noteq> rv_expected_policy_digest r
          then Inr []
          else bind_ok (review_json (digestJson R (attestation_json a))) (\<lambda>digest.
            if rv_expected_attestation_digest r \<noteq> Some digest then Inr []
            else collect_ok (map (repair_brief_of R P policyDigest (ad_review (at_digests a)) (rb_revision_hash (rv_base r)))
              (take 20 (filter (\<lambda>f. actionable_severity (rf_severity f)) (rv_findings r)))))
      | _ \<Rightarrow> Inr [])"

text \<open>The findings a repair round may act on.\<close>

definition actionableReviewFeedback :: "runtime \<Rightarrow> review_receipt \<Rightarrow> reason list" where
  "actionableReviewFeedback R r =
     (if rv_complete r \<and> rv_policy_digest r \<noteq> None \<and> rv_expected_policy_digest r \<noteq> None
         \<and> rv_policy_digest r = rv_expected_policy_digest r
         \<and> (case rv_attestation r of None \<Rightarrow> False
            | Some a \<Rightarrow> at_capability_state a = ''proof-integrated''
                \<and> (case rv_expected_attestation_digest r of None \<Rightarrow> False
                   | Some d \<Rightarrow> digestJson R (attestation_json a) = Inr d))
      then reviewFeedback r else [])"

subsection \<open>The ledger of authoritative reviews\<close>

type_synonym review_ledger = "(string \<times> review_receipt list) list"

definition ledger_reviews :: "review_ledger \<Rightarrow> string \<Rightarrow> review_receipt list" where
  "ledger_reviews ledger revision = (case map_of ledger revision of None \<Rightarrow> [] | Some rs \<Rightarrow> rs)"

definition indexAuthoritativeReviews :: "evidence_receipt list \<Rightarrow> review_ledger" where
  "indexAuthoritativeReviews receipts = fold (\<lambda>e ledger. case e of
       ReviewEv r \<Rightarrow>
         if (case rv_attestation r of None \<Rightarrow> False | Some a \<Rightarrow> at_review_kind a = AdvisoryLight) then ledger
         else map_set (rb_revision_hash (rv_base r)) (ledger_reviews ledger (rb_revision_hash (rv_base r)) @ [r]) ledger
     | _ \<Rightarrow> ledger) receipts []"

definition latestLedgerReview :: "review_ledger \<Rightarrow> review_receipt option" where
  "latestLedgerReview ledger = (let all = concat (map snd ledger) in if all = [] then None else Some (last all))"

subsection \<open>What an integrated review has passed\<close>

lemma requireEvidence_Inr [simp]: "requireEvidence checks = Inr u \<longleftrightarrow> list_all fst checks"
  by (induction checks rule: requireEvidence.induct) auto

lemma requireEvidence_cases: "requireEvidence checks = (if list_all fst checks then Inr () else Inl (EvidenceError (snd (hd (filter (\<lambda>c. \<not> fst c) checks)))))"
  by (induction checks rule: requireEvidence.induct) auto

lemma review_json_Inr [simp]: "review_json m = Inr x \<longleftrightarrow> m = Inr x"
  by (cases m) (simp_all add: review_json_def)

lemma integrated_review_checks:
  assumes "validateAndIntegrateCodeRabbitReview R P result runId revision contract policyDigest files = Inr v"
  obtains digest where
    "length (crs_findings result) \<le> 500" "list_all finding_shape (crs_findings result)"
    "attestation_shape (crs_attestation result)"
    "list_all fst (scope_checks R result runId revision contract files)"
    "list_all fst (controller_checks R P result policyDigest)"
    "list_all fst (finding_checks R P result)"
    "digestJson R (attestation_json ((crs_attestation result)\<lparr>at_capability_state := ''proof-integrated''\<rparr>)) = Inr digest"
    "crs_complete v = crs_complete result" "crs_findings v = crs_findings result"
    "crs_policy_digest v = crs_policy_digest result"
    "crs_attestation v = (crs_attestation result)\<lparr>at_capability_state := ''proof-integrated''\<rparr>"
    "ir_expected_attestation_digest v = digest"
  using assms
  by (auto simp: validateAndIntegrateCodeRabbitReview_def store_simps Let_def code_review_result.defs
      integrated_review.defs split: if_splits)

lemma requireEvidence_pass: "list_all fst checks \<Longrightarrow> requireEvidence checks = Inr ()"
  by simp

lemma integrated_reviewI:
  assumes "length (crs_findings result) \<le> 500" "list_all finding_shape (crs_findings result)"
    "attestation_shape (crs_attestation result)"
    "list_all fst (scope_checks R result runId revision contract files)"
    "list_all fst (controller_checks R P result policyDigest)"
    "list_all fst (finding_checks R P result)"
    "digestJson R (attestation_json ((crs_attestation result)\<lparr>at_capability_state := ''proof-integrated''\<rparr>)) = Inr digest"
  shows "validateAndIntegrateCodeRabbitReview R P result runId revision contract policyDigest files
    = Inr (code_review_result.extend (result\<lparr>crs_attestation := (crs_attestation result)\<lparr>at_capability_state := ''proof-integrated''\<rparr>\<rparr>)
        (integrated_review.fields digest))"
proof -
  have "list_all fst (scope_checks R result runId revision contract files @
      controller_checks R P result policyDigest @ finding_checks R P result)" using assms(4-6) by simp
  note all = requireEvidence_pass [OF this]
  show ?thesis
    unfolding validateAndIntegrateCodeRabbitReview_def all using assms(1-3,7) by (simp add: attestation_shape_def review_json_def)
qed

lemma integrated_shape:
  "attestation_shape a \<Longrightarrow> attestation_shape (a\<lparr>at_capability_state := ''proof-integrated''\<rparr>)"
  by (simp add: attestation_shape_def)

lemma countReviewSeverities_expected: "countReviewSeverities fs = expectedSeverityCounts fs"
proof -
  have "fold (\<lambda>f n. case rf_severity f of
       SevCritical \<Rightarrow> n\<lparr>sc_critical := sc_critical n + 1\<rparr> | SevMajor \<Rightarrow> n\<lparr>sc_major := sc_major n + 1\<rparr>
     | SevMinor \<Rightarrow> n\<lparr>sc_minor := sc_minor n + 1\<rparr> | SevTrivial \<Rightarrow> n\<lparr>sc_trivial := sc_trivial n + 1\<rparr>
     | SevInfo \<Rightarrow> n\<lparr>sc_info := sc_info n + 1\<rparr>) fs n =
     \<lparr>sc_critical = sc_critical n + count_severity SevCritical fs, sc_major = sc_major n + count_severity SevMajor fs,
      sc_minor = sc_minor n + count_severity SevMinor fs, sc_trivial = sc_trivial n + count_severity SevTrivial fs,
      sc_info = sc_info n + count_severity SevInfo fs\<rparr>" for n
    by (induction fs arbitrary: n) (auto simp: count_severity_def split: severity.split)
  then show ?thesis by (simp add: countReviewSeverities_def expectedSeverityCounts_def)
qed

lemma countReviewCategories_map:
  "map_of (fold (\<lambda>c m. map_set c ((case map_of m c of None \<Rightarrow> 0 | Some n \<Rightarrow> n) + 1) m) cs m) k =
     (if k \<in> set cs then Some ((case map_of m k of None \<Rightarrow> 0 | Some n \<Rightarrow> n) + count_list cs k) else map_of m k)"
  by (induction cs arbitrary: m) auto

lemma countReviewCategories_distinct:
  "distinct (map fst m) \<Longrightarrow>
     distinct (map fst (fold (\<lambda>c m. map_set c ((case map_of m c of None \<Rightarrow> 0 | Some n \<Rightarrow> n) + 1) m) cs m))"
  by (induction cs arbitrary: m) (simp_all add: distinct_map_set)

lemma sorted_category_counts:
  "sortedCategoryCounts (countReviewCategories cs) = order_by fst (map (\<lambda>c. (c, count_list cs c)) (remdups cs))"
proof -
  have map: "map_of (countReviewCategories cs) k = (if k \<in> set cs then Some (count_list cs k) else None)" for k
    unfolding countReviewCategories_def countReviewCategories_map by simp
  have d: "distinct (map fst (countReviewCategories cs))"
    unfolding countReviewCategories_def by (rule countReviewCategories_distinct) simp
  have "(k, n) \<in> set (countReviewCategories cs) \<longleftrightarrow> k \<in> set cs \<and> n = count_list cs k" for k n
    using map_of_eq_Some_iff [OF d, of k n] map [of k] by (auto split: if_splits)
  then have "set (countReviewCategories cs) = set (map (\<lambda>c. (c, count_list cs c)) (remdups cs))" by auto
  then show ?thesis
    unfolding sortedCategoryCounts_def by (intro order_by_cong_set d) (simp_all add: comp_def)
qed

text \<open>The counts the gate expects, from the counts the executor computes.\<close>

lemma controller_categories:
  assumes "list_all finding_shape fs" "list_all (finding_metadata_matches P) fs"
  shows "map (\<lambda>f. case rf_category f of None \<Rightarrow> ''code-quality'' | Some c \<Rightarrow> c) fs = finding_categories fs"
    "\<not> list_ex (\<lambda>f. truthy (rf_category f) = None) fs"
proof -
  have "\<exists>c. rf_category f = Some c \<and> truthy (rf_category f) = Some c" if "f \<in> set fs" for f
  proof -
    have "finding_shape f" "finding_metadata_matches P f" using that assms by (auto simp: list_all_iff)
    then obtain c where "rf_category f = Some c" "c \<in> set FINDING_CATEGORIES"
      by (auto simp: finding_metadata_matches_def finding_shape_def Let_def)
    moreover from this(2) have "c \<noteq> []" by (auto simp: FINDING_CATEGORIES_def)
    ultimately show ?thesis by (simp add: truthy_def)
  qed
  then show "map (\<lambda>f. case rf_category f of None \<Rightarrow> ''code-quality'' | Some c \<Rightarrow> c) fs = finding_categories fs"
    "\<not> list_ex (\<lambda>f. truthy (rf_category f) = None) fs"
    unfolding finding_categories_def by (induction fs) fastforce+
qed

text \<open>The digest of two texts is compared where the gate compares the texts themselves.\<close>

definition told_apart :: "runtime \<Rightarrow> jsval \<Rightarrow> jsval \<Rightarrow> bool" where
  "told_apart R v w \<longleftrightarrow> (digestJson R v = digestJson R w \<longrightarrow> canonicalJson R v = canonicalJson R w)"

text \<open>What the gate asks of a review beyond what the executor asks: lists in the controller's
  order, and line ranges that are absent or ordered.\<close>

definition in_controller_order :: "controller_policy \<Rightarrow> code_review_result \<Rightarrow> bool" where
  "in_controller_order P result \<longleftrightarrow> (let a = crs_attestation result; k = at_capability a in
     ca_review_flags k = pol_handshake_review_flags P \<and> ca_supported_event_kinds k = pol_supported_event_kinds P
     \<and> at_configured_tools a = pol_configured_tools P \<and> sorted (map fst (at_category_counts a))
     \<and> list_all finding_range_valid (crs_findings result))"

lemma version_parses:
  assumes "version_supported v" "\<And>a b c. version_numbers v = Some (a, b, c) \<Longrightarrow> c < 2 ^ 53"
  shows "case parseCodeRabbitVersion v of None \<Rightarrow> False | Some n \<Rightarrow> isSupportedCodeRabbitVersion n"
proof -
  obtain a b c where v: "version_numbers v = Some (a, b, c)" and sup: "isSupportedCodeRabbitVersion [a, b, c]"
    using assms(1) by (auto simp: version_supported_def split: option.splits)
  have "a = 0 \<and> b = 7" using sup by (auto simp: isSupportedCodeRabbitVersion_def split: if_splits)
  with assms(2) [OF v] v sup show ?thesis by (simp add: parseCodeRabbitVersion_def)
qed

end
