(* ===== verification/Review_Properties.thy ===== *)
theory Review_Properties
  imports Code_Review Sample_Run
begin

text \<open>
  The executor and the proof gate check the same review: what the executor integrates, the gate
  accepts, and nothing else.
\<close>

text \<open>What a report of the provider is assumed to be: in the controller's order, with a patch version a
  double represents, and of counts whose digests are told apart.\<close>

definition comparable_report :: "runtime \<Rightarrow> controller_policy \<Rightarrow> code_review_result \<Rightarrow> bool" where
  "comparable_report R P result \<longleftrightarrow> (let a = crs_attestation result; fs = crs_findings result in
     in_controller_order P result
     \<and> (case version_numbers (at_cli_version a) of None \<Rightarrow> True | Some (x, y, z) \<Rightarrow> z < 2 ^ 53)
     \<and> told_apart R (severity_counts_json (at_severity_counts a)) (severity_counts_json (expectedSeverityCounts fs))
     \<and> told_apart R (doctor_json (ca_doctor (at_capability a))) (doctor_json (at_doctor a))
     \<and> told_apart R (category_counts_json (at_category_counts a)) (category_counts_json (normalizedCategoryCounts fs)))"

lemma integrated_attestation_clean:
  assumes v: "validateAndIntegrateCodeRabbitReview R P result runId revision c policyDigest files = Inr v"
    and report: "comparable_report R P result" and sha: "\<forall>x. rt_sha256 R x \<noteq> []"
    and review: "rv_attestation r = Some (crs_attestation v)" "rv_expected_attestation_digest r = Some (ir_expected_attestation_digest v)"
      "rv_findings r = crs_findings v" "rv_policy_digest r = Some (crs_policy_digest v)"
      "rv_expected_policy_digest r = Some policyDigest" "rb_run_id (rv_base r) = runId"
      "rb_revision_hash (rv_base r) = fr_source_digest revision"
  shows "codeRabbitAttestationFailures R P c (fr_source_digest revision) r = []"
    "truthy (rv_policy_digest r) \<noteq> None" "truthy (rv_expected_policy_digest r) \<noteq> None"
    "rv_policy_digest r = rv_expected_policy_digest r"
proof -
  from integrated_review_checks [OF v] obtain digest where checks:
    "list_all finding_shape (crs_findings result)" "attestation_shape (crs_attestation result)"
    "list_all fst (scope_checks R result runId revision c files)"
    "list_all fst (controller_checks R P result policyDigest)" "list_all fst (finding_checks R P result)"
    "digestJson R (attestation_json ((crs_attestation result)\<lparr>at_capability_state := ''proof-integrated''\<rparr>)) = Inr digest"
    and v': "crs_findings v = crs_findings result" "crs_policy_digest v = crs_policy_digest result"
    "crs_attestation v = (crs_attestation result)\<lparr>at_capability_state := ''proof-integrated''\<rparr>"
    "ir_expected_attestation_digest v = digest" by blast
  let ?b = "crs_attestation result" let ?a = "crs_attestation v"
  note same = v' review
  have digest: "digest \<noteq> []" using checks(6) sha by (auto simp: digestJson_def store_simps)
  have policy: "policyDigest = ad_policy (at_digests ?b)" "crs_policy_digest result = policyDigest"
    using checks(4) by (simp_all add: controller_checks_def Let_def)
  have "sha256_text (ad_policy (at_digests ?b))" using checks(2) by (simp add: attestation_shape_def attestation_digests_shape_def)
  then have "policyDigest \<noteq> []" unfolding policy(1) by (auto simp: sha256_text_def)
  then show pd: "truthy (rv_policy_digest r) \<noteq> None" "truthy (rv_expected_policy_digest r) \<noteq> None"
    "rv_policy_digest r = rv_expected_policy_digest r"
    using policy(2) same by (simp_all add: truthy_def)
  have source: "source_reasons R c (fr_source_digest revision) r ?a = []"
    using checks(2,3) same by (auto simp: source_reasons_def scope_checks_def Let_def contractDigest_def authority_json_def attestation_shape_def)
  have policy_ok: "policy_reasons P r ?a = []"
    using checks(4) same pd by (auto simp: policy_reasons_def controller_checks_def Let_def)
  have version: "case parseCodeRabbitVersion (at_cli_version ?b) of None \<Rightarrow> False | Some n \<Rightarrow> isSupportedCodeRabbitVersion n"
    using checks(4) report by (intro version_parses) (auto simp: controller_checks_def comparable_report_def Let_def)
  have doctor: "canonicalJson R (doctor_json (ca_doctor (at_capability ?b))) = canonicalJson R (doctor_json (at_doctor ?b))"
    using checks(4) report by (simp add: controller_checks_def comparable_report_def Let_def told_apart_def same_digest_def)
  have capability: "capability_reasons R P ?a = []"
    using checks(4) report version doctor same
    by (auto simp: capability_reasons_def controller_checks_def comparable_report_def in_controller_order_def Let_def split: option.splits)
  have session: "session_reasons P r ?a = []"
    using checks(4) same by (auto simp: session_reasons_def controller_checks_def Let_def)
  have meta: "list_all (finding_metadata_matches P) (crs_findings result)"
    using checks(5) by (auto simp: finding_checks_def Let_def list_all_iff)
  note cats = controller_categories [OF checks(1) meta]
  have "same_digest R (category_counts_json (sortedCategoryCounts (at_category_counts ?b)))
      (category_counts_json (sortedCategoryCounts (countReviewCategories (finding_categories (crs_findings result)))))"
    using checks(5) unfolding cats(1) [symmetric] by (simp add: finding_checks_def Let_def)
  moreover have "sortedCategoryCounts (at_category_counts ?b) = at_category_counts ?b"
    using report by (simp add: sortedCategoryCounts_def order_by_sorted_id comparable_report_def in_controller_order_def Let_def)
  ultimately have category: "canonicalJson R (category_counts_json (at_category_counts ?b))
      = canonicalJson R (category_counts_json (normalizedCategoryCounts (crs_findings result)))"
    using report by (simp add: sorted_category_counts normalizedCategoryCounts_def Let_def same_digest_def comparable_report_def told_apart_def)
  have severity: "canonicalJson R (severity_counts_json (at_severity_counts ?b))
      = canonicalJson R (severity_counts_json (expectedSeverityCounts (crs_findings result)))"
    using checks(5) report by (simp add: finding_checks_def countReviewSeverities_expected Let_def same_digest_def comparable_report_def told_apart_def)
  have finding: "finding_reasons R P r ?a = []"
    using checks(4) report same meta cats(2) category severity
    by (auto simp: finding_reasons_def controller_checks_def comparable_report_def in_controller_order_def Let_def)
  show "codeRabbitAttestationFailures R P c (fr_source_digest revision) r = []"
    using checks(2,6) digest same source policy_ok capability session finding
    by (simp add: codeRabbitAttestationFailures_def truthy_def integrated_shape)
qed

lemma reviewed_InrD:
  assumes "reviewed R P uuid runId revision c policyDigest t1 t2 workspace provider = Inr r"
  obtains result files v where "provider = Inr result"
    "validateAndIntegrateCodeRabbitReview R P result runId revision c policyDigest files = Inr v"
    "rv_attestation r = Some (crs_attestation v)" "rv_expected_attestation_digest r = Some (ir_expected_attestation_digest v)"
    "rv_findings r = crs_findings v" "rv_policy_digest r = Some (crs_policy_digest v)"
    "rv_expected_policy_digest r = Some policyDigest" "rb_run_id (rv_base r) = runId"
    "rb_revision_hash (rv_base r) = fr_source_digest revision" "rv_complete r = crs_complete v"
    "rb_status (rv_base r) = (if crs_complete v then (if list_ex (\<lambda>f. rf_severity f = SevCritical) (crs_findings v) then EvFail else EvPass)
         else EvError)"
  using assms by (auto simp: reviewed_def createReceiptBase_def store_simps split: sum.splits if_splits)

lemma review_reasons_single:
  "review_reasons R P c revision [ReviewEv r] = [] \<longleftrightarrow>
     (case rv_attestation r of None \<Rightarrow> False
      | Some a \<Rightarrow> at_review_kind a = AuthoritativeFull \<and> review_body_reasons R P c revision r = [])"
  by (auto simp: review_reasons_def authoritative_reviews_def Let_def split: option.splits)


lemma review_output_carries: "json_carries (review_output_json v)"
  by (auto simp: review_output_json_def Let_def severity_counts_json_def category_counts_json_def nat_json_def
      strings_json_def list_all_iff)

definition sample_report :: code_review_result where
  "sample_report = \<lparr>crs_complete = True, crs_findings = [], crs_raw_digest = sample_hash, crs_policy_digest = sample_hash,
     crs_attestation = sample_attestation\<lparr>at_capability_state := ''review-verified''\<rparr>\<rparr>"

definition sample_revision :: frozen_revision where
  "sample_revision = \<lparr>fr_source_digest = sample_hash, fr_commit_sha = sample_hash, fr_frozen_at = ''t1''\<rparr>"

lemma sample_report_integrated:
  "\<exists>v. validateAndIntegrateCodeRabbitReview sample_runtime sample_policy sample_report ''run-1'' sample_revision
     sample_contract sample_hash [''a'', ''b'', ''c''] = Inr v \<and> crs_complete v \<and> crs_findings v = []
     \<and> crs_policy_digest v = sample_hash"
proof -
  let ?b = "sample_attestation\<lparr>at_capability_state := ''review-verified''\<rparr>"
  have shape: "attestation_shape ?b" "attestation_shape (?b\<lparr>at_capability_state := ''proof-integrated''\<rparr>)"
    using sample_attestation_ok by (simp_all add: attestation_shape_def)
  have "list_all fst (scope_checks sample_runtime sample_report ''run-1'' sample_revision sample_contract [''a'', ''b'', ''c''])"
    by (simp add: scope_checks_def sample_report_def Let_def contractDigest_def list_all_iff authority_json_def strings_json_def,
        simp add: sample_attestation_def sample_revision_def)
  moreover have "list_all fst (controller_checks sample_runtime sample_policy sample_report sample_hash)"
    by (simp add: controller_checks_def sample_report_def Let_def same_digest_def list_all_iff strings_json_def,
        simp add: sample_attestation_def sample_policy_def sample_doctor_def version_supported_def version_numbers_def
          is_digit_def in_range_def digit_value_def isSupportedCodeRabbitVersion_def)
  moreover have "list_all fst (finding_checks sample_runtime sample_policy sample_report)"
    by (simp add: finding_checks_def sample_report_def Let_def same_digest_def countReviewSeverities_expected
        sorted_category_counts count_severity_def expectedSeverityCounts_def,
        simp add: sample_attestation_def sortedCategoryCounts_def)
  moreover have "json_carries (attestation_json (sample_attestation\<lparr>at_capability_state := ''proof-integrated''\<rparr>))"
    by (auto simp: attestation_json_def Let_def list_all_iff nat_json_def strings_json_def context_json_def scope_json_def
        capability_json_def doctor_json_def event_counts_json_def severity_counts_json_def category_counts_json_def)
  ultimately have "validateAndIntegrateCodeRabbitReview sample_runtime sample_policy sample_report ''run-1'' sample_revision
     sample_contract sample_hash [''a'', ''b'', ''c''] = Inr (code_review_result.extend
       (sample_report\<lparr>crs_attestation := (crs_attestation sample_report)\<lparr>at_capability_state := ''proof-integrated''\<rparr>\<rparr>)
       (integrated_review.fields sample_hash))"
    using shape(1) by (intro integrated_reviewI) (simp_all add: sample_report_def)
  then show ?thesis by (simp add: code_review_result.defs integrated_review.defs) (simp add: sample_report_def)
qed


end
