(* ===== verification/Run_Feedback.thy ===== *)
theory Run_Feedback
  imports Code_Review Run_Store
begin

text \<open>
  The feedback part of \<open>src/application/build-run-executor.ts\<close>: what the receipts of a verified
  revision tell the run (\<open>terminal\<close>) and the next repair round (\<open>actionable\<close>).  Failures of the
  operator's side, such as an unavailable model or a browser protocol error, end up in the reasons of
  the run and never in the work of the coding agent.
\<close>

record classified_feedback =
  cf_terminal :: "string list"
  cf_actionable :: "string list"

definition EMPTY_CLASSIFIED_FEEDBACK :: classified_feedback where
  "EMPTY_CLASSIFIED_FEEDBACK = \<lparr>cf_terminal = [], cf_actionable = []\<rparr>"

definition MAX_CLASSIFIED_FEEDBACK_ITEMS :: nat where
  "MAX_CLASSIFIED_FEEDBACK_ITEMS = 20"

definition OPERATIONAL_RASTER_ERROR_CODES :: "string list" where
  "OPERATIONAL_RASTER_ERROR_CODES = [''aborted'', ''model_capability_unavailable'', ''model_response_invalid'',
     ''policy_bound_exceeded'', ''provider_error'', ''workspace_read_failed'']"

definition OPERATIONAL_PREVIEW_ERROR_PREFIXES :: "string list" where
  "OPERATIONAL_PREVIEW_ERROR_PREFIXES =
     [''Rendered-page baseline recapture dimensions changed'',
      ''Rendered-page probe did not restore the exact pixel baseline'',
      ''Rendered-page screenshot is not a PNG'', ''Rendered-page screenshot has '',
      ''Rendered-page screenshots have unexpected dimensions'', ''Protocol error '',
      ''Target page, context or browser has been closed'', ''browser.newContext:'', ''browser.newPage:'',
      ''browserType.launch:'', ''cdpSession.'', ''page.screenshot:'']"

definition limitClassifiedFeedback :: "string list \<Rightarrow> string \<Rightarrow> string list" where
  "limitClassifiedFeedback feedback kind =
     (let items = deduped (map (\<lambda>item. boundText item 2000) feedback); n = MAX_CLASSIFIED_FEEDBACK_ITEMS in
      if length items \<le> n then items
      else take n items @ [decimal (length items - n) @ '' additional '' @ kind @ '' diagnostic(s) omitted''])"

subsection \<open>Raster claims\<close>

definition rasterAssetLabel :: "raster_receipt \<Rightarrow> nat \<Rightarrow> string" where
  "rasterAssetLabel r assetIndex =
     (if assetIndex < ra_workspace_asset_count r then ''Workspace raster asset '' @ decimal assetIndex
      else ''Rendered screenshot asset '' @ decimal (assetIndex - ra_workspace_asset_count r))"

definition raster_match_text :: "raster_receipt \<Rightarrow> raster_match \<Rightarrow> string" where
  "raster_match_text r m = rasterAssetLabel r (rm_asset_index m) @ '' matches forbidden claim index(es) ''
     @ join '', '' (map decimal (rm_claim_indices m)) @ ''; remove the unsupported claim from the candidate''"

definition raster_candidate :: "raster_receipt \<Rightarrow> string list" where
  "raster_candidate r =
     map (raster_match_text r) (ra_matches r) @
     map (\<lambda>i. rasterAssetLabel r i @ '' contains an assertion not supported by the approved business facts; replace or remove it'')
       (ra_unsupported r) @
     map (\<lambda>i. rasterAssetLabel r i @ '' could not be conclusively inspected; replace or remove rasterized text so the claim can be verified'')
       (ra_unverified r)"

definition raster_operational :: "raster_receipt \<Rightarrow> bool" where
  "raster_operational r \<longleftrightarrow> (case ra_error_code r of None \<Rightarrow> False | Some c \<Rightarrow> c \<in> set OPERATIONAL_RASTER_ERROR_CODES)"

definition classifyRasterFeedback :: "raster_receipt \<Rightarrow> classified_feedback" where
  "classifyRasterFeedback r =
     (if rb_status (ra_base r) = EvPass then EMPTY_CLASSIFIED_FEEDBACK
      else let terminal = (case truthy (ra_error_code r) of None \<Rightarrow> []
                 | Some c \<Rightarrow> [''Raster claim inspection did not complete ('' @ c @ '')'']);
               operational = raster_operational r;
               candidate = (if \<not> operational \<and> raster_candidate r = []
                 then [''Candidate raster assets failed inspection ('' @
                   (case ra_error_code r of None \<Rightarrow> status_text (rb_status (ra_base r)) | Some c \<Rightarrow> c) @
                   ''); replace invalid, unsupported, oversized, or multi-frame raster assets'']
                 else raster_candidate r) in
        \<lparr>cf_terminal = limitClassifiedFeedback (terminal @ candidate) ''raster'',
         cf_actionable = (if operational then [] else limitClassifiedFeedback candidate ''raster'')\<rparr>)"

subsection \<open>The rendered preview\<close>

definition boundedMissingText :: "string list \<Rightarrow> string" where
  "boundedMissingText values =
     (let shown = join '', '' (map (\<lambda>v. json_string (boundText v 240)) (take 5 values)) in
      if 5 < length values then shown @ '' ('' @ decimal (length values - 5) @ '' additional value(s) omitted)''
      else shown)"

definition isOperationalPreviewError :: "string \<Rightarrow> bool" where
  "isOperationalPreviewError error \<longleftrightarrow> list_ex (\<lambda>p. starts_with p error) OPERATIONAL_PREVIEW_ERROR_PREFIXES"

definition previewCheckLabel :: "preview_check \<Rightarrow> string" where
  "previewCheckLabel k = (let path = boundText (pc_path k) 500 in
     if pc_discovered k then ''Discovered rendered route '' @ path
     else case pc_requirement_id k of
       Some rid \<Rightarrow> ''Rendered preview '' @ path @ '' for requirement '' @ boundText rid 300 @ '' verifier '' @
         (case pc_verifier_index k of None \<Rightarrow> ''undefined'' | Some i \<Rightarrow> decimal i)
     | None \<Rightarrow> ''Rendered preview '' @ path)"

definition status_number :: "int option \<Rightarrow> string" where
  "status_number v = (case v of None \<Rightarrow> ''null'' | Some n \<Rightarrow> (if n < 0 then ''-'' else []) @ decimal (nat \<bar>n\<bar>))"

text \<open>One check: the messages for the run and, of these, the messages for the repair.\<close>

definition check_feedback :: "acceptance_contract \<Rightarrow> preview_check \<Rightarrow> string list \<times> string list" where
  "check_feedback c k =
     (let label = previewCheckLabel k;
          blocking = (pc_discovered k \<or> pc_requirement_id k = None
            \<or> list_ex (\<lambda>q. rq_priority q = Hard \<and> pc_requirement_id k = Some (rq_id q)) (ac_requirements c));
          forbidden = (case pc_forbidden_claim_indices k of None \<Rightarrow> [] | Some is \<Rightarrow> is);
          claims = (if forbidden = [] then [] else [label @ '' contains forbidden claim index(es) '' @ join '', '' (map decimal forbidden)]) in
      if \<not> blocking then (claims, claims)
      else case truthy (pc_error k) of
        Some e \<Rightarrow>
          (let message = label @ '' failed: '' @ boundText e 1500 in
           (claims @ [message], claims @ (if isOperationalPreviewError e then [] else [message])))
      | None \<Rightarrow>
          (let found = claims @
             (if pc_actual_status k \<noteq> Some (pc_expected_status k)
              then [label @ '' expected HTTP '' @ status_number (Some (pc_expected_status k)) @ '' but received '' @ status_number (pc_actual_status k)]
              else []) @
             (if pc_missing_text k \<noteq> [] then [label @ '' is missing required visible text: '' @ boundedMissingText (pc_missing_text k)] else []) in
           (found, found)))"

definition classifyPreviewFeedback :: "preview_receipt \<Rightarrow> acceptance_contract \<Rightarrow> classified_feedback" where
  "classifyPreviewFeedback r c =
     (if rb_status (pr_base r) = EvPass then EMPTY_CLASSIFIED_FEEDBACK
      else let all = map (check_feedback c) (pr_checks r) in
        \<lparr>cf_terminal = limitClassifiedFeedback (concat (map fst all)) ''preview'',
         cf_actionable = limitClassifiedFeedback (concat (map snd all)) ''preview''\<rparr>)"

subsection \<open>The evaluation and the commands\<close>

definition evaluationFeedback :: "evaluation_receipt \<Rightarrow> string list" where
  "evaluationFeedback e =
     map (\<lambda>q. ''Requirement '' @ re_requirement_id q @ '' is '' @ evaluation_status_text (re_status q) @ '': '' @ re_explanation q)
       (filter (\<lambda>q. re_status q \<noteq> EvalPass) (ve_requirements e)) @
     map (\<lambda>u. ''Unsupported claim in '' @ uc_location u @ '': '' @ uc_claim u @ '' ('' @ uc_reason u @ '')'') (ve_unsupported_claims e)"

definition commandFeedback :: "command_receipt list \<Rightarrow> string list" where
  "commandFeedback rs =
     concat (map (\<lambda>r. if rb_status (cr_base r) \<noteq> EvPass
       then [command_kind_text (cr_kind r) @ '' command failed: '' @ cr_command r @ CHR 0x0A # (if cr_stderr r \<noteq> [] then cr_stderr r else cr_stdout r)]
       else []) rs)"

subsection \<open>Bounds, and what the agent is never told\<close>

lemma limit_length: "length (limitClassifiedFeedback items kind) \<le> Suc MAX_CLASSIFIED_FEEDBACK_ITEMS"
  by (simp add: limitClassifiedFeedback_def Let_def)

end
