(* ===== verification/Run_Executor.thy ===== *)
theory Run_Executor
  imports Run_Feedback Run_Machine
begin

text \<open>
  \<open>src/application/build-run-executor.ts\<close>: the execution of one build run, from the lease to the
  terminal decision.  The code is a chain of awaited calls of sandboxes and providers with store
  operations between them; here it is a state-passing program over \<open>exec_state\<close>, built from the
  combinators below, with one step (\<open>ex_tick\<close>) per store operation and per await.

  Everything outside the program is the record \<open>exec_world\<close>, indexed by the step: what the other
  clients of the store did to it during an await (\<open>xw_env\<close>), whether the abort signal fired then
  (\<open>xw_abort\<close>) or is found set (\<open>xw_signal\<close>), the clock readings, and what each port returned or
  threw.  An abort makes \<open>withAbort\<close> give up on the traced work at once: no handler of that work runs
  in this flow any more (\<open>Cut\<close>).  What the abandoned work may still do to the store is another client.
\<close>

datatype exec_error = JsError (js_name: string) (js_message: string)

datatype exec_stop = Thrown exec_error | Cut exec_error

record exec_state =
  ex_db :: run_db
  ex_tick :: nat
  ex_reviews :: review_ledger
  ex_builder :: "string option"
  ex_retained :: "string option"
  ex_source :: bool
  ex_command :: "string option"
  ex_delivery :: "string option"
  ex_trace_flushed :: bool

type_synonym 'a exec = "exec_state \<Rightarrow> (exec_stop + 'a) \<times> exec_state"

record review_call =
  rvc_uuid :: string
  rvc_policy_digest :: string
  rvc_started_at :: string
  rvc_completed_at :: string
  rvc_workspace :: "unit + string list"
  rvc_provider :: "unit + code_review_result"
  rvc_aborted :: bool

record exec_world =
  xw_clock :: "nat \<Rightarrow> clock"
  xw_env :: "nat \<Rightarrow> run_db \<Rightarrow> run_db"
  xw_abort :: "nat \<Rightarrow> exec_error option"
  xw_signal :: "nat \<Rightarrow> exec_error option"
  xw_done :: "nat \<Rightarrow> exec_error + unit"
  xw_sandbox :: "nat \<Rightarrow> exec_error + string"
  xw_agent :: "nat \<Rightarrow> agent_progress list \<times> (exec_error + unit)"
  xw_freeze :: "nat \<Rightarrow> exec_error + frozen_revision"
  xw_digest :: "nat \<Rightarrow> exec_error + string"
  xw_export :: "nat \<Rightarrow> exec_error + string"
  xw_commands :: "nat \<Rightarrow> exec_error + command_receipt list"
  xw_preview :: "nat \<Rightarrow> exec_error + preview_receipt"
  xw_review :: "nat \<Rightarrow> exec_error + review_call"
  xw_raster :: "nat \<Rightarrow> exec_error + raster_receipt"
  xw_evaluation :: "nat \<Rightarrow> exec_error + evaluation_receipt"
  xw_snapshot :: "nat \<Rightarrow> exec_error + string"
  xw_artifact :: "nat \<Rightarrow> exec_error + proven_artifact"
  xw_uuid :: "nat \<Rightarrow> string"
  xw_trace_id :: string
  xw_advisory_review :: bool
  xw_error_text :: "store_error \<Rightarrow> string"
  xw_reason_text :: "reason \<Rightarrow> string"

subsection \<open>Programs\<close>

definition ex_return :: "'a \<Rightarrow> 'a exec" where
  "ex_return x s = (Inr x, s)"

definition ex_throw :: "string \<Rightarrow> string \<Rightarrow> 'a exec" where
  "ex_throw name message s = (Inl (Thrown (JsError name message)), s)"

definition ex_bind :: "'a exec \<Rightarrow> ('a \<Rightarrow> 'b exec) \<Rightarrow> 'b exec" where
  "ex_bind m f s = (case m s of (Inl e, s') \<Rightarrow> (Inl e, s') | (Inr x, s') \<Rightarrow> f x s')"

definition ex_then :: "'a exec \<Rightarrow> 'b exec \<Rightarrow> 'b exec" where
  "ex_then m m' = ex_bind m (\<lambda>_. m')"

definition ex_get :: "(exec_state \<Rightarrow> 'a) \<Rightarrow> 'a exec" where
  "ex_get f s = (Inr (f s), s)"

definition ex_set :: "(exec_state \<Rightarrow> exec_state) \<Rightarrow> unit exec" where
  "ex_set f s = (Inr (), f s)"

text \<open>\<open>try m finally f\<close>, and \<open>m.catch(() => undefined)\<close>.\<close>

definition ex_finally :: "'a exec \<Rightarrow> unit exec \<Rightarrow> 'a exec" where
  "ex_finally m f s =
     (case m s of (Inl (Cut e), s') \<Rightarrow> (Inl (Cut e), s')
      | (r, s') \<Rightarrow> (case f s' of (Inl e, s'') \<Rightarrow> (Inl e, s'') | (Inr _, s'') \<Rightarrow> (r, s'')))"

definition ex_quietly :: "'a exec \<Rightarrow> unit exec" where
  "ex_quietly m s =
     (case m s of (Inl (Cut e), s') \<Rightarrow> (Inl (Cut e), s') | (_, s') \<Rightarrow> (Inr (), s'))"

definition ex_catch :: "'a exec \<Rightarrow> (exec_error \<Rightarrow> 'a exec) \<Rightarrow> 'a exec" where
  "ex_catch m h s = (case m s of (Inl (Thrown e), s') \<Rightarrow> h e s' | r \<Rightarrow> r)"

text \<open>\<open>withAbort\<close>: a cut becomes the exception of the waiting code.\<close>

definition withAbort :: "'a exec \<Rightarrow> 'a exec" where
  "withAbort m s = (case m s of (Inl (Cut e), s') \<Rightarrow> (Inl (Thrown e), s') | r \<Rightarrow> r)"

text \<open>An await of a port; under \<open>withAbort\<close> it can be cut.\<close>

definition ex_await :: "exec_world \<Rightarrow> (nat \<Rightarrow> exec_error + 'a) \<Rightarrow> 'a exec" where
  "ex_await W port s =
     (let k = ex_tick s; s' = s\<lparr>ex_db := xw_env W k (ex_db s), ex_tick := Suc k\<rparr> in
      case port k of Inl e \<Rightarrow> (Inl (Thrown e), s') | Inr x \<Rightarrow> (Inr x, s'))"

definition ex_port :: "exec_world \<Rightarrow> (nat \<Rightarrow> exec_error + 'a) \<Rightarrow> 'a exec" where
  "ex_port W port s =
     (case xw_abort W (ex_tick s) of
        Some e \<Rightarrow> (Inl (Cut e), snd (ex_await W port s))
      | None \<Rightarrow> ex_await W port s)"

fun store_error_name :: "store_error \<Rightarrow> string" where
  "store_error_name (SchemaError _) = ''ZodError''"
| "store_error_name (JsonError _) = ''TypeError''"
| "store_error_name (ConstraintViolation _) = ''Error''"
| "store_error_name (IdempotencyConflict _) = ''IdempotencyConflictError''"
| "store_error_name (RunNotFound _) = ''RunNotFoundError''"
| "store_error_name (StaleLease _) = ''StaleLeaseError''"
| "store_error_name (InvalidRunState _ _) = ''InvalidRunStateError''"
| "store_error_name (ProofGateRejected _ _) = ''InvalidRunStateError''"
| "store_error_name MissingRankingScore = ''Error''"
| "store_error_name (PendingOutboxNotFound _) = ''Error''"

definition ex_store :: "exec_world \<Rightarrow> (clock \<Rightarrow> run_db \<Rightarrow> store_error + ('a \<times> run_db)) \<Rightarrow> 'a exec" where
  "ex_store W operation s =
     (let k = ex_tick s; s' = s\<lparr>ex_tick := Suc k\<rparr> in
      case operation (xw_clock W k) (ex_db s) of
        Inl e \<Rightarrow> (Inl (Thrown (JsError (store_error_name e) (xw_error_text W e))), s')
      | Inr (x, db') \<Rightarrow> (Inr x, s'\<lparr>ex_db := db'\<rparr>))"

definition answering_unit :: "store_error + run_db \<Rightarrow> store_error + (unit \<times> run_db)" where
  "answering_unit m = bind_ok m (\<lambda>db. Inr ((), db))"

subsection \<open>Helpers of the executor\<close>

definition ensureActive :: "exec_world \<Rightarrow> string \<Rightarrow> unit exec" where
  "ensureActive W runId s =
     (case xw_signal W (ex_tick s) of
        Some e \<Rightarrow> (Inl (Thrown e), s)
      | None \<Rightarrow>
          if (case getRun runId (ex_db s) of None \<Rightarrow> True | Some run \<Rightarrow> br_cancel_requested run)
          then ex_throw ''Error'' ''Build run cancelled'' s else (Inr (), s))"

definition assertFrozenDigest :: "runtime \<Rightarrow> string \<Rightarrow> frozen_revision \<Rightarrow> unit exec" where
  "assertFrozenDigest R actualDigest revision =
     (if actualDigest \<noteq> fr_source_digest revision
      then ex_throw ''Error'' (''Frozen revision integrity check failed ('' @ take 12 (rt_sha256 R actualDigest) @ '')'')
      else ex_return ())"

definition bindRevisionToControllerSource :: "frozen_revision \<Rightarrow> string \<Rightarrow> frozen_revision exec" where
  "bindRevisionToControllerSource builderRevision contentDigest =
     (if \<not> sha256_text contentDigest then ex_throw ''Error'' ''Controller source content digest is invalid''
      else ex_return (builderRevision\<lparr>fr_source_digest := contentDigest\<rparr>))"

text \<open>\<open>errorCode\<close>: \<open>StaleLeaseError\<close> becomes \<open>stale_lease\<close>.\<close>

definition drop_error_suffix :: "string \<Rightarrow> string" where
  "drop_error_suffix name =
     (if 5 \<le> length name \<and> drop (length name - 5) name = ''Error'' then take (length name - 5) name else name)"

fun split_words :: "string \<Rightarrow> string" where
  "split_words (a # b # cs) =
     (if (is_lower a \<or> is_digit a) \<and> is_upper b then a # CHR ''_'' # split_words (b # cs) else a # split_words (b # cs))"
| "split_words cs = cs"

fun squash :: "bool \<Rightarrow> string \<Rightarrow> string" where
  "squash _ [] = []"
| "squash inside (c # cs) =
     (if is_alnum c then c # squash False cs
      else if inside then squash True cs else CHR ''_'' # squash True cs)"

definition errorCode :: "exec_error \<Rightarrow> string" where
  "errorCode e =
     (if js_name e = ''AbortError'' then ''aborted''
      else let code = map to_lower (squash False (split_words (drop_error_suffix (js_name e)))) in
        if code = [] then ''build_run_failed'' else code)"

definition snapshotNameFor :: "string \<Rightarrow> frozen_revision \<Rightarrow> string" where
  "snapshotNameFor runId revision = ''buildlabs-'' @ take 8 runId @ ''-'' @ take 12 (fr_source_digest revision)"

definition recordEvidence ::
  "runtime \<Rightarrow> exec_world \<Rightarrow> string \<Rightarrow> slot_lease \<Rightarrow> evidence_receipt list \<Rightarrow> unit exec" where
  "recordEvidence R W runId lease receipts =
     fold (\<lambda>r m. ex_then m (ex_store W (\<lambda>c db. answering_unit (addEvidence R c runId lease r db)))) receipts (ex_return ())"

text \<open>\<open>disposeSandbox\<close>: delete it, or else stop it.\<close>

definition disposeSandbox :: "(unit exec) \<Rightarrow> string \<Rightarrow> unit exec" where
  "disposeSandbox attempt sandboxId =
     ex_catch attempt (\<lambda>_. ex_catch attempt (\<lambda>_. ex_throw ''AggregateError'' (''Could not dispose or stop sandbox '' @ sandboxId)))"

subsection \<open>The coding agent and the advisory review\<close>

text \<open>Each completed tool call is an event; the callback runs in the agent's own turn, so what it
  throws ends the agent's run.\<close>

fun agent_events :: "exec_world \<Rightarrow> string \<Rightarrow> slot_lease \<Rightarrow> int \<Rightarrow> agent_progress list \<Rightarrow> unit exec" where
  "agent_events W runId lease repairRound [] = ex_return ()"
| "agent_events W runId lease repairRound (p # ps) =
     ex_then (ex_port W (\<lambda>_. Inr ()))
     (ex_then (ensureActive W runId)
     (ex_then (ex_store W (\<lambda>c db. answering_unit (recordAgentProgress c runId lease (p\<lparr>ap_repair_round := repairRound\<rparr>) db)))
     (agent_events W runId lease repairRound ps)))"

definition run_agent :: "exec_world \<Rightarrow> string \<Rightarrow> slot_lease \<Rightarrow> int \<Rightarrow> unit exec" where
  "run_agent W runId lease repairRound =
     ex_bind (ex_get ex_tick) (\<lambda>k.
     ex_then (agent_events W runId lease repairRound (fst (xw_agent W k))) (ex_port W (\<lambda>_. snd (xw_agent W k))))"

text \<open>\<open>#reviewMutableWipAdvisory\<close>: its review is only logged; a failure of the review is swallowed.\<close>

definition reviewMutableWipAdvisory :: "runtime \<Rightarrow> exec_world \<Rightarrow> unit exec" where
  "reviewMutableWipAdvisory R W =
     (if \<not> xw_advisory_review W then ex_return ()
      else ex_bind (ex_port W (xw_freeze W)) (\<lambda>revision.
        ex_bind (ex_port W (xw_digest W)) (\<lambda>digest.
        ex_then (assertFrozenDigest R digest revision)
        (ex_then (ex_port W (xw_export W))
        (ex_finally (ex_quietly (ex_port W (xw_done W))) (ex_port W (xw_done W)))))))"

subsection \<open>Verifying a revision\<close>

datatype verify_outcome =
    Verified frozen_revision proven_artifact string
  | Unverified frozen_revision "string list" "string list" "repair_brief list"

definition createVerificationSandbox :: "exec_world \<Rightarrow> string exec" where
  "createVerificationSandbox W = ex_port W (xw_sandbox W)"

text \<open>The two isolated verifiers: one for commands, one that will be delivered.\<close>

definition create_verifiers :: "exec_world \<Rightarrow> string \<Rightarrow> slot_lease \<Rightarrow> string \<Rightarrow> (string \<times> string) exec" where
  "create_verifiers W runId lease builder =
     ex_bind (createVerificationSandbox W) (\<lambda>command.
     ex_then (if command = builder
        then ex_throw ''Error'' ''Daytona command verifier must be isolated from the untrusted builder''
        else ex_set (\<lambda>s. s\<lparr>ex_command := Some command\<rparr>))
     (ex_then (ex_store W (\<lambda>c. attachVerificationSandbox c runId lease command PurposeCommands))
     (ex_bind (createVerificationSandbox W) (\<lambda>delivery.
     ex_then (if delivery = command \<or> delivery = builder
        then ex_throw ''Error'' ''Daytona verification sandboxes must be isolated from every other build phase''
        else ex_set (\<lambda>s. s\<lparr>ex_delivery := Some delivery\<rparr>))
     (ex_then (ex_store W (\<lambda>c. attachVerificationSandbox c runId lease delivery PurposeDelivery))
     (ex_return (command, delivery)))))))"

definition all_passed :: "command_receipt list \<Rightarrow> bool" where
  "all_passed rs \<longleftrightarrow> list_all (\<lambda>r. rb_status (cr_base r) = EvPass) rs"

definition verify_commands :: "runtime \<Rightarrow> exec_world \<Rightarrow> string \<Rightarrow> slot_lease \<Rightarrow> string \<Rightarrow> command_receipt list exec" where
  "verify_commands R W runId lease command =
     ex_bind (ex_port W (xw_commands W)) (\<lambda>commandReceipts.
     ex_then (disposeSandbox (ex_port W (xw_done W)) command)
     (ex_then (ex_set (\<lambda>s. s\<lparr>ex_command := None\<rparr>))
     (ex_bind (ex_port W (xw_commands W)) (\<lambda>deliveryReceipts.
     ex_then (recordEvidence R W runId lease (map CommandEv (commandReceipts @ deliveryReceipts)))
     (ex_return (commandReceipts @ deliveryReceipts))))))"

text \<open>Only a candidate whose commands all passed is sealed off the network, started and inspected.\<close>

definition verify_preview ::
  "runtime \<Rightarrow> exec_world \<Rightarrow> string \<Rightarrow> slot_lease \<Rightarrow> command_receipt list \<Rightarrow> preview_receipt option exec" where
  "verify_preview R W runId lease receipts =
     (if \<not> all_passed receipts then ex_return None
      else ex_then (ex_port W (xw_done W)) (ex_then (ex_port W (xw_done W))
        (ex_bind (ex_port W (xw_preview W)) (\<lambda>preview.
        ex_then (ex_store W (\<lambda>c db. answering_unit (addEvidence R c runId lease (PreviewEv preview) db)))
        (ex_return (Some preview))))))"

text \<open>One authoritative review per revision: an earlier one is reused.\<close>

definition review_error_js :: "review_error \<Rightarrow> exec_error" where
  "review_error_js e = (case e of
     EvidenceError code \<Rightarrow> JsError ''CodeRabbitEvidenceError'' (''CodeRabbit evidence validation failed ('' @ code @ '')'')
   | OtherError \<Rightarrow> JsError ''Error'' [])"

definition ex_review ::
  "runtime \<Rightarrow> controller_policy \<Rightarrow> exec_world \<Rightarrow> string \<Rightarrow> frozen_revision \<Rightarrow> acceptance_contract \<Rightarrow> review_receipt exec" where
  "ex_review R P W runId revision contract =
     ex_bind (ex_port W (xw_review W)) (\<lambda>call s.
     case reviewRevision R P (rvc_uuid call) runId revision contract (rvc_policy_digest call) (rvc_started_at call)
         (rvc_completed_at call) (rvc_workspace call) (rvc_provider call) (rvc_aborted call) of
       Inl e \<Rightarrow> (Inl (Thrown (review_error_js e)), s)
     | Inr r \<Rightarrow> (Inr r, s))"

definition verify_review ::
  "runtime \<Rightarrow> controller_policy \<Rightarrow> exec_world \<Rightarrow> string \<Rightarrow> slot_lease \<Rightarrow> frozen_revision \<Rightarrow> acceptance_contract
    \<Rightarrow> (review_receipt \<times> nat) exec" where
  "verify_review R P W runId lease revision contract =
     ex_then (ex_store W (\<lambda>c. updateStage c runId lease StageReviewing (JObject [])))
     (ex_then (ex_port W (xw_export W))
     (ex_bind (ex_get (\<lambda>s. (ledger_reviews (ex_reviews s) (fr_source_digest revision), latestLedgerReview (ex_reviews s)))) (\<lambda>(prior, previous).
     ex_bind (ex_finally
       (if prior \<noteq> [] then ex_then (ex_port W (xw_done W)) (ex_return (last prior))
        else ex_bind (ex_review R P W runId revision contract) (\<lambda>receipt.
          ex_then (ex_store W (\<lambda>c db. answering_unit (addEvidence R c runId lease (ReviewEv receipt) db)))
          (ex_then (ex_set (\<lambda>s. s\<lparr>ex_reviews := map_set (fr_source_digest revision) [receipt] (ex_reviews s)\<rparr>))
          (ex_then (if previous = None then ex_return () else ex_port W (xw_done W)) (ex_return receipt)))))
       (ex_port W (xw_done W))) (\<lambda>receipt.
     ex_return (receipt, length prior)))))"

definition repair_briefs ::
  "runtime \<Rightarrow> controller_policy \<Rightarrow> exec_world \<Rightarrow> nat \<Rightarrow> review_receipt \<Rightarrow> repair_brief list exec" where
  "repair_briefs R P W prior review s =
     (if 1 < prior then (Inr [], s)
      else case createCodeRabbitRepairBriefs R P review of
        Inl e \<Rightarrow> (Inl (Thrown (JsError ''ZodError'' (xw_error_text W (SchemaError ''CodeRabbitRepairBrief'')))), s)
      | Inr briefs \<Rightarrow> (Inr briefs, s))"

definition bounded_unique :: "string list \<Rightarrow> string list" where
  "bounded_unique xs = deduped (map (\<lambda>x. boundText x 4000) xs)"

definition hasAdvisoryFindings :: "review_receipt \<Rightarrow> bool" where
  "hasAdvisoryFindings r \<longleftrightarrow> rv_complete r \<and> list_ex (\<lambda>f. rf_severity f \<in> {SevMajor, SevMinor}) (rv_findings r)"

text \<open>What the receipts say: whether to go on, the reasons, and what the agent is told.\<close>

definition source_changed :: string where
  "source_changed = ''Candidate source changed after freezing; all proof must target one exact revision''"

definition verdict_reasons ::
  "exec_world \<Rightarrow> acceptance_contract \<Rightarrow> proof_decision \<Rightarrow> review_receipt \<Rightarrow> raster_receipt \<Rightarrow> preview_receipt option
    \<Rightarrow> evaluation_receipt \<Rightarrow> command_receipt list \<Rightarrow> bool \<Rightarrow> string list" where
  "verdict_reasons W contract decision review raster preview evaluation commands changed =
     bounded_unique (map (xw_reason_text W) (pd_reasons decision @ reviewFeedback review) @
       cf_terminal (classifyRasterFeedback raster) @
       (case preview of None \<Rightarrow> [] | Some p \<Rightarrow> cf_terminal (classifyPreviewFeedback p contract)) @
       (if rb_status (ve_base evaluation) = EvFail then evaluationFeedback evaluation else []) @
       commandFeedback commands @ (if changed then [source_changed] else []))"

definition verdict_repairs ::
  "runtime \<Rightarrow> exec_world \<Rightarrow> acceptance_contract \<Rightarrow> review_receipt \<Rightarrow> raster_receipt \<Rightarrow> preview_receipt option
    \<Rightarrow> evaluation_receipt \<Rightarrow> command_receipt list \<Rightarrow> bool \<Rightarrow> string list" where
  "verdict_repairs R W contract review raster preview evaluation commands changed =
     bounded_unique (map (xw_reason_text W) (actionableReviewFeedback R review) @
       cf_actionable (classifyRasterFeedback raster) @
       (case preview of None \<Rightarrow> [] | Some p \<Rightarrow> cf_actionable (classifyPreviewFeedback p contract)) @
       (if rb_status (ve_base evaluation) = EvFail then evaluationFeedback evaluation else []) @
       commandFeedback commands @ (if changed then [source_changed] else []))"

definition verify_delivery ::
  "runtime \<Rightarrow> exec_world \<Rightarrow> string \<Rightarrow> slot_lease \<Rightarrow> frozen_revision \<Rightarrow> proven_artifact exec" where
  "verify_delivery R W runId lease revision =
     ex_bind (ex_port W (xw_snapshot W)) (\<lambda>snapshot.
     ex_then (ex_port W (xw_done W))
     (ex_bind (ex_port W (xw_artifact W)) (\<lambda>artifact.
     ex_bind (ex_port W (xw_digest W)) (\<lambda>digest.
     ex_then (assertFrozenDigest R digest revision)
     (ex_then (ex_store W (\<lambda>c db. answering_unit (recordArtifact R c runId lease artifact db)))
     (ex_return artifact))))))"

text \<open>From the evaluation to the decision, inside the exported workspace.\<close>

definition verify_evaluation ::
  "runtime \<Rightarrow> controller_policy \<Rightarrow> exec_world \<Rightarrow> string \<Rightarrow> slot_lease \<Rightarrow> acceptance_contract \<Rightarrow> bool \<Rightarrow> frozen_revision
    \<Rightarrow> command_receipt list \<Rightarrow> preview_receipt option \<Rightarrow> review_receipt \<Rightarrow> nat \<Rightarrow> string \<Rightarrow> verify_outcome exec" where
  "verify_evaluation R P W runId lease contract repairAdvisory revision commands preview review prior delivery =
     ex_then (ex_store W (\<lambda>c. updateStage c runId lease StageEvaluating (JObject [])))
     (ex_bind (ex_port W (xw_raster W)) (\<lambda>raster.
     ex_then (ex_store W (\<lambda>c db. answering_unit (addEvidence R c runId lease (RasterEv raster) db)))
     (ex_then (ex_port W (xw_done W))
     (ex_bind (ex_port W (xw_evaluation W)) (\<lambda>evaluation.
     ex_then (ex_store W (\<lambda>c db. answering_unit (addEvidence R c runId lease (EvaluationEv evaluation) db)))
     (ex_bind (ex_get (\<lambda>s. decideProof R P contract (fr_source_digest revision) (listEvidence runId (ex_db s)))) (\<lambda>decision.
     ex_bind (repair_briefs R P W prior review) (\<lambda>briefs.
     ex_bind (ex_port W (xw_digest W)) (\<lambda>currentDigest.
     let changed = (currentDigest \<noteq> fr_source_digest revision) in
     if \<not> pd_passed decision \<or> changed \<or> (repairAdvisory \<and> hasAdvisoryFindings review)
     then ex_return (Unverified revision (verdict_reasons W contract decision review raster preview evaluation commands changed)
            (verdict_repairs R W contract review raster preview evaluation commands changed) briefs)
     else ex_bind (verify_delivery R W runId lease revision) (\<lambda>artifact.
       ex_return (Verified revision artifact delivery)))))))))))"

definition dispose_locals :: "exec_world \<Rightarrow> unit exec" where
  "dispose_locals W =
     ex_bind (ex_get (\<lambda>s. (ex_source s, ex_command s, ex_delivery s))) (\<lambda>(source, command, delivery).
     ex_then (if source then ex_quietly (ex_port W (xw_done W)) else ex_return ())
     (ex_then (case command of None \<Rightarrow> ex_return () | Some i \<Rightarrow> ex_quietly (disposeSandbox (ex_port W (xw_done W)) i))
     (case delivery of None \<Rightarrow> ex_return () | Some i \<Rightarrow> ex_quietly (disposeSandbox (ex_port W (xw_done W)) i))))"

definition retain_delivery :: "exec_world \<Rightarrow> string \<Rightarrow> slot_lease \<Rightarrow> string \<Rightarrow> verify_outcome \<Rightarrow> verify_outcome exec" where
  "retain_delivery W runId lease delivery outcome =
     (case outcome of
        Unverified _ _ _ _ \<Rightarrow> ex_return outcome
      | Verified _ _ _ \<Rightarrow>
          ex_then (ex_store W (\<lambda>c. promoteVerificationSandbox c runId lease delivery))
          (ex_then (ex_set (\<lambda>s. s\<lparr>ex_delivery := None\<rparr>)) (ex_return outcome)))"

text \<open>The body of the \<open>try\<close>, from the controller's own export of the frozen source.\<close>

definition verify_source ::
  "runtime \<Rightarrow> controller_policy \<Rightarrow> exec_world \<Rightarrow> string \<Rightarrow> slot_lease \<Rightarrow> acceptance_contract \<Rightarrow> string \<Rightarrow> bool
    \<Rightarrow> frozen_revision \<Rightarrow> verify_outcome exec" where
  "verify_source R P W runId lease contract builder repairAdvisory builderRevision =
     ex_bind (ex_port W (xw_export W)) (\<lambda>contentDigest.
     ex_then (ex_set (\<lambda>s. s\<lparr>ex_source := True\<rparr>))
     (ex_bind (bindRevisionToControllerSource builderRevision contentDigest) (\<lambda>revision.
     ex_then (ex_store W (\<lambda>c. setRevision c runId lease (fr_source_digest revision) (vp_preview_port (ac_verification contract))))
     (ex_bind (create_verifiers W runId lease builder) (\<lambda>(command, delivery).
     ex_bind (verify_commands R W runId lease command) (\<lambda>commands.
     ex_bind (verify_preview R W runId lease commands) (\<lambda>preview.
     ex_bind (verify_review R P W runId lease revision contract) (\<lambda>(review, prior).
     ex_bind (ex_port W (xw_digest W)) (\<lambda>provenDigest.
     ex_then (assertFrozenDigest R provenDigest revision)
     (ex_then (ex_port W (xw_export W))
     (ex_bind (ex_finally (verify_evaluation R P W runId lease contract repairAdvisory revision commands preview review prior delivery)
         (ex_port W (xw_done W)))
     (retain_delivery W runId lease delivery))))))))))))"

definition verifyRevision ::
  "runtime \<Rightarrow> controller_policy \<Rightarrow> exec_world \<Rightarrow> string \<Rightarrow> slot_lease \<Rightarrow> acceptance_contract \<Rightarrow> string \<Rightarrow> bool
    \<Rightarrow> verify_outcome exec" where
  "verifyRevision R P W runId lease contract builder repairAdvisory =
     ex_then (ex_set (\<lambda>s. s\<lparr>ex_source := False, ex_command := None, ex_delivery := None\<rparr>))
     (ex_then (ex_store W (\<lambda>c. updateStage c runId lease StageVerifying (JObject [])))
     (ex_bind (ex_port W (xw_freeze W)) (\<lambda>builderRevision.
     ex_bind (ex_port W (xw_digest W)) (\<lambda>digest.
     ex_then (assertFrozenDigest R digest builderRevision)
     (ex_finally (verify_source R P W runId lease contract builder repairAdvisory builderRevision) (dispose_locals W))))))"

subsection \<open>The execution\<close>

datatype execution_outcome = ExecPassed frozen_revision | ExecRejected "string list"

text \<open>The rounds of verification and repair that are left, this one included.\<close>

fun repair_rounds ::
  "runtime \<Rightarrow> controller_policy \<Rightarrow> exec_world \<Rightarrow> string \<Rightarrow> slot_lease \<Rightarrow> acceptance_contract \<Rightarrow> string \<Rightarrow> int \<Rightarrow> nat
    \<Rightarrow> execution_outcome exec" where
  "repair_rounds R P W runId lease contract builder repairRound 0 =
     ex_throw ''Error'' ''Build run ended without a proof decision''"
| "repair_rounds R P W runId lease contract builder repairRound (Suc later) =
     ex_then (ensureActive W runId)
     (ex_bind (verifyRevision R P W runId lease contract builder (0 < later)) (\<lambda>outcome.
     case outcome of
       Verified revision artifact delivery \<Rightarrow>
         ex_then (ex_set (\<lambda>s. s\<lparr>ex_retained := Some delivery\<rparr>))
         (ex_then (ex_store W (\<lambda>c. updateStage c runId lease StageFinalizing
            (JObject [(''revisionHash'', jstr (fr_source_digest revision)), (''artifactId'', jstr (pa_artifact_id artifact))])))
         (ex_return (ExecPassed revision)))
     | Unverified revision reasons repairFeedback briefs \<Rightarrow>
         if later = 0 \<or> (repairFeedback = [] \<and> briefs = []) then ex_return (ExecRejected reasons)
         else ex_then (ex_store W (\<lambda>c. updateStage c runId lease StageGenerating
              (JObject [(''repairRound'', jint (repairRound + 1)), (''rejectedRevision'', jstr (fr_source_digest revision))])))
           (ex_then (run_agent W runId lease (repairRound + 1))
           (ex_then (reviewMutableWipAdvisory R W)
           (repair_rounds R P W runId lease contract builder (repairRound + 1) later)))))"

definition traced_execution ::
  "runtime \<Rightarrow> controller_policy \<Rightarrow> exec_world \<Rightarrow> string \<Rightarrow> slot_lease \<Rightarrow> build_assignment \<Rightarrow> execution_outcome exec" where
  "traced_execution R P W runId lease assignment =
     ex_then (ensureActive W runId)
     (ex_bind (ex_port W (xw_sandbox W)) (\<lambda>builder.
     ex_then (ex_set (\<lambda>s. s\<lparr>ex_builder := Some builder\<rparr>))
     (ex_then (ex_store W (\<lambda>c. attachSandbox c runId lease builder))
     (ex_then (ex_store W (\<lambda>c. updateStage c runId lease StageGenerating (JObject [(''repairRound'', jint 0)])))
     (ex_then (run_agent W runId lease 0)
     (ex_then (reviewMutableWipAdvisory R W)
     (repair_rounds R P W runId lease (ba_contract assignment) builder 0 (nat (lm_max_repair_rounds (ba_limits assignment) + 1)))))))))"

definition decide_run ::
  "runtime \<Rightarrow> controller_policy \<Rightarrow> exec_world \<Rightarrow> string \<Rightarrow> slot_lease \<Rightarrow> build_assignment \<Rightarrow> unit exec" where
  "decide_run R P W runId lease assignment =
     ex_then (ex_store W (\<lambda>c. startRun c runId lease))
     (ex_bind (withAbort (traced_execution R P W runId lease assignment)) (\<lambda>outcome.
     ex_then (withAbort (ex_port W (xw_done W)))
     (ex_then (ex_set (\<lambda>s. s\<lparr>ex_trace_flushed := True\<rparr>))
     (ex_then (ensureActive W runId)
     (ex_bind (ex_get ex_tick) (\<lambda>k.
     ex_then (ex_store W (\<lambda>c. case outcome of
         ExecPassed revision \<Rightarrow> markPassed R P c (xw_uuid W k) runId lease (fr_source_digest revision) (xw_trace_id W)
       | ExecRejected reasons \<Rightarrow> markRejected c runId lease reasons))
     (ex_return ())))))))"

text \<open>A run that is still running is ended; a lease that went stale fences this off, silently.\<close>

definition end_run :: "exec_world \<Rightarrow> string \<Rightarrow> slot_lease \<Rightarrow> exec_error \<Rightarrow> unit exec" where
  "end_run W runId lease e =
     ex_bind (ex_get (\<lambda>s. getRun runId (ex_db s))) (\<lambda>run. case run of
       None \<Rightarrow> ex_return ()
     | Some r \<Rightarrow>
         if br_status r \<noteq> RunRunning then ex_return ()
         else ex_quietly (ex_store W (\<lambda>c. if br_cancel_requested r then markCancelled c runId lease
           else markFailed c runId (Some lease) (errorCode e) (js_message e))))"

definition clean_up :: "exec_world \<Rightarrow> string \<Rightarrow> slot_lease \<Rightarrow> unit exec" where
  "clean_up W runId lease =
     ex_bind (ex_get (\<lambda>s. (getRun runId (ex_db s), ex_builder s, ex_retained s))) (\<lambda>(terminal, builder, retained).
     ex_then (case builder of None \<Rightarrow> ex_return () | Some i \<Rightarrow> ex_quietly (disposeSandbox (ex_await W (xw_done W)) i))
     (ex_then (case retained of
         None \<Rightarrow> ex_return ()
       | Some i \<Rightarrow> if map_option br_status terminal = Some RunPassed then ex_return ()
           else ex_quietly (disposeSandbox (ex_await W (xw_done W)) i))
     (ex_store W (\<lambda>c db. Inr ((), releaseSlot lease db)))))"

definition execute ::
  "runtime \<Rightarrow> controller_policy \<Rightarrow> exec_world \<Rightarrow> string \<Rightarrow> slot_lease \<Rightarrow> unit exec" where
  "execute R P W runId lease =
     ex_bind (ex_get (\<lambda>s. getAssignment runId (ex_db s))) (\<lambda>found. case found of
       None \<Rightarrow> ex_throw ''Error'' (''Assignment is missing for run '' @ runId)
     | Some assignment \<Rightarrow>
         ex_then (ex_set (\<lambda>s. s\<lparr>ex_reviews := indexAuthoritativeReviews (listEvidence runId (ex_db s))\<rparr>))
         (ex_finally (ex_catch (decide_run R P W runId lease assignment) (end_run W runId lease)) (clean_up W runId lease)))"

definition initial_execution :: "run_db \<Rightarrow> exec_state" where
  "initial_execution db = \<lparr>ex_db = db, ex_tick = 0, ex_reviews = [], ex_builder = None, ex_retained = None,
     ex_source = False, ex_command = None, ex_delivery = None, ex_trace_flushed = False\<rparr>"

end
