(* ===== verification/Executor_Invariants.thy ===== *)
theory Executor_Invariants
  imports Run_Executor Slot_Properties
begin

text \<open>
  What an execution does to the store.  \<open>preserves\<close> is the Hoare triple of a property of the database
  that a program keeps, whether it returns, throws or is cut; the rules in \<open>exec_rules\<close> take a program
  apart along its combinators.  \<open>stable\<close> properties survive the other clients of the store and every
  operation of the run's own that touches no slot, so every part of the execution but its last step,
  the release of the slot, keeps them.
\<close>

named_theorems exec_rules and exec_world_rules

definition preserves :: "(run_db \<Rightarrow> bool) \<Rightarrow> 'a exec \<Rightarrow> bool" where
  "preserves K m \<longleftrightarrow> (\<forall>s. K (ex_db s) \<longrightarrow> K (ex_db (snd (m s))))"

definition own_step :: "runtime \<Rightarrow> controller_policy \<Rightarrow> nat \<Rightarrow> run_db \<Rightarrow> run_db \<Rightarrow> bool" where
  "own_step R P n db db' \<longleftrightarrow> store_step R P n db db' \<and> db_slots db' = db_slots db"

definition stable :: "runtime \<Rightarrow> controller_policy \<Rightarrow> nat \<Rightarrow> exec_world \<Rightarrow> (run_db \<Rightarrow> bool) \<Rightarrow> bool" where
  "stable R P n W K \<longleftrightarrow> (\<forall>k db. K db \<longrightarrow> K (xw_env W k db)) \<and> (\<forall>db db'. K db \<longrightarrow> own_step R P n db db' \<longrightarrow> K db')"

lemma preserves_return [exec_rules]: "preserves K (ex_return x)"
  and preserves_throw [exec_rules]: "preserves K (ex_throw name message)"
  and preserves_get [exec_rules]: "preserves K (ex_get f)"
  by (simp_all add: preserves_def ex_return_def ex_throw_def ex_get_def)

lemma preserves_set: "(\<And>s. ex_db (f s) = ex_db s) \<Longrightarrow> preserves K (ex_set f)"
  by (simp add: preserves_def ex_set_def)

lemma preserves_sets [exec_rules]:
  "preserves K (ex_set (\<lambda>s. s\<lparr>ex_builder := b\<rparr>))" "preserves K (ex_set (\<lambda>s. s\<lparr>ex_retained := b\<rparr>))"
  "preserves K (ex_set (\<lambda>s. s\<lparr>ex_source := c\<rparr>))" "preserves K (ex_set (\<lambda>s. s\<lparr>ex_command := b\<rparr>))"
  "preserves K (ex_set (\<lambda>s. s\<lparr>ex_delivery := b\<rparr>))" "preserves K (ex_set (\<lambda>s. s\<lparr>ex_trace_flushed := c\<rparr>))"
  "preserves K (ex_set (\<lambda>s. s\<lparr>ex_source := c, ex_command := b, ex_delivery := b'\<rparr>))"
  "preserves K (ex_set (\<lambda>s. s\<lparr>ex_reviews := g s\<rparr>))"
  by (rule preserves_set, simp)+

lemma preserves_bind [exec_rules]: "preserves K m \<Longrightarrow> (\<And>x. preserves K (f x)) \<Longrightarrow> preserves K (ex_bind m f)"
  unfolding preserves_def ex_bind_def
proof (intro allI impI)
  fix s :: exec_state assume m: "\<forall>s. K (ex_db s) \<longrightarrow> K (ex_db (snd (m s)))" and f: "\<And>x. \<forall>s. K (ex_db s) \<longrightarrow> K (ex_db (snd (f x s)))"
    and s: "K (ex_db s)"
  obtain r s' where r: "m s = (r, s')" by (cases "m s")
  then have "K (ex_db s')" using m [rule_format, OF s] by simp
  then show "K (ex_db (snd (case m s of (Inl e, s') \<Rightarrow> (Inl e, s') | (Inr x, s') \<Rightarrow> f x s')))"
    using f r by (cases r) auto
qed

lemma preserves_then [exec_rules]: "preserves K m \<Longrightarrow> preserves K m' \<Longrightarrow> preserves K (ex_then m m')"
  unfolding ex_then_def by (rule preserves_bind)

lemma preserves_finally [exec_rules]: "preserves K m \<Longrightarrow> preserves K f \<Longrightarrow> preserves K (ex_finally m f)"
  unfolding preserves_def ex_finally_def
proof (intro allI impI)
  fix s :: exec_state assume m: "\<forall>s. K (ex_db s) \<longrightarrow> K (ex_db (snd (m s)))" and f: "\<forall>s. K (ex_db s) \<longrightarrow> K (ex_db (snd (f s)))"
    and s: "K (ex_db s)"
  obtain r s' where r: "m s = (r, s')" by (cases "m s")
  then have s': "K (ex_db s')" using m [rule_format, OF s] by simp
  obtain q s'' where q: "f s' = (q, s'')" by (cases "f s'")
  then have "K (ex_db s'')" using f [rule_format, OF s'] by simp
  then show "K (ex_db (snd (case m s of (Inl (Cut e), s') \<Rightarrow> (Inl (Cut e), s')
      | (r, s') \<Rightarrow> (case f s' of (Inl e, s'') \<Rightarrow> (Inl e, s'') | (Inr _, s'') \<Rightarrow> (r, s'')))))"
    using r q s' by (auto split: sum.splits exec_stop.splits)
qed

lemma preserves_quietly [exec_rules]: "preserves K m \<Longrightarrow> preserves K (ex_quietly m)"
  unfolding preserves_def ex_quietly_def
proof (intro allI impI)
  fix s :: exec_state assume m: "\<forall>s. K (ex_db s) \<longrightarrow> K (ex_db (snd (m s)))" and s: "K (ex_db s)"
  obtain r s' where r: "m s = (r, s')" by (cases "m s")
  then show "K (ex_db (snd (case m s of (Inl (Cut e), s') \<Rightarrow> (Inl (Cut e), s') | (_, s') \<Rightarrow> (Inr (), s'))))"
    using m [rule_format, OF s] by (auto split: sum.splits exec_stop.splits)
qed

lemma preserves_withAbort [exec_rules]: "preserves K m \<Longrightarrow> preserves K (withAbort m)"
  unfolding preserves_def withAbort_def
proof (intro allI impI)
  fix s :: exec_state assume m: "\<forall>s. K (ex_db s) \<longrightarrow> K (ex_db (snd (m s)))" and s: "K (ex_db s)"
  obtain r s' where r: "m s = (r, s')" by (cases "m s")
  then show "K (ex_db (snd (case m s of (Inl (Cut e), s') \<Rightarrow> (Inl (Thrown e), s') | r \<Rightarrow> r)))"
    using m [rule_format, OF s] by (auto split: sum.splits exec_stop.splits)
qed

lemma preserves_catch [exec_rules]:
  assumes "preserves K m" "\<And>e. preserves K (h e)" shows "preserves K (ex_catch m h)"
  unfolding preserves_def ex_catch_def
proof (intro allI impI)
  fix s :: exec_state assume s: "K (ex_db s)"
  obtain r s' where r: "m s = (r, s')" by (cases "m s")
  then have s': "K (ex_db s')" using assms(1) [unfolded preserves_def, rule_format, OF s] by simp
  then show "K (ex_db (snd (case m s of (Inl (Thrown e), s') \<Rightarrow> h e s' | r \<Rightarrow> r)))"
    using r assms(2) unfolding preserves_def by (auto split: sum.splits exec_stop.splits)
qed

lemma preserves_if [exec_rules]: "preserves K m \<Longrightarrow> preserves K m' \<Longrightarrow> preserves K (if b then m else m')"
  and preserves_option [exec_rules]: "preserves K m \<Longrightarrow> (\<And>x. preserves K (g x)) \<Longrightarrow> preserves K (case v of None \<Rightarrow> m | Some x \<Rightarrow> g x)"
  and preserves_prod [exec_rules]: "(\<And>a b. preserves K (h a b)) \<Longrightarrow> preserves K (case p of (a, b) \<Rightarrow> h a b)"
  and preserves_Let [exec_rules]: "(\<And>a. preserves K (l a)) \<Longrightarrow> preserves K (Let y l)"
  by (auto split: option.splits prod.splits)

lemma preserves_await [exec_world_rules]:
  assumes "stable R P n W K" shows "preserves K (ex_await W port)"
  using assms by (auto simp: preserves_def ex_await_def stable_def Let_def split: sum.splits)

lemma preserves_port [exec_world_rules]:
  assumes "stable R P n W K" shows "preserves K (ex_port W port)"
  using preserves_await [OF assms, of port] by (auto simp: preserves_def ex_port_def split: option.splits)

lemma preserves_store:
  assumes "\<And>c db x db'. K db \<Longrightarrow> operation c db = Inr (x, db') \<Longrightarrow> K db'"
  shows "preserves K (ex_store W operation)"
  using assms by (auto simp: preserves_def ex_store_def Let_def split: sum.splits)

lemma preserves_own:
  assumes "stable R P n W K" "\<And>c db x db'. operation c db = Inr (x, db') \<Longrightarrow> own_step R P n db db'"
  shows "preserves K (ex_store W operation)"
  using assms by (intro preserves_store) (auto simp: stable_def)

lemma preserves_ensureActive [exec_rules]: "preserves K (ensureActive W runId)"
  by (auto simp: preserves_def ensureActive_def ex_throw_def split: option.splits)

lemma preserves_assertFrozenDigest [exec_rules]: "preserves K (assertFrozenDigest R digest revision)"
  and preserves_bindRevision [exec_rules]: "preserves K (bindRevisionToControllerSource revision digest)"
  unfolding assertFrozenDigest_def bindRevisionToControllerSource_def by (intro exec_rules)+

subsection \<open>The run's own operations\<close>

lemma own_slots:
  "updateStage c i lease st p db = Inr (x, db') \<Longrightarrow> db_slots db' = db_slots db"
  "attachSandbox c i lease sb db = Inr (x, db') \<Longrightarrow> db_slots db' = db_slots db"
  "attachVerificationSandbox c i lease sb pu db = Inr (x, db') \<Longrightarrow> db_slots db' = db_slots db"
  "promoteVerificationSandbox c i lease sb db = Inr (x, db') \<Longrightarrow> db_slots db' = db_slots db"
  "setRevision c i lease h port db = Inr (x, db') \<Longrightarrow> db_slots db' = db_slots db"
  "startRun c i lease db = Inr (x, db') \<Longrightarrow> db_slots db' = db_slots db"
  "markPassed R P c uuid i lease rv tr db = Inr (x, db') \<Longrightarrow> db_slots db' = db_slots db"
  "markRejected c i lease reasons db = Inr (x, db') \<Longrightarrow> db_slots db' = db_slots db"
  "markFailed c i lv code m db = Inr (x, db') \<Longrightarrow> db_slots db' = db_slots db"
  "markCancelled c i lease db = Inr (x, db') \<Longrightarrow> db_slots db' = db_slots db"
  "recordAgentProgress c i lease ap db = Inr db' \<Longrightarrow> db_slots db' = db_slots db"
  "addEvidence R c i lease rc db = Inr db' \<Longrightarrow> db_slots db' = db_slots db"
  "recordArtifact R c i lease art db = Inr db' \<Longrightarrow> db_slots db' = db_slots db"
  by (auto simp: logged_op_defs store_simps recordAgentProgress_def addEvidence_def recordArtifact_def Let_def appendEvent_tables
      dest: update_and_log_slots markTerminal_slots markPassed_slots split: if_splits)

lemma own_steps:
  "updateStage c i lease st p db = Inr (x, db') \<Longrightarrow> own_step R P n db db'"
  "attachSandbox c i lease sb db = Inr (x, db') \<Longrightarrow> own_step R P n db db'"
  "attachVerificationSandbox c i lease sb pu db = Inr (x, db') \<Longrightarrow> own_step R P n db db'"
  "promoteVerificationSandbox c i lease sb db = Inr (x, db') \<Longrightarrow> own_step R P n db db'"
  "setRevision c i lease h port db = Inr (x, db') \<Longrightarrow> own_step R P n db db'"
  "startRun c i lease db = Inr (x, db') \<Longrightarrow> own_step R P n db db'"
  "markPassed R P c uuid i lease rv tr db = Inr (x, db') \<Longrightarrow> own_step R P n db db'"
  "markRejected c i lease reasons db = Inr (x, db') \<Longrightarrow> own_step R P n db db'"
  "markFailed c i lv code m db = Inr (x, db') \<Longrightarrow> own_step R P n db db'"
  "markCancelled c i lease db = Inr (x, db') \<Longrightarrow> own_step R P n db db'"
  "recordAgentProgress c i lease ap db = Inr db' \<Longrightarrow> own_step R P n db db'"
  "addEvidence R c i lease rc db = Inr db' \<Longrightarrow> own_step R P n db db'"
  "recordArtifact R c i lease art db = Inr db' \<Longrightarrow> own_step R P n db db'"
  unfolding own_step_def by (rule conjI, erule store_step.intros, erule own_slots)+

text \<open>The rules for the operations as the execution calls them.\<close>

lemma answering_unit_Inr [simp]: "answering_unit m = Inr (x, db') \<longleftrightarrow> m = Inr db'"
  by (auto simp: answering_unit_def store_simps)

lemma preserves_ops [exec_world_rules]:
  assumes "stable R P n W K"
  shows "preserves K (ex_store W (\<lambda>c. updateStage c i lease st p))"
    "preserves K (ex_store W (\<lambda>c. attachSandbox c i lease sb))"
    "preserves K (ex_store W (\<lambda>c. attachVerificationSandbox c i lease sb pu))"
    "preserves K (ex_store W (\<lambda>c. promoteVerificationSandbox c i lease sb))"
    "preserves K (ex_store W (\<lambda>c. setRevision c i lease h port))"
    "preserves K (ex_store W (\<lambda>c. startRun c i lease))"
    "preserves K (ex_store W (\<lambda>c db. answering_unit (recordAgentProgress c i lease ap db)))"
    "preserves K (ex_store W (\<lambda>c db. answering_unit (addEvidence R c i lease rc db)))"
    "preserves K (ex_store W (\<lambda>c db. answering_unit (recordArtifact R c i lease art db)))"
  by (rule preserves_own [OF assms], (simp only: answering_unit_Inr)?, erule own_steps)+

subsection \<open>The parts of an execution\<close>

lemma preserves_recordEvidence [exec_world_rules]:
  assumes "stable R P n W K" shows "preserves K (recordEvidence R W i lease rs)"
proof -
  have "preserves K m \<Longrightarrow> preserves K (fold (\<lambda>r m. ex_then m (ex_store W (\<lambda>c db. answering_unit (addEvidence R c i lease r db)))) rs m)" for m
    by (induction rs arbitrary: m) (simp_all add: preserves_then preserves_ops(8) [OF assms])
  then show ?thesis unfolding recordEvidence_def by (simp add: preserves_return)
qed

lemma preserves_agent_events [exec_world_rules]:
  assumes "stable R P n W K" shows "preserves K (agent_events W i lease rnd ps)"
  by (induction ps) (simp_all, (intro exec_rules exec_world_rules [OF assms] | assumption)+)

lemma preserves_pieces [exec_world_rules]:
  assumes st: "stable R P n W K"
  shows "preserves K (run_agent W i lease rnd)" "preserves K (reviewMutableWipAdvisory R W)"
    "preserves K (create_verifiers W i lease builder)" "preserves K (disposeSandbox (ex_port W port) sb)"
    "preserves K (disposeSandbox (ex_await W port) sb)"
  unfolding run_agent_def reviewMutableWipAdvisory_def create_verifiers_def createVerificationSandbox_def disposeSandbox_def
  by (intro exec_rules exec_world_rules [OF st])+

lemma preserves_ex_review [exec_world_rules]:
  assumes "stable R P n W K" shows "preserves K (ex_review R P W i revision c)"
  unfolding ex_review_def
proof (intro preserves_bind preserves_port [OF assms])
  fix call show "preserves K (\<lambda>s. case reviewRevision R P (rvc_uuid call) i revision c (rvc_policy_digest call) (rvc_started_at call)
         (rvc_completed_at call) (rvc_workspace call) (rvc_provider call) (rvc_aborted call) of
       Inl e \<Rightarrow> (Inl (Thrown (review_error_js e)), s) | Inr r \<Rightarrow> (Inr r, s))"
    by (auto simp: preserves_def split: sum.splits)
qed

lemma preserves_repair_briefs [exec_rules]: "preserves K (repair_briefs R P W prior review)"
  by (auto simp: preserves_def repair_briefs_def split: sum.splits)

lemma preserves_outcome [exec_rules]:
  "(\<And>a b c. preserves K (g a b c)) \<Longrightarrow> (\<And>a b c d. preserves K (h a b c d)) \<Longrightarrow>
     preserves K (case outcome of Verified a b c \<Rightarrow> g a b c | Unverified a b c d \<Rightarrow> h a b c d)"
  by (cases outcome) simp_all

lemma preserves_verification [exec_world_rules]:
  assumes st: "stable R P n W K"
  shows "preserves K (verify_commands R W i lease command)" "preserves K (verify_preview R W i lease rs)"
    "preserves K (verify_review R P W i lease revision c)" "preserves K (verify_delivery R W i lease revision)"
    "preserves K (dispose_locals W)" "preserves K (retain_delivery W i lease delivery outcome)"
  unfolding verify_commands_def verify_preview_def verify_review_def verify_delivery_def dispose_locals_def retain_delivery_def
  by (intro exec_rules exec_world_rules [OF st])+

lemma preserves_verify_evaluation [exec_world_rules]:
  assumes st: "stable R P n W K"
  shows "preserves K (verify_evaluation R P W i lease c advisory revision commands preview review prior delivery)"
  unfolding verify_evaluation_def by (intro exec_rules exec_world_rules [OF st])

lemma preserves_verify_source [exec_world_rules]:
  assumes st: "stable R P n W K"
  shows "preserves K (verify_source R P W i lease c builder advisory revision)"
  unfolding verify_source_def by (intro exec_rules exec_world_rules [OF st])

lemma preserves_verifyRevision [exec_world_rules]:
  assumes st: "stable R P n W K"
  shows "preserves K (verifyRevision R P W i lease c builder advisory)"
  unfolding verifyRevision_def by (intro exec_rules exec_world_rules [OF st])

lemma preserves_repair_rounds [exec_world_rules]:
  assumes st: "stable R P n W K"
  shows "preserves K (repair_rounds R P W i lease c builder rnd later)"
  by (induction later arbitrary: rnd) (simp_all only: repair_rounds.simps, (intro exec_rules exec_world_rules [OF st] | assumption)+)

lemma preserves_traced [exec_world_rules]:
  assumes st: "stable R P n W K"
  shows "preserves K (traced_execution R P W i lease a)"
  unfolding traced_execution_def by (intro exec_rules exec_world_rules [OF st])

lemma preserves_decide_run [exec_world_rules]:
  assumes st: "stable R P n W K"
  shows "preserves K (decide_run R P W i lease a)"
proof -
  have "preserves K (ex_store W (\<lambda>c. case outcome of ExecPassed revision \<Rightarrow> markPassed R P c uuid i lease (fr_source_digest revision) tr
       | ExecRejected reasons \<Rightarrow> markRejected c i lease reasons))" for outcome uuid tr
    by (cases outcome) (auto intro!: preserves_own [OF st] elim: own_steps)
  then show ?thesis unfolding decide_run_def by (intro exec_rules exec_world_rules [OF st])
qed

lemma preserves_end_run [exec_world_rules]:
  assumes st: "stable R P n W K"
  shows "preserves K (end_run W i lease e)"
proof -
  have "preserves K (ex_store W (\<lambda>c. if b then markCancelled c i lease else markFailed c i (Some lease) code m))" for b code m
    by (cases b) (auto intro!: preserves_own [OF st] elim: own_steps)
  then show ?thesis unfolding end_run_def by (intro exec_rules exec_world_rules [OF st])
qed

end
