(* ===== verification/Executor_Properties.thy ===== *)
theory Executor_Properties
  imports Executor_Invariants
begin

text \<open>
  An execution always settles its run: whatever the sandboxes and providers answer or throw, and
  whenever it is aborted, the promise of \<open>execute\<close> resolves, the run is terminal and the slot is free
  again, provided that nobody else takes the lease away meanwhile.
\<close>

subsection \<open>Programs that return, and what holds when they do\<close>

named_theorems uncut_rules

definition uncut :: "'a exec \<Rightarrow> bool" where
  "uncut m \<longleftrightarrow> (\<forall>s e. fst (m s) \<noteq> Inl (Cut e))"

definition returns :: "'a exec \<Rightarrow> bool" where
  "returns m \<longleftrightarrow> (\<forall>s. \<exists>x. fst (m s) = Inr x)"

definition ensures :: "(run_db \<Rightarrow> bool) \<Rightarrow> (run_db \<Rightarrow> bool) \<Rightarrow> 'a exec \<Rightarrow> bool" where
  "ensures K T m \<longleftrightarrow> (\<forall>s. K (ex_db s) \<longrightarrow> is_ok (fst (m s)) \<longrightarrow> T (ex_db (snd (m s))))"

lemma uncut_simple [uncut_rules]:
  "uncut (ex_return x)" "uncut (ex_throw name message)" "uncut (ex_get f)" "uncut (ex_set g)" "uncut (withAbort m)"
  "uncut (ex_store W operation)" "uncut (ex_await W port)" "uncut (ensureActive W i)"
  by (auto simp: uncut_def ex_return_def ex_throw_def ex_get_def ex_set_def withAbort_def ex_store_def ex_await_def
      ensureActive_def Let_def split: sum.splits exec_stop.splits prod.splits option.splits)

lemma uncut_bind [uncut_rules]: "uncut m \<Longrightarrow> (\<And>x. uncut (f x)) \<Longrightarrow> uncut (ex_bind m f)"
  unfolding uncut_def ex_bind_def by (auto split: sum.splits prod.splits) (metis fst_conv)

lemma uncut_then [uncut_rules]: "uncut m \<Longrightarrow> uncut m' \<Longrightarrow> uncut (ex_then m m')"
  unfolding ex_then_def by (rule uncut_bind)

lemma uncut_catch [uncut_rules]: "uncut m \<Longrightarrow> (\<And>e. uncut (h e)) \<Longrightarrow> uncut (ex_catch m h)"
  unfolding uncut_def ex_catch_def by (auto split: sum.splits prod.splits exec_stop.splits) (metis fst_conv)

lemma uncut_if [uncut_rules]: "uncut m \<Longrightarrow> uncut m' \<Longrightarrow> uncut (if b then m else m')"
  by simp

lemma returns_simple:
  "returns (ex_return x)" "returns (ex_get f)" "returns (ex_set g)" "uncut m \<Longrightarrow> returns (ex_quietly m)"
  by (auto simp: returns_def uncut_def ex_return_def ex_get_def ex_set_def ex_quietly_def
      split: sum.splits prod.splits exec_stop.splits) (metis fst_conv)

lemma returns_bind: "returns m \<Longrightarrow> (\<And>x. returns (f x)) \<Longrightarrow> returns (ex_bind m f)"
  unfolding returns_def ex_bind_def by (auto split: sum.splits prod.splits) (metis Inl_Inr_False fst_conv)

lemma returns_then: "returns m \<Longrightarrow> returns m' \<Longrightarrow> returns (ex_then m m')"
  unfolding ex_then_def by (rule returns_bind)

lemma ensures_bind: "preserves K m \<Longrightarrow> (\<And>x. ensures K T (f x)) \<Longrightarrow> ensures K T (ex_bind m f)"
  unfolding ensures_def preserves_def ex_bind_def by (auto split: sum.splits prod.splits)

lemma ensures_then: "preserves K m \<Longrightarrow> ensures K T m' \<Longrightarrow> ensures K T (ex_then m m')"
  unfolding ex_then_def by (rule ensures_bind)

lemma ensures_store:
  assumes "\<And>c db x db'. K db \<Longrightarrow> operation c db = Inr (x, db') \<Longrightarrow> T db'"
  shows "ensures K T (ex_store W operation)"
  using assms by (auto simp: ensures_def ex_store_def Let_def split: sum.splits)

lemma ensures_last: "ensures K T m \<Longrightarrow> ensures K T (ex_then m (ex_return x))"
  by (auto simp: ensures_def ex_then_def ex_bind_def ex_return_def split: sum.splits prod.splits)


subsection \<open>The store under an execution\<close>

lemma update_and_log_run:
  assumes "update_and_log i f ty st p t db = Inr (x, db')" "\<And>r. br_id (f r) = br_id r"
  shows "run_of db' i = map_option f (run_of db i)"
  using assms by (auto simp: update_and_log_def store_simps appendEvent_tables run_of_update_run)

lemma update_and_log_total:
  assumes "run_of db i = Some r" "json_carries p" "\<And>r. br_id (f r) = br_id r"
  shows "\<exists>x db'. update_and_log i f ty st p t db = Inr (x, db')"
proof -
  have "run_of (update_run i f db) i = Some (f r)" using assms by (simp add: run_of_update_run)
  then show ?thesis
    using appendEvent_carries [OF assms(2), of "update_run i f db" i ty st t]
    by (auto simp: update_and_log_def requireRun_def getRun_def)
qed

definition lease_lives :: "exec_world \<Rightarrow> slot_lease \<Rightarrow> run_db \<Rightarrow> bool" where
  "lease_lives W lease db \<longleftrightarrow> (\<forall>k j. list_ex (lease_current lease (xw_clock W k j)) (db_slots db))"

text \<open>The other clients use the store as it is meant, and leave the lease alone (its heartbeat apart).\<close>

definition fair_env :: "runtime \<Rightarrow> controller_policy \<Rightarrow> nat \<Rightarrow> exec_world \<Rightarrow> slot_lease \<Rightarrow> bool" where
  "fair_env R P n W lease \<longleftrightarrow> (\<forall>k db. store_steps R P n db (xw_env W k db)
     \<and> (lease_lives W lease db \<longrightarrow> lease_lives W lease (xw_env W k db)))"

definition leased_run ::
  "runtime \<Rightarrow> controller_policy \<Rightarrow> nat \<Rightarrow> exec_world \<Rightarrow> slot_lease \<Rightarrow> (run_status \<Rightarrow> bool) \<Rightarrow> run_db \<Rightarrow> bool" where
  "leased_run R P n W lease Q db \<longleftrightarrow> reachable R P n db \<and> lease_lives W lease db
     \<and> (\<exists>r. run_of db (sl_run_id lease) = Some r \<and> Q (br_status r))"

definition lasting :: "(run_status \<Rightarrow> bool) \<Rightarrow> bool" where
  "lasting Q \<longleftrightarrow> (\<forall>s t. Q s \<longrightarrow> status_step s t \<longrightarrow> Q t)"

lemma lasting_statuses: "lasting (\<lambda>s. s \<noteq> RunQueued)" "lasting isTerminalStatus" "lasting (\<lambda>_. True)"
proof -
  show "lasting (\<lambda>s. s \<noteq> RunQueued)"
    unfolding lasting_def
  proof (intro allI impI)
    fix s t assume "s \<noteq> RunQueued" "status_step s t" then show "t \<noteq> RunQueued" by (cases s) auto
  qed
qed (auto simp: lasting_def status_step_terminal)

lemma status_after:
  assumes "reachable R P n db" "store_steps R P n db db'" "run_of db i = Some r"
  shows "\<exists>r'. run_of db' i = Some r' \<and> status_step (br_status r) (br_status r')"
  using advances_run [OF steps_advance [OF assms(1,2)] assms(3)] by (auto simp: row_step_def)

lemma leased_run_steps:
  assumes "leased_run R P n W lease Q db" "store_steps R P n db db'" "lease_lives W lease db'" "lasting Q"
  shows "leased_run R P n W lease Q db'"
proof -
  obtain r where r: "reachable R P n db" "run_of db (sl_run_id lease) = Some r" "Q (br_status r)"
    using assms(1) by (auto simp: leased_run_def)
  obtain r' where "run_of db' (sl_run_id lease) = Some r'" "status_step (br_status r) (br_status r')"
    using status_after [OF r(1) assms(2) r(2)] by blast
  moreover have "reachable R P n db'" by (rule reachable_steps [OF r(1) assms(2)])
  ultimately show ?thesis using assms(3,4) r(3) unfolding leased_run_def lasting_def by blast
qed

lemma leased_run_stable:
  assumes "fair_env R P n W lease" "lasting Q" shows "stable R P n W (leased_run R P n W lease Q)"
  unfolding stable_def
proof (intro conjI allI impI)
  fix k db assume K: "leased_run R P n W lease Q db"
  then have "lease_lives W lease (xw_env W k db)" using assms(1) by (simp add: leased_run_def fair_env_def)
  with assms(1) show "leased_run R P n W lease Q (xw_env W k db)"
    using leased_run_steps [OF K _ _ assms(2)] by (simp add: fair_env_def)
next
  fix db db' assume K: "leased_run R P n W lease Q db" and step: "own_step R P n db db'"
  then have "lease_lives W lease db'" by (simp add: leased_run_def own_step_def lease_lives_def)
  moreover have "store_steps R P n db db'"
    using step steps_step [OF steps_refl] unfolding own_step_def by blast
  ultimately show "leased_run R P n W lease Q db'" using leased_run_steps [OF K _ _ assms(2)] by blast
qed

lemma lease_asserted:
  "lease_lives W lease db \<Longrightarrow> assertLease (sl_run_id lease) lease (xw_clock W k j) db = Inr ()"
  by (simp add: assertLease_def lease_lives_def require_Inr)

text \<open>A queued run starts, a running run can be ended, and no other outcome of the two is possible.\<close>

lemma startRun_starts:
  assumes "leased_run R P n W lease (\<lambda>_. True) db"
  shows "startRun (xw_clock W k) (sl_run_id lease) lease db = Inr (x, db') \<Longrightarrow>
      leased_run R P n W lease (\<lambda>s. s \<noteq> RunQueued) db'"
    "startRun (xw_clock W k) (sl_run_id lease) lease db = Inl e \<Longrightarrow> leased_run R P n W lease (\<lambda>s. s \<noteq> RunQueued) db"
proof -
  let ?i = "sl_run_id lease"
  let ?f = "\<lambda>r :: run_row. r\<lparr>br_status := RunRunning, br_stage := StageProvisioning,
         br_slot_id := Some (sl_slot_id lease), br_fencing_token := Some (sl_fencing_token lease),
         br_updated_at := xw_clock W k 1\<rparr>"
  obtain r where r: "run_of db ?i = Some r" "lease_lives W lease db" "reachable R P n db"
    using assms by (auto simp: leased_run_def)
  note lease = lease_asserted [OF r(2), of k]
  { assume ok: "startRun (xw_clock W k) ?i lease db = Inr (x, db')"
    then have "run_of db' ?i = map_option ?f (run_of db ?i)" "db_slots db' = db_slots db"
      by (auto simp: startRun_def store_simps dest: update_and_log_slots intro!: update_and_log_run)
    moreover have "reachable R P n db'" using reachable_step [OF r(3) store_step.startRun [OF ok]] .
    ultimately show "leased_run R P n W lease (\<lambda>s. s \<noteq> RunQueued) db'"
      using r by (simp add: leased_run_def lease_lives_def) }
  { assume no: "startRun (xw_clock W k) ?i lease db = Inl e"
    have "br_status r \<noteq> RunQueued"
    proof
      assume "br_status r = RunQueued"
      then have "startRun (xw_clock W k) ?i lease db = update_and_log ?i ?f ''run.started'' StageProvisioning
          (JObject [(''slotId'', jnat (sl_slot_id lease)), (''fencingToken'', jnat (sl_fencing_token lease))]) (xw_clock W k 1) db"
        using lease r(1) by (simp add: startRun_def requireRun_def getRun_def)
      moreover have "\<exists>x db'. update_and_log ?i ?f ''run.started'' StageProvisioning
          (JObject [(''slotId'', jnat (sl_slot_id lease)), (''fencingToken'', jnat (sl_fencing_token lease))]) (xw_clock W k 1) db = Inr (x, db')"
        by (rule update_and_log_total [OF r(1)]) simp_all
      ultimately show False using no by auto
    qed
    with r show "leased_run R P n W lease (\<lambda>s. s \<noteq> RunQueued) db" by (simp add: leased_run_def) }
qed

lemma markTerminal_ends:
  assumes "markTerminal c i (Some lease) status code m p db = Inr (x, db')" "isTerminalStatus status"
  shows "\<exists>r. run_of db' i = Some r \<and> isTerminalStatus (br_status r)"
proof -
  obtain r where r: "run_of db i = Some r" "br_status r = RunRunning"
    using assms(1) by (auto simp: markTerminal_def assertActiveRun_def Let_def store_simps requireRun_def getRun_def)
  with assms(1) have "update_and_log i (ended_row status code m (c 1)) (''run.'' @ run_status_text status) StageComplete p (c 1) db = Inr (x, db')"
    by (auto simp: markTerminal_def assertActiveRun_def Let_def store_simps requireRun_def getRun_def)
  then have "run_of db' i = map_option (ended_row status code m (c 1)) (run_of db i)"
    by (rule update_and_log_run) (simp add: ended_row_def)
  with r assms(2) show ?thesis by (simp add: ended_row_def)
qed

lemma markTerminal_possible:
  assumes "lease_lives W lease db" "run_of db (sl_run_id lease) = Some r" "br_status r = RunRunning" "json_carries p"
  shows "\<exists>x db'. markTerminal (xw_clock W k) (sl_run_id lease) (Some lease) status code m p db = Inr (x, db')"
proof -
  have "markTerminal (xw_clock W k) (sl_run_id lease) (Some lease) status code m p db =
      update_and_log (sl_run_id lease) (ended_row status code m (xw_clock W k 1)) (''run.'' @ run_status_text status) StageComplete p (xw_clock W k 1) db"
    using assms(2,3) lease_asserted [OF assms(1), of k]
    by (simp add: markTerminal_def assertActiveRun_def Let_def requireRun_def getRun_def)
  then show ?thesis using update_and_log_total [OF assms(2,4)] by (simp add: ended_row_def)
qed


subsection \<open>Deciding, ending, cleaning up\<close>

abbreviation run_ended where "run_ended R P n W lease \<equiv> leased_run R P n W lease isTerminalStatus"
abbreviation run_begun where "run_begun R P n W lease \<equiv> leased_run R P n W lease (\<lambda>s. s \<noteq> RunQueued)"

lemma ended_by:
  assumes "leased_run R P n W lease Q db" "own_step R P n db db'"
    "\<exists>r. run_of db' (sl_run_id lease) = Some r \<and> isTerminalStatus (br_status r)"
  shows "run_ended R P n W lease db'"
proof -
  have "reachable R P n db'"
    using assms(1,2) reachable_step unfolding leased_run_def own_step_def by blast
  moreover have "lease_lives W lease db'" using assms(1,2) by (simp add: leased_run_def own_step_def lease_lives_def)
  ultimately show ?thesis using assms(3) by (simp add: leased_run_def)
qed

lemma markPassed_ends:
  assumes "markPassed R P c uuid i lease rv tr db = Inr (x, db')"
  shows "\<exists>r. run_of db' i = Some r \<and> isTerminalStatus (br_status r)"
  using assms
proof (rule markPassed_InrD)
  fix r a rk e
  assume run: "run_of db i = Some r"
    and log: "update_and_log i (passed_row (c 1)) ''candidate.proven'' StageComplete
       (payload_json (proven_payload (rowToRun r) i rv a tr rk)) (c 1) (db\<lparr>db_outbox := db_outbox db @ [e]\<rparr>) = Inr (x, db')"
  have "run_of db' i = map_option (passed_row (c 1)) (run_of db i)"
    using update_and_log_run [OF log] by (simp add: passed_row_def)
  with run show ?thesis by (simp add: passed_row_def)
qed

lemma decision_ends:
  assumes "run_begun R P n W lease db"
    "(case outcome of ExecPassed revision \<Rightarrow> markPassed R P c uuid (sl_run_id lease) lease (fr_source_digest revision) tr
       | ExecRejected reasons \<Rightarrow> markRejected c (sl_run_id lease) lease reasons) db = Inr (x, db')"
  shows "run_ended R P n W lease db'"
proof (cases outcome)
  case (ExecPassed revision)
  then show ?thesis using assms ended_by own_steps(7) markPassed_ends by (metis execution_outcome.simps(5))
next
  case (ExecRejected reasons)
  then have m: "markRejected c (sl_run_id lease) lease reasons db = Inr (x, db')" using assms(2) by simp
  then have "\<exists>r. run_of db' (sl_run_id lease) = Some r \<and> isTerminalStatus (br_status r)"
    unfolding markRejected_def by (rule markTerminal_ends) simp
  then show ?thesis by (rule ended_by [OF assms(1) own_steps(8) [OF m]])
qed

lemma uncut_decide_run: "uncut (decide_run R P W i lease a)"
  unfolding decide_run_def by (intro uncut_rules)

text \<open>After the start: whatever is thrown the run is not queued, and a decision that returns is made.\<close>

lemma decide_run_ends:
  assumes fair: "fair_env R P n W lease" and K: "leased_run R P n W lease (\<lambda>_. True) (ex_db s)"
    and d: "decide_run R P W (sl_run_id lease) lease a s = (result, s')"
  shows "run_begun R P n W lease (ex_db s')" "result = Inr x \<Longrightarrow> run_ended R P n W lease (ex_db s')"
proof -
  let ?i = "sl_run_id lease" and ?B = "run_begun R P n W lease"
  define rest where "rest = ex_bind (withAbort (traced_execution R P W ?i lease a)) (\<lambda>outcome.
     ex_then (withAbort (ex_port W (xw_done W))) (ex_then (ex_set (\<lambda>s. s\<lparr>ex_trace_flushed := True\<rparr>))
     (ex_then (ensureActive W ?i) (ex_bind (ex_get ex_tick) (\<lambda>k.
     ex_then (ex_store W (\<lambda>c. case outcome of
         ExecPassed revision \<Rightarrow> markPassed R P c (xw_uuid W k) ?i lease (fr_source_digest revision) (xw_trace_id W)
       | ExecRejected reasons \<Rightarrow> markRejected c ?i lease reasons)) (ex_return ()))))))"
  have whole: "decide_run R P W ?i lease a = ex_then (ex_store W (\<lambda>c. startRun c ?i lease)) rest"
    by (simp add: decide_run_def rest_def)
  note st = leased_run_stable [OF fair lasting_statuses(1)]
  have decision: "preserves ?B (ex_store W (\<lambda>c. case outcome of
         ExecPassed revision \<Rightarrow> markPassed R P c uuid ?i lease (fr_source_digest revision) tr
       | ExecRejected reasons \<Rightarrow> markRejected c ?i lease reasons))" for outcome uuid tr
    by (cases outcome) (auto intro!: preserves_own [OF st] elim: own_steps)
  have rest_keeps: "preserves ?B rest"
    unfolding rest_def by (intro exec_rules exec_world_rules [OF st] decision)
  have rest_ends: "ensures ?B (run_ended R P n W lease) rest"
    unfolding rest_def
    by (intro ensures_bind ensures_then ensures_last exec_rules exec_world_rules [OF st] ensures_store) (erule decision_ends)
  let ?k = "ex_tick s"
  have "?B (ex_db s') \<and> (\<forall>x. result = Inr x \<longrightarrow> run_ended R P n W lease (ex_db s'))"
  proof (cases "startRun (xw_clock W ?k) ?i lease (ex_db s)")
    case (Inl e)
    then have "ex_db s' = ex_db s" "\<forall>x. result \<noteq> Inr x"
      using d unfolding whole by (auto simp: ex_then_def ex_bind_def ex_store_def Let_def)
    with startRun_starts(2) [OF K Inl] show ?thesis by simp
  next
    case (Inr y)
    obtain run db1 where y: "y = (run, db1)" by (cases y)
    let ?s1 = "s\<lparr>ex_tick := Suc ?k, ex_db := db1\<rparr>"
    have r: "rest ?s1 = (result, s')"
      using d Inr y unfolding whole by (simp add: ex_then_def ex_bind_def ex_store_def Let_def)
    have "?B (ex_db ?s1)" using startRun_starts(1) [OF K Inr [unfolded y]] by simp
    with rest_keeps rest_ends r show ?thesis
      unfolding preserves_def ensures_def by (metis fst_conv snd_conv is_ok_simps(1))
  qed
  then show "?B (ex_db s')" "result = Inr x \<Longrightarrow> run_ended R P n W lease (ex_db s')" by simp_all
qed

lemma end_run_ends:
  assumes K: "run_begun R P n W lease (ex_db s)" and e: "end_run W (sl_run_id lease) lease e s = (result, s')"
  shows "run_ended R P n W lease (ex_db s') \<and> result = Inr ()"
proof -
  let ?i = "sl_run_id lease" and ?k = "ex_tick s"
  obtain r where r: "run_of (ex_db s) ?i = Some r" "br_status r \<noteq> RunQueued" "lease_lives W lease (ex_db s)"
    using K by (auto simp: leased_run_def)
  then have get: "getRun ?i (ex_db s) = Some (rowToRun r)" by (simp add: getRun_def)
  show ?thesis
  proof (cases "br_status r = RunRunning")
    case False
    then have "run_ended R P n W lease (ex_db s)"
      using K r not_terminal_iff [of "br_status r"] by (simp add: leased_run_def)
    then show ?thesis using e get False by (auto simp: end_run_def ex_bind_def ex_get_def ex_return_def)
  next
    case True
    let ?op = "\<lambda>c. if br_cancel_requested r then markCancelled c ?i lease
       else markFailed c ?i (Some lease) (errorCode e) (js_message e)"
    have op: "?op c = (\<lambda>db. markTerminal c ?i (Some lease) (if br_cancel_requested r then RunCancelled else RunFailed)
        (if br_cancel_requested r then ''cancelled'' else errorCode e)
        (if br_cancel_requested r then ''Build run cancelled'' else js_message e)
        (if br_cancel_requested r then JObject [] else JObject [(''code'', jstr (errorCode e))]) db)" for c
      by (simp add: markCancelled_def markFailed_def fun_eq_iff)
    have carries: "json_carries (if br_cancel_requested r then JObject [] else JObject [(''code'', jstr (errorCode e))])" by simp
    obtain y db' where d: "?op (xw_clock W ?k) (ex_db s) = Inr (y, db')"
      unfolding op using markTerminal_possible [OF r(3,1) True carries] by blast
    have "own_step R P n (ex_db s) db'"
      using d own_steps(9,10) by (auto split: if_splits)
    moreover have "\<exists>r. run_of db' ?i = Some r \<and> isTerminalStatus (br_status r)"
      using d unfolding op by (rule markTerminal_ends) simp
    ultimately have "run_ended R P n W lease db'" by (rule ended_by [OF K])
    moreover have "s' = s\<lparr>ex_tick := Suc ?k, ex_db := db'\<rparr> \<and> result = Inr ()"
      using e get True d
      by (auto simp: end_run_def ex_bind_def ex_get_def ex_return_def ex_quietly_def ex_store_def Let_def)
    ultimately show ?thesis by simp
  qed
qed


definition settled :: "runtime \<Rightarrow> controller_policy \<Rightarrow> nat \<Rightarrow> slot_lease \<Rightarrow> run_db \<Rightarrow> bool" where
  "settled R P n lease db \<longleftrightarrow> reachable R P n db
     \<and> (\<exists>r. run_of db (sl_run_id lease) = Some r \<and> isTerminalStatus (br_status r))
     \<and> \<not> list_ex (holds_lease lease) (db_slots db)"

lemma released: "\<not> list_ex (holds_lease lease) (db_slots (releaseSlot lease db))"
  by (auto simp: releaseSlot_def list_ex_iff holds_lease_def clear_row_def elim!: in_update_whereE)

lemma releaseSlot_settles:
  assumes "run_ended R P n W lease db" shows "settled R P n lease (releaseSlot lease db)"
  using assms reachable_step [OF _ store_step.releaseSlot] released
  unfolding settled_def leased_run_def by (fastforce simp: releaseSlot_def)

lemma clean_up_settles:
  assumes fair: "fair_env R P n W lease" and K: "run_ended R P n W lease (ex_db s)"
    and c: "clean_up W (sl_run_id lease) lease s = (result, s')"
  shows "result = Inr () \<and> settled R P n lease (ex_db s')"
proof -
  note st = leased_run_stable [OF fair lasting_statuses(2)]
  have "returns (ex_store W (\<lambda>c db. Inr ((), releaseSlot lease db)))"
    by (simp add: returns_def ex_store_def Let_def)
  moreover have "uncut (disposeSandbox (ex_await W port) sandbox)" for port sandbox
    unfolding disposeSandbox_def by (intro uncut_rules)
  ultimately have "returns (clean_up W (sl_run_id lease) lease)"
    unfolding clean_up_def
    by (auto intro!: returns_bind returns_then returns_simple split: option.splits)
  then have ok: "is_ok result" using c unfolding returns_def by (metis fst_conv is_ok_iff)
  have "ensures (run_ended R P n W lease) (settled R P n lease) (ex_store W (\<lambda>c db. Inr ((), releaseSlot lease db)))"
    by (rule ensures_store) (auto intro: releaseSlot_settles)
  then have "ensures (run_ended R P n W lease) (settled R P n lease) (clean_up W (sl_run_id lease) lease)"
    unfolding clean_up_def split_def
    by (intro ensures_bind ensures_then exec_rules exec_world_rules [OF st])
  then show ?thesis using K c ok unfolding ensures_def by (auto simp: is_ok_iff dest!: spec [of _ s])
qed

subsection \<open>The execution\<close>



definition sample_outage :: "nat \<Rightarrow> exec_error + 'a" where
  "sample_outage k = Inl (JsError ''DaytonaError'' ''sandbox unavailable'')"

definition sample_canceller :: "nat \<Rightarrow> run_db \<Rightarrow> run_db" where
  "sample_canceller k db = (if k = 1 then (case requestCancel (\<lambda>_. 0) ''run-1'' None db of Inl _ \<Rightarrow> db | Inr (_, db') \<Rightarrow> db') else db)"

definition sample_world :: exec_world where
  "sample_world = \<lparr>xw_clock = (\<lambda>k j. int (min k 500)), xw_env = sample_canceller, xw_abort = (\<lambda>_. None), xw_signal = (\<lambda>_. None),
     xw_done = sample_outage, xw_sandbox = sample_outage, xw_agent = (\<lambda>_. ([], Inr ())), xw_freeze = sample_outage,
     xw_digest = sample_outage, xw_export = sample_outage, xw_commands = sample_outage, xw_preview = sample_outage,
     xw_review = sample_outage, xw_raster = sample_outage, xw_evaluation = sample_outage, xw_snapshot = sample_outage,
     xw_artifact = sample_outage, xw_uuid = (\<lambda>_. ''event-1''), xw_trace_id = ''trace-1'', xw_advisory_review = True,
     xw_error_text = (\<lambda>_. ''store error''), xw_reason_text = (\<lambda>_. ''reason'')\<rparr>"

lemma sample_world_fair: "fair_env sample_runtime sample_policy 4 sample_world sample_lease"
proof -
  have "store_steps sample_runtime sample_policy 4 db (sample_canceller k db) \<and> db_slots (sample_canceller k db) = db_slots db" for k db
    by (auto simp: sample_canceller_def steps_refl requestCancel_slots split: sum.splits
        intro: steps_step [OF steps_refl store_step.requestCancel])
  then show ?thesis by (simp add: fair_env_def lease_lives_def sample_world_def)
qed


end
