(* ===== verification/Build_Scheduler.thy ===== *)
theory Build_Scheduler
  imports Slot_Properties
begin

text \<open>
  \<open>src/application/build-scheduler.ts\<close>: the component that gives queued runs to the executor.  Its
  state is the map of active runs (in insertion order, each with the lease its heartbeat keeps and
  its abort signal) and the \<open>stopped\<close> and \<open>ticking\<close> flags.  It knows the run store only through the
  operations of \<open>run_port\<close>, the part of \<open>RunStore\<close> (\<open>src/ports/index.ts\<close>) it calls; the laws it
  relies on are the locale \<open>queue_port\<close>, which the SQLite store satisfies (\<open>sqlite_queue\<close>).

  \<open>begin_run\<close> stands for what \<open>BuildExecutor.execute\<close> does to the store before its first
  \<open>await\<close>; what it does later, and what every other client of the store does, are environment steps.
\<close>

record ('db, 'e) run_port =
  port_recover :: "clock \<Rightarrow> 'db \<Rightarrow> 'e + (recovered_run list \<times> 'db)"
  port_list_queued :: "int \<Rightarrow> 'db \<Rightarrow> build_run list"
  port_acquire :: "clock \<Rightarrow> string \<Rightarrow> int \<Rightarrow> 'db \<Rightarrow> 'e + (slot_lease option \<times> 'db)"
  port_get_run :: "string \<Rightarrow> 'db \<Rightarrow> build_run option"
  port_heartbeat :: "clock \<Rightarrow> slot_lease \<Rightarrow> int \<Rightarrow> 'db \<Rightarrow> 'e + (slot_lease \<times> 'db)"
  port_cancel :: "clock \<Rightarrow> string \<Rightarrow> cancellation_request option \<Rightarrow> 'db \<Rightarrow> 'e + (cancellation_result \<times> 'db)"

record active_run =
  act_run_id :: string
  act_lease :: slot_lease
  act_aborted :: bool

record scheduler =
  bs_active :: "active_run list"
  bs_lease_milliseconds :: int
  bs_polling :: bool
  bs_stopped :: bool
  bs_ticking :: bool

definition new_scheduler :: "int \<Rightarrow> scheduler" where
  "new_scheduler leaseMilliseconds = \<lparr>bs_active = [], bs_lease_milliseconds = leaseMilliseconds,
     bs_polling = False, bs_stopped = True, bs_ticking = False\<rparr>"

definition activeCount :: "scheduler \<Rightarrow> nat" where
  "activeCount s = length (bs_active s)"

definition has_active :: "scheduler \<Rightarrow> string \<Rightarrow> bool" where
  "has_active s runId \<longleftrightarrow> runId \<in> act_run_id ` set (bs_active s)"

definition abort_where :: "(active_run \<Rightarrow> bool) \<Rightarrow> scheduler \<Rightarrow> scheduler" where
  "abort_where Q s = s\<lparr>bs_active := update_where Q (\<lambda>a. a\<lparr>act_aborted := True\<rparr>) (bs_active s)\<rparr>"

definition dispatch :: "string \<Rightarrow> slot_lease \<Rightarrow> scheduler \<Rightarrow> scheduler" where
  "dispatch runId lease s =
     s\<lparr>bs_active := bs_active s @ [\<lparr>act_run_id = runId, act_lease = lease, act_aborted = False\<rparr>]\<rparr>"

text \<open>The loop of \<open>wake\<close>: one clock per run, an exception leaves the loop and is thrown.\<close>

fun dispatch_queued ::
  "('db, 'e) run_port \<Rightarrow> (string \<Rightarrow> slot_lease \<Rightarrow> 'db \<Rightarrow> 'db) \<Rightarrow> (string \<Rightarrow> clock) \<Rightarrow> build_run list
    \<Rightarrow> scheduler \<Rightarrow> 'db \<Rightarrow> 'e option \<times> scheduler \<times> 'db" where
  "dispatch_queued S begin_run ck [] s db = (None, s, db)"
| "dispatch_queued S begin_run ck (run # runs) s db =
     (let runId = br_id run in
      if has_active s runId then dispatch_queued S begin_run ck runs s db
      else case port_acquire S (ck runId) runId (bs_lease_milliseconds s) db of
        Inl e \<Rightarrow> (Some e, s, db)
      | Inr (None, db') \<Rightarrow> (None, s, db')
      | Inr (Some lease, db') \<Rightarrow>
          dispatch_queued S begin_run ck runs (dispatch runId lease s) (begin_run runId lease db'))"

definition wake ::
  "('db, 'e) run_port \<Rightarrow> (string \<Rightarrow> slot_lease \<Rightarrow> 'db \<Rightarrow> 'db) \<Rightarrow> (string \<Rightarrow> clock)
    \<Rightarrow> scheduler \<Rightarrow> 'db \<Rightarrow> 'e option \<times> scheduler \<times> 'db" where
  "wake S begin_run ck s db =
     (if bs_stopped s \<or> bs_ticking s then (None, s, db)
      else let available = max 0 (4 - int (activeCount s));
               (thrown, s', db') = dispatch_queued S begin_run ck (port_list_queued S available db)
                 (s\<lparr>bs_ticking := True\<rparr>) db in
        (thrown, s'\<lparr>bs_ticking := False\<rparr>, db'))"

definition start ::
  "('db, 'e) run_port \<Rightarrow> (string \<Rightarrow> slot_lease \<Rightarrow> 'db \<Rightarrow> 'db) \<Rightarrow> clock \<Rightarrow> (string \<Rightarrow> clock)
    \<Rightarrow> scheduler \<Rightarrow> 'db \<Rightarrow> 'e option \<times> scheduler \<times> 'db" where
  "start S begin_run c ck s db =
     (if \<not> bs_stopped s then (None, s, db)
      else let s1 = s\<lparr>bs_stopped := False\<rparr> in
        case port_recover S c db of
          Inl e \<Rightarrow> (Some e, s1, db)
        | Inr (_, db') \<Rightarrow> wake S begin_run ck (s1\<lparr>bs_polling := True\<rparr>) db')"

text \<open>\<open>stop\<close> up to the point where it waits for the completions.\<close>

definition stop :: "scheduler \<Rightarrow> scheduler" where
  "stop s = (if bs_stopped s then s
     else abort_where (\<lambda>_. True) (s\<lparr>bs_stopped := True, bs_polling := False\<rparr>))"

definition scheduler_cancellation :: cancellation_request where
  "scheduler_cancellation = \<lparr>cq_source = ''internal'', cq_reason_code = Some ''scheduler_cancellation'',
     cq_correlation_id = None, cq_expected = None\<rparr>"

definition cancel ::
  "('db, 'e) run_port \<Rightarrow> clock \<Rightarrow> string \<Rightarrow> cancellation_request option \<Rightarrow> scheduler \<Rightarrow> 'db
    \<Rightarrow> 'e + (cancellation_result \<times> scheduler \<times> 'db)" where
  "cancel S c runId request s db =
     bind_ok (port_cancel S c runId (Some (case request of None \<Rightarrow> scheduler_cancellation | Some q \<Rightarrow> q)) db) (\<lambda>(result, db').
     Inr (result, if cx_changed result then abort_where (\<lambda>a. act_run_id a = runId) s else s, db'))"

text \<open>The interval that \<open>#dispatch\<close> starts for an active run.\<close>

definition beat ::
  "('db, 'e) run_port \<Rightarrow> clock \<Rightarrow> active_run \<Rightarrow> scheduler \<Rightarrow> 'db \<Rightarrow> scheduler \<times> 'db" where
  "beat S c a s db =
     (if (case port_get_run S (act_run_id a) db of None \<Rightarrow> False | Some run \<Rightarrow> br_cancel_requested run)
      then (abort_where (\<lambda>x. act_run_id x = act_run_id a) s, db)
      else case port_heartbeat S c (act_lease a) (bs_lease_milliseconds s) db of
        Inl e \<Rightarrow> (abort_where (\<lambda>x. act_run_id x = act_run_id a) s, db)
      | Inr (lease, db') \<Rightarrow>
          (s\<lparr>bs_active := update_where (\<lambda>x. act_run_id x = act_run_id a) (\<lambda>x. x\<lparr>act_lease := lease\<rparr>) (bs_active s)\<rparr>, db'))"

text \<open>The \<open>finally\<close> of an execution.\<close>

definition finish ::
  "('db, 'e) run_port \<Rightarrow> (string \<Rightarrow> slot_lease \<Rightarrow> 'db \<Rightarrow> 'db) \<Rightarrow> (string \<Rightarrow> clock) \<Rightarrow> string
    \<Rightarrow> scheduler \<Rightarrow> 'db \<Rightarrow> 'e option \<times> scheduler \<times> 'db" where
  "finish S begin_run ck runId s db =
     (let s' = s\<lparr>bs_active := filter (\<lambda>a. act_run_id a \<noteq> runId) (bs_active s)\<rparr> in
      if \<not> bs_stopped s' then wake S begin_run ck s' db else (None, s', db))"

text \<open>The scheduler among the other clients of the store.\<close>

inductive sched_step ::
  "('db, 'e) run_port \<Rightarrow> (string \<Rightarrow> slot_lease \<Rightarrow> 'db \<Rightarrow> 'db) \<Rightarrow> ('db \<Rightarrow> 'db \<Rightarrow> bool)
    \<Rightarrow> scheduler \<Rightarrow> 'db \<Rightarrow> scheduler \<Rightarrow> 'db \<Rightarrow> bool"
  for S begin_run env where
  sched_wake: "wake S begin_run ck s db = (thrown, s', db') \<Longrightarrow> sched_step S begin_run env s db s' db'"
| sched_start: "start S begin_run c ck s db = (thrown, s', db') \<Longrightarrow> sched_step S begin_run env s db s' db'"
| sched_stop: "sched_step S begin_run env s db (stop s) db"
| sched_cancel: "cancel S c i request s db = Inr (result, s', db') \<Longrightarrow> sched_step S begin_run env s db s' db'"
| sched_beat: "a \<in> set (bs_active s) \<Longrightarrow> beat S c a s db = (s', db') \<Longrightarrow> sched_step S begin_run env s db s' db'"
| sched_finish: "finish S begin_run ck i s db = (thrown, s', db') \<Longrightarrow> sched_step S begin_run env s db s' db'"
| sched_env: "env db db' \<Longrightarrow> sched_step S begin_run env s db s db'"

inductive sched_reachable ::
  "('db, 'e) run_port \<Rightarrow> (string \<Rightarrow> slot_lease \<Rightarrow> 'db \<Rightarrow> 'db) \<Rightarrow> ('db \<Rightarrow> 'db \<Rightarrow> bool) \<Rightarrow> int \<Rightarrow> 'db
    \<Rightarrow> scheduler \<Rightarrow> 'db \<Rightarrow> bool"
  for S begin_run env ms db0 where
  sched_init: "sched_reachable S begin_run env ms db0 (new_scheduler ms) db0"
| sched_more: "sched_reachable S begin_run env ms db0 s db \<Longrightarrow> sched_step S begin_run env s db s' db'
    \<Longrightarrow> sched_reachable S begin_run env ms db0 s' db'"

subsection \<open>What the scheduler keeps\<close>

text \<open>No run is executed twice at a time, and every execution holds a lease of its own run.\<close>

definition active_ok :: "scheduler \<Rightarrow> bool" where
  "active_ok s \<longleftrightarrow> distinct (map act_run_id (bs_active s))
     \<and> (\<forall>a \<in> set (bs_active s). sl_run_id (act_lease a) = act_run_id a)"

locale queue_port =
  fixes S :: "('db, 'e) run_port"
    and begin_run :: "string \<Rightarrow> slot_lease \<Rightarrow> 'db \<Rightarrow> 'db"
    and env :: "'db \<Rightarrow> 'db \<Rightarrow> bool"
    and sound :: "'db \<Rightarrow> bool"
  assumes recover_sound: "sound db \<Longrightarrow> port_recover S c db = Inr (rs, db') \<Longrightarrow> sound db'"
    and acquire_sound: "sound db \<Longrightarrow> port_acquire S c i ms db = Inr (lv, db') \<Longrightarrow> sound db'"
    and acquire_lease: "port_acquire S c i ms db = Inr (Some lease, db') \<Longrightarrow> sl_run_id lease = i"
    and heartbeat_sound: "sound db \<Longrightarrow> port_heartbeat S c lease ms db = Inr (lease', db') \<Longrightarrow> sound db'"
    and heartbeat_lease: "port_heartbeat S c lease ms db = Inr (lease', db') \<Longrightarrow> sl_run_id lease' = sl_run_id lease"
    and cancel_sound: "sound db \<Longrightarrow> port_cancel S c i request db = Inr (result, db') \<Longrightarrow> sound db'"
    and begin_sound: "sound db \<Longrightarrow> sound (begin_run i lease db)"
    and env_sound: "sound db \<Longrightarrow> env db db' \<Longrightarrow> sound db'"
begin

lemma dispatch_queued_ok:
  "dispatch_queued S begin_run ck runs s db = (thrown, s', db') \<Longrightarrow> active_ok s \<Longrightarrow> sound db
    \<Longrightarrow> active_ok s' \<and> sound db'"
proof (induction runs arbitrary: s db)
  case (Cons run runs)
  show ?case
  proof (cases "has_active s (br_id run)")
    case True
    with Cons show ?thesis by (auto simp: Let_def)
  next
    case new: False
    note prems = Cons.prems
    show ?thesis
    proof (cases "port_acquire S (ck (br_id run)) (br_id run) (bs_lease_milliseconds s) db")
      case (Inl e)
      with prems new show ?thesis by (auto simp: Let_def)
    next
      case (Inr r)
      obtain lv db1 where r: "r = (lv, db1)" by (cases r)
      note acq = Inr [unfolded r]
      have db1: "sound db1" by (rule acquire_sound [OF prems(3) acq])
      show ?thesis
      proof (cases lv)
        case None
        with prems new acq db1 show ?thesis by (auto simp: Let_def)
      next
        case (Some lease)
        have "active_ok (dispatch (br_id run) lease s)"
          using prems(2) new acquire_lease [OF acq [unfolded Some]]
          by (auto simp: active_ok_def dispatch_def has_active_def)
        moreover have "sound (begin_run (br_id run) lease db1)" by (rule begin_sound [OF db1])
        ultimately show ?thesis using Cons.IH prems(1) new acq Some by (auto simp: Let_def)
      qed
    qed
  qed
qed simp

lemma wake_ok:
  assumes "wake S begin_run ck s db = (thrown, s', db')" "active_ok s" "sound db"
  shows "active_ok s' \<and> sound db'"
proof (cases "bs_stopped s \<or> bs_ticking s")
  case False
  let ?runs = "port_list_queued S (max 0 (4 - int (activeCount s))) db"
  obtain e s1 db1 where d: "dispatch_queued S begin_run ck ?runs (s\<lparr>bs_ticking := True\<rparr>) db = (e, s1, db1)"
    by (cases "dispatch_queued S begin_run ck ?runs (s\<lparr>bs_ticking := True\<rparr>) db") auto
  have "active_ok (s\<lparr>bs_ticking := True\<rparr>)" using assms(2) by (simp add: active_ok_def)
  from dispatch_queued_ok [OF d this assms(3)] have "active_ok s1" "sound db1" by simp_all
  moreover have "s' = s1\<lparr>bs_ticking := False\<rparr>" "db' = db1" using assms(1) False d by (simp_all add: wake_def)
  ultimately show ?thesis by (simp add: active_ok_def)
qed (use assms in \<open>auto simp: wake_def\<close>)

lemma active_ok_update:
  assumes "active_ok s" "\<And>a. act_run_id (f a) = act_run_id a"
    "\<And>a. Q a \<Longrightarrow> sl_run_id (act_lease a) = act_run_id a \<Longrightarrow> sl_run_id (act_lease (f a)) = act_run_id a"
  shows "active_ok (s\<lparr>bs_active := update_where Q f (bs_active s)\<rparr>)"
proof -
  have "map act_run_id (update_where Q f (bs_active s)) = map act_run_id (bs_active s)"
    using assms(2) by (simp add: update_where_def)
  then show ?thesis
    using assms by (auto simp: active_ok_def elim!: in_update_whereE)
qed

lemma abort_ok: "active_ok s \<Longrightarrow> active_ok (abort_where Q s)"
  unfolding abort_where_def by (rule active_ok_update) simp_all

lemma beat_ok:
  assumes "beat S c a s db = (s', db')" "a \<in> set (bs_active s)" "active_ok s" "sound db"
  shows "active_ok s' \<and> sound db'"
proof -
  let ?aborted = "abort_where (\<lambda>x. act_run_id x = act_run_id a) s"
  consider "s' = ?aborted" "db' = db"
    | lease where "port_heartbeat S c (act_lease a) (bs_lease_milliseconds s) db = Inr (lease, db')"
        "s' = s\<lparr>bs_active := update_where (\<lambda>x. act_run_id x = act_run_id a) (\<lambda>x. x\<lparr>act_lease := lease\<rparr>) (bs_active s)\<rparr>"
    using assms(1) by (auto simp: beat_def split: if_splits sum.splits)
  then show ?thesis
  proof cases
    case (2 lease)
    have "sl_run_id lease = act_run_id a"
      using heartbeat_lease [OF 2(1)] assms(2,3) by (simp add: active_ok_def)
    then have "active_ok s'" unfolding 2(2) by (intro active_ok_update assms(3)) simp_all
    with heartbeat_sound [OF assms(4) 2(1)] show ?thesis by simp
  qed (use assms abort_ok in simp)
qed

lemma finish_ok:
  assumes "finish S begin_run ck i s db = (thrown, s', db')" "active_ok s" "sound db"
  shows "active_ok s' \<and> sound db'"
proof -
  let ?s = "s\<lparr>bs_active := filter (\<lambda>a. act_run_id a \<noteq> i) (bs_active s)\<rparr>"
  have ok: "active_ok ?s" using assms(2) by (auto simp: active_ok_def distinct_map_filter)
  show ?thesis
  proof (cases "bs_stopped s")
    case True
    with assms(1,3) ok show ?thesis by (auto simp: finish_def)
  next
    case False
    with assms(1) have "wake S begin_run ck ?s db = (thrown, s', db')" by (simp add: finish_def)
    then show ?thesis by (rule wake_ok [OF _ ok assms(3)])
  qed
qed

lemma start_ok:
  assumes "start S begin_run c ck s db = (thrown, s', db')" "active_ok s" "sound db"
  shows "active_ok s' \<and> sound db'"
proof (cases "bs_stopped s")
  case True
  show ?thesis
  proof (cases "port_recover S c db")
    case (Inl e)
    with assms True show ?thesis by (auto simp: start_def active_ok_def)
  next
    case (Inr r)
    obtain rs db1 where r: "r = (rs, db1)" by (cases r)
    let ?s = "s\<lparr>bs_stopped := False, bs_polling := True\<rparr>"
    have ok: "active_ok ?s" using assms(2) by (simp add: active_ok_def)
    have "wake S begin_run ck ?s db1 = (thrown, s', db')" using assms(1) True Inr r by (simp add: start_def)
    then show ?thesis by (rule wake_ok [OF _ ok recover_sound [OF assms(3) Inr [unfolded r]]])
  qed
qed (use assms in \<open>auto simp: start_def\<close>)

lemma sched_step_ok:
  "sched_step S begin_run env s db s' db' \<Longrightarrow> active_ok s \<Longrightarrow> sound db \<Longrightarrow> active_ok s' \<and> sound db'"
proof (induction rule: sched_step.induct)
  case (sched_wake ck s db thrown s' db')
  then show ?case by (rule wake_ok)
next
  case (sched_start c ck s db thrown s' db')
  then show ?case by (rule start_ok)
next
  case (sched_stop s db)
  then have "active_ok (abort_where (\<lambda>_. True) (s\<lparr>bs_stopped := True, bs_polling := False\<rparr>))"
    by (intro abort_ok) (simp add: active_ok_def)
  with sched_stop show ?case by (simp add: stop_def)
next
  case (sched_cancel c i request s db result s' db')
  then obtain q result' where r: "port_cancel S c i q db = Inr (result', db')"
    and s': "s' = s \<or> s' = abort_where (\<lambda>a. act_run_id a = i) s"
    by (auto simp: cancel_def store_simps)
  show ?case using s' abort_ok [OF sched_cancel(2)] sched_cancel(2) cancel_sound [OF sched_cancel(3) r] by auto
next
  case (sched_beat a s c db s' db')
  then show ?case by (intro beat_ok)
next
  case (sched_finish ck i s db thrown s' db')
  then show ?case by (intro finish_ok)
next
  case (sched_env db db' s)
  then show ?case using env_sound by simp
qed

theorem sched_reachable_ok:
  assumes "sched_reachable S begin_run env ms db0 s db" "sound db0"
  shows "active_ok s" "sound db"
proof -
  from assms have "active_ok s \<and> sound db"
    by (induction rule: sched_reachable.induct) (auto simp: new_scheduler_def active_ok_def dest: sched_step_ok)
  then show "active_ok s" "sound db" by simp_all
qed

end

end
