(* ===== verification/Scheduler_Properties.thy ===== *)
theory Scheduler_Properties
  imports Build_Scheduler Executor_Properties
begin

text \<open>
  The scheduler on the SQLite store and the build run executor: the store provides \<open>run_port\<close> and its
  laws (\<open>sqlite_queue\<close>), the executor the start of an execution.
\<close>

definition sqlite_port :: "nat \<Rightarrow> (run_db, store_error) run_port" where
  "sqlite_port n = \<lparr>port_recover = recoverInterruptedRuns, port_list_queued = listQueued,
     port_acquire = acquireSlot n, port_get_run = getRun, port_heartbeat = heartbeat,
     port_cancel = requestCancel\<rparr>"

text \<open>\<open>execute\<close> up to its first \<open>await\<close>: it starts the run, or ends what it could not start and frees
  the slot.\<close>

definition execute_begin :: "exec_world \<Rightarrow> string \<Rightarrow> slot_lease \<Rightarrow> run_db \<Rightarrow> run_db" where
  "execute_begin W runId lease db =
     (case getAssignment runId db of
        None \<Rightarrow> db
      | Some _ \<Rightarrow>
          (case ex_store W (\<lambda>c. startRun c runId lease) (initial_execution db) of
             (Inr _, s) \<Rightarrow> ex_db s
           | (Inl (Thrown e), s) \<Rightarrow> releaseSlot lease (ex_db (snd (end_run W runId lease e s)))
           | (Inl (Cut _), s) \<Rightarrow> ex_db s))"

lemma reachable_end_run:
  assumes "reachable R P n (ex_db s)" shows "reachable R P n (ex_db (snd (end_run W i lease e s)))"
proof -
  let ?W = "W\<lparr>xw_env := \<lambda>_ db. db\<rparr>"
  have "ex_store ?W operation = ex_store W operation" for operation :: "clock \<Rightarrow> run_db \<Rightarrow> store_error + (build_run \<times> run_db)"
    by (rule ext) (simp add: ex_store_def Let_def split: sum.split)
  then have "end_run ?W i lease e = end_run W i lease e" unfolding end_run_def by presburger
  moreover have "stable R P n ?W (reachable R P n)"
    by (auto simp: stable_def own_step_def intro: reachable_step)
  ultimately show ?thesis using preserves_end_run assms unfolding preserves_def by metis
qed

lemma execute_begin_reachable:
  assumes "reachable R P n db" shows "reachable R P n (execute_begin W i lease db)"
proof (cases "startRun (xw_clock W 0) i lease db")
  case (Inl e)
  show ?thesis
    using assms Inl by (auto simp: execute_begin_def ex_store_def Let_def initial_execution_def
        intro!: reachable_step [OF _ store_step.releaseSlot] reachable_end_run split: option.splits)
next
  case (Inr y)
  then show ?thesis
    using assms by (cases y) (auto simp: execute_begin_def ex_store_def Let_def initial_execution_def
        intro: reachable_step store_step.startRun split: option.splits)
qed

lemma acquireSlot_run_id: "acquireSlot n c i ms db = Inr (Some lease, db') \<Longrightarrow> sl_run_id lease = i"
  by (auto simp: acquireSlot_def Let_def store_simps split: if_splits option.splits)

interpretation sqlite_queue: queue_port "sqlite_port n" "\<lambda>i. execute_begin (W i) i" "store_steps R P n" "reachable R P n"
  for n W R P
proof unfold_locales
  fix db c i ms lease lease' lv db' rs request result
  show "reachable R P n db \<Longrightarrow> port_recover (sqlite_port n) c db = Inr (rs, db') \<Longrightarrow> reachable R P n db'"
    by (auto simp: sqlite_port_def intro: reachable_step store_step.recoverInterruptedRuns)
  show "reachable R P n db \<Longrightarrow> port_acquire (sqlite_port n) c i ms db = Inr (lv, db') \<Longrightarrow> reachable R P n db'"
    by (auto simp: sqlite_port_def intro: reachable_step store_step.acquireSlot)
  show "port_acquire (sqlite_port n) c i ms db = Inr (Some lease, db') \<Longrightarrow> sl_run_id lease = i"
    by (auto simp: sqlite_port_def dest: acquireSlot_run_id)
  show "reachable R P n db \<Longrightarrow> port_heartbeat (sqlite_port n) c lease ms db = Inr (lease', db') \<Longrightarrow> reachable R P n db'"
    by (auto simp: sqlite_port_def intro: reachable_step store_step.heartbeat)
  show "port_heartbeat (sqlite_port n) c lease ms db = Inr (lease', db') \<Longrightarrow> sl_run_id lease' = sl_run_id lease"
    by (auto simp: sqlite_port_def heartbeat_def Let_def split: if_splits)
  show "reachable R P n db \<Longrightarrow> port_cancel (sqlite_port n) c i request db = Inr (result, db') \<Longrightarrow> reachable R P n db'"
    by (auto simp: sqlite_port_def intro: reachable_step store_step.requestCancel)
  show "reachable R P n db \<Longrightarrow> reachable R P n (execute_begin (W i) i lease db)"
    by (rule execute_begin_reachable)
  show "reachable R P n db \<Longrightarrow> store_steps R P n db db' \<Longrightarrow> reachable R P n db'"
    by (rule reachable_steps)
qed

text \<open>\<open>wake\<close> asks for no run when four are active, and the store lists one all the same.\<close>

lemma full_scheduler_is_offered_a_run:
  assumes "4 \<le> activeCount s" "list_ex (\<lambda>r. br_status r = RunQueued \<and> \<not> br_cancel_requested r) (db_runs db)"
  shows "length (port_list_queued (sqlite_port n) (max 0 (4 - int (activeCount s))) db) = 1"
proof -
  let ?q = "filter (\<lambda>r. br_status r = RunQueued \<and> \<not> br_cancel_requested r) (db_runs db)"
  have "?q \<noteq> []" using assms(2) by (auto simp: list_ex_iff filter_empty_conv)
  then have "1 \<le> length (order_by (\<lambda>r. (br_created_at r, br_id r)) ?q)"
    by (simp add: order_by_eq_sort_key Suc_le_eq)
  then show ?thesis using assms(1) by (simp add: sqlite_port_def listQueued_def safe_limit_def min_absorb2)
qed

text \<open>C33. Whatever the scheduler, its executions and the other clients of the store do, no run is
  executed twice at a time, every execution holds a lease of its own run, and at most as many
  executions as there are slots hold a lease that the store accepts.\<close>

theorem executions_are_exclusive:
  assumes "sched_reachable (sqlite_port n) (\<lambda>i. execute_begin (W i) i) (store_steps R P n) ms db0 s db"
    and "reachable R P n db0"
  shows "distinct (map act_run_id (bs_active s)) \<and> (\<forall>a \<in> set (bs_active s). sl_run_id (act_lease a) = act_run_id a)
    \<and> card {i \<in> act_run_id ` set (bs_active s). \<exists>a \<in> set (bs_active s). act_run_id a = i
          \<and> assertLease i (act_lease a) now db = Inr ()} \<le> n
    \<and> reachable R P n db"
proof -
  note ok = sqlite_queue.sched_reachable_ok [OF assms]
  let ?held = "{i. \<exists>s \<in> set (db_slots db). sr_run_id s = Some i}"
  let ?live = "{i \<in> act_run_id ` set (bs_active s). \<exists>a \<in> set (bs_active s). act_run_id a = i
          \<and> assertLease i (act_lease a) now db = Inr ()}"
  have "?live \<subseteq> ?held"
    using ok(1) by (auto simp: assertLease_def require_Inr list_ex_iff lease_current_def holds_lease_def active_ok_def split: if_splits)
  moreover have "finite ?held"
  proof (rule finite_subset)
    show "?held \<subseteq> (\<lambda>s. the (sr_run_id s)) ` set (db_slots db)" by force
  qed simp
  ultimately have "card ?live \<le> card ?held" by (rule card_mono [rotated])
  with slot_capacity [OF ok(2)] ok show ?thesis by (simp add: active_ok_def)
qed


lemma sample_start:
  fixes evs n
  defines "d \<equiv> sample_db sample_queued (map free_slot [1, 2, 3, 4]) [] [] [] evs n"
  shows "\<exists>s' db'. start (sqlite_port 4) (\<lambda>i. execute_begin sample_world i) (\<lambda>_. 0) (\<lambda>_ _. 0) (new_scheduler 1000) d = (None, s', db')
    \<and> map act_run_id (bs_active s') = [''run-1'']"
proof -
  have q: "listQueued 4 d = [rowToRun sample_queued]"
    by (simp add: listQueued_def d_def sample_db_def sample_queued_fields safe_limit_def order_by_def)
  have r: "recoverInterruptedRuns (\<lambda>_. 0) d = Inr ([], d)"
    by (simp add: recoverInterruptedRuns_def d_def sample_db_def sample_queued_fields free_slot_def clear_row_def Let_def cleanup_due_def)
  have a: "acquireSlot 4 (\<lambda>_. 0) ''run-1'' 1000 d = Inr (Some sample_lease, sample_db sample_queued sample_slots [] [] [] evs n)"
    unfolding d_def by (rule sample_acquire)
  show ?thesis
    by (simp add: start_def new_scheduler_def sqlite_port_def r wake_def activeCount_def q sample_queued_fields(1) a has_active_def dispatch_def Let_def)
qed

theorem executions_are_exclusive_witness:
  "\<exists>(s :: scheduler) db. map act_run_id (bs_active s) = [''run-1''] \<and> (\<forall>a \<in> set (bs_active s). sl_run_id (act_lease a) = act_run_id a)
    \<and> reachable sample_runtime sample_policy 4 db"
proof -
  obtain evs n where r: "reachable sample_runtime sample_policy 4 (sample_db sample_queued (map free_slot [1, 2, 3, 4]) [] [] [] evs n)"
    using sample_created by (auto simp: sample_reach_def)
  let ?d = "sample_db sample_queued (map free_slot [1, 2, 3, 4]) [] [] [] evs n"
  obtain s db where st: "start (sqlite_port 4) (\<lambda>i. execute_begin sample_world i) (\<lambda>_. 0) (\<lambda>_ _. 0) (new_scheduler 1000) ?d = (None, s, db)"
    "map act_run_id (bs_active s) = [''run-1'']"
    using sample_start [of evs n] by (elim exE conjE) (rule that)
  have "sched_reachable (sqlite_port 4) (\<lambda>i. execute_begin sample_world i) (store_steps sample_runtime sample_policy 4) 1000 ?d s db"
    by (rule sched_more [OF sched_init sched_start [OF st(1)]])
  from executions_are_exclusive [OF this r, where now = 0] st(2) show ?thesis by (intro exI [of _ s] exI [of _ db]) simp
qed

end
