(* ===== verification/Customer_Observability.thy ===== *)
theory Customer_Observability
  imports Run_Machine
begin

text \<open>
  \<open>src/application/customer-build-observability.ts\<close> with its schemas (\<open>src/domain/customer-observability.ts\<close>):
  what a customer sees of a build run.  The run's events are read page by page, each is turned into a
  timeline item without identities or payloads, or left out, and the items after the customer's cursor
  are cut to the limit.  A number of the query is a JavaScript value, since the code checks that it is
  a safe integer.
\<close>

datatype timeline_category = CatWorkspace | CatStage | CatTool | CatEvidence | CatLifecycle

record timeline_event =
  te_sequence :: nat
  te_category :: timeline_category
  te_stage :: run_stage
  te_occurred_at :: time
  te_tool :: "agent_tool option"
  te_succeeded :: "bool option"
  te_evidence_kind :: "string option"
  te_evidence_status :: "evidence_status option"

datatype slot_view = SlotWaiting | SlotActive nat | SlotReleased

datatype workspace_view = WorkspaceUnavailable | WorkspaceStarting | WorkspaceLiveUnverified

record run_progress =
  og_completed_tool_calls :: nat
  og_failed_tool_calls :: nat
  og_last_tool :: "agent_tool option"
  og_repair_round :: int

record run_proof =
  oq_receipt_count :: nat
  oq_pass_count :: nat
  oq_fail_count :: nat
  oq_error_count :: nat
  oq_by_kind :: "(string \<times> nat) list"
  oq_proven_artifact_available :: bool

record observation =
  cv_run_id :: string
  cv_project_id :: string
  cv_candidate_id :: string
  cv_status :: run_status
  cv_stage :: run_stage
  cv_slot :: slot_view
  cv_workspace :: workspace_view
  cv_progress :: run_progress
  cv_proof :: run_proof
  cv_items :: "timeline_event list"
  cv_next_after :: int
  cv_has_more :: bool
  cv_created_at :: time
  cv_updated_at :: time
  cv_completed_at :: "time option"

datatype observe_error =
    CursorRange | LimitRange | InvalidEventSequence | EventLimitExceeded | TimelineSchema | ObservationSchema

definition CUSTOMER_BUILD_TIMELINE_LIMIT :: int where "CUSTOMER_BUILD_TIMELINE_LIMIT = 250"
definition MAX_RECONSTRUCTION_PAGES :: nat where "MAX_RECONSTRUCTION_PAGES = 100"
definition RECONSTRUCTION_PAGE_SIZE :: nat where "RECONSTRUCTION_PAGE_SIZE = 1000"

subsection \<open>The query\<close>

text \<open>\<open>Number.isSafeInteger\<close>.\<close>

definition safe_integer :: "jsval \<Rightarrow> int option" where
  "safe_integer v = (case v of
     JNumber q \<Rightarrow> (let (n, d) = quotient_of q in if d = 1 \<and> \<bar>n\<bar> \<le> 2 ^ 53 - 1 then Some n else None)
   | _ \<Rightarrow> None)"

definition boundedAfterSequence :: "jsval \<Rightarrow> observe_error + int" where
  "boundedAfterSequence v =
     (if v = JUndefined then Inr 0
      else case safe_integer v of None \<Rightarrow> Inl CursorRange | Some n \<Rightarrow> if n < 0 then Inl CursorRange else Inr n)"

definition boundedTimelineLimit :: "jsval \<Rightarrow> observe_error + int" where
  "boundedTimelineLimit v =
     (if v = JUndefined then Inr 100
      else case safe_integer v of None \<Rightarrow> Inl LimitRange
      | Some n \<Rightarrow> if n < 1 then Inl LimitRange else Inr (min CUSTOMER_BUILD_TIMELINE_LIMIT n))"

subsection \<open>Reading the events\<close>

fun accept_page :: "string \<Rightarrow> run_event list \<Rightarrow> nat \<Rightarrow> run_event list \<Rightarrow> observe_error + (run_event list \<times> nat)" where
  "accept_page runId [] cursor events = Inr (events, cursor)"
| "accept_page runId (e # es) cursor events =
     (if ev_run_id e \<noteq> runId \<or> ev_sequence e \<le> cursor then Inl InvalidEventSequence
      else accept_page runId es (ev_sequence e) (events @ [e]))"

fun read_event_pages :: "nat \<Rightarrow> run_db \<Rightarrow> string \<Rightarrow> nat \<Rightarrow> run_event list \<Rightarrow> observe_error + run_event list" where
  "read_event_pages 0 db runId cursor events = Inl EventLimitExceeded"
| "read_event_pages (Suc pages) db runId cursor events =
     (let next = listEvents runId (int cursor) (Some (int RECONSTRUCTION_PAGE_SIZE)) db in
      if next = [] then Inr events
      else bind_ok (accept_page runId next cursor events) (\<lambda>(events', cursor').
        if length next < RECONSTRUCTION_PAGE_SIZE then Inr events'
        else read_event_pages pages db runId cursor' events'))"

definition reconstructRunEvents :: "run_db \<Rightarrow> string \<Rightarrow> observe_error + run_event list" where
  "reconstructRunEvents db runId = read_event_pages MAX_RECONSTRUCTION_PAGES db runId 0 []"

subsection \<open>Payloads\<close>

definition int_in :: "int \<Rightarrow> int \<Rightarrow> jsval option \<Rightarrow> int option" where
  "int_in lo hi v = (case v of
     Some (JNumber q) \<Rightarrow> (let (n, d) = quotient_of q in if d = 1 \<and> lo \<le> n \<and> n \<le> hi then Some n else None)
   | _ \<Rightarrow> None)"

definition AGENT_TOOLS :: "agent_tool list" where
  "AGENT_TOOLS = [ToolFinish, ToolListFiles, ToolReadFile, ToolRunCommand, ToolStartPreview, ToolUnknown,
     ToolWriteFile, ToolWriteFiles]"

definition tool_named :: "jsval option \<Rightarrow> agent_tool option" where
  "tool_named v = (case v of Some (JString s) \<Rightarrow> find (\<lambda>t. tool_text t = s) AGENT_TOOLS | _ \<Rightarrow> None)"

definition bool_of :: "jsval option \<Rightarrow> bool option" where
  "bool_of v = (case v of Some (JBool b) \<Rightarrow> Some b | _ \<Rightarrow> None)"

text \<open>\<open>AgentProgressSchema.safeParse\<close>: a strict object.\<close>

definition parse_agent_progress :: "jsval \<Rightarrow> agent_progress option" where
  "parse_agent_progress v = (case v of
     JObject props \<Rightarrow>
       (if \<not> list_all (\<lambda>kv. fst kv \<in> {''step'', ''repairRound'', ''toolName'', ''ok''}) props then None
        else case (int_in 1 200 (map_of props ''step''), int_in 0 10 (map_of props ''repairRound''),
            tool_named (map_of props ''toolName''), bool_of (map_of props ''ok'')) of
          (Some s, Some r, Some t, Some b) \<Rightarrow>
            Some \<lparr>ap_step = s, ap_repair_round = r, ap_tool_name = t, ap_ok = b\<rparr>
        | _ \<Rightarrow> None)
   | _ \<Rightarrow> None)"

definition status_named :: "jsval option \<Rightarrow> evidence_status option" where
  "status_named v = (case v of Some (JString s) \<Rightarrow> find (\<lambda>t. status_text t = s) [EvPass, EvFail, EvError] | _ \<Rightarrow> None)"

text \<open>\<open>EvidenceProgressSchema.safeParse\<close>: other properties are stripped.\<close>

definition parse_evidence_progress :: "jsval \<Rightarrow> (string \<times> evidence_status) option" where
  "parse_evidence_progress v = (case v of
     JObject props \<Rightarrow>
       (case (map_of props ''kind'', status_named (map_of props ''status'')) of
          (Some (JString k), Some st) \<Rightarrow> if 1 \<le> length k \<and> length k \<le> 128 then Some (k, st) else None
        | _ \<Rightarrow> None)
   | _ \<Rightarrow> None)"

subsection \<open>The timeline\<close>

definition timeline_item :: "run_event \<Rightarrow> timeline_category \<Rightarrow> timeline_event" where
  "timeline_item e cat = \<lparr>te_sequence = ev_sequence e, te_category = cat, te_stage = ev_stage e,
     te_occurred_at = ev_created_at e, te_tool = None, te_succeeded = None, te_evidence_kind = None,
     te_evidence_status = None\<rparr>"

text \<open>The view of an event, before \<open>CustomerBuildTimelineEventSchema.parse\<close>, which wants a positive sequence.\<close>

definition timeline_view :: "run_event \<Rightarrow> timeline_event option" where
  "timeline_view e =
     (if starts_with ''stage.'' (ev_type e) then Some (timeline_item e CatStage)
      else if ev_type e = ''agent.tool_completed'' then
        map_option (\<lambda>p. (timeline_item e CatTool)\<lparr>te_tool := Some (ap_tool_name p), te_succeeded := Some (ap_ok p)\<rparr>)
          (parse_agent_progress (ev_payload e))
      else if ev_type e = ''evidence.recorded'' then
        map_option (\<lambda>(k, st). (timeline_item e CatEvidence)\<lparr>te_evidence_kind := Some k, te_evidence_status := Some st\<rparr>)
          (parse_evidence_progress (ev_payload e))
      else if ev_type e \<in> {''sandbox.builder_attached'', ''sandbox.verification_attached'', ''sandbox.verification_promoted''}
      then Some (timeline_item e CatWorkspace)
      else if starts_with ''run.'' (ev_type e) \<or> ev_type e \<in> {''artifact.recorded'', ''revision.frozen''}
      then Some (timeline_item e CatLifecycle)
      else None)"

definition toCustomerTimelineEvent :: "run_event \<Rightarrow> observe_error + timeline_event option" where
  "toCustomerTimelineEvent e =
     (case timeline_view e of None \<Rightarrow> Inr None
      | Some t \<Rightarrow> bind_ok (require (0 < te_sequence t) TimelineSchema) (\<lambda>_. Inr (Some t)))"

subsection \<open>Summaries\<close>

definition summarizeProgress :: "run_event list \<Rightarrow> run_progress" where
  "summarizeProgress events =
     fold (\<lambda>e s. if ev_type e \<noteq> ''agent.tool_completed'' then s
        else case parse_agent_progress (ev_payload e) of
          None \<Rightarrow> s
        | Some p \<Rightarrow> \<lparr>og_completed_tool_calls = Suc (og_completed_tool_calls s),
            og_failed_tool_calls = (if ap_ok p then og_failed_tool_calls s else Suc (og_failed_tool_calls s)),
            og_last_tool = Some (ap_tool_name p), og_repair_round = ap_repair_round p\<rparr>)
       events \<lparr>og_completed_tool_calls = 0, og_failed_tool_calls = 0, og_last_tool = None, og_repair_round = 0\<rparr>"

definition count_where :: "('a \<Rightarrow> bool) \<Rightarrow> 'a list \<Rightarrow> nat" where
  "count_where Q xs = length (filter Q xs)"

definition count_by_kind :: "evidence_receipt list \<Rightarrow> (string \<times> nat) list" where
  "count_by_kind rs = fold (\<lambda>r m. map_set (receipt_kind_text r)
     (Suc (case map_of m (receipt_kind_text r) of None \<Rightarrow> 0 | Some k \<Rightarrow> k)) m) rs []"

definition summarize_proof :: "run_db \<Rightarrow> string \<Rightarrow> run_proof" where
  "summarize_proof db runId =
     (let rs = listEvidence runId db; with_status = (\<lambda>st. count_where (\<lambda>r. rb_status (receipt_header r) = st) rs) in
      \<lparr>oq_receipt_count = length rs, oq_pass_count = with_status EvPass, oq_fail_count = with_status EvFail,
       oq_error_count = with_status EvError, oq_by_kind = count_by_kind rs,
       oq_proven_artifact_available = (getArtifact runId db \<noteq> None)\<rparr>)"

definition customerSlot :: "build_run \<Rightarrow> slot_view" where
  "customerSlot run =
     (if br_status run = RunQueued then SlotWaiting
      else case br_slot_id run of
        None \<Rightarrow> SlotReleased
      | Some k \<Rightarrow> if br_status run = RunRunning then SlotActive k else SlotReleased)"

definition customerWorkspaceState :: "build_run \<Rightarrow> workspace_view" where
  "customerWorkspaceState run =
     (if br_status run = RunRunning \<and> br_sandbox_id run \<noteq> None then WorkspaceLiveUnverified
      else if br_status run = RunQueued \<or> (br_status run = RunRunning \<and> br_sandbox_id run = None) then WorkspaceStarting
      else WorkspaceUnavailable)"

subsection \<open>The observation\<close>

text \<open>What \<open>CustomerBuildObservationSchema\<close> checks beyond the types.\<close>

definition observation_ok :: "runtime \<Rightarrow> observation \<Rightarrow> bool" where
  "observation_ok R o' \<longleftrightarrow> rt_is_uuid R (cv_run_id o')
     \<and> 1 \<le> length (cv_project_id o') \<and> length (cv_project_id o') \<le> 128
     \<and> 1 \<le> length (cv_candidate_id o') \<and> length (cv_candidate_id o') \<le> 128
     \<and> (case cv_slot o' of SlotActive k \<Rightarrow> 0 < k | _ \<Rightarrow> True)
     \<and> 0 \<le> og_repair_round (cv_progress o') \<and> 0 \<le> cv_next_after o'
     \<and> int (length (cv_items o')) \<le> CUSTOMER_BUILD_TIMELINE_LIMIT
     \<and> list_all (\<lambda>t. 0 < te_sequence t) (cv_items o')"

definition observeBuildRunForCustomer ::
  "runtime \<Rightarrow> run_db \<Rightarrow> build_run \<Rightarrow> jsval \<Rightarrow> jsval \<Rightarrow> observe_error + observation" where
  "observeBuildRunForCustomer R db run after maxItems =
     bind_ok (boundedAfterSequence after) (\<lambda>afterSequence.
     bind_ok (boundedTimelineLimit maxItems) (\<lambda>limit.
     bind_ok (reconstructRunEvents db (br_id run)) (\<lambda>allEvents.
     bind_ok (collect_ok (map toCustomerTimelineEvent (filter (\<lambda>e. afterSequence < int (ev_sequence e)) allEvents))) (\<lambda>views.
     let visibleWindow = List.map_filter id views;
         items = take (nat limit) visibleWindow;
         hasMore = (limit < int (length visibleWindow));
         o' = \<lparr>cv_run_id = br_id run, cv_project_id = br_project_id run, cv_candidate_id = br_candidate_id run,
           cv_status = br_status run, cv_stage = br_stage run, cv_slot = customerSlot run,
           cv_workspace = customerWorkspaceState run, cv_progress = summarizeProgress allEvents,
           cv_proof = summarize_proof db (br_id run), cv_items = items,
           cv_next_after = (if hasMore then int (te_sequence (last items))
             else max afterSequence (int (getLatestEventSequence (br_id run) db))),
           cv_has_more = hasMore, cv_created_at = br_created_at run, cv_updated_at = br_updated_at run,
           cv_completed_at = br_completed_at run\<rparr> in
     bind_ok (require (observation_ok R o') ObservationSchema) (\<lambda>_. Inr o')))))"

end
