(* ===== verification/Observability_Properties.thy ===== *)
theory Observability_Properties
  imports Customer_Observability Sample_Run
begin

text \<open>
  The customer's timeline: following the cursor page by page shows every event the customer may see
  exactly once and in order.
\<close>

subsection \<open>Cursors into a list\<close>

lemma filter_after_last:
  fixes f :: "'a \<Rightarrow> nat"
  shows "sorted_wrt (<) (map f xs) \<Longrightarrow> 0 < k \<Longrightarrow> k \<le> length xs \<Longrightarrow>
    filter (\<lambda>x. f (last (take k xs)) < f x) xs = drop k xs"
proof (induction xs arbitrary: k)
  case (Cons x ys)
  show ?case
  proof (cases "k = 1")
    case True
    with Cons.prems show ?thesis by (auto simp: filter_id_conv)
  next
    case False
    then obtain m where k: "k = Suc m" "0 < m" using Cons.prems(2) by (cases k) auto
    with Cons.prems(3) have ne: "take m ys \<noteq> []" by auto
    then have l: "last (take k (x # ys)) = last (take m ys)" using k by simp
    have "last (take m ys) \<in> set ys" using ne by (meson in_set_takeD last_in_set)
    then have "f x < f (last (take m ys))" using Cons.prems(1) by simp
    moreover have "filter (\<lambda>y. f (last (take m ys)) < f y) ys = drop m ys"
      using Cons.prems k by (intro Cons.IH) simp_all
    ultimately show ?thesis unfolding l using k by simp
  qed
qed simp

text \<open>Reading a list page by page, each page the part after the key of the last item read.\<close>

definition key_at :: "('a \<Rightarrow> nat) \<Rightarrow> 'a list \<Rightarrow> nat \<Rightarrow> nat" where
  "key_at f xs k = (if k = 0 then 0 else f (last (take k xs)))"

lemma filter_after_key:
  assumes "sorted_wrt (<) (map f xs)" "\<forall>x \<in> set xs. 0 < f x" "k \<le> length xs"
  shows "filter (\<lambda>x. key_at f xs k < f x) xs = drop k xs"
proof (cases "k = 0")
  case True
  with assms(2) show ?thesis by (simp add: key_at_def)
next
  case False
  with filter_after_last [OF assms(1) _ assms(3)] show ?thesis by (simp add: key_at_def)
qed

lemma key_at_more:
  assumes "k < length xs" "0 < m"
  shows "key_at f xs (k + m) = f (last (take m (drop k xs)))"
proof -
  have "take (k + m) xs = take k xs @ take m (drop k xs)" by (simp add: take_add)
  moreover have "take m (drop k xs) \<noteq> []" using assms by simp
  ultimately show ?thesis using assms by (simp add: key_at_def)
qed

subsection \<open>Reading the events\<close>

definition run_events :: "run_db \<Rightarrow> string \<Rightarrow> run_event list" where
  "run_events db i = filter (\<lambda>e. ev_run_id e = i) (db_events db)"

lemma sorted_wrt_map_filter:
  "sorted_wrt R (map f xs) \<Longrightarrow> sorted_wrt R (map f (filter Q xs))"
  by (induction xs) auto

lemma run_events_facts:
  assumes "reachable R P n db"
  shows "sorted_wrt (<) (map ev_sequence (run_events db i))" "\<forall>e \<in> set (run_events db i). 0 < ev_sequence e"
    "\<forall>e \<in> set (run_events db i). ev_run_id e = i" "\<forall>e \<in> set (run_events db i). ev_sequence e \<le> db_last_sequence db"
  using reachable_ok [OF assms] by (auto simp: store_ok_def events_ok_def run_events_def intro: sorted_wrt_map_filter)

lemma listEvents_after:
  assumes "reachable R P n db"
  shows "listEvents i (int c) (Some 1000) db = take 1000 (filter (\<lambda>e. c < ev_sequence e) (run_events db i))"
proof -
  have "sorted_wrt (<) (map ev_sequence (db_events db))"
    using reachable_ok [OF assms] by (simp add: store_ok_def events_ok_def)
  then have "sorted (map ev_sequence (filter (\<lambda>e. ev_run_id e = i \<and> c < ev_sequence e) (db_events db)))"
    by (intro strict_sorted_imp_sorted sorted_wrt_map_filter)
  then show ?thesis
    by (simp add: listEvents_def safe_limit_def order_by_sorted_id run_events_def conj_commute)
qed

lemma accept_page_all:
  "sorted_wrt (<) (c # map ev_sequence es) \<Longrightarrow> \<forall>e \<in> set es. ev_run_id e = i \<Longrightarrow>
    accept_page i es c events = Inr (events @ es, if es = [] then c else ev_sequence (last es))"
  by (induction es arbitrary: c events) auto

lemma read_pages_all:
  assumes db: "reachable R P n db" and len: "length (run_events db i) < k + 1000 * pages" "k \<le> length (run_events db i)"
  shows "read_event_pages pages db i (key_at ev_sequence (run_events db i) k) (take k (run_events db i)) = Inr (run_events db i)"
  using len
proof (induction pages arbitrary: k)
  case (Suc pages)
  let ?E = "run_events db i" and ?f = ev_sequence
  let ?next = "take 1000 (drop k ?E)"
  note E = run_events_facts [OF db, of i]
  have page: "listEvents i (int (key_at ?f ?E k)) (Some (int RECONSTRUCTION_PAGE_SIZE)) db = ?next"
    using listEvents_after [OF db] filter_after_key [OF E(1,2) Suc.prems(2)] by (simp add: RECONSTRUCTION_PAGE_SIZE_def)
  show ?case
  proof (cases "k = length ?E")
    case True
    with page show ?thesis by (simp add: Let_def)
  next
    case False
    then have k: "k < length ?E" using Suc.prems(2) by simp
    then have ne: "?next \<noteq> []" by simp
    have drop: "drop k ?E = filter (\<lambda>e. key_at ?f ?E k < ?f e) ?E"
      using filter_after_key [OF E(1,2) Suc.prems(2)] by simp
    have "sorted_wrt (<) (key_at ?f ?E k # map ?f ?next)"
    proof -
      have "\<forall>e \<in> set ?next. key_at ?f ?E k < ?f e"
        unfolding drop by (auto dest: in_set_takeD)
      moreover have "sorted_wrt (<) (map ?f ?next)"
        unfolding take_map [symmetric] drop_map [symmetric] by (intro sorted_wrt_take sorted_wrt_drop E(1))
      ultimately show ?thesis by auto
    qed
    moreover have "\<forall>e \<in> set ?next. ev_run_id e = i" using E(3) by (meson in_set_dropD in_set_takeD)
    ultimately have acc: "accept_page i ?next (key_at ?f ?E k) (take k ?E) = Inr (take (k + 1000) ?E, ?f (last ?next))"
      using accept_page_all [of "key_at ?f ?E k" ?next i] ne by (simp add: take_add)
    show ?thesis
    proof (cases "length ?next < RECONSTRUCTION_PAGE_SIZE")
      case True
      then have "take (k + 1000) ?E = ?E" by (simp add: RECONSTRUCTION_PAGE_SIZE_def)
      with True page ne acc show ?thesis by (simp add: Let_def)
    next
      case False
      then have "k + 1000 \<le> length ?E" by (simp add: RECONSTRUCTION_PAGE_SIZE_def)
      moreover have "length ?E < k + 1000 + 1000 * pages" using Suc.prems(1) by simp
      ultimately have "read_event_pages pages db i (key_at ?f ?E (k + 1000)) (take (k + 1000) ?E) = Inr ?E"
        by (intro Suc.IH)
      with False page ne acc key_at_more [OF k, of 1000 ?f] show ?thesis by (simp add: Let_def)
    qed
  qed
qed simp

lemma reconstruct_all:
  assumes "reachable R P n db" "length (run_events db i) < 100000"
  shows "reconstructRunEvents db i = Inr (run_events db i)"
  using read_pages_all [OF assms(1), of i 0 MAX_RECONSTRUCTION_PAGES] assms(2)
  by (simp add: reconstructRunEvents_def MAX_RECONSTRUCTION_PAGES_def key_at_def)


subsection \<open>The visible events\<close>

definition visible_events :: "run_db \<Rightarrow> string \<Rightarrow> timeline_event list" where
  "visible_events db i = List.map_filter timeline_view (run_events db i)"

lemma timeline_view_sequence: "timeline_view e = Some t \<Longrightarrow> te_sequence t = ev_sequence e"
  by (auto simp: timeline_view_def timeline_item_def split: if_splits)

lemma map_filter_sequence:
  "filter (\<lambda>t. Q (te_sequence t)) (List.map_filter timeline_view es) = List.map_filter timeline_view (filter (\<lambda>e. Q (ev_sequence e)) es)"
  by (induction es) (auto simp: List.map_filter_simps timeline_view_sequence split: option.splits)

lemma map_filter_sorted:
  "sorted_wrt (<) (map ev_sequence es) \<Longrightarrow> sorted_wrt (<) (map te_sequence (List.map_filter timeline_view es))
    \<and> te_sequence ` set (List.map_filter timeline_view es) \<subseteq> ev_sequence ` set es"
  by (induction es) (auto simp: List.map_filter_simps timeline_view_sequence split: option.splits)

lemma visible_facts:
  assumes "reachable R P n db"
  shows "sorted_wrt (<) (map te_sequence (visible_events db i))" "\<forall>t \<in> set (visible_events db i). 0 < te_sequence t"
    "\<forall>t \<in> set (visible_events db i). te_sequence t \<le> db_last_sequence db"
  using map_filter_sorted [OF run_events_facts(1) [OF assms, of i]] run_events_facts(2,4) [OF assms, of i]
  unfolding visible_events_def by fastforce+

lemma views_of:
  assumes "\<forall>e \<in> set es. 0 < ev_sequence e"
  shows "collect_ok (map toCustomerTimelineEvent es) = Inr (map timeline_view es)"
  using assms
  by (induction es) (auto simp: toCustomerTimelineEvent_def timeline_view_sequence split: option.splits)

lemma map_filter_id: "List.map_filter id (map f xs) = List.map_filter f xs"
  by (induction xs) (auto simp: List.map_filter_simps split: option.splits)

text \<open>What the schema asks of the columns of the run itself.\<close>

definition presentable :: "runtime \<Rightarrow> build_run \<Rightarrow> bool" where
  "presentable R run \<longleftrightarrow> rt_is_uuid R (br_id run)
     \<and> 1 \<le> length (br_project_id run) \<and> length (br_project_id run) \<le> 128
     \<and> 1 \<le> length (br_candidate_id run) \<and> length (br_candidate_id run) \<le> 128
     \<and> (case br_slot_id run of None \<Rightarrow> True | Some k \<Rightarrow> 0 < k)"

lemma parse_agent_progress_round: "parse_agent_progress v = Some p \<Longrightarrow> 0 \<le> ap_repair_round p"
  by (auto simp: parse_agent_progress_def int_in_def split: jsval.splits option.splits prod.splits if_splits)

lemma summarizeProgress_round: "0 \<le> og_repair_round (summarizeProgress es)"
proof -
  have "0 \<le> og_repair_round s \<Longrightarrow> 0 \<le> og_repair_round (fold (\<lambda>e s. if ev_type e \<noteq> ''agent.tool_completed'' then s
        else case parse_agent_progress (ev_payload e) of
          None \<Rightarrow> s
        | Some p \<Rightarrow> \<lparr>og_completed_tool_calls = Suc (og_completed_tool_calls s),
            og_failed_tool_calls = (if ap_ok p then og_failed_tool_calls s else Suc (og_failed_tool_calls s)),
            og_last_tool = Some (ap_tool_name p), og_repair_round = ap_repair_round p\<rparr>) es s)" for s
    by (induction es arbitrary: s) (auto simp: parse_agent_progress_round split: option.splits)
  then show ?thesis by (simp add: summarizeProgress_def)
qed

lemma bounded_limit: "boundedTimelineLimit v = Inr l \<Longrightarrow> 1 \<le> l \<and> l \<le> CUSTOMER_BUILD_TIMELINE_LIMIT"
  by (auto simp: boundedTimelineLimit_def CUSTOMER_BUILD_TIMELINE_LIMIT_def split: if_splits option.splits)

lemma bounded_after: "0 \<le> a \<Longrightarrow> a \<le> 2 ^ 53 - 1 \<Longrightarrow> boundedAfterSequence (JNumber (of_int a)) = Inr a"
  by (simp add: boundedAfterSequence_def safe_integer_def)

text \<open>One observation: the next visible events after the cursor.\<close>

lemma observed:
  assumes db: "reachable R P n db" and len: "length (run_events db (br_id run)) < 100000" and ok: "presentable R run"
    and l: "boundedTimelineLimit v = Inr l" and a: "0 \<le> a" "a \<le> 2 ^ 53 - 1"
  obtains o' where "observeBuildRunForCustomer R db run (JNumber (of_int a)) v = Inr o'"
    "cv_items o' = take (nat l) (filter (\<lambda>t. a < int (te_sequence t)) (visible_events db (br_id run)))"
    "cv_has_more o' \<longleftrightarrow> nat l < length (filter (\<lambda>t. a < int (te_sequence t)) (visible_events db (br_id run)))"
    "cv_has_more o' \<Longrightarrow> cv_next_after o' = int (te_sequence (last (cv_items o')))"
proof -
  let ?i = "br_id run" and ?W = "filter (\<lambda>t. a < int (te_sequence t)) (visible_events db (br_id run))"
  note E = run_events_facts [OF db, of ?i]
  have pos: "\<forall>e \<in> set (filter (\<lambda>e. a < int (ev_sequence e)) (run_events db ?i)). 0 < ev_sequence e" using E(2) by simp
  have W: "List.map_filter id (map timeline_view (filter (\<lambda>e. a < int (ev_sequence e)) (run_events db ?i))) = ?W"
    unfolding map_filter_id visible_events_def map_filter_sequence [of "\<lambda>s. a < int s"] ..
  have items: "int (length (take (nat l) ?W)) \<le> CUSTOMER_BUILD_TIMELINE_LIMIT"
    using bounded_limit [OF l] by simp linarith
  have tpos: "list_all (\<lambda>t. 0 < te_sequence t) (take (nat l) ?W)"
    using visible_facts(2) [OF db, of ?i] by (auto simp: list_all_iff dest: in_set_takeD)
  have "l < int (length ?W) \<longleftrightarrow> nat l < length ?W" using bounded_limit [OF l] by linarith
  then have more: "l < int (length ?W) \<longleftrightarrow> nat l < length ?W" .
  define o' where "o' = \<lparr>cv_run_id = ?i, cv_project_id = br_project_id run, cv_candidate_id = br_candidate_id run,
           cv_status = br_status run, cv_stage = br_stage run, cv_slot = customerSlot run,
           cv_workspace = customerWorkspaceState run, cv_progress = summarizeProgress (run_events db ?i),
           cv_proof = summarize_proof db ?i, cv_items = take (nat l) ?W,
           cv_next_after = (if l < int (length ?W) then int (te_sequence (last (take (nat l) ?W)))
             else max a (int (getLatestEventSequence ?i db))),
           cv_has_more = (l < int (length ?W)), cv_created_at = br_created_at run, cv_updated_at = br_updated_at run,
           cv_completed_at = br_completed_at run\<rparr>"
  have "(case customerSlot run of SlotActive k \<Rightarrow> 0 < k | _ \<Rightarrow> True)"
    using ok by (auto simp: customerSlot_def presentable_def split: option.splits)
  then have "observation_ok R o'"
    using ok items tpos a(1) summarizeProgress_round unfolding observation_ok_def presentable_def o'_def
    by (simp add: le_max_iff_disj)
  then have "observeBuildRunForCustomer R db run (JNumber (of_int a)) v = Inr o'"
    by (simp only: observeBuildRunForCustomer_def reconstruct_all [OF db len] bounded_after [OF a] l views_of [OF pos] W
        bind_ok_simps Let_def o'_def [symmetric] require_simps)
  then show ?thesis by (rule that) (simp_all add: o'_def more)
qed

text \<open>A customer who follows the cursor until \<open>hasMore\<close> is false.\<close>

fun read_timeline :: "runtime \<Rightarrow> run_db \<Rightarrow> build_run \<Rightarrow> jsval \<Rightarrow> nat \<Rightarrow> int \<Rightarrow> timeline_event list option" where
  "read_timeline R db run maxItems 0 a = None"
| "read_timeline R db run maxItems (Suc pages) a =
     (case observeBuildRunForCustomer R db run (JNumber (of_int a)) maxItems of
        Inl e \<Rightarrow> None
      | Inr o' \<Rightarrow>
          if cv_has_more o' then map_option (append (cv_items o')) (read_timeline R db run maxItems pages (cv_next_after o'))
          else Some (cv_items o'))"

lemma read_timeline_rest:
  assumes db: "reachable R P n db" and len: "length (run_events db (br_id run)) < 100000" and ok: "presentable R run"
    and l: "boundedTimelineLimit v = Inr l" and last: "int (db_last_sequence db) \<le> 2 ^ 53 - 1"
  shows "0 \<le> a \<Longrightarrow> a \<le> 2 ^ 53 - 1 \<Longrightarrow> length (filter (\<lambda>t. a < int (te_sequence t)) (visible_events db (br_id run))) < pages \<Longrightarrow>
    read_timeline R db run v pages a = Some (filter (\<lambda>t. a < int (te_sequence t)) (visible_events db (br_id run)))"
proof (induction pages arbitrary: a)
  case (Suc pages)
  let ?V = "visible_events db (br_id run)"
  let ?W = "filter (\<lambda>t. a < int (te_sequence t)) ?V"
  note V = visible_facts [OF db, of "br_id run"]
  obtain o' where o': "observeBuildRunForCustomer R db run (JNumber (of_int a)) v = Inr o'"
    and items: "cv_items o' = take (nat l) ?W" and more: "cv_has_more o' \<longleftrightarrow> nat l < length ?W"
    and following: "cv_has_more o' \<Longrightarrow> cv_next_after o' = int (te_sequence (last (cv_items o')))"
    using observed [OF db len ok l Suc.prems(1,2)] by metis
  show ?case
  proof (cases "cv_has_more o'")
    case False
    then show ?thesis using o' items more by simp
  next
    case True
    have k: "0 < nat l" "nat l < length ?W" using bounded_limit [OF l] True more by simp_all
    let ?b = "te_sequence (last (take (nat l) ?W))"
    have "last (take (nat l) ?W) \<in> set (take (nat l) ?W)" using k by (intro last_in_set) auto
    then have b: "last (take (nat l) ?W) \<in> set ?V" "a < int ?b" by (auto dest: in_set_takeD)
    have "filter (\<lambda>t. ?b < te_sequence t) ?W = drop (nat l) ?W"
      using k by (intro filter_after_last sorted_wrt_map_filter V(1)) simp_all
    moreover have "filter (\<lambda>t. ?b < te_sequence t) ?W = filter (\<lambda>t. int ?b < int (te_sequence t)) ?V"
      using b(2) by (auto intro: filter_cong)
    ultimately have rest: "filter (\<lambda>t. int ?b < int (te_sequence t)) ?V = drop (nat l) ?W" by simp
    have "int ?b \<le> 2 ^ 53 - 1" using V(3) b(1) last by fastforce
    then have "read_timeline R db run v pages (int ?b) = Some (drop (nat l) ?W)"
      using Suc.IH [of "int ?b"] Suc.prems(3) k unfolding rest by simp
    then show ?thesis using o' items following True by simp
  qed
qed simp

subsection \<open>The property\<close>

text \<open>C35. A customer who reads the timeline of a run page by page, whatever the page size, sees exactly the
  visible events of the run, each once and in order, and then \<open>hasMore\<close> is false.\<close>

theorem paged_timeline_is_complete:
  assumes "reachable R P n db" and "length (run_events db (br_id run)) < 100000" and "presentable R run"
    and "boundedTimelineLimit maxItems = Inr limit" and "int (db_last_sequence db) < 2 ^ 53"
  shows "read_timeline R db run maxItems (Suc (length (visible_events db (br_id run)))) 0
    = Some (List.map_filter timeline_view (filter (\<lambda>e. ev_run_id e = br_id run) (db_events db)))"
proof -
  have "filter (\<lambda>t. 0 < int (te_sequence t)) (visible_events db (br_id run)) = visible_events db (br_id run)"
    using visible_facts(2) [OF assms(1), of "br_id run"] by (simp add: filter_id_conv)
  then show ?thesis
    using read_timeline_rest [OF assms(1-4), of 0 "Suc (length (visible_events db (br_id run)))"] assms(5)
    by (simp add: visible_events_def run_events_def)
qed

theorem paged_timeline_is_complete_witness:
  "\<exists>db run items. reachable sample_runtime sample_policy 4 db \<and> br_id run = ''run-1''
    \<and> read_timeline sample_runtime db run (JNumber 1) (Suc (length (visible_events db ''run-1''))) 0 = Some items"
proof -
  obtain x where x: "createRun sample_runtime (\<lambda>_. 0) ''run-1'' sample_assignment empty_db =
      Inr (\<lparr>crr_run = rowToRun sample_queued, crr_created = True\<rparr>, sample_db sample_queued (map free_slot [1, 2, 3, 4]) [] [] [] [x] 1)"
    using sample_create by blast
  let ?d = "sample_db sample_queued (map free_slot [1, 2, 3, 4]) [] [] [] [x] 1" and ?run = "rowToRun sample_queued"
  have r: "reachable sample_runtime sample_policy 4 ?d"
    by (rule reachable_step [OF reachable_empty store_step.createRun [OF x]])
  have i: "br_id ?run = ''run-1''" by (simp add: sample_queued_fields)
  have len: "length (run_events ?d (br_id ?run)) < 100000" by (simp add: run_events_def sample_db_def)
  have ok: "presentable sample_runtime ?run"
    by (simp add: presentable_def sample_runtime_def sample_queued_def queued_row_def rowToRun_def build_run.truncate_def sample_assignment_def)
  have l: "boundedTimelineLimit (JNumber 1) = Inr 1"
    by (simp add: boundedTimelineLimit_def safe_integer_def CUSTOMER_BUILD_TIMELINE_LIMIT_def)
  have s: "int (db_last_sequence ?d) < 2 ^ 53" by (simp add: sample_db_def)
  note paged_timeline_is_complete [OF r len ok l s, unfolded i]
  with r i show ?thesis by blast
qed

end
