(* ===== verification/Evidence_Grounding.thy ===== *)
theory Evidence_Grounding
  imports Redaction
begin

text \<open>
  \<open>src/orchestration/application/evidence-grounding.ts\<close>: when two texts are the same piece of
  evidence, and when an excerpt is a complete sentence or line of the text it is cited from.  The
  Unicode tables (\<open>normalize("NFKC")\<close>, \<open>toLocaleLowerCase("en-US")\<close> and \<open>toLocaleLowerCase()\<close>) are the parameter \<open>unicode\<close>; the classes
  \<open>\p{P}\<close> and \<open>\p{S}\<close> are written out for the characters a string holds here.
\<close>

record unicode =
  un_nfkc :: "string \<Rightarrow> string"
  un_lower_en :: "string \<Rightarrow> string"
  un_lower :: "string \<Rightarrow> string"

definition is_punctuation :: "char \<Rightarrow> bool" where
  "is_punctuation c \<longleftrightarrow> one_of ''!#%&()*,-./:;?@[]_{}'' c
     \<or> (of_char c :: nat) \<in> set [0x22, 0x27, 0x5C, 0xA1, 0xA7, 0xAB, 0xB6, 0xB7, 0xBB, 0xBF]"

definition is_symbol :: "char \<Rightarrow> bool" where
  "is_symbol c \<longleftrightarrow> one_of ''$+<=>^|~'' c
     \<or> (of_char c :: nat) \<in> set [0x60, 0xA2, 0xA3, 0xA4, 0xA5, 0xA6, 0xA8, 0xA9, 0xAC, 0xAE, 0xAF, 0xB0, 0xB1, 0xB4, 0xB8, 0xD7, 0xF7]"

text \<open>\<open>replace(/\s+/g, " ")\<close>, and \<open>replace\<close> of the runs at both ends.\<close>

fun collapse_spaces :: "bool \<Rightarrow> string \<Rightarrow> string" where
  "collapse_spaces _ [] = []"
| "collapse_spaces inside (c # cs) =
     (if \<not> is_space c then c # collapse_spaces False cs
      else if inside then collapse_spaces True cs else CHR '' '' # collapse_spaces True cs)"

definition strip_ends :: "(char \<Rightarrow> bool) \<Rightarrow> string \<Rightarrow> string" where
  "strip_ends Q s = rev (dropWhile Q (rev (dropWhile Q s)))"

definition trim_text :: "string \<Rightarrow> string" where
  "trim_text s = strip_ends is_space s"

definition normalizeExtractiveEvidence :: "unicode \<Rightarrow> string \<Rightarrow> string" where
  "normalizeExtractiveEvidence U s =
     trim_text (strip_ends (\<lambda>c. is_punctuation c \<or> is_symbol c \<or> is_space c)
       (collapse_spaces False (un_lower_en U (un_nfkc U s))))"

definition isSameExtractiveEvidence :: "unicode \<Rightarrow> string \<Rightarrow> string \<Rightarrow> bool" where
  "isSameExtractiveEvidence U statement excerpt \<longleftrightarrow>
     normalizeExtractiveEvidence U statement \<noteq> []
     \<and> normalizeExtractiveEvidence U statement = normalizeExtractiveEvidence U excerpt"

definition ends_unit :: "char \<Rightarrow> bool" where
  "ends_unit c \<longleftrightarrow> one_of ''.!?'' c \<or> (of_char c :: nat) = 10"

text \<open>The loops of \<open>isStandaloneEvidenceAt\<close>: back to the end of the unit before, on to the end of this one.\<close>

fun unit_start :: "string \<Rightarrow> nat \<Rightarrow> nat" where
  "unit_start content 0 = 0"
| "unit_start content (Suc k) =
     (if k < length content \<and> ends_unit (content ! k) then Suc k else unit_start content k)"

definition unit_end :: "string \<Rightarrow> nat \<Rightarrow> nat" where
  "unit_end content offset =
     (let k = offset + length (takeWhile (\<lambda>c. \<not> ends_unit c) (drop offset content)) in
      if k < length content then Suc k else k)"

definition isStandaloneEvidenceAt :: "unicode \<Rightarrow> string \<Rightarrow> string \<Rightarrow> nat \<Rightarrow> bool" where
  "isStandaloneEvidenceAt U content excerpt offset \<longleftrightarrow>
     slice offset (offset + length excerpt) content = excerpt
     \<and> isSameExtractiveEvidence U (slice (unit_start content offset) (unit_end content offset) content) excerpt"

text \<open>\<open>content.indexOf(excerpt, from)\<close>; the empty string is found at any index up to the length.\<close>

definition index_of :: "string \<Rightarrow> string \<Rightarrow> nat \<Rightarrow> nat option" where
  "index_of content excerpt start =
     (if excerpt = [] then Some (min start (length content))
      else find (\<lambda>k. slice k (k + length excerpt) content = excerpt) [start..<Suc (length content)])"

text \<open>The search may run for ever on an empty excerpt (\<open>None\<close>); otherwise it answers.\<close>

partial_function (option) find_standalone :: "unicode \<Rightarrow> string \<Rightarrow> string \<Rightarrow> nat \<Rightarrow> nat option option" where
  "find_standalone U content excerpt start =
     (case index_of content excerpt start of
        None \<Rightarrow> Some None
      | Some k \<Rightarrow> if isStandaloneEvidenceAt U content excerpt k then Some (Some k)
          else find_standalone U content excerpt (Suc k))"

definition findStandaloneEvidenceOffset :: "unicode \<Rightarrow> string \<Rightarrow> string \<Rightarrow> nat option option" where
  "findStandaloneEvidenceOffset U content excerpt = find_standalone U content excerpt 0"

subsection \<open>The search\<close>

lemma index_of_SomeD:
  assumes "index_of content excerpt start = Some k" "excerpt \<noteq> []"
  shows "start \<le> k" "k < length content" "slice k (k + length excerpt) content = excerpt"
    "\<And>j. start \<le> j \<Longrightarrow> j < k \<Longrightarrow> slice j (j + length excerpt) content \<noteq> excerpt"
proof -
  have f: "find (\<lambda>k. slice k (k + length excerpt) content = excerpt) [start..<Suc (length content)] = Some k"
    using assms by (simp add: index_of_def)
  then obtain i where i: "i < length [start..<Suc (length content)]" "k = [start..<Suc (length content)] ! i"
    "slice k (k + length excerpt) content = excerpt"
    "\<And>j. j < i \<Longrightarrow> slice ([start..<Suc (length content)] ! j) ([start..<Suc (length content)] ! j + length excerpt) content \<noteq> excerpt"
    by (auto simp: find_Some_iff simp del: upt_Suc)
  show "start \<le> k" using i(1,2) by (simp del: upt_Suc)
  show eq: "slice k (k + length excerpt) content = excerpt" by (rule i(3))
  then have "length (slice k (k + length excerpt) content) \<noteq> 0" using assms(2) by simp
  then show "k < length content" by (simp add: length_slice)
  fix j assume "start \<le> j" "j < k"
  then show "slice j (j + length excerpt) content \<noteq> excerpt"
    using i(1,2) i(4) [of "j - start"] by (simp del: upt_Suc)
qed

text \<open>A search for a text that is not empty answers, and an offset it answers is one where the text stands alone.\<close>

lemma find_standalone_answers:
  assumes "excerpt \<noteq> []"
  shows "(\<exists>k. find_standalone U content excerpt start = Some (Some k) \<and> isStandaloneEvidenceAt U content excerpt k)
    \<or> find_standalone U content excerpt start = Some None"
proof (induction "Suc (length content) - start" arbitrary: start rule: less_induct)
  case less
  show ?case
  proof (cases "index_of content excerpt start")
    case None
    then show ?thesis by (simp add: find_standalone.simps)
  next
    case (Some k)
    note k = index_of_SomeD(1,2) [OF Some assms]
    show ?thesis
    proof (cases "isStandaloneEvidenceAt U content excerpt k")
      case True
      with Some show ?thesis by (subst (1 2) find_standalone.simps) simp
    next
      case False
      have "Suc (length content) - Suc k < Suc (length content) - start" using k by simp
      from less [OF this] False Some show ?thesis by (subst (1 2) find_standalone.simps) simp
    qed
  qed
qed

end
