(* ===== verification/Assignment_Compiler.thy ===== *)
theory Assignment_Compiler
  imports Evidence_Grounding Project
begin

text \<open>
  \<open>src/orchestration/application/build-assignment-compiler.ts\<close>: from the approved proposal to the
  assignments the build server gets.  The transcript is put together from the digest-bound minimized
  conversations, every deliverable, requirement and fact is checked against the excerpts it cites, and
  one assignment per strategy carries the acceptance contract.  An exception is a \<open>compile_error\<close>.
\<close>

datatype compile_error =
    InputSchema string
  | ProtectedPiiInBuildContext
  | InvalidBuildEvidence string
  | UnverifiedProposalEvidence string
  | OutputSchema string
  | CompileJsonError type_error

record compile_input =
  ci_project_id :: string
  ci_proposal :: proposal_version
  ci_customer :: customer_profile
  ci_requested_at :: string
  ci_sandbox_snapshot :: "string option"

record compiled_assignments =
  ca_contract :: acceptance_contract
  ca_contract_hash :: string
  ca_content :: string
  ca_sha :: string
  ca_assignments :: "build_assignment list"

subsection \<open>Grounding (\<open>proposal-builder.ts\<close>)\<close>

definition assertExactExtractiveEvidence :: "unicode \<Rightarrow> string \<Rightarrow> string \<Rightarrow> string \<Rightarrow> compile_error + unit" where
  "assertExactExtractiveEvidence U statement excerpt subject =
     require (isSameExtractiveEvidence U statement excerpt) (UnverifiedProposalEvidence
       (''the '' @ subject @ '' must be the same normalized extractive evidence as its citation''))"

definition assertFactCitationEntails :: "unicode \<Rightarrow> string \<Rightarrow> string \<Rightarrow> compile_error + unit" where
  "assertFactCitationEntails U statement excerpt = assertExactExtractiveEvidence U statement excerpt ''business fact''"

definition assertFactCitationIsStandalone :: "unicode \<Rightarrow> string \<Rightarrow> string \<Rightarrow> nat \<Rightarrow> compile_error + unit" where
  "assertFactCitationIsStandalone U content excerpt startOffset =
     require (isStandaloneEvidenceAt U content excerpt startOffset) (UnverifiedProposalEvidence
       ''the cited text is not a complete extractive sentence or line'')"

subsection \<open>Protected values\<close>

definition protected_values :: "customer_profile \<Rightarrow> string list" where
  "protected_values c = filter (\<lambda>v. trim_text v \<noteq> [])
     (List.map_filter id [cp_display_name c, map_option ct_value (cp_email c), map_option ct_value (cp_phone c)])"

definition text_includes :: "string \<Rightarrow> string \<Rightarrow> bool" where
  "text_includes content part \<longleftrightarrow> list_ex (\<lambda>k. slice k (k + length part) content = part) [0..<Suc (length content)]"

definition assertNoProtectedPii :: "unicode \<Rightarrow> string \<Rightarrow> customer_profile \<Rightarrow> compile_error + unit" where
  "assertNoProtectedPii U content customer =
     require (\<not> (list_ex (\<lambda>v. text_includes (un_lower U content) (un_lower U v)) (protected_values customer)
        \<or> redactText content \<noteq> content)) ProtectedPiiInBuildContext"

definition newline :: string where "newline = [CHR 0x0A]"

definition normalizedBuildContext :: "proposal_version \<Rightarrow> string" where
  "normalizedBuildContext p = join newline
     ([''BUILD INSTRUCTIONS:'', pv_build_prompt p, '''', ''DELIVERABLES:''] @
      map (\<lambda>i. ''['' @ pi_item_id i @ ''] '' @ pi_text i) (pp_deliverables (pv_plan p)) @
      ['''', ''APPROVED BUSINESS FACTS:''] @
      map (\<lambda>f. ''['' @ cf_fact_id f @ ''] '' @ cf_statement f) (oc_approved_facts (pv_contract p)) @
      ['''', ''REQUIREMENTS:''] @
      map (\<lambda>q. ''['' @ cq_requirement_id q @ ''] ('' @ priority_text (cq_priority q) @ '') '' @ cq_description q)
        (oc_requirements (pv_contract p)) @
      ['''', ''FORBIDDEN CLAIMS:''] @ map (\<lambda>c. ''- '' @ c) (oc_forbidden_claims (pv_contract p)))"

subsection \<open>The transcript\<close>

definition conversationOriginKey :: "string \<times> conversation_source \<Rightarrow> string" where
  "conversationOriginKey os = fst os @ '':'' @ cs_content_digest (snd os) @ '':'' @ cs_minimized_digest (snd os)"

definition digest_bound_root :: "conversation_source \<Rightarrow> bool" where
  "digest_bound_root s \<longleftrightarrow> cs_start s = 0 \<and> cs_end s = length (cs_excerpt s) \<and> cs_excerpt_digest s = cs_minimized_digest s"

definition note_root ::
  "string \<times> conversation_source \<Rightarrow> (string \<times> conversation_source) list \<Rightarrow> (string \<times> conversation_source) list" where
  "note_root os roots =
     (let origin = conversationOriginKey os in
      if digest_bound_root (snd os) \<and> (case map_of roots origin of None \<Rightarrow> True | Some e \<Rightarrow> cs_end e < cs_end (snd os))
      then map_set origin (snd os) roots else roots)"

text \<open>The parts of the content and the offset each origin starts at.\<close>

fun lay_out ::
  "runtime \<Rightarrow> (string \<times> conversation_source) list \<Rightarrow> string list \<Rightarrow> string list \<Rightarrow> nat \<Rightarrow> (string \<times> nat) list
    \<Rightarrow> compile_error + (string list \<times> (string \<times> nat) list)" where
  "lay_out R roots [] parts len bases = Inr (parts, bases)"
| "lay_out R roots (origin # origins) parts len bases =
     (case map_of roots origin of
        None \<Rightarrow> Inl (InvalidBuildEvidence ''a conversation source has no digest-bound minimized root'')
      | Some r \<Rightarrow>
          bind_ok (require (rt_sha256 R (cs_excerpt r) = cs_minimized_digest r)
            (InvalidBuildEvidence ''a minimized conversation root failed digest verification'')) (\<lambda>_.
          let base = (if parts \<noteq> [] then len + 2 else len) in
          lay_out R roots origins (parts @ [cs_excerpt r]) (base + length (cs_excerpt r)) (map_set origin base bases)))"

fun locate ::
  "string \<Rightarrow> (string \<times> nat) list \<Rightarrow> (string \<times> conversation_source) list \<Rightarrow> (string \<times> (nat \<times> nat)) list
    \<Rightarrow> compile_error + (string \<times> (nat \<times> nat)) list" where
  "locate content bases [] locations = Inr locations"
| "locate content bases (os # rest) locations =
     (let s = snd os in
      case map_of bases (conversationOriginKey os) of
        None \<Rightarrow> Inl (InvalidBuildEvidence (''source '' @ cs_source_id s @ '' has no minimized conversation root''))
      | Some base \<Rightarrow>
          bind_ok (require (slice (base + cs_start s) (base + cs_end s) content = cs_excerpt s)
            (InvalidBuildEvidence (''source '' @ cs_source_id s @ '' does not resolve to its exact minimized excerpt''))) (\<lambda>_.
          locate content bases rest (map_set (cs_source_id s) (base + cs_start s, base + cs_end s) locations)))"

record evidence_transcript =
  et_content :: string
  et_sha :: string
  et_locations :: "(string \<times> (nat \<times> nat)) list"

definition compileEvidenceTranscript :: "runtime \<Rightarrow> proposal_version \<Rightarrow> compile_error + evidence_transcript" where
  "compileEvidenceTranscript R p =
     (let cs = conversation_sources (pv_sources p);
          origins = deduped (map conversationOriginKey cs); roots = fold note_root cs [] in
      bind_ok (require (roots \<noteq> []) (InvalidBuildEvidence ''no digest-bound minimized conversation was persisted'')) (\<lambda>_.
      bind_ok (lay_out R roots origins [] 0 []) (\<lambda>(parts, bases).
      let content = join (newline @ newline) parts in
      bind_ok (require (content \<noteq> [] \<and> length content \<le> 1500000)
        (InvalidBuildEvidence ''the minimized conversation is empty or exceeds the assignment limit'')) (\<lambda>_.
      bind_ok (locate content bases cs []) (\<lambda>locations.
      Inr \<lparr>et_content = content, et_sha = rt_sha256 R content, et_locations = locations\<rparr>)))))"

subsection \<open>Evidence of an item\<close>

definition full_research_capture :: "proposal_source list \<Rightarrow> research_source \<Rightarrow> research_source option" where
  "full_research_capture sources s =
     find (\<lambda>c. rs_url c = rs_url s \<and> rs_captured_at c = rs_captured_at s \<and> rs_capture_digest c = rs_capture_digest s
        \<and> rs_start c = 0 \<and> rs_end s \<le> rs_end c \<and> rs_end c = length (rs_excerpt c)
        \<and> rs_excerpt_digest c = rs_capture_digest c) (research_sources sources)"

fun source_excerpt :: "proposal_source \<Rightarrow> string" where
  "source_excerpt (FromIntake s) = cs_excerpt s"
| "source_excerpt (FromMessage s) = cs_excerpt s"
| "source_excerpt (FromResearch s) = rs_excerpt s"

definition check_research :: "unicode \<Rightarrow> proposal_version \<Rightarrow> string \<Rightarrow> research_source \<Rightarrow> compile_error + unit" where
  "check_research U p subjectId s =
     bind_ok (the_or (InvalidBuildEvidence (subjectId @ '' has no digest-bound research capture''))
       (full_research_capture (pv_sources p) s)) (\<lambda>full.
     assertFactCitationIsStandalone U (rs_excerpt full) (rs_excerpt s) (rs_start s))"

text \<open>The conversation branch, with the messages for an excerpt without a place and for another text there.\<close>

definition check_conversation ::
  "runtime \<Rightarrow> unicode \<Rightarrow> evidence_transcript \<Rightarrow> string \<Rightarrow> string \<Rightarrow> conversation_source \<Rightarrow> compile_error + (nat \<times> nat)" where
  "check_conversation R U t unbound unresolved s =
     bind_ok (the_or (InvalidBuildEvidence unbound) (map_of (et_locations t) (cs_source_id s))) (\<lambda>(st, en).
     bind_ok (require (slice st en (et_content t) = cs_excerpt s \<and> rt_sha256 R (cs_excerpt s) = cs_excerpt_digest s)
       (InvalidBuildEvidence unresolved)) (\<lambda>_.
     bind_ok (assertFactCitationIsStandalone U (et_content t) (cs_excerpt s) st) (\<lambda>_. Inr (st, en))))"

definition verify_item_source ::
  "runtime \<Rightarrow> unicode \<Rightarrow> compile_input \<Rightarrow> evidence_transcript \<Rightarrow> string \<Rightarrow> string \<Rightarrow> string \<Rightarrow> compile_error + unit" where
  "verify_item_source R U inp t subjectId statement sourceId =
     bind_ok (the_or (InvalidBuildEvidence (subjectId @ '' references missing source '' @ sourceId))
       (source_by_id (pv_sources (ci_proposal inp)) sourceId)) (\<lambda>source.
     bind_ok (assertExactExtractiveEvidence U statement (source_excerpt source) subjectId) (\<lambda>_.
     bind_ok (assertNoProtectedPii U (source_excerpt source) (ci_customer inp)) (\<lambda>_.
     let unbound = subjectId @ '' is not bound to its persisted minimized conversation excerpt'';
         bound = (\<lambda>s. bind_ok (check_conversation R U t unbound unbound s) (\<lambda>_. Inr ())) in
     case source of
       FromResearch s \<Rightarrow> check_research U (ci_proposal inp) subjectId s
     | FromIntake s \<Rightarrow> bound s
     | FromMessage s \<Rightarrow> bound s)))"

fun each_ok :: "('a \<Rightarrow> 'e + 'b) \<Rightarrow> 'a list \<Rightarrow> 'e + 'b list" where
  "each_ok f [] = Inr []"
| "each_ok f (x # xs) = bind_ok (f x) (\<lambda>y. bind_ok (each_ok f xs) (\<lambda>ys. Inr (y # ys)))"

definition verifyProposalItemEvidence ::
  "runtime \<Rightarrow> unicode \<Rightarrow> compile_input \<Rightarrow> evidence_transcript \<Rightarrow> string \<Rightarrow> string \<Rightarrow> string list \<Rightarrow> compile_error + unit" where
  "verifyProposalItemEvidence R U inp t subjectId statement sourceIds =
     bind_ok (each_ok (verify_item_source R U inp t subjectId statement) sourceIds) (\<lambda>_. Inr ())"

definition fact_source_of ::
  "runtime \<Rightarrow> unicode \<Rightarrow> compile_input \<Rightarrow> evidence_transcript \<Rightarrow> contract_fact \<Rightarrow> string \<Rightarrow> compile_error + fact_source" where
  "fact_source_of R U inp t f sourceId =
     (let subject = ''fact '' @ cf_fact_id f in
      bind_ok (the_or (InvalidBuildEvidence (subject @ '' references missing source '' @ sourceId))
        (source_by_id (pv_sources (ci_proposal inp)) sourceId)) (\<lambda>source.
      bind_ok (assertFactCitationEntails U (cf_statement f) (source_excerpt source)) (\<lambda>_.
      bind_ok (assertNoProtectedPii U (source_excerpt source) (ci_customer inp)) (\<lambda>_.
      let bound = (\<lambda>s. bind_ok (check_conversation R U t (subject @ '' is not bound to the exact minimized conversation'')
              (subject @ '' offsets do not resolve to its persisted excerpt'') s)
            (\<lambda>(st, en). Inr (TranscriptSource (et_sha t) st en (cs_excerpt s) (cs_excerpt_digest s)))) in
      case source of
        FromResearch s \<Rightarrow>
          bind_ok (check_research U (ci_proposal inp) subject s) (\<lambda>_.
          bind_ok (require (length (rs_excerpt s) \<le> 4000)
            (InvalidBuildEvidence (subject @ '' research citation exceeds the build-contract limit''))) (\<lambda>_.
          Inr (ResearchSource (rs_url s) (rs_captured_at s) (rs_excerpt s) (rs_excerpt_digest s))))
      | FromIntake s \<Rightarrow> bound s
      | FromMessage s \<Rightarrow> bound s))))"

definition approved_fact_of ::
  "runtime \<Rightarrow> unicode \<Rightarrow> compile_input \<Rightarrow> evidence_transcript \<Rightarrow> contract_fact \<Rightarrow> compile_error + approved_fact" where
  "approved_fact_of R U inp t f =
     bind_ok (each_ok (fact_source_of R U inp t f) (cf_source_ids f)) (\<lambda>sources.
     Inr \<lparr>af_id = cf_fact_id f, af_statement = cf_statement f, af_sources = sources\<rparr>)"

subsection \<open>Contract and assignments\<close>

definition compiled_contract :: "compile_input \<Rightarrow> evidence_transcript \<Rightarrow> approved_fact list \<Rightarrow> acceptance_contract" where
  "compiled_contract inp t facts = (let p = ci_proposal inp; c = pv_contract p in
     \<lparr>ac_contract_revision = int (oc_version c), ac_contract_id = oc_contract_id c, ac_project_id = ci_project_id inp,
      ac_transcript_sha = et_sha t, ac_approved_at = pv_created_at p, ac_approved_facts = facts,
      ac_forbidden_claims = oc_forbidden_claims c,
      ac_requirements = map (\<lambda>q. \<lparr>rq_id = cq_requirement_id q, rq_description = cq_description q,
         rq_priority = cq_priority q, rq_verifiers = cq_verifiers q\<rparr>) (oc_requirements c),
      ac_verification = oc_verification c\<rparr>)"

definition stable_id :: "runtime \<Rightarrow> compile_input \<Rightarrow> nat \<Rightarrow> string" where
  "stable_id R inp index = (let p = ci_proposal inp in
     take 32 (rt_sha256 R (ci_project_id inp @ '':'' @ decimal (pv_version p) @ '':'' @ decimal (Suc index) @ '':'' @ pv_digest p)))"

definition compiled_assignment ::
  "runtime \<Rightarrow> compile_input \<Rightarrow> evidence_transcript \<Rightarrow> acceptance_contract \<Rightarrow> nat \<times> string \<Rightarrow> build_assignment" where
  "compiled_assignment R inp t contract ix = (let p = ci_proposal inp; strategyLabel = snd ix in
     \<lparr>ba_assignment_id = ''assignment:'' @ stable_id R inp (fst ix), ba_project_id = ci_project_id inp,
      ba_candidate_id = ''candidate:'' @ stable_id R inp (fst ix), ba_requested_at = ci_requested_at inp,
      ba_strategy_label = strategyLabel,
      ba_build_prompt = join newline [pv_build_prompt p, '''',
        ''Approved proposal version: '' @ decimal (pv_version p),
        ''Strategy for this candidate: '' @ strategyLabel,
        ''Implement the complete cumulative Acceptance Contract. Use no business facts outside the approved contract.''],
      ba_transcript_content = et_content t, ba_transcript_sha = et_sha t, ba_contract = contract,
      ba_sandbox = \<lparr>sb_language = ''typescript'', sb_snapshot = truthy (ci_sandbox_snapshot inp),
        sb_auto_stop = 60, sb_auto_archive = 1440\<rparr>,
      ba_limits = \<lparr>lm_max_agent_steps = 60, lm_max_repair_rounds = 2, lm_wall_clock_seconds = 1800,
        lm_max_tool_output_bytes = 65536\<rparr>\<rparr>)"

definition parsed_assignment ::
  "runtime \<Rightarrow> compile_input \<Rightarrow> evidence_transcript \<Rightarrow> acceptance_contract \<Rightarrow> nat \<times> string \<Rightarrow> compile_error + build_assignment" where
  "parsed_assignment R inp t contract ix = (let a = compiled_assignment R inp t contract ix in
     bind_ok (require (BuildAssignment_ok R a) (OutputSchema ''BuildAssignment'')) (\<lambda>_. Inr a))"

definition compileBuildAssignments :: "runtime \<Rightarrow> unicode \<Rightarrow> compile_input \<Rightarrow> compile_error + compiled_assignments" where
  "compileBuildAssignments R U inp = (let p = ci_proposal inp; customer = ci_customer inp in
     bind_ok (require (ProposalVersion_ok R p) (InputSchema ''ProposalVersion'')) (\<lambda>_.
     bind_ok (require (CustomerProfile_ok R customer) (InputSchema ''CustomerProfile'')) (\<lambda>_.
     bind_ok (assertNoProtectedPii U (normalizedBuildContext p) customer) (\<lambda>_.
     bind_ok (compileEvidenceTranscript R p) (\<lambda>t.
     bind_ok (assertNoProtectedPii U (et_content t) customer) (\<lambda>_.
     bind_ok (each_ok (\<lambda>i. verifyProposalItemEvidence R U inp t (''deliverable '' @ pi_item_id i) (pi_text i) (pi_source_ids i))
       (pp_deliverables (pv_plan p))) (\<lambda>_.
     bind_ok (each_ok (\<lambda>q. verifyProposalItemEvidence R U inp t (''requirement '' @ cq_requirement_id q) (cq_description q)
       (cq_source_ids q)) (oc_requirements (pv_contract p))) (\<lambda>_.
     bind_ok (each_ok (approved_fact_of R U inp t) (oc_approved_facts (pv_contract p))) (\<lambda>facts.
     let contract = compiled_contract inp t facts in
     bind_ok (require (AcceptanceContract_ok R contract) (OutputSchema ''AcceptanceContract'')) (\<lambda>_.
     bind_ok (case contractDigest R contract of Inl e \<Rightarrow> Inl (CompileJsonError e) | Inr d \<Rightarrow> Inr d) (\<lambda>hash.
     bind_ok (each_ok (parsed_assignment R inp t contract) (enumerate 0 (pv_strategy_labels p))) (\<lambda>assignments.
     Inr \<lparr>ca_contract = contract, ca_contract_hash = hash, ca_content = et_content t, ca_sha = et_sha t,
       ca_assignments = assignments\<rparr>))))))))))))"

end
