(* ===== verification/Plain_Text.thy ===== *)
theory Plain_Text
  imports Redaction
begin

text \<open>
  Texts the secret filter (\<open>src/lib/redaction.ts\<close>) leaves alone: a text without the characters each of
  its patterns needs is returned unchanged.
\<close>

lemma rx_absent:
  assumes "Cls Q lo hi \<in> set rs" "0 < lo" "list_all (\<lambda>c. \<not> Q c) s"
  shows "rx_seq rs s i = []"
  using assms(1)
proof (induction rs arbitrary: i)
  case (Cons r rs)
  have none: "rx_ends (Cls Q lo hi) s j = []" for j
  proof -
    have "takeWhile Q (drop j s) = []"
    proof (cases "drop j s")
      case (Cons a l)
      then have "a \<in> set s" by (metis in_set_dropD list.set_intros(1))
      with Cons assms(3) show ?thesis by (simp add: list_all_iff)
    qed simp
    then show ?thesis using assms(2) by (auto simp: Let_def split: option.splits)
  qed
  show ?case
  proof (cases "r = Cls Q lo hi")
    case True
    then show ?thesis using none by simp
  next
    case False
    with Cons show ?thesis by simp
  qed
qed simp

lemma rx_absent_alt: "\<forall>rs \<in> set rss. rx_seq rs s i = [] \<Longrightarrow> rx_alt rss s i = []"
  by (induction rss) auto

definition plain_char :: "char \<Rightarrow> bool" where
  "plain_char c \<longleftrightarrow> \<not> one_of ''@?&_-K'' c \<and> \<not> is_digit c"

fun adjacent :: "(char \<Rightarrow> bool) \<Rightarrow> (char \<Rightarrow> bool) \<Rightarrow> string \<Rightarrow> bool" where
  "adjacent P Q (a # b # cs) \<longleftrightarrow> P a \<and> Q b \<or> adjacent P Q (b # cs)"
| "adjacent P Q [a] \<longleftrightarrow> False"
| "adjacent P Q [] \<longleftrightarrow> False"

lemma adjacent_drop: "j + 1 < length s \<Longrightarrow> P (s ! j) \<Longrightarrow> Q (s ! (j + 1)) \<Longrightarrow> adjacent P Q s"
proof (induction P Q s arbitrary: j rule: adjacent.induct)
  case (1 P Q a b cs)
  then show ?case by (cases j) auto
qed auto

lemma rx_one_end: "k \<in> set (rx_ends (Cls P 1 (Some 1)) s i) \<Longrightarrow> k = Suc i \<and> i < length s \<and> P (s ! i)"
proof (cases "drop i s")
  case (Cons a l)
  moreover assume "k \<in> set (rx_ends (Cls P 1 (Some 1)) s i)"
  ultimately show ?thesis
    using drop_all [of s i] by (auto simp: Let_def nth_via_drop split: if_splits intro: ccontr)
qed simp

lemma rx_no_pair:
  assumes "\<not> adjacent P Q s"
  shows "rx_seq (pre @ Cls P 1 (Some 1) # Cls Q 1 (Some 1) # post) s i = []"
proof (induction pre arbitrary: i)
  case Nil
  have "rx_seq (Cls Q 1 (Some 1) # post) s k = []" if k: "k \<in> set (rx_ends (Cls P 1 (Some 1)) s i)" for k
  proof -
    have "rx_ends (Cls Q 1 (Some 1)) s k = []"
    proof (rule ccontr)
      assume "rx_ends (Cls Q 1 (Some 1)) s k \<noteq> []"
      then obtain m where "m \<in> set (rx_ends (Cls Q 1 (Some 1)) s k)" by (meson hd_in_set)
      with rx_one_end [OF k] rx_one_end [OF this] have "adjacent P Q s" by (intro adjacent_drop [of i]) auto
      with assms show False by simp
    qed
    then show ?thesis by simp
  qed
  then show ?case
    unfolding append_Nil rx_seq.simps(2) [of "Cls P 1 (Some 1)"] concat_eq_Nil_conv by (auto simp del: rx_seq.simps rx_ends.simps)
qed simp

lemma replace_none:
  assumes "\<And>i. rx_seq rs s i = []"
  shows "replace_all rs t s = s"
  using rx_replace_no_match [of 0 s rs] assms by (simp add: replace_all_def rx_match_def)

lemma of_to_lower: "is_upper c \<Longrightarrow> of_char (to_lower c) = (of_char c + 32 :: nat)"
  by (simp add: to_lower_def is_upper_def in_range_def of_char_mod_256)

lemma to_lower_iff:
  assumes "\<not> is_upper x" "is_upper y" "of_char y + 32 = (of_char x :: nat)"
  shows "to_lower c = x \<longleftrightarrow> c = x \<or> c = y"
proof (cases "is_upper c")
  case True
  have "to_lower c = x \<longleftrightarrow> (of_char c + 32 :: nat) = of_char x" using of_to_lower [OF True] by (metis of_char_eq_iff)
  also have "\<dots> \<longleftrightarrow> (of_char c :: nat) = of_char y" using assms(3) by linarith
  also have "\<dots> \<longleftrightarrow> c = y" by simp
  finally show ?thesis using True assms(1) by auto
next
  case False
  then show ?thesis using assms by (auto simp: to_lower_def)
qed
lemma to_lower_letters:
  "to_lower c = to_lower CHR ''B'' \<longleftrightarrow> c = CHR ''b'' \<or> c = CHR ''B''"
  "to_lower c = to_lower CHR ''e'' \<longleftrightarrow> c = CHR ''e'' \<or> c = CHR ''E''"
  "to_lower c = CHR ''n'' \<longleftrightarrow> c = CHR ''n'' \<or> c = CHR ''N''"
proof -
  have low: "to_lower CHR ''B'' = CHR ''b''" "to_lower CHR ''e'' = CHR ''e''" by code_simp+
  then show "to_lower c = to_lower CHR ''B'' \<longleftrightarrow> c = CHR ''b'' \<or> c = CHR ''B''"
    "to_lower c = to_lower CHR ''e'' \<longleftrightarrow> c = CHR ''e'' \<or> c = CHR ''E''"
    "to_lower c = CHR ''n'' \<longleftrightarrow> c = CHR ''n'' \<or> c = CHR ''N''"
    using to_lower_iff [of "CHR ''b''" "CHR ''B''"] to_lower_iff [of "CHR ''e''" "CHR ''E''"] to_lower_iff [of "CHR ''n''" "CHR ''N''"]
    by (simp_all add: low is_upper_def in_range_def)
qed

theorem redactText_plain:
  assumes plain: "list_all plain_char s" and be: "\<not> adjacent (\<lambda>c. c = CHR ''b'' \<or> c = CHR ''B'') (\<lambda>c. c = CHR ''e'' \<or> c = CHR ''E'') s"
    and as: "\<not> adjacent (\<lambda>c. c = CHR ''A'') (\<lambda>c. c = CHR ''S'') s"
  shows "redactText s = s"
proof -
  have no: "list_all (\<lambda>c. \<not> Q c) s" if "\<And>c. Q c \<Longrightarrow> \<not> plain_char c" for Q
    using plain that by (auto simp: list_all_iff)
  have sep: "list_all (\<lambda>c. c \<noteq> CHR ''_'') s" "list_all (\<lambda>c. \<not> one_of ''-_'' c) s" "list_all (\<lambda>c. c \<noteq> CHR ''-'') s"
    "list_all (\<lambda>c. \<not> is_digit c) s" "list_all (\<lambda>c. c \<noteq> CHR ''@'') s" "list_all (\<lambda>c. \<not> one_of ''?&'' c) s" "list_all (\<lambda>c. c \<noteq> CHR ''1'') s" "list_all (\<lambda>c. c \<noteq> CHR ''K'') s"
    by (rule no, simp add: plain_char_def one_of_def is_digit_def in_range_def, (elim disjE, simp_all)?)+
  have "rx_seq BEARER s i = []" for i
    using rx_no_pair [OF be [folded to_lower_letters(1,2)], of "[WordB]"] by (simp add: BEARER_def liti_def del: rx_seq.simps)
  moreover have "rx_seq KNOWN_TOKENS s i = []" for i
  proof -
    have "rx_alt [lit ''bt_'', lit ''ck_'', lit ''cpk-'', lit ''cr'' @ [Cls (one_of ''-_'') 1 (Some 1)],
          lit ''dtn_'', lit ''fw_'', lit ''re_'', lit ''rk_'' @ [Alt [lit ''live'', lit ''test'']] @ lit ''_'',
          lit ''pk_'' @ [Alt [lit ''live'', lit ''test'']] @ lit ''_'',
          lit ''sk'' @ [Cls (one_of ''-_'') 1 (Some 1)], lit ''xi'' @ [Cls (one_of ''-_'') 1 (Some 1)]] s j = []" for j
      by (rule rx_absent_alt) (auto simp: lit_def simp del: rx_seq.simps rx_ends.simps rx_alt.simps intro: rx_absent [OF _ _ sep(1)] rx_absent [OF _ _ sep(2)] rx_absent [OF _ _ sep(3)])
    then show ?thesis by (simp add: KNOWN_TOKENS_def del: rx_alt.simps)
  qed
  moreover have "rx_seq EMAIL s i = []" "rx_seq PHONE s i = []" "rx_seq FLY_ACCESS_TOKEN s i = []" for i
    by (auto simp: EMAIL_def PHONE_def FLY_ACCESS_TOKEN_def lit_def simp del: rx_seq.simps rx_ends.simps rx_alt.simps intro: rx_absent [OF _ _ sep(5)] rx_absent [OF _ _ sep(4)] rx_absent [OF _ _ sep(7)])
  moreover have "rx_seq (URL_SECRET_KEY @ URL_SECRET_VALUE) s i = []" for i
    by (rule rx_absent [OF _ _ sep(6)]) (auto simp: URL_SECRET_KEY_def simp del: rx_seq.simps)
  moreover have "rx_seq AWS_ACCESS_KEY s i = []" for i
  proof -
    have "rx_seq (lit ''AKIA'') s j = []" for j
      by (rule rx_absent [where lo = 1 and hi = "Some 1", OF _ _ sep(8)]) (simp_all add: lit_def)
    moreover have "rx_seq (lit ''ASIA'') s j = []" for j
      using rx_no_pair [OF as, of "[]"] by (simp add: lit_def del: rx_seq.simps)
    ultimately show ?thesis by (simp add: AWS_ACCESS_KEY_def)
  qed
  ultimately show ?thesis
    using rx_replace_no_match [of 0 s "URL_SECRET_KEY @ URL_SECRET_VALUE"]
    by (simp add: redactText_def replace_none replace_all_group_def rx_match_def)
qed

end
