(* ===== verification/Compiler_Properties.thy ===== *)
theory Compiler_Properties
  imports Assignment_Compiler Sample_Project Plain_Text
begin

text \<open>
  What the assignment compiler lets through: assignments the build server accepts, whose every fact is
  quoted from a text the assignment carries or from a digest-bound capture, and whose transcript holds
  no protected value of the customer.
\<close>

lemma each_ok_Inr: "each_ok f xs = Inr ys \<longleftrightarrow> list_all2 (\<lambda>x y. f x = Inr y) xs ys"
  by (induction xs arbitrary: ys) (auto simp: list_all2_Cons1 store_simps)

lemma each_ok_all:
  assumes "each_ok f xs = Inr ys" "x \<in> set xs" obtains y where "f x = Inr y"
  using assms by (auto simp: each_ok_Inr in_set_conv_nth list_all2_conv_all_nth)

lemma each_ok_from:
  assumes "each_ok f xs = Inr ys" "y \<in> set ys" obtains x where "x \<in> set xs" "f x = Inr y"
  using assms by (auto simp: each_ok_Inr in_set_conv_nth list_all2_conv_all_nth) (metis nth_mem)

definition quoted :: "runtime \<Rightarrow> unicode \<Rightarrow> proposal_version \<Rightarrow> string \<Rightarrow> string \<Rightarrow> fact_source \<Rightarrow> bool" where
  "quoted R U p content statement source \<longleftrightarrow> isSameExtractiveEvidence U statement (fs_excerpt source)
     \<and> (case source of
          TranscriptSource sha st en ex exsha \<Rightarrow> slice st en content = ex \<and> isStandaloneEvidenceAt U content ex st
            \<and> sha = rt_sha256 R content \<and> exsha = rt_sha256 R ex
        | ResearchSource url cap ex exsha \<Rightarrow> (\<exists>full \<in> set (research_sources (pv_sources p)). \<exists>st.
            rs_url full = url \<and> rs_captured_at full = cap \<and> rs_excerpt_digest full = rs_capture_digest full
            \<and> isStandaloneEvidenceAt U (rs_excerpt full) ex st))"

lemma check_conversation_InrD:
  assumes "check_conversation R U t m m' s = Inr (st, en)"
  shows "slice st en (et_content t) = cs_excerpt s \<and> rt_sha256 R (cs_excerpt s) = cs_excerpt_digest s
    \<and> isStandaloneEvidenceAt U (et_content t) (cs_excerpt s) st"
  using assms by (auto simp: check_conversation_def store_simps require_Inr assertFactCitationIsStandalone_def split: prod.splits)

lemma check_research_InrD:
  assumes "check_research U p i s = Inr x"
  obtains full where "full \<in> set (research_sources (pv_sources p))" "rs_url full = rs_url s"
    "rs_captured_at full = rs_captured_at s" "rs_excerpt_digest full = rs_capture_digest full"
    "isStandaloneEvidenceAt U (rs_excerpt full) (rs_excerpt s) (rs_start s)"
  using assms
  by (auto simp: check_research_def store_simps require_Inr assertFactCitationIsStandalone_def full_research_capture_def
      dest!: find_eq_SomeD)

lemma fact_source_quoted:
  assumes "fact_source_of R U inp t f i = Inr x" "et_sha t = rt_sha256 R (et_content t)"
  shows "quoted R U (ci_proposal inp) (et_content t) (cf_statement f) x"
proof -
  from assms(1) obtain source where same: "isSameExtractiveEvidence U (cf_statement f) (source_excerpt source)"
    and rest: "(case source of
        FromResearch s \<Rightarrow>
          bind_ok (check_research U (ci_proposal inp) (''fact '' @ cf_fact_id f) s) (\<lambda>_.
          bind_ok (require (length (rs_excerpt s) \<le> 4000)
            (InvalidBuildEvidence ((''fact '' @ cf_fact_id f) @ '' research citation exceeds the build-contract limit''))) (\<lambda>_.
          Inr (ResearchSource (rs_url s) (rs_captured_at s) (rs_excerpt s) (rs_excerpt_digest s))))
      | FromIntake s \<Rightarrow> bind_ok (check_conversation R U t ((''fact '' @ cf_fact_id f) @ '' is not bound to the exact minimized conversation'')
              ((''fact '' @ cf_fact_id f) @ '' offsets do not resolve to its persisted excerpt'') s)
            (\<lambda>(st, en). Inr (TranscriptSource (et_sha t) st en (cs_excerpt s) (cs_excerpt_digest s)))
      | FromMessage s \<Rightarrow> bind_ok (check_conversation R U t ((''fact '' @ cf_fact_id f) @ '' is not bound to the exact minimized conversation'')
              ((''fact '' @ cf_fact_id f) @ '' offsets do not resolve to its persisted excerpt'') s)
            (\<lambda>(st, en). Inr (TranscriptSource (et_sha t) st en (cs_excerpt s) (cs_excerpt_digest s)))) = Inr x"
    unfolding fact_source_of_def Let_def assertFactCitationEntails_def assertExactExtractiveEvidence_def
    by (auto simp: bind_ok_Inr require_Inr)
  show ?thesis
  proof (cases source)
    case (FromResearch s)
    with rest have r: "\<exists>u. check_research U (ci_proposal inp) (''fact '' @ cf_fact_id f) s = Inr u"
      and x: "x = ResearchSource (rs_url s) (rs_captured_at s) (rs_excerpt s) (rs_excerpt_digest s)"
      by (auto simp: bind_ok_Inr require_Inr)
    from r obtain full where "full \<in> set (research_sources (pv_sources (ci_proposal inp)))" "rs_url full = rs_url s"
      "rs_captured_at full = rs_captured_at s" "rs_excerpt_digest full = rs_capture_digest full"
      "isStandaloneEvidenceAt U (rs_excerpt full) (rs_excerpt s) (rs_start s)"
      by (auto elim: check_research_InrD)
    with same x FromResearch show ?thesis by (auto simp: quoted_def)
  qed (use rest same assms(2) in \<open>auto simp: bind_ok_Inr quoted_def dest: check_conversation_InrD\<close>)
qed

lemma compileEvidenceTranscript_sha: "compileEvidenceTranscript R p = Inr t \<Longrightarrow> et_sha t = rt_sha256 R (et_content t)"
  by (auto simp: compileEvidenceTranscript_def Let_def bind_ok_Inr)


text \<open>A text of the proposal that says what each excerpt it cites says.\<close>

definition grounded :: "unicode \<Rightarrow> proposal_version \<Rightarrow> string \<Rightarrow> string list \<Rightarrow> bool" where
  "grounded U p statement sourceIds \<longleftrightarrow> (\<forall>sid \<in> set sourceIds. \<exists>source.
     source_by_id (pv_sources p) sid = Some source \<and> isSameExtractiveEvidence U statement (source_excerpt source))"

lemma verify_item_grounded:
  assumes "verifyProposalItemEvidence R U inp t subject statement ids = Inr u"
  shows "grounded U (ci_proposal inp) statement ids"
  unfolding grounded_def
proof
  fix sid assume "sid \<in> set ids"
  moreover obtain us where "each_ok (verify_item_source R U inp t subject statement) ids = Inr us"
    using assms by (auto simp: verifyProposalItemEvidence_def bind_ok_Inr)
  ultimately obtain y where "verify_item_source R U inp t subject statement sid = Inr y" by (auto elim: each_ok_all)
  then show "\<exists>source. source_by_id (pv_sources (ci_proposal inp)) sid = Some source
      \<and> isSameExtractiveEvidence U statement (source_excerpt source)"
    by (auto simp: verify_item_source_def bind_ok_Inr the_or_Inr assertExactExtractiveEvidence_def require_Inr)
qed

lemma no_protected_pii:
  "assertNoProtectedPii U content c = Inr u \<Longrightarrow>
    (\<forall>v \<in> set (protected_values c). \<not> text_includes (un_lower U content) (un_lower U v)) \<and> redactText content = content"
  by (auto simp: assertNoProtectedPii_def require_Inr list_ex_iff)


definition plain_unicode :: unicode where
  "plain_unicode = \<lparr>un_nfkc = (\<lambda>s. s), un_lower_en = map to_lower, un_lower = map to_lower\<rparr>"

text \<open>A proposal whose texts are all quoted from its one conversation.\<close>

definition sample_brief_terms :: orchestration_contract where
  "sample_brief_terms = sample_terms\<lparr>
     oc_approved_facts := [\<lparr>cf_fact_id = ''fact'', cf_statement = ''Open daily'', cf_source_ids = [''source-1'']\<rparr>],
     oc_requirements := [\<lparr>cq_requirement_id = ''req'', cq_description = ''open daily'', cq_priority = Hard,
        cq_source_ids = [''source-1''], cq_evidence_basis = CustomerConversation, cq_verifiers = [CommandVerifier ''check'' 60]\<rparr>]\<rparr>"

definition sample_brief :: proposal_version where
  "sample_brief = sample_proposal\<lparr>
     pv_plan := sample_plan\<lparr>pp_deliverables := [\<lparr>pi_item_id = ''item'', pi_text = ''Open daily.'',
        pi_source_ids = [''source-1''], pi_evidence_basis = CustomerConversation\<rparr>]\<rparr>,
     pv_contract := sample_brief_terms\<rparr>"

definition sample_compile :: compile_input where
  "sample_compile = \<lparr>ci_project_id = ''project-1'', ci_proposal = sample_brief, ci_customer = sample_customer,
     ci_requested_at = ''t2'', ci_sandbox_snapshot = None\<rparr>"

lemma sample_brief_context:
  "normalizedBuildContext sample_brief = ''BUILD INSTRUCTIONS:'' @ newline @ ''Build it'' @ newline @ newline @ ''DELIVERABLES:'' @ newline
    @ ''[item] Open daily.'' @ newline @ newline @ ''APPROVED BUSINESS FACTS:'' @ newline @ ''[fact] Open daily'' @ newline @ newline
    @ ''REQUIREMENTS:'' @ newline @ ''[req] (hard) open daily'' @ newline @ newline @ ''FORBIDDEN CLAIMS:''"
  by (simp add: normalizedBuildContext_def sample_brief_def sample_brief_terms_def sample_plan_def sample_terms_def sample_proposal_def)

lemma sample_brief_plain: "redactText (normalizedBuildContext sample_brief) = normalizedBuildContext sample_brief"
proof (rule redactText_plain)
  show "list_all plain_char (normalizedBuildContext sample_brief)"
    unfolding sample_brief_context newline_def by (simp add: plain_char_def one_of_def is_digit_def in_range_def)
  show "\<not> adjacent (\<lambda>c. c = CHR ''b'' \<or> c = CHR ''B'') (\<lambda>c. c = CHR ''e'' \<or> c = CHR ''E'') (normalizedBuildContext sample_brief)"
    unfolding sample_brief_context newline_def by simp
  show "\<not> adjacent (\<lambda>c. c = CHR ''A'') (\<lambda>c. c = CHR ''S'') (normalizedBuildContext sample_brief)"
    unfolding sample_brief_context newline_def by simp
qed

lemma sample_protected: "protected_values sample_customer = [''Ann'', ''ann@example.com'']"
  by code_simp

lemma text_includes_nth:
  assumes "text_includes content part" "k < length part"
  obtains j where "j + k < length content" "content ! (j + k) = part ! k" "\<And>m. m < length part \<Longrightarrow> j + m < length content \<and> content ! (j + m) = part ! m"
proof -
  obtain j where j: "slice j (j + length part) content = part" using assms(1) by (auto simp: text_includes_def list_ex_iff)
  have "j + m < length content \<and> content ! (j + m) = part ! m" if "m < length part" for m
  proof -
    have "length (slice j (j + length part) content) = length part" using j by simp
    then have "j + length part \<le> length content" using that by (simp add: length_slice)
    moreover have "slice j (j + length part) content ! m = content ! (j + m)"
      using that calculation by (simp add: slice_def)
    ultimately show ?thesis using that j by simp
  qed
  with assms(2) show ?thesis by (intro that [of j]) auto
qed

lemma text_includes_adjacent:
  assumes "text_includes content part" "Suc k < length part"
  shows "adjacent (\<lambda>c. c = part ! k) (\<lambda>c. c = part ! Suc k) content"
proof -
  obtain j where j: "\<And>m. m < length part \<Longrightarrow> j + m < length content \<and> content ! (j + m) = part ! m"
    using text_includes_nth [OF assms(1), of k] assms(2) by (metis Suc_lessD)
  from j [of k] j [of "Suc k"] assms(2) show ?thesis by (intro adjacent_drop [of "j + k"]) simp_all
qed

lemma adjacent_map: "adjacent P Q (map f s) \<longleftrightarrow> adjacent (\<lambda>c. P (f c)) (\<lambda>c. Q (f c)) s"
  by (induction P Q s rule: adjacent.induct) auto

text \<open>The sample customer's name and address both hold a double \<open>n\<close>.\<close>

lemma no_nn_not_included:
  assumes "\<not> adjacent (\<lambda>c. c = CHR ''n'' \<or> c = CHR ''N'') (\<lambda>c. c = CHR ''n'' \<or> c = CHR ''N'') content"
    "Suc k < length part" "part ! k = CHR ''n''" "part ! Suc k = CHR ''n''"
  shows "\<not> text_includes (map to_lower content) part"
  using text_includes_adjacent [of "map to_lower content" part k] assms
  by (auto simp: adjacent_map to_lower_letters)

lemma sample_lowered: "map to_lower ''Ann'' = ''ann''" "map to_lower ''ann@example.com'' = ''ann@example.com''"
  by code_simp+

lemma no_sample_value:
  assumes "redactText content = content"
    "\<not> adjacent (\<lambda>c. c = CHR ''n'' \<or> c = CHR ''N'') (\<lambda>c. c = CHR ''n'' \<or> c = CHR ''N'') content"
  shows "assertNoProtectedPii plain_unicode content sample_customer = Inr ()"
  using assms no_nn_not_included [OF assms(2), of 1 "''ann''"] no_nn_not_included [OF assms(2), of 1 "''ann@example.com''"]
  by (simp add: assertNoProtectedPii_def sample_protected plain_unicode_def sample_lowered del: list.map)

lemma sample_context_pii: "assertNoProtectedPii plain_unicode (normalizedBuildContext sample_brief) sample_customer = Inr ()"
proof (rule no_sample_value [OF sample_brief_plain])
  show "\<not> adjacent (\<lambda>c. c = CHR ''n'' \<or> c = CHR ''N'') (\<lambda>c. c = CHR ''n'' \<or> c = CHR ''N'') (normalizedBuildContext sample_brief)"
    unfolding sample_brief_context newline_def by simp
qed

lemma sample_content_pii: "assertNoProtectedPii plain_unicode ''Open daily'' sample_customer = Inr ()"
proof (rule no_sample_value)
  show "redactText ''Open daily'' = ''Open daily''"
    by (rule redactText_plain) (simp_all add: plain_char_def one_of_def is_digit_def in_range_def)
qed simp

lemma sample_brief_ok: "ProposalVersion_ok sample_runtime sample_brief"
proof -
  have d: "digestJson sample_runtime (proposal_content_json sample_brief) = Inr sample_hash" by simp
  have v: "validateProposalContent sample_brief = []"
    by (simp add: validateProposalContent_def sample_brief_def sample_brief_terms_def sample_proposal_def conversation_sources_def research_sources_def
        research_issues_def sourced_values_def evidence_bound_items_def basis_issue_def source_by_id_def
        full_conversation_def resolve_issue_def sample_source_def sample_excerpt_def sample_plan_def sample_terms_def
        slice_def Let_def)
  have "plan_shape sample_runtime (pv_plan sample_brief)"
    by (simp add: plan_shape_def plan_item_shape_def sample_plan_def sample_brief_def text_simps)
  moreover have "OrchestrationAcceptanceContract_ok sample_runtime sample_brief_terms"
  proof -
    have d: "digestJson sample_runtime (contract_content_json sample_brief_terms) = Inr sample_hash"
      by (simp add: contract_content_json_def list_all_iff)
    show ?thesis
      by (simp add: OrchestrationAcceptanceContract_ok_def orchestration_contract_issues_def d)
        (simp add: sample_brief_terms_def sample_terms_def contract_content_shape_def validateAcceptanceContract_def
          contract_requirement_shape_def contract_requirement_issues_def text_simps)
  qed
  ultimately have "proposal_shape sample_runtime sample_brief"
    using sample_source_ok sample_excerpt_ok
    by (simp add: proposal_shape_def sample_brief_def sample_proposal_def quote_shape_def text_simps)
  moreover have "pv_digest sample_brief = sample_hash" by (simp add: sample_brief_def sample_proposal_def)
  ultimately show ?thesis by (simp add: ProposalVersion_ok_def proposal_version_issues_def d v)
qed


definition sample_evidence :: evidence_transcript where
  "sample_evidence = \<lparr>et_content = ''Open daily'', et_sha = sample_hash, et_locations = [(''source-1'', (0, 10)), (''source-2'', (5, 10))]\<rparr>"

lemma sample_sources: "pv_sources sample_brief = [FromIntake sample_source, FromIntake sample_excerpt]"
  by (simp add: sample_brief_def sample_proposal_def)

lemma sample_evidence_compiled: "compileEvidenceTranscript sample_runtime sample_brief = Inr sample_evidence"
proof -
  have h: "rt_sha256 sample_runtime = (\<lambda>_. sample_hash)" by (simp add: sample_runtime_def)
  show ?thesis
    by (simp add: compileEvidenceTranscript_def sample_sources conversation_sources_def conversationOriginKey_def note_root_def
        digest_bound_root_def sample_source_def sample_excerpt_def Let_def h slice_def sample_evidence_def)
qed

lemma sample_same: "isSameExtractiveEvidence plain_unicode ''Open daily'' ''Open daily''"
  "isSameExtractiveEvidence plain_unicode ''Open daily.'' ''Open daily''" "isSameExtractiveEvidence plain_unicode ''open daily'' ''Open daily''"
  by code_simp+

lemma sample_stands: "isStandaloneEvidenceAt plain_unicode ''Open daily'' ''Open daily'' 0"
  by code_simp


lemma sample_cited:
  "source_by_id (pv_sources sample_brief) ''source-1'' = Some (FromIntake sample_source)"
  "check_conversation sample_runtime plain_unicode sample_evidence m m' sample_source = Inr (0, 10)"
  "source_excerpt (FromIntake sample_source) = ''Open daily''"
proof -
  have h: "rt_sha256 sample_runtime = (\<lambda>_. sample_hash)" by (simp add: sample_runtime_def)
  show "source_by_id (pv_sources sample_brief) ''source-1'' = Some (FromIntake sample_source)"
    by (simp add: sample_sources source_by_id_def sample_source_def sample_excerpt_def)
  show "check_conversation sample_runtime plain_unicode sample_evidence m m' sample_source = Inr (0, 10)"
    using sample_stands
    by (simp add: check_conversation_def sample_evidence_def sample_source_def h slice_def assertFactCitationIsStandalone_def)
  show "source_excerpt (FromIntake sample_source) = ''Open daily''" by (simp add: sample_source_def)
qed

lemma sample_item_verified:
  assumes "isSameExtractiveEvidence plain_unicode statement ''Open daily''"
  shows "verifyProposalItemEvidence sample_runtime plain_unicode sample_compile sample_evidence subject statement [''source-1''] = Inr ()"
  using assms sample_cited sample_content_pii
  by (simp add: verifyProposalItemEvidence_def verify_item_source_def sample_compile_def assertExactExtractiveEvidence_def Let_def)

definition sample_fact :: approved_fact where
  "sample_fact = \<lparr>af_id = ''fact'', af_statement = ''Open daily'',
     af_sources = [TranscriptSource sample_hash 0 10 ''Open daily'' sample_hash]\<rparr>"

lemma sample_fact_compiled:
  "approved_fact_of sample_runtime plain_unicode sample_compile sample_evidence
    \<lparr>cf_fact_id = ''fact'', cf_statement = ''Open daily'', cf_source_ids = [''source-1'']\<rparr> = Inr sample_fact"
  using sample_cited sample_content_pii sample_same(1)
  by (simp add: approved_fact_of_def fact_source_of_def sample_compile_def assertFactCitationEntails_def
      assertExactExtractiveEvidence_def Let_def sample_fact_def)
    (simp add: sample_evidence_def sample_source_def)

abbreviation "sample_compiled_contract \<equiv> compiled_contract sample_compile sample_evidence [sample_fact]"

lemma sample_compiled_fields:
  "oc_version sample_brief_terms = 1" "pv_contract sample_brief = sample_brief_terms" "pv_version sample_brief = 1"
  "pv_strategy_labels sample_brief = [''classic'']" "pv_build_prompt sample_brief = ''Build it''" "ci_proposal sample_compile = sample_brief"
  by (simp_all add: sample_brief_def sample_brief_terms_def sample_terms_def sample_proposal_def sample_compile_def)

lemma sample_contract_compiled: "AcceptanceContract_ok sample_runtime sample_compiled_contract"
  by (simp add: AcceptanceContract_ok_def contract_shape_def contract_issues_def compiled_contract_def sample_compiled_fields Let_def)
    (simp add: sample_compile_def sample_brief_def sample_brief_terms_def sample_terms_def sample_proposal_def sample_evidence_def sample_fact_def
      approved_fact_shape_def requirement_shape_def requirement_issues_def renderedPaths_def sample_runtime_def text_simps MAX_RENDERED_ROUTE_COUNT_def)

lemma sample_hash_part: "list_all id_tail (take n sample_hash)"
  using sample_hash_id by (auto simp: list_all_iff dest: in_set_takeD simp del: sample_hash_id)

lemma sample_assignment_compiled:
  "parsed_assignment sample_runtime sample_compile sample_evidence sample_compiled_contract (0, ''classic'')
    = Inr (compiled_assignment sample_runtime sample_compile sample_evidence sample_compiled_contract (0, ''classic''))"
proof -
  have "BuildAssignment_ok sample_runtime (compiled_assignment sample_runtime sample_compile sample_evidence sample_compiled_contract (0, ''classic''))"
    using sample_contract_compiled
    by (simp add: BuildAssignment_ok_def assignment_shape_def assignment_issues_def compiled_assignment_def sample_compiled_fields Let_def stable_id_def)
      (simp add: compiled_contract_def sample_compiled_fields sample_compile_def sample_evidence_def sample_fact_def text_simps newline_def
        decimal.simps sample_runtime_def truthy_def slice_def Let_def sample_hash_part)
  then show ?thesis by (simp add: parsed_assignment_def Let_def)
qed


end
