(* ===== verification/Agent_Core.thy ===== *)
theory Agent_Core
  imports Orchestration_Machine
begin

text \<open>
  \<open>src/orchestration/application/orchestration-agent.ts\<close>, its frame: the options of the agent with their
  bounds, what it may throw, and its operations as state-passing programs over the orchestration store.
  Each reading of the clock, each store operation and each awaited call of a provider is one step of
  \<open>gs_step\<close>.  The record \<open>agent_world\<close>, indexed by the step, holds what lies outside: the clocks, the
  identifiers and nonces the store draws, what the other clients of the store did during an await, and
  what each provider answered or threw.  An answer comes with the value \<open>JSON.stringify\<close> sees.
\<close>

datatype agent_error =
    PolicyViolation string
  | PendingInboundMail
  | StoreRefused orchestration_store_error
  | PortFailed "string option"
  | ScriptError string

subsection \<open>Answers of the providers (\<open>src/orchestration/ports\<close>)\<close>

datatype provider_payment_status = NoPaymentRequired | ProviderPaid | ProviderUnpaid

record provider_checkout =
  co_session_id :: string
  co_livemode :: bool
  co_url :: "string option"
  co_status :: checkout_status
  co_payment_status :: provider_payment_status
  co_payment_intent_id :: "string option"
  co_amount_minor :: "nat option"
  co_currency :: "string option"
  co_customer_email :: "string option"
  co_customer_id :: "string option"
  co_project_id :: "string option"
  co_proposal_id :: "string option"
  co_proposal_version :: "nat option"
  co_proposal_digest :: "string option"
  co_created_at :: string
  co_expires_at :: string

record settlement =
  se_checkout_session_id :: string
  se_payment_intent_id :: string
  se_project_id :: string
  se_proposal_id :: string
  se_proposal_version :: nat
  se_proposal_digest :: string
  se_amount_minor :: nat
  se_amount_received_minor :: nat
  se_currency :: string
  se_customer_email :: string
  se_customer_id :: "string option"
  se_livemode :: bool
  se_intent_created_at :: string

datatype outbound_status = OutboundPending | OutboundDelivered | OutboundBounced | OutboundFailed

record outbound_state =
  os_provider :: string
  os_message_id :: string
  os_status :: outbound_status
  os_verified_at :: string
  os_permanent :: bool

record agent_world =
  gw_now :: "nat \<Rightarrow> int"
  gw_clock :: "nat \<Rightarrow> text_clock"
  gw_uuid :: "nat \<Rightarrow> string"
  gw_nonce :: "nat \<Rightarrow> string"
  gw_env :: "nat \<Rightarrow> orch_db \<Rightarrow> orch_db"
  gw_checkout :: "nat \<Rightarrow> agent_error + (provider_checkout \<times> jsval)"
  gw_settlement :: "nat \<Rightarrow> agent_error + (settlement \<times> jsval)"
  gw_outbound :: "nat \<Rightarrow> agent_error + outbound_state"
  gw_cancelled :: "nat \<Rightarrow> agent_error + (build_run \<times> jsval)"
  gw_runs :: "nat \<Rightarrow> agent_error + (nat \<Rightarrow> build_run)"
  gw_events :: "nat \<Rightarrow> agent_error + outbox_event list"
  gw_acknowledged :: "nat \<Rightarrow> agent_error + unit"

subsection \<open>The options\<close>

text \<open>\<open>ag_iso\<close> is \<open>toISOString\<close>, \<open>ag_lower\<close> is \<open>toLocaleLowerCase\<close>.\<close>

record agent_options =
  go_runtime :: runtime
  go_vault :: vault
  go_iso :: "int \<Rightarrow> string"
  go_lower :: "string \<Rightarrow> string"
  go_livemode :: bool
  go_preview_ttl_seconds :: int
  go_preview_review_ms :: int
  go_max_attempts :: nat
  go_retry_initial_ms :: int
  go_retry_max_ms :: int
  go_build_deadline_ms :: int
  go_proof_grace_ms :: int
  go_mail_deadline_ms :: int
  go_login_ttl_seconds :: int

text \<open>The numbers a caller may give; \<open>None\<close> is a number left out.\<close>

record agent_numbers =
  an_preview_ttl_seconds :: "rat option"
  an_preview_review_ms :: "rat option"
  an_max_attempts :: "rat option"
  an_retry_initial_ms :: "rat option"
  an_retry_max_ms :: "rat option"
  an_build_deadline_ms :: "rat option"
  an_proof_grace_ms :: "rat option"
  an_mail_deadline_ms :: "rat option"
  an_login_ttl_seconds :: "rat option"

definition whole_between :: "int \<Rightarrow> int \<Rightarrow> rat \<Rightarrow> int option" where
  "whole_between lo hi q =
     (let (n, d) = quotient_of q in if d = 1 \<and> lo \<le> n \<and> n \<le> hi then Some n else None)"

definition boundedRetryInteger :: "rat \<Rightarrow> int \<Rightarrow> int \<Rightarrow> string \<Rightarrow> agent_error + int" where
  "boundedRetryInteger q minimum maximum name =
     (case whole_between (max minimum (- MAX_SAFE_INTEGER)) (min maximum MAX_SAFE_INTEGER) q of
        None \<Rightarrow> Inl (ScriptError name) | Some n \<Rightarrow> Inr n)"

definition given :: "rat \<Rightarrow> rat option \<Rightarrow> rat" where
  "given q0 v = (case v of None \<Rightarrow> q0 | Some q \<Rightarrow> q)"

definition new_agent ::
  "runtime \<Rightarrow> vault \<Rightarrow> (int \<Rightarrow> string) \<Rightarrow> (string \<Rightarrow> string) \<Rightarrow> bool \<Rightarrow> agent_numbers \<Rightarrow> agent_error + agent_options" where
  "new_agent R V toIso toLower livemode n =
     bind_ok (boundedRetryInteger (given 5 (an_max_attempts n)) 1 20 ''effectMaxAttempts'') (\<lambda>attempts.
     bind_ok (boundedRetryInteger (given 1000 (an_retry_initial_ms n)) 100 300000 ''effectRetryInitialDelayMs'') (\<lambda>initial.
     bind_ok (boundedRetryInteger (given 60000 (an_retry_max_ms n)) initial 86400000 ''effectRetryMaxDelayMs'') (\<lambda>longest.
     bind_ok (boundedRetryInteger (given 7200000 (an_build_deadline_ms n)) 1000 86400000 ''buildDeadlineMs'') (\<lambda>build.
     bind_ok (boundedRetryInteger (given 120000 (an_proof_grace_ms n)) 1000 1800000 ''proofEventGracePeriodMs'') (\<lambda>grace.
     bind_ok (boundedRetryInteger (given 21600000 (an_mail_deadline_ms n)) 1000 604800000 ''mailDeliveryDeadlineMs'') (\<lambda>mail.
     bind_ok (boundedRetryInteger (given 900 (an_login_ttl_seconds n)) 60 604800 ''dashboardLoginTtlSeconds'') (\<lambda>login.
     bind_ok (the_or (ScriptError ''provenPreviewTtlSeconds'')
        (whole_between 60 604800 (given 172800 (an_preview_ttl_seconds n)))) (\<lambda>ttl.
     bind_ok (the_or (ScriptError ''previewReviewPeriodMs'')
        (whole_between 0 MAX_SAFE_INTEGER (given 86400000 (an_preview_review_ms n)))) (\<lambda>review.
     bind_ok (require (review + 3600000 \<le> ttl * 1000) (ScriptError ''proven preview TTL'')) (\<lambda>_.
     Inr \<lparr>go_runtime = R, go_vault = V, go_iso = toIso, go_lower = toLower, go_livemode = livemode,
       go_preview_ttl_seconds = ttl, go_preview_review_ms = review, go_max_attempts = nat attempts,
       go_retry_initial_ms = initial, go_retry_max_ms = longest, go_build_deadline_ms = build,
       go_proof_grace_ms = grace, go_mail_deadline_ms = mail, go_login_ttl_seconds = login\<rparr>))))))))))"

text \<open>What the constructor guarantees of the retry options.\<close>

definition retry_options :: "agent_options \<Rightarrow> bool" where
  "retry_options A \<longleftrightarrow> 1 \<le> go_max_attempts A \<and> go_max_attempts A \<le> 20
     \<and> 100 \<le> go_retry_initial_ms A \<and> go_retry_initial_ms A \<le> go_retry_max_ms A \<and> go_retry_max_ms A \<le> 86400000"

lemma whole_between_SomeD: "whole_between lo hi q = Some n \<Longrightarrow> lo \<le> n \<and> n \<le> hi"
  by (auto simp: whole_between_def Let_def split: prod.splits if_splits)

lemma boundedRetryInteger_InrD: "boundedRetryInteger q lo hi name = Inr n \<Longrightarrow> lo \<le> n \<and> n \<le> hi"
  by (auto simp: boundedRetryInteger_def split: option.splits dest: whole_between_SomeD)

lemma new_agent_retry_options:
  assumes "new_agent R V toIso toLower livemode n = Inr A" shows "retry_options A"
  using assms by (auto simp: new_agent_def store_simps retry_options_def dest!: boundedRetryInteger_InrD)

subsection \<open>Programs\<close>

record agent_state =
  gs_db :: orch_db
  gs_step :: nat
  gs_attempted :: "string list"

type_synonym 'a agent = "agent_state \<Rightarrow> (agent_error + 'a) \<times> agent_state"

definition am_return :: "'a \<Rightarrow> 'a agent" where
  "am_return x s = (Inr x, s)"

definition am_throw :: "agent_error \<Rightarrow> 'a agent" where
  "am_throw e s = (Inl e, s)"

definition am_bind :: "'a agent \<Rightarrow> ('a \<Rightarrow> 'b agent) \<Rightarrow> 'b agent" where
  "am_bind m f s = (case m s of (Inl e, s') \<Rightarrow> (Inl e, s') | (Inr x, s') \<Rightarrow> f x s')"

definition am_then :: "'a agent \<Rightarrow> 'b agent \<Rightarrow> 'b agent" where
  "am_then m m' = am_bind m (\<lambda>_. m')"

text \<open>A pure computation that may throw; a guard.\<close>

definition am_lift :: "agent_error + 'a \<Rightarrow> 'a agent" where
  "am_lift r s = (r, s)"

definition am_require :: "bool \<Rightarrow> string \<Rightarrow> unit agent" where
  "am_require P message = am_lift (require P (PolicyViolation message))"

definition am_the :: "string \<Rightarrow> 'a option \<Rightarrow> 'a agent" where
  "am_the message v = am_lift (the_or (PolicyViolation message) v)"

definition am_now :: "agent_world \<Rightarrow> int agent" where
  "am_now W s = (Inr (gw_now W (gs_step s)), s\<lparr>gs_step := Suc (gs_step s)\<rparr>)"

definition timestamp :: "agent_options \<Rightarrow> agent_world \<Rightarrow> string agent" where
  "timestamp A W = am_bind (am_now W) (\<lambda>t. am_return (go_iso A t))"

definition am_store ::
  "(nat \<Rightarrow> orch_db \<Rightarrow> orchestration_store_error + ('a \<times> orch_db)) \<Rightarrow> 'a agent" where
  "am_store operation s =
     (let s' = s\<lparr>gs_step := Suc (gs_step s)\<rparr> in
      case operation (gs_step s) (gs_db s) of
        Inl e \<Rightarrow> (Inl (StoreRefused e), s') | Inr (x, db) \<Rightarrow> (Inr x, s'\<lparr>gs_db := db\<rparr>))"

definition am_query :: "(orch_db \<Rightarrow> orchestration_store_error + 'a) \<Rightarrow> 'a agent" where
  "am_query query s = (case query (gs_db s) of Inl e \<Rightarrow> (Inl (StoreRefused e), s) | Inr x \<Rightarrow> (Inr x, s))"

definition am_await :: "agent_world \<Rightarrow> (nat \<Rightarrow> agent_error + 'a) \<Rightarrow> 'a agent" where
  "am_await W port s =
     (port (gs_step s), s\<lparr>gs_db := gw_env W (gs_step s) (gs_db s), gs_step := Suc (gs_step s)\<rparr>)"

subsection \<open>Reading and saving a project\<close>

definition requireProject :: "agent_options \<Rightarrow> string \<Rightarrow> project agent" where
  "requireProject A projectId =
     am_bind (am_query (getProject (go_runtime A) (go_vault A) projectId))
       (am_the ''Orchestration project not found'')"

definition assertNoUnresolvedInboundMail :: "string \<Rightarrow> unit agent" where
  "assertNoUnresolvedInboundMail projectId =
     am_bind (am_query (hasUnresolvedInboundMailEnvelope projectId))
       (\<lambda>waiting. if waiting then am_throw PendingInboundMail else am_return ())"

definition inbound_ids :: "project \<Rightarrow> string list" where
  "inbound_ids p = map mg_message_id
     (filter (\<lambda>m. mg_direction m = Inbound \<and> mg_sender_authenticated m) (pj_messages p))"

definition save_project ::
  "agent_options \<Rightarrow> agent_world \<Rightarrow> project \<Rightarrow> event_input \<Rightarrow> inbox_event option \<Rightarrow> login_consumption option
    \<Rightarrow> project agent" where
  "save_project A W p e inbox login =
     (let consumed = (case ep_consumed_message_ids (ei_payload e) of None \<Rightarrow> [] | Some ms \<Rightarrow> ms) in
      am_then (am_require (consumed \<noteq> [] \<longrightarrow>
          ei_type e \<in> {''proposal.created'', ''proposal.paid_revision_created'', ''revision.no_scope_change''})
        ''Only a proposal or no-scope decision may consume customer messages'')
      (am_then (am_require (set consumed \<subseteq> set (inbound_ids p))
        ''Customer-message consumption references untrusted or missing input'')
      (am_store (\<lambda>k. saveProject (go_runtime A) (go_vault A) (gw_clock W k) (gw_uuid W k) (gw_nonce W k)
         p (pj_revision p) e inbox login))))"

definition event_of :: "string \<Rightarrow> event_actor \<Rightarrow> event_payload \<Rightarrow> event_input" where
  "event_of kind actor payload = \<lparr>ei_type = kind, ei_actor = actor, ei_payload = payload\<rparr>"

text \<open>\<open>effectAttemptContext.run\<close>: the action has its own list of attempted effects.\<close>

definition markEffectAttempt :: "string \<Rightarrow> unit agent" where
  "markEffectAttempt key s = (Inr (), s\<lparr>gs_attempted := gs_attempted s @ [key]\<rparr>)"

definition normalizeEmail :: "agent_options \<Rightarrow> string \<Rightarrow> string" where
  "normalizeEmail A v = go_lower A (trim v)"

subsection \<open>Rules of the programs\<close>

lemma am_simps [simp]:
  "am_return x s = (Inr x, s)" "am_throw e s = (Inl e, s)" "am_lift r s = (r, s)"
  by (simp_all add: am_return_def am_throw_def am_lift_def)

lemma am_bind_Inr: "am_bind m f s = (Inr y, s'') \<longleftrightarrow> (\<exists>x s'. m s = (Inr x, s') \<and> f x s' = (Inr y, s''))"
  by (auto simp: am_bind_def split: prod.splits sum.splits)

lemma am_bind_step: "m s = (Inr x, s') \<Longrightarrow> am_bind m f s = f x s'"
  and am_bind_stop: "m s = (Inl e, s') \<Longrightarrow> am_bind m f s = (Inl e, s')"
  by (simp_all add: am_bind_def)

lemma am_require_simps [simp]:
  "am_require True m s = (Inr (), s)" "am_require False m s = (Inl (PolicyViolation m), s)"
  by (simp_all add: am_require_def)

lemma am_require_Inr: "am_require P m s = (Inr u, s') \<longleftrightarrow> P \<and> s' = s"
  by (cases P) auto

lemma am_the_Inr: "am_the m v s = (Inr x, s') \<longleftrightarrow> v = Some x \<and> s' = s"
  by (cases v) (auto simp: am_the_def)

lemma am_now_Inr: "am_now W s = (Inr t, s') \<longleftrightarrow> t = gw_now W (gs_step s) \<and> s' = s\<lparr>gs_step := Suc (gs_step s)\<rparr>"
  by (auto simp: am_now_def)

lemma timestamp_eq: "timestamp A W s = (Inr (go_iso A (gw_now W (gs_step s))), s\<lparr>gs_step := Suc (gs_step s)\<rparr>)"
  by (simp add: timestamp_def am_bind_def am_now_def)

lemma am_bind_timestamp [simp]:
  "am_bind (timestamp A W) f s = f (go_iso A (gw_now W (gs_step s))) (s\<lparr>gs_step := Suc (gs_step s)\<rparr>)"
  by (simp add: am_bind_def timestamp_eq)

lemma am_bind_now [simp]: "am_bind (am_now W) f s = f (gw_now W (gs_step s)) (s\<lparr>gs_step := Suc (gs_step s)\<rparr>)"
  by (simp add: am_bind_def am_now_def)

lemma am_store_Inr:
  "am_store operation s = (Inr x, s') \<longleftrightarrow> (\<exists>db. operation (gs_step s) (gs_db s) = Inr (x, db)
     \<and> s' = s\<lparr>gs_step := Suc (gs_step s), gs_db := db\<rparr>)"
  by (auto simp: am_store_def Let_def split: sum.splits)

end
