(* ===== verification/Agent_Effects.thy ===== *)
theory Agent_Effects
  imports Agent_Core
begin

text \<open>
  Durable effects of the agent (\<open>orchestration-agent.ts\<close>): what a project remembers of every call of a
  provider, how an attempt that failed is scheduled again or given up, and how a provider that has
  nothing new to tell is asked again later.
\<close>

fun update_first :: "('a \<Rightarrow> bool) \<Rightarrow> ('a \<Rightarrow> 'a) \<Rightarrow> 'a list \<Rightarrow> 'a list" where
  "update_first P f [] = []"
| "update_first P f (x # xs) = (if P x then f x # xs else x # update_first P f xs)"

definition effect_at :: "project \<Rightarrow> string \<Rightarrow> durable_effect option" where
  "effect_at p key = find (\<lambda>e. ef_key e = key) (pj_effects p)"

definition change_effect :: "string \<Rightarrow> (durable_effect \<Rightarrow> durable_effect) \<Rightarrow> project \<Rightarrow> project" where
  "change_effect key f p = p\<lparr>pj_effects := update_first (\<lambda>e. ef_key e = key) f (pj_effects p)\<rparr>"

definition requireEffect :: "project \<Rightarrow> string \<Rightarrow> agent_error + durable_effect" where
  "requireEffect p key = the_or (PolicyViolation ''Durable effect intent is missing'') (effect_at p key)"

definition completedEffect :: "project \<Rightarrow> string \<Rightarrow> bool" where
  "completedEffect p key \<longleftrightarrow> list_ex (\<lambda>e. ef_key e = key \<and> ef_status e = EffectCompleted) (pj_effects p)"

text \<open>The digest of an input or a receipt is taken over its plain \<open>JSON.stringify\<close>.\<close>

definition printed_digest :: "runtime \<Rightarrow> jsval \<Rightarrow> string" where
  "printed_digest R v = rt_sha256 R (stringify R v)"

definition pending_effect ::
  "string \<Rightarrow> effect_type \<Rightarrow> string \<Rightarrow> string \<Rightarrow> (string \<times> string) option \<Rightarrow> durable_effect" where
  "pending_effect key kind digest now proof =
     \<lparr>ef_key = key, ef_type = kind, ef_status = EffectPending, ef_attempts = 1, ef_input_digest = digest,
      ef_provider_id = None, ef_receipt_digest = None, ef_proof_snapshot_id = map_option fst proof,
      ef_proof_snapshot_digest = map_option snd proof, ef_error = None, ef_next_attempt_at = None,
      ef_next_check_at = None, ef_created_at = now, ef_updated_at = now, ef_completed_at = None\<rparr>"

definition addPendingEffect ::
  "runtime \<Rightarrow> string \<Rightarrow> effect_type \<Rightarrow> jsval \<Rightarrow> string \<Rightarrow> (string \<times> string) option \<Rightarrow> project \<Rightarrow> agent_error + project" where
  "addPendingEffect R key kind input now proof p =
     (case effect_at p key of
        Some e \<Rightarrow>
          bind_ok (require (ef_type e = kind \<and> ef_input_digest e = printed_digest R input
              \<and> ef_proof_snapshot_id e = map_option fst proof \<and> ef_proof_snapshot_digest e = map_option snd proof)
            (PolicyViolation ''Durable effect key was reused with different input'')) (\<lambda>_. Inr p)
      | None \<Rightarrow> Inr (p\<lparr>pj_effects := pj_effects p @ [pending_effect key kind (printed_digest R input) now proof]\<rparr>))"

definition completed :: "runtime \<Rightarrow> string \<Rightarrow> jsval \<Rightarrow> string \<Rightarrow> durable_effect \<Rightarrow> durable_effect" where
  "completed R providerId receipt now e =
     e\<lparr>ef_status := EffectCompleted, ef_provider_id := Some providerId,
       ef_receipt_digest := Some (printed_digest R receipt), ef_updated_at := now, ef_completed_at := Some now,
       ef_error := None, ef_next_attempt_at := None, ef_next_check_at := None\<rparr>"

definition completeEffect ::
  "runtime \<Rightarrow> string \<Rightarrow> string \<Rightarrow> jsval \<Rightarrow> string \<Rightarrow> project \<Rightarrow> agent_error + project" where
  "completeEffect R key providerId receipt now p =
     bind_ok (requireEffect p key) (\<lambda>_. Inr (change_effect key (completed R providerId receipt now) p))"

subsection \<open>Errors of an effect\<close>

definition permanent_codes :: "string list" where
  "permanent_codes = [''ARTIFACT_INTEGRITY_FAILED'', ''INVALID_INPUT'', ''INVALID_PROVIDER_RESPONSE'',
     ''INVALID_WEBHOOK'', ''POLICY_BLOCKED'', ''RELEASE_FENCED'', ''UNSAFE_ARCHIVE'']"

fun upstream_code :: "agent_error \<Rightarrow> string option" where
  "upstream_code (PortFailed code) = code"
| "upstream_code _ = None"

fun is_policy_error :: "agent_error \<Rightarrow> bool" where
  "is_policy_error (PolicyViolation _) = True"
| "is_policy_error _ = False"

definition isTransientProviderFailure :: "agent_error \<Rightarrow> bool" where
  "isTransientProviderFailure e \<longleftrightarrow> \<not> is_policy_error e
     \<and> (case upstream_code e of None \<Rightarrow> True | Some c \<Rightarrow> c \<notin> set permanent_codes)"

definition effectErrorId :: "runtime \<Rightarrow> string \<Rightarrow> nat \<Rightarrow> string \<Rightarrow> string" where
  "effectErrorId R key attempt code =
     ''effect-error:'' @ take 24 (rt_sha256 R (key @ [CHR 0x00] @ decimal attempt @ [CHR 0x00] @ code))"

definition classifyEffectError :: "runtime \<Rightarrow> agent_error \<Rightarrow> durable_effect \<Rightarrow> string \<Rightarrow> orchestration_error" where
  "classifyEffectError R err e occurredAt =
     (let security = (upstream_code err = Some ''INVALID_WEBHOOK'');
          policy = (is_policy_error err \<or> (case upstream_code err of None \<Rightarrow> False | Some c \<Rightarrow> c \<in> set permanent_codes));
          category = (if security then SecurityError else if policy then PolicyError else TransientError);
          code = (if security then ''effect.security_failure'' else if policy then ''effect.policy_failure''
            else ''effect.provider_failure'') in
      \<lparr>oe_error_id = effectErrorId R (ef_key e) (ef_attempts e) code, oe_code = code, oe_category = category,
       oe_message = (if category = TransientError then ''A provider effect failed and is eligible for bounded retry''
         else ''A provider effect failed closed and requires operator attention''),
       oe_retryable = (category = TransientError), oe_effect_key = Some (ef_key e), oe_occurred_at = occurredAt\<rparr>)"

definition safeEffectError :: "runtime \<Rightarrow> durable_effect \<Rightarrow> string \<Rightarrow> string \<Rightarrow> orchestration_error" where
  "safeEffectError R e code occurredAt =
     \<lparr>oe_error_id = effectErrorId R (ef_key e) (ef_attempts e) code, oe_code = ''effect.'' @ code,
      oe_category = PermanentError, oe_message = ''A provider effect exhausted its bounded retry policy'',
      oe_retryable = False, oe_effect_key = Some (ef_key e), oe_occurred_at = occurredAt\<rparr>"

subsection \<open>Giving up\<close>

definition failed_effect :: "orchestration_error \<Rightarrow> durable_effect \<Rightarrow> durable_effect" where
  "failed_effect err e =
     e\<lparr>ef_status := EffectFailed, ef_error := Some err, ef_updated_at := oe_occurred_at err,
       ef_next_attempt_at := None, ef_next_check_at := None\<rparr>"

definition attention_status :: "effect_type \<Rightarrow> lifecycle_status" where
  "attention_status kind =
     (if kind = ReconcilePayment then PaymentVerificationFailed
      else if kind \<in> {DeployProvenCandidate, VerifyDeployment} then DeploymentVerificationFailed
      else NeedsOperatorAttention)"

definition effect_payload :: "lifecycle_status \<Rightarrow> durable_effect \<Rightarrow> event_payload" where
  "effect_payload st e = no_payload\<lparr>ep_status := Some st, ep_effect_key := Some (ef_key e), ep_effect_type := Some (ef_type e)\<rparr>"

definition failEffect ::
  "agent_options \<Rightarrow> agent_world \<Rightarrow> project \<Rightarrow> string \<Rightarrow> orchestration_error \<Rightarrow> string \<Rightarrow> project agent" where
  "failEffect A W p key error eventType =
     am_bind (am_lift (requireEffect p key)) (\<lambda>e.
     let err = error\<lparr>oe_retryable := False\<rparr>; st = attention_status (ef_type e);
         q = (change_effect key (failed_effect err) p)\<lparr>pj_errors := pj_errors p @ [err], pj_status := st\<rparr> in
     save_project A W q (event_of eventType ActorSystem
       ((effect_payload st e)\<lparr>ep_previous_status := Some (pj_status p), ep_attempt := Some (ef_attempts e),
          ep_error_code := Some (oe_code err)\<rparr>)) None None)"

subsection \<open>Retrying\<close>

definition date_of :: "runtime \<Rightarrow> string option \<Rightarrow> int option" where
  "date_of R v = (case v of None \<Rightarrow> None | Some s \<Rightarrow> rt_date_parse R s)"

text \<open>The difference of two times in a comparator; \<open>NaN\<close> counts as no difference.\<close>

definition date_diff :: "int option \<Rightarrow> int option \<Rightarrow> int" where
  "date_diff a b = (case (a, b) of (Some x, Some y) \<Rightarrow> x - y | _ \<Rightarrow> 0)"

definition earliestScheduledRetryEffect :: "runtime \<Rightarrow> project \<Rightarrow> durable_effect option" where
  "earliestScheduledRetryEffect R p =
     (case sort_by (\<lambda>l r. let d = date_diff (date_of R (ef_next_attempt_at l)) (date_of R (ef_next_attempt_at r)) in
          if d \<noteq> 0 then d else date_diff (rt_date_parse R (ef_created_at l)) (rt_date_parse R (ef_created_at r)))
        (filter (\<lambda>e. ef_status e = EffectPending \<and> ef_next_attempt_at e \<noteq> None) (pj_effects p)) of
        [] \<Rightarrow> None | e # _ \<Rightarrow> Some e)"

definition scheduled_effect :: "project \<Rightarrow> string \<Rightarrow> durable_effect option" where
  "scheduled_effect p key =
     find (\<lambda>e. ef_key e = key \<and> ef_status e = EffectPending \<and> ef_next_attempt_at e \<noteq> None) (pj_effects p)"

definition later_than :: "runtime \<Rightarrow> string option \<Rightarrow> int \<Rightarrow> bool" where
  "later_than R v now \<longleftrightarrow> (case date_of R v of None \<Rightarrow> False | Some t \<Rightarrow> now < t)"

definition retrying :: "string \<Rightarrow> durable_effect \<Rightarrow> durable_effect" where
  "retrying now e = e\<lparr>ef_attempts := Suc (ef_attempts e), ef_updated_at := now, ef_next_attempt_at := None,
     ef_next_check_at := None\<rparr>"

text \<open>Answers the project and whether its effect has to wait.\<close>

definition prepareEffectRetry ::
  "agent_options \<Rightarrow> agent_world \<Rightarrow> project \<Rightarrow> string option \<Rightarrow> (project \<times> bool) agent" where
  "prepareEffectRetry A W p effectKey =
     (case (case effectKey of None \<Rightarrow> earliestScheduledRetryEffect (go_runtime A) p | Some k \<Rightarrow> scheduled_effect p k) of
        None \<Rightarrow> am_return (p, False)
      | Some e \<Rightarrow> am_bind (am_now W) (\<lambda>now.
          if later_than (go_runtime A) (ef_next_attempt_at e) now then am_return (p, True)
          else if go_max_attempts A \<le> ef_attempts e
          then am_bind (failEffect A W p (ef_key e)
              (safeEffectError (go_runtime A) e ''retry_exhausted'' (go_iso A now)) ''effect.retry_exhausted'')
            (\<lambda>q. am_return (q, True))
          else am_bind (am_lift (requireEffect p (ef_key e))) (\<lambda>r.
            am_bind (save_project A W (change_effect (ef_key e) (retrying (go_iso A now)) p)
              (event_of ''effect.retry_started'' ActorSystem
                ((effect_payload (pj_status p) r)\<lparr>ep_attempt := Some (Suc (ef_attempts r))\<rparr>)) None None)
            (\<lambda>q. am_return (q, False)))))"

definition check_begun :: "string \<Rightarrow> durable_effect \<Rightarrow> durable_effect" where
  "check_begun now e = e\<lparr>ef_next_check_at := None, ef_updated_at := now\<rparr>"

definition beginProviderCheck :: "agent_options \<Rightarrow> agent_world \<Rightarrow> project \<Rightarrow> string \<Rightarrow> (project \<times> bool) agent" where
  "beginProviderCheck A W p key =
     am_bind (am_lift (requireEffect p key)) (\<lambda>e.
     if truthy (ef_next_check_at e) = None then am_return (p, False)
     else am_bind (am_now W) (\<lambda>now.
       if later_than (go_runtime A) (ef_next_check_at e) now then am_return (p, True)
       else am_bind (timestamp A W) (\<lambda>stamp.
         am_bind (save_project A W (change_effect key (check_begun stamp) p)
           (event_of ''effect.provider_check_started'' ActorSystem
             ((effect_payload (pj_status p) e)\<lparr>ep_attempt := Some (ef_attempts e)\<rparr>)) None None)
         (\<lambda>q. am_return (q, False)))))"

definition PROVIDER_RECHECK_INTERVAL_MS :: int where
  "PROVIDER_RECHECK_INTERVAL_MS = 60000"

definition rechecked :: "string \<Rightarrow> string \<Rightarrow> durable_effect \<Rightarrow> durable_effect" where
  "rechecked next now e = e\<lparr>ef_attempts := 1, ef_next_check_at := Some next, ef_updated_at := now, ef_error := None,
     ef_next_attempt_at := None\<rparr>"

definition scheduleProviderRecheck :: "agent_options \<Rightarrow> agent_world \<Rightarrow> project \<Rightarrow> string \<Rightarrow> string \<Rightarrow> project agent" where
  "scheduleProviderRecheck A W p key eventType =
     am_bind (am_lift (requireEffect p key)) (\<lambda>e.
     if ef_status e \<noteq> EffectPending then am_return p
     else am_bind (am_now W) (\<lambda>now.
       am_bind (timestamp A W) (\<lambda>stamp.
       save_project A W (change_effect key (rechecked (go_iso A (now + PROVIDER_RECHECK_INTERVAL_MS)) stamp) p)
         (event_of eventType ActorProvider (effect_payload (pj_status p) e)) None None)))"

subsection \<open>Recording a failed attempt\<close>

text \<open>\<open>Math.min(initial * 2 ** (attempts - 1), max)\<close>, in whole milliseconds.\<close>

definition retry_delay :: "agent_options \<Rightarrow> nat \<Rightarrow> int" where
  "retry_delay A attempts =
     min (if attempts = 0 then go_retry_initial_ms A div 2 else go_retry_initial_ms A * 2 ^ (attempts - 1))
       (go_retry_max_ms A)"

definition waiting :: "orchestration_error \<Rightarrow> string \<Rightarrow> string \<Rightarrow> durable_effect \<Rightarrow> durable_effect" where
  "waiting err next now e = e\<lparr>ef_error := Some err, ef_next_attempt_at := Some next, ef_updated_at := now,
     ef_next_check_at := None\<rparr>"

definition recordPendingEffectFailure ::
  "agent_options \<Rightarrow> agent_world \<Rightarrow> string \<Rightarrow> string \<Rightarrow> agent_error \<Rightarrow> unit agent" where
  "recordPendingEffectFailure A W projectId key error =
     am_bind (requireProject A projectId) (\<lambda>p.
     case find (\<lambda>e. ef_key e = key \<and> ef_status e = EffectPending \<and> ef_next_attempt_at e = None) (pj_effects p) of
       None \<Rightarrow> am_return ()
     | Some e \<Rightarrow> am_bind (timestamp A W) (\<lambda>now.
         let err = classifyEffectError (go_runtime A) error e now in
         if \<not> oe_retryable err \<or> go_max_attempts A \<le> ef_attempts e
         then am_then (failEffect A W p (ef_key e) err ''effect.dead_lettered'') (am_return ())
         else am_bind (am_lift (requireEffect p (ef_key e))) (\<lambda>r.
           am_bind (am_lift (the_or (ScriptError ''RangeError'') (rt_date_parse (go_runtime A) now))) (\<lambda>t.
           am_then (save_project A W ((change_effect (ef_key e)
                (waiting err (go_iso A (t + retry_delay A (ef_attempts r))) now) p)\<lparr>pj_errors := pj_errors p @ [err]\<rparr>)
              (event_of ''effect.retry_scheduled'' ActorSystem
                ((effect_payload (pj_status p) r)\<lparr>ep_attempt := Some (ef_attempts r), ep_error_code := Some (oe_code err)\<rparr>))
              None None)
           (am_return ())))))"

text \<open>An exception of the action is thrown on, after the last effect attempted in it was charged with the
  failure; whatever goes wrong in doing so is swallowed.\<close>

definition runWithEffectFailure :: "agent_options \<Rightarrow> agent_world \<Rightarrow> string \<Rightarrow> 'a agent \<Rightarrow> 'a agent" where
  "runWithEffectFailure A W projectId action s =
     (let (r, s1) = action (s\<lparr>gs_attempted := []\<rparr>); leave = (\<lambda>s'. s'\<lparr>gs_attempted := gs_attempted s\<rparr>) in
      case r of
        Inr x \<Rightarrow> (Inr x, leave s1)
      | Inl e \<Rightarrow>
          if e = PendingInboundMail \<or> gs_attempted s1 = [] \<or> last (gs_attempted s1) = [] then (Inl e, leave s1)
          else (Inl e, leave (snd (recordPendingEffectFailure A W projectId (last (gs_attempted s1)) e s1))))"

end
