(* ===== verification/Sample_Agent.thy ===== *)
theory Sample_Agent
  imports Agent_Effects Sample_Orchestration
begin

text \<open>
  A concrete agent for the properties of the orchestration agent: a runtime whose digests tell first and
  second attempts of an effect apart, a clock that moves a minute per reading, and a database with one
  project whose payment is being reconciled.
\<close>

definition agent_sha :: "string \<Rightarrow> string" where
  "agent_sha s = (if CHR 0x00 \<in> set s then replicate 64 (if CHR ''2'' \<in> set s then CHR ''2'' else CHR ''1'') else sample_hash)"

definition agent_runtime :: runtime where
  "agent_runtime = orch_runtime\<lparr>rt_sha256 := agent_sha, rt_date_parse := \<lambda>s. Some (int (length s) - 1)\<rparr>"

lemma agent_runtime_fields [simp]:
  "rt_sha256 agent_runtime = agent_sha" "rt_is_datetime agent_runtime = (\<lambda>_. True)" "rt_is_email agent_runtime = (\<lambda>_. True)"
  "rt_date_parse agent_runtime = (\<lambda>s. Some (int (length s) - 1))"
  by (simp_all add: agent_runtime_def orch_runtime_def sample_runtime_def)

lemma agent_sha_ok: "sha256_text (agent_sha s)"
  by (simp add: agent_sha_def sha256_text_def is_hex_def is_digit_def in_range_def list_all_iff)
    (simp add: sample_hash_def is_hex_def is_digit_def in_range_def)

definition sample_agent :: agent_options where
  "sample_agent = \<lparr>go_runtime = agent_runtime, go_vault = sample_vault, go_iso = (\<lambda>t. replicate (Suc (nat t)) CHR ''t''),
     go_lower = map to_lower, go_livemode = False, go_preview_ttl_seconds = 172800, go_preview_review_ms = 86400000,
     go_max_attempts = 2, go_retry_initial_ms = 1000, go_retry_max_ms = 60000, go_build_deadline_ms = 7200000,
     go_proof_grace_ms = 120000, go_mail_deadline_ms = 21600000, go_login_ttl_seconds = 900\<rparr>"

lemma sample_agent_fields [simp]:
  "go_runtime sample_agent = agent_runtime" "go_vault sample_agent = sample_vault" "go_max_attempts sample_agent = 2"
  "go_iso sample_agent t = replicate (Suc (nat t)) CHR ''t''" "go_retry_max_ms sample_agent = 60000"
  "go_retry_initial_ms sample_agent = 1000"
  by (simp_all add: sample_agent_def)

definition sample_world :: agent_world where
  "sample_world = \<lparr>gw_now = (\<lambda>k. 60000 * int k), gw_clock = (\<lambda>_ _. time_text 0), gw_uuid = (\<lambda>k. replicate (Suc k) CHR ''u''),
     gw_nonce = (\<lambda>_. ''n''), gw_env = (\<lambda>_ db. db), gw_checkout = (\<lambda>_. Inl (PortFailed None)),
     gw_settlement = (\<lambda>_. Inl (PortFailed None)), gw_outbound = (\<lambda>_. Inl (PortFailed None)),
     gw_cancelled = (\<lambda>_. Inl (PortFailed None)), gw_runs = (\<lambda>_. Inl (PortFailed None)), gw_events = (\<lambda>_. Inr []),
     gw_acknowledged = (\<lambda>_. Inr ())\<rparr>"

lemma sample_world_fields [simp]:
  "gw_now sample_world k = 60000 * int k" "gw_clock sample_world k = (\<lambda>_. time_text 0)" "gw_uuid sample_world k = replicate (Suc k) CHR ''u''"
  by (simp_all add: sample_world_def)

definition reconcile_key :: string where "reconcile_key = ''payment:reconcile:project-1:v1:cs-1''"

definition reconcile_effect :: durable_effect where
  "reconcile_effect = pending_effect reconcile_key ReconcilePayment sample_hash (time_text 0) None"

definition agent_project :: project where
  "agent_project = (first_project 0 (time_text 0))\<lparr>pj_effects := [reconcile_effect]\<rparr>"

lemma agent_intake_ok: "Intake_ok agent_runtime sample_intake"
  by (simp add: Intake_ok_def intake_shape_def intake_issues_def intake_span_issues_def sample_intake_def
      pii_span_shape_def pii_span_issues_def text_simps agent_sha_def slice_def)

lemma agent_customer_ok: "CustomerProfile_ok agent_runtime sample_customer"
  by (simp add: CustomerProfile_ok_def ContactEmail_ok_def contact_issues_def ResearchConsent_ok_def
      consent_issues_def sample_customer_def text_simps)

lemma reconcile_effect_ok: "DurableEffect_ok agent_runtime reconcile_effect"
  by (simp add: DurableEffect_ok_def effect_shape_def effect_issues_def reconcile_effect_def pending_effect_def reconcile_key_def
      text_simps proof_bound_def truthy_def safe_nat_def MAX_SAFE_INTEGER_def)

lemma agent_project_ok: "ProjectAggregate_ok agent_runtime agent_project"
proof -
  let ?p = agent_project
  have lists: "pj_proposals ?p = []" "pj_checkouts ?p = []" "pj_payments ?p = []" "pj_batches ?p = []" "pj_candidates ?p = []"
    "pj_previews ?p = []" "pj_deployments ?p = []" "pj_messages ?p = []" "pj_open_questions ?p = []" "pj_errors ?p = []"
    "pj_active_proposal ?p = None" "pj_paid_proposal ?p = None" "pj_active_batch_id ?p = None"
    "pj_intake ?p = sample_intake" "pj_customer ?p = sample_customer" "pj_effects ?p = [reconcile_effect]"
    "pj_project_id ?p = ''project-1''" "pj_revision ?p = 0" "pj_status ?p = IntakeReceived"
    by (simp_all add: agent_project_def first_project_def new_project_def sample_create_def)
  have "project_shape agent_runtime ?p"
    using agent_intake_ok agent_customer_ok reconcile_effect_ok
    by (simp add: project_shape_def lists text_simps safe_nat_def MAX_SAFE_INTEGER_def)
  moreover have "consent_binding_issues ?p = []"
    by (simp add: consent_binding_issues_def lists) (simp add: sample_customer_def sample_intake_def)
  moreover have "payments_issues agent_runtime ?p = []" by (simp add: payments_issues_Nil lists)
  moreover have "status_issues agent_runtime ?p = []"
    by (simp add: status_issues_def lists active_batch_def ACTIVE_STATUSES_def)
  moreover have "unique_collections_issues ?p = []" by (simp add: unique_collections_issues_def lists)
  ultimately show ?thesis
    by (simp add: ProjectAggregate_ok_def project_issues_def lists checkouts_issues_def batches_issues_def)
qed

definition agent_db :: "project \<Rightarrow> orch_db" where
  "agent_db p = empty_orch_db\<lparr>od_projects := [saved_row agent_runtime sample_vault ''n'' p first_row]\<rparr>"

definition agent_start :: "project \<Rightarrow> agent_state" where
  "agent_start p = \<lparr>gs_db = agent_db p, gs_step = 0, gs_attempted = []\<rparr>"

lemma agent_db_reads:
  assumes "ProjectAggregate_ok agent_runtime p" "pj_project_id p = ''project-1''" "pj_created_at p = time_text 0"
  shows "getProject agent_runtime sample_vault ''project-1'' (agent_db p) = Inr (Some p)" "od_events (agent_db p) = []"
proof -
  have "rowToProject agent_runtime sample_vault (saved_row agent_runtime sample_vault ''n'' p first_row) = Inr p"
    using assms by (intro saved_row_reads [OF sample_vault_sound]) simp_all
  then show "getProject agent_runtime sample_vault ''project-1'' (agent_db p) = Inr (Some p)"
    by (simp add: getProject_def check_input_def project_row_of_def agent_db_def text_simps)
  show "od_events (agent_db p) = []" by (simp add: agent_db_def empty_orch_db_def)
qed

end
