(* ===== verification/Agent_Frame.thy ===== *)
theory Agent_Frame
  imports Agent_Effects Orchestration_Properties
begin

text \<open>
  What the agent may rely on when it changes a project it has read and saves it: which changes keep the
  aggregate well formed, and that the save then writes.
\<close>

subsection \<open>Changing an effect keeps the aggregate well formed\<close>

lemma find_update_first:
  assumes "\<And>x. P x \<Longrightarrow> P (f x)"
  shows "find P (update_first P f xs) = map_option f (find P xs)"
  using assms by (induction xs) auto

lemma find_update_first_at: "find P xs = Some x \<Longrightarrow> P (f x) \<Longrightarrow> find P (update_first P f xs) = Some (f x)"
  by (induction xs) (auto split: if_splits)

lemma map_update_first_same: "(\<And>x. P x \<Longrightarrow> k (f x) = k x) \<Longrightarrow> map k (update_first P f xs) = map k xs"
  by (induction xs) auto

lemma length_update_first [simp]: "length (update_first P f xs) = length xs"
  by (induction xs) auto

lemma list_all_update_first: "list_all Q xs \<Longrightarrow> (\<And>x. find P xs = Some x \<Longrightarrow> Q (f x)) \<Longrightarrow> list_all Q (update_first P f xs)"
  by (induction xs) (auto split: if_splits)

lemma list_ex_update_first:
  "(\<And>x. find P xs = Some x \<Longrightarrow> Q (f x) = Q x) \<Longrightarrow> list_ex Q (update_first P f xs) = list_ex Q xs"
  by (induction xs) (auto split: if_splits)

lemma change_effect_fields [simp]:
  "pj_project_id (change_effect key f p) = pj_project_id p" "pj_revision (change_effect key f p) = pj_revision p"
  "pj_status (change_effect key f p) = pj_status p" "pj_errors (change_effect key f p) = pj_errors p"
  "pj_created_at (change_effect key f p) = pj_created_at p" "pj_messages (change_effect key f p) = pj_messages p"
  by (simp_all add: change_effect_def)

lemma effect_at_change:
  assumes "\<And>e. ef_key e = key \<Longrightarrow> ef_key (f e) = key"
  shows "effect_at (change_effect key f p) key = map_option f (effect_at p key)"
  using assms by (simp add: effect_at_def change_effect_def find_update_first)

lemma dup_issues_append_Nil:
  "dup_issues g S (xs @ ys) = [] \<longleftrightarrow> dup_issues g S xs = [] \<and> dup_issues g (S \<union> set xs) ys = []"
  by (induction xs arbitrary: S) (auto simp: Un_insert_right)

subsection \<open>Fields the bindings of an aggregate do not read\<close>

text \<open>Two aggregates that differ in status, effects, errors, questions, revision and times only.\<close>

definition same_core :: "project \<Rightarrow> project \<Rightarrow> bool" where
  "same_core q p \<longleftrightarrow> pj_project_id q = pj_project_id p \<and> pj_intake q = pj_intake p \<and> pj_customer q = pj_customer p
     \<and> pj_proposals q = pj_proposals p \<and> pj_active_proposal q = pj_active_proposal p \<and> pj_paid_proposal q = pj_paid_proposal p
     \<and> pj_checkouts q = pj_checkouts p \<and> pj_payments q = pj_payments p \<and> pj_batches q = pj_batches p
     \<and> pj_active_batch_id q = pj_active_batch_id p \<and> pj_candidates q = pj_candidates p \<and> pj_previews q = pj_previews p
     \<and> pj_deployments q = pj_deployments p \<and> pj_messages q = pj_messages p"

lemma same_core_fields:
  assumes "same_core q p"
  shows "pj_project_id q = pj_project_id p" "pj_intake q = pj_intake p" "pj_customer q = pj_customer p"
    "pj_proposals q = pj_proposals p" "pj_active_proposal q = pj_active_proposal p" "pj_paid_proposal q = pj_paid_proposal p"
    "pj_checkouts q = pj_checkouts p" "pj_payments q = pj_payments p" "pj_batches q = pj_batches p"
    "pj_active_batch_id q = pj_active_batch_id p" "pj_candidates q = pj_candidates p" "pj_previews q = pj_previews p"
    "pj_deployments q = pj_deployments p" "pj_messages q = pj_messages p"
  using assms by (simp_all add: same_core_def)

lemma same_core_lookups:
  assumes "same_core q p"
  shows "proposal_at q = proposal_at p" "batch_of q = batch_of p" "priced_payments q = priced_payments p"
    "payment_of q = payment_of p" "candidate_at q = candidate_at p" "active_batch q = active_batch p"
    "customer_email_digest R q = customer_email_digest R p" "source_binding_issue q = source_binding_issue p"
    "completed_deployment q = completed_deployment p"
proof -
  note fields = same_core_fields [OF assms]
  show pr: "proposal_at q = proposal_at p" and b: "batch_of q = batch_of p"
    by (simp_all add: fun_eq_iff proposal_at_def batch_of_def fields)
  show "active_batch q = active_batch p" unfolding active_batch_def b fields by (rule refl)
  show "priced_payments q = priced_payments p" by (simp add: priced_payments_def pr fields)
  then show "payment_of q = payment_of p" by (simp add: fun_eq_iff payment_of_def)
  show "candidate_at q = candidate_at p" "customer_email_digest R q = customer_email_digest R p"
    "completed_deployment q = completed_deployment p"
    by (simp_all add: fun_eq_iff candidate_at_def customer_email_digest_def completed_deployment_def fields)
  show "source_binding_issue q = source_binding_issue p"
  proof
    fix x show "source_binding_issue q x = source_binding_issue p x" by (cases x) (simp_all add: fields)
  qed
qed

lemma same_core_bounds:
  assumes "same_core q p"
  shows "payment_bound R q = payment_bound R p" "checkout_bound q = checkout_bound p" "batch_bound q = batch_bound p"
    "candidate_bound q = candidate_bound p" "preview_bound q = preview_bound p" "deployment_bound q = deployment_bound p"
  unfolding fun_eq_iff payment_bound_def checkout_bound_def batch_bound_def candidate_bound_def preview_bound_def
    deployment_bound_def same_core_lookups [OF assms] same_core_fields [OF assms] by (rule allI, rule refl)+

lemma same_core_issues:
  assumes "same_core q p"
  shows "consent_binding_issues q = consent_binding_issues p" "checkouts_issues q = checkouts_issues p"
    "payments_issues R q = payments_issues R p" "batches_issues q = batches_issues p"
    "proposals_issues q S T xs = proposals_issues p S T xs"
proof -
  note eqs = same_core_fields [OF assms] same_core_lookups [OF assms] same_core_bounds [OF assms]
  show "proposals_issues q S T xs = proposals_issues p S T xs"
    by (induction xs arbitrary: S T) (simp_all add: eqs)
  have "paid_versions R q = paid_versions R p" by (simp add: paid_versions_def eqs)
  note eqs = eqs this
  show "payments_issues R q = payments_issues R p" "consent_binding_issues q = consent_binding_issues p"
    "checkouts_issues q = checkouts_issues p" "batches_issues q = batches_issues p"
    unfolding payments_issues_def consent_binding_issues_def checkouts_issues_def batches_issues_def eqs by (rule refl)+
qed

lemma same_core_ok:
  assumes ok: "ProjectAggregate_ok R p" and same: "same_core q p" and shape: "project_shape R q"
    and "status_issues R q = []" "distinct (map ef_key (pj_effects q))" "distinct (map oe_error_id (pj_errors q))"
  shows "ProjectAggregate_ok R q"
proof -
  have "project_issues R p = []" using ok by (simp add: ProjectAggregate_ok_def)
  moreover have "unique_collections_issues p = [] \<Longrightarrow> unique_collections_issues q = []"
    using assms(5,6) same by (simp add: unique_collections_issues_def same_core_def)
  ultimately have "project_issues R q = []"
    using assms(4) unfolding project_issues_Nil same_core_issues [OF same] same_core_bounds [OF same]
      same_core_lookups [OF same] same_core_fields [OF same] by blast
  with shape show ?thesis by (simp add: ProjectAggregate_ok_def)
qed

subsection \<open>Changing an unfinished effect\<close>

definition safe_status :: "project \<Rightarrow> lifecycle_status \<Rightarrow> bool" where
  "safe_status p st \<longleftrightarrow> st = pj_status p \<or> st \<in> {NeedsOperatorAttention, PaymentVerificationFailed, DeploymentVerificationFailed}"

lemma map_update_first:
  "(\<And>x. find P xs = Some x \<Longrightarrow> k (f x) = k x) \<Longrightarrow> map k (update_first P f xs) = map k xs"
  by (induction xs) (auto split: if_splits)

lemma final_message_frame:
  assumes "same_core q p"
    "\<And>Q. (\<And>e. ef_status e \<noteq> EffectCompleted \<Longrightarrow> \<not> Q e) \<Longrightarrow> list_ex Q (pj_effects q) = list_ex Q (pj_effects p)"
  shows "final_message R q b = final_message R p b"
proof -
  have "delivery_effect_key R q v d = delivery_effect_key R p v d" for v d
    using assms(1) by (simp add: delivery_effect_key_def same_core_def)
  moreover have "pj_active_proposal q = pj_active_proposal p" "pj_messages q = pj_messages p"
    using assms(1) by (simp_all add: same_core_def)
  ultimately show ?thesis
    by (simp add: final_message_def same_core_lookups [OF assms(1)] assms(2) split: option.split)
qed

lemma aggregate_changed_effect:
  assumes ok: "ProjectAggregate_ok R p" and e: "effect_at p key = Some e" and st: "ef_status e \<noteq> EffectCompleted"
    and f: "ef_key (f e) = key" "DurableEffect_ok R (f e)" "ef_status (f e) \<noteq> EffectCompleted"
    and errs: "list_all (OrchestrationError_ok R) errs" "length (pj_errors p) + length errs \<le> 10000"
      "distinct (map oe_error_id errs)" "set (map oe_error_id errs) \<inter> set (map oe_error_id (pj_errors p)) = {}"
    and s: "safe_status p st'"
  shows "ProjectAggregate_ok R ((change_effect key f p)\<lparr>pj_errors := pj_errors p @ errs, pj_status := st'\<rparr>)" (is "ProjectAggregate_ok R ?q")
proof -
  let ?P = "\<lambda>e. ef_key e = key"
  have fd: "find ?P (pj_effects p) = Some e" using e by (simp add: effect_at_def)
  have key: "ef_key e = key" using find_eq_SomeD [OF fd] by simp
  have same: "same_core ?q p" by (simp add: same_core_def change_effect_def)
  have shape: "project_shape R ?q"
    using ok f(2) errs(1,2) fd
    by (auto simp: ProjectAggregate_ok_def project_shape_def change_effect_def intro!: list_all_update_first)
  have keys: "map ef_key (pj_effects ?q) = map ef_key (pj_effects p)"
    using fd f(1) key by (simp add: change_effect_def) (rule map_update_first, simp)
  have ex: "list_ex Q (pj_effects ?q) = list_ex Q (pj_effects p)" if "\<And>e. ef_status e \<noteq> EffectCompleted \<Longrightarrow> \<not> Q e" for Q
    using that [of e] that [of "f e"] fd f(3) st by (simp add: change_effect_def) (rule list_ex_update_first, simp)
  have fm: "final_message R ?q b = final_message R p b" for b by (rule final_message_frame [OF same], rule ex, blast)
  have pi: "project_issues R p = []" using ok by (simp add: ProjectAggregate_ok_def)
  have "status_issues R ?q = []"
    using pi s by (auto simp: project_issues_Nil status_issues_def same_core_lookups [OF same] fm safe_status_def
        ACTIVE_STATUSES_def same_core_def split: option.splits if_splits)
      (use same in \<open>simp_all add: same_core_def\<close>)
  moreover have "distinct (map ef_key (pj_effects p))" "distinct (map oe_error_id (pj_errors p))"
    using pi by (simp_all add: project_issues_Nil unique_collections_issues_def)
  ultimately show ?thesis
    using errs(3,4) keys by (intro same_core_ok [OF ok same shape]) auto
qed

lemma touched_ok:
  assumes "ProjectAggregate_ok R p" "safe_nat k" "rt_is_datetime R t"
  shows "ProjectAggregate_ok R (p\<lparr>pj_revision := k, pj_updated_at := t\<rparr>)"
proof -
  let ?q = "p\<lparr>pj_revision := k, pj_updated_at := t\<rparr>"
  have same: "same_core ?q p" by (simp add: same_core_def)
  have fm: "final_message R ?q b = final_message R p b" for b by (rule final_message_frame [OF same]) simp
  have pi: "project_issues R p = []" using assms(1) by (simp add: ProjectAggregate_ok_def)
  have st: "pj_status ?q = pj_status p" by simp
  show ?thesis
  proof (rule same_core_ok [OF assms(1) same])
    show "project_shape R ?q" using assms by (simp add: ProjectAggregate_ok_def project_shape_def)
    show "status_issues R ?q = []"
      using pi unfolding project_issues_Nil status_issues_def same_core_lookups [OF same] fm st same_core_fields [OF same] by blast
  qed (use pi in \<open>simp_all add: project_issues_Nil unique_collections_issues_def\<close>)
qed

subsection \<open>A save after a read succeeds\<close>

text \<open>What a save relies on: the vault, the times the store writes, and fresh event identifiers.\<close>

definition sound_store :: "agent_options \<Rightarrow> agent_world \<Rightarrow> bool" where
  "sound_store A W \<longleftrightarrow> vault_sound (go_runtime A) (go_vault A)
     \<and> (\<forall>k. rt_is_datetime (go_runtime A) (gw_clock W k 2)) \<and> inj (gw_uuid W)"

text \<open>A webhook the store has not seen.\<close>

definition unseen :: "orch_db \<Rightarrow> inbox_event option \<Rightarrow> bool" where
  "unseen db inbox \<longleftrightarrow> opt_all (\<lambda>x. verified_inbox_ok x \<and> inbox_row_of db (xe_provider x) (xe_event_id x) = None) inbox"

definition reads :: "agent_options \<Rightarrow> agent_world \<Rightarrow> string \<Rightarrow> project \<Rightarrow> agent_state \<Rightarrow> bool" where
  "reads A W i p s \<longleftrightarrow> getProject (go_runtime A) (go_vault A) i (gs_db s) = Inr (Some p)
     \<and> (\<forall>x \<in> set (od_events (gs_db s)). \<forall>k \<ge> gs_step s. pe_event_id x \<noteq> gw_uuid W k)"

definition saved :: "agent_world \<Rightarrow> agent_state \<Rightarrow> project \<Rightarrow> project" where
  "saved W s q = q\<lparr>pj_revision := Suc (pj_revision q), pj_updated_at := gw_clock W (gs_step s) 2\<rparr>"

lemma saved_fields [simp]:
  "pj_effects (saved W s q) = pj_effects q" "pj_errors (saved W s q) = pj_errors q" "pj_status (saved W s q) = pj_status q"
  "pj_revision (saved W s q) = Suc (pj_revision q)" "pj_project_id (saved W s q) = pj_project_id q"
  "effect_at (saved W s q) = effect_at q"
  by (simp_all add: saved_def fun_eq_iff effect_at_def)

lemma readsD:
  assumes "reads A W i p s"
  shows "ProjectAggregate_ok (go_runtime A) p" "pj_project_id p = i" "orchestration_id i"
    "\<exists>row. project_row_of (gs_db s) i = Some row \<and> agrees_with_index p row"
  using assms
  by (auto simp: reads_def getProject_def bind_ok_Inr check_input_Inr rowToProject_def agrees_with_index_def
      dest: project_row_of_SomeD split: option.splits if_splits)

lemma reads_step: "reads A W i p s \<Longrightarrow> reads A W i p (s\<lparr>gs_step := Suc (gs_step s)\<rparr>)"
  by (simp add: reads_def)

lemma requireProject_reads: "reads A W i p s \<Longrightarrow> requireProject A i s = (Inr p, s)"
  by (simp add: requireProject_def reads_def am_bind_def am_query_def am_the_def)

lemma am_bind_reads: "reads A W i p s \<Longrightarrow> am_bind (requireProject A i) f s = f p s"
  by (simp add: requireProject_reads am_bind_def)

lemma unseen_None: "unseen db None"
  by (simp add: unseen_def)

lemma save_project_writes:
  assumes L: "sound_store A W" and r: "reads A W i p s" and ok: "ProjectAggregate_ok (go_runtime A) q"
    and q: "pj_project_id q = i" "pj_revision q = pj_revision p" "pj_created_at q = pj_created_at p"
    and rev: "safe_nat (Suc (pj_revision p))" and e: "ProjectEventInput_ok e" "ep_consumed_message_ids (ei_payload e) = None"
    and new: "unseen (gs_db s) inbox"
  obtains s' where "save_project A W q e inbox None s = (Inr (saved W s q), s')" "reads A W i (saved W s q) s'"
    "gs_step s' = Suc (gs_step s)" "gs_attempted s' = gs_attempted s" "od_envelopes (gs_db s') = od_envelopes (gs_db s)"
proof -
  let ?R = "go_runtime A" and ?V = "go_vault A" and ?k = "gs_step s"
  define db0 where "db0 = (case inbox of None \<Rightarrow> gs_db s | Some x \<Rightarrow> (gs_db s)\<lparr>od_inbox := od_inbox (gs_db s) @
    [\<lparr>xr_provider = xe_provider x, xr_event_id = xe_event_id x, xr_digest = xe_digest x, xr_received_at = gw_clock W ?k 1\<rparr>]\<rparr>)"
  have db0: "od_projects db0 = od_projects (gs_db s)" "od_events db0 = od_events (gs_db s)" "od_envelopes db0 = od_envelopes (gs_db s)"
    by (simp_all add: db0_def split: option.splits)
  have acc: "accept_inbox (gw_clock W ?k 1) inbox False (gs_db s) = Inr (Some db0)"
    using new by (auto simp: accept_inbox_def record_inbox_def unseen_def db0_def split: option.splits)
  from readsD [OF r] obtain row where row: "project_row_of (gs_db s) i = Some row" "agrees_with_index p row" by blast
  have row0: "project_row_of db0 i = Some row" using row(1) db0 by (simp add: project_row_of_def)
  have next_q: "next_project q row (gw_clock W ?k 2) = saved W s q"
    using row(2) q(3) by (simp add: next_project_def saved_def agrees_with_index_def)
  have ok': "ProjectAggregate_ok ?R (saved W s q)"
    unfolding saved_def using ok rev q(2) L by (intro touched_ok) (simp_all add: sound_store_def)
  have fresh: "\<not> list_ex (\<lambda>x. pe_event_id x = gw_uuid W ?k) (od_events db0)"
    using r by (auto simp: reads_def list_ex_iff db0)
  define db1 where "db1 = db0\<lparr>od_projects := update_where (\<lambda>r. ix_project_id r = i \<and> ix_revision r = pj_revision p)
    (saved_row ?R ?V (gw_nonce W ?k) (saved W s q)) (od_projects db0)\<rparr>"
  have ids: "map ix_project_id (od_projects db1) = map ix_project_id (od_projects db0)"
    unfolding db1_def by (simp add: map_update_where_same)
  have "i \<in> ix_project_id ` set (od_projects db0)" using project_row_of_SomeD [OF row0] by auto
  then have "project_row_of db1 i \<noteq> None" using ids by (metis list.set_map project_row_of_None)
  then obtain x where app: "appendProjectEvent (gw_uuid W ?k) i (Suc (pj_revision p)) e (gw_clock W ?k 2) db1
      = Inr (db1\<lparr>od_events := od_events db1 @ [x], od_last_sequence := Suc (od_last_sequence db1)\<rparr>)" "pe_event_id x = gw_uuid W ?k"
    using fresh e(1) by (simp add: appendProjectEvent_def check_input_def db1_def)
  define db' where "db' = db1\<lparr>od_events := od_events db1 @ [x], od_last_sequence := Suc (od_last_sequence db1)\<rparr>"
  have rowrev: "ix_revision row = pj_revision p" using row(2) by (simp add: agrees_with_index_def)
  have w: "write_project ?R ?V (gw_clock W ?k 2) (gw_uuid W ?k) (gw_nonce W ?k) q (pj_revision p) e row db0 = Inr (saved W s q, db')"
    using app ok' rowrev q by (simp add: write_project_def next_q check_input_def Let_def db1_def [symmetric] db'_def)
  have "safe_nat (pj_revision p)" using rev by (simp add: safe_nat_def)
  then have "saveProject ?R ?V (gw_clock W ?k) (gw_uuid W ?k) (gw_nonce W ?k) q (pj_revision q) e inbox None (gs_db s) = Inr (saved W s q, db')"
    using ok e(1) q row(1) w acc new
    by (simp add: saveProject_def check_input_def consume_login_def unseen_def opt_all_def split: option.splits)
  then have save: "save_project A W q e inbox None s = (Inr (saved W s q), s\<lparr>gs_step := Suc ?k, gs_db := db'\<rparr>)"
    using e(2) by (simp add: save_project_def am_then_def am_bind_def am_store_def)
  have "project_row_of db' i = Some (saved_row ?R ?V (gw_nonce W ?k) (saved W s q) row)"
    using written_row(1) [OF w] row0 q(1) by simp
  moreover have "rowToProject ?R ?V (saved_row ?R ?V (gw_nonce W ?k) (saved W s q) row) = Inr (saved W s q)"
    using L ok' project_row_of_SomeD [OF row(1)] row(2) q
    by (intro saved_row_reads) (simp_all add: sound_store_def saved_def agrees_with_index_def)
  ultimately have "getProject ?R ?V i db' = Inr (Some (saved W s q))"
    using readsD(3) [OF r] by (simp add: getProject_def check_input_def)
  moreover have "pe_event_id y \<noteq> gw_uuid W k" if "y \<in> set (od_events db')" "Suc ?k \<le> k" for y k
  proof (cases "y = x")
    case True
    have "gw_uuid W ?k \<noteq> gw_uuid W k" using L that(2) by (auto simp: sound_store_def dest: injD)
    with True app(2) show ?thesis by simp
  next
    case False
    then show ?thesis using that r by (auto simp: db'_def db1_def reads_def db0)
  qed
  ultimately have r': "reads A W i (saved W s q) (s\<lparr>gs_step := Suc ?k, gs_db := db'\<rparr>)" by (simp add: reads_def)
  show ?thesis by (rule that [OF save r']) (simp_all add: db'_def db1_def db0)
qed

text \<open>Whatever a save answers: the project it was given with the next revision, or, for a webhook seen
  before, the project as it is.\<close>

lemma save_project_answers:
  assumes r: "reads A W i p s" and a: "save_project A W q e inbox None s = (Inr q', s')"
    and q: "pj_project_id q = i" "pj_created_at q = pj_created_at p"
  shows "q' = saved W s q \<or> q' = p"
proof -
  let ?R = "go_runtime A" and ?V = "go_vault A" and ?k = "gs_step s"
  from readsD [OF r] obtain row where row: "project_row_of (gs_db s) i = Some row" "agrees_with_index p row" by blast
  have p: "rowToProject ?R ?V row = Inr p"
    using r row(1) by (auto simp: reads_def getProject_def bind_ok_Inr check_input_Inr)
  have "next_project q row (gw_clock W ?k 2) = saved W s q"
    using row(2) q(2) by (simp add: next_project_def saved_def agrees_with_index_def)
  moreover have "saveProject ?R ?V (gw_clock W ?k) (gw_uuid W ?k) (gw_nonce W ?k) q (pj_revision q) e inbox None (gs_db s)
      = Inr (q', gs_db s')"
    using a by (auto simp: save_project_def Let_def am_then_def am_bind_Inr am_require_Inr am_store_Inr)
  ultimately show ?thesis
    using row(1) q(1) p
    by (auto simp: saveProject_def bind_ok_Inr consume_login_def write_project_def Let_def split: option.splits)
qed

end
