(* ===== verification/Agent_Effects_Properties.thy ===== *)
theory Agent_Effects_Properties
  imports Sample_Agent Agent_Frame
begin

text \<open>
  What the retry machinery guarantees: a failed attempt of an effect is always recorded, either with a
  later attempt scheduled after a growing delay or as final, so that an effect whose attempts all fail is
  given up after the configured number of them; and the one case where the record is lost.
\<close>

subsection \<open>What the agent relies on\<close>

text \<open>The vault, SHA-256 in hexadecimal, \<open>toISOString\<close> inverted by \<open>Date.parse\<close> on the times the clock
  shows, and fresh event identifiers.\<close>

definition lawful :: "agent_options \<Rightarrow> agent_world \<Rightarrow> bool" where
  "lawful A W \<longleftrightarrow> vault_sound (go_runtime A) (go_vault A) \<and> (\<forall>x. sha256_text (rt_sha256 (go_runtime A) x))
     \<and> (\<forall>t \<ge> 0. rt_is_datetime (go_runtime A) (go_iso A t) \<and> rt_date_parse (go_runtime A) (go_iso A t) = Some t)
     \<and> (\<forall>k. 0 \<le> gw_now W k \<and> rt_is_datetime (go_runtime A) (gw_clock W k 2)) \<and> inj (gw_uuid W)"

lemma lawful_store: "lawful A W \<Longrightarrow> sound_store A W"
  by (simp add: lawful_def sound_store_def)

subsection \<open>Errors and effects the machinery writes are well formed\<close>

lemma error_id_ok:
  assumes "sha256_text h" shows "orchestration_id (''effect-error:'' @ take 24 h)"
proof -
  have "length h = 64" "list_all is_hex h" using assms by (simp_all add: sha256_text_def)
  then have "list_all id_tail (take 24 h)"
    by (auto simp: list_all_iff is_hex_def id_tail_def is_alnum_def is_lower_def is_digit_def in_range_def
        dest!: in_set_takeD)
  with \<open>length h = 64\<close> show ?thesis
    by (simp add: orchestration_id_def entity_id_def id_tail_def is_alnum_def is_lower_def is_digit_def is_upper_def in_range_def one_of_def)
qed

lemma aggregate_effect:
  assumes "ProjectAggregate_ok R p" "effect_at p key = Some e"
  shows "DurableEffect_ok R e" "ef_key e = key" "idempotency_key key" "safe_nat (ef_attempts e)"
proof -
  show "DurableEffect_ok R e" and "ef_key e = key"
    using assms by (auto simp: ProjectAggregate_ok_def project_shape_def effect_at_def list_all_iff dest!: find_eq_SomeD)
  then show "idempotency_key key" "safe_nat (ef_attempts e)" by (auto simp: DurableEffect_ok_def effect_shape_def)
qed

lemma classified_ok:
  assumes "lawful A W" "idempotency_key (ef_key e)" "0 \<le> t"
  shows "OrchestrationError_ok (go_runtime A) (classifyEffectError (go_runtime A) err e (go_iso A t))"
  using assms error_id_ok
  by (auto simp: OrchestrationError_ok_def classifyEffectError_def Let_def lawful_def effectErrorId_def str_between_def
      error_code_text_def is_lower_def in_range_def is_digit_def one_of_def)

lemma classified_retryable: "oe_retryable (classifyEffectError R err e now) = isTransientProviderFailure err"
  by (auto simp: classifyEffectError_def Let_def isTransientProviderFailure_def permanent_codes_def split: option.splits)

lemmas effect_event_defs = ProjectEventInput_ok_def event_of_def RedactedEventPayload_ok_def effect_payload_def no_payload_def

lemma effect_event_types:
  "event_type_text ''effect.dead_lettered''" "event_type_text ''effect.retry_exhausted''"
  "event_type_text ''effect.retry_scheduled''" "event_type_text ''effect.retry_started''"
  "event_type_text ''effect.provider_check_started''" "event_type_text ''payment.reconciliation_pending''"
  "event_type_text ''email.delivery_pending_verified''"
  by (simp_all add: event_type_text_def text_simps)

subsection \<open>One failed attempt, one retry\<close>

lemma find_conj: "find P xs = Some e \<Longrightarrow> Q e \<Longrightarrow> find (\<lambda>x. P x \<and> Q x) xs = Some e"
  by (induction xs) (auto split: if_splits)

lemma find_key_only:
  assumes "distinct (map k xs)" "find (\<lambda>x. k x = a) xs = Some e" "\<not> Q e"
  shows "find (\<lambda>x. k x = a \<and> Q x) xs = None"
  using assms distinct_key_eq [OF assms(1)] find_eq_SomeD [OF assms(2)] by (auto simp: find_is_None)

lemma am_then_Inr_step: "m s = (Inr x, s') \<Longrightarrow> am_then m m' s = m' s'"
  by (simp add: am_then_def am_bind_def)

text \<open>What an attempt that fails leaves of its effect.\<close>

definition charged :: "agent_options \<Rightarrow> int \<Rightarrow> agent_error \<Rightarrow> durable_effect \<Rightarrow> durable_effect" where
  "charged A t err e =
     (let er = classifyEffectError (go_runtime A) err e (go_iso A t) in
      if isTransientProviderFailure err \<and> ef_attempts e < go_max_attempts A
      then waiting er (go_iso A (t + retry_delay A (ef_attempts e))) (go_iso A t) e
      else failed_effect (er\<lparr>oe_retryable := False\<rparr>) e)"

lemma retry_delay_nonneg: "retry_options A \<Longrightarrow> 0 \<le> retry_delay A n"
  by (simp add: retry_options_def retry_delay_def)

lemma waiting_ok:
  assumes "DurableEffect_ok R e" "ef_status e = EffectPending" "OrchestrationError_ok R err" "rt_is_datetime R next" "rt_is_datetime R now"
  shows "DurableEffect_ok R (waiting err next now e)"
  using assms by (auto simp: DurableEffect_ok_def effect_shape_def effect_issues_def waiting_def proof_bound_def)

lemma failed_ok:
  assumes "DurableEffect_ok R e" "ef_status e = EffectPending" "OrchestrationError_ok R err"
  shows "DurableEffect_ok R (failed_effect err e)"
  using assms by (auto simp: DurableEffect_ok_def effect_shape_def effect_issues_def failed_effect_def proof_bound_def OrchestrationError_ok_def)

text \<open>Writing back a project with one unfinished effect changed and some errors added.\<close>

lemma save_changed_effect:
  assumes L: "lawful A W" and r: "reads A W i p s" and e: "effect_at p key = Some e" "ef_status e = EffectPending"
    and f: "ef_key (f e) = key" "DurableEffect_ok (go_runtime A) (f e)" "ef_status (f e) \<noteq> EffectCompleted"
    and errs: "list_all (OrchestrationError_ok (go_runtime A)) errs" "length (pj_errors p) + length errs \<le> 10000"
      "distinct (map oe_error_id errs)" "oe_error_id ` set errs \<inter> oe_error_id ` set (pj_errors p) = {}"
    and st: "safe_status p st'" and rev: "safe_nat (Suc (pj_revision p))"
    and ev: "ProjectEventInput_ok ev" "ep_consumed_message_ids (ei_payload ev) = None"
    and q: "q = (change_effect key f p)\<lparr>pj_errors := pj_errors p @ errs, pj_status := st'\<rparr>"
  obtains s' where "save_project A W q ev None None s = (Inr (saved W s q), s')" "reads A W i (saved W s q) s'"
    "gs_step s' = Suc (gs_step s)" "effect_at q key = Some (f e)"
proof -
  note ok = readsD(1) [OF r]
  have key: "ef_key e = key" using aggregate_effect(2) [OF ok e(1)] .
  have "ProjectAggregate_ok (go_runtime A) q"
    unfolding q using e(2) errs st by (intro aggregate_changed_effect [where f = f, OF ok e(1) _ f(1,2,3)]) simp_all
  moreover have "effect_at q key = Some (f e)"
    using e(1) f(1) key by (simp add: q effect_at_def change_effect_def find_update_first_at)
  moreover have "pj_project_id q = i" "pj_revision q = pj_revision p" "pj_created_at q = pj_created_at p"
    using readsD(2) [OF r] by (simp_all add: q)
  ultimately show ?thesis using save_project_writes [OF lawful_store [OF L] r _ _ _ _ rev ev unseen_None, of q] that by metis
qed

lemma attempt_fails:
  assumes L: "lawful A W" "retry_options A" and r: "reads A W i p s"
    and e: "effect_at p key = Some e" "ef_status e = EffectPending" "ef_next_attempt_at e = None"
    and room: "length (pj_errors p) < 10000" "safe_nat (Suc (pj_revision p))"
    and t: "t = gw_now W (gs_step s)"
    and fresh: "oe_error_id (classifyEffectError (go_runtime A) err e (go_iso A t)) \<notin> oe_error_id ` set (pj_errors p)"
  obtains q s' where "recordPendingEffectFailure A W i key err s = (Inr (), s')" "reads A W i q s'"
    "gs_step s' = Suc (Suc (gs_step s))" "effect_at q key = Some (charged A t err e)"
    "pj_status q = (if isTransientProviderFailure err \<and> ef_attempts e < go_max_attempts A then pj_status p else attention_status (ef_type e))"
    "map oe_error_id (pj_errors q) = map oe_error_id (pj_errors p) @ [oe_error_id (classifyEffectError (go_runtime A) err e (go_iso A t))]"
    "pj_revision q = Suc (pj_revision p)"
proof -
  let ?er = "classifyEffectError (go_runtime A) err e (go_iso A t)" and ?s1 = "s\<lparr>gs_step := Suc (gs_step s)\<rparr>"
  note E = aggregate_effect [OF readsD(1) [OF r] e(1)]
  have t0: "0 \<le> t" using L t by (simp add: lawful_def)
  have er: "OrchestrationError_ok (go_runtime A) ?er" using L(1) E(2,3) t0 by (intro classified_ok) simp_all
  have code: "error_code_text (oe_code ?er)" using er by (simp add: OrchestrationError_ok_def)
  have pick: "find (\<lambda>e. ef_key e = key \<and> ef_status e = EffectPending \<and> ef_next_attempt_at e = None) (pj_effects p) = Some e"
    using find_conj [of "\<lambda>e. ef_key e = key" "pj_effects p" e "\<lambda>e. ef_status e = EffectPending \<and> ef_next_attempt_at e = None"] e
    by (simp add: effect_at_def)
  have parse: "rt_date_parse (go_runtime A) (go_iso A t) = Some t" using L(1) t0 by (simp add: lawful_def)
  note start = am_bind_reads [OF r] pick e(1) t [symmetric] E(2)
  show ?thesis
  proof (cases "isTransientProviderFailure err \<and> ef_attempts e < go_max_attempts A")
    case True
    let ?f = "waiting ?er (go_iso A (t + retry_delay A (ef_attempts e))) (go_iso A t)"
    let ?q = "(change_effect key ?f p)\<lparr>pj_errors := pj_errors p @ [?er]\<rparr>"
    let ?ev = "event_of ''effect.retry_scheduled'' ActorSystem
      ((effect_payload (pj_status p) e)\<lparr>ep_attempt := Some (ef_attempts e), ep_error_code := Some (oe_code ?er)\<rparr>)"
    have ev: "ProjectEventInput_ok ?ev" "ep_consumed_message_ids (ei_payload ?ev) = None"
      using E(2,3,4) code effect_event_types by (simp_all add: effect_event_defs)
    have fok: "DurableEffect_ok (go_runtime A) (?f e)"
      using L t0 er E(1) e(2) retry_delay_nonneg [OF L(2)] by (intro waiting_ok) (simp_all add: lawful_def)
    obtain s' where s': "save_project A W ?q ?ev None None ?s1 = (Inr (saved W ?s1 ?q), s')" "reads A W i (saved W ?s1 ?q) s'"
      "gs_step s' = Suc (gs_step ?s1)" "effect_at ?q key = Some (?f e)"
      by (rule save_changed_effect [where f = ?f and errs = "[?er]" and st' = "pj_status p" and q = ?q and ev = ?ev,
            OF L(1) reads_step [OF r] e(1,2) _ fok _ _ _ _ _ _ room(2) ev])
        (use er room(1) fresh E(2) e(2) in \<open>simp_all add: waiting_def safe_status_def change_effect_def\<close>)
    have "recordPendingEffectFailure A W i key err s = (Inr (), s')"
      using True s'(1) parse
      by (simp add: recordPendingEffectFailure_def start Let_def classified_retryable requireEffect_def am_bind_step am_then_Inr_step not_le)
    then show ?thesis
      by (rule that [OF _ s'(2)]) (use s'(3,4) True in \<open>simp_all add: charged_def Let_def\<close>)
  next
    case False
    let ?er' = "?er\<lparr>oe_retryable := False\<rparr>"
    let ?q = "(change_effect key (failed_effect ?er') p)\<lparr>pj_errors := pj_errors p @ [?er'], pj_status := attention_status (ef_type e)\<rparr>"
    let ?ev = "event_of ''effect.dead_lettered'' ActorSystem
      ((effect_payload (attention_status (ef_type e)) e)\<lparr>ep_previous_status := Some (pj_status p), ep_attempt := Some (ef_attempts e),
         ep_error_code := Some (oe_code ?er')\<rparr>)"
    have ev: "ProjectEventInput_ok ?ev" "ep_consumed_message_ids (ei_payload ?ev) = None"
      using E(2,3,4) code effect_event_types by (simp_all add: effect_event_defs)
    have er': "OrchestrationError_ok (go_runtime A) ?er'" using er by (simp add: OrchestrationError_ok_def)
    have fok: "DurableEffect_ok (go_runtime A) (failed_effect ?er' e)"
      using er' E(1) e(2) by (intro failed_ok)
    obtain s' where s': "save_project A W ?q ?ev None None ?s1 = (Inr (saved W ?s1 ?q), s')" "reads A W i (saved W ?s1 ?q) s'"
      "gs_step s' = Suc (gs_step ?s1)" "effect_at ?q key = Some (failed_effect ?er' e)"
      by (rule save_changed_effect [where f = "failed_effect ?er'" and errs = "[?er']" and st' = "attention_status (ef_type e)"
            and q = ?q and ev = ?ev, OF L(1) reads_step [OF r] e(1,2) _ fok _ _ _ _ _ _ room(2) ev])
        (use er' room(1) fresh E(2) in \<open>simp_all add: failed_effect_def safe_status_def attention_status_def\<close>)
    have "recordPendingEffectFailure A W i key err s = (Inr (), s')"
      using False s'(1)
      by (simp add: recordPendingEffectFailure_def start Let_def classified_retryable requireEffect_def failEffect_def
          am_then_def am_bind_step not_le [symmetric])
    then show ?thesis
      by (rule that [OF _ s'(2)]) (use s'(3,4) False in \<open>auto simp: charged_def Let_def\<close>)
  qed
qed

lemma retrying_ok: "DurableEffect_ok R e \<Longrightarrow> ef_status e = EffectPending \<Longrightarrow> safe_nat (Suc (ef_attempts e)) \<Longrightarrow> rt_is_datetime R now \<Longrightarrow>
    DurableEffect_ok R (retrying now e)"
  and rechecked_ok: "DurableEffect_ok R e \<Longrightarrow> ef_status e = EffectPending \<Longrightarrow> rt_is_datetime R next \<Longrightarrow> rt_is_datetime R now \<Longrightarrow>
    DurableEffect_ok R (rechecked next now e)"
  and check_begun_ok: "DurableEffect_ok R e \<Longrightarrow> ef_status e = EffectPending \<Longrightarrow> rt_is_datetime R now \<Longrightarrow> DurableEffect_ok R (check_begun now e)"
  by (auto simp: DurableEffect_ok_def effect_shape_def effect_issues_def retrying_def rechecked_def check_begun_def proof_bound_def
      safe_nat_def MAX_SAFE_INTEGER_def)

lemma save_touched_effect:
  assumes L: "lawful A W" and r: "reads A W i p s" and e: "effect_at p key = Some e" "ef_status e = EffectPending"
    and f: "ef_key (f e) = key" "DurableEffect_ok (go_runtime A) (f e)" "ef_status (f e) \<noteq> EffectCompleted"
    and rev: "safe_nat (Suc (pj_revision p))" and ev: "ProjectEventInput_ok ev" "ep_consumed_message_ids (ei_payload ev) = None"
  obtains s' where "save_project A W (change_effect key f p) ev None None s = (Inr (saved W s (change_effect key f p)), s')"
    "reads A W i (saved W s (change_effect key f p)) s'" "gs_step s' = Suc (gs_step s)"
    "effect_at (change_effect key f p) key = Some (f e)"
proof -
  have "length (pj_errors p) \<le> 10000" using readsD(1) [OF r] by (simp add: ProjectAggregate_ok_def project_shape_def)
  moreover have "change_effect key f p = (change_effect key f p)\<lparr>pj_errors := pj_errors p @ [], pj_status := pj_status p\<rparr>"
    by (simp add: change_effect_def)
  ultimately show ?thesis
    using save_changed_effect [where errs = "[]" and st' = "pj_status p" and f = f and q = "change_effect key f p",
        OF L r e f _ _ _ _ _ rev ev] that by (simp add: safe_status_def) blast
qed

lemma later_than_iso: "lawful A W \<Longrightarrow> 0 \<le> u \<Longrightarrow> later_than (go_runtime A) (Some (go_iso A u)) t \<longleftrightarrow> t < u"
  by (simp add: later_than_def date_of_def lawful_def)

lemma retry_starts:
  assumes L: "lawful A W" "retry_options A" and r: "reads A W i p s"
    and e: "effect_at p key = Some e" "ef_status e = EffectPending" "ef_next_attempt_at e = Some (go_iso A u)" "0 \<le> u"
    and t: "u \<le> gw_now W (gs_step s)" and n: "ef_attempts e < go_max_attempts A" and rev: "safe_nat (Suc (pj_revision p))"
  obtains q s' where "prepareEffectRetry A W p (Some key) s = (Inr (q, False), s')" "reads A W i q s'"
    "gs_step s' = Suc (Suc (gs_step s))" "effect_at q key = Some (retrying (go_iso A (gw_now W (gs_step s))) e)"
    "pj_status q = pj_status p" "pj_errors q = pj_errors p" "pj_revision q = Suc (pj_revision p)"
proof -
  let ?t = "gw_now W (gs_step s)" and ?s1 = "s\<lparr>gs_step := Suc (gs_step s)\<rparr>"
  note E = aggregate_effect [OF readsD(1) [OF r] e(1)]
  let ?ev = "event_of ''effect.retry_started'' ActorSystem ((effect_payload (pj_status p) e)\<lparr>ep_attempt := Some (Suc (ef_attempts e))\<rparr>)"
  have small: "safe_nat (Suc (ef_attempts e))" using n L(2) by (simp add: safe_nat_def MAX_SAFE_INTEGER_def retry_options_def)
  have ev: "ProjectEventInput_ok ?ev" "ep_consumed_message_ids (ei_payload ?ev) = None"
    using E(2,3) small effect_event_types by (simp_all add: effect_event_defs)
  have "0 \<le> ?t" using L by (simp add: lawful_def)
  then have fok: "DurableEffect_ok (go_runtime A) (retrying (go_iso A ?t) e)"
    using L E(1) e(2) small by (intro retrying_ok) (simp_all add: lawful_def)
  obtain s' where s': "save_project A W (change_effect key (retrying (go_iso A ?t)) p) ?ev None None ?s1
      = (Inr (saved W ?s1 (change_effect key (retrying (go_iso A ?t)) p)), s')"
    "reads A W i (saved W ?s1 (change_effect key (retrying (go_iso A ?t)) p)) s'" "gs_step s' = Suc (gs_step ?s1)"
    "effect_at (change_effect key (retrying (go_iso A ?t)) p) key = Some (retrying (go_iso A ?t) e)"
    by (rule save_touched_effect [where f = "retrying (go_iso A ?t)" and ev = ?ev, OF L(1) reads_step [OF r] e(1,2) _ fok _ rev ev])
      (use E(2) e(2) in \<open>simp_all add: retrying_def\<close>)
  have pick: "scheduled_effect p key = Some e"
    using find_conj [of "\<lambda>e. ef_key e = key" "pj_effects p" e "\<lambda>e. ef_status e = EffectPending \<and> ef_next_attempt_at e \<noteq> None"] e
    by (simp add: effect_at_def scheduled_effect_def)
  have "prepareEffectRetry A W p (Some key) s = (Inr (saved W ?s1 (change_effect key (retrying (go_iso A ?t)) p), False), s')"
    using s'(1) t n e(1) E(2) later_than_iso [OF L(1) e(4)]
    by (simp add: prepareEffectRetry_def pick e(3) requireEffect_def am_bind_step)
  then show ?thesis by (rule that [OF _ s'(2)]) (use s'(3,4) in simp_all)
qed

subsection \<open>An effect whose attempts all fail\<close>

definition retry_round :: "agent_options \<Rightarrow> agent_world \<Rightarrow> string \<Rightarrow> string \<Rightarrow> (project \<times> bool) agent" where
  "retry_round A W i key = am_bind (requireProject A i) (\<lambda>p. prepareEffectRetry A W p (Some key))"

text \<open>Each attempt fails with the next error, and is retried when the retry is due.\<close>

fun failing_rounds :: "agent_options \<Rightarrow> agent_world \<Rightarrow> string \<Rightarrow> string \<Rightarrow> agent_error list \<Rightarrow> agent_state \<Rightarrow> agent_state" where
  "failing_rounds A W i key [] s = s"
| "failing_rounds A W i key (err # errs) s =
     failing_rounds A W i key errs (snd (retry_round A W i key (snd (recordPendingEffectFailure A W i key err s))))"

definition failure_codes :: "string list" where
  "failure_codes = [''effect.security_failure'', ''effect.policy_failure'', ''effect.provider_failure'']"

text \<open>The identities of the effect's failures from attempt \<open>lo\<close> to \<open>hi\<close> are apart (SHA-256 does not
  collide on them) and none of them was reported before.\<close>

definition unreported :: "runtime \<Rightarrow> string \<Rightarrow> nat \<Rightarrow> nat \<Rightarrow> project \<Rightarrow> bool" where
  "unreported R key lo hi p \<longleftrightarrow> (\<forall>a \<in> {lo..hi}. \<forall>c \<in> set failure_codes. effectErrorId R key a c \<notin> oe_error_id ` set (pj_errors p)
     \<and> (\<forall>b \<in> {lo..hi}. \<forall>d \<in> set failure_codes. a \<noteq> b \<longrightarrow> effectErrorId R key a c \<noteq> effectErrorId R key b d))"

definition spaced :: "agent_options \<Rightarrow> agent_world \<Rightarrow> bool" where
  "spaced A W \<longleftrightarrow> (\<forall>k. gw_now W k + go_retry_max_ms A \<le> gw_now W (Suc k))"

lemma spaced_later: "spaced A W \<Longrightarrow> retry_options A \<Longrightarrow> gw_now W k + retry_delay A n \<le> gw_now W (Suc (Suc k))"
proof -
  assume *: "spaced A W" "retry_options A"
  have "gw_now W k + go_retry_max_ms A \<le> gw_now W (Suc k)" "gw_now W (Suc k) + go_retry_max_ms A \<le> gw_now W (Suc (Suc k))"
    using * by (simp_all add: spaced_def)
  moreover have "retry_delay A n \<le> go_retry_max_ms A" "0 \<le> go_retry_max_ms A" using * by (simp_all add: retry_delay_def retry_options_def)
  ultimately show ?thesis by linarith
qed

lemma classified_id:
  "oe_error_id (classifyEffectError R err e now) = effectErrorId R (ef_key e) (ef_attempts e) (oe_code (classifyEffectError R err e now))"
  "oe_code (classifyEffectError R err e now) \<in> set failure_codes"
  by (simp_all add: classifyEffectError_def Let_def failure_codes_def)

lemma charged_fields:
  "ef_type (charged A t err e) = ef_type e" "ef_attempts (charged A t err e) = ef_attempts e" "ef_key (charged A t err e) = ef_key e"
  by (simp_all add: charged_def Let_def waiting_def failed_effect_def)

text \<open>A failed effect is left alone.\<close>

lemma failed_is_left_alone:
  assumes "reads A W i p s" "effect_at p key = Some e" "ef_status e = EffectFailed"
  shows "snd (recordPendingEffectFailure A W i key err s) = s" "snd (retry_round A W i key s) = s"
    "failing_rounds A W i key errs s = s"
proof -
  have d: "distinct (map ef_key (pj_effects p))"
    using readsD(1) [OF assms(1)] by (simp add: ProjectAggregate_ok_def project_issues_Nil unique_collections_issues_def)
  have fd: "find (\<lambda>e. ef_key e = key) (pj_effects p) = Some e" using assms(2) by (simp add: effect_at_def)
  have "find (\<lambda>e. ef_key e = key \<and> ef_status e = EffectPending \<and> ef_next_attempt_at e = None) (pj_effects p) = None"
    "scheduled_effect p key = None"
    unfolding scheduled_effect_def using assms(3) by (intro find_key_only [OF d fd]; simp)+
  then have one: "snd (recordPendingEffectFailure A W i key err s) = s" "snd (retry_round A W i key s) = s" for err
    by (simp_all add: recordPendingEffectFailure_def am_bind_reads [OF assms(1)] retry_round_def prepareEffectRetry_def)
  then show "snd (recordPendingEffectFailure A W i key err s) = s" "snd (retry_round A W i key s) = s" by blast+
  show "failing_rounds A W i key errs s = s" using one by (induction errs) simp_all
qed

lemma rounds_end:
  assumes L: "lawful A W" "retry_options A" "spaced A W" and r: "reads A W i p s"
    and e: "effect_at p key = Some e" "ef_status e = EffectPending" "ef_next_attempt_at e = None"
    and room: "length (pj_errors p) + length errs \<le> 10000" "safe_nat (pj_revision p + 2 * length errs)"
    and ids: "unreported (go_runtime A) key (ef_attempts e) (go_max_attempts A) p" "ef_attempts e \<le> go_max_attempts A"
  shows "\<exists>q e'. reads A W i q (failing_rounds A W i key errs s) \<and> effect_at q key = Some e' \<and>
    (if list_all isTransientProviderFailure errs \<and> ef_attempts e + length errs \<le> go_max_attempts A
     then ef_status e' = EffectPending \<and> ef_attempts e' = ef_attempts e + length errs \<and> pj_status q = pj_status p
     else ef_status e' = EffectFailed \<and> ef_attempts e' \<le> go_max_attempts A \<and> pj_status q = attention_status (ef_type e))"
  using r e room ids
proof (induction errs arbitrary: p s e)
  case Nil
  then show ?case by auto
next
  case (Cons err errs)
  let ?R = "go_runtime A" and ?t = "gw_now W (gs_step s)"
  let ?er = "classifyEffectError ?R err e (go_iso A ?t)"
  note E = aggregate_effect [OF readsD(1) [OF Cons.prems(1)] Cons.prems(2)]
  have fresh: "oe_error_id ?er \<notin> oe_error_id ` set (pj_errors p)"
    using Cons.prems(7,8) classified_id [of ?R err e "go_iso A ?t"] E(2) by (auto simp: unreported_def)
  have rev: "safe_nat (Suc (pj_revision p))" "safe_nat (Suc (Suc (pj_revision p)))" using Cons.prems(6) by (simp_all add: safe_nat_def)
  have room1: "length (pj_errors p) < 10000" using Cons.prems(5) by simp
  obtain q1 s1 where q1: "recordPendingEffectFailure A W i key err s = (Inr (), s1)" "reads A W i q1 s1"
    "gs_step s1 = Suc (Suc (gs_step s))" "effect_at q1 key = Some (charged A ?t err e)"
    "pj_status q1 = (if isTransientProviderFailure err \<and> ef_attempts e < go_max_attempts A then pj_status p else attention_status (ef_type e))"
    "map oe_error_id (pj_errors q1) = map oe_error_id (pj_errors p) @ [oe_error_id ?er]" "pj_revision q1 = Suc (pj_revision p)"
    by (rule attempt_fails [OF L(1,2) Cons.prems(1-4) room1 rev(1) refl fresh])
  show ?case
  proof (cases "isTransientProviderFailure err \<and> ef_attempts e < go_max_attempts A")
    case False
    then have dead: "ef_status (charged A ?t err e) = EffectFailed" by (auto simp: charged_def Let_def failed_effect_def)
    have "failing_rounds A W i key (err # errs) s = s1"
      using failed_is_left_alone(2,3) [OF q1(2,4) dead] q1(1) by simp
    then show ?thesis using q1 dead False Cons.prems(8) by (intro exI [of _ q1]) (auto simp: charged_fields)
  next
    case True
    let ?u = "?t + retry_delay A (ef_attempts e)"
    have c: "ef_status (charged A ?t err e) = EffectPending" "ef_next_attempt_at (charged A ?t err e) = Some (go_iso A ?u)"
      using True Cons.prems(3) by (simp_all add: charged_def Let_def waiting_def)
    have u: "0 \<le> ?u" using L retry_delay_nonneg [OF L(2)] by (simp add: lawful_def add_nonneg_nonneg)
    have due: "?u \<le> gw_now W (gs_step s1)" using spaced_later [OF L(3,2)] q1(3) by simp
    have more: "ef_attempts (charged A ?t err e) < go_max_attempts A" "safe_nat (Suc (pj_revision q1))"
      using True rev(2) q1(7) by (simp_all add: charged_fields)
    obtain q2 s2 where q2: "prepareEffectRetry A W q1 (Some key) s1 = (Inr (q2, False), s2)" "reads A W i q2 s2"
      "gs_step s2 = Suc (Suc (gs_step s1))" "effect_at q2 key = Some (retrying (go_iso A (gw_now W (gs_step s1))) (charged A ?t err e))"
      "pj_status q2 = pj_status q1" "pj_errors q2 = pj_errors q1" "pj_revision q2 = Suc (pj_revision q1)"
      by (rule retry_starts [OF L(1,2) q1(2,4) c u due more])
    let ?e2 = "retrying (go_iso A (gw_now W (gs_step s1))) (charged A ?t err e)"
    have e2: "ef_status ?e2 = EffectPending" "ef_next_attempt_at ?e2 = None" "ef_attempts ?e2 = Suc (ef_attempts e)" "ef_type ?e2 = ef_type e"
      using c by (simp_all add: retrying_def charged_fields)
    have "set (map oe_error_id (pj_errors q1)) = insert (oe_error_id ?er) (set (map oe_error_id (pj_errors p)))"
      by (simp add: q1(6))
    then have errs2: "oe_error_id ` set (pj_errors q2) = insert (oe_error_id ?er) (oe_error_id ` set (pj_errors p))"
      by (simp add: q2(6))
    have ids2: "unreported ?R key (ef_attempts ?e2) (go_max_attempts A) q2"
      using Cons.prems(7,8) classified_id [of ?R err e "go_iso A ?t"] E(2) unfolding unreported_def errs2 e2(3)
      by (metis (no_types, lifting) Suc_leD atLeastAtMost_iff insert_iff not_less_eq_eq order_refl)
    have "failing_rounds A W i key (err # errs) s = failing_rounds A W i key errs s2"
      using q1(1) q2(1) by (simp add: retry_round_def am_bind_reads [OF q1(2)])
    moreover have "length (pj_errors q1) = Suc (length (pj_errors p))" using arg_cong [OF q1(6), of length] by simp
    then have room2: "length (pj_errors q2) + length errs \<le> 10000" "safe_nat (pj_revision q2 + 2 * length errs)"
      using Cons.prems(5,6) q1(7) q2(6,7) by simp_all
    moreover obtain q e' where qe: "reads A W i q (failing_rounds A W i key errs s2) \<and> effect_at q key = Some e' \<and>
      (if list_all isTransientProviderFailure errs \<and> ef_attempts ?e2 + length errs \<le> go_max_attempts A
       then ef_status e' = EffectPending \<and> ef_attempts e' = ef_attempts ?e2 + length errs \<and> pj_status q = pj_status q2
       else ef_status e' = EffectFailed \<and> ef_attempts e' \<le> go_max_attempts A \<and> pj_status q = attention_status (ef_type ?e2))"
      using Cons.IH [OF q2(2,4) e2(1,2) room2 ids2] True e2(3) by auto
    moreover have "list_all isTransientProviderFailure (err # errs) \<and> ef_attempts e + length (err # errs) \<le> go_max_attempts A
        \<longleftrightarrow> list_all isTransientProviderFailure errs \<and> ef_attempts ?e2 + length errs \<le> go_max_attempts A"
      using True e2(3) by auto
    ultimately show ?thesis
      using qe e2(3,4) q2(5) q1(5) True unfolding \<open>failing_rounds A W i key (err # errs) s = _\<close> by (intro exI [of _ q] exI [of _ e']) simp
  qed
qed

subsection \<open>The sample agent\<close>

lemma sample_agent_lawful: "lawful sample_agent sample_world"
proof -
  have "inj (gw_uuid sample_world)" by (rule injI) (drule arg_cong [of _ _ length], simp)
  then show ?thesis by (simp add: lawful_def sample_vault_sound agent_sha_ok)
qed

lemma sample_agent_options: "retry_options sample_agent" "spaced sample_agent sample_world"
  by (simp_all add: retry_options_def spaced_def)

lemma agent_project_fields [simp]:
  "pj_project_id agent_project = ''project-1''" "pj_created_at agent_project = time_text 0" "pj_errors agent_project = []"
  "pj_revision agent_project = 0" "pj_effects agent_project = [reconcile_effect]" "pj_status agent_project = IntakeReceived"
  by (simp_all add: agent_project_def first_project_def new_project_def sample_create_def)

lemma agent_project_effect:
  "effect_at agent_project reconcile_key = Some reconcile_effect" "ef_status reconcile_effect = EffectPending"
  "ef_next_attempt_at reconcile_effect = None" "ef_attempts reconcile_effect = 1" "ef_type reconcile_effect = ReconcilePayment"
  by (simp_all add: effect_at_def reconcile_effect_def pending_effect_def)

lemma agent_start_reads: "reads sample_agent sample_world ''project-1'' agent_project (agent_start agent_project)"
  by (simp add: reads_def agent_start_def agent_db_reads agent_project_ok)

lemma agent_project_unreported: "unreported agent_runtime reconcile_key 1 2 agent_project"
proof -
  have "{1..2} = {1, 2 :: nat}" by auto
  moreover have "decimal 1 = ''1''" "decimal 2 = ''2''" by code_simp+
  moreover have "CHR ''2'' \<notin> set reconcile_key" by (simp add: reconcile_key_def)
  ultimately show ?thesis
    by (simp add: unreported_def failure_codes_def effectErrorId_def agent_sha_def numeral_eq_Suc)
qed



subsection \<open>A failure that is not recorded\<close>

lemma duplicate_refused:
  assumes r: "reads A W i p s" and e: "effect_at p key = Some e" "ef_status e = EffectPending" "ef_next_attempt_at e = None"
    and t: "isTransientProviderFailure err" "ef_attempts e < go_max_attempts A"
    and L: "lawful A W"
    and dup: "effectErrorId (go_runtime A) key (ef_attempts e) ''effect.provider_failure'' \<in> oe_error_id ` set (pj_errors p)"
  shows "recordPendingEffectFailure A W i key err s
    = (Inl (StoreRefused (InvalidInput ''saveProject'')), s\<lparr>gs_step := Suc (Suc (gs_step s))\<rparr>)"
proof -
  let ?t = "gw_now W (gs_step s)"
  let ?er = "classifyEffectError (go_runtime A) err e (go_iso A ?t)"
  note E = aggregate_effect [OF readsD(1) [OF r] e(1)]
  have pick: "find (\<lambda>e. ef_key e = key \<and> ef_status e = EffectPending \<and> ef_next_attempt_at e = None) (pj_effects p) = Some e"
    using find_conj [of "\<lambda>e. ef_key e = key" "pj_effects p" e "\<lambda>e. ef_status e = EffectPending \<and> ef_next_attempt_at e = None"] e
    by (simp add: effect_at_def)
  have id: "oe_error_id ?er = effectErrorId (go_runtime A) key (ef_attempts e) ''effect.provider_failure''"
    using t(1) E(2) by (auto simp: classifyEffectError_def Let_def isTransientProviderFailure_def permanent_codes_def split: option.splits)
  have bad: "\<not> ProjectAggregate_ok (go_runtime A) ((change_effect key f p)\<lparr>pj_errors := pj_errors p @ [?er]\<rparr>)" for f
    using dup id by (auto simp: ProjectAggregate_ok_def project_issues_Nil unique_collections_issues_def)
  have refused: "save_project A W ((change_effect key f p)\<lparr>pj_errors := pj_errors p @ [?er]\<rparr>) (event_of kind actor
      ((effect_payload st e)\<lparr>ep_attempt := n, ep_error_code := c\<rparr>)) None None s'
      = (Inl (StoreRefused (InvalidInput ''saveProject'')), s'\<lparr>gs_step := Suc (gs_step s')\<rparr>)" for f kind actor st n c s'
    using bad by (simp add: save_project_def am_then_def am_bind_def am_store_def saveProject_def check_input_def event_of_def
        effect_payload_def no_payload_def)
  have "rt_date_parse (go_runtime A) (go_iso A ?t) = Some ?t" using L by (simp add: lawful_def)
  then show ?thesis
    using t E(2) by (simp add: recordPendingEffectFailure_def am_bind_reads [OF r] pick Let_def classified_retryable not_le e(1)
        requireEffect_def am_bind_step am_then_def refused am_bind_stop)
qed

text \<open>One outage that ends, as the agent goes through it: a failed attempt, its retry, an answer of the
  provider with nothing new, and the next check when it is due.\<close>

definition passing_outage :: "agent_options \<Rightarrow> agent_world \<Rightarrow> string \<Rightarrow> string \<Rightarrow> agent_error \<Rightarrow> (project \<times> bool) agent" where
  "passing_outage A W i key err =
     am_then (recordPendingEffectFailure A W i key err)
     (am_bind (retry_round A W i key) (\<lambda>(p, _).
      am_bind (scheduleProviderRecheck A W p key ''payment.reconciliation_pending'') (\<lambda>p.
      beginProviderCheck A W p key)))"

lemma recheck_schedules:
  assumes L: "lawful A W" and r: "reads A W i p s" and e: "effect_at p key = Some e" "ef_status e = EffectPending"
    and rev: "safe_nat (Suc (pj_revision p))"
  obtains q s' where "scheduleProviderRecheck A W p key ''payment.reconciliation_pending'' s = (Inr q, s')" "reads A W i q s'"
    "gs_step s' = gs_step s + 3" "pj_errors q = pj_errors p" "pj_revision q = Suc (pj_revision p)"
    "effect_at q key = Some (rechecked (go_iso A (gw_now W (gs_step s) + PROVIDER_RECHECK_INTERVAL_MS)) (go_iso A (gw_now W (Suc (gs_step s)))) e)"
proof -
  let ?f = "rechecked (go_iso A (gw_now W (gs_step s) + PROVIDER_RECHECK_INTERVAL_MS)) (go_iso A (gw_now W (Suc (gs_step s))))"
  let ?s2 = "s\<lparr>gs_step := Suc (Suc (gs_step s))\<rparr>"
  note E = aggregate_effect [OF readsD(1) [OF r] e(1)]
  let ?ev = "event_of ''payment.reconciliation_pending'' ActorProvider (effect_payload (pj_status p) e)"
  have ev: "ProjectEventInput_ok ?ev" "ep_consumed_message_ids (ei_payload ?ev) = None"
    using E(2,3) effect_event_types by (simp_all add: effect_event_defs)
  have "0 \<le> gw_now W k" for k using L by (simp add: lawful_def)
  then have fok: "DurableEffect_ok (go_runtime A) (?f e)"
    using L E(1) e(2) by (intro rechecked_ok) (simp_all add: lawful_def PROVIDER_RECHECK_INTERVAL_MS_def)
  have r2: "reads A W i p ?s2" using reads_step [OF reads_step [OF r]] by simp
  obtain s' where s': "save_project A W (change_effect key ?f p) ?ev None None ?s2 = (Inr (saved W ?s2 (change_effect key ?f p)), s')"
    "reads A W i (saved W ?s2 (change_effect key ?f p)) s'" "gs_step s' = Suc (gs_step ?s2)"
    "effect_at (change_effect key ?f p) key = Some (?f e)"
    by (rule save_touched_effect [where f = ?f and ev = ?ev, OF L r2 e _ fok _ rev ev]) (use E(2) e(2) in \<open>simp_all add: rechecked_def\<close>)
  have "scheduleProviderRecheck A W p key ''payment.reconciliation_pending'' s = (Inr (saved W ?s2 (change_effect key ?f p)), s')"
    using s'(1) e by (simp add: scheduleProviderRecheck_def requireEffect_def am_bind_step)
  then show ?thesis by (rule that [OF _ s'(2)]) (use s'(3,4) in simp_all)
qed

lemma check_begins:
  assumes L: "lawful A W" and r: "reads A W i p s" and e: "effect_at p key = Some e" "ef_status e = EffectPending"
    and due: "ef_next_check_at e = Some (go_iso A u)" "0 \<le> u" "u \<le> gw_now W (gs_step s)" "go_iso A u \<noteq> []"
    and rev: "safe_nat (Suc (pj_revision p))"
  obtains q s' where "beginProviderCheck A W p key s = (Inr (q, False), s')" "reads A W i q s'"
    "pj_errors q = pj_errors p" "effect_at q key = Some (check_begun (go_iso A (gw_now W (Suc (gs_step s)))) e)"
proof -
  let ?f = "check_begun (go_iso A (gw_now W (Suc (gs_step s))))"
  let ?s2 = "s\<lparr>gs_step := Suc (Suc (gs_step s))\<rparr>"
  note E = aggregate_effect [OF readsD(1) [OF r] e(1)]
  let ?ev = "event_of ''effect.provider_check_started'' ActorSystem ((effect_payload (pj_status p) e)\<lparr>ep_attempt := Some (ef_attempts e)\<rparr>)"
  have ev: "ProjectEventInput_ok ?ev" "ep_consumed_message_ids (ei_payload ?ev) = None"
    using E(2,3,4) effect_event_types by (simp_all add: effect_event_defs)
  have fok: "DurableEffect_ok (go_runtime A) (?f e)"
    using L E(1) e(2) by (intro check_begun_ok) (simp_all add: lawful_def)
  have r2: "reads A W i p ?s2" using reads_step [OF reads_step [OF r]] by simp
  obtain s' where s': "save_project A W (change_effect key ?f p) ?ev None None ?s2 = (Inr (saved W ?s2 (change_effect key ?f p)), s')"
    "reads A W i (saved W ?s2 (change_effect key ?f p)) s'" "gs_step s' = Suc (gs_step ?s2)"
    "effect_at (change_effect key ?f p) key = Some (?f e)"
    by (rule save_touched_effect [where f = ?f and ev = ?ev, OF L r2 e _ fok _ rev ev]) (use E(2) e(2) in \<open>simp_all add: check_begun_def\<close>)
  have "beginProviderCheck A W p key s = (Inr (saved W ?s2 (change_effect key ?f p), False), s')"
    using s'(1) e(1) due(3,4) later_than_iso [OF L due(2)]
    by (simp add: beginProviderCheck_def requireEffect_def am_bind_step due(1) truthy_def)
  then show ?thesis by (rule that [OF _ s'(2)]) (use s'(4) in simp_all)
qed

text \<open>C37. A second outage goes unrecorded.  The identity of an error is made of the effect, the attempt and the
  code, and the answer of a provider that has nothing new sets the attempts back to one.  So when the
  provider of an effect fails on its first attempt, answers on the retry and fails again at the next check,
  the second failure has the identity of the first; the aggregate with both is refused by the store, the
  refusal is swallowed, and the effect stays pending without a next attempt, neither delayed nor counted.\<close>

theorem second_outage_goes_unrecorded:
  assumes L: "lawful A W" "retry_options A" "spaced A W" and far: "PROVIDER_RECHECK_INTERVAL_MS \<le> go_retry_max_ms A"
    and r: "reads A W i p s" and e: "effect_at p key = Some e" "ef_status e = EffectPending" "ef_next_attempt_at e = None" "ef_attempts e = 1"
    and room: "length (pj_errors p) < 10000" "safe_nat (pj_revision p + 4)" "2 \<le> go_max_attempts A"
    and fresh: "effectErrorId (go_runtime A) key 1 ''effect.provider_failure'' \<notin> oe_error_id ` set (pj_errors p)"
    and t: "isTransientProviderFailure err" "isTransientProviderFailure err'" and iso: "\<forall>u \<ge> 0. go_iso A u \<noteq> []"
  shows "\<exists>q e' x s1 s2. passing_outage A W i key err s = (Inr x, s1)
    \<and> recordPendingEffectFailure A W i key err' s1 = (Inl (StoreRefused (InvalidInput ''saveProject'')), s2)
    \<and> gs_db s2 = gs_db s1 \<and> reads A W i q s2 \<and> effect_at q key = Some e' \<and> ef_status e' = EffectPending
    \<and> ef_attempts e' = 1 \<and> ef_next_attempt_at e' = None \<and> ef_next_check_at e' = None"
proof -
  let ?R = "go_runtime A" and ?t = "gw_now W (gs_step s)"
  let ?er = "classifyEffectError ?R err e (go_iso A ?t)"
  have pos: "0 \<le> gw_now W k" for k using L by (simp add: lawful_def)
  note E = aggregate_effect [OF readsD(1) [OF r] e(1)]
  have id: "oe_error_id ?er = effectErrorId ?R key 1 ''effect.provider_failure''"
    using t(1) E(2) e(4) by (auto simp: classifyEffectError_def Let_def isTransientProviderFailure_def permanent_codes_def split: option.splits)
  have rev: "safe_nat (Suc (pj_revision p))" "safe_nat (Suc (Suc (pj_revision p)))" "safe_nat (Suc (Suc (Suc (pj_revision p))))"
    "safe_nat (Suc (Suc (Suc (Suc (pj_revision p)))))"
    using room(2) by (simp_all add: safe_nat_def)
  have fresh': "oe_error_id ?er \<notin> oe_error_id ` set (pj_errors p)" using fresh id by simp
  obtain q1 s1 where q1: "recordPendingEffectFailure A W i key err s = (Inr (), s1)" "reads A W i q1 s1"
    "gs_step s1 = Suc (Suc (gs_step s))" "effect_at q1 key = Some (charged A ?t err e)"
    "pj_status q1 = (if isTransientProviderFailure err \<and> ef_attempts e < go_max_attempts A then pj_status p else attention_status (ef_type e))"
    "map oe_error_id (pj_errors q1) = map oe_error_id (pj_errors p) @ [oe_error_id ?er]" "pj_revision q1 = Suc (pj_revision p)"
    by (rule attempt_fails [OF L(1,2) r e(1-3) room(1) rev(1) refl fresh'])
  let ?u = "?t + retry_delay A 1" and ?e1 = "charged A ?t err e"
  have c: "ef_status ?e1 = EffectPending" "ef_next_attempt_at ?e1 = Some (go_iso A ?u)" "ef_attempts ?e1 < go_max_attempts A"
    using t(1) e room(3) by (simp_all add: charged_def Let_def waiting_def)
  have u: "0 \<le> ?u" using pos retry_delay_nonneg [OF L(2)] by (simp add: add_nonneg_nonneg)
  have due: "?u \<le> gw_now W (gs_step s1)" using spaced_later [OF L(3,2)] q1(3) by simp
  have rev2: "safe_nat (Suc (pj_revision q1))" using rev(2) q1(7) by simp
  obtain q2 s2 where q2: "prepareEffectRetry A W q1 (Some key) s1 = (Inr (q2, False), s2)" "reads A W i q2 s2"
    "gs_step s2 = Suc (Suc (gs_step s1))" "effect_at q2 key = Some (retrying (go_iso A (gw_now W (gs_step s1))) ?e1)"
    "pj_status q2 = pj_status q1" "pj_errors q2 = pj_errors q1" "pj_revision q2 = Suc (pj_revision q1)"
    by (rule retry_starts [OF L(1,2) q1(2,4) c(1,2) u due c(3) rev2])
  let ?e2 = "retrying (go_iso A (gw_now W (gs_step s1))) ?e1"
  have p2: "ef_status ?e2 = EffectPending" using c(1) by (simp add: retrying_def)
  have rev3: "safe_nat (Suc (pj_revision q2))" using rev(3) q1(7) q2(7) by simp
  obtain q3 s3 where q3: "scheduleProviderRecheck A W q2 key ''payment.reconciliation_pending'' s2 = (Inr q3, s3)" "reads A W i q3 s3"
    "gs_step s3 = gs_step s2 + 3" "pj_errors q3 = pj_errors q2" "pj_revision q3 = Suc (pj_revision q2)"
    "effect_at q3 key = Some (rechecked (go_iso A (gw_now W (gs_step s2) + PROVIDER_RECHECK_INTERVAL_MS)) (go_iso A (gw_now W (Suc (gs_step s2)))) ?e2)"
    by (rule recheck_schedules [OF L(1) q2(2,4) p2 rev3])
  let ?v = "gw_now W (gs_step s2) + PROVIDER_RECHECK_INTERVAL_MS"
  let ?e3 = "rechecked (go_iso A ?v) (go_iso A (gw_now W (Suc (gs_step s2)))) ?e2"
  have p3: "ef_status ?e3 = EffectPending" "ef_next_check_at ?e3 = Some (go_iso A ?v)" using p2 by (simp_all add: rechecked_def)
  have v: "0 \<le> ?v" "go_iso A ?v \<noteq> []" using pos iso by (simp_all add: PROVIDER_RECHECK_INTERVAL_MS_def)
  have step: "gw_now W k + go_retry_max_ms A \<le> gw_now W (Suc k)" for k using L(3) by (simp add: spaced_def)
  have "?v \<le> gw_now W (Suc (gs_step s2))" using far step [of "gs_step s2"] by linarith
  also have "\<dots> \<le> gw_now W (Suc (Suc (gs_step s2)))" using far step [of "Suc (gs_step s2)"] by (simp add: PROVIDER_RECHECK_INTERVAL_MS_def)
  also have "\<dots> \<le> gw_now W (gs_step s3)"
    using far step [of "Suc (Suc (gs_step s2))"] q3(3) by (simp add: PROVIDER_RECHECK_INTERVAL_MS_def numeral_3_eq_3)
  finally have due3: "?v \<le> gw_now W (gs_step s3)" .
  have rev4: "safe_nat (Suc (pj_revision q3))" using rev(4) q1(7) q2(7) q3(5) by simp
  obtain q4 s4 where q4: "beginProviderCheck A W q3 key s3 = (Inr (q4, False), s4)" "reads A W i q4 s4"
    "pj_errors q4 = pj_errors q3" "effect_at q4 key = Some (check_begun (go_iso A (gw_now W (Suc (gs_step s3)))) ?e3)"
    by (rule check_begins [OF L(1) q3(2,6) p3 v(1) due3 v(2) rev4])
  let ?e4 = "check_begun (go_iso A (gw_now W (Suc (gs_step s3)))) ?e3"
  have fields: "ef_status ?e4 = EffectPending" "ef_next_attempt_at ?e4 = None" "ef_attempts ?e4 = 1" "ef_next_check_at ?e4 = None"
    using p3 by (simp_all add: check_begun_def rechecked_def)
  have "oe_error_id ` set (pj_errors q4) = set (map oe_error_id (pj_errors q1))" by (simp add: q4(3) q3(4) q2(6))
  then have dup: "effectErrorId ?R key (ef_attempts ?e4) ''effect.provider_failure'' \<in> oe_error_id ` set (pj_errors q4)"
    using q1(6) id fields(3) by simp
  have "passing_outage A W i key err s = (Inr (q4, False), s4)"
    using q1(1) q2(1) q3(1) q4(1)
    by (simp add: passing_outage_def am_then_def retry_round_def am_bind_step am_bind_reads [OF q1(2)])
  moreover have "recordPendingEffectFailure A W i key err' s4
      = (Inl (StoreRefused (InvalidInput ''saveProject'')), s4\<lparr>gs_step := Suc (Suc (gs_step s4))\<rparr>)"
    using room(3) fields(3) by (intro duplicate_refused [OF q4(2,4) fields(1,2) t(2) _ L(1) dup]) simp
  moreover have "reads A W i q4 (s4\<lparr>gs_step := Suc (Suc (gs_step s4))\<rparr>)" using reads_step [OF reads_step [OF q4(2)]] by simp
  ultimately show ?thesis using q4(4) fields by (intro exI conjI) (assumption | simp)+
qed

lemma second_outage_goes_unrecorded_witness:
  "\<exists>q e' x s1 s2. passing_outage sample_agent sample_world ''project-1'' reconcile_key (PortFailed None) (agent_start agent_project) = (Inr x, s1)
    \<and> recordPendingEffectFailure sample_agent sample_world ''project-1'' reconcile_key (PortFailed None) s1
      = (Inl (StoreRefused (InvalidInput ''saveProject'')), s2)
    \<and> gs_db s2 = gs_db s1 \<and> reads sample_agent sample_world ''project-1'' q s2 \<and> effect_at q reconcile_key = Some e'
    \<and> ef_status e' = EffectPending \<and> ef_attempts e' = 1 \<and> ef_next_attempt_at e' = None \<and> ef_next_check_at e' = None"
  by (rule second_outage_goes_unrecorded [OF sample_agent_lawful sample_agent_options _ agent_start_reads agent_project_effect(1-4)])
    (simp_all add: PROVIDER_RECHECK_INTERVAL_MS_def safe_nat_def MAX_SAFE_INTEGER_def isTransientProviderFailure_def)

end
