(* ===== verification/Agent_Mail.thy ===== *)
theory Agent_Mail
  imports Agent_Effects
begin

text \<open>
  \<open>orchestration-agent.ts\<close>, the fate of a sent mail: which durable effect a mail of a project belongs to
  while the project still needs the mail, what a delivery notice of the mail provider does to the project,
  and how the agent asks the provider for a mail no notice came for.
\<close>

subsection \<open>Keys\<close>

definition number_text :: "runtime \<Rightarrow> nat \<Rightarrow> string" where
  "number_text R n = rt_number R (of_nat n)"

definition versioned_key :: "runtime \<Rightarrow> string \<Rightarrow> string \<Rightarrow> nat \<Rightarrow> string" where
  "versioned_key R prefix projectId version = prefix @ projectId @ '':v'' @ number_text R version"

definition proposalMailEffectKey :: "runtime \<Rightarrow> string \<Rightarrow> nat \<Rightarrow> nat \<Rightarrow> string" where
  "proposalMailEffectKey R projectId version attempt =
     (let base = versioned_key R ''mail:proposal:'' projectId version in
      if attempt = 1 then base else base @ '':checkout-attempt:'' @ number_text R attempt)"

definition previewMailEffectKey :: "runtime \<Rightarrow> string \<Rightarrow> nat \<Rightarrow> string \<Rightarrow> string" where
  "previewMailEffectKey R projectId version revision =
     versioned_key R ''mail:preview:'' projectId version @ '':'' @ revision"

definition clarification_key :: "runtime \<Rightarrow> project \<Rightarrow> string option" where
  "clarification_key R p =
     (if pj_status p = NeedsClarification \<and> pj_open_questions p \<noteq> []
      then case digestJson R (JArray (map JString (pj_open_questions p))) of
          Inl _ \<Rightarrow> None
        | Inr d \<Rightarrow> Some (''mail:clarification:'' @ pj_project_id p @ '':'' @ take 24 d)
      else None)"

subsection \<open>The status of a project\<close>

text \<open>\<open>find\<close> by an identifier that may be undefined.\<close>

definition stored_batch :: "project \<Rightarrow> build_batch option" where
  "stored_batch p = (case pj_active_batch_id p of None \<Rightarrow> None
     | Some i \<Rightarrow> find (\<lambda>b. bb_batch_id b = i) (pj_batches p))"

definition stored_proposal :: "project \<Rightarrow> proposal_version option" where
  "stored_proposal p = (case pj_active_proposal p of None \<Rightarrow> None
     | Some v \<Rightarrow> find (\<lambda>q. pv_version q = v) (pj_proposals p))"

definition buildProgressStatus :: "project \<Rightarrow> lifecycle_status \<Rightarrow> lifecycle_status" where
  "buildProgressStatus p nextStatus =
     (case stored_batch p of
        None \<Rightarrow> nextStatus
      | Some b \<Rightarrow>
          if pj_open_questions p \<noteq> [] then NeedsClarification
          else (case stored_proposal p of
              None \<Rightarrow> nextStatus
            | Some q \<Rightarrow>
                if pv_version q = bb_proposal_version b then nextStatus
                else if list_ex (\<lambda>y. pm_proposal_version y = payment_version q) (pj_payments p) then nextStatus
                else if list_ex (\<lambda>c. ck_proposal_version c = pv_version q \<and> ck_proposal_digest c = pv_digest q
                    \<and> ck_status c = CheckoutOpen) (pj_checkouts p) then AwaitingPayment
                else if pj_status p = ProposalDrafting then ProposalDrafting
                else nextStatus))"

definition final_key :: "runtime \<Rightarrow> project \<Rightarrow> build_batch \<Rightarrow> deployment_receipt \<Rightarrow> string" where
  "final_key R p b d = delivery_effect_key R p (bb_proposal_version b) d"

definition of_batch :: "build_batch \<Rightarrow> deployment_receipt \<Rightarrow> bool" where
  "of_batch b d \<longleftrightarrow> dp_batch_id d = bb_batch_id b \<and> dp_proposal_version d = bb_proposal_version b
     \<and> dp_proposal_digest d = bb_proposal_digest b"

definition stable_final_message :: "runtime \<Rightarrow> project \<Rightarrow> build_batch \<Rightarrow> deployment_receipt \<Rightarrow> project_message option" where
  "stable_final_message R p b d =
     (case find (\<lambda>e. ef_type e = SendFinalDelivery \<and> ef_status e = EffectCompleted \<and> ef_key e = final_key R p b d)
        (pj_effects p) of
        None \<Rightarrow> None
      | Some e \<Rightarrow> (case truthy (ef_provider_id e) of
            None \<Rightarrow> None
          | Some i \<Rightarrow> find (\<lambda>m. mg_direction m = Outbound \<and> mg_purpose m = FinalDelivery
              \<and> mg_provider_message_id m = Some i) (pj_messages p)))"

definition stable_batch_status :: "runtime \<Rightarrow> project \<Rightarrow> build_batch \<Rightarrow> lifecycle_status option" where
  "stable_batch_status R p b =
     (case find (of_batch b) (pj_deployments p) of
        Some d \<Rightarrow> Some (case stable_final_message R p b d of
            None \<Rightarrow> Deploying
          | Some m \<Rightarrow> if mg_delivery_status m = MailDelivered then ProjectCompleted else Delivering)
      | None \<Rightarrow>
          if list_ex (\<lambda>v. pw_batch_id v = bb_batch_id b) (pj_previews p) then Some PreviewReady
          else if bb_status b = BatchVerifying then Some Verifying
          else if bb_status b \<in> {BatchPending, BatchDispatched, BatchBuilding} then Some Building
          else None)"

definition stableProjectStatus :: "runtime \<Rightarrow> project \<Rightarrow> lifecycle_status" where
  "stableProjectStatus R p =
     (if pj_status p \<notin> {RevisionPending, AwaitingCustomerRevision} then pj_status p
      else case (case stored_batch p of None \<Rightarrow> None | Some b \<Rightarrow> stable_batch_status R p b) of
          Some st \<Rightarrow> st
        | None \<Rightarrow>
            if list_ex (\<lambda>c. ck_status c = CheckoutOpen) (pj_checkouts p) then AwaitingPayment
            else if pj_payments p \<noteq> [] then Paid else NeedsClarification)"

subsection \<open>The effect a mail belongs to\<close>

definition required_purposes :: "message_purpose list" where
  "required_purposes = [EmailVerification, Clarification, ProposalMail, PaymentConfirmation, DashboardAccess,
     ProvenPreviewMail, Steering, FinalDelivery]"

definition findExact :: "project \<Rightarrow> project_message \<Rightarrow> effect_type \<Rightarrow> string option \<Rightarrow> durable_effect option" where
  "findExact p m kind key =
     (case truthy key of
        None \<Rightarrow> None
      | Some k \<Rightarrow> find (\<lambda>e. ef_type e = kind \<and> ef_key e = k \<and> ef_status e = EffectCompleted
          \<and> ef_provider_id e = mg_provider_message_id m) (pj_effects p))"

definition sent_by :: "project \<Rightarrow> project_message \<Rightarrow> effect_type set \<Rightarrow> durable_effect option" where
  "sent_by p m kinds = find (\<lambda>e. ef_type e \<in> kinds \<and> ef_status e = EffectCompleted
     \<and> ef_provider_id e = mg_provider_message_id m) (pj_effects p)"

text \<open>\<open>findIndex\<close> plus one; the checkout is in the list.\<close>

fun position_of :: "string \<Rightarrow> checkout_session list \<Rightarrow> nat" where
  "position_of i [] = 0"
| "position_of i (c # cs) = (if ck_session_id c = i then 1 else case position_of i cs of 0 \<Rightarrow> 0 | Suc n \<Rightarrow> Suc (Suc n))"

definition proposal_checkouts :: "project \<Rightarrow> proposal_version \<Rightarrow> checkout_session list" where
  "proposal_checkouts p q =
     filter (\<lambda>c. ck_proposal_version c = pv_version q \<and> ck_proposal_digest c = pv_digest q) (pj_checkouts p)"

definition open_proposal_key :: "runtime \<Rightarrow> project \<Rightarrow> string option" where
  "open_proposal_key R p =
     (case stored_proposal p of
        None \<Rightarrow> None
      | Some q \<Rightarrow> (case find (\<lambda>c. ck_status c = CheckoutOpen) (rev (proposal_checkouts p q)) of
            None \<Rightarrow> None
          | Some c \<Rightarrow> Some (proposalMailEffectKey R (pj_project_id p) (pv_version q)
              (position_of (ck_session_id c) (proposal_checkouts p q)))))"

definition batch_mail_effect :: "runtime \<Rightarrow> project \<Rightarrow> project_message \<Rightarrow> durable_effect option" where
  "batch_mail_effect R p m =
     (case stored_batch p of
        None \<Rightarrow> None
      | Some b \<Rightarrow>
          if mg_purpose m = ProvenPreviewMail
          then findExact p m SendProvenPreview
            (map_option (\<lambda>v. previewMailEffectKey R (pj_project_id p) (bb_proposal_version b) (pw_revision_hash v))
              (find (\<lambda>v. pw_batch_id v = bb_batch_id b \<and> pw_proposal_version v = bb_proposal_version b
                 \<and> pw_proposal_digest v = bb_proposal_digest b) (rev (pj_previews p))))
          else findExact p m SendFinalDelivery
            (map_option (final_key R p b) (find (of_batch b) (rev (pj_deployments p)))))"

definition activeRequiredMailEffect :: "runtime \<Rightarrow> project \<Rightarrow> project_message \<Rightarrow> durable_effect option" where
  "activeRequiredMailEffect R p m =
     (if mg_direction m \<noteq> Outbound \<or> truthy (mg_provider_message_id m) = None \<or> mg_purpose m \<notin> set required_purposes
      then None
      else (case mg_purpose m of
          EmailVerification \<Rightarrow> sent_by p m {SendEmailVerification}
        | Clarification \<Rightarrow> findExact p m SendClarification (clarification_key R p)
        | ProposalMail \<Rightarrow>
            if pj_status p \<notin> {ProposalDrafting, AwaitingCustomerRevision, AwaitingPayment} then None
            else findExact p m SendProposal (open_proposal_key R p)
        | PaymentConfirmation \<Rightarrow> findExact p m SendPaymentConfirmation
            (map_option (versioned_key R ''mail:payment:'' (pj_project_id p)) (pj_paid_proposal p))
        | DashboardAccess \<Rightarrow> sent_by p m {SendDashboardAccess, SendDashboardLogin}
        | Steering \<Rightarrow> findExact p m SendSteeringAcknowledgement
            (map_option (versioned_key R ''mail:steering:'' (pj_project_id p)) (pj_active_proposal p))
        | _ \<Rightarrow> batch_mail_effect R p m))"

subsection \<open>A delivery notice\<close>

datatype notice_status = NoticeDelivered | NoticeBounced | NoticeFailed

record mail_notice =
  dn_project_id :: string
  dn_event_id :: string
  dn_event_digest :: string
  dn_message_id :: string
  dn_occurred_at :: string
  dn_status :: notice_status
  dn_permanent :: bool

fun notice_text :: "notice_status \<Rightarrow> string" where
  "notice_text NoticeDelivered = ''delivered''"
| "notice_text NoticeBounced = ''bounced''"
| "notice_text NoticeFailed = ''failed''"

fun reported_status :: "notice_status \<Rightarrow> delivery_status" where
  "reported_status NoticeDelivered = MailDelivered"
| "reported_status NoticeBounced = MailBounced"
| "reported_status NoticeFailed = MailFailed"

definition deliveryFailure :: "mail_notice \<Rightarrow> bool" where
  "deliveryFailure n \<longleftrightarrow> dn_status n \<noteq> NoticeDelivered"

definition permanentFailure :: "mail_notice \<Rightarrow> bool" where
  "permanentFailure n \<longleftrightarrow> dn_permanent n \<and> deliveryFailure n"

definition alreadyFailed :: "project_message \<Rightarrow> bool" where
  "alreadyFailed m \<longleftrightarrow> mg_delivery_status m \<in> {MailBounced, MailFailed}"

definition nextDeliveryStatus :: "mail_notice \<Rightarrow> project_message \<Rightarrow> delivery_status" where
  "nextDeliveryStatus n m =
     (if alreadyFailed m \<or> mg_delivery_status m = MailDelivered then mg_delivery_status m
      else if permanentFailure n \<or> dn_status n = NoticeDelivered then reported_status (dn_status n)
      else mg_delivery_status m)"

definition nextProjectStatus :: "runtime \<Rightarrow> mail_notice \<Rightarrow> project \<Rightarrow> project_message \<Rightarrow> lifecycle_status" where
  "nextProjectStatus R n p m =
     (let active = activeRequiredMailEffect R p m in
      if permanentFailure n \<and> active \<noteq> None \<and> mg_delivery_status m \<noteq> MailDelivered then NeedsOperatorAttention
      else if dn_status n = NoticeDelivered \<and> \<not> alreadyFailed m \<and> mg_purpose m = FinalDelivery
        \<and> map_option ef_type active = Some SendFinalDelivery then buildProgressStatus p ProjectCompleted
      else pj_status p)"

definition has_error :: "string \<Rightarrow> project \<Rightarrow> bool" where
  "has_error i p \<longleftrightarrow> list_ex (\<lambda>e. oe_error_id e = i) (pj_errors p)"

text \<open>\<open>errors.push\<close>, unless an error of that identity is there.\<close>

definition note_error :: "orchestration_error \<Rightarrow> project \<Rightarrow> project" where
  "note_error e p = (if has_error (oe_error_id e) p then p else p\<lparr>pj_errors := pj_errors p @ [e]\<rparr>)"

definition mail_error_id :: "runtime \<Rightarrow> mail_notice \<Rightarrow> string" where
  "mail_error_id R n = ''mail-delivery:'' @ take 24 (rt_sha256 R (dn_event_id n))"

definition mail_error :: "runtime \<Rightarrow> mail_notice \<Rightarrow> orchestration_error" where
  "mail_error R n =
     \<lparr>oe_error_id = mail_error_id R n, oe_code = ''mail.'' @ notice_text (dn_status n),
      oe_category = (if permanentFailure n then PermanentError else TransientError),
      oe_message = (if permanentFailure n then ''Resend reported a permanent outbound delivery failure''
        else ''Resend reported an outbound delivery failure requiring review''),
      oe_retryable = (\<not> permanentFailure n), oe_effect_key = None, oe_occurred_at = dn_occurred_at n\<rparr>"

definition reconcile_mail_key :: "string \<Rightarrow> string \<Rightarrow> string" where
  "reconcile_mail_key projectId message = ''mail:reconcile:'' @ projectId @ '':'' @ message"

definition terminalizesReconciliation :: "mail_notice \<Rightarrow> project \<Rightarrow> bool" where
  "terminalizesReconciliation n p \<longleftrightarrow>
     (case find (\<lambda>e. ef_key e = reconcile_mail_key (pj_project_id p) (dn_message_id n) \<and> ef_type e = ReconcileMailDelivery)
        (pj_effects p) of
        None \<Rightarrow> False
      | Some e \<Rightarrow> ef_status e = EffectPending \<and> (dn_status n = NoticeDelivered \<or> permanentFailure n))"

definition notice_receipt :: "mail_notice \<Rightarrow> jsval" where
  "notice_receipt n = JObject [(''provider'', JString ''resend''), (''messageId'', JString (dn_message_id n)),
     (''status'', JString (notice_text (dn_status n))), (''verifiedAt'', JString (dn_occurred_at n)),
     (''permanent'', JBool (dn_permanent n)), (''providerEventDigest'', JString (dn_event_digest n))]"

definition reconciliation_error :: "runtime \<Rightarrow> mail_notice \<Rightarrow> durable_effect \<Rightarrow> orchestration_error" where
  "reconciliation_error R n e =
     \<lparr>oe_error_id = effectErrorId R (ef_key e) (ef_attempts e) (''mail.'' @ notice_text (dn_status n)),
      oe_code = ''mail.'' @ notice_text (dn_status n), oe_category = PermanentError,
      oe_message = ''Resend reported a permanent outbound delivery failure'', oe_retryable = False,
      oe_effect_key = Some (ef_key e), oe_occurred_at = dn_occurred_at n\<rparr>"

definition settle_reconciliation :: "runtime \<Rightarrow> mail_notice \<Rightarrow> bool \<Rightarrow> project \<Rightarrow> agent_error + project" where
  "settle_reconciliation R n terminal p =
     (let key = reconcile_mail_key (pj_project_id p) (dn_message_id n) in
      if terminal \<and> dn_status n = NoticeDelivered
      then completeEffect R key (dn_message_id n) (notice_receipt n) (dn_occurred_at n) p
      else if terminal \<and> permanentFailure n
      then bind_ok (requireEffect p key) (\<lambda>e.
        Inr (note_error (reconciliation_error R n e) (change_effect key (failed_effect (reconciliation_error R n e)) p)))
      else Inr p)"

definition noticed_message :: "mail_notice \<Rightarrow> project_message \<Rightarrow> project_message \<Rightarrow> project_message" where
  "noticed_message n m x =
     (if nextDeliveryStatus n m \<noteq> mg_delivery_status m
      then x\<lparr>mg_delivery_status := nextDeliveryStatus n m, mg_delivery_updated_at := Some (dn_occurred_at n)\<rparr> else x)"

definition noticed :: "runtime \<Rightarrow> mail_notice \<Rightarrow> project_message \<Rightarrow> project \<Rightarrow> project" where
  "noticed R n m p =
     (let q = p\<lparr>pj_messages := update_first (\<lambda>x. mg_message_id x = mg_message_id m) (noticed_message n m) (pj_messages p),
            pj_status := nextProjectStatus R n p m\<rparr> in
      if deliveryFailure n then note_error (mail_error R n) q else q)"

definition notice_event :: "mail_notice \<Rightarrow> project \<Rightarrow> project \<Rightarrow> project_message \<Rightarrow> event_input" where
  "notice_event n p q m =
     event_of ''email.delivery_status_updated'' ActorProvider
       (no_payload\<lparr>ep_previous_status := Some (pj_status p), ep_status := Some (pj_status q),
          ep_message_id := Some (mg_message_id m), ep_provider := Some ''resend'',
          ep_provider_event_digest := Some (dn_event_digest n),
          ep_error_code := (if deliveryFailure n then Some (''mail.'' @ notice_text (dn_status n)) else None),
          ep_effect_key := (if terminalizesReconciliation n p
            then Some (reconcile_mail_key (pj_project_id p) (dn_message_id n)) else None),
          ep_effect_type := (if terminalizesReconciliation n p then Some ReconcileMailDelivery else None)\<rparr>)"

definition notice_inbox :: "mail_notice \<Rightarrow> inbox_event" where
  "notice_inbox n = \<lparr>xe_provider = ''resend'', xe_event_id = dn_event_id n, xe_digest = dn_event_digest n\<rparr>"

definition nothing_new :: "runtime \<Rightarrow> mail_notice \<Rightarrow> project \<Rightarrow> project_message \<Rightarrow> bool" where
  "nothing_new R n p m \<longleftrightarrow> nextDeliveryStatus n m = mg_delivery_status m \<and> nextProjectStatus R n p m = pj_status p
     \<and> \<not> (deliveryFailure n \<and> \<not> has_error (mail_error_id R n) p) \<and> \<not> terminalizesReconciliation n p"

definition notices_of :: "mail_notice \<Rightarrow> project \<Rightarrow> project_message list" where
  "notices_of n p = filter (\<lambda>m. mg_direction m = Outbound \<and> mg_provider m = ''resend''
     \<and> mg_provider_message_id m = Some (dn_message_id n)) (pj_messages p)"

definition take_notice :: "agent_options \<Rightarrow> agent_world \<Rightarrow> mail_notice \<Rightarrow> project \<Rightarrow> project_message \<Rightarrow> project agent" where
  "take_notice A W n p m =
     (let R = go_runtime A in
      if nothing_new R n p m
      then am_then (am_store (\<lambda>k. recordInbox (gw_clock W k) (notice_inbox n))) (am_return p)
      else am_bind (am_lift (settle_reconciliation R n (terminalizesReconciliation n p) (noticed R n m p))) (\<lambda>q.
        save_project A W q (notice_event n p q m) (Some (notice_inbox n)) None))"

definition recordMailDelivery :: "agent_options \<Rightarrow> agent_world \<Rightarrow> mail_notice \<Rightarrow> project agent" where
  "recordMailDelivery A W n =
     am_then (am_await W (\<lambda>_. Inr ()))
     (am_bind (requireProject A (dn_project_id n)) (\<lambda>p.
      case notices_of n p of
        [m] \<Rightarrow> take_notice A W n p m
      | _ \<Rightarrow> am_throw (PolicyViolation ''Resend delivery event does not identify exactly one outbound message'')))"

subsection \<open>Asking the provider\<close>

fun notice_of :: "outbound_status \<Rightarrow> notice_status option" where
  "notice_of OutboundPending = None"
| "notice_of OutboundDelivered = Some NoticeDelivered"
| "notice_of OutboundBounced = Some NoticeBounced"
| "notice_of OutboundFailed = Some NoticeFailed"

definition awaited_message :: "runtime \<Rightarrow> project \<Rightarrow> project_message option" where
  "awaited_message R p = find (\<lambda>m. mg_direction m = Outbound \<and> mg_delivery_status m \<in> {MailPending, MailSent}
     \<and> mg_provider_message_id m \<noteq> None \<and> activeRequiredMailEffect R p m \<noteq> None) (rev (pj_messages p))"

definition timeout_error :: "runtime \<Rightarrow> durable_effect \<Rightarrow> string \<Rightarrow> orchestration_error" where
  "timeout_error R e now =
     \<lparr>oe_error_id = effectErrorId R (ef_key e) (ef_attempts e) ''mail.delivery_verification_timeout'',
      oe_code = ''mail.delivery_verification_timeout'', oe_category = PermanentError,
      oe_message = ''Required customer email delivery could not be verified before its deadline'',
      oe_retryable = False, oe_effect_key = Some (ef_key e), oe_occurred_at = now\<rparr>"

definition mail_overdue :: "agent_options \<Rightarrow> project_message \<Rightarrow> string \<Rightarrow> bool" where
  "mail_overdue A m now \<longleftrightarrow>
     (case (rt_date_parse (go_runtime A) now, rt_date_parse (go_runtime A) (mg_created_at m)) of
        (Some t, Some u) \<Rightarrow> u + go_mail_deadline_ms A \<le> t | _ \<Rightarrow> False)"

definition give_up_mail ::
  "agent_options \<Rightarrow> agent_world \<Rightarrow> project \<Rightarrow> string \<Rightarrow> project_message \<Rightarrow> string \<Rightarrow> project agent" where
  "give_up_mail A W p key m now =
     am_bind (am_lift (requireEffect p key)) (\<lambda>e.
     if ef_status e \<noteq> EffectPending then am_return p
     else let err = timeout_error (go_runtime A) e now;
              q = (note_error err (change_effect key (failed_effect err) p))\<lparr>pj_status := NeedsOperatorAttention\<rparr> in
       save_project A W q (event_of ''email.delivery_verification_timed_out'' ActorSystem
         (no_payload\<lparr>ep_previous_status := Some (pj_status p), ep_status := Some (pj_status q), ep_effect_key := Some key,
            ep_effect_type := Some ReconcileMailDelivery, ep_message_id := Some (mg_message_id m),
            ep_error_code := Some (oe_code err)\<rparr>)) None None)"

fun provider_text_of :: "notice_status option \<Rightarrow> string" where
  "provider_text_of None = ''pending''"
| "provider_text_of (Some st) = notice_text st"

definition provider_state_json :: "outbound_state \<Rightarrow> jsval" where
  "provider_state_json v = JObject [(''source'', JString ''resend_provider_api''), (''messageId'', JString (os_message_id v)),
     (''status'', JString (provider_text_of (notice_of (os_status v)))), (''verifiedAt'', JString (os_verified_at v)),
     (''permanent'', JBool (os_permanent v))]"

definition json_digest :: "runtime \<Rightarrow> jsval \<Rightarrow> agent_error + string" where
  "json_digest R v = (case digestJson R v of Inl _ \<Rightarrow> Inl (ScriptError ''TypeError'') | Inr d \<Rightarrow> Inr d)"

definition ask_provider :: "agent_options \<Rightarrow> agent_world \<Rightarrow> project \<Rightarrow> string \<Rightarrow> string \<Rightarrow> project agent" where
  "ask_provider A W p key i =
     am_bind (beginProviderCheck A W p key) (\<lambda>(q, deferred).
     if deferred then am_return q
     else am_then (markEffectAttempt key)
      (am_bind (am_await W (gw_outbound W)) (\<lambda>v.
       am_then (am_require (os_provider v = ''resend'' \<and> os_message_id v = i)
         ''Resend delivery reconciliation returned the wrong message identity'')
       (case notice_of (os_status v) of
          None \<Rightarrow> scheduleProviderRecheck A W q key ''email.delivery_pending_verified''
        | Some st \<Rightarrow> am_bind (am_lift (json_digest (go_runtime A) (provider_state_json v))) (\<lambda>digest.
            recordMailDelivery A W \<lparr>dn_project_id = pj_project_id q,
              dn_event_id = ''resend-reconciliation:'' @ take 24 (rt_sha256 (go_runtime A) digest),
              dn_event_digest = digest, dn_message_id = os_message_id v, dn_occurred_at = os_verified_at v,
              dn_status = st, dn_permanent = os_permanent v\<rparr>)))))"

definition reconcileRequiredMailDelivery :: "agent_options \<Rightarrow> agent_world \<Rightarrow> project \<Rightarrow> project agent" where
  "reconcileRequiredMailDelivery A W p =
     (case awaited_message (go_runtime A) p of
        None \<Rightarrow> am_return p
      | Some m \<Rightarrow> (case truthy (mg_provider_message_id m) of
            None \<Rightarrow> am_return p
          | Some i \<Rightarrow>
              let key = reconcile_mail_key (pj_project_id p) i in
              am_bind (timestamp A W) (\<lambda>t.
              am_bind (am_lift (addPendingEffect (go_runtime A) key ReconcileMailDelivery
                  (JObject [(''providerMessageId'', JString i)]) t None p)) (\<lambda>queued.
              am_bind (if list_ex (\<lambda>e. ef_key e = key) (pj_effects p) then am_return p
                else save_project A W queued (event_of ''email.delivery_reconciliation_queued'' ActorSystem
                  (no_payload\<lparr>ep_status := Some (pj_status p), ep_effect_key := Some key,
                     ep_effect_type := Some ReconcileMailDelivery, ep_message_id := Some (mg_message_id m)\<rparr>)) None None) (\<lambda>q.
              am_bind (timestamp A W) (\<lambda>now.
              if mail_overdue A m now then give_up_mail A W q key m now
              else ask_provider A W q key i))))))"

end
