(* ===== verification/Agent_Reconcile.thy ===== *)
theory Agent_Reconcile
  imports Agent_Mail
begin

text \<open>
  \<open>orchestration-agent.ts\<close>, one reconciliation of a project: which projects are left alone, when a pending
  login mail goes first, and when the walk over the project is started.  The two walks it may start are
  arguments: delivering a login mail, and \<open>reconcileProjectOnce\<close>.
\<close>

definition login_prefix :: "string \<Rightarrow> string" where
  "login_prefix projectId = ''mail:dashboard-login:'' @ projectId @ '':request:''"

definition dashboardLoginMailEffects :: "project \<Rightarrow> durable_effect list" where
  "dashboardLoginMailEffects p =
     filter (\<lambda>e. ef_type e = SendDashboardLogin \<and> starts_with (login_prefix (pj_project_id p)) (ef_key e)) (pj_effects p)"

definition latestDashboardLoginMailEffect :: "runtime \<Rightarrow> project \<Rightarrow> durable_effect option" where
  "latestDashboardLoginMailEffect R p =
     (case sort_by (\<lambda>l r. let d = date_diff (rt_date_parse R (ef_created_at r)) (rt_date_parse R (ef_created_at l)) in
          if d \<noteq> 0 then d else rt_locale_compare R (ef_key r) (ef_key l)) (dashboardLoginMailEffects p) of
        [] \<Rightarrow> None | e # _ \<Rightarrow> Some e)"

definition pending_login :: "runtime \<Rightarrow> project \<Rightarrow> durable_effect option" where
  "pending_login R p =
     (case latestDashboardLoginMailEffect R p of
        None \<Rightarrow> None | Some e \<Rightarrow> if ef_status e = EffectPending then Some e else None)"

definition settled_statuses :: "lifecycle_status list" where
  "settled_statuses = [ProjectCompleted, ProjectCancelled, ProjectFailed, NeedsOperatorAttention,
     PaymentVerificationFailed, DeploymentVerificationFailed]"

definition reconcile_rest ::
  "agent_options \<Rightarrow> agent_world \<Rightarrow> (project \<Rightarrow> project agent) \<Rightarrow> string \<Rightarrow> project \<Rightarrow> project agent" where
  "reconcile_rest A W once projectId p =
     (if pj_status p \<in> set settled_statuses then am_return p
      else am_bind (prepareEffectRetry A W p None) (\<lambda>(q, deferred).
        if deferred then am_return p else runWithEffectFailure A W projectId (once q)))"

definition reconcileProject ::
  "agent_options \<Rightarrow> agent_world \<Rightarrow> (project \<Rightarrow> string \<Rightarrow> project agent) \<Rightarrow> (project \<Rightarrow> project agent) \<Rightarrow> string
    \<Rightarrow> project agent" where
  "reconcileProject A W deliverLogin once projectId =
     am_bind (requireProject A projectId) (\<lambda>p.
     am_then (assertNoUnresolvedInboundMail projectId)
     (case pending_login (go_runtime A) p of
        None \<Rightarrow> reconcile_rest A W once projectId p
      | Some e \<Rightarrow> am_bind (prepareEffectRetry A W p (Some (ef_key e))) (\<lambda>(q, deferred).
          if deferred then am_return q
          else (case pending_login (go_runtime A) q of
              None \<Rightarrow> reconcile_rest A W once projectId q
            | Some e' \<Rightarrow> runWithEffectFailure A W projectId (deliverLogin q (ef_key e'))))))"

lemma settled_is_left_alone:
  assumes "requireProject A i s = (Inr p, s)" "hasUnresolvedInboundMailEnvelope i (gs_db s) = Inr False"
    and "pending_login (go_runtime A) p = None" "pj_status p \<in> set settled_statuses"
  shows "reconcileProject A W deliverLogin once i s = (Inr p, s)"
  using assms
  by (simp add: reconcileProject_def reconcile_rest_def am_then_def am_bind_def assertNoUnresolvedInboundMail_def am_query_def)

end
