(* ===== verification/Agent_Mail_Properties.thy ===== *)
theory Agent_Mail_Properties
  imports Agent_Reconcile Agent_Effects_Properties
begin

text \<open>
  What a delivery notice does to a project, and the notice that arrives after the customer has written again.
\<close>

definition awaited :: "agent_world \<Rightarrow> agent_state \<Rightarrow> agent_state" where
  "awaited W s = s\<lparr>gs_db := gw_env W (gs_step s) (gs_db s), gs_step := Suc (gs_step s)\<rparr>"

lemma recordMailDelivery_reads:
  assumes "reads A W (dn_project_id n) p (awaited W s)"
  shows "recordMailDelivery A W n s = (case notices_of n p of [m] \<Rightarrow> take_notice A W n p m
    | _ \<Rightarrow> am_throw (PolicyViolation ''Resend delivery event does not identify exactly one outbound message'')) (awaited W s)"
  using am_bind_reads [OF assms] by (simp add: recordMailDelivery_def am_then_def am_bind_def am_await_def awaited_def)

lemma note_error_fields [simp]:
  "pj_messages (note_error e p) = pj_messages p" "pj_status (note_error e p) = pj_status p" "pj_effects (note_error e p) = pj_effects p"
  "pj_project_id (note_error e p) = pj_project_id p" "pj_created_at (note_error e p) = pj_created_at p"
  "pj_revision (note_error e p) = pj_revision p" "pj_payments (note_error e p) = pj_payments p"
  "pj_deployments (note_error e p) = pj_deployments p" "pj_batches (note_error e p) = pj_batches p"
  by (simp_all add: note_error_def)

lemma noticed_fields [simp]:
  "pj_messages (noticed R n m p) = update_first (\<lambda>x. mg_message_id x = mg_message_id m) (noticed_message n m) (pj_messages p)"
  "pj_status (noticed R n m p) = nextProjectStatus R n p m" "pj_project_id (noticed R n m p) = pj_project_id p"
  "pj_created_at (noticed R n m p) = pj_created_at p" "pj_revision (noticed R n m p) = pj_revision p"
  "pj_payments (noticed R n m p) = pj_payments p" "pj_deployments (noticed R n m p) = pj_deployments p"
  "pj_batches (noticed R n m p) = pj_batches p"
  by (simp_all add: noticed_def Let_def)

lemma settle_reconciliation_fields:
  assumes "settle_reconciliation R n terminal p = Inr q"
  shows "pj_messages q = pj_messages p" "pj_status q = pj_status p" "pj_project_id q = pj_project_id p"
    "pj_created_at q = pj_created_at p" "pj_revision q = pj_revision p" "pj_payments q = pj_payments p"
    "pj_deployments q = pj_deployments p" "pj_batches q = pj_batches p"
  using assms
  by (auto simp: settle_reconciliation_def Let_def completeEffect_def bind_ok_Inr change_effect_def split: if_splits)

lemma in_update_first:
  "x \<in> set (update_first P f xs) \<Longrightarrow> x \<in> set xs \<or> (\<exists>y. find P xs = Some y \<and> x = f y)"
  by (induction xs) (auto split: if_splits)

definition on_record :: "project_message \<Rightarrow> bool" where
  "on_record m \<longleftrightarrow> mg_delivery_status m \<in> {MailDelivered, MailBounced, MailFailed}"

subsection \<open>A notice for a mail that was delivered before\<close>

text \<open>A final delivery on record as delivered, of the active build and its proposal, in a project without open
  questions.\<close>

definition delivered_before :: "runtime \<Rightarrow> mail_notice \<Rightarrow> project \<Rightarrow> bool" where
  "delivered_before R n p \<longleftrightarrow>
     (case (notices_of n p, stored_batch p, stored_proposal p) of
        ([m], Some b, Some v) \<Rightarrow> mg_purpose m = FinalDelivery \<and> mg_delivery_status m = MailDelivered
          \<and> map_option ef_type (activeRequiredMailEffect R p m) = Some SendFinalDelivery
          \<and> pv_version v = bb_proposal_version b \<and> pj_open_questions p = []
      | _ \<Rightarrow> False) \<and> dn_status n = NoticeDelivered \<and> \<not> terminalizesReconciliation n p"

lemma repeated_notice_completes:
  assumes L: "sound_store A W" and r: "reads A W (dn_project_id n) p (awaited W s)" and d: "delivered_before (go_runtime A) n p"
    and st: "pj_status p \<noteq> ProjectCompleted" and ok: "ProjectAggregate_ok (go_runtime A) (p\<lparr>pj_status := ProjectCompleted\<rparr>)"
    and new: "unseen (gs_db (awaited W s)) (Some (notice_inbox n))" and rev: "safe_nat (Suc (pj_revision p))"
  obtains s' where "recordMailDelivery A W n s = (Inr (saved W (awaited W s) (p\<lparr>pj_status := ProjectCompleted\<rparr>)), s')"
    "reads A W (dn_project_id n) (saved W (awaited W s) (p\<lparr>pj_status := ProjectCompleted\<rparr>)) s'"
    "od_envelopes (gs_db s') = od_envelopes (gs_db (awaited W s))"
proof -
  let ?R = "go_runtime A" and ?s = "awaited W s" and ?q = "p\<lparr>pj_status := ProjectCompleted\<rparr>"
  obtain m b v where m: "notices_of n p = [m]" "stored_batch p = Some b" "stored_proposal p = Some v" "mg_purpose m = FinalDelivery"
    "mg_delivery_status m = MailDelivered" "map_option ef_type (activeRequiredMailEffect ?R p m) = Some SendFinalDelivery"
    "pv_version v = bb_proposal_version b" "pj_open_questions p = []"
    using d by (auto simp: delivered_before_def split: list.splits option.splits)
  have n: "dn_status n = NoticeDelivered" "\<not> terminalizesReconciliation n p" using d by (simp_all add: delivered_before_def)
  have same: "nextDeliveryStatus n m = mg_delivery_status m" by (simp add: nextDeliveryStatus_def m(5))
  have next_st: "nextProjectStatus ?R n p m = ProjectCompleted"
    using m n(1) by (simp add: nextProjectStatus_def Let_def permanentFailure_def deliveryFailure_def alreadyFailed_def
        buildProgressStatus_def)
  have idem: "update_first P (noticed_message n m) xs = xs" for P xs
    by (induction xs) (simp_all add: noticed_message_def same)
  have changed: "noticed ?R n m p = ?q"
    using n(1) by (simp add: noticed_def Let_def next_st idem deliveryFailure_def)
  have "m \<in> set (notices_of n p)" by (simp add: m(1))
  then have "ProjectMessage_ok ?R m"
    using readsD(1) [OF r] by (auto simp: notices_of_def ProjectAggregate_ok_def project_shape_def list_all_iff)
  then have mid: "orchestration_id (mg_message_id m)" by (simp add: ProjectMessage_ok_def message_shape_def)
  have "sha256_text (dn_event_digest n)" using new by (simp add: unseen_def verified_inbox_ok_def notice_inbox_def)
  then have ev: "ProjectEventInput_ok (notice_event n p ?q m)" "ep_consumed_message_ids (ei_payload (notice_event n p ?q m)) = None"
    using mid n by (simp_all add: notice_event_def event_of_def ProjectEventInput_ok_def RedactedEventPayload_ok_def no_payload_def
        deliveryFailure_def provider_text_def event_type_text_def text_simps)
  obtain s' where s': "save_project A W ?q (notice_event n p ?q m) (Some (notice_inbox n)) None ?s = (Inr (saved W ?s ?q), s')"
    "reads A W (dn_project_id n) (saved W ?s ?q) s'" "od_envelopes (gs_db s') = od_envelopes (gs_db ?s)"
    by (rule save_project_writes [OF L r ok _ _ _ rev ev new]) (use readsD(2) [OF r] in simp_all)
  have "recordMailDelivery A W n s = (Inr (saved W ?s ?q), s')"
    using s'(1) n(2) st
    by (simp add: recordMailDelivery_reads [OF r] m(1) take_notice_def Let_def nothing_new_def next_st changed
        settle_reconciliation_def am_bind_def)
  then show ?thesis using that s'(2,3) by blast
qed

lemma status_only_ok:
  assumes "ProjectAggregate_ok R p" "st \<notin> set ACTIVE_STATUSES"
  shows "ProjectAggregate_ok R (p\<lparr>pj_status := st\<rparr>)"
proof -
  let ?q = "p\<lparr>pj_status := st\<rparr>"
  have same: "same_core ?q p" by (simp add: same_core_def)
  have pi: "project_issues R p = []" using assms(1) by (simp add: ProjectAggregate_ok_def)
  show ?thesis
  proof (rule same_core_ok [OF assms(1) same])
    show "project_shape R ?q" using assms by (simp add: ProjectAggregate_ok_def project_shape_def)
    show "status_issues R ?q = []"
      using assms(2) by (auto simp: status_issues_def ACTIVE_STATUSES_def split: option.splits)
  qed (use pi in \<open>simp_all add: project_issues_Nil unique_collections_issues_def\<close>)
qed

subsection \<open>The sample agent and a delivered project\<close>

definition delivery_agent :: agent_options where
  "delivery_agent = sample_agent\<lparr>go_runtime := sample_runtime\<rparr>"

definition revised_project :: project where
  "revised_project = sample_project\<lparr>pj_status := RevisionPending\<rparr>"

definition delivered_notice :: mail_notice where
  "delivered_notice = \<lparr>dn_project_id = ''project-1'', dn_event_id = ''evt-2'', dn_event_digest = sample_hash,
     dn_message_id = ''mail-1'', dn_occurred_at = ''t6'', dn_status = NoticeDelivered, dn_permanent = False\<rparr>"

definition revised_db :: orch_db where
  "revised_db = empty_orch_db\<lparr>od_projects := [saved_row sample_runtime sample_vault ''n'' revised_project (first_row\<lparr>ix_created_at := ''t0''\<rparr>)]\<rparr>"

definition revised_start :: agent_state where
  "revised_start = \<lparr>gs_db = revised_db, gs_step = 0, gs_attempted = []\<rparr>"

lemma delivery_agent_fields [simp]:
  "go_runtime delivery_agent = sample_runtime" "go_vault delivery_agent = sample_vault"
  by (simp_all add: delivery_agent_def)

lemma revised_project_ok: "ProjectAggregate_ok sample_runtime revised_project"
  unfolding revised_project_def by (rule status_only_ok [OF sample_project_ok]) (simp add: ACTIVE_STATUSES_def)

lemma delivery_sound: "sound_store delivery_agent sample_world"
  using sample_agent_lawful by (simp add: sound_store_def lawful_def sample_vault_sound)

lemma awaited_start [simp]:
  "gs_db (awaited sample_world revised_start) = revised_db" "gs_step (awaited sample_world revised_start) = 1"
  "gs_db revised_start = revised_db"
  by (simp_all add: awaited_def revised_start_def sample_world_def)

lemma delivered_notice_project [simp]: "dn_project_id delivered_notice = ''project-1''"
  by (simp add: delivered_notice_def)

lemma revised_reads:
  "reads delivery_agent sample_world (dn_project_id delivered_notice) revised_project (awaited sample_world revised_start)"
proof -
  have "rowToProject sample_runtime sample_vault (saved_row sample_runtime sample_vault ''n'' revised_project
      (first_row\<lparr>ix_created_at := ''t0''\<rparr>)) = Inr revised_project"
    by (rule saved_row_reads [OF sample_vault_sound revised_project_ok]) (simp_all add: revised_project_def sample_project_def)
  then show ?thesis
    by (simp add: reads_def getProject_def check_input_def project_row_of_def revised_db_def empty_orch_db_def text_simps)
qed

lemma revised_project_ok': "ProjectAggregate_ok (go_runtime delivery_agent) (revised_project\<lparr>pj_status := ProjectCompleted\<rparr>)"
proof -
  have "revised_project\<lparr>pj_status := ProjectCompleted\<rparr> = sample_project" by (simp add: revised_project_def sample_project_def)
  then show ?thesis by (simp add: sample_project_ok)
qed

lemma revised_unseen: "unseen (gs_db (awaited sample_world revised_start)) (Some (notice_inbox delivered_notice))"
  by (simp add: unseen_def notice_inbox_def verified_inbox_ok_def webhook_provider_def delivered_notice_def inbox_row_of_def
      revised_db_def empty_orch_db_def text_simps)

lemma revised_delivered: "delivered_before (go_runtime delivery_agent) delivered_notice revised_project"
proof -
  let ?p = revised_project
  have fields: "pj_active_proposal ?p = Some 1" "pj_messages ?p = [sample_message]" "pj_effects ?p = [sample_effect]"
    "pj_deployments ?p = [sample_deployment]" "pj_batches ?p = [sample_batch]" "pj_active_batch_id ?p = Some ''batch-1''"
    "pj_proposals ?p = [sample_proposal]" "pj_open_questions ?p = []" "pj_project_id ?p = ''project-1''"
    by (simp_all add: revised_project_def sample_project_def)
  have mail: "mg_direction sample_message = Outbound" "mg_purpose sample_message = FinalDelivery" "mg_provider sample_message = ''resend''"
    "mg_delivery_status sample_message = MailDelivered" "mg_provider_message_id sample_message = Some ''mail-1''"
    "ef_type sample_effect = SendFinalDelivery" "ef_status sample_effect = EffectCompleted"
    "ef_provider_id sample_effect = Some ''mail-1''"
    by (simp_all add: sample_message_def sample_effect_def)
  have notice: "dn_status delivered_notice = NoticeDelivered" "dn_message_id delivered_notice = ''mail-1''"
    by (simp_all add: delivered_notice_def)
  have batch: "bb_batch_id sample_batch = ''batch-1''" "bb_proposal_version sample_batch = 1" "pv_version sample_proposal = 1"
    "of_batch sample_batch sample_deployment"
    by (simp_all add: sample_batch_def sample_proposal_def of_batch_def) (simp_all add: sample_deployment_def sample_batch_def)
  have key: "final_key sample_runtime ?p sample_batch sample_deployment = ef_key sample_effect"
    by (simp add: final_key_def delivery_effect_key_def fields batch) (simp add: sample_deployment_def sample_effect_def sample_runtime_def)
  have nonempty: "truthy (Some (ef_key sample_effect)) = Some (ef_key sample_effect)" by (simp add: truthy_def sample_effect_def)
  have "activeRequiredMailEffect sample_runtime ?p sample_message = Some sample_effect"
    by (simp add: activeRequiredMailEffect_def batch_mail_effect_def stored_batch_def findExact_def fields mail batch key nonempty
        required_purposes_def)
  then show ?thesis
    by (simp add: delivered_before_def notices_of_def stored_batch_def stored_proposal_def terminalizesReconciliation_def
        fields mail notice batch)
qed

lemma revised_facts:
  "pj_status revised_project = RevisionPending" "safe_nat (Suc (pj_revision revised_project))"
  "hasUnresolvedInboundMailEnvelope ''project-1'' revised_db = Inr False"
  "pending_login sample_runtime revised_project = None"
  by (simp_all add: revised_project_def sample_project_def hasUnresolvedInboundMailEnvelope_def check_input_def
      revised_db_def empty_orch_db_def text_simps pending_login_def latestDashboardLoginMailEffect_def dashboardLoginMailEffects_def
      sample_effect_def)

lemma revised_project_completes:
  "\<exists>q s'. recordMailDelivery delivery_agent sample_world delivered_notice revised_start = (Inr q, s')"
  by (rule repeated_notice_completes [OF delivery_sound revised_reads revised_delivered _ revised_project_ok' revised_unseen])
    (use revised_facts in auto)



text \<open>C39. A late notice buries a revision.  When the customer of a completed project writes again the project waits
  for the revision, and its messages are kept until they are applied.  A second delivered notice for the
  same final mail (the webhook after the reconciliation, or a repeated webhook) puts the project back to
  completed, and from then on reconciliation leaves it alone, whatever its walks would do: the revision is on
  record and nobody works on it.\<close>

theorem late_notice_buries_revision:
  assumes "sound_store A W" and "reads A W (dn_project_id n) p (awaited W s)" and "delivered_before (go_runtime A) n p"
    and "pj_status p = RevisionPending" and "ProjectAggregate_ok (go_runtime A) (p\<lparr>pj_status := ProjectCompleted\<rparr>)"
    and "unseen (gs_db (awaited W s)) (Some (notice_inbox n))" and "safe_nat (Suc (pj_revision p))"
    and "hasUnresolvedInboundMailEnvelope (dn_project_id n) (gs_db (awaited W s)) = Inr False"
    and "pending_login (go_runtime A) p = None"
  shows "\<exists>q s'. recordMailDelivery A W n s = (Inr q, s') \<and> pj_status q = ProjectCompleted
    \<and> pj_messages q = pj_messages p \<and> reads A W (dn_project_id n) q s'
    \<and> (\<forall>deliverLogin once. reconcileProject A W deliverLogin once (dn_project_id n) s' = (Inr q, s'))"
proof -
  let ?q = "saved W (awaited W s) (p\<lparr>pj_status := ProjectCompleted\<rparr>)"
  have st: "pj_status p \<noteq> ProjectCompleted" by (simp add: assms(4))
  obtain s' where s': "recordMailDelivery A W n s = (Inr ?q, s')" "reads A W (dn_project_id n) ?q s'"
    "od_envelopes (gs_db s') = od_envelopes (gs_db (awaited W s))"
    by (rule repeated_notice_completes [OF assms(1-3) st assms(5-7)])
  have "hasUnresolvedInboundMailEnvelope (dn_project_id n) (gs_db s') = Inr False"
    using assms(8) s'(3) by (simp add: hasUnresolvedInboundMailEnvelope_def)
  moreover have "pending_login (go_runtime A) ?q = None"
    using assms(9) by (simp add: pending_login_def latestDashboardLoginMailEffect_def dashboardLoginMailEffects_def saved_def)
  ultimately have "reconcileProject A W deliverLogin once (dn_project_id n) s' = (Inr ?q, s')" for deliverLogin once
    using requireProject_reads [OF s'(2)] by (intro settled_is_left_alone) (simp_all add: settled_statuses_def)
  then show ?thesis using s'(1,2) by (intro exI [of _ ?q] exI [of _ s'] conjI) (simp_all add: saved_def)
qed

lemma late_notice_buries_revision_witness:
  "\<exists>q s'. recordMailDelivery delivery_agent sample_world delivered_notice revised_start = (Inr q, s') \<and> pj_status q = ProjectCompleted
    \<and> (\<forall>deliverLogin once. reconcileProject delivery_agent sample_world deliverLogin once ''project-1'' s' = (Inr q, s'))"
  using late_notice_buries_revision [OF delivery_sound revised_reads revised_delivered _ revised_project_ok' revised_unseen]
  by (simp add: revised_facts) blast

end
