(* ===== verification/Agent_Payment.thy ===== *)
theory Agent_Payment
  imports Agent_Mail
begin

text \<open>
  \<open>orchestration-agent.ts\<close>, payment: how a settlement is checked against the proposal a customer was quoted,
  how it is recorded, and the two ways one is learnt of: the signed webhook and the reconciliation of the
  checkout with the payment provider.  What the agent does after a payment, and the creation of another
  checkout, are arguments of these two.
\<close>

record paid_webhook =
  wh_event_id :: string
  wh_created_at :: string
  wh_livemode :: bool
  wh_session :: provider_checkout

record verified_payment =
  vs_checkout :: provider_checkout
  vs_settlement :: settlement
  vs_json :: jsval

record payment_evidence =
  ev_event_id :: string
  ev_digest :: string
  ev_reconciliation_key :: "string option"
  ev_inbox_digest :: "string option"
  ev_signed_digest :: "string option"
  ev_source :: verification_source
  ev_signature :: bool
  ev_paid_at :: string

subsection \<open>Keys\<close>

definition checkoutEffectKey :: "runtime \<Rightarrow> string \<Rightarrow> nat \<Rightarrow> nat \<Rightarrow> string" where
  "checkoutEffectKey R projectId version attempt =
     (let base = versioned_key R ''checkout:create:'' projectId version in
      if attempt = 1 then base else base @ '':attempt:'' @ number_text R attempt)"

definition paymentReconciliationEffectKey :: "runtime \<Rightarrow> string \<Rightarrow> nat \<Rightarrow> string \<Rightarrow> string" where
  "paymentReconciliationEffectKey R projectId version sessionId =
     versioned_key R ''payment:reconcile:'' projectId version @ '':'' @ sessionId"

definition opt_text :: "string option \<Rightarrow> jsval" where
  "opt_text v = (case v of None \<Rightarrow> JNull | Some s \<Rightarrow> JString s)"

definition evidence_json :: "agent_options \<Rightarrow> verified_payment \<Rightarrow> jsval" where
  "evidence_json A v =
     (let s = vs_settlement v in
      JObject [(''source'', JString ''stripe_authoritative_checkout_and_payment_intent''),
        (''checkoutSessionId'', JString (co_session_id (vs_checkout v))), (''paymentIntentId'', JString (se_payment_intent_id s)),
        (''projectId'', JString (se_project_id s)), (''proposalId'', JString (se_proposal_id s)),
        (''proposalVersion'', JNumber (of_nat (se_proposal_version s))), (''proposalDigest'', JString (se_proposal_digest s)),
        (''amountMinor'', JNumber (of_nat (se_amount_minor s))),
        (''amountReceivedMinor'', JNumber (of_nat (se_amount_received_minor s))), (''currency'', JString (se_currency s)),
        (''customerEmailDigest'', JString (rt_sha256 (go_runtime A) (normalizeEmail A (se_customer_email s)))),
        (''customerId'', opt_text (se_customer_id s)), (''livemode'', JBool (se_livemode s)),
        (''checkoutStatus'', JString ''complete''), (''paymentStatus'', JString ''paid''),
        (''paymentIntentStatus'', JString ''succeeded''), (''paymentIntentCreatedAt'', JString (se_intent_created_at s))])"

definition verifiedStripeEvidenceDigest :: "agent_options \<Rightarrow> verified_payment \<Rightarrow> agent_error + string" where
  "verifiedStripeEvidenceDigest A v = json_digest (go_runtime A) (evidence_json A v)"

subsection \<open>Checking a settlement\<close>

definition customer_email :: "agent_options \<Rightarrow> project \<Rightarrow> string" where
  "customer_email A p = normalizeEmail A (case cp_email (pj_customer p) of None \<Rightarrow> [] | Some e \<Rightarrow> ct_value e)"

definition checkout_bound_to :: "agent_options \<Rightarrow> provider_checkout \<Rightarrow> string \<Rightarrow> project \<Rightarrow> proposal_version \<Rightarrow> bool" where
  "checkout_bound_to A c sessionId p q \<longleftrightarrow> co_livemode c = go_livemode A \<and> co_session_id c = sessionId
     \<and> co_project_id c = Some (pj_project_id p) \<and> co_proposal_id c = Some (pv_proposal_id q)
     \<and> co_proposal_version c = Some (pv_version q) \<and> co_proposal_digest c = Some (pv_digest q)
     \<and> co_amount_minor c = Some (mq_amount_minor (pv_quote q)) \<and> co_currency c = Some (mq_currency (pv_quote q))
     \<and> co_payment_status c \<noteq> NoPaymentRequired
     \<and> normalizeEmail A (case co_customer_email c of None \<Rightarrow> [] | Some e \<Rightarrow> e) = customer_email A p"

definition validateReconciledCheckoutBinding ::
  "agent_options \<Rightarrow> provider_checkout \<Rightarrow> string \<Rightarrow> project \<Rightarrow> proposal_version \<Rightarrow> unit agent" where
  "validateReconciledCheckoutBinding A c sessionId p q =
     am_require (checkout_bound_to A c sessionId p q)
       ''Stripe Checkout reconciliation does not match the current customer proposal''"

definition validatePaidCheckout ::
  "agent_options \<Rightarrow> provider_checkout \<Rightarrow> project \<Rightarrow> proposal_version \<Rightarrow> string \<Rightarrow> paid_webhook option \<Rightarrow> unit agent" where
  "validatePaidCheckout A c p q sessionId event =
     am_then (validateReconciledCheckoutBinding A c sessionId p q)
     (am_require (opt_all (\<lambda>e. wh_livemode e = go_livemode A \<and> co_session_id c = co_session_id (wh_session e)) event
        \<and> co_status c = CheckoutComplete \<and> co_payment_status c = ProviderPaid \<and> truthy (co_payment_intent_id c) \<noteq> None)
      ''Stripe payment does not match the current proposal, amount, currency, and mode'')"

definition validateCreatedCheckout :: "agent_options \<Rightarrow> provider_checkout \<Rightarrow> project \<Rightarrow> proposal_version \<Rightarrow> unit agent" where
  "validateCreatedCheckout A c p q =
     am_require (co_livemode c = go_livemode A \<and> co_status c = CheckoutOpen \<and> co_payment_status c = ProviderUnpaid
        \<and> truthy (co_url c) \<noteq> None \<and> co_project_id c = Some (pj_project_id p) \<and> co_proposal_id c = Some (pv_proposal_id q)
        \<and> co_proposal_version c = Some (pv_version q) \<and> co_proposal_digest c = Some (pv_digest q)
        \<and> co_amount_minor c = Some (mq_amount_minor (pv_quote q)) \<and> co_currency c = Some (mq_currency (pv_quote q))
        \<and> normalizeEmail A (case co_customer_email c of None \<Rightarrow> [] | Some e \<Rightarrow> e) = customer_email A p)
      ''Stripe Checkout Session does not match the exact proposal''"

definition settlement_exact ::
  "agent_options \<Rightarrow> settlement \<Rightarrow> provider_checkout \<Rightarrow> string \<Rightarrow> project \<Rightarrow> proposal_version \<Rightarrow> bool" where
  "settlement_exact A s c intent p q \<longleftrightarrow> se_checkout_session_id s = co_session_id c \<and> se_payment_intent_id s = intent
     \<and> se_project_id s = pj_project_id p \<and> se_proposal_id s = pv_proposal_id q \<and> se_proposal_version s = pv_version q
     \<and> se_proposal_digest s = pv_digest q \<and> se_amount_minor s = mq_amount_minor (pv_quote q)
     \<and> se_amount_received_minor s = mq_amount_minor (pv_quote q) \<and> se_currency s = mq_currency (pv_quote q)
     \<and> normalizeEmail A (se_customer_email s) = customer_email A p \<and> se_livemode s = go_livemode A"

definition verifyStripeSettlement ::
  "agent_options \<Rightarrow> agent_world \<Rightarrow> project \<Rightarrow> proposal_version \<Rightarrow> string \<Rightarrow> paid_webhook option
    \<Rightarrow> (provider_checkout \<times> jsval) option \<Rightarrow> verified_payment agent" where
  "verifyStripeSettlement A W p q sessionId event known =
     am_bind (case known of None \<Rightarrow> am_await W (gw_checkout W) | Some c \<Rightarrow> am_return c) (\<lambda>(c, printed).
     am_then (validatePaidCheckout A c p q sessionId event)
     (am_bind (am_the ''Paid Checkout Session has no PaymentIntent'' (truthy (co_payment_intent_id c))) (\<lambda>intent.
      am_bind (am_lift (the_or (ScriptError ''TypeError'') (cp_email (pj_customer p)))) (\<lambda>_.
      am_bind (am_await W (gw_settlement W)) (\<lambda>(s, printed').
      am_then (am_require (settlement_exact A s c intent p q)
        ''Verified Stripe settlement does not match the exact customer proposal'')
      (am_return \<lparr>vs_checkout = c, vs_settlement = s,
         vs_json = JObject [(''checkout'', printed), (''settlement'', printed')]\<rparr>))))))"

subsection \<open>Recording a payment\<close>

definition paid_checkout :: "string \<Rightarrow> checkout_session \<Rightarrow> checkout_session" where
  "paid_checkout now c = c\<lparr>ck_status := CheckoutComplete, ck_updated_at := now\<rparr>"

definition payment_receipt_of ::
  "agent_options \<Rightarrow> project \<Rightarrow> proposal_version \<Rightarrow> verified_payment \<Rightarrow> string \<Rightarrow> payment_evidence \<Rightarrow> string \<Rightarrow> payment_receipt" where
  "payment_receipt_of A p q v intent e now =
     (let R = go_runtime A; s = vs_settlement v in
      \<lparr>pm_receipt_id = ''payment:'' @ take 24 (rt_sha256 R (ev_event_id e)), pm_provider_event_id = ev_event_id e,
       pm_provider_evidence_digest = ev_digest e, pm_checkout_session_id = co_session_id (vs_checkout v),
       pm_payment_intent_id = intent, pm_project_id = pj_project_id p, pm_proposal_id = pv_proposal_id q,
       pm_proposal_version = pv_version q, pm_proposal_digest = pv_digest q, pm_amount_minor = mq_amount_minor (pv_quote q),
       pm_amount_received_minor = se_amount_received_minor s, pm_currency = mq_currency (pv_quote q),
       pm_customer_email_digest = rt_sha256 R (normalizeEmail A (se_customer_email s)), pm_customer_id = se_customer_id s,
       pm_intent_created_at = se_intent_created_at s, pm_verification_source = ev_source e,
       pm_signature_verified = ev_signature e, pm_signed_event_digest = truthy (ev_signed_digest e),
       pm_paid_at = ev_paid_at e, pm_verified_at = now, pm_livemode = co_livemode (vs_checkout v)\<rparr>)"

definition stale_payment_error :: "runtime \<Rightarrow> string \<Rightarrow> string \<Rightarrow> orchestration_error" where
  "stale_payment_error R sessionId now =
     \<lparr>oe_error_id = ''payment-stale:'' @ take 24 (rt_sha256 R sessionId), oe_code = ''payment.stale_proposal_settled'',
      oe_category = PermanentError,
      oe_message = ''Stripe settled a superseded proposal; building is fenced pending commercial resolution'',
      oe_retryable = False, oe_effect_key = None, oe_occurred_at = now\<rparr>"

definition payment_event :: "project \<Rightarrow> project \<Rightarrow> proposal_version \<Rightarrow> payment_receipt \<Rightarrow> payment_evidence \<Rightarrow> bool \<Rightarrow> event_input" where
  "payment_event p changed q y e authorize =
     event_of (if authorize then ''payment.verified'' else ''payment.stale_proposal_settled'') ActorProvider
       (no_payload\<lparr>ep_previous_status := Some (pj_status p), ep_status := Some (pj_status changed),
          ep_proposal_version := Some (pv_version q), ep_proposal_digest := Some (pv_digest q),
          ep_payment_receipt_id := Some (pm_receipt_id y), ep_provider := Some ''stripe'',
          ep_provider_event_digest := Some (ev_digest e),
          ep_error_code := (if authorize then None else Some ''payment.stale_proposal_settled'')\<rparr>)"

definition evidence_inbox :: "payment_evidence \<Rightarrow> inbox_event option" where
  "evidence_inbox e = (if ev_signature e
     then Some \<lparr>xe_provider = ''stripe'', xe_event_id = ev_event_id e,
       xe_digest = (case ev_inbox_digest e of None \<Rightarrow> [] | Some d \<Rightarrow> d)\<rparr> else None)"

definition settle_effect ::
  "agent_options \<Rightarrow> agent_world \<Rightarrow> verified_payment \<Rightarrow> payment_evidence \<Rightarrow> project \<Rightarrow> project agent" where
  "settle_effect A W v e p =
     (case truthy (ev_reconciliation_key e) of
        None \<Rightarrow> am_return p
      | Some key \<Rightarrow> am_bind (timestamp A W) (\<lambda>now.
          am_lift (completeEffect (go_runtime A) key (co_session_id (vs_checkout v)) (vs_json v) now p)))"

definition authorize_payment ::
  "agent_options \<Rightarrow> agent_world \<Rightarrow> verified_payment \<Rightarrow> proposal_version \<Rightarrow> bool \<Rightarrow> project \<Rightarrow> project agent" where
  "authorize_payment A W v q authorize p =
     (if authorize then am_return (p\<lparr>pj_paid_proposal := Some (pv_version q), pj_status := Paid\<rparr>)
      else am_bind (timestamp A W) (\<lambda>now.
        am_return ((note_error (stale_payment_error (go_runtime A) (co_session_id (vs_checkout v)) now) p)
          \<lparr>pj_status := NeedsOperatorAttention\<rparr>)))"

definition persistVerifiedPayment ::
  "agent_options \<Rightarrow> agent_world \<Rightarrow> project \<Rightarrow> proposal_version \<Rightarrow> verified_payment \<Rightarrow> payment_evidence \<Rightarrow> bool \<Rightarrow> project agent" where
  "persistVerifiedPayment A W p q v e authorize =
     (let sessionId = co_session_id (vs_checkout v) in
      case (find (\<lambda>c. ck_session_id c = sessionId) (pj_checkouts p), truthy (co_payment_intent_id (vs_checkout v))) of
        (Some _, Some intent) \<Rightarrow>
          am_bind (timestamp A W) (\<lambda>now.
          am_bind (timestamp A W) (\<lambda>verified.
          let y = payment_receipt_of A p q v intent e verified in
          am_bind (settle_effect A W v e (p\<lparr>pj_checkouts := update_first (\<lambda>c. ck_session_id c = sessionId) (paid_checkout now)
              (pj_checkouts p), pj_payments := pj_payments p @ [y]\<rparr>)) (\<lambda>settled.
          am_bind (authorize_payment A W v q authorize settled) (\<lambda>changed.
          save_project A W changed (payment_event p changed q y e authorize) (evidence_inbox e) None))))
      | _ \<Rightarrow> am_throw (PolicyViolation ''Verified Stripe settlement lacks its stored Checkout identity''))"

subsection \<open>The signed webhook\<close>

definition known_payment :: "project \<Rightarrow> provider_checkout \<Rightarrow> payment_receipt option" where
  "known_payment p c = find (\<lambda>y. pm_checkout_session_id y = co_session_id c
     \<or> (case co_payment_intent_id c of None \<Rightarrow> False | Some i \<Rightarrow> pm_payment_intent_id y = i)) (pj_payments p)"

definition exact_proposal :: "project \<Rightarrow> nat \<Rightarrow> string \<Rightarrow> proposal_version option" where
  "exact_proposal p version digest = find (\<lambda>q. pv_version q = version \<and> pv_digest q = digest) (pj_proposals p)"

definition activeProposal :: "project \<Rightarrow> agent_error + proposal_version" where
  "activeProposal p = the_or (PolicyViolation ''Project has no active proposal version'') (stored_proposal p)"

definition webhook_evidence :: "paid_webhook \<Rightarrow> string \<Rightarrow> string \<Rightarrow> payment_evidence" where
  "webhook_evidence w eventDigest digest =
     \<lparr>ev_event_id = wh_event_id w, ev_digest = digest, ev_reconciliation_key = None, ev_inbox_digest = Some eventDigest,
      ev_signed_digest = Some eventDigest, ev_source = SignedWebhook, ev_signature = True, ev_paid_at = wh_created_at w\<rparr>"

definition confirm_again ::
  "agent_options \<Rightarrow> agent_world \<Rightarrow> (project \<Rightarrow> proposal_version \<Rightarrow> project agent) \<Rightarrow> paid_webhook \<Rightarrow> string \<Rightarrow> project
    \<Rightarrow> payment_receipt \<Rightarrow> project agent" where
  "confirm_again A W proceed w eventDigest p y =
     am_bind (am_the ''Stored payment has no exact proposal'' (exact_proposal p (pm_proposal_version y) (pm_proposal_digest y))) (\<lambda>q.
     am_then (verifyStripeSettlement A W p q (co_session_id (wh_session w)) (Some w) None)
     (am_then (am_store (\<lambda>k. recordInbox (gw_clock W k) \<lparr>xe_provider = ''stripe'', xe_event_id = wh_event_id w, xe_digest = eventDigest\<rparr>))
     (if pj_active_proposal p \<noteq> Some (pv_version q) then am_return p else proceed p q)))"

definition confirm_new ::
  "agent_options \<Rightarrow> agent_world \<Rightarrow> (project \<Rightarrow> proposal_version \<Rightarrow> project agent) \<Rightarrow> paid_webhook \<Rightarrow> string \<Rightarrow> project
    \<Rightarrow> project agent" where
  "confirm_new A W proceed w eventDigest p =
     (let sessionId = co_session_id (wh_session w) in
      am_bind (am_the ''Stripe payment references an unknown Checkout Session''
        (find (\<lambda>c. ck_session_id c = sessionId) (pj_checkouts p))) (\<lambda>c.
      am_bind (am_the ''Stored Checkout Session has no exact proposal''
        (exact_proposal p (ck_proposal_version c) (ck_proposal_digest c))) (\<lambda>q.
      am_bind (am_lift (activeProposal p)) (\<lambda>current.
      let settlesCurrent = (pv_version current = pv_version q \<and> pv_digest current = pv_digest q) in
      am_then (am_require (settlesCurrent \<longrightarrow> pj_status p \<in> {AwaitingPayment, AwaitingCustomerRevision})
        ''A new payment can only settle the current proposal while payment or a pre-payment edit is pending'')
      (am_bind (verifyStripeSettlement A W p q sessionId (Some w) None) (\<lambda>v.
       am_bind (am_lift (verifiedStripeEvidenceDigest A v)) (\<lambda>digest.
       am_bind (persistVerifiedPayment A W p q v (webhook_evidence w eventDigest digest) settlesCurrent) (\<lambda>saved.
       if settlesCurrent then proceed saved q else am_return saved))))))))"

definition confirmPayment ::
  "agent_options \<Rightarrow> agent_world \<Rightarrow> (project \<Rightarrow> proposal_version \<Rightarrow> project agent) \<Rightarrow> paid_webhook \<Rightarrow> string \<Rightarrow> project agent" where
  "confirmPayment A W proceed w eventDigest =
     am_bind (am_the ''Stripe event is missing its project binding'' (truthy (co_project_id (wh_session w)))) (\<lambda>projectId.
     am_bind (requireProject A projectId) (\<lambda>p.
     am_then (assertNoUnresolvedInboundMail projectId)
     (runWithEffectFailure A W projectId
       (case known_payment p (wh_session w) of
          Some y \<Rightarrow> confirm_again A W proceed w eventDigest p y
        | None \<Rightarrow> confirm_new A W proceed w eventDigest p))))"

subsection \<open>Reconciling a checkout with the provider\<close>

definition queue_reconciliation ::
  "agent_options \<Rightarrow> agent_world \<Rightarrow> project \<Rightarrow> proposal_version \<Rightarrow> checkout_session \<Rightarrow> string \<Rightarrow> project agent" where
  "queue_reconciliation A W p q c key =
     (if list_ex (\<lambda>e. ef_key e = key) (pj_effects p) then am_return p
      else am_bind (timestamp A W) (\<lambda>now.
        am_bind (am_lift (addPendingEffect (go_runtime A) key ReconcilePayment
          (JObject [(''checkoutSessionId'', JString (ck_session_id c)), (''proposalDigest'', JString (pv_digest q)),
             (''amountMinor'', JNumber (of_nat (mq_amount_minor (pv_quote q)))),
             (''currency'', JString (mq_currency (pv_quote q)))]) now None p)) (\<lambda>queued.
        save_project A W queued (event_of ''payment.reconciliation_queued'' ActorSystem
          (no_payload\<lparr>ep_status := Some (pj_status p), ep_proposal_version := Some (pv_version q),
             ep_proposal_digest := Some (pv_digest q), ep_effect_key := Some key, ep_effect_type := Some ReconcilePayment,
             ep_correlation_id := Some (ck_session_id c)\<rparr>)) None None)))"

definition expirationKey :: "runtime \<Rightarrow> project \<Rightarrow> proposal_version \<Rightarrow> string" where
  "expirationKey R p q = versioned_key R ''checkout:expire:'' (pj_project_id p) (pv_version q)"

definition recoversExpirationMutation :: "runtime \<Rightarrow> project \<Rightarrow> proposal_version \<Rightarrow> provider_checkout \<Rightarrow> bool" where
  "recoversExpirationMutation R p q c \<longleftrightarrow> co_status c = CheckoutExpired
     \<and> list_ex (\<lambda>e. ef_key e = expirationKey R p q \<and> ef_type e = ExpireCheckoutSession \<and> ef_status e = EffectPending)
         (pj_effects p)"

definition recoveredProviderRead :: "durable_effect \<Rightarrow> bool" where
  "recoveredProviderRead e \<longleftrightarrow> 1 < ef_attempts e \<or> ef_error e \<noteq> None \<or> ef_next_attempt_at e \<noteq> None"

definition answered :: "string \<Rightarrow> durable_effect \<Rightarrow> durable_effect" where
  "answered now e = e\<lparr>ef_attempts := 1, ef_updated_at := now, ef_error := None, ef_next_attempt_at := None,
     ef_next_check_at := None\<rparr>"

definition reconciled_effects ::
  "agent_options \<Rightarrow> agent_world \<Rightarrow> proposal_version \<Rightarrow> provider_checkout \<Rightarrow> jsval \<Rightarrow> string \<Rightarrow> bool \<Rightarrow> project \<Rightarrow> project agent" where
  "reconciled_effects A W q c printed key recovers p =
     (if co_status c = CheckoutExpired
      then am_bind (timestamp A W) (\<lambda>now.
        am_bind (am_lift (completeEffect (go_runtime A) key (co_session_id c) printed now p)) (\<lambda>p1.
        if recovers
        then am_bind (timestamp A W) (\<lambda>now'.
          am_lift (completeEffect (go_runtime A) (expirationKey (go_runtime A) p q) (co_session_id c) printed now' p1))
        else am_return p1))
      else am_bind (am_lift (requireEffect p key)) (\<lambda>_.
        am_bind (timestamp A W) (\<lambda>now. am_return (change_effect key (answered now) p))))"

definition queue_replacement ::
  "agent_options \<Rightarrow> agent_world \<Rightarrow> proposal_version \<Rightarrow> string \<Rightarrow> bool \<Rightarrow> project \<Rightarrow> project agent" where
  "queue_replacement A W q key wanted p =
     (if wanted then am_bind (timestamp A W) (\<lambda>now.
        am_lift (addPendingEffect (go_runtime A) key CreateCheckoutSession
          (JObject [(''proposalDigest'', JString (pv_digest q)), (''amountMinor'', JNumber (of_nat (mq_amount_minor (pv_quote q)))),
             (''currency'', JString (mq_currency (pv_quote q)))]) now None p))
      else am_return p)"

definition unpaid_event ::
  "runtime \<Rightarrow> project \<Rightarrow> proposal_version \<Rightarrow> provider_checkout \<Rightarrow> bool \<Rightarrow> (string \<times> nat) option \<Rightarrow> event_input" where
  "unpaid_event R p q c recovers replacement =
     event_of (if recovers then ''checkout.expiration_recovered'' else ''checkout.state_reconciled'') ActorProvider
       (let base = no_payload\<lparr>ep_status := Some (pj_status p), ep_proposal_version := Some (pv_version q),
             ep_proposal_digest := Some (pv_digest q), ep_correlation_id := Some (co_session_id c)\<rparr> in
        if recovers then base\<lparr>ep_effect_key := Some (expirationKey R p q), ep_effect_type := Some ExpireCheckoutSession\<rparr>
        else case replacement of
            None \<Rightarrow> base
          | Some (key, attempt) \<Rightarrow> base\<lparr>ep_effect_key := Some key, ep_effect_type := Some CreateCheckoutSession,
              ep_attempt := Some attempt\<rparr>)"

definition note_unpaid ::
  "agent_options \<Rightarrow> agent_world \<Rightarrow> project \<Rightarrow> proposal_version \<Rightarrow> checkout_session \<Rightarrow> provider_checkout \<Rightarrow> jsval \<Rightarrow> string
    \<Rightarrow> project agent" where
  "note_unpaid A W p q stored c printed key =
     (let R = go_runtime A; attempt = Suc (length (proposal_checkouts p q));
          replacement = checkoutEffectKey R (pj_project_id p) (pv_version q) attempt;
          wanted = (co_status c = CheckoutExpired \<and> \<not> list_ex (\<lambda>e. ef_key e = replacement) (pj_effects p));
          recovers = recoversExpirationMutation R p q c in
      am_bind (am_lift (requireEffect p key)) (\<lambda>e.
      if ck_status stored \<noteq> co_status c \<or> wanted \<or> recoveredProviderRead e \<or> co_status c = CheckoutExpired \<or> recovers
      then am_bind (timestamp A W) (\<lambda>now.
        am_bind (reconciled_effects A W q c printed key recovers
          (p\<lparr>pj_checkouts := update_first (\<lambda>x. ck_session_id x = co_session_id c)
             (\<lambda>x. x\<lparr>ck_status := co_status c, ck_updated_at := now\<rparr>) (pj_checkouts p)\<rparr>)) (\<lambda>p1.
        am_bind (queue_replacement A W q replacement wanted p1) (\<lambda>changed.
        save_project A W changed (unpaid_event R p q c recovers (if wanted then Some (replacement, attempt) else None))
          None None)))
      else am_return p))"

definition reconcile_unpaid ::
  "agent_options \<Rightarrow> agent_world \<Rightarrow> (project \<Rightarrow> proposal_version \<Rightarrow> project agent) \<Rightarrow> bool \<Rightarrow> project \<Rightarrow> proposal_version
    \<Rightarrow> checkout_session \<Rightarrow> provider_checkout \<Rightarrow> jsval \<Rightarrow> string \<Rightarrow> project agent" where
  "reconcile_unpaid A W checkout refresh p q stored c printed key =
     am_bind (note_unpaid A W p q stored c printed key) (\<lambda>p1.
     am_bind (if co_status c = CheckoutExpired then am_return p1
       else scheduleProviderRecheck A W p1 key ''payment.reconciliation_pending'') (\<lambda>saved.
     if \<not> refresh \<or> co_status c = CheckoutComplete then am_return saved else checkout saved q))"

definition provider_evidence ::
  "agent_options \<Rightarrow> verified_payment \<Rightarrow> string \<Rightarrow> string \<Rightarrow> string \<Rightarrow> payment_evidence" where
  "provider_evidence A v digest key now =
     \<lparr>ev_event_id = ''stripe-reconciliation:'' @ take 24 (rt_sha256 (go_runtime A)
        (co_session_id (vs_checkout v) @ [CHR 0x00] @ se_payment_intent_id (vs_settlement v))),
      ev_digest = digest, ev_reconciliation_key = Some key, ev_inbox_digest = None, ev_signed_digest = None,
      ev_source = ProviderApi, ev_signature = False, ev_paid_at = now\<rparr>"

definition settle_paid ::
  "agent_options \<Rightarrow> agent_world \<Rightarrow> project \<Rightarrow> proposal_version \<Rightarrow> string \<Rightarrow> provider_checkout \<times> jsval \<Rightarrow> string \<Rightarrow> project agent" where
  "settle_paid A W p q sessionId known key =
     am_bind (verifyStripeSettlement A W p q sessionId None (Some known)) (\<lambda>v.
     am_bind (am_lift (verifiedStripeEvidenceDigest A v)) (\<lambda>digest.
     am_bind (timestamp A W) (\<lambda>now.
     persistVerifiedPayment A W p q v (provider_evidence A v digest key now) True)))"

text \<open>\<open>None\<close> when the proposal has no checkout.\<close>

definition reconcileAwaitingPayment ::
  "agent_options \<Rightarrow> agent_world \<Rightarrow> (project \<Rightarrow> proposal_version \<Rightarrow> project agent)
    \<Rightarrow> (project \<Rightarrow> proposal_version \<Rightarrow> project agent) \<Rightarrow> project \<Rightarrow> proposal_version \<Rightarrow> bool \<Rightarrow> project option agent" where
  "reconcileAwaitingPayment A W proceed checkout initial q refresh =
     (if proposal_checkouts initial q = [] then am_return None
      else let stored = last (proposal_checkouts initial q); sessionId = ck_session_id stored;
               key = paymentReconciliationEffectKey (go_runtime A) (pj_project_id initial) (pv_version q) sessionId in
        am_bind (queue_reconciliation A W initial q stored key) (\<lambda>queued.
        am_bind (beginProviderCheck A W queued key) (\<lambda>(p, deferred).
        if deferred then am_return (Some p)
        else am_then (markEffectAttempt key)
         (am_bind (am_await W (gw_checkout W)) (\<lambda>(c, printed).
          am_then (validateReconciledCheckoutBinding A c sessionId p q)
          (am_bind (if co_payment_status c \<noteq> ProviderPaid
             then reconcile_unpaid A W checkout refresh p q stored c printed key
             else am_bind (settle_paid A W p q sessionId (c, printed) key) (\<lambda>saved. proceed saved q))
           (\<lambda>r. am_return (Some r))))))))"

end
