(* ===== verification/Agent_Payment_Properties.thy ===== *)
theory Agent_Payment_Properties
  imports Agent_Payment Agent_Mail_Properties
begin

text \<open>
  A payment is on record only when the payment provider itself, asked by the agent, reported the exact
  settlement of a proposal this customer was quoted; what a webhook claims about amounts is never used.
\<close>

subsection \<open>What the provider said\<close>

lemma am_await_Inr: "am_await W port s = (Inr x, s') \<Longrightarrow> port (gs_step s) = Inr x"
  by (simp add: am_await_def)

lemma verifyStripeSettlement_InrD:
  assumes "verifyStripeSettlement A W p q sessionId event known s = (Inr v, s')"
  obtains intent where "checkout_bound_to A (vs_checkout v) sessionId p q" "co_status (vs_checkout v) = CheckoutComplete"
    "co_payment_status (vs_checkout v) = ProviderPaid" "truthy (co_payment_intent_id (vs_checkout v)) = Some intent"
    "settlement_exact A (vs_settlement v) (vs_checkout v) intent p q" "\<exists>k j. gw_settlement W k = Inr (vs_settlement v, j)"
    "known = None \<longrightarrow> (\<exists>k j. gw_checkout W k = Inr (vs_checkout v, j))"
    "\<forall>c j. known = Some (c, j) \<longrightarrow> vs_checkout v = c"
proof -
  obtain c j s1 where c: "(case known of None \<Rightarrow> am_await W (gw_checkout W) | Some c \<Rightarrow> am_return c) s = (Inr (c, j), s1)"
    and rest: "am_then (validatePaidCheckout A c p q sessionId event)
     (am_bind (am_the ''Paid Checkout Session has no PaymentIntent'' (truthy (co_payment_intent_id c))) (\<lambda>intent.
      am_bind (am_lift (the_or (ScriptError ''TypeError'') (cp_email (pj_customer p)))) (\<lambda>_.
      am_bind (am_await W (gw_settlement W)) (\<lambda>(s, printed').
      am_then (am_require (settlement_exact A s c intent p q)
        ''Verified Stripe settlement does not match the exact customer proposal'')
      (am_return \<lparr>vs_checkout = c, vs_settlement = s,
         vs_json = JObject [(''checkout'', j), (''settlement'', printed')]\<rparr>))))) s1 = (Inr v, s')"
    using assms by (auto simp: verifyStripeSettlement_def am_bind_Inr)
  from rest obtain intent e k j' where r: "checkout_bound_to A c sessionId p q" "co_status c = CheckoutComplete"
    "co_payment_status c = ProviderPaid" "truthy (co_payment_intent_id c) = Some intent"
    "gw_settlement W k = Inr (e, j')" "settlement_exact A e c intent p q" "vs_checkout v = c" "vs_settlement v = e"
    by (auto simp: am_then_def am_bind_Inr validatePaidCheckout_def validateReconciledCheckoutBinding_def am_require_Inr
        am_the_Inr dest!: am_await_Inr)
  have "gw_checkout W (gs_step s) = Inr (c, j)" if "known = None"
    using c that am_await_Inr [of W "gw_checkout W" s "(c, j)" s1] by simp
  then have "known = None \<longrightarrow> (\<exists>k j. gw_checkout W k = Inr (c, j))" by blast
  moreover have "\<forall>c' j'. known = Some (c', j') \<longrightarrow> c = c'" using c by auto
  ultimately show ?thesis using that [of intent] r by blast
qed

subsection \<open>What is recorded\<close>

lemma save_answers:
  assumes "save_project A W q e inbox None s = (Inr q', s')"
  shows "pj_payments q' = pj_payments q \<and> pj_status q' = pj_status q \<and> pj_paid_proposal q' = pj_paid_proposal q
    \<or> (\<exists>x. inbox = Some x \<and> inbox_row_of (gs_db s') (xe_provider x) (xe_event_id x) \<noteq> None
        \<and> getProject (go_runtime A) (go_vault A) (pj_project_id q) (gs_db s') = Inr (Some q'))"
proof -
  let ?R = "go_runtime A" and ?V = "go_vault A" and ?k = "gs_step s"
  have w: "saveProject ?R ?V (gw_clock W ?k) (gw_uuid W ?k) (gw_nonce W ?k) q (pj_revision q) e inbox None (gs_db s)
      = Inr (q', gs_db s')"
    using assms by (auto simp: save_project_def Let_def am_then_def am_bind_Inr am_require_Inr am_store_Inr)
  from w have oid: "orchestration_id (pj_project_id q)"
    by (auto simp: saveProject_def bind_ok_Inr check_input_Inr ProjectAggregate_ok_def project_shape_def)
  from w obtain row acc where row: "project_row_of (gs_db s) (pj_project_id q) = Some row"
    and acc: "accept_inbox (gw_clock W ?k 1) inbox False (gs_db s) = Inr acc"
    and out: "(case acc of None \<Rightarrow> bind_ok (rowToProject ?R ?V row) (\<lambda>current. Inr (current, gs_db s))
      | Some db2 \<Rightarrow> write_project ?R ?V (gw_clock W ?k 2) (gw_uuid W ?k) (gw_nonce W ?k) q (pj_revision q) e row db2)
      = Inr (q', gs_db s')"
    unfolding saveProject_def consume_login_def by (auto simp: bind_ok_Inr the_or_Inr)
  show ?thesis
  proof (cases acc)
    case None
    then obtain x where x: "inbox = Some x" "inbox_row_of (gs_db s) (xe_provider x) (xe_event_id x) \<noteq> None"
      using acc by (auto simp: accept_inbox_def record_inbox_def bind_ok_Inr split: option.splits if_splits)
    have "rowToProject ?R ?V row = Inr q'" "gs_db s' = gs_db s" using out None by (auto simp: bind_ok_Inr)
    then show ?thesis using x row oid by (simp add: getProject_def check_input_def)
  next
    case (Some db2)
    then have "q' = next_project q row (gw_clock W ?k 2)" using out by (auto simp: write_project_def Let_def bind_ok_Inr)
    then show ?thesis by (simp add: next_project_def)
  qed
qed

lemma settle_effect_fields:
  assumes "settle_effect A W v e p s = (Inr q, s')"
  shows "pj_payments q = pj_payments p" "pj_paid_proposal q = pj_paid_proposal p" "pj_project_id q = pj_project_id p"
    "pj_status q = pj_status p"
  using assms
  by (auto simp: settle_effect_def am_bind_Inr timestamp_eq completeEffect_def bind_ok_Inr change_effect_def split: option.splits)

lemma persistVerifiedPayment_InrD:
  assumes "persistVerifiedPayment A W p q v e authorize s = (Inr q', s')"
  obtains intent now where "truthy (co_payment_intent_id (vs_checkout v)) = Some intent"
    "\<exists>c \<in> set (pj_checkouts p). ck_session_id c = co_session_id (vs_checkout v)"
    "pj_payments q' = pj_payments p @ [payment_receipt_of A p q v intent e now]
      \<and> (if authorize then pj_status q' = Paid \<and> pj_paid_proposal q' = Some (pv_version q)
         else pj_status q' = NeedsOperatorAttention \<and> pj_paid_proposal q' = pj_paid_proposal p)
     \<or> (\<exists>x. evidence_inbox e = Some x \<and> inbox_row_of (gs_db s') (xe_provider x) (xe_event_id x) \<noteq> None
        \<and> getProject (go_runtime A) (go_vault A) (pj_project_id p) (gs_db s') = Inr (Some q'))"
proof -
  let ?id = "co_session_id (vs_checkout v)"
  obtain c intent where c: "find (\<lambda>c. ck_session_id c = ?id) (pj_checkouts p) = Some c"
    "truthy (co_payment_intent_id (vs_checkout v)) = Some intent"
    using assms by (auto simp: persistVerifiedPayment_def Let_def split: option.splits)
  let ?now = "go_iso A (gw_now W (Suc (gs_step s)))"
  let ?y = "payment_receipt_of A p q v intent e ?now"
  obtain settled changed s1 s2 where st: "settle_effect A W v e (p\<lparr>pj_checkouts := update_first (\<lambda>c. ck_session_id c = ?id)
        (paid_checkout (go_iso A (gw_now W (gs_step s)))) (pj_checkouts p), pj_payments := pj_payments p @ [?y]\<rparr>)
      (s\<lparr>gs_step := Suc (Suc (gs_step s))\<rparr>) = (Inr settled, s1)"
    "authorize_payment A W v q authorize settled s1 = (Inr changed, s2)"
    "save_project A W changed (payment_event p changed q ?y e authorize) (evidence_inbox e) None s2 = (Inr q', s')"
    using assms c by (auto simp: persistVerifiedPayment_def Let_def am_bind_Inr)
  note f = settle_effect_fields [OF st(1)]
  have a: "pj_payments changed = pj_payments p @ [?y]" "pj_project_id changed = pj_project_id p"
    "if authorize then pj_status changed = Paid \<and> pj_paid_proposal changed = Some (pv_version q)
     else pj_status changed = NeedsOperatorAttention \<and> pj_paid_proposal changed = pj_paid_proposal p"
    using st(2) f by (auto simp: authorize_payment_def note_error_def split: if_splits)
  have "\<exists>c \<in> set (pj_checkouts p). ck_session_id c = ?id" using find_eq_SomeD [OF c(1)] by blast
  moreover have "pj_payments q' = pj_payments p @ [?y]
      \<and> (if authorize then pj_status q' = Paid \<and> pj_paid_proposal q' = Some (pv_version q)
         else pj_status q' = NeedsOperatorAttention \<and> pj_paid_proposal q' = pj_paid_proposal p)
     \<or> (\<exists>x. evidence_inbox e = Some x \<and> inbox_row_of (gs_db s') (xe_provider x) (xe_event_id x) \<noteq> None
        \<and> getProject (go_runtime A) (go_vault A) (pj_project_id p) (gs_db s') = Inr (Some q'))"
    using save_answers [OF st(3)] a by (auto split: if_splits)
  ultimately show ?thesis using that c(2) by blast
qed

text \<open>A receipt the provider backs: the checkout and the settlement it answered are of this very project,
  proposal, amount, currency, customer and mode, complete and paid, and were opened by the agent.\<close>

definition backed_payment :: "agent_options \<Rightarrow> agent_world \<Rightarrow> project \<Rightarrow> proposal_version \<Rightarrow> payment_receipt \<Rightarrow> bool" where
  "backed_payment A W p q y \<longleftrightarrow> (\<exists>k j c k' j' e. gw_checkout W k = Inr (c, j) \<and> gw_settlement W k' = Inr (e, j')
     \<and> checkout_bound_to A c (pm_checkout_session_id y) p q \<and> co_status c = CheckoutComplete \<and> co_payment_status c = ProviderPaid
     \<and> settlement_exact A e c (pm_payment_intent_id y) p q
     \<and> pm_proposal_version y = pv_version q \<and> pm_proposal_digest y = pv_digest q
     \<and> pm_amount_minor y = mq_amount_minor (pv_quote q) \<and> pm_amount_received_minor y = mq_amount_minor (pv_quote q)
     \<and> pm_currency y = mq_currency (pv_quote q) \<and> pm_livemode y = go_livemode A
     \<and> (\<exists>c \<in> set (pj_checkouts p). ck_session_id c = pm_checkout_session_id y))"

lemma receipt_backed:
  assumes "checkout_bound_to A (vs_checkout v) sessionId p q" "co_status (vs_checkout v) = CheckoutComplete"
    "co_payment_status (vs_checkout v) = ProviderPaid" "settlement_exact A (vs_settlement v) (vs_checkout v) intent p q"
    "gw_settlement W k' = Inr (vs_settlement v, j')" "gw_checkout W k = Inr (vs_checkout v, j)"
    "\<exists>c \<in> set (pj_checkouts p). ck_session_id c = co_session_id (vs_checkout v)"
  shows "backed_payment A W p q (payment_receipt_of A p q v intent e now)"
proof -
  have "co_session_id (vs_checkout v) = sessionId" using assms(1) by (simp add: checkout_bound_to_def)
  moreover have "se_amount_received_minor (vs_settlement v) = mq_amount_minor (pv_quote q)"
    using assms(4) by (simp add: settlement_exact_def)
  moreover have "co_livemode (vs_checkout v) = go_livemode A" using assms(1) by (simp add: checkout_bound_to_def)
  ultimately show ?thesis
    unfolding backed_payment_def using assms
    by (intro exI [of _ k] exI [of _ j] exI [of _ "vs_checkout v"] exI [of _ k'] exI [of _ j'] exI [of _ "vs_settlement v"])
      (simp add: payment_receipt_of_def Let_def)
qed

lemma runWithEffectFailure_Inr:
  assumes "runWithEffectFailure A W i action s = (Inr x, s')"
  obtains s1 where "action (s\<lparr>gs_attempted := []\<rparr>) = (Inr x, s1)" "gs_db s' = gs_db s1"
  using assms
  by (auto simp: runWithEffectFailure_def Let_def split: prod.splits sum.splits if_splits)

definition settles_current :: "project \<Rightarrow> proposal_version \<Rightarrow> bool" where
  "settles_current p v \<longleftrightarrow> (\<exists>c. stored_proposal p = Some c \<and> pv_version c = pv_version v \<and> pv_digest c = pv_digest v)"

lemma reconciled_payment_is_backed:
  assumes "settle_paid A W p q sessionId (c, j) key s = (Inr p', s')" and "gw_checkout W k = Inr (c, j)"
  shows "\<exists>y. pj_payments p' = pj_payments p @ [y] \<and> backed_payment A W p q y \<and> pj_status p' = Paid"
proof -
  obtain v s1 digest where v: "verifyStripeSettlement A W p q sessionId None (Some (c, j)) s = (Inr v, s1)"
    "persistVerifiedPayment A W p q v (provider_evidence A v digest key (go_iso A (gw_now W (gs_step s1)))) True
      (s1\<lparr>gs_step := Suc (gs_step s1)\<rparr>) = (Inr p', s')"
    using assms(1) by (auto simp: settle_paid_def am_bind_Inr timestamp_eq)
  let ?e = "provider_evidence A v digest key (go_iso A (gw_now W (gs_step s1)))"
  obtain intent where i: "checkout_bound_to A (vs_checkout v) sessionId p q" "co_status (vs_checkout v) = CheckoutComplete"
    "co_payment_status (vs_checkout v) = ProviderPaid" "truthy (co_payment_intent_id (vs_checkout v)) = Some intent"
    "settlement_exact A (vs_settlement v) (vs_checkout v) intent p q" "\<exists>k j. gw_settlement W k = Inr (vs_settlement v, j)"
    "\<forall>c' j'. Some (c, j) = Some (c', j') \<longrightarrow> vs_checkout v = c'"
    by (rule verifyStripeSettlement_InrD [OF v(1)]) blast
  have vc: "vs_checkout v = c" using i(7) by blast
  obtain k' j' where w: "gw_settlement W k' = Inr (vs_settlement v, j')" using i(6) by blast
  obtain intent' now where r: "truthy (co_payment_intent_id (vs_checkout v)) = Some intent'"
    "\<exists>c \<in> set (pj_checkouts p). ck_session_id c = co_session_id (vs_checkout v)"
    "pj_payments p' = pj_payments p @ [payment_receipt_of A p q v intent' ?e now] \<and> pj_status p' = Paid"
    by (rule persistVerifiedPayment_InrD [OF v(2)]) (auto simp: evidence_inbox_def provider_evidence_def)
  have "backed_payment A W p q (payment_receipt_of A p q v intent' ?e now)"
    using receipt_backed [OF i(1-3,5) w _ r(2)] assms(2) i(4) r(1) vc by simp
  with r(3) show ?thesis by blast
qed


subsection \<open>A paid checkout\<close>

definition billed_project :: "checkout_session \<Rightarrow> payment_receipt list \<Rightarrow> nat option \<Rightarrow> lifecycle_status \<Rightarrow> project" where
  "billed_project c ys paid st = sample_project\<lparr>pj_status := st, pj_paid_proposal := paid, pj_checkouts := [c], pj_payments := ys,
     pj_batches := [], pj_active_batch_id := None, pj_candidates := [], pj_deployments := [], pj_messages := [], pj_effects := []\<rparr>"

lemma billed_fields:
  "pj_project_id (billed_project c ys paid st) = ''project-1''" "pj_revision (billed_project c ys paid st) = 7"
  "pj_created_at (billed_project c ys paid st) = ''t0''" "pj_payments (billed_project c ys paid st) = ys"
  "pj_status (billed_project c ys paid st) = st"
  by (simp_all add: billed_project_def sample_project_def)

lemma billed_project_ok:
  assumes c: "checkout_shape sample_runtime c" "ck_session_id c = ''cs-1''" "ck_project_id c = ''project-1''" "ck_proposal_version c = 1"
      "ck_proposal_digest c = sample_hash" "ck_amount_minor c = 4900" "ck_currency c = ''usd''"
    and st: "st \<notin> set ACTIVE_STATUSES"
    and y: "ys = [] \<and> paid = None \<or> paid = Some 1 \<and> ys = [y] \<and> PaymentReceipt_ok sample_runtime y
      \<and> pm_project_id y = ''project-1'' \<and> pm_proposal_id y = ''proposal-1'' \<and> pm_proposal_version y = 1
      \<and> pm_proposal_digest y = sample_hash \<and> pm_amount_minor y = 4900 \<and> pm_amount_received_minor y = 4900
      \<and> pm_currency y = ''usd'' \<and> pm_customer_email_digest y = sample_hash \<and> pm_checkout_session_id y = ''cs-1''"
  shows "ProjectAggregate_ok sample_runtime (billed_project c ys paid st)"
proof -
  let ?p = "billed_project c ys paid st"
  have shape: "project_shape sample_runtime sample_project" and pi: "project_issues sample_runtime sample_project = []"
    using sample_project_ok by (simp_all add: ProjectAggregate_ok_def)
  have fields: "pj_proposals ?p = pj_proposals sample_project" "pj_intake ?p = pj_intake sample_project"
    "pj_customer ?p = pj_customer sample_project" "pj_project_id ?p = ''project-1''" "pj_checkouts ?p = [c]" "pj_payments ?p = ys"
    "pj_batches ?p = []" "pj_candidates ?p = []" "pj_previews ?p = []" "pj_deployments ?p = []" "pj_active_batch_id ?p = None"
    "pj_messages ?p = []" "pj_effects ?p = []" "pj_errors ?p = []" "pj_active_proposal ?p = Some 1" "pj_paid_proposal ?p = paid"
    "pj_status ?p = st"
    by (simp_all add: billed_project_def sample_project_def)
  have at: "proposal_at ?p v = (if v = 1 then Some sample_proposal else None)" for v
    using sample_lookups(1) [of v] by (simp add: proposal_at_def fields)
  have q: "pv_proposal_id sample_proposal = ''proposal-1''" "pv_digest sample_proposal = sample_hash"
    "pv_quote sample_proposal = \<lparr>mq_amount_minor = 4900, mq_currency = ''usd''\<rparr>" "pv_commercial_basis sample_proposal = None"
    "pj_proposals sample_project = [sample_proposal]" "pv_sources sample_proposal = [FromIntake sample_source, FromIntake sample_excerpt]"
    by (simp_all add: sample_proposal_def sample_project_def)
  have "project_shape sample_runtime ?p"
  proof -
    have "safe_positive 1" by (simp add: text_simps)
    then show ?thesis using shape c(1) y by (auto simp: project_shape_def billed_project_def)
  qed
  moreover have "consent_binding_issues ?p = []"
    using pi by (simp add: project_issues_Nil consent_binding_issues_def fields)
  moreover have "proposals_issues ?p {} {} (pj_proposals ?p) = []"
    using pi by (simp add: project_issues_Nil proposals_issues_Nil fields q) (simp add: sample_project_def)
  moreover have "checkouts_issues ?p = []"
    by (simp add: checkouts_issues_Nil checkout_bound_def fields at c q)
  moreover have "payments_issues sample_runtime ?p = []"
  proof (cases "ys = []")
    case True
    then show ?thesis using y unfolding payments_issues_Nil fields by (simp add: q)
  next
    case False
    have d: "customer_email_digest sample_runtime ?p = sample_hash" by (simp add: customer_email_digest_def)
    have "payment_bound sample_runtime ?p y"
      using y False unfolding payment_bound_def at fields d by (simp add: q c)
    then show ?thesis using y False unfolding payments_issues_Nil paid_versions_def fields by (simp add: q)
  qed
  moreover have "status_issues sample_runtime ?p = []" using st by (simp add: status_issues_def active_batch_def fields)
  ultimately show ?thesis
    by (simp add: ProjectAggregate_ok_def project_issues_Nil batches_issues_Nil unique_collections_issues_def fields at)
qed

definition open_checkout :: checkout_session where
  "open_checkout = sample_checkout\<lparr>ck_status := CheckoutOpen\<rparr>"

definition paid_session :: provider_checkout where
  "paid_session = \<lparr>co_session_id = ''cs-1'', co_livemode = False, co_url = None, co_status = CheckoutComplete,
     co_payment_status = ProviderPaid, co_payment_intent_id = Some ''pi-1'', co_amount_minor = Some 4900,
     co_currency = Some ''usd'', co_customer_email = Some ''ann@example.com'', co_customer_id = None,
     co_project_id = Some ''project-1'', co_proposal_id = Some ''proposal-1'', co_proposal_version = Some 1,
     co_proposal_digest = Some sample_hash, co_created_at = ''t1'', co_expires_at = ''t9''\<rparr>"

definition paid_settlement :: settlement where
  "paid_settlement = \<lparr>se_checkout_session_id = ''cs-1'', se_payment_intent_id = ''pi-1'', se_project_id = ''project-1'',
     se_proposal_id = ''proposal-1'', se_proposal_version = 1, se_proposal_digest = sample_hash, se_amount_minor = 4900,
     se_amount_received_minor = 4900, se_currency = ''usd'', se_customer_email = ''ann@example.com'',
     se_customer_id = None, se_livemode = False, se_intent_created_at = ''t1''\<rparr>"

definition pay_world :: agent_world where
  "pay_world = sample_world\<lparr>gw_checkout := \<lambda>_. Inr (paid_session, JNull), gw_settlement := \<lambda>_. Inr (paid_settlement, JNull)\<rparr>"

definition pay_webhook :: paid_webhook where
  "pay_webhook = \<lparr>wh_event_id = ''evt-7'', wh_created_at = ''t6'', wh_livemode = False, wh_session = paid_session\<rparr>"

definition awaiting_project :: project where
  "awaiting_project = billed_project open_checkout [] None AwaitingPayment"

definition pay_db :: orch_db where
  "pay_db = empty_orch_db\<lparr>od_projects := [saved_row sample_runtime sample_vault ''n'' awaiting_project (first_row\<lparr>ix_created_at := ''t0''\<rparr>)]\<rparr>"

definition pay_start :: agent_state where
  "pay_start = \<lparr>gs_db = pay_db, gs_step = 0, gs_attempted = []\<rparr>"

lemma open_checkout_fields:
  "checkout_shape sample_runtime open_checkout" "ck_session_id open_checkout = ''cs-1''" "ck_project_id open_checkout = ''project-1''"
  "ck_proposal_version open_checkout = 1" "ck_proposal_digest open_checkout = sample_hash" "ck_amount_minor open_checkout = 4900"
  "ck_currency open_checkout = ''usd''"
  by (simp_all add: open_checkout_def sample_checkout_def checkout_shape_def text_simps)

lemma awaiting_project_ok: "ProjectAggregate_ok sample_runtime awaiting_project"
  unfolding awaiting_project_def
  by (rule billed_project_ok [OF open_checkout_fields]) (simp_all add: ACTIVE_STATUSES_def)

lemma pay_world_sound: "sound_store delivery_agent pay_world"
  using delivery_sound by (simp add: sound_store_def pay_world_def)

lemma awaiting_project_fields:
  "pj_project_id awaiting_project = ''project-1''" "pj_created_at awaiting_project = ''t0''" "pj_revision awaiting_project = 7"
  "pj_payments awaiting_project = []" "pj_checkouts awaiting_project = [open_checkout]" "pj_status awaiting_project = AwaitingPayment"
  "pj_proposals awaiting_project = [sample_proposal]" "pj_active_proposal awaiting_project = Some 1"
  "pj_customer awaiting_project = sample_customer" "pj_effects awaiting_project = []"
  by (simp_all add: awaiting_project_def billed_project_def sample_project_def)

lemma pay_reads: "reads delivery_agent pay_world ''project-1'' awaiting_project (pay_start\<lparr>gs_step := k\<rparr>)"
proof -
  have "rowToProject sample_runtime sample_vault (saved_row sample_runtime sample_vault ''n'' awaiting_project
      (first_row\<lparr>ix_created_at := ''t0''\<rparr>)) = Inr awaiting_project"
    by (rule saved_row_reads [OF sample_vault_sound awaiting_project_ok]) (simp_all add: awaiting_project_fields)
  then show ?thesis
    by (simp add: reads_def getProject_def check_input_def project_row_of_def pay_start_def pay_db_def empty_orch_db_def text_simps)
qed

lemma sample_proposal_fields:
  "pv_proposal_id sample_proposal = ''proposal-1''" "pv_digest sample_proposal = sample_hash" "pv_version sample_proposal = 1"
  "pv_quote sample_proposal = \<lparr>mq_amount_minor = 4900, mq_currency = ''usd''\<rparr>"
  by (simp_all add: sample_proposal_def)

lemma pay_verified:
  "verifyStripeSettlement delivery_agent pay_world awaiting_project sample_proposal ''cs-1'' (Some pay_webhook) None pay_start
    = (Inr \<lparr>vs_checkout = paid_session, vs_settlement = paid_settlement,
        vs_json = JObject [(''checkout'', JNull), (''settlement'', JNull)]\<rparr>, pay_start\<lparr>gs_step := 2\<rparr>)"
proof -
  have live: "go_livemode delivery_agent = False" by (simp add: delivery_agent_def sample_agent_def)
  have email: "customer_email delivery_agent awaiting_project = normalizeEmail delivery_agent ''ann@example.com''"
    by (simp add: customer_email_def awaiting_project_fields) (simp add: sample_customer_def)
  have bound: "checkout_bound_to delivery_agent paid_session ''cs-1'' awaiting_project sample_proposal"
    by (simp add: checkout_bound_to_def live email awaiting_project_fields sample_proposal_fields paid_session_def)
  have exact: "settlement_exact delivery_agent paid_settlement paid_session ''pi-1'' awaiting_project sample_proposal"
    by (simp add: settlement_exact_def live email awaiting_project_fields sample_proposal_fields paid_session_def paid_settlement_def)
  have c: "co_status paid_session = CheckoutComplete" "co_payment_status paid_session = ProviderPaid"
    "co_payment_intent_id paid_session = Some ''pi-1''" "co_session_id paid_session = ''cs-1''"
    by (simp_all add: paid_session_def)
  have w: "gw_checkout pay_world k = Inr (paid_session, JNull)" "gw_settlement pay_world k = Inr (paid_settlement, JNull)"
    "gw_env pay_world k db = db" for k db
    by (simp_all add: pay_world_def sample_world_def)
  have h: "wh_livemode pay_webhook = False" "wh_session pay_webhook = paid_session" by (simp_all add: pay_webhook_def)
  have "cp_email (pj_customer awaiting_project) \<noteq> None" by (simp add: awaiting_project_fields) (simp add: sample_customer_def)
  then show ?thesis
    by (auto simp: verifyStripeSettlement_def am_bind_def am_then_def am_await_def validatePaidCheckout_def
        validateReconciledCheckoutBinding_def bound exact c w h live truthy_def am_the_def numeral_2_eq_2) (simp_all add: pay_start_def)
qed

lemma pay_digest: "verifiedStripeEvidenceDigest delivery_agent v = Inr sample_hash"
proof -
  have "json_carries (opt_text x)" for x by (simp add: opt_text_def split: option.split)
  then have "json_carries (evidence_json delivery_agent v)" by (simp add: evidence_json_def Let_def)
  from digestJson_carries [OF this, of sample_runtime] show ?thesis
    by (auto simp: verifiedStripeEvidenceDigest_def json_digest_def)
qed

lemma pay_run:
  "\<exists>q s' y. confirmPayment delivery_agent pay_world (\<lambda>p _. am_return p) pay_webhook sample_hash pay_start = (Inr q, s')
    \<and> pj_payments q = [y] \<and> pj_status q = Paid \<and> inbox_row_of (gs_db pay_start) ''stripe'' ''evt-7'' = None"
proof -
  let ?v = "\<lparr>vs_checkout = paid_session, vs_settlement = paid_settlement, vs_json = JObject [(''checkout'', JNull), (''settlement'', JNull)]\<rparr>"
  let ?e = "webhook_evidence pay_webhook sample_hash sample_hash"
  let ?t = "\<lambda>k. go_iso delivery_agent (gw_now pay_world k)"
  let ?y = "payment_receipt_of delivery_agent awaiting_project sample_proposal ?v ''pi-1'' ?e (?t 3)"
  let ?c = "paid_checkout (?t 2) open_checkout"
  let ?q = "billed_project ?c [?y] (Some 1) Paid"
  let ?ev = "payment_event awaiting_project ?q sample_proposal ?y ?e True"
  let ?s = "pay_start\<lparr>gs_step := 4\<rparr>"
  have c: "checkout_shape sample_runtime ?c" "ck_session_id ?c = ''cs-1''" "ck_project_id ?c = ''project-1''"
    "ck_proposal_version ?c = 1" "ck_proposal_digest ?c = sample_hash" "ck_amount_minor ?c = 4900" "ck_currency ?c = ''usd''"
    using open_checkout_fields by (simp_all add: paid_checkout_def checkout_shape_def)
  have y: "PaymentReceipt_ok sample_runtime ?y \<and> pm_project_id ?y = ''project-1'' \<and> pm_proposal_id ?y = ''proposal-1''
      \<and> pm_proposal_version ?y = 1 \<and> pm_proposal_digest ?y = sample_hash \<and> pm_amount_minor ?y = 4900
      \<and> pm_amount_received_minor ?y = 4900 \<and> pm_currency ?y = ''usd'' \<and> pm_customer_email_digest ?y = sample_hash
      \<and> pm_checkout_session_id ?y = ''cs-1''"
    by (simp add: payment_receipt_of_def Let_def PaymentReceipt_ok_def payment_shape_def payment_issues_def awaiting_project_fields
        sample_proposal_fields webhook_evidence_def paid_session_def paid_settlement_def pay_webhook_def text_simps truthy_def)
      (simp add: sample_hash_def is_hex_def is_digit_def in_range_def id_tail_def is_alnum_def is_lower_def list_all_iff)
  have st: "Paid \<notin> set ACTIVE_STATUSES" by (simp add: ACTIVE_STATUSES_def)
  have ok: "ProjectAggregate_ok sample_runtime ?q"
    by (rule billed_project_ok [OF c st, where y = ?y]) (use y in simp)
  have changed: "awaiting_project\<lparr>pj_checkouts := [?c], pj_payments := [?y], pj_paid_proposal := Some 1, pj_status := Paid\<rparr> = ?q"
    by (simp add: awaiting_project_def billed_project_def)
  have inbox: "evidence_inbox ?e = Some \<lparr>xe_provider = ''stripe'', xe_event_id = ''evt-7'', xe_digest = sample_hash\<rparr>"
    by (simp add: evidence_inbox_def webhook_evidence_def pay_webhook_def)
  have new: "unseen (gs_db ?s) (evidence_inbox ?e)"
    by (simp add: inbox unseen_def verified_inbox_ok_def webhook_provider_def inbox_row_of_def pay_start_def pay_db_def
        empty_orch_db_def text_simps)
  have rid: "orchestration_id (pm_receipt_id ?y)" using y by (simp add: PaymentReceipt_ok_def payment_shape_def)
  have ev: "ProjectEventInput_ok ?ev" "ep_consumed_message_ids (ei_payload ?ev) = None"
    using rid by (simp_all add: payment_event_def event_of_def ProjectEventInput_ok_def RedactedEventPayload_ok_def no_payload_def
        sample_proposal_fields event_type_text_def webhook_evidence_def text_simps)
  have qf: "pj_project_id ?q = ''project-1''" "pj_revision ?q = pj_revision awaiting_project"
    "pj_created_at ?q = pj_created_at awaiting_project" by (simp_all only: awaiting_project_def billed_fields)
  have run: "go_runtime delivery_agent = sample_runtime" by (simp add: delivery_agent_def)
  have rev: "safe_nat (Suc (pj_revision awaiting_project))"
    by (simp add: awaiting_project_fields safe_nat_def MAX_SAFE_INTEGER_def)
  obtain s' where s': "save_project delivery_agent pay_world ?q ?ev (evidence_inbox ?e) None ?s = (Inr (saved pay_world ?s ?q), s')"
    by (rule save_project_writes [OF pay_world_sound pay_reads [of 4] ok [folded run] qf rev ev new])
  have t: "timestamp delivery_agent pay_world (pay_start\<lparr>gs_step := k\<rparr>) = (Inr (?t k), pay_start\<lparr>gs_step := Suc k\<rparr>)" for k
    by (simp add: timestamp_eq)
  have ids: "co_session_id paid_session = ''cs-1''" "co_payment_intent_id paid_session = Some ''pi-1''"
    "co_project_id paid_session = Some ''project-1''" "wh_session pay_webhook = paid_session" "wh_event_id pay_webhook = ''evt-7''"
    by (simp_all add: paid_session_def pay_webhook_def)
  have rk: "truthy (ev_reconciliation_key ?e) = None" by (simp add: webhook_evidence_def truthy_def)
  have persisted: "persistVerifiedPayment delivery_agent pay_world awaiting_project sample_proposal ?v ?e True (pay_start\<lparr>gs_step := 2\<rparr>)
      = (Inr (saved pay_world ?s ?q), s')"
    using s' changed
    by (simp add: persistVerifiedPayment_def Let_def awaiting_project_fields open_checkout_fields ids truthy_def settle_effect_def
        rk [unfolded truthy_def] authorize_payment_def am_bind_step sample_proposal_fields)
  have known: "known_payment awaiting_project paid_session = None"
    by (simp add: known_payment_def awaiting_project_fields)
  have found: "exact_proposal awaiting_project 1 sample_hash = Some sample_proposal" "activeProposal awaiting_project = Inr sample_proposal"
    by (simp_all add: exact_proposal_def activeProposal_def stored_proposal_def proposal_at_def awaiting_project_fields
        sample_proposal_fields)
  have new_run: "confirm_new delivery_agent pay_world (\<lambda>p _. am_return p) pay_webhook sample_hash awaiting_project pay_start
      = (Inr (saved pay_world ?s ?q), s')"
    using pay_verified persisted
    by (simp add: confirm_new_def Let_def ids awaiting_project_fields open_checkout_fields found [unfolded One_nat_def] am_the_def am_require_def
        am_then_def am_bind_step pay_digest)
  have start: "pay_start\<lparr>gs_step := 0\<rparr> = pay_start" "pay_start\<lparr>gs_attempted := []\<rparr> = pay_start"
    by (simp_all add: pay_start_def)
  have quiet: "assertNoUnresolvedInboundMail ''project-1'' pay_start = (Inr (), pay_start)"
    by (simp add: assertNoUnresolvedInboundMail_def am_bind_def am_query_def am_return_def hasUnresolvedInboundMailEnvelope_def
        check_input_def pay_start_def pay_db_def empty_orch_db_def text_simps)
  have "confirmPayment delivery_agent pay_world (\<lambda>p _. am_return p) pay_webhook sample_hash pay_start
      = (Inr (saved pay_world ?s ?q), s'\<lparr>gs_attempted := gs_attempted pay_start\<rparr>)"
    using requireProject_reads [OF pay_reads [of 0]] quiet new_run
    by (simp add: confirmPayment_def am_bind_def am_then_def am_the_def am_lift_def ids truthy_def start known
        runWithEffectFailure_def)
  moreover have "pj_payments (saved pay_world ?s ?q) = [?y]" "pj_status (saved pay_world ?s ?q) = Paid"
    by (simp_all add: saved_def billed_fields)
  moreover have "inbox_row_of (gs_db pay_start) ''stripe'' ''evt-7'' = None"
    by (simp add: inbox_row_of_def pay_start_def pay_db_def empty_orch_db_def)
  ultimately show ?thesis by blast
qed


end
