(* ===== verification/Agent_Build.thy ===== *)
theory Agent_Build
  imports Agent_Payment Winner_Selection
begin

text \<open>
  \<open>orchestration-agent.ts\<close>, the build of a project: how the agent follows the runs of the active batch, takes
  in the proven candidates, retires a batch whose deadline has passed, and decides what comes of it.
  Dispatching a batch, the preview of a winner and its deployment are the arguments \<open>build_walk\<close>.
\<close>

subsection \<open>The active batch\<close>

definition activeBuildBatch :: "project \<Rightarrow> agent_error + build_batch" where
  "activeBuildBatch p = the_or (PolicyViolation ''Project has no active build batch'') (stored_batch p)"

definition change_batch :: "(build_batch \<Rightarrow> build_batch) \<Rightarrow> project \<Rightarrow> project" where
  "change_batch f p = p\<lparr>pj_batches := update_first (\<lambda>b. pj_active_batch_id p = Some (bb_batch_id b)) f (pj_batches p)\<rparr>"

definition proposalForBatch :: "project \<Rightarrow> build_batch \<Rightarrow> agent_error + proposal_version" where
  "proposalForBatch p b = the_or (PolicyViolation ''Active build batch has no exact proposal'')
     (exact_proposal p (bb_proposal_version b) (bb_proposal_digest b))"

definition requireProvenCandidate :: "project \<Rightarrow> string \<Rightarrow> string \<Rightarrow> agent_error + proven_candidate" where
  "requireProvenCandidate p batchId candidateId = the_or (PolicyViolation ''Selected winner has no persisted proven event'')
     (find (\<lambda>c. pcd_batch_id c = batchId \<and> cp_candidate_id (ob_payload (pcd_event c)) = candidateId) (pj_candidates p))"

definition batch_candidates :: "project \<Rightarrow> build_batch \<Rightarrow> proven_candidate list" where
  "batch_candidates p b = filter (\<lambda>c. pcd_batch_id c = bb_batch_id b) (pj_candidates p)"

definition batch_payload :: "build_batch \<Rightarrow> lifecycle_status \<Rightarrow> event_payload" where
  "batch_payload b st = no_payload\<lparr>ep_status := Some st, ep_build_batch_id := Some (bb_batch_id b),
     ep_proposal_version := Some (bb_proposal_version b), ep_proposal_digest := Some (bb_proposal_digest b)\<rparr>"

definition run_ended :: "build_run_identity \<Rightarrow> bool" where
  "run_ended r \<longleftrightarrow> isTerminalStatus (bi_status r)"

definition date_reached :: "runtime \<Rightarrow> string option \<Rightarrow> int \<Rightarrow> bool" where
  "date_reached R v now \<longleftrightarrow> (case date_of R v of None \<Rightarrow> False | Some t \<Rightarrow> t \<le> now)"

subsection \<open>Messages not yet worked in\<close>

definition consuming_types :: "string list" where
  "consuming_types = [''proposal.created'', ''proposal.paid_revision_created'', ''revision.no_scope_change'']"

definition consumedInboundMessageIds :: "agent_options \<Rightarrow> project \<Rightarrow> string list agent" where
  "consumedInboundMessageIds A p =
     am_bind (am_query (listProjectEvents (go_runtime A) (pj_project_id p) 0 None)) (\<lambda>es.
     am_return (concat (map (\<lambda>e. case ep_consumed_message_ids (pe_payload e) of None \<Rightarrow> [] | Some ms \<Rightarrow> ms)
       (filter (\<lambda>e. pe_type e \<in> set consuming_types) es))))"

text \<open>A stable sort; the code breaks ties by the position.\<close>

definition unappliedInboundMessages :: "agent_options \<Rightarrow> project \<Rightarrow> project_message list agent" where
  "unappliedInboundMessages A p =
     am_bind (consumedInboundMessageIds A p) (\<lambda>consumed.
     am_return (map snd (sort_by
       (\<lambda>l r. let d = date_diff (rt_date_parse (go_runtime A) (mg_created_at (snd l)))
            (rt_date_parse (go_runtime A) (mg_created_at (snd r))) in if d \<noteq> 0 then d else int (fst l) - int (fst r))
       (filter (\<lambda>(_, m). mg_direction m = Inbound \<and> mg_sender_authenticated m \<and> mg_message_id m \<notin> set consumed)
         (enumerate 0 (pj_messages p))))))"

definition isLatestDeliverableBatch :: "agent_options \<Rightarrow> project \<Rightarrow> build_batch \<Rightarrow> bool agent" where
  "isLatestDeliverableBatch A p b =
     (if (case stored_proposal p of None \<Rightarrow> False
          | Some q \<Rightarrow> pv_version q = bb_proposal_version b \<and> pv_digest q = bb_proposal_digest b)
        \<and> pj_open_questions p = []
      then am_bind (unappliedInboundMessages A p) (\<lambda>ms. am_return (ms = []))
      else am_return False)"

text \<open>An effect a newer requirement of the customer makes pointless.\<close>

definition superseded_error :: "runtime \<Rightarrow> durable_effect \<Rightarrow> string \<Rightarrow> orchestration_error" where
  "superseded_error R e now =
     \<lparr>oe_error_id = effectErrorId R (ef_key e) (ef_attempts e) ''effect.superseded'', oe_code = ''effect.superseded'',
      oe_category = PolicyError, oe_message = ''A newer authenticated customer requirement superseded this provider action'',
      oe_retryable = False, oe_effect_key = Some (ef_key e), oe_occurred_at = now\<rparr>"

definition supersedePendingEffect :: "agent_options \<Rightarrow> agent_world \<Rightarrow> project \<Rightarrow> string \<Rightarrow> project agent" where
  "supersedePendingEffect A W p key =
     (case effect_at p key of
        None \<Rightarrow> am_return p
      | Some e \<Rightarrow> if ef_status e \<noteq> EffectPending then am_return p
          else am_bind (timestamp A W) (\<lambda>now.
            let err = superseded_error (go_runtime A) e now in
            save_project A W (note_error err (change_effect key (failed_effect err) p))
              (event_of ''effect.superseded'' ActorSystem ((effect_payload (pj_status p) e)\<lparr>ep_error_code := Some (oe_code err)\<rparr>))
              None None))"

subsection \<open>The runs of the batch\<close>

definition expected_run :: "project \<Rightarrow> build_batch \<Rightarrow> build_run_identity \<Rightarrow> build_run \<Rightarrow> bool" where
  "expected_run p b r x \<longleftrightarrow> br_id x = bi_run_id r \<and> br_assignment_id x = bi_assignment_id r
     \<and> br_candidate_id x = bi_candidate_id r \<and> br_project_id x = pj_project_id p
     \<and> br_contract_hash x = bb_build_contract_hash b"

definition with_statuses :: "build_run_identity list \<Rightarrow> build_run list \<Rightarrow> build_run_identity list" where
  "with_statuses runs answers = map (\<lambda>(r, x). r\<lparr>bi_status := br_status x\<rparr>) (zip runs answers)"

definition all_ended :: "build_batch \<Rightarrow> bool" where
  "all_ended b \<longleftrightarrow> length (bb_runs b) = bb_requested_candidate_count b \<and> list_all run_ended (bb_runs b)"

definition refreshed_batch :: "build_run list \<Rightarrow> build_batch \<Rightarrow> build_batch" where
  "refreshed_batch answers stored =
     (let b = stored\<lparr>bb_runs := with_statuses (bb_runs stored) answers\<rparr> in
      b\<lparr>bb_status := (if all_ended b then BatchVerifying else BatchBuilding)\<rparr>)"

definition refreshBuildRuns :: "agent_options \<Rightarrow> agent_world \<Rightarrow> project \<Rightarrow> build_batch \<Rightarrow> project agent" where
  "refreshBuildRuns A W p b =
     am_bind (am_await W (gw_runs W)) (\<lambda>answer.
     let answers = map answer [0..<length (bb_runs b)] in
     am_bind (am_lift (activeBuildBatch p)) (\<lambda>stored.
     am_then (am_require (list_all2 (expected_run p b) (bb_runs b) answers)
       ''Build backend returned a run outside the active project/contract identity'')
     (let b' = refreshed_batch answers stored;
          st = buildProgressStatus p (if all_ended b' then Verifying else Building) in
      if b' = stored \<and> st = pj_status p then am_return p
      else save_project A W ((change_batch (\<lambda>_. b') p)\<lparr>pj_status := st\<rparr>)
        (event_of ''build.status_reconciled'' ActorProvider
          ((batch_payload b st)\<lparr>ep_previous_status := Some (pj_status p),
             ep_count := Some (length (filter run_ended (bb_runs b')))\<rparr>)) None None)))"

subsection \<open>Proven candidates\<close>

text \<open>The times of an event are read as milliseconds by the build server's model; here they are texts again.\<close>

definition proven_event_json :: "agent_options \<Rightarrow> outbox_event \<Rightarrow> jsval" where
  "proven_event_json A e =
     JObject ([(''eventId'', JString (ob_event_id e)), (''type'', JString (ob_type e)), (''runId'', JString (ob_run_id e)),
       (''revisionHash'', JString (ob_revision_hash e)), (''traceId'', JString (ob_trace_id e)),
       (''payload'', payload_json (ob_payload e)), (''createdAt'', JString (go_iso A (ob_created_at e)))] @
      (case ob_published_at e of None \<Rightarrow> [] | Some t \<Rightarrow> [(''publishedAt'', JString (go_iso A t))]))"

definition event_digest :: "agent_options \<Rightarrow> outbox_event \<Rightarrow> agent_error + string" where
  "event_digest A e = json_digest (go_runtime A) (proven_event_json A e)"

definition validateProvenEvent :: "outbox_event \<Rightarrow> project \<Rightarrow> build_batch \<Rightarrow> agent_error + unit" where
  "validateProvenEvent e p b =
     require (case find (\<lambda>r. bi_run_id r = ob_run_id e) (bb_runs b) of
         None \<Rightarrow> False
       | Some r \<Rightarrow> bi_status r = RunPassed \<and> cp_project_id (ob_payload e) = pj_project_id p
           \<and> cp_candidate_id (ob_payload e) = bi_candidate_id r \<and> cp_contract_hash (ob_payload e) = bb_build_contract_hash b)
      (PolicyViolation ''Proven event does not match a passed run in the active project/contract'')"

definition candidate_of :: "build_batch \<Rightarrow> outbox_event \<Rightarrow> string \<Rightarrow> proven_candidate" where
  "candidate_of b e now = \<lparr>pcd_batch_id = bb_batch_id b, pcd_proposal_version = bb_proposal_version b,
     pcd_proposal_digest = bb_proposal_digest b, pcd_event = e, pcd_received_at = now\<rparr>"

definition build_inbox :: "outbox_event \<Rightarrow> string \<Rightarrow> inbox_event" where
  "build_inbox e digest = \<lparr>xe_provider = ''build-backend'', xe_event_id = ob_event_id e, xe_digest = digest\<rparr>"

definition candidate_event :: "build_batch \<Rightarrow> project \<Rightarrow> outbox_event \<Rightarrow> string \<Rightarrow> event_input" where
  "candidate_event b p e digest = event_of ''build.candidate_proven_received'' ActorProvider
     ((batch_payload b (pj_status p))\<lparr>ep_run_id := Some (ob_run_id e), ep_candidate_id := Some (cp_candidate_id (ob_payload e)),
        ep_provider := Some ''build-backend'', ep_provider_event_digest := Some digest\<rparr>)"

definition ingest_event :: "agent_options \<Rightarrow> agent_world \<Rightarrow> build_batch \<Rightarrow> project \<Rightarrow> outbox_event \<Rightarrow> project agent" where
  "ingest_event A W b p e =
     am_then (am_lift (validateProvenEvent e p b))
     (case find (\<lambda>c. ob_event_id (pcd_event c) = ob_event_id e) (pj_candidates p) of
        Some c \<Rightarrow> am_bind (am_lift (event_digest A (pcd_event c))) (\<lambda>known.
          am_bind (am_lift (event_digest A e)) (\<lambda>digest.
          am_then (am_require (known = digest) ''Build backend reused a proven event identity with different evidence'')
          (am_then (am_store (\<lambda>k. recordInbox (gw_clock W k) (build_inbox e digest))) (am_return p))))
      | None \<Rightarrow> am_bind (timestamp A W) (\<lambda>now.
          am_bind (am_lift (event_digest A e)) (\<lambda>digest.
          save_project A W (p\<lparr>pj_candidates := pj_candidates p @ [candidate_of b e now]\<rparr>) (candidate_event b p e digest)
            (Some (build_inbox e digest)) None)))"

fun ingest_events :: "agent_options \<Rightarrow> agent_world \<Rightarrow> build_batch \<Rightarrow> outbox_event list \<Rightarrow> project \<Rightarrow> project agent" where
  "ingest_events A W b [] p = am_return p"
| "ingest_events A W b (e # es) p =
     (if ob_run_id e \<in> bi_run_id ` set (bb_runs b)
      then am_bind (ingest_event A W b p e) (ingest_events A W b es)
      else ingest_events A W b es p)"

definition ingestProvenEvents :: "agent_options \<Rightarrow> agent_world \<Rightarrow> project \<Rightarrow> build_batch \<Rightarrow> project agent" where
  "ingestProvenEvents A W p b =
     (if bb_runs b = [] then am_return p
      else am_bind (am_await W (gw_events W)) (\<lambda>es. ingest_events A W b es p))"

subsection \<open>Cancelling a run\<close>

definition buildCancellationEffectKey :: "string \<Rightarrow> string \<Rightarrow> string" where
  "buildCancellationEffectKey batchId runId = ''build:cancel:'' @ batchId @ '':'' @ runId"

definition cancellation_input :: "build_batch \<Rightarrow> build_run_identity \<Rightarrow> jsval" where
  "cancellation_input b r = JObject [(''batchId'', JString (bb_batch_id b)), (''runId'', JString (bi_run_id r)),
     (''assignmentId'', JString (bi_assignment_id r)), (''candidateId'', JString (bi_candidate_id r)),
     (''contractHash'', JString (bb_build_contract_hash b))]"

definition cancellation_event :: "string \<Rightarrow> event_actor \<Rightarrow> project \<Rightarrow> build_batch \<Rightarrow> build_run_identity \<Rightarrow> supersession \<Rightarrow> event_input" where
  "cancellation_event kind actor p b r reason = event_of kind actor
     ((batch_payload b (pj_status p))\<lparr>ep_effect_key := Some (buildCancellationEffectKey (bb_batch_id b) (bi_run_id r)),
        ep_effect_type := Some CancelBuildRun, ep_run_id := Some (bi_run_id r), ep_reason := Some reason\<rparr>)"

definition queue_cancellation ::
  "agent_options \<Rightarrow> agent_world \<Rightarrow> project \<Rightarrow> build_batch \<Rightarrow> build_run_identity \<Rightarrow> supersession \<Rightarrow> project agent" where
  "queue_cancellation A W p b r reason =
     (let key = buildCancellationEffectKey (bb_batch_id b) (bi_run_id r) in
      if effect_at p key \<noteq> None then am_return p
      else am_bind (timestamp A W) (\<lambda>now.
        am_bind (am_lift (addPendingEffect (go_runtime A) key CancelBuildRun (cancellation_input b r) now None p)) (\<lambda>queued.
        save_project A W queued (cancellation_event ''build.run_cancellation_queued'' ActorSystem p b r reason) None None)))"

definition cancellation_confirmed :: "project \<Rightarrow> build_batch \<Rightarrow> build_run_identity \<Rightarrow> build_run \<Rightarrow> bool" where
  "cancellation_confirmed p b r x \<longleftrightarrow> expected_run p b r x \<and> (br_cancel_requested x \<or> isTerminalStatus (br_status x))"

definition cancelled_status :: "build_run \<Rightarrow> run_status" where
  "cancelled_status x = (if isTerminalStatus (br_status x) then br_status x else RunCancelled)"

definition set_run_status :: "string \<Rightarrow> string \<Rightarrow> run_status \<Rightarrow> project \<Rightarrow> project" where
  "set_run_status batchId runId st p = p\<lparr>pj_batches := update_first (\<lambda>b. bb_batch_id b = batchId)
     (\<lambda>b. b\<lparr>bb_runs := update_first (\<lambda>r. bi_run_id r = runId) (\<lambda>r. r\<lparr>bi_status := st\<rparr>) (bb_runs b)\<rparr>) (pj_batches p)\<rparr>"

definition stored_run :: "project \<Rightarrow> string \<Rightarrow> string \<Rightarrow> build_run_identity option" where
  "stored_run p batchId runId = (case find (\<lambda>b. bb_batch_id b = batchId) (pj_batches p) of
     None \<Rightarrow> None | Some b \<Rightarrow> find (\<lambda>r. bi_run_id r = runId) (bb_runs b))"

definition confirm_cancellation ::
  "agent_options \<Rightarrow> agent_world \<Rightarrow> project \<Rightarrow> build_batch \<Rightarrow> build_run_identity \<Rightarrow> supersession \<Rightarrow> build_run \<times> jsval
    \<Rightarrow> project agent" where
  "confirm_cancellation A W p b r reason = (\<lambda>(x, printed).
     let key = buildCancellationEffectKey (bb_batch_id b) (bi_run_id r) in
     am_then (am_require (cancellation_confirmed p b r x) ''Build backend did not confirm the exact run cancellation'')
     (am_bind (am_the ''Cancelled build run is missing from its persisted batch'' (stored_run p (bb_batch_id b) (bi_run_id r))) (\<lambda>_.
      am_bind (timestamp A W) (\<lambda>now.
      am_bind (am_lift (completeEffect (go_runtime A) key (br_id x) printed now
        (set_run_status (bb_batch_id b) (bi_run_id r) (cancelled_status x) p))) (\<lambda>q.
      save_project A W q (cancellation_event ''build.run_cancellation_confirmed'' ActorProvider q b r reason) None None)))))"

definition cancelBuildRun ::
  "agent_options \<Rightarrow> agent_world \<Rightarrow> project \<Rightarrow> build_batch \<Rightarrow> build_run_identity \<Rightarrow> supersession \<Rightarrow> project agent" where
  "cancelBuildRun A W p b r reason =
     (let key = buildCancellationEffectKey (bb_batch_id b) (bi_run_id r) in
      if map_option ef_status (effect_at p key) = Some EffectCompleted then am_return p
      else am_bind (queue_cancellation A W p b r reason) (\<lambda>q.
        am_then (markEffectAttempt key)
        (am_bind (am_await W (gw_cancelled W)) (confirm_cancellation A W q b r reason))))"

subsection \<open>Deadlines\<close>

definition unavailable_id :: "agent_options \<Rightarrow> build_batch \<Rightarrow> string" where
  "unavailable_id A b = ''build-evidence:'' @ take 24 (rt_sha256 (go_runtime A) (bb_batch_id b))"

definition unavailable_error :: "agent_options \<Rightarrow> build_batch \<Rightarrow> string \<Rightarrow> orchestration_error" where
  "unavailable_error A b now =
     \<lparr>oe_error_id = unavailable_id A b, oe_code = ''build.evidence_unavailable_at_deadline'', oe_category = TransientError,
      oe_message = ''Build backend status or proof evidence was unavailable at the persisted lifecycle deadline'',
      oe_retryable = False, oe_effect_key = None, oe_occurred_at = now\<rparr>"

definition recordUnavailableBuildEvidenceAtDeadline ::
  "agent_options \<Rightarrow> agent_world \<Rightarrow> project \<Rightarrow> build_batch \<Rightarrow> project agent" where
  "recordUnavailableBuildEvidenceAtDeadline A W p b =
     (if has_error (unavailable_id A b) p then am_return p
      else am_bind (timestamp A W) (\<lambda>now.
        save_project A W (p\<lparr>pj_errors := pj_errors p @ [unavailable_error A b now]\<rparr>)
          (event_of ''build.evidence_unavailable_at_deadline'' ActorSystem
            ((batch_payload b (pj_status p))\<lparr>ep_error_code := Some ''build.evidence_unavailable_at_deadline''\<rparr>)) None None))"

definition cancellation_targets :: "project \<Rightarrow> build_batch \<Rightarrow> build_run_identity list" where
  "cancellation_targets p b = filter (\<lambda>r. \<not> run_ended r
     \<or> list_ex (\<lambda>e. ef_key e = buildCancellationEffectKey (bb_batch_id b) (bi_run_id r) \<and> ef_status e = EffectPending)
         (pj_effects p)) (bb_runs b)"

fun cancel_runs ::
  "agent_options \<Rightarrow> agent_world \<Rightarrow> build_batch \<Rightarrow> supersession \<Rightarrow> build_run_identity list \<Rightarrow> project \<Rightarrow> project agent" where
  "cancel_runs A W b reason [] p = am_return p"
| "cancel_runs A W b reason (r # rs) p = am_bind (cancelBuildRun A W p b r reason) (cancel_runs A W b reason rs)"

definition ended_run :: "build_run_identity \<Rightarrow> build_run_identity" where
  "ended_run r = (if run_ended r then r else r\<lparr>bi_status := RunCancelled\<rparr>)"

definition retired :: "string \<Rightarrow> build_batch \<Rightarrow> build_batch" where
  "retired now b = b\<lparr>bb_runs := map ended_run (bb_runs b), bb_status := BatchVerifying, bb_proof_event_deadline_at := Some now\<rparr>"

definition retireExpiredBuildBatch :: "agent_options \<Rightarrow> agent_world \<Rightarrow> project \<Rightarrow> build_batch \<Rightarrow> project agent" where
  "retireExpiredBuildBatch A W p b =
     (let nonterminal = filter (\<lambda>r. \<not> run_ended r) (bb_runs b) in
      am_bind (cancel_runs A W b DeadlineExpired (cancellation_targets p b) p) (\<lambda>saved.
      if bb_proof_event_deadline_at b \<noteq> None \<and> nonterminal = [] then am_return saved
      else am_bind (am_lift (activeBuildBatch saved)) (\<lambda>_.
        am_bind (timestamp A W) (\<lambda>now.
        let st = buildProgressStatus saved Verifying in
        save_project A W ((change_batch (retired now) saved)\<lparr>pj_status := st\<rparr>)
          (event_of ''build.deadline_expired'' ActorSystem
            ((batch_payload b st)\<lparr>ep_previous_status := Some (pj_status saved), ep_count := Some (length nonterminal)\<rparr>))
          None None))))"

subsection \<open>What comes of the batch\<close>

definition acknowledgement_event :: "string \<Rightarrow> event_actor \<Rightarrow> project \<Rightarrow> build_batch \<Rightarrow> proven_candidate \<Rightarrow> string \<Rightarrow> event_input" where
  "acknowledgement_event kind actor p b c key = event_of kind actor
     ((batch_payload b (pj_status p))\<lparr>ep_effect_key := Some key, ep_effect_type := Some AcknowledgeProvenEvent,
        ep_candidate_id := Some (cp_candidate_id (ob_payload (pcd_event c))), ep_run_id := Some (ob_run_id (pcd_event c))\<rparr>)"

definition queue_acknowledgement ::
  "agent_options \<Rightarrow> agent_world \<Rightarrow> build_batch \<Rightarrow> proven_candidate \<Rightarrow> string \<Rightarrow> project \<Rightarrow> project agent" where
  "queue_acknowledgement A W b c key p =
     (if effect_at p key \<noteq> None then am_return p
      else am_bind (timestamp A W) (\<lambda>now.
        am_bind (am_lift (addPendingEffect (go_runtime A) key AcknowledgeProvenEvent
          (JObject [(''eventId'', JString (ob_event_id (pcd_event c))), (''runId'', JString (ob_run_id (pcd_event c))),
             (''revisionHash'', JString (ob_revision_hash (pcd_event c)))]) now None p)) (\<lambda>queued.
        save_project A W queued
          (acknowledgement_event ''build.proven_event_acknowledgement_queued'' ActorSystem p b c key) None None)))"

definition acknowledge_event :: "agent_options \<Rightarrow> agent_world \<Rightarrow> build_batch \<Rightarrow> proven_candidate \<Rightarrow> project \<Rightarrow> project agent" where
  "acknowledge_event A W b c p =
     (let i = ob_event_id (pcd_event c); key = ''build:ack:'' @ i in
      if map_option ef_status (effect_at p key) = Some EffectCompleted then am_return p
      else am_bind (queue_acknowledgement A W b c key p) (\<lambda>q.
        am_then (markEffectAttempt key)
        (am_then (am_await W (gw_acknowledged W))
        (am_bind (timestamp A W) (\<lambda>now.
         am_bind (am_lift (completeEffect (go_runtime A) key i
            (JObject [(''provider'', JString ''build-backend''), (''eventId'', JString i), (''acknowledged'', JBool True)]) now q)) (\<lambda>q'.
         save_project A W q' (acknowledgement_event ''build.proven_event_acknowledged'' ActorProvider q' b c key) None None))))))"

fun acknowledge_events :: "agent_options \<Rightarrow> agent_world \<Rightarrow> build_batch \<Rightarrow> proven_candidate list \<Rightarrow> project \<Rightarrow> project agent" where
  "acknowledge_events A W b [] p = am_return p"
| "acknowledge_events A W b (c # cs) p = am_bind (acknowledge_event A W b c p) (acknowledge_events A W b cs)"

definition acknowledgeBatchEvents :: "agent_options \<Rightarrow> agent_world \<Rightarrow> project \<Rightarrow> build_batch \<Rightarrow> project agent" where
  "acknowledgeBatchEvents A W p b = acknowledge_events A W b (batch_candidates p b) p"

text \<open>What follows a build: the dashboard link, the dispatch of a batch, the preview and the deployment of the
  candidate named last.\<close>

record build_walk =
  bw_access :: "project \<Rightarrow> proposal_version \<Rightarrow> project agent"
  bw_dispatch :: "project \<Rightarrow> proposal_version \<Rightarrow> project agent"
  bw_preview :: "project \<Rightarrow> build_batch \<Rightarrow> proposal_version \<Rightarrow> string \<Rightarrow> project agent"
  bw_deploy :: "project \<Rightarrow> build_batch \<Rightarrow> proposal_version \<Rightarrow> string \<Rightarrow> project agent"

definition failed_batch :: "string \<Rightarrow> build_batch \<Rightarrow> build_batch" where
  "failed_batch now b = b\<lparr>bb_status := BatchFailed, bb_completed_at := Some now\<rparr>"

definition selected_winner :: "runtime \<Rightarrow> project \<Rightarrow> build_batch \<Rightarrow> agent_error + candidate_proven_payload" where
  "selected_winner R p b =
     (case selectProvenWinner R (map (\<lambda>c. ob_payload (pcd_event c)) (batch_candidates p b))
        \<lparr>ws_project_id = pj_project_id p, ws_contract_hash = bb_build_contract_hash b\<rparr> of
        Inl InvalidCandidate \<Rightarrow> Inl (ScriptError ''ZodError'')
      | Inl (winner_error.NoProvenCandidate _) \<Rightarrow> Inl (ScriptError ''NoProvenCandidateError'')
      | Inr c \<Rightarrow> Inr c)"

definition finalizeBuildBatch ::
  "agent_options \<Rightarrow> agent_world \<Rightarrow> build_walk \<Rightarrow> project \<Rightarrow> build_batch \<Rightarrow> proposal_version \<Rightarrow> project agent" where
  "finalizeBuildBatch A W K p b q =
     (if batch_candidates p b = []
      then if bb_status b = BatchFailed then am_return p
        else let st = buildProgressStatus p lifecycle_status.NoProvenCandidate in
          am_bind (am_lift (activeBuildBatch p)) (\<lambda>_.
          am_bind (timestamp A W) (\<lambda>now.
          save_project A W ((change_batch (failed_batch now) p)\<lparr>pj_status := st\<rparr>)
            (event_of ''build.no_proven_candidate'' ActorSystem ((batch_payload b st)\<lparr>ep_previous_status := Some (pj_status p)\<rparr>))
            None None))
      else am_bind (isLatestDeliverableBatch A p b) (\<lambda>latest.
        if \<not> latest then acknowledgeBatchEvents A W p b
        else am_bind (am_lift (selected_winner (go_runtime A) p b)) (\<lambda>winner.
          bw_preview K p b q (cp_candidate_id winner))))"

subsection \<open>The walk over the active batch\<close>

definition am_attempt :: "'a agent \<Rightarrow> (agent_error + 'a) agent" where
  "am_attempt m s = (let (r, s') = m s in (Inr r, s'))"

definition backfill_deadline :: "agent_options \<Rightarrow> agent_world \<Rightarrow> project \<Rightarrow> build_batch \<Rightarrow> project agent" where
  "backfill_deadline A W p b =
     (if truthy (bb_build_deadline_at b) \<noteq> None then am_return p
      else am_bind (am_lift (the_or (ScriptError ''RangeError'') (rt_date_parse (go_runtime A) (bb_created_at b)))) (\<lambda>t.
        save_project A W (change_batch (\<lambda>b. b\<lparr>bb_build_deadline_at := Some (go_iso A (t + go_build_deadline_ms A))\<rparr>) p)
          (event_of ''build.deadline_backfilled'' ActorSystem (batch_payload b (pj_status p))) None None))"

definition undispatched :: "build_batch \<Rightarrow> bool" where
  "undispatched b \<longleftrightarrow> length (bb_runs b) < bb_requested_candidate_count b \<or> bb_status b \<in> {BatchPending, BatchDispatched}"

definition give_access :: "build_walk \<Rightarrow> project \<Rightarrow> build_batch \<Rightarrow> proposal_version \<Rightarrow> project agent" where
  "give_access K p b q =
     (if length (bb_runs b) = bb_requested_candidate_count b \<and> bb_status b \<notin> {BatchPending, BatchDispatched}
      then bw_access K p q else am_return p)"

definition preview_mail :: "project \<Rightarrow> durable_effect \<Rightarrow> project_message option" where
  "preview_mail p e = (case truthy (ef_provider_id e) of
     None \<Rightarrow> None
   | Some i \<Rightarrow> find (\<lambda>m. mg_direction m = Outbound \<and> mg_purpose m = ProvenPreviewMail
       \<and> mg_provider_message_id m = Some i) (pj_messages p))"

definition previewed :: "agent_options \<Rightarrow> agent_world \<Rightarrow> build_walk \<Rightarrow> build_batch \<Rightarrow> proposal_version \<Rightarrow> string \<Rightarrow> project
    \<Rightarrow> project agent" where
  "previewed A W K b q candidateId p =
     am_bind (am_lift (requireProvenCandidate p (bb_batch_id b) candidateId)) (\<lambda>winner.
     case effect_at p (previewMailEffectKey (go_runtime A) (pj_project_id p) (pv_version q) (ob_revision_hash (pcd_event winner))) of
       None \<Rightarrow> am_return p
     | Some e \<Rightarrow> if truthy (ef_completed_at e) = None then am_return p
         else (case preview_mail p e of
             None \<Rightarrow> am_return p
           | Some m \<Rightarrow> if mg_delivery_status m \<noteq> MailDelivered \<or> truthy (mg_delivery_updated_at m) = None then am_return p
               else am_bind (am_now W) (\<lambda>now.
                 if date_reached (go_runtime A) (mg_delivery_updated_at m) (now - go_preview_review_ms A)
                 then bw_deploy K p b q candidateId else am_return p)))"

definition follow_preview ::
  "agent_options \<Rightarrow> agent_world \<Rightarrow> build_walk \<Rightarrow> project \<Rightarrow> build_batch \<Rightarrow> proposal_version \<Rightarrow> string \<Rightarrow> project agent" where
  "follow_preview A W K p b q candidateId =
     am_bind (isLatestDeliverableBatch A p b) (\<lambda>latest.
     if \<not> latest then acknowledgeBatchEvents A W p b
     else am_bind (bw_preview K p b q candidateId) (previewed A W K b q candidateId))"

definition evidence_unavailable ::
  "agent_options \<Rightarrow> agent_world \<Rightarrow> build_walk \<Rightarrow> proposal_version \<Rightarrow> bool \<Rightarrow> bool \<Rightarrow> project \<Rightarrow> build_batch \<Rightarrow> agent_error
    \<Rightarrow> project agent" where
  "evidence_unavailable A W K q deadline proofDeadline p b e =
     (if (\<not> deadline \<and> \<not> proofDeadline) \<or> \<not> isTransientProviderFailure e then am_throw e
      else am_bind (recordUnavailableBuildEvidenceAtDeadline A W p b) (\<lambda>p1.
        am_bind (am_lift (activeBuildBatch p1)) (\<lambda>b1.
        if deadline \<and> \<not> list_all run_ended (bb_runs b1)
        then am_bind (retireExpiredBuildBatch A W p1 b1) (\<lambda>p2.
          am_bind (am_lift (activeBuildBatch p2)) (\<lambda>b2. finalizeBuildBatch A W K p2 b2 q))
        else finalizeBuildBatch A W K p1 b1 q)))"

definition unproven_runs :: "project \<Rightarrow> build_batch \<Rightarrow> string list" where
  "unproven_runs p b = filter (\<lambda>i. i \<notin> set (map (\<lambda>c. ob_run_id (pcd_event c)) (batch_candidates p b)))
     (remdups (map bi_run_id (filter (\<lambda>r. bi_status r = RunPassed) (bb_runs b))))"

definition start_grace :: "agent_options \<Rightarrow> agent_world \<Rightarrow> project \<Rightarrow> build_batch \<Rightarrow> project agent" where
  "start_grace A W p b =
     (let st = buildProgressStatus p Verifying in
      am_bind (am_lift (activeBuildBatch p)) (\<lambda>_.
      am_bind (am_now W) (\<lambda>now.
      save_project A W ((change_batch (\<lambda>b. b\<lparr>bb_status := BatchVerifying,
            bb_proof_event_deadline_at := Some (go_iso A (now + go_proof_grace_ms A))\<rparr>) p)\<lparr>pj_status := st\<rparr>)
        (event_of ''build.proof_event_grace_started'' ActorSystem
          ((batch_payload b st)\<lparr>ep_previous_status := Some (pj_status p), ep_count := Some (length (unproven_runs p b))\<rparr>))
        None None)))"

definition settle_batch :: "agent_options \<Rightarrow> agent_world \<Rightarrow> build_walk \<Rightarrow> proposal_version \<Rightarrow> string \<Rightarrow> project \<Rightarrow> build_batch
    \<Rightarrow> project agent" where
  "settle_batch A W K q buildDeadlineAt p b =
     am_bind (am_now W) (\<lambda>now.
     if date_reached (go_runtime A) (Some buildDeadlineAt) now
        \<and> (bb_proof_event_deadline_at b = None \<or> length (bb_runs b) < bb_requested_candidate_count b \<or> \<not> list_all run_ended (bb_runs b))
     then am_bind (retireExpiredBuildBatch A W p b) (\<lambda>p1.
       am_bind (am_lift (activeBuildBatch p1)) (\<lambda>b1. finalizeBuildBatch A W K p1 b1 q))
     else if \<not> all_ended b then am_return p
     else if unproven_runs p b = [] then finalizeBuildBatch A W K p b q
     else if truthy (bb_proof_event_deadline_at b) = None then start_grace A W p b
     else am_bind (am_now W) (\<lambda>now'.
       if later_than (go_runtime A) (bb_proof_event_deadline_at b) now' then am_return p
       else finalizeBuildBatch A W K p b q))"

definition gather_evidence ::
  "agent_options \<Rightarrow> agent_world \<Rightarrow> build_walk \<Rightarrow> proposal_version \<Rightarrow> string \<Rightarrow> bool \<Rightarrow> project \<Rightarrow> build_batch \<Rightarrow> project agent" where
  "gather_evidence A W K q buildDeadlineAt deadline p b =
     am_bind (if bb_proof_event_deadline_at b = None then am_return False
       else am_bind (am_now W) (\<lambda>now. am_return (date_reached (go_runtime A) (bb_proof_event_deadline_at b) now))) (\<lambda>proofDeadline.
     am_bind (am_attempt (refreshBuildRuns A W p b)) (\<lambda>r.
     case r of
       Inl e \<Rightarrow> evidence_unavailable A W K q deadline proofDeadline p b e
     | Inr p1 \<Rightarrow> am_bind (am_lift (activeBuildBatch p1)) (\<lambda>b1.
         am_bind (am_attempt (ingestProvenEvents A W p1 b1)) (\<lambda>r'.
         case r' of
           Inl e \<Rightarrow> evidence_unavailable A W K q deadline proofDeadline p1 b1 e
         | Inr p2 \<Rightarrow> am_bind (am_lift (activeBuildBatch p2)) (settle_batch A W K q buildDeadlineAt p2)))))"

definition reconcileActiveBuildBatch :: "agent_options \<Rightarrow> agent_world \<Rightarrow> build_walk \<Rightarrow> project \<Rightarrow> project agent" where
  "reconcileActiveBuildBatch A W K initial =
     (if truthy (pj_active_batch_id initial) = None then am_return initial
      else am_bind (am_lift (activeBuildBatch initial)) (\<lambda>b0.
       am_bind (am_lift (proposalForBatch initial b0)) (\<lambda>q.
       am_bind (backfill_deadline A W initial b0) (\<lambda>p1.
       am_bind (am_lift (activeBuildBatch p1)) (\<lambda>b1.
       if bb_status b1 \<in> {BatchFailed, BatchCancelled} then am_return p1
       else am_bind (give_access K p1 b1 q) (\<lambda>p2.
        am_bind (am_lift (activeBuildBatch p2)) (\<lambda>b2.
        am_bind (am_the ''Build batch deadline is missing'' (truthy (bb_build_deadline_at b2))) (\<lambda>buildDeadlineAt.
        am_bind (am_now W) (\<lambda>now.
        let deadline = date_reached (go_runtime A) (Some buildDeadlineAt) now in
        am_bind (if \<not> deadline \<and> undispatched b2 then bw_dispatch K p2 q else am_return p2) (\<lambda>p3.
        am_bind (am_lift (activeBuildBatch p3)) (\<lambda>b3.
        case find (\<lambda>v. pw_batch_id v = bb_batch_id b3) (pj_previews p3) of
          Some v \<Rightarrow> follow_preview A W K p3 b3 q (pw_candidate_id v)
        | None \<Rightarrow> gather_evidence A W K q buildDeadlineAt deadline p3 b3)))))))))))"

end
