(* ===== verification/Agent_Build_Properties.thy ===== *)
theory Agent_Build_Properties
  imports Agent_Build Agent_Payment_Properties
begin

text \<open>
  A batch past its deadline is retired: every run of it is over afterwards, and each one the agent declared
  over was called off by the build server itself.
\<close>

subsection \<open>What a save without an inbox event answers\<close>

text \<open>Without the batches, the effects, the status and the bookkeeping of saves.\<close>

definition business :: "project \<Rightarrow> project" where
  "business p = p\<lparr>pj_batches := [], pj_effects := [], pj_status := Building, pj_revision := 0, pj_created_at := [],
     pj_updated_at := []\<rparr>"

lemma business_fields:
  "pj_project_id (business p) = pj_project_id p" "pj_active_batch_id (business p) = pj_active_batch_id p"
  "pj_candidates (business p) = pj_candidates p" "pj_payments (business p) = pj_payments p"
  by (simp_all add: business_def)

lemma business_updates [simp]:
  "business (p\<lparr>pj_batches := bs\<rparr>) = business p" "business (p\<lparr>pj_effects := es\<rparr>) = business p"
  "business (p\<lparr>pj_status := st\<rparr>) = business p" "business (change_effect key f p) = business p"
  "business (change_batch g p) = business p" "business (set_run_status i r rs p) = business p"
  by (simp_all add: business_def change_effect_def change_batch_def set_run_status_def)

lemma same_business_ids:
  assumes "business q = business p"
  shows "pj_project_id q = pj_project_id p" "pj_active_batch_id q = pj_active_batch_id p"
  using assms by (metis business_fields)+

lemma save_plain_InrD:
  assumes "save_project A W q e None None s = (Inr q', s')"
  shows "\<exists>c u. q' = q\<lparr>pj_revision := Suc (pj_revision q), pj_created_at := c, pj_updated_at := u\<rparr>"
proof -
  let ?R = "go_runtime A" and ?V = "go_vault A" and ?k = "gs_step s"
  have w: "saveProject ?R ?V (gw_clock W ?k) (gw_uuid W ?k) (gw_nonce W ?k) q (pj_revision q) e None None (gs_db s)
      = Inr (q', gs_db s')"
    using assms by (auto simp: save_project_def Let_def am_then_def am_bind_Inr am_require_Inr am_store_Inr)
  then obtain row db2 where "project_row_of (gs_db s) (pj_project_id q) = Some row"
    "write_project ?R ?V (gw_clock W ?k 2) (gw_uuid W ?k) (gw_nonce W ?k) q (pj_revision q) e row db2 = Inr (q', gs_db s')"
    unfolding saveProject_def consume_login_def accept_inbox_def by (auto simp: bind_ok_Inr the_or_Inr split: option.splits)
  then have "q' = next_project q row (gw_clock W ?k 2)" by (auto simp: write_project_def Let_def bind_ok_Inr)
  then show ?thesis by (auto simp: next_project_def)
qed

lemma saved_business:
  assumes "save_project A W q e None None s = (Inr q', s')"
  shows "business q' = business q" "pj_batches q' = pj_batches q" "pj_effects q' = pj_effects q" "pj_status q' = pj_status q"
  using save_plain_InrD [OF assms] by (auto simp: business_def)

lemma find_update_first_other:
  "(\<And>x. Q x \<Longrightarrow> \<not> P x \<and> \<not> P (f x)) \<Longrightarrow> find P (update_first Q f xs) = find P xs"
  by (induction xs) auto

subsection \<open>One cancellation\<close>

definition cancel_key :: "build_batch \<Rightarrow> build_run_identity \<Rightarrow> string" where
  "cancel_key b r = buildCancellationEffectKey (bb_batch_id b) (bi_run_id r)"

definition called_off :: "project \<Rightarrow> build_batch \<Rightarrow> build_run_identity \<Rightarrow> bool" where
  "called_off p b r \<longleftrightarrow> map_option ef_status (effect_at p (cancel_key b r)) = Some EffectCompleted"

definition confirmed_off :: "agent_world \<Rightarrow> project \<Rightarrow> build_batch \<Rightarrow> build_run_identity \<Rightarrow> bool" where
  "confirmed_off W p b r \<longleftrightarrow> (\<exists>k x j. gw_cancelled W k = Inr (x, j) \<and> cancellation_confirmed p b r x)"

text \<open>Runs may only end.\<close>

definition may_end :: "build_run_identity \<Rightarrow> build_run_identity \<Rightarrow> bool" where
  "may_end r r' \<longleftrightarrow> r' = r \<or> (\<exists>st. isTerminalStatus st \<and> r' = r\<lparr>bi_status := st\<rparr>)"

definition runs_end :: "build_batch \<Rightarrow> build_batch \<Rightarrow> bool" where
  "runs_end b b' \<longleftrightarrow> (\<exists>rs. b' = b\<lparr>bb_runs := rs\<rparr> \<and> list_all2 may_end (bb_runs b) rs)"

lemma may_end_trans: "may_end r r' \<Longrightarrow> may_end r' r'' \<Longrightarrow> may_end r r''"
  by (auto simp: may_end_def)

lemma runs_end_refl: "runs_end b b"
  unfolding runs_end_def by (rule exI [of _ "bb_runs b"]) (simp add: list_all2_same may_end_def)

lemma runs_end_trans: "runs_end b b' \<Longrightarrow> runs_end b' b'' \<Longrightarrow> runs_end b b''"
  unfolding runs_end_def using list_all2_trans [of may_end may_end may_end, OF may_end_trans] by fastforce

lemma list_all2_update_first: "(\<And>x. P x x) \<Longrightarrow> (\<And>x. P x (f x)) \<Longrightarrow> list_all2 P xs (update_first Q f xs)"
  by (induction xs) (auto simp: list_all2_same)

lemma set_run_status_ends:
  assumes "stored_batch p = Some b'" "bb_batch_id b' = i" "isTerminalStatus st"
  shows "\<exists>b''. stored_batch (set_run_status i r st p) = Some b'' \<and> runs_end b' b''"
proof -
  let ?f = "\<lambda>b. b\<lparr>bb_runs := update_first (\<lambda>x. bi_run_id x = r) (\<lambda>x. x\<lparr>bi_status := st\<rparr>) (bb_runs b)\<rparr>"
  obtain j where j: "pj_active_batch_id p = Some j" "find (\<lambda>b. bb_batch_id b = j) (pj_batches p) = Some b'"
    using assms(1) by (auto simp: stored_batch_def split: option.splits)
  have "j = i" using find_eq_SomeD [OF j(2)] assms(2) by simp
  then have "stored_batch (set_run_status i r st p) = Some (?f b')"
    using j by (simp add: stored_batch_def set_run_status_def find_update_first)
  moreover have "list_all2 may_end (bb_runs b') (bb_runs (?f b'))"
    using assms(3) by (simp, intro list_all2_update_first) (auto simp: may_end_def)
  ultimately show ?thesis unfolding runs_end_def by auto
qed

lemma effect_at_batches [simp]: "effect_at (set_run_status i r st p) = effect_at p"
  by (simp add: fun_eq_iff effect_at_def set_run_status_def)

lemma stored_batch_ids:
  assumes "business q = business p" "pj_batches q = pj_batches p" shows "stored_batch q = stored_batch p"
  using assms(2) by (cases "pj_active_batch_id p") (simp_all add: stored_batch_def same_business_ids [OF assms(1)])

lemma cancelled_terminal: "isTerminalStatus (cancelled_status x)"
  by (simp add: cancelled_status_def isTerminalStatus_def TERMINAL_STATUSES_def)

lemma queue_cancellation_InrD:
  assumes "queue_cancellation A W p b r reason s = (Inr q, s')"
  shows "business q = business p \<and> pj_batches q = pj_batches p
    \<and> (\<forall>key. key \<noteq> cancel_key b r \<longrightarrow> effect_at q key = effect_at p key)"
proof (cases "effect_at p (cancel_key b r) = None")
  case True
  let ?e = "pending_effect (cancel_key b r) CancelBuildRun (printed_digest (go_runtime A) (cancellation_input b r))
    (go_iso A (gw_now W (gs_step s))) None"
  have a: "save_project A W (p\<lparr>pj_effects := pj_effects p @ [?e]\<rparr>)
      (cancellation_event ''build.run_cancellation_queued'' ActorSystem p b r reason) None None (s\<lparr>gs_step := Suc (gs_step s)\<rparr>)
      = (Inr q, s')"
    using assms True by (simp add: queue_cancellation_def cancel_key_def Let_def am_bind_step addPendingEffect_def)
  have "ef_key ?e = cancel_key b r" by (simp add: pending_effect_def)
  with saved_business [OF a] show ?thesis by (auto simp: effect_at_def find_append split: option.splits)
next
  case False
  then show ?thesis using assms by (simp add: queue_cancellation_def cancel_key_def Let_def)
qed

lemma confirm_cancellation_InrD:
  assumes "confirm_cancellation A W p b r reason (x, j) s = (Inr q, s')"
  shows "cancellation_confirmed p b r x \<and> business q = business p
    \<and> pj_batches q = pj_batches (set_run_status (bb_batch_id b) (bi_run_id r) (cancelled_status x) p)
    \<and> (\<forall>key. key \<noteq> cancel_key b r \<longrightarrow> effect_at q key = effect_at p key)"
proof -
  let ?p = "set_run_status (bb_batch_id b) (bi_run_id r) (cancelled_status x) p"
  obtain q1 s1 e now where a: "cancellation_confirmed p b r x"
    "completeEffect (go_runtime A) (cancel_key b r) (br_id x) j now ?p = Inr q1"
    "save_project A W q1 e None None s1 = (Inr q, s')"
    using assms by (auto simp: confirm_cancellation_def Let_def am_then_def am_bind_Inr am_require_Inr am_the_Inr cancel_key_def)
  have q1: "q1 = change_effect (cancel_key b r) (completed (go_runtime A) (br_id x) j now) ?p"
    using a(2) by (auto simp: completeEffect_def bind_ok_Inr)
  have "effect_at q1 key = effect_at p key" if "key \<noteq> cancel_key b r" for key
    using that find_update_first_other [of "\<lambda>e. ef_key e = cancel_key b r" "\<lambda>e. ef_key e = key"
      "completed (go_runtime A) (br_id x) j now"]
    unfolding q1 by (simp add: effect_at_def change_effect_def completed_def set_run_status_def)
  moreover have "pj_batches q1 = pj_batches ?p" "business q1 = business p" unfolding q1 by (simp_all add: change_effect_def)
  ultimately show ?thesis using saved_business [OF a(3)] a(1) by (simp add: effect_at_def)
qed

lemma cancelBuildRun_InrD:
  assumes "cancelBuildRun A W p b r reason s = (Inr q, s')" and b: "stored_batch p = Some b'" "bb_batch_id b' = bb_batch_id b"
  shows "business q = business p \<and> (\<exists>b''. stored_batch q = Some b'' \<and> runs_end b' b'')
    \<and> (\<forall>key. key \<noteq> cancel_key b r \<longrightarrow> effect_at q key = effect_at p key) \<and> (called_off p b r \<or> confirmed_off W p b r)"
proof (cases "called_off p b r")
  case True
  then show ?thesis
    using assms runs_end_refl by (auto simp: cancelBuildRun_def called_off_def cancel_key_def Let_def)
next
  case False
  then obtain p1 s1 x j k s2 where a: "queue_cancellation A W p b r reason s = (Inr p1, s1)" "gw_cancelled W k = Inr (x, j)"
    "confirm_cancellation A W p1 b r reason (x, j) s2 = (Inr q, s')"
  proof -
    have "map_option ef_status (effect_at p (buildCancellationEffectKey (bb_batch_id b) (bi_run_id r))) \<noteq> Some EffectCompleted"
      using False by (simp add: called_off_def cancel_key_def)
    from assms(1) [unfolded cancelBuildRun_def Let_def if_not_P [OF this]] show thesis
      by (auto simp: am_then_def am_bind_Inr dest!: am_await_Inr intro: that)
  qed
  note p1 = queue_cancellation_InrD [OF a(1)] and q = confirm_cancellation_InrD [OF a(3)]
  have s1: "stored_batch p1 = Some b'" using b(1) p1 stored_batch_ids [of p1 p] by simp
  obtain b'' where "stored_batch (set_run_status (bb_batch_id b) (bi_run_id r) (cancelled_status x) p1) = Some b''" "runs_end b' b''"
    using set_run_status_ends [OF s1 b(2) cancelled_terminal] by blast
  then have "\<exists>b''. stored_batch q = Some b'' \<and> runs_end b' b''"
    using q stored_batch_ids [of q "set_run_status (bb_batch_id b) (bi_run_id r) (cancelled_status x) p1"] by auto
  moreover have "cancellation_confirmed p b r x"
    using q same_business_ids(1) [of p1 p] p1 by (simp add: cancellation_confirmed_def expected_run_def)
  then have "confirmed_off W p b r" using a(2) unfolding confirmed_off_def by blast
  ultimately show ?thesis using p1 q by simp
qed

subsection \<open>All of them\<close>

lemma cancel_runs_InrD:
  assumes "cancel_runs A W b reason rs p s = (Inr q, s')" "stored_batch p = Some b'" "bb_batch_id b' = bb_batch_id b"
    and "distinct (map bi_run_id rs)"
  shows "business q = business p \<and> (\<exists>b''. stored_batch q = Some b'' \<and> runs_end b' b'')
    \<and> (\<forall>r \<in> set rs. called_off p b r \<or> confirmed_off W p b r)"
  using assms
proof (induction rs arbitrary: p s b')
  case Nil
  then show ?case using runs_end_refl by auto
next
  case (Cons r rs)
  then obtain p1 s1 where a: "cancelBuildRun A W p b r reason s = (Inr p1, s1)" "cancel_runs A W b reason rs p1 s1 = (Inr q, s')"
    by (auto simp: am_bind_Inr)
  have c: "business p1 = business p" "\<forall>key. key \<noteq> cancel_key b r \<longrightarrow> effect_at p1 key = effect_at p key"
      "called_off p b r \<or> confirmed_off W p b r"
    using cancelBuildRun_InrD [OF a(1) Cons.prems(2,3)] by blast+
  obtain b1 where b1: "stored_batch p1 = Some b1" "runs_end b' b1"
    using cancelBuildRun_InrD [OF a(1) Cons.prems(2,3)] by blast
  have i: "bb_batch_id b1 = bb_batch_id b" using b1(2) Cons.prems(3) by (auto simp: runs_end_def)
  have "distinct (map bi_run_id rs)" using Cons.prems(4) by simp
  note ih = Cons.IH [OF a(2) b1(1) i this]
  have "called_off p b x \<or> confirmed_off W p b x" if x: "x \<in> set rs" for x
  proof -
    have "bi_run_id x \<noteq> bi_run_id r" using x Cons.prems(4) by (metis distinct.simps(2) image_eqI list.set_map list.simps(9))
    then have "cancel_key b x \<noteq> cancel_key b r" by (simp add: cancel_key_def buildCancellationEffectKey_def)
    then have "called_off p1 b x = called_off p b x" using c(2) by (simp add: called_off_def)
    moreover have "confirmed_off W p1 b x = confirmed_off W p b x"
      by (simp add: confirmed_off_def cancellation_confirmed_def expected_run_def same_business_ids(1) [OF c(1)])
    ultimately show ?thesis using ih x by blast
  qed
  then show ?case using ih c b1 runs_end_trans by (metis set_ConsD)
qed

lemma runs_end_frame: "runs_end b b' \<Longrightarrow> map bi_run_id (bb_runs b') = map bi_run_id (bb_runs b)
    \<and> b' = b\<lparr>bb_runs := bb_runs b'\<rparr>"
proof -
  assume "runs_end b b'"
  then obtain rs where rs: "b' = b\<lparr>bb_runs := rs\<rparr>" "list_all2 may_end (bb_runs b) rs" by (auto simp: runs_end_def)
  from rs(2) have "map bi_run_id rs = map bi_run_id (bb_runs b)" by (induction) (auto simp: may_end_def)
  then show ?thesis using rs(1) by simp
qed

lemma runs_end_ended: "runs_end b b' \<Longrightarrow> list_all run_ended (bb_runs b) \<Longrightarrow> list_all run_ended (bb_runs b')"
proof -
  assume "runs_end b b'" and all: "list_all run_ended (bb_runs b)"
  then obtain rs where rs: "b' = b\<lparr>bb_runs := rs\<rparr>" "list_all2 may_end (bb_runs b) rs" by (auto simp: runs_end_def)
  from rs(2) all have "list_all run_ended rs" by (induction) (auto simp: may_end_def run_ended_def)
  then show ?thesis using rs(1) by simp
qed

lemma retired_runs:
  "map bi_run_id (bb_runs (retired now b)) = map bi_run_id (bb_runs b)" "list_all run_ended (bb_runs (retired now b))"
  by (auto simp: retired_def ended_run_def list_all_iff run_ended_def isTerminalStatus_def TERMINAL_STATUSES_def)

lemma stored_batch_change:
  "stored_batch p = Some b \<Longrightarrow> bb_batch_id (f b) = bb_batch_id b \<Longrightarrow> stored_batch (change_batch f p) = Some (f b)"
proof -
  assume b: "stored_batch p = Some b" and f: "bb_batch_id (f b) = bb_batch_id b"
  then obtain i where i: "pj_active_batch_id p = Some i" "find (\<lambda>b. bb_batch_id b = i) (pj_batches p) = Some b"
    by (auto simp: stored_batch_def split: option.splits)
  have P: "(\<lambda>b. pj_active_batch_id p = Some (bb_batch_id b)) = (\<lambda>b. bb_batch_id b = i)" using i(1) by auto
  have "bb_batch_id (f b) = i" using find_eq_SomeD [OF i(2)] f by simp
  then show ?thesis unfolding stored_batch_def change_batch_def P using i find_update_first_at [OF i(2), of f] by simp
qed

text \<open>C40. No run is written off without the build server's word.  When a batch whose deadline has passed is
  retired, all its runs are over: the batch keeps its runs, each of them in a terminal status, is in
  verification unless they had all ended before, and has a deadline for its proofs; nothing else of the
  project changes but its status and its effects.  And each run that was still under way had been called off
  before, or the build server answered the agent with exactly this run, of this assignment, candidate,
  project and contract, as cancelled or over.\<close>

theorem retired_runs_are_confirmed:
  assumes "activeBuildBatch p = Inr b" and "distinct (map bi_run_id (bb_runs b))"
    and "retireExpiredBuildBatch A W p b s = (Inr q, s')"
  shows "business q = business p
    \<and> (\<exists>b'. activeBuildBatch q = Inr b' \<and> map bi_run_id (bb_runs b') = map bi_run_id (bb_runs b)
        \<and> list_all run_ended (bb_runs b') \<and> bb_proof_event_deadline_at b' \<noteq> None
        \<and> (list_all run_ended (bb_runs b) \<or> bb_status b' = BatchVerifying))
    \<and> (\<forall>r \<in> set (bb_runs b). run_ended r \<or> called_off p b r
        \<or> (\<exists>k x j. gw_cancelled W k = Inr (x, j) \<and> expected_run p b r x \<and> (br_cancel_requested x \<or> isTerminalStatus (br_status x))))"
proof -
  let ?rs = "cancellation_targets p b"
  have b: "stored_batch p = Some b" using assms(1) by (simp add: activeBuildBatch_def the_or_Inr)
  have d: "distinct (map bi_run_id ?rs)" using assms(2) by (simp add: cancellation_targets_def distinct_map_filter)
  obtain saved s1 where c: "cancel_runs A W b DeadlineExpired ?rs p s = (Inr saved, s1)"
    and rest: "(if bb_proof_event_deadline_at b \<noteq> None \<and> filter (\<lambda>r. \<not> run_ended r) (bb_runs b) = [] then am_return saved
      else am_bind (am_lift (activeBuildBatch saved)) (\<lambda>_. am_bind (timestamp A W) (\<lambda>now.
        let st = buildProgressStatus saved Verifying in
        save_project A W ((change_batch (retired now) saved)\<lparr>pj_status := st\<rparr>)
          (event_of ''build.deadline_expired'' ActorSystem ((batch_payload b st)\<lparr>ep_previous_status := Some (pj_status saved),
             ep_count := Some (length (filter (\<lambda>r. \<not> run_ended r) (bb_runs b)))\<rparr>)) None None))) s1 = (Inr q, s')"
    using assms(3) by (auto simp: retireExpiredBuildBatch_def Let_def am_bind_Inr)
  obtain b1 where saved: "business saved = business p" "stored_batch saved = Some b1" "runs_end b b1"
    and off: "\<forall>r \<in> set ?rs. called_off p b r \<or> confirmed_off W p b r"
    using cancel_runs_InrD [OF c b refl d] by blast
  note frame = runs_end_frame [OF saved(3)]
  have "\<forall>r \<in> set (bb_runs b). run_ended r \<or> called_off p b r \<or> confirmed_off W p b r"
    using off by (auto simp: cancellation_targets_def)
  moreover have "business q = business p \<and> (\<exists>b'. stored_batch q = Some b' \<and> map bi_run_id (bb_runs b') = map bi_run_id (bb_runs b)
        \<and> list_all run_ended (bb_runs b') \<and> bb_proof_event_deadline_at b' \<noteq> None
        \<and> (list_all run_ended (bb_runs b) \<or> bb_status b' = BatchVerifying))"
  proof (cases "bb_proof_event_deadline_at b \<noteq> None \<and> filter (\<lambda>r. \<not> run_ended r) (bb_runs b) = []")
    case True
    then have all: "list_all run_ended (bb_runs b)" by (simp add: filter_empty_conv list_all_iff)
    have "q = saved" using rest True by simp
    moreover have "bb_proof_event_deadline_at b1 = bb_proof_event_deadline_at b" by (subst conjunct2 [OF frame]) simp
    ultimately show ?thesis using saved runs_end_ended [OF saved(3) all] True all frame by auto
  next
    case False
    let ?q = "\<lambda>now. (change_batch (retired now) saved)\<lparr>pj_status := buildProgressStatus saved Verifying\<rparr>"
    obtain now e s2 where w: "save_project A W (?q now) e None None s2 = (Inr q, s')"
      using rest unfolding if_not_P [OF False] by (auto simp: am_bind_Inr Let_def timestamp_eq)
    have "stored_batch (?q now) = Some (retired now b1)"
      using stored_batch_change [OF saved(2), of "retired now"]
        stored_batch_ids [of "?q now" "change_batch (retired now) saved"] by (simp add: retired_def)
    then have "stored_batch q = Some (retired now b1)"
      using saved_business [OF w] stored_batch_ids [of q "?q now"] by simp
    then show ?thesis using saved_business [OF w] saved(1) retired_runs [of now b1] frame by (simp add: retired_def)
  qed
  ultimately show ?thesis by (simp add: activeBuildBatch_def the_or_Inr confirmed_off_def cancellation_confirmed_def)
qed

subsection \<open>An overdue batch\<close>

definition building_batch :: "run_status \<Rightarrow> batch_status \<Rightarrow> string option \<Rightarrow> build_batch" where
  "building_batch rst bst pd = sample_batch\<lparr>bb_runs := [\<lparr>bi_run_id = ''run-1'', bi_candidate_id = ''candidate-1'',
     bi_assignment_id = ''assignment-1'', bi_status = rst\<rparr>], bb_status := bst, bb_proof_event_deadline_at := pd,
     bb_completed_at := None\<rparr>"

definition building_project ::
  "nat \<Rightarrow> string \<Rightarrow> build_batch \<Rightarrow> durable_effect list \<Rightarrow> lifecycle_status \<Rightarrow> project" where
  "building_project n u b es st = sample_project\<lparr>pj_revision := n, pj_updated_at := u, pj_status := st, pj_batches := [b],
     pj_candidates := [], pj_deployments := [], pj_messages := [], pj_effects := es\<rparr>"

lemma building_batch_fields [simp]:
  "bb_batch_id (building_batch rst bst pd) = ''batch-1''" "bb_proof_event_deadline_at (building_batch rst bst pd) = pd"
  "bb_runs (building_batch rst bst pd) = [\<lparr>bi_run_id = ''run-1'', bi_candidate_id = ''candidate-1'',
     bi_assignment_id = ''assignment-1'', bi_status = rst\<rparr>]"
  "bb_build_contract_hash (building_batch rst bst pd) = sample_hash" "bb_proposal_version (building_batch rst bst pd) = 1"
  "bb_proposal_digest (building_batch rst bst pd) = sample_hash"
  by (simp_all add: building_batch_def sample_batch_def)

lemma building_project_fields [simp]:
  "pj_project_id (building_project n u b es st) = ''project-1''" "pj_revision (building_project n u b es st) = n"
  "pj_created_at (building_project n u b es st) = ''t0''" "pj_batches (building_project n u b es st) = [b]"
  "pj_effects (building_project n u b es st) = es" "pj_status (building_project n u b es st) = st"
  "pj_active_batch_id (building_project n u b es st) = Some ''batch-1''" "pj_open_questions (building_project n u b es st) = []"
  "pj_proposals (building_project n u b es st) = [sample_proposal]" "pj_active_proposal (building_project n u b es st) = Some 1"
  by (simp_all add: building_project_def sample_project_def)

lemma building_project_ok:
  assumes n: "safe_nat n" and es: "list_all (DurableEffect_ok sample_runtime) es" "length es \<le> 1"
    and st: "st \<noteq> PreviewReady" "st \<noteq> ProjectCompleted"
  shows "ProjectAggregate_ok sample_runtime (building_project n u (building_batch rst bst pd) es st)"
proof -
  let ?b = "building_batch rst bst pd"
  let ?p = "building_project n u ?b es st"
  have shape: "project_shape sample_runtime sample_project" and pi: "project_issues sample_runtime sample_project = []"
    using sample_project_ok by (simp_all add: ProjectAggregate_ok_def)
  have fields: "pj_intake ?p = pj_intake sample_project" "pj_customer ?p = pj_customer sample_project"
    "pj_checkouts ?p = pj_checkouts sample_project" "pj_payments ?p = pj_payments sample_project" "pj_candidates ?p = []"
    "pj_previews ?p = []" "pj_deployments ?p = []" "pj_messages ?p = []" "pj_errors ?p = []" "pj_paid_proposal ?p = Some 1"
    by (simp_all add: building_project_def sample_project_def)
  have kept: "pj_project_id sample_project = ''project-1''" "pj_proposals sample_project = [sample_proposal]"
    "pj_paid_proposal sample_project = Some 1" "pj_active_proposal sample_project = Some 1"
    "pj_messages sample_project = [sample_message]" "mg_direction sample_message = Outbound"
    by (simp_all add: sample_project_def sample_message_def)
  have at: "proposal_at ?p v = proposal_at sample_project v" "payment_of ?p i = payment_of sample_project i" for v i
    by (simp_all add: proposal_at_def payment_of_def priced_payments_def fields kept)
  have "BuildBatch_ok sample_runtime ?b"
    by (simp add: BuildBatch_ok_def batch_shape_def batch_issues_def building_batch_def sample_batch_def text_simps date_less_def
        sample_runtime_def split: option.split)
  moreover have "rt_is_datetime sample_runtime u" by (simp add: sample_runtime_def)
  ultimately have "project_shape sample_runtime ?p"
    using shape n es by (auto simp: project_shape_def building_project_def)
  moreover have "consent_binding_issues ?p = []"
    using pi by (simp add: project_issues_Nil consent_binding_issues_def fields)
  moreover have "source_binding_issue ?p x = source_binding_issue sample_project x" for x
    by (cases x) (simp_all add: fields kept)
  then have "proposals_issues ?p {} {} (pj_proposals ?p) = []"
    using pi by (simp add: project_issues_Nil proposals_issues_Nil kept)
  moreover have "checkout_bound ?p c = checkout_bound sample_project c" for c
    by (simp add: checkout_bound_def at kept split: option.split)
  then have "checkouts_issues ?p = []" using pi by (simp add: project_issues_Nil checkouts_issues_Nil fields)
  moreover have "payment_bound sample_runtime ?p y = payment_bound sample_runtime sample_project y" for y
    by (simp add: payment_bound_def customer_email_digest_def fields at kept split: option.split)
  then have "payments_issues sample_runtime ?p = []"
    using pi by (auto simp: project_issues_Nil payments_issues_Nil paid_versions_def fields kept)
  moreover have "batches_issues ?p = []"
    by (simp add: batches_issues_Nil batch_bound_def at sample_lookups batch_of_def map_get_def)
      (simp add: building_batch_def sample_batch_def sample_proposal_def sample_payment_def payment_version_def sample_terms_def)
  moreover have "status_issues sample_runtime ?p = []"
    using st by (simp add: status_issues_def active_batch_def batch_of_def map_get_def)
  moreover have "distinct (map ef_key es)" using es(2) by (cases es) simp_all
  ultimately show ?thesis
    by (simp add: ProjectAggregate_ok_def project_issues_Nil unique_collections_issues_def fields at sample_lookups)
qed

definition overdue_run :: build_run where
  "overdue_run = \<lparr>br_id = ''run-1'', br_assignment_id = ''assignment-1'', br_assignment_hash = sample_hash,
     br_project_id = ''project-1'', br_candidate_id = ''candidate-1'', br_contract_hash = sample_hash, br_status = RunRunning,
     br_stage = StageGenerating, br_slot_id = None, br_fencing_token = None, br_sandbox_id = None, br_builder_sandbox_id = None,
     br_verification_sandbox_id = None, br_verification_purpose = None, br_revision_hash = None, br_preview_port = None,
     br_cancel_requested = True, br_error_code = None, br_error_message = None, br_created_at = 0, br_updated_at = 0,
     br_completed_at = None\<rparr>"

definition build_world :: agent_world where
  "build_world = sample_world\<lparr>gw_cancelled := \<lambda>_. Inr (overdue_run, JNull)\<rparr>"

definition overdue_batch :: build_batch where
  "overdue_batch = building_batch RunRunning BatchBuilding None"

definition overdue_project :: project where
  "overdue_project = building_project 7 ''t5'' overdue_batch [] Building"

definition overdue_start :: agent_state where
  "overdue_start = \<lparr>gs_db = empty_orch_db\<lparr>od_projects := [saved_row sample_runtime sample_vault ''n'' overdue_project
     (first_row\<lparr>ix_created_at := ''t0''\<rparr>)]\<rparr>, gs_step = 0, gs_attempted = []\<rparr>"

lemma build_world_fields [simp]:
  "gw_now build_world k = 60000 * int k" "gw_cancelled build_world k = Inr (overdue_run, JNull)" "gw_env build_world k db = db"
  by (simp_all add: build_world_def sample_world_def)

lemma build_world_sound: "sound_store delivery_agent build_world"
  using delivery_sound by (simp add: sound_store_def build_world_def)

lemma overdue_reads: "reads delivery_agent build_world ''project-1'' overdue_project overdue_start"
proof -
  have ok: "ProjectAggregate_ok sample_runtime overdue_project"
    unfolding overdue_project_def overdue_batch_def
    by (rule building_project_ok) (simp_all add: safe_nat_def MAX_SAFE_INTEGER_def)
  have "rowToProject sample_runtime sample_vault (saved_row sample_runtime sample_vault ''n'' overdue_project
      (first_row\<lparr>ix_created_at := ''t0''\<rparr>)) = Inr overdue_project"
    by (rule saved_row_reads [OF sample_vault_sound ok]) (simp_all add: overdue_project_def)
  then show ?thesis
    by (simp add: reads_def getProject_def check_input_def project_row_of_def overdue_start_def empty_orch_db_def text_simps)
qed

text \<open>One save of the scenario.\<close>

lemma build_save:
  assumes "reads delivery_agent build_world ''project-1'' p s" "pj_revision p = n" "pj_created_at p = ''t0''" "n < 100"
    and "list_all (DurableEffect_ok sample_runtime) es" "length es \<le> 1" "st \<noteq> PreviewReady" "st \<noteq> ProjectCompleted"
    and "ProjectEventInput_ok e" "ep_consumed_message_ids (ei_payload e) = None"
  obtains s' where "save_project delivery_agent build_world (building_project n u (building_batch rst bst pd) es st) e None None s
      = (Inr (building_project (Suc n) (time_text 0) (building_batch rst bst pd) es st), s')"
    "reads delivery_agent build_world ''project-1'' (building_project (Suc n) (time_text 0) (building_batch rst bst pd) es st) s'"
    "gs_step s' = Suc (gs_step s)"
proof -
  let ?q = "building_project n u (building_batch rst bst pd) es st"
  have n: "safe_nat n" and rev: "safe_nat (Suc (pj_revision p))" using assms(2,4) by (simp_all add: safe_nat_def MAX_SAFE_INTEGER_def)
  have ok: "ProjectAggregate_ok (go_runtime delivery_agent) ?q" using building_project_ok [OF n assms(5-8)] by simp
  have saved: "saved build_world s ?q = building_project (Suc n) (time_text 0) (building_batch rst bst pd) es st"
    by (simp add: saved_def building_project_def build_world_def)
  have q: "pj_project_id ?q = ''project-1''" "pj_revision ?q = pj_revision p" "pj_created_at ?q = pj_created_at p"
    using assms(2,3) by simp_all
  obtain s' where "save_project delivery_agent build_world ?q e None None s = (Inr (saved build_world s ?q), s')"
    "reads delivery_agent build_world ''project-1'' (saved build_world s ?q) s'" "gs_step s' = Suc (gs_step s)"
    by (rule save_project_writes [OF build_world_sound assms(1) ok q rev assms(9,10) unseen_None])
  with saved that show ?thesis by simp
qed

definition cancelling :: durable_effect where
  "cancelling = pending_effect ''build:cancel:batch-1:run-1'' CancelBuildRun sample_hash (go_iso delivery_agent 0) None"

lemma overdue_batch_fields [simp]:
  "bb_batch_id overdue_batch = ''batch-1''" "bb_build_contract_hash overdue_batch = sample_hash"
  "bb_runs overdue_batch = [\<lparr>bi_run_id = ''run-1'', bi_candidate_id = ''candidate-1'', bi_assignment_id = ''assignment-1'',
     bi_status = RunRunning\<rparr>]" "bb_proof_event_deadline_at overdue_batch = None"
  by (simp_all add: overdue_batch_def)

lemma sha_sample_runtime [simp]: "rt_sha256 sample_runtime x = sample_hash"
  by (simp add: sample_runtime_def)

lemma cancelling_ok: "DurableEffect_ok sample_runtime cancelling"
  "DurableEffect_ok sample_runtime (completed sample_runtime ''run-1'' JNull (go_iso delivery_agent t) cancelling)"
proof -
  have "go_iso delivery_agent t \<noteq> []" by (simp add: delivery_agent_def)
  moreover have "rt_is_datetime sample_runtime x" for x by (simp add: sample_runtime_def)
  moreover have "sha256_text sample_hash" by (simp add: sample_hash_def sha256_text_def is_hex_def in_range_def list_all_iff)
  ultimately show "DurableEffect_ok sample_runtime cancelling"
    "DurableEffect_ok sample_runtime (completed sample_runtime ''run-1'' JNull (go_iso delivery_agent t) cancelling)"
    by (simp_all add: DurableEffect_ok_def effect_shape_def effect_issues_def cancelling_def pending_effect_def completed_def
        printed_digest_def text_simps proof_bound_def truthy_def)
qed

definition overdue_identity :: build_run_identity where
  "overdue_identity = \<lparr>bi_run_id = ''run-1'', bi_candidate_id = ''candidate-1'', bi_assignment_id = ''assignment-1'',
     bi_status = RunRunning\<rparr>"

lemma overdue_identity_run [simp]: "bi_run_id overdue_identity = ''run-1''"
  by (simp add: overdue_identity_def)

lemma reads_attempted: "reads A W i p s \<Longrightarrow> reads A W i p (s\<lparr>gs_attempted := xs\<rparr>)"
  by (simp add: reads_def)

lemma build_event_ok:
  "event_type_text kind \<Longrightarrow> ProjectEventInput_ok (event_of kind actor ((batch_payload (building_batch rst bst pd) st)
     \<lparr>ep_previous_status := st', ep_count := Some n\<rparr>)) \<longleftrightarrow> safe_nat n"
  "event_type_text kind \<Longrightarrow> ProjectEventInput_ok (event_of kind actor ((batch_payload (building_batch rst bst pd) st)
     \<lparr>ep_effect_key := Some ''build:cancel:batch-1:run-1'', ep_effect_type := t, ep_run_id := Some ''run-1'', ep_reason := r\<rparr>))"
  by (simp_all add: event_of_def ProjectEventInput_ok_def RedactedEventPayload_ok_def batch_payload_def no_payload_def
      text_simps)

lemma overdue_queued:
  obtains s' where "queue_cancellation delivery_agent build_world overdue_project overdue_batch overdue_identity DeadlineExpired overdue_start
      = (Inr (building_project 8 (time_text 0) overdue_batch [cancelling] Building), s')"
    "reads delivery_agent build_world ''project-1'' (building_project 8 (time_text 0) overdue_batch [cancelling] Building) s'"
proof -
  let ?s = "overdue_start\<lparr>gs_step := Suc 0\<rparr>"
  let ?e = "cancellation_event ''build.run_cancellation_queued'' ActorSystem overdue_project overdue_batch overdue_identity DeadlineExpired"
  have step: "gs_step overdue_start = 0" by (simp add: overdue_start_def)
  have "event_type_text ''build.run_cancellation_queued''" by (simp add: event_type_text_def text_simps)
  then have e: "ProjectEventInput_ok ?e" "ep_consumed_message_ids (ei_payload ?e) = None"
    using build_event_ok(2) [of "''build.run_cancellation_queued''"]
    by (simp_all add: cancellation_event_def buildCancellationEffectKey_def overdue_identity_def overdue_batch_def event_of_def
        batch_payload_def no_payload_def)
  have r: "reads delivery_agent build_world ''project-1'' overdue_project ?s"
    using reads_step [OF overdue_reads] by (simp add: step)
  have p: "pj_revision overdue_project = 7" "pj_created_at overdue_project = ''t0''" by (simp_all add: overdue_project_def)
  have side: "(7 :: nat) < 100" "list_all (DurableEffect_ok sample_runtime) [cancelling]" "length [cancelling] \<le> 1"
    "Building \<noteq> PreviewReady" "Building \<noteq> ProjectCompleted" using cancelling_ok(1) by simp_all
  obtain s' where s': "save_project delivery_agent build_world (building_project 7 ''t5'' overdue_batch [cancelling] Building) ?e None None ?s
      = (Inr (building_project (Suc 7) (time_text 0) overdue_batch [cancelling] Building), s')"
    "reads delivery_agent build_world ''project-1'' (building_project (Suc 7) (time_text 0) overdue_batch [cancelling] Building) s'"
    unfolding overdue_batch_def by (rule build_save [OF r p side e [unfolded overdue_batch_def]])
  have "queue_cancellation delivery_agent build_world overdue_project overdue_batch overdue_identity DeadlineExpired overdue_start
      = (Inr (building_project (Suc 7) (time_text 0) overdue_batch [cancelling] Building), s')"
    using s'(1) step
    by (simp add: queue_cancellation_def Let_def effect_at_def overdue_project_def am_bind_step addPendingEffect_def
        building_project_def cancelling_def buildCancellationEffectKey_def overdue_identity_def printed_digest_def)
  then show ?thesis using that s'(2) by simp
qed

definition cancelled_then :: "string \<Rightarrow> durable_effect" where
  "cancelled_then now = completed sample_runtime ''run-1'' JNull now cancelling"

lemma overdue_confirmed:
  assumes "reads delivery_agent build_world ''project-1'' (building_project 8 (time_text 0) overdue_batch [cancelling] Building) s"
  obtains s' where "confirm_cancellation delivery_agent build_world (building_project 8 (time_text 0) overdue_batch [cancelling] Building)
      overdue_batch overdue_identity DeadlineExpired (overdue_run, JNull) s
      = (Inr (building_project 9 (time_text 0) (building_batch RunCancelled BatchBuilding None)
          [cancelled_then (go_iso delivery_agent (gw_now build_world (gs_step s)))] Building), s')"
    "reads delivery_agent build_world ''project-1'' (building_project 9 (time_text 0) (building_batch RunCancelled BatchBuilding None)
          [cancelled_then (go_iso delivery_agent (gw_now build_world (gs_step s)))] Building) s'"
proof -
  let ?s = "s\<lparr>gs_step := Suc (gs_step s)\<rparr>" and ?p = "building_project 8 (time_text 0) overdue_batch [cancelling] Building"
  let ?c = "cancelled_then (go_iso delivery_agent (gw_now build_world (gs_step s)))"
  let ?b = "building_batch RunCancelled BatchBuilding None"
  let ?q = "building_project 8 (time_text 0) ?b [?c] Building"
  let ?e = "cancellation_event ''build.run_cancellation_confirmed'' ActorProvider ?q overdue_batch overdue_identity DeadlineExpired"
  have "event_type_text ''build.run_cancellation_confirmed''" by (simp add: event_type_text_def text_simps)
  then have e: "ProjectEventInput_ok ?e" "ep_consumed_message_ids (ei_payload ?e) = None"
    using build_event_ok(2) [of "''build.run_cancellation_confirmed''"]
    by (simp_all add: cancellation_event_def buildCancellationEffectKey_def overdue_identity_def overdue_batch_def event_of_def
        batch_payload_def no_payload_def)
  have p: "pj_revision ?p = 8" "pj_created_at ?p = ''t0''" by simp_all
  have side: "(8 :: nat) < 100" "list_all (DurableEffect_ok sample_runtime) [?c]" "length [?c] \<le> 1"
    "Building \<noteq> PreviewReady" "Building \<noteq> ProjectCompleted" using cancelling_ok(2) by (simp_all add: cancelled_then_def)
  obtain s' where s': "save_project delivery_agent build_world ?q ?e None None ?s
      = (Inr (building_project (Suc 8) (time_text 0) ?b [?c] Building), s')"
    "reads delivery_agent build_world ''project-1'' (building_project (Suc 8) (time_text 0) ?b [?c] Building) s'"
    by (rule build_save [OF reads_step [OF assms] p side e])
  have key: "ef_key cancelling = ''build:cancel:batch-1:run-1''" by (simp add: cancelling_def pending_effect_def)
  have ends: "cancelled_status overdue_run = RunCancelled" "br_id overdue_run = ''run-1''"
    by (simp_all add: cancelled_status_def overdue_run_def isTerminalStatus_def TERMINAL_STATUSES_def)
  have ok: "cancellation_confirmed ?p overdue_batch overdue_identity overdue_run"
    by (simp add: cancellation_confirmed_def expected_run_def overdue_identity_def overdue_run_def)
  have run: "stored_run ?p ''batch-1'' ''run-1'' \<noteq> None" by (simp add: stored_run_def)
  have q: "completeEffect sample_runtime ''build:cancel:batch-1:run-1'' ''run-1'' JNull (go_iso delivery_agent (gw_now build_world (gs_step s)))
      (set_run_status ''batch-1'' ''run-1'' RunCancelled ?p) = Inr ?q"
    by (simp add: completeEffect_def requireEffect_def effect_at_def key change_effect_def set_run_status_def)
      (simp add: building_project_def overdue_batch_def building_batch_def cancelled_then_def sample_batch_def)
  have "confirm_cancellation delivery_agent build_world ?p overdue_batch overdue_identity DeadlineExpired (overdue_run, JNull) s
      = (Inr (building_project (Suc 8) (time_text 0) ?b [?c] Building), s')"
    using s'(1) run q
    by (auto simp: confirm_cancellation_def Let_def ok ends am_then_def am_the_def am_bind_step buildCancellationEffectKey_def)
  then show ?thesis using that s'(2) by simp
qed

lemma overdue_cancelled:
  obtains t s' where "cancelBuildRun delivery_agent build_world overdue_project overdue_batch overdue_identity DeadlineExpired overdue_start
      = (Inr (building_project 9 (time_text 0) (building_batch RunCancelled BatchBuilding None) [cancelled_then (go_iso delivery_agent t)] Building), s')"
    "reads delivery_agent build_world ''project-1'' (building_project 9 (time_text 0) (building_batch RunCancelled BatchBuilding None)
      [cancelled_then (go_iso delivery_agent t)] Building) s'"
proof -
  let ?p = "building_project 8 (time_text 0) overdue_batch [cancelling] Building"
  obtain s1 where s1: "queue_cancellation delivery_agent build_world overdue_project overdue_batch overdue_identity DeadlineExpired
      overdue_start = (Inr ?p, s1)" "reads delivery_agent build_world ''project-1'' ?p s1" by (rule overdue_queued)
  let ?s = "s1\<lparr>gs_attempted := gs_attempted s1 @ [''build:cancel:batch-1:run-1'']\<rparr>"
  have r: "reads delivery_agent build_world ''project-1'' ?p (?s\<lparr>gs_step := Suc (gs_step s1)\<rparr>)"
    using reads_step [OF reads_attempted [OF s1(2)]] by simp
  have a: "am_await build_world (gw_cancelled build_world) ?s = (Inr (overdue_run, JNull), ?s\<lparr>gs_step := Suc (gs_step s1)\<rparr>)"
    by (simp add: am_await_def)
  have n: "effect_at overdue_project x = None" for x by (simp add: effect_at_def overdue_project_def)
  show ?thesis
    by (rule overdue_confirmed [OF r], rule that)
      (auto simp: cancelBuildRun_def Let_def n am_then_def am_bind_step s1(1) a markEffectAttempt_def buildCancellationEffectKey_def)
qed

lemma overdue_retires:
  obtains q s' where "retireExpiredBuildBatch delivery_agent build_world overdue_project overdue_batch overdue_start = (Inr q, s')"
proof -
  let ?b = "building_batch RunCancelled BatchBuilding None"
  obtain t s1 where s1: "cancelBuildRun delivery_agent build_world overdue_project overdue_batch overdue_identity DeadlineExpired overdue_start
      = (Inr (building_project 9 (time_text 0) ?b [cancelled_then (go_iso delivery_agent t)] Building), s1)"
    "reads delivery_agent build_world ''project-1'' (building_project 9 (time_text 0) ?b [cancelled_then (go_iso delivery_agent t)] Building) s1"
    by (rule overdue_cancelled)
  let ?c = "cancelled_then (go_iso delivery_agent t)" and ?now = "go_iso delivery_agent (gw_now build_world (gs_step s1))"
  let ?p = "building_project 9 (time_text 0) ?b [?c] Building" and ?s = "s1\<lparr>gs_step := Suc (gs_step s1)\<rparr>"
  let ?b' = "building_batch RunCancelled BatchVerifying (Some ?now)"
  let ?q = "building_project 9 (time_text 0) ?b' [?c] Verifying"
  let ?e = "event_of ''build.deadline_expired'' ActorSystem ((batch_payload overdue_batch Verifying)
     \<lparr>ep_previous_status := Some Building, ep_count := Some 1\<rparr>)"
  have kind: "event_type_text ''build.deadline_expired''" by (simp add: event_type_text_def text_simps)
  have e: "ProjectEventInput_ok ?e" "ep_consumed_message_ids (ei_payload ?e) = None"
    unfolding overdue_batch_def build_event_ok(1) [OF kind]
    by (simp_all add: safe_nat_def MAX_SAFE_INTEGER_def event_of_def batch_payload_def no_payload_def)
  have p: "pj_revision ?p = 9" "pj_created_at ?p = ''t0''" by simp_all
  have side: "(9 :: nat) < 100" "list_all (DurableEffect_ok sample_runtime) [?c]" "length [?c] \<le> 1"
    "Verifying \<noteq> PreviewReady" "Verifying \<noteq> ProjectCompleted" using cancelling_ok(2) by (simp_all add: cancelled_then_def)
  obtain s2 where s2: "save_project delivery_agent build_world ?q ?e None None ?s
      = (Inr (building_project (Suc 9) (time_text 0) ?b' [?c] Verifying), s2)"
    by (rule build_save [OF reads_step [OF s1(2)] p side e])
  have run: "\<not> run_ended overdue_identity" by (simp add: run_ended_def overdue_identity_def isTerminalStatus_def TERMINAL_STATUSES_def)
  have runs: "bb_runs overdue_batch = [overdue_identity]" by (simp add: overdue_identity_def)
  have targets: "cancellation_targets overdue_project overdue_batch = [overdue_identity]"
    "filter (\<lambda>r. \<not> run_ended r) (bb_runs overdue_batch) = [overdue_identity]"
    using run by (simp_all only: cancellation_targets_def runs) simp_all
  have stored: "activeBuildBatch ?p = Inr ?b" by (simp add: activeBuildBatch_def stored_batch_def)
  have st: "buildProgressStatus ?p Verifying = Verifying"
    by (simp add: buildProgressStatus_def stored_batch_def stored_proposal_def sample_proposal_fields)
  have changed: "(change_batch (retired ?now) ?p)\<lparr>pj_status := Verifying\<rparr> = ?q"
    by (simp add: change_batch_def)
      (simp add: building_project_def building_batch_def retired_def sample_batch_def ended_run_def run_ended_def
        isTerminalStatus_def TERMINAL_STATUSES_def)
  have "retireExpiredBuildBatch delivery_agent build_world overdue_project overdue_batch overdue_start
      = (Inr (building_project (Suc 9) (time_text 0) ?b' [?c] Verifying), s2)"
    using s2 changed
    by (simp add: retireExpiredBuildBatch_def Let_def targets run [unfolded overdue_identity_def] am_bind_step s1(1) stored st)
  then show ?thesis by (rule that)
qed

theorem retired_runs_are_confirmed_witness:
  "\<exists>q s' b'. retireExpiredBuildBatch delivery_agent build_world overdue_project overdue_batch overdue_start = (Inr q, s')
    \<and> activeBuildBatch q = Inr b' \<and> map bi_run_id (bb_runs b') = [''run-1''] \<and> list_all run_ended (bb_runs b')
    \<and> bb_status b' = BatchVerifying \<and> business q = business overdue_project"
proof -
  obtain q s' where r: "retireExpiredBuildBatch delivery_agent build_world overdue_project overdue_batch overdue_start = (Inr q, s')"
    by (rule overdue_retires)
  have b: "activeBuildBatch overdue_project = Inr overdue_batch"
    by (simp add: activeBuildBatch_def stored_batch_def overdue_project_def)
  have "\<not> list_all run_ended (bb_runs overdue_batch)"
    by (simp add: run_ended_def isTerminalStatus_def TERMINAL_STATUSES_def)
  with retired_runs_are_confirmed [OF b _ r] r show ?thesis by auto
qed

end
