(* ===== verification/Contract_Evaluator.thy ===== *)
theory Contract_Evaluator
  imports Code_Review
begin

text \<open>
  \<open>src/application/contract-evaluator.ts\<close>: how the executor makes a receipt of the verdicts the evaluation model
  returns for a contract.  The model is told which references it may cite and which each verifier of a
  requirement demands; a verdict that is incomplete, contradicts itself, or passes a requirement without
  the evidence of every verifier makes the receipt an error.  The answer of the model is an argument.
\<close>

record inspected_page =
  ip_path :: string
  ip_status :: int
  ip_visible_text :: string

record inspected_file =
  sf_path :: string
  sf_contents :: string

text \<open>\<open>eo_pin\<close> is the evidence of the pinned model, as \<open>JSON.stringify\<close> sees it.\<close>

record evaluation_output =
  eo_requirements :: "requirement_evaluation list"
  eo_unsupported_claims :: "unsupported_claim list"
  eo_summary :: string
  eo_pin :: "jsval option"

record evaluation_request =
  eq_run_id :: string
  eq_revision :: string
  eq_contract :: acceptance_contract
  eq_pages :: "inspected_page list"
  eq_files :: "inspected_file list"
  eq_evidence :: "evidence_receipt list"
  eq_trace_id :: string

subsection \<open>What may be cited, and what must be\<close>

definition fact_ref :: "approved_fact \<Rightarrow> string" where
  "fact_ref f = ''fact:'' @ af_id f"

definition receipt_ref :: "evidence_receipt \<Rightarrow> string" where
  "receipt_ref r = ''receipt:'' @ rb_receipt_id (receipt_header r)"

definition page_ref :: "runtime \<Rightarrow> inspected_page \<Rightarrow> string" where
  "page_ref R p = ''page:'' @ ip_path p @ '':'' @ rt_sha256 R (ip_visible_text p)"

definition source_ref :: "runtime \<Rightarrow> inspected_file \<Rightarrow> string" where
  "source_ref R f = ''source:'' @ sf_path f @ '':'' @ rt_sha256 R (sf_contents f)"

text \<open>\<open>new Map(...)\<close>: a later page of the same path replaces the earlier one in its place.\<close>

definition page_refs :: "runtime \<Rightarrow> inspected_page list \<Rightarrow> (string \<times> string) list" where
  "page_refs R ps = foldl (\<lambda>m p. map_set (ip_path p) (page_ref R p) m) [] ps"

definition receipt_refs :: "evidence_receipt list \<Rightarrow> (string \<times> string) list" where
  "receipt_refs rs = foldl (\<lambda>m r. map_set (rb_receipt_id (receipt_header r)) (receipt_ref r) m) [] rs"

definition semantic_refs :: "runtime \<Rightarrow> inspected_page list \<Rightarrow> string list" where
  "semantic_refs R ps = map snd (page_refs R ps)"

fun is_command_evidence :: "string \<Rightarrow> nat \<Rightarrow> string \<Rightarrow> evidence_receipt \<Rightarrow> bool" where
  "is_command_evidence rid i cmd (CommandEv r) \<longleftrightarrow> cr_kind r = KindRequirementCommand \<and> cr_requirement_id r = Some rid
     \<and> cr_verifier_index r = Some i \<and> cr_command r = cmd"
| "is_command_evidence rid i cmd (PreviewEv r) \<longleftrightarrow> False"
| "is_command_evidence rid i cmd (ReviewEv r) \<longleftrightarrow> False"
| "is_command_evidence rid i cmd (EvaluationEv r) \<longleftrightarrow> False"
| "is_command_evidence rid i cmd (RasterEv r) \<longleftrightarrow> False"

text \<open>The reference of a receipt is never empty, so \<open>filter(Boolean)\<close> keeps it.\<close>

fun verifier_group :: "runtime \<Rightarrow> evaluation_request \<Rightarrow> string \<Rightarrow> nat \<Rightarrow> verifier \<Rightarrow> string list" where
  "verifier_group R q rid i (CommandVerifier cmd t) = map receipt_ref (filter (is_command_evidence rid i cmd) (eq_evidence q))"
| "verifier_group R q rid i (HttpVerifier path st body) =
     (case map_of (page_refs R (eq_pages q)) path of None \<Rightarrow> [] | Some r \<Rightarrow> [r])"
| "verifier_group R q rid i (SemanticVerifier crit) = semantic_refs R (eq_pages q)"

definition requirement_groups :: "runtime \<Rightarrow> evaluation_request \<Rightarrow> requirement \<Rightarrow> string list list" where
  "requirement_groups R q x =
     (if rq_verifiers x = [] then [semantic_refs R (eq_pages q)]
      else map (\<lambda>(i, v). verifier_group R q (rq_id x) i v) (enumerate 0 (rq_verifiers x)))"

text \<open>The groups are filed under the identifier of the requirement; the last one filed counts.\<close>

definition required_groups :: "runtime \<Rightarrow> evaluation_request \<Rightarrow> string \<Rightarrow> string list list" where
  "required_groups R q rid =
     (case find (\<lambda>x. rq_id x = rid) (rev (ac_requirements (eq_contract q))) of
        None \<Rightarrow> [] | Some x \<Rightarrow> requirement_groups R q x)"

definition available_refs :: "runtime \<Rightarrow> evaluation_request \<Rightarrow> string list" where
  "available_refs R q = deduped (map fact_ref (ac_approved_facts (eq_contract q)) @ map snd (receipt_refs (eq_evidence q)) @
     semantic_refs R (eq_pages q) @ map (source_ref R) (eq_files q))"

subsection \<open>Malformed verdicts\<close>

definition group_reasons :: "string \<Rightarrow> string list \<Rightarrow> nat \<Rightarrow> string list \<Rightarrow> string list" where
  "group_reasons rid refs i g =
     (if g = [] then [''Controller has no evidence for verifier '' @ decimal i @ '' of '' @ rid]
      else issue_if (\<not> list_ex (\<lambda>r. r \<in> set refs) g)
        (''Evaluator did not cite requirement-specific evidence for verifier '' @ decimal i @ '' of '' @ rid))"

definition verdict_issues :: "runtime \<Rightarrow> evaluation_request \<Rightarrow> string set \<Rightarrow> requirement_evaluation \<Rightarrow> string list" where
  "verdict_issues R q seen e =
     (let rid = re_requirement_id e; refs = re_evidence_refs e; known = rid \<in> rq_id ` set (ac_requirements (eq_contract q)) in
      issue_if (\<not> known) (''Evaluator returned unknown requirement '' @ rid) @
      issue_if (rid \<in> seen) (''Evaluator returned duplicate requirement '' @ rid) @
      issue_if (re_status e = EvalPass \<and> refs = []) (''Evaluator returned PASS without evidence for '' @ rid) @
      concat (map (\<lambda>r. issue_if (r \<notin> set (available_refs R q))
        (''Evaluator cited unknown evidence '' @ r @ '' for '' @ rid)) refs) @
      (if re_status e = EvalPass \<and> known
       then concat (map (\<lambda>(i, g). group_reasons rid refs i g) (enumerate 0 (required_groups R q rid))) else []))"

fun verdicts_issues :: "runtime \<Rightarrow> evaluation_request \<Rightarrow> string set \<Rightarrow> requirement_evaluation list \<Rightarrow> string list" where
  "verdicts_issues R q seen [] = []"
| "verdicts_issues R q seen (e # es) = verdict_issues R q seen e @ verdicts_issues R q (insert (re_requirement_id e) seen) es"

definition malformed_reasons :: "runtime \<Rightarrow> evaluation_request \<Rightarrow> evaluation_output \<Rightarrow> string list" where
  "malformed_reasons R q out = verdicts_issues R q {} (eo_requirements out) @
     concat (map (\<lambda>rid. issue_if (rid \<notin> re_requirement_id ` set (eo_requirements out)) (''Evaluator omitted requirement '' @ rid))
       (deduped (map rq_id (ac_requirements (eq_contract q)))))"

subsection \<open>The receipt\<close>

definition requirement_passes :: "evaluation_output \<Rightarrow> requirement \<Rightarrow> bool" where
  "requirement_passes out x \<longleftrightarrow>
     map_option re_status (find (\<lambda>e. re_requirement_id e = rq_id x) (eo_requirements out)) = Some EvalPass"

definition hard_failures :: "evaluation_request \<Rightarrow> evaluation_output \<Rightarrow> requirement list" where
  "hard_failures q out = filter (\<lambda>x. rq_priority x = Hard \<and> \<not> requirement_passes out x) (ac_requirements (eq_contract q))"

definition evaluation_status_of :: "runtime \<Rightarrow> evaluation_request \<Rightarrow> evaluation_output \<Rightarrow> evidence_status" where
  "evaluation_status_of R q out =
     (if malformed_reasons R q out \<noteq> [] then EvError
      else if hard_failures q out \<noteq> [] \<or> eo_unsupported_claims out \<noteq> [] then EvFail else EvPass)"

definition evaluation_scores :: "runtime \<Rightarrow> evaluation_request \<Rightarrow> evaluation_output \<Rightarrow> braintrust_scores" where
  "evaluation_scores R q out =
     (let preferences = filter (\<lambda>x. rq_priority x = Preference) (ac_requirements (eq_contract q));
          malformed = (malformed_reasons R q out \<noteq> []) in
      \<lparr>bs_hard_requirements = (if hard_failures q out = [] \<and> \<not> malformed then 1 else 0),
       bs_supported_business_facts = (if eo_unsupported_claims out = [] then 1 else 0),
       bs_evidence_grounding = (if malformed then 0 else 1),
       bs_preference_satisfaction = (if preferences = [] then 1
         else of_nat (length (filter (requirement_passes out) preferences)) / of_nat (length preferences))\<rparr>)"

definition normalized_summary :: "runtime \<Rightarrow> evaluation_request \<Rightarrow> evaluation_output \<Rightarrow> string" where
  "normalized_summary R q out =
     (if malformed_reasons R q out = [] then eo_summary out
      else eo_summary out @ [CHR 0x0A] @ join [CHR 0x0A] (malformed_reasons R q out))"

definition verdict_json :: "requirement_evaluation \<Rightarrow> jsval" where
  "verdict_json e = JObject [(''requirementId'', JString (re_requirement_id e)),
     (''status'', JString (evaluation_status_text (re_status e))), (''explanation'', JString (re_explanation e)),
     (''evidenceRefs'', JArray (map JString (re_evidence_refs e)))]"

definition claim_json :: "unsupported_claim \<Rightarrow> jsval" where
  "claim_json u = JObject [(''claim'', JString (uc_claim u)), (''location'', JString (uc_location u)),
     (''reason'', JString (uc_reason u))]"

definition evaluation_input_json :: "runtime \<Rightarrow> evaluation_request \<Rightarrow> type_error + jsval" where
  "evaluation_input_json R q =
     bind_ok (canonicalJson R (contract_json (eq_contract q))) (\<lambda>contract.
     Inr (JObject [(''contractHash'', JString contract),
       (''pages'', JArray (map (\<lambda>p. JObject [(''path'', JString (ip_path p)), (''status'', JNumber (of_int (ip_status p)))]) (eq_pages q))),
       (''sourceFiles'', JArray (map (\<lambda>f. JString (sf_path f)) (eq_files q)))]))"

definition evaluation_output_json :: "runtime \<Rightarrow> evaluation_request \<Rightarrow> evaluation_output \<Rightarrow> jsval" where
  "evaluation_output_json R q out =
     JObject ([(''requirements'', JArray (map verdict_json (eo_requirements out))),
       (''unsupportedClaims'', JArray (map claim_json (eo_unsupported_claims out))),
       (''summary'', JString (normalized_summary R q out))] @
      (case eo_pin out of None \<Rightarrow> [] | Some v \<Rightarrow> [(''providerPin'', v)]))"

definition evaluateContract ::
  "runtime \<Rightarrow> string \<Rightarrow> string \<Rightarrow> string \<Rightarrow> evaluation_request \<Rightarrow> review_error + evaluation_output
    \<Rightarrow> review_error + evaluation_receipt" where
  "evaluateContract R uuid startedAt completedAt q answer =
     bind_ok answer (\<lambda>out.
     bind_ok (review_json (evaluation_input_json R q)) (\<lambda>input.
     bind_ok (createReceiptBase R uuid (eq_run_id q) (eq_revision q) (evaluation_status_of R q out) startedAt completedAt
       input (evaluation_output_json R q out)) (\<lambda>base.
     Inr \<lparr>ve_base = base, ve_provider = ''fireworks'', ve_trace_provider = ''braintrust'', ve_trace_id = eq_trace_id q,
       ve_scores = evaluation_scores R q out, ve_requirements = eo_requirements out,
       ve_unsupported_claims = eo_unsupported_claims out, ve_summary = normalized_summary R q out\<rparr>)))"

end
