(* ===== verification/Evaluator_Properties.thy ===== *)
theory Evaluator_Properties
  imports Contract_Evaluator Sample_Run
begin

text \<open>
  The evaluator and the proof gate judge the same verdicts, the one before the receipt is made and the other
  when the run is decided.  The two were written apart; here they are compared.
\<close>

subsection \<open>No malformed verdict\<close>

lemma verdicts_issues_Nil:
  "verdicts_issues R q seen es = [] \<longleftrightarrow> distinct (map re_requirement_id es) \<and> re_requirement_id ` set es \<inter> seen = {}
    \<and> (\<forall>e \<in> set es. verdict_issues R q {} e = [])"
proof (induction es arbitrary: seen)
  case (Cons e es)
  have "verdict_issues R q seen e = [] \<longleftrightarrow> re_requirement_id e \<notin> seen \<and> verdict_issues R q {} e = []"
    by (auto simp: verdict_issues_def Let_def issue_if_def)
  then show ?case using Cons.IH by auto
qed simp

lemma group_reasons_Nil: "group_reasons rid refs i g = [] \<longleftrightarrow> (\<exists>r \<in> set g. r \<in> set refs)"
  by (auto simp: group_reasons_def issue_if_def list_ex_iff)

text \<open>The verdicts of a receipt the evaluator did not find malformed.\<close>

definition sound_verdict :: "runtime \<Rightarrow> evaluation_request \<Rightarrow> requirement_evaluation \<Rightarrow> bool" where
  "sound_verdict R q e \<longleftrightarrow> re_requirement_id e \<in> rq_id ` set (ac_requirements (eq_contract q))
     \<and> set (re_evidence_refs e) \<subseteq> set (available_refs R q)
     \<and> (re_status e = EvalPass \<longrightarrow> (\<forall>g \<in> set (required_groups R q (re_requirement_id e)). \<exists>r \<in> set g. r \<in> set (re_evidence_refs e)))"

lemma set_enumerate: "(\<forall>(i, g) \<in> set (enumerate n gs). P g) \<longleftrightarrow> (\<forall>g \<in> set gs. P g)"
  by (induction gs arbitrary: n) auto

lemma verdict_issues_Nil: "verdict_issues R q {} e = [] \<Longrightarrow> sound_verdict R q e"
proof -
  let ?gs = "required_groups R q (re_requirement_id e)" and ?rid = "re_requirement_id e"
  assume none: "verdict_issues R q {} e = []"
  then have k: "?rid \<in> rq_id ` set (ac_requirements (eq_contract q))" and "set (re_evidence_refs e) \<subseteq> set (available_refs R q)"
    unfolding verdict_issues_def Let_def append_is_Nil_conv concat_map_Nil by (auto simp: issue_if_def split: if_splits)
  moreover have "\<forall>g \<in> set ?gs. \<exists>r \<in> set g. r \<in> set (re_evidence_refs e)" if "re_status e = EvalPass"
  proof -
    have "\<forall>x \<in> set (enumerate 0 ?gs). (\<lambda>(i, g). group_reasons ?rid (re_evidence_refs e) i g) x = []"
      using none k that unfolding verdict_issues_def Let_def append_is_Nil_conv concat_map_Nil by simp
    then have "\<forall>(i, g) \<in> set (enumerate 0 ?gs). \<exists>r \<in> set g. r \<in> set (re_evidence_refs e)"
      using group_reasons_Nil by fastforce
    then show ?thesis unfolding set_enumerate .
  qed
  ultimately show ?thesis by (simp add: sound_verdict_def)
qed

lemma malformed_reasons_Nil:
  assumes "malformed_reasons R q out = []"
  shows "distinct (map re_requirement_id (eo_requirements out))"
    "re_requirement_id ` set (eo_requirements out) = rq_id ` set (ac_requirements (eq_contract q))"
    "\<And>e. e \<in> set (eo_requirements out) \<Longrightarrow> sound_verdict R q e"
proof -
  have v: "verdicts_issues R q {} (eo_requirements out) = []"
    and o: "\<forall>x \<in> set (ac_requirements (eq_contract q)). rq_id x \<in> re_requirement_id ` set (eo_requirements out)"
    using assms by (auto simp: malformed_reasons_def issue_if_def split: if_splits)
  show "distinct (map re_requirement_id (eo_requirements out))" using v by (simp add: verdicts_issues_Nil)
  show s: "\<And>e. e \<in> set (eo_requirements out) \<Longrightarrow> sound_verdict R q e"
    using v verdict_issues_Nil unfolding verdicts_issues_Nil by blast
  then show "re_requirement_id ` set (eo_requirements out) = rq_id ` set (ac_requirements (eq_contract q))"
    using o by (auto simp: sound_verdict_def)
qed

subsection \<open>The gate\<close>

text \<open>The proof holds what the evaluator was shown: the latest receipt of a command verifier is the only one
  it was shown, and the page a check rendered has the text it was shown.\<close>

fun same_evidence ::
  "runtime \<Rightarrow> evaluation_request \<Rightarrow> evidence_receipt list \<Rightarrow> preview_receipt option \<Rightarrow> string \<Rightarrow> nat \<Rightarrow> verifier \<Rightarrow> bool" where
  "same_evidence R q rs preview rid i (CommandVerifier cmd t) \<longleftrightarrow>
     (\<forall>r. latest_command R (\<lambda>r. cr_kind r = KindRequirementCommand \<and> cr_requirement_id r = Some rid
          \<and> cr_verifier_index r = Some i \<and> cr_command r = cmd) rs = Some r
       \<longrightarrow> filter (is_command_evidence rid i cmd) (eq_evidence q) = [CommandEv r])"
| "same_evidence R q rs preview rid i (HttpVerifier path st body) \<longleftrightarrow>
     (\<forall>p k d. preview = Some p \<and> k \<in> set (pr_checks p) \<and> pc_path k = path \<and> pc_visible_text_digest k = Some d
       \<longrightarrow> map_of (page_refs R (eq_pages q)) path = Some (''page:'' @ path @ '':'' @ d))"
| "same_evidence R q rs preview rid i (SemanticVerifier crit) \<longleftrightarrow> True"

lemma uncited_None: "uncited None r = False"
  by (simp add: uncited_def)

lemma cited_verifier:
  assumes same: "same_evidence R q rs preview rid i v"
    and cited: "\<exists>r \<in> set (verifier_group R q rid i v). r \<in> set (re_evidence_refs e)"
  shows "verifier_reasons R rs preview (Some e) rid i v = verifier_reasons R rs preview None rid i v"
proof (cases v)
  case (CommandVerifier cmd t)
  have "\<not> uncited (Some e) (''receipt:'' @ rb_receipt_id (cr_base r))"
    if "latest_command R (\<lambda>r. cr_kind r = KindRequirementCommand \<and> cr_requirement_id r = Some rid
          \<and> cr_verifier_index r = Some i \<and> cr_command r = cmd) rs = Some r" for r
    using same cited that by (simp add: CommandVerifier uncited_def receipt_ref_def)
  then show ?thesis by (auto simp: CommandVerifier command_verifier_reasons_def uncited_None split: option.split)
next
  case (HttpVerifier path st body)
  let ?checks = "\<lambda>p. filter (\<lambda>k. pc_requirement_id k = Some rid \<and> pc_verifier_index k = Some i) (pr_checks p)"
  have "\<not> uncited (Some e) (''page:'' @ path @ '':'' @ d)"
    if "preview = Some p" "?checks p = [k]" "pc_path k = path" "truthy (pc_visible_text_digest k) = Some d" for p k d
  proof -
    have "k \<in> set (?checks p)" using that(2) by simp
    then have "k \<in> set (pr_checks p)" by simp
    then show ?thesis using same cited that(1,3) truthy_SomeD [OF that(4)] by (auto simp: HttpVerifier uncited_def)
  qed
  then show ?thesis
    by (cases preview) (auto simp: HttpVerifier http_verifier_reasons_def Let_def http_check_failed_def uncited_None
        split: list.split option.split)
next
  case (SemanticVerifier crit)
  then show ?thesis by simp
qed

lemma evaluateContract_InrD:
  assumes "evaluateContract R uuid t t' q answer = Inr e"
  obtains out where "answer = Inr out" "rb_status (ve_base e) = evaluation_status_of R q out" "ve_requirements e = eo_requirements out"
    "ve_unsupported_claims e = eo_unsupported_claims out" "ve_scores e = evaluation_scores R q out" "ve_trace_id e = eq_trace_id q"
    "ve_provider e = ''fireworks''" "ve_trace_provider e = ''braintrust''"
  using assms that by (auto simp: evaluateContract_def createReceiptBase_def bind_ok_Inr)

lemma required_groups_of:
  assumes "distinct (map rq_id (ac_requirements (eq_contract q)))" "x \<in> set (ac_requirements (eq_contract q))"
  shows "required_groups R q (rq_id x) = requirement_groups R q x"
proof -
  have "find (\<lambda>y. rq_id y = rq_id x) (rev (ac_requirements (eq_contract q))) = Some x"
    by (rule find_key_unique) (use assms in \<open>simp_all add: rev_map [symmetric]\<close>)
  then show ?thesis by (simp add: required_groups_def)
qed

lemma sound_verdict_groups:
  assumes "sound_verdict R q e" "re_status e = EvalPass" "re_requirement_id e = rq_id x"
    and x: "distinct (map rq_id (ac_requirements (eq_contract q)))" "x \<in> set (ac_requirements (eq_contract q))"
    and v: "(i, v) \<in> set (enumerate 0 (rq_verifiers x))"
  shows "\<exists>r \<in> set (verifier_group R q (rq_id x) i v). r \<in> set (re_evidence_refs e)"
proof -
  have "rq_verifiers x \<noteq> []" using v by auto
  then have "requirement_groups R q x = map (\<lambda>(i, v). verifier_group R q (rq_id x) i v) (enumerate 0 (rq_verifiers x))"
    by (simp add: requirement_groups_def)
  then have "verifier_group R q (rq_id x) i v \<in> set (required_groups R q (rq_id x))"
    using v by (force simp: required_groups_of [OF x])
  then show ?thesis using assms(1-3) unfolding sound_verdict_def by auto
qed

text \<open>C29. A passing evaluation convinces the proof gate.  When the evaluator makes a passing receipt of the
  verdicts of the model, there is exactly one verdict for each requirement of the contract, and the gate has
  nothing to say against the receipt itself.  And for each requirement whose evidence in the proof is what
  the evaluator was shown, the gate asks no more than that the verifiers themselves succeeded: it never
  misses a verdict or a citation.\<close>

theorem passing_evaluation_convinces_gate:
  assumes "evaluateContract R uuid t t' q answer = Inr e" and "rb_status (ve_base e) = EvPass" and "eq_trace_id q \<noteq> []"
    and "distinct (map rq_id (ac_requirements (eq_contract q)))"
  shows "evaluation_reasons (Some e) = [] \<and> distinct (map re_requirement_id (ve_requirements e))
    \<and> re_requirement_id ` set (ve_requirements e) = rq_id ` set (ac_requirements (eq_contract q))
    \<and> (\<forall>x \<in> set (ac_requirements (eq_contract q)).
        (\<forall>(i, v) \<in> set (enumerate 0 (rq_verifiers x)). same_evidence R q rs preview (rq_id x) i v) \<longrightarrow>
        hard_requirement_reasons R rs preview (Some e) x = (if rq_priority x = Hard
          then concat (map (\<lambda>(i, v). verifier_reasons R rs preview None (rq_id x) i v) (enumerate 0 (rq_verifiers x))) else []))"
proof -
  obtain out where out: "rb_status (ve_base e) = evaluation_status_of R q out" "ve_requirements e = eo_requirements out"
    "ve_unsupported_claims e = eo_unsupported_claims out" "ve_scores e = evaluation_scores R q out" "ve_trace_id e = eq_trace_id q"
    "ve_provider e = ''fireworks''" "ve_trace_provider e = ''braintrust''"
    by (rule evaluateContract_InrD [OF assms(1)])
  have pass: "malformed_reasons R q out = []" "hard_failures q out = []" "eo_unsupported_claims out = []"
    using assms(2) unfolding out(1) evaluation_status_of_def by (auto split: if_splits)
  note m = malformed_reasons_Nil [OF pass(1)]
  have "evaluation_reasons (Some e) = []"
    using assms(2,3) pass by (simp add: evaluation_reasons_def out evaluation_scores_def Let_def)
  moreover have "hard_requirement_reasons R rs preview (Some e) x
      = concat (map (\<lambda>(i, v). verifier_reasons R rs preview None (rq_id x) i v) (enumerate 0 (rq_verifiers x)))"
    if x: "x \<in> set (ac_requirements (eq_contract q))" "rq_priority x = Hard"
      and same: "\<forall>(i, v) \<in> set (enumerate 0 (rq_verifiers x)). same_evidence R q rs preview (rq_id x) i v" for x
  proof -
    have "requirement_passes out x" using pass(2) x by (simp add: hard_failures_def filter_empty_conv)
    then obtain r where r: "evaluation_for (Some e) (rq_id x) = Some r" "re_status r = EvalPass"
      by (auto simp: requirement_passes_def evaluation_for_def out)
    have i: "re_requirement_id r = rq_id x" "r \<in> set (eo_requirements out)"
      using r(1) find_eq_SomeD by (fastforce simp: evaluation_for_def out)+
    have "verifier_reasons R rs preview (Some r) (rq_id x) i v = verifier_reasons R rs preview None (rq_id x) i v"
      if "(i, v) \<in> set (enumerate 0 (rq_verifiers x))" for i v
      using same that sound_verdict_groups [OF m(3) [OF i(2)] r(2) i(1) assms(4) x(1) that] by (intro cited_verifier) auto
    then have maps: "map (\<lambda>(i, v). verifier_reasons R rs preview (Some r) (rq_id x) i v) (enumerate 0 (rq_verifiers x))
        = map (\<lambda>(i, v). verifier_reasons R rs preview None (rq_id x) i v) (enumerate 0 (rq_verifiers x))"
      by (intro map_cong) auto
    show ?thesis using x(2) r(2) unfolding hard_requirement_reasons_def r(1) Let_def option.case maps by (simp add: issue_if_def)
  qed
  ultimately show ?thesis using m(1,2) by (auto simp: out hard_requirement_reasons_def)
qed

subsection \<open>An evaluation\<close>

definition sample_request :: evaluation_request where
  "sample_request = \<lparr>eq_run_id = ''run-1'', eq_revision = sample_hash, eq_contract = sample_contract,
     eq_pages = [\<lparr>ip_path = ''/'', ip_status = 200, ip_visible_text = ''Shop''\<rparr>,
       \<lparr>ip_path = ''/shop'', ip_status = 200, ip_visible_text = ''Open daily''\<rparr>],
     eq_files = [\<lparr>sf_path = ''index.html'', sf_contents = ''Open''\<rparr>], eq_evidence = sample_evidence, eq_trace_id = ''trace-1''\<rparr>"

definition sample_output :: evaluation_output where
  "sample_output = \<lparr>eo_requirements = ve_requirements sample_evaluation, eo_unsupported_claims = [], eo_summary = ''fine'', eo_pin = None\<rparr>"

lemma sample_request_fields:
  "eq_contract sample_request = sample_contract" "eq_evidence sample_request = sample_evidence" "eq_trace_id sample_request = ''trace-1''"
  "page_refs sample_runtime (eq_pages sample_request) = [(''/'', ''page:/:'' @ sample_hash), (''/shop'', ''page:/shop:'' @ sample_hash)]"
  by (simp_all add: sample_request_def page_refs_def page_ref_def sample_runtime_def)

lemma sample_command_evidence:
  "filter (is_command_evidence ''req-1'' 0 ''check'') sample_evidence
    = [CommandEv (sample_command ''r-07'' KindRequirementCommand ''check'' (Some ''req-1'') (Some 0) None)]"
  by (simp add: sample_evidence_def sample_command_def)

lemma sample_groups:
  "required_groups sample_runtime sample_request ''req-1'' = [[''receipt:r-07''], [''page:/shop:'' @ sample_hash]]"
  by (simp add: required_groups_def sample_request_fields requirement_groups_def sample_contract_def sample_command_evidence
      receipt_ref_def)

lemma sample_not_malformed: "malformed_reasons sample_runtime sample_request sample_output = []"
proof -
  have "''receipt:r-07'' \<in> set (map snd (receipt_refs sample_evidence))"
    by (simp add: receipt_refs_def sample_evidence_def receipt_ref_def sample_command_def sample_base_def sample_preview_def
        sample_raster_def sample_review_def sample_evaluation_def)
  then have a: "''receipt:r-07'' \<in> set (available_refs sample_runtime sample_request)"
    "''page:/shop:'' @ sample_hash \<in> set (available_refs sample_runtime sample_request)"
    by (simp_all add: available_refs_def sample_request_fields semantic_refs_def)
  have r: "map rq_id (ac_requirements sample_contract) = [''req-1'']" by (simp add: sample_contract_def)
  then have k: "''req-1'' \<in> rq_id ` set (ac_requirements sample_contract)" by (metis list.set_intros(1) list.set_map)
  show ?thesis using a k
    by (simp add: malformed_reasons_def sample_output_def sample_evaluation_def verdict_issues_def Let_def sample_request_fields r
        sample_groups group_reasons_def)
qed

lemma sample_evaluated:
  obtains e where "evaluateContract sample_runtime ''r-11'' ''t1'' ''t2'' sample_request (Inr sample_output) = Inr e"
    "rb_status (ve_base e) = EvPass"
proof -
  have st: "evaluation_status_of sample_runtime sample_request sample_output = EvPass"
    by (simp add: evaluation_status_of_def sample_not_malformed hard_failures_def sample_request_fields)
      (simp add: requirement_passes_def sample_output_def sample_evaluation_def sample_contract_def)
  obtain c where "canonicalJson sample_runtime (contract_json sample_contract) = Inr c"
    using normalize_is_ok [of "contract_json sample_contract"] by (auto simp: canonicalJson_def is_ok_iff)
  then obtain v where v: "evaluation_input_json sample_runtime sample_request = Inr v" "json_carries v"
    by (simp add: evaluation_input_json_def sample_request_fields list_all_iff)
  have w: "json_carries (evaluation_output_json sample_runtime sample_request sample_output)"
    by (simp add: evaluation_output_json_def verdict_json_def claim_json_def sample_output_def list_all_iff)
  obtain d d' where "digestJson sample_runtime v = Inr d"
    "digestJson sample_runtime (evaluation_output_json sample_runtime sample_request sample_output) = Inr d'"
    using digestJson_carries [OF v(2)] digestJson_carries [OF w] by blast
  then show ?thesis using that st v(1)
    by (simp add: evaluateContract_def createReceiptBase_def review_json_def)
qed

theorem passing_evaluation_convinces_gate_witness:
  "\<exists>e. evaluateContract sample_runtime ''r-11'' ''t1'' ''t2'' sample_request (Inr sample_output) = Inr e
    \<and> evaluation_reasons (Some e) = []
    \<and> concat (map (hard_requirement_reasons sample_runtime sample_evidence (Some sample_preview) (Some e)) (ac_requirements sample_contract)) = []"
proof -
  obtain e where e: "evaluateContract sample_runtime ''r-11'' ''t1'' ''t2'' sample_request (Inr sample_output) = Inr e"
    "rb_status (ve_base e) = EvPass" by (rule sample_evaluated)
  obtain x where x: "ac_requirements sample_contract = [x]" "rq_id x = ''req-1''" "rq_priority x = Hard"
    "rq_verifiers x = [CommandVerifier ''check'' 60, HttpVerifier ''/shop'' 200 [''Open'']]"
    by (simp add: sample_contract_def)
  have "same_evidence sample_runtime sample_request sample_evidence (Some sample_preview) ''req-1'' i v"
    if "(i, v) \<in> set (enumerate 0 (rq_verifiers x))" for i v
    using that by (auto simp: x sample_request_fields sample_command_evidence latest_command_def sample_commands sample_latest
      sample_preview_def sample_check_def)
  moreover have "concat (map (\<lambda>(i, v). verifier_reasons sample_runtime sample_evidence (Some sample_preview) None ''req-1'' i v)
      (enumerate 0 (rq_verifiers x))) = []"
    by (simp add: x command_verifier_reasons_def latest_command_def sample_commands sample_latest uncited_None http_verifier_reasons_def
        sample_preview_def) (simp add: sample_check_def http_check_failed_def hasScreenshotTileDigests_def uncited_None)
  moreover have "distinct (map rq_id (ac_requirements (eq_contract sample_request)))" by (simp add: sample_request_fields x)
  ultimately show ?thesis
    using passing_evaluation_convinces_gate [OF e, of sample_evidence "Some sample_preview"] e(1) x by (fastforce simp: sample_request_fields)
qed

end
