(* ===== verification/Spec2Isabelle.thy ===== *)
theory Spec2Isabelle
  imports Gate_Properties Run_Properties Slot_Properties Project_Properties Inbox_Properties Mail_Properties
    Worker_Properties Winner_Properties Review_Properties Executor_Properties Scheduler_Properties
    Observability_Properties Compiler_Properties Agent_Effects_Properties Agent_Mail_Properties
    Agent_Payment_Properties Agent_Build_Properties Evaluator_Properties
begin

text \<open>
  BuildLabs turns a customer conversation into an acceptance contract, has coding agents build
  candidate websites in sandboxes, and publishes a candidate only with evidence for every requirement
  of the contract.  Two servers share the work.  The \<^emph>\<open>build\<close> server (\<open>src/application\<close>,
  \<open>src/adapters/sqlite\<close>) queues runs, leases slots to workers, records evidence, decides by a proof
  gate whether a run passes and announces what passed in an outbox.  The \<^emph>\<open>orchestration\<close> server
  (\<open>src/orchestration\<close>) keeps one encrypted aggregate per project, receives mail and webhooks, starts
  builds, picks a winner and deploys it after payment.  This library models their data, their stores
  and the deterministic parts of their logic, file by file.

  \<^bold>\<open>Theories and what they model.\<close>

  \<^item> \<open>Prelude\<close>: the sum-typed results (\<open>bind_ok\<close>, \<open>require\<close>), sorting by a JavaScript comparator
    (\<open>sort_by\<close>, \<open>order_by\<close>), insertion-ordered maps and updates of table rows.
  \<^item> \<open>Canonical_Json\<close> (\<open>src/lib/canonical-json.ts\<close>) and \<open>Redaction\<close> (\<open>src/lib/redaction.ts\<close>): JavaScript
    values, their canonical text and digest; the secret and contact filter with its regular expressions
    and the byte-bounded text.
  \<^item> \<open>Contract\<close>, \<open>Evidence\<close>, \<open>Run_Domain\<close> (\<open>src/domain\<close>): the schemas as records and datatypes, each
    with a bool-valued predicate \<open>..._ok\<close> for what its schema accepts.
  \<^item> \<open>Proof_Gate\<close> (\<open>src/application/proof-gate.ts\<close>): \<open>decideProof\<close> and every reason it can give;
    \<open>Gate_Properties\<close> reads off what a passing decision rests on.
  \<^item> \<open>Code_Review\<close> (\<open>src/application/build-run-executor.ts\<close>, the review part): how the executor makes a
    receipt of what the review provider returns; \<open>Review_Properties\<close> compares it with the gate.
    \<open>Run_Feedback\<close> (same file): what the receipts tell the run and the next repair round.
    \<open>Run_Executor\<close> (same file): the execution of a run from its lease to the terminal decision, as a
    state-passing program with exceptions; the answers of the ports, the clock, the abort signal and
    what the other clients do to the store are the \<open>exec_world\<close>.  \<open>Executor_Invariants\<close> has the rules for
    what such a program keeps of the store, \<open>Executor_Properties\<close> that every execution settles its run.
  \<^item> \<open>Contract_Evaluator\<close> (\<open>src/application/contract-evaluator.ts\<close>): the receipt that is made of the verdicts of the
    evaluation model, whose answer is an argument; \<open>Evaluator_Properties\<close> compares it with the gate.  The
    executor above still takes the finished receipt as an answer.
  \<^item> \<open>Build_Scheduler\<close> (\<open>src/application/build-scheduler.ts\<close>): the scheduler over the operations of the run
    store it calls, which are the locale \<open>queue_port\<close>; \<open>Scheduler_Properties\<close> interprets it on the SQLite
    store and the executor.
  \<^item> \<open>Run_Store\<close> (\<open>src/adapters/sqlite/run-store.ts\<close>): the tables as a record of lists and each
    method as a function from the tables to an error or a result with the new tables (a transaction
    that throws changes nothing).  \<open>Run_Invariants\<close> shows that every operation keeps the store well
    formed and only advances it, \<open>Run_Machine\<close> makes the operations a step relation with its reachable
    databases, and \<open>Run_Properties\<close>, \<open>Slot_Properties\<close> state what follows.
  \<^item> \<open>Project\<close>, \<open>Project_Aggregate\<close> (\<open>src/orchestration/domain/project.ts\<close>): the parts of a project and the
    aggregate with every cross-reference its schema demands; \<open>Project_Properties\<close>.
  \<^item> \<open>Orchestration_Store\<close> (\<open>src/orchestration/adapters/sqlite/orchestration-store.ts\<close>) with
    \<open>Orchestration_Invariants\<close> and \<open>Orchestration_Machine\<close>, built like the run store;
    \<open>Orchestration_Properties\<close>, \<open>Inbox_Properties\<close>, \<open>Mail_Properties\<close>.
  \<^item> \<open>Reconciliation_Worker\<close> (\<open>src/orchestration/runtime/reconciliation-worker.ts\<close>): the recovery worker over
    a page index, which is the locale \<open>project_pages\<close>, interpreted on the orchestration store; its pool is
    a step relation.  \<open>Worker_Properties\<close>.
  \<^item> \<open>Winner_Selection\<close> (\<open>src/orchestration/application/winner-selection.ts\<close>), \<open>Winner_Properties\<close>.
  \<^item> \<open>Customer_Observability\<close> (\<open>src/application/customer-build-observability.ts\<close>): what a customer sees of
    a run; \<open>Observability_Properties\<close> compares the pages with the whole timeline.
  \<^item> \<open>Evidence_Grounding\<close>, \<open>Assignment_Compiler\<close> (\<open>src/orchestration/application\<close>:
    \<open>evidence-grounding.ts\<close>, \<open>build-assignment-compiler.ts\<close>): when a text is quoted, and the compiler from
    the approved proposal to the build assignments; \<open>Compiler_Properties\<close>, with \<open>Plain_Text\<close> on the texts
    the secret filter leaves alone.
  \<^item> \<open>Agent_Core\<close> (\<open>src/orchestration/application/orchestration-agent.ts\<close>): the frame of the orchestration
    agent, state-passing programs that may throw over the orchestration store, with the answers of the
    providers, the clock and the other clients of the store in the \<open>agent_world\<close>.  \<open>Agent_Effects\<close> (same file):
    what a project remembers of each call of a provider, and how a failed one is retried or given up;
    \<open>Agent_Effects_Properties\<close>, over what \<open>Agent_Frame\<close> shows of reading and saving a project.  \<open>Agent_Mail\<close>
    and \<open>Agent_Reconcile\<close> (same file): the fate of a sent mail and one reconciliation of a project, whose two
    walks are arguments; \<open>Agent_Mail_Properties\<close>.  \<open>Agent_Payment\<close> (same file): how a settlement is checked and
    recorded, from a signed webhook or by asking the provider; \<open>Agent_Payment_Properties\<close>.  \<open>Agent_Build\<close> (same file): the walk over the
    active build batch, from the answers of the build server to the winner or the retired batch; what precedes and
    follows it is the record \<open>build_walk\<close>; \<open>Agent_Build_Properties\<close>.
  \<^item> \<open>Sample_Run\<close>, \<open>Sample_Project\<close>, \<open>Sample_Orchestration\<close>, \<open>Sample_Agent\<close>: one concrete run, project, store and agent, on
    which the properties are exercised.

  \<^bold>\<open>Parameters.\<close>  What the code calls but does not contain is a field of a record handed to the
  definitions.  \<open>runtime\<close> holds SHA-256, number printing, \<open>localeCompare\<close>, \<open>Date.parse\<close>, \<open>new URL\<close> and the
  string formats of zod; \<open>controller_policy\<close> holds the fixed commands, documents and digests of the
  controller; \<open>vault\<close> holds AES-GCM and the printing of an aggregate, with the law \<open>vault_sound\<close> that a
  sealed text opens under its own associated data.  Clocks are functions from the index of a reading in
  the operation to a time.  Strings are lists of characters below code point 256.

  \<^bold>\<open>Bounds.\<close>  No definition needs fuel: loops of the code recurse on a list or come with a measure.  The
  liveness of the worker is bounded by twice the number of identifiers in use, its pool by three steps per
  project and one per worker.

  \<^bold>\<open>Not modelled.\<close>  Clients of remote services (sandboxes, model, review, trace, voice, mail, payment and
  deployment providers), HTTP servers and user interfaces, which parse and route around the operations
  above; model training and evaluation; opening, locking and migrating the database files; what is
  only written to a trace.  The orchestration agent, which is a long asynchronous walk through those
  clients, is modelled only where the list above says so.
\<close>

end
